(* ===== verification/Py_Prelude.thy ===== *)
theory Py_Prelude
  imports Main "HOL-Library.Multiset" "HOL-Library.Char_ord" "HOL-Library.List_Lexorder"
begin

text \<open>
  The part of Python that the modelled services of FWRouter rely on, written once for all
  component theories.

  \<^item> \<open>pyval\<close> is the universe of JSON-like values that the services pass around in
    dictionaries: \<open>None\<close>, booleans, unbounded integers, strings, lists and dictionaries.
    Strings are lists of ASCII characters. Floating point numbers do not occur in the modelled
    state and have no constructor.
  \<^item> A dictionary is an association list in insertion order; \<open>dict_get\<close> is \<open>d.get(k)\<close>,
    \<open>dict_set\<close> is \<open>d[k] = v\<close> (in place when the key exists, at the end otherwise),
    \<open>dict_pop\<close> is \<open>d.pop(k, None)\<close>.
  \<^item> Exceptions are the left summand of \<open>exc + 'a\<close>.
  \<^item> A \<open>datetime\<close> is the number of microseconds since the epoch in UTC.

  The collections \<open>py_simps\<close> (evaluation of the Python primitives) and \<open>world_simps\<close>
  (frame facts of state-passing operations) carry the component proofs.
\<close>

named_theorems py_simps
named_theorems world_simps

section \<open>Values\<close>

datatype pyval =
    PNone
  | PBool bool
  | PInt int
  | PStr string
  | PList "pyval list"
  | PDict "(string \<times> pyval) list"

type_synonym pydict = "(string \<times> pyval) list"
type_synonym datetime = int

datatype exc =
    TypeError
  | ValueError
  | KeyError
  | RuntimeErr string
  | SqlError string

subsection \<open>Dictionaries\<close>

definition dict_get :: "pydict \<Rightarrow> string \<Rightarrow> pyval" where
  "dict_get d k = (case map_of d k of None \<Rightarrow> PNone | Some v \<Rightarrow> v)"

definition dict_has :: "pydict \<Rightarrow> string \<Rightarrow> bool" where
  "dict_has d k = (k \<in> set (map fst d))"

fun dict_set :: "pydict \<Rightarrow> string \<Rightarrow> pyval \<Rightarrow> pydict" where
  "dict_set [] k v = [(k, v)]"
| "dict_set ((k', v') # d) k v = (if k' = k then (k, v) # d else (k', v') # dict_set d k v)"

definition dict_pop :: "pydict \<Rightarrow> string \<Rightarrow> pydict" where
  "dict_pop d k = filter (\<lambda>(k', _). k' \<noteq> k) d"

definition dict_update :: "pydict \<Rightarrow> pydict \<Rightarrow> pydict" where
  "dict_update d e = fold (\<lambda>(k, v) acc. dict_set acc k v) e d"

lemma dict_get_Nil [simp]: "dict_get [] k = PNone"
  by (simp add: dict_get_def)

lemma dict_get_Cons [simp]: "dict_get ((k', v) # d) k = (if k' = k then v else dict_get d k)"
  by (simp add: dict_get_def)

lemma dict_get_set [simp]: "dict_get (dict_set d k v) k' = (if k = k' then v else dict_get d k')"
  by (induction d k v rule: dict_set.induct) auto

lemma dict_get_pop [simp]: "dict_get (dict_pop d k) k' = (if k = k' then PNone else dict_get d k')"
  by (induction d) (auto simp: dict_pop_def)

lemma dict_set_keys: "set (map fst (dict_set d k v)) = insert k (set (map fst d))"
  by (induction d k v rule: dict_set.induct) auto

lemma dict_set_distinct: "distinct (map fst d) \<Longrightarrow> distinct (map fst (dict_set d k v))"
proof (induction d k v rule: dict_set.induct)
  case (1 k v)
  then show ?case by simp
next
  case (2 k' v' d k v)
  then show ?case using dict_set_keys [of d k v] by auto
qed

subsection \<open>Truth, type tests, conversions\<close>

fun truthy :: "pyval \<Rightarrow> bool" where
  "truthy PNone = False"
| "truthy (PBool b) = b"
| "truthy (PInt i) = (i \<noteq> 0)"
| "truthy (PStr s) = (s \<noteq> [])"
| "truthy (PList xs) = (xs \<noteq> [])"
| "truthy (PDict d) = (d \<noteq> [])"

text \<open>Python's \<open>a or b\<close> on values.\<close>

definition py_or :: "pyval \<Rightarrow> pyval \<Rightarrow> pyval" where
  "py_or a b = (if truthy a then a else b)"

lemma py_or_simps [simp]:
  "py_or PNone b = b"
  "py_or (PBool True) b = PBool True"
  "py_or (PBool False) b = b"
  "py_or (PStr []) b = b"
  "py_or (PStr (c # s)) b = PStr (c # s)"
  by (simp_all add: py_or_def)

fun is_dict :: "pyval \<Rightarrow> bool" where
  "is_dict (PDict _) = True"
| "is_dict _ = False"

fun is_list :: "pyval \<Rightarrow> bool" where
  "is_list (PList _) = True"
| "is_list _ = False"

fun is_str :: "pyval \<Rightarrow> bool" where
  "is_str (PStr _) = True"
| "is_str _ = False"

lemma is_dict_iff: "is_dict v \<longleftrightarrow> (\<exists>d. v = PDict d)"
  by (cases v) auto

text \<open>The items of a value already tested to be a dictionary; \<open>items v\<close> of another value is empty.\<close>

fun items :: "pyval \<Rightarrow> pydict" where
  "items (PDict d) = d"
| "items _ = []"

text \<open>\<open>v.get(k) if isinstance(v, dict) else None\<close>.\<close>

definition get_in :: "pyval \<Rightarrow> string \<Rightarrow> pyval" where
  "get_in v k = dict_get (items v) k"

lemma get_in_simps [simp]:
  "get_in (PDict d) k = dict_get d k"
  "get_in PNone k = PNone"
  by (simp_all add: get_in_def)

definition opt_val :: "string option \<Rightarrow> pyval" where
  "opt_val s = (case s of None \<Rightarrow> PNone | Some t \<Rightarrow> PStr t)"

lemma opt_val_simps [simp]: "opt_val None = PNone" "opt_val (Some t) = PStr t"
  by (simp_all add: opt_val_def)

section \<open>Strings\<close>

definition is_space :: "char \<Rightarrow> bool" where
  "is_space c = (c \<in> {CHR '' '', CHR 0x09, CHR 0x0A, CHR 0x0B, CHR 0x0C, CHR 0x0D,
                      CHR 0x1C, CHR 0x1D, CHR 0x1E, CHR 0x1F})"

definition lstrip_ws :: "string \<Rightarrow> string" where
  "lstrip_ws s = dropWhile is_space s"

definition strip :: "string \<Rightarrow> string" where
  "strip s = rev (lstrip_ws (rev (lstrip_ws s)))"

lemma strip_Nil [simp]: "strip [] = []"
  by (simp add: strip_def lstrip_ws_def)

lemma strip_trimmed:
  "s \<noteq> [] \<Longrightarrow> \<not> is_space (hd s) \<Longrightarrow> \<not> is_space (last s) \<Longrightarrow> strip s = s"
proof -
  assume ne: "s \<noteq> []" and h: "\<not> is_space (hd s)" and l: "\<not> is_space (last s)"
  have id: "dropWhile is_space t = t" if "t \<noteq> []" "\<not> is_space (hd t)" for t
    using that by (cases t) auto
  have "\<not> is_space (hd (rev s))" using ne l by (simp add: hd_rev)
  then show ?thesis using id [of s] id [of "rev s"] ne h by (simp add: strip_def lstrip_ws_def)
qed

lemma dropWhile_rev_hd:
  "dropWhile P s \<noteq> [] \<Longrightarrow> \<not> P (hd (dropWhile P s))"
  by (induction s) auto

lemma strip_hd: "strip s \<noteq> [] \<Longrightarrow> \<not> is_space (hd (strip s)) \<and> \<not> is_space (last (strip s))"
proof -
  assume ne: "strip s \<noteq> []"
  let ?a = "dropWhile is_space s"
  let ?b = "dropWhile is_space (rev ?a)"
  have b: "strip s = rev ?b" by (simp add: strip_def lstrip_ws_def)
  with ne have bne: "?b \<noteq> []" by simp
  then have "\<not> is_space (hd ?b)" by (rule dropWhile_rev_hd)
  then have l: "\<not> is_space (last (strip s))" using b bne by (simp add: last_rev)
  obtain pre where pre: "rev ?a = pre @ ?b" by (metis takeWhile_dropWhile_id)
  then have a: "?a = rev ?b @ rev pre" by (metis rev_append rev_rev_ident)
  then have ane: "?a \<noteq> []" using bne by (metis append_is_Nil_conv rev_is_Nil_conv)
  then have "\<not> is_space (hd ?a)" by (rule dropWhile_rev_hd)
  moreover have "hd ?a = hd (rev ?b)" using a bne by (metis hd_append2 rev_is_Nil_conv)
  ultimately show ?thesis using l b by simp
qed

lemma strip_idem [simp]: "strip (strip s) = strip s"
  by (cases "strip s = []") (auto intro: strip_trimmed dest: strip_hd)

definition lower_char :: "char \<Rightarrow> char" where
  "lower_char c = (let n = (of_char c :: int) in if 65 \<le> n \<and> n \<le> 90 then char_of (n + 32) else c)"

definition lower :: "string \<Rightarrow> string" where
  "lower s = map lower_char s"

definition starts_with :: "string \<Rightarrow> string \<Rightarrow> bool" where
  "starts_with s p = (take (length p) s = p)"

definition ends_with :: "string \<Rightarrow> string \<Rightarrow> bool" where
  "ends_with s p = (length p \<le> length s \<and> drop (length s - length p) s = p)"

definition replace_char :: "char \<Rightarrow> string \<Rightarrow> string \<Rightarrow> string" where
  "replace_char c r s = concat (map (\<lambda>x. if x = c then r else [x]) s)"

text \<open>\<open>s.split(c)\<close> for a one-character separator: always at least one piece.\<close>

fun split_char :: "char \<Rightarrow> string \<Rightarrow> string list" where
  "split_char c [] = [[]]"
| "split_char c (x # xs) =
     (if x = c then [] # split_char c xs
      else (case split_char c xs of [] \<Rightarrow> [[x]] | p # ps \<Rightarrow> (x # p) # ps))"

lemma split_char_ne [simp]: "split_char c s \<noteq> []"
  by (cases s) (auto split: list.split)

subsection \<open>Integers as text\<close>

definition decimal_digits :: string where
  "decimal_digits = ''0123456789''"

definition digit_char :: "int \<Rightarrow> char" where
  "digit_char n = decimal_digits ! nat (n mod 10)"

text \<open>The decimal text of a non-negative integer.\<close>

function dec_text :: "int \<Rightarrow> string" where
  "dec_text n = (if n < 10 then [digit_char n] else dec_text (n div 10) @ [digit_char (n mod 10)])"
  by pat_completeness auto
termination
  by (relation "measure nat") auto

declare dec_text.simps [simp del]

definition int_text :: "int \<Rightarrow> string" where
  "int_text i = (if i < 0 then CHR ''-'' # dec_text (- i) else dec_text i)"

text \<open>Zero-padded decimal, as \<open>f"{n:0wd}"\<close> prints a non-negative integer.\<close>

definition pad_int :: "nat \<Rightarrow> int \<Rightarrow> string" where
  "pad_int w n = (let t = dec_text n in replicate (w - length t) CHR ''0'' @ t)"

definition is_digit :: "char \<Rightarrow> bool" where
  "is_digit c = (c \<in> set decimal_digits)"

definition digit_val :: "char \<Rightarrow> int" where
  "digit_val c = int (length (takeWhile (\<lambda>d. d \<noteq> c) decimal_digits))"

text \<open>The digits of \<open>int(s)\<close>: at least one digit, single underscores between digits allowed.\<close>

fun parse_digits :: "int \<Rightarrow> bool \<Rightarrow> string \<Rightarrow> int option" where
  "parse_digits acc after_digit [] = (if after_digit then Some acc else None)"
| "parse_digits acc after_digit (c # cs) =
     (if is_digit c then parse_digits (10 * acc + digit_val c) True cs
      else if c = CHR ''_'' \<and> after_digit then parse_digits acc False cs
      else None)"

definition int_of_text :: "string \<Rightarrow> exc + int" where
  "int_of_text s =
     (let t = strip s;
          (neg, ds) = (case t of [] \<Rightarrow> (False, []) | c # cs \<Rightarrow>
             if c = CHR ''-'' then (True, cs) else if c = CHR ''+'' then (False, cs) else (False, t))
      in case parse_digits 0 False ds of
           None \<Rightarrow> Inl ValueError
         | Some n \<Rightarrow> Inr (if neg then - n else n))"

fun py_int :: "pyval \<Rightarrow> exc + int" where
  "py_int (PInt i) = Inr i"
| "py_int (PBool b) = Inr (if b then 1 else 0)"
| "py_int (PStr s) = int_of_text s"
| "py_int _ = Inl TypeError"

subsection \<open>\<open>str\<close> and \<open>repr\<close>\<close>

definition str_repr :: "string \<Rightarrow> string" where
  "str_repr s =
     (let q = (if CHR 0x27 \<in> set s \<and> CHR 0x22 \<notin> set s then CHR 0x22 else CHR 0x27);
          esc = (\<lambda>c. if c = q \<or> c = CHR 0x5C then [CHR 0x5C, c]
                     else if c = CHR 0x0A then [CHR 0x5C, CHR ''n'']
                     else if c = CHR 0x0D then [CHR 0x5C, CHR ''r'']
                     else if c = CHR 0x09 then [CHR 0x5C, CHR ''t''] else [c])
      in [q] @ concat (map esc s) @ [q])"

fun join :: "string \<Rightarrow> string list \<Rightarrow> string" where
  "join sep [] = []"
| "join sep [x] = x"
| "join sep (x # y # ys) = x @ sep @ join sep (y # ys)"

primrec py_repr :: "pyval \<Rightarrow> string" where
  "py_repr PNone = ''None''"
| "py_repr (PBool b) = (if b then ''True'' else ''False'')"
| "py_repr (PInt i) = int_text i"
| "py_repr (PStr s) = str_repr s"
| "py_repr (PList xs) = ''['' @ join '', '' (map py_repr xs) @ '']''"
| "py_repr (PDict d) =
     ''{'' @ join '', '' (map (\<lambda>(k, t). str_repr k @ '': '' @ t) (map (map_prod id py_repr) d)) @ ''}''"

definition py_str :: "pyval \<Rightarrow> string" where
  "py_str v = (case v of PStr s \<Rightarrow> s | _ \<Rightarrow> py_repr v)"

lemma py_str_PStr [simp]: "py_str (PStr s) = s"
  by (simp add: py_str_def)

text \<open>The idiom \<open>str(x or "").strip()\<close>.\<close>

definition clean :: "pyval \<Rightarrow> string" where
  "clean v = strip (py_str (py_or v (PStr [])))"

lemma clean_simps [simp]:
  "clean PNone = []"
  "clean (PStr s) = strip s"
  by (cases s; simp add: clean_def)+

subsection \<open>Equality, JSON documents\<close>

text \<open>
  \<open>json.dumps(v, sort_keys=True)\<close> of a value without floats is determined by the value with
  the keys of every dictionary sorted, and \<open>json.loads\<close> returns exactly that value. A text
  column that holds such a document is modelled by it (\<open>JText\<close>); text that is no JSON is
  kept apart (\<open>JMalformed\<close>).
\<close>

primrec sort_keys :: "pyval \<Rightarrow> pyval" where
  "sort_keys PNone = PNone"
| "sort_keys (PBool b) = PBool b"
| "sort_keys (PInt i) = PInt i"
| "sort_keys (PStr s) = PStr s"
| "sort_keys (PList xs) = PList (map sort_keys xs)"
| "sort_keys (PDict d) = PDict (sort_key fst (map (map_prod id sort_keys) d))"

datatype json_text = JText pyval | JMalformed string

definition json_dumps :: "pyval \<Rightarrow> json_text" where
  "json_dumps v = JText (sort_keys v)"

text \<open>Python's \<open>==\<close>: dictionaries without order, and \<open>True == 1\<close>.\<close>

primrec unbool :: "pyval \<Rightarrow> pyval" where
  "unbool PNone = PNone"
| "unbool (PBool b) = PInt (if b then 1 else 0)"
| "unbool (PInt i) = PInt i"
| "unbool (PStr s) = PStr s"
| "unbool (PList xs) = PList (map unbool xs)"
| "unbool (PDict d) = PDict (map (map_prod id unbool) d)"

definition py_eq :: "pyval \<Rightarrow> pyval \<Rightarrow> bool" where
  "py_eq a b = (unbool (sort_keys a) = unbool (sort_keys b))"

lemma py_eq_refl [simp]: "py_eq a a"
  by (simp add: py_eq_def)

lemma py_eq_PStr [simp]: "py_eq v (PStr s) \<longleftrightarrow> v = PStr s"
  by (cases v) (auto simp: py_eq_def)

lemma py_eq_PNone [simp]: "py_eq v PNone \<longleftrightarrow> v = PNone" "py_eq PNone v \<longleftrightarrow> v = PNone"
  by (cases v; auto simp: py_eq_def)+

lemma insort_key_map_prod:
  "insort_key fst (map_prod id f x) (map (map_prod id f) ys) = map (map_prod id f) (insort_key fst x ys)"
  by (induction ys) (auto simp: map_prod_def split: prod.splits)

lemma sort_key_map_prod:
  "sort_key fst (map (map_prod id f) xs) = map (map_prod id f) (sort_key fst xs)"
  by (induction xs) (simp_all only: list.map foldr.simps sort_key_simps insort_key_map_prod)

lemma sort_keys_idem [simp]: "sort_keys (sort_keys v) = sort_keys v"
proof (induction v)
  case (PDict d)
  then have "map (map_prod id sort_keys) (map (map_prod id sort_keys) d) = map (map_prod id sort_keys) d"
    by (force simp: snds.simps)
  then show ?case
    by (simp add: sort_key_map_prod [symmetric] del: map_map)
      (metis sort_key_map_prod sorted_sort_id sort_key_id_if_sorted sorted_sort_key)
qed auto

text \<open>Sorting by key is stable, so it never changes what a key looks up.\<close>

lemma map_of_hd_filter:
  "map_of d k = (case filter (\<lambda>p. fst p = k) d of [] \<Rightarrow> None | p # _ \<Rightarrow> Some (snd p))"
  by (induction d) auto

lemma map_of_sort_key [simp]: "map_of (sort_key fst d) = map_of d"
  by (rule ext) (simp only: map_of_hd_filter sort_key_stable)

lemma map_of_map_prod: "map_of (map (map_prod id f) d) k = map_option f (map_of d k)"
  by (induction d) auto

lemma get_in_sort_keys [simp]: "get_in (sort_keys (PDict d)) k = sort_keys (dict_get d k)"
  by (simp add: dict_get_def map_of_map_prod split: option.split)

lemma truthy_sort_keys [simp]: "truthy (sort_keys v) = truthy v"
proof (cases v)
  case (PDict d)
  have "length (sort_key fst (map (map_prod id sort_keys) d)) = length d" by simp
  then show ?thesis using PDict by (cases d) (auto simp del: length_sort)
qed auto

lemma is_dict_sort_keys [simp]: "is_dict (sort_keys v) = is_dict v"
  by (cases v) auto

lemma sort_keys_eq_simple [simp]:
  "sort_keys v = PStr s \<longleftrightarrow> v = PStr s"
  "sort_keys v = PNone \<longleftrightarrow> v = PNone"
  "PStr s = sort_keys v \<longleftrightarrow> v = PStr s"
  "PNone = sort_keys v \<longleftrightarrow> v = PNone"
  by (cases v; auto)+

declare sort_keys.simps(6) [simp del]

lemma items_get_in: "dict_get (items v) k = get_in v k"
  by (simp add: get_in_def)

subsection \<open>The text of JSON documents\<close>

text \<open>The text that \<open>json.dumps\<close> prints, for its length.\<close>

definition hex_digit :: "nat \<Rightarrow> char" where
  "hex_digit n = ''0123456789abcdef'' ! (n mod 16)"

definition json_char :: "char \<Rightarrow> string" where
  "json_char c =
     (if c = CHR 0x22 then [CHR 0x5C, CHR 0x22]
      else if c = CHR 0x5C then [CHR 0x5C, CHR 0x5C]
      else if c = CHR 0x0A then [CHR 0x5C, CHR ''n'']
      else if c = CHR 0x0D then [CHR 0x5C, CHR ''r'']
      else if c = CHR 0x09 then [CHR 0x5C, CHR ''t'']
      else if c = CHR 0x0C then [CHR 0x5C, CHR ''f'']
      else if c = CHR 0x08 then [CHR 0x5C, CHR ''b'']
      else (let n = of_char c :: nat
            in if n < 32 then [CHR 0x5C, CHR ''u'', CHR ''0'', CHR ''0'', hex_digit (n div 16), hex_digit n]
               else [c]))"

definition json_string :: "string \<Rightarrow> string" where
  "json_string s = CHR 0x22 # concat (map json_char s) @ [CHR 0x22]"

fun json_render :: "pyval \<Rightarrow> string" where
  "json_render PNone = ''null''"
| "json_render (PBool b) = (if b then ''true'' else ''false'')"
| "json_render (PInt i) = int_text i"
| "json_render (PStr s) = json_string s"
| "json_render (PList xs) = CHR ''['' # join '', '' (map json_render xs) @ '']''"
| "json_render (PDict d) =
     CHR ''{'' # join '', '' (map (\<lambda>(k, t). json_string k @ '': '' @ t) (map (map_prod id json_render) d)) @ ''}''"

primrec json_length :: "json_text \<Rightarrow> int" where
  "json_length (JText v) = int (length (json_render v))"
| "json_length (JMalformed s) = int (length s)"

end
