(* ===== verification/Contracts.thy ===== *)
theory Contracts
  imports Py_Prelude
begin

text \<open>
  The interfaces that clients of the stores rely on, as locales: a compare-and-set cell (the
  watchdog row and the recovery incident in it), a step system with an invariant (the job table and
  the watchdog), and a lock table (the job table seen through its lock keys). Each is interpreted on
  the model's own operations in the theory of the component that provides them.
\<close>

section \<open>Compare-and-set cells\<close>

text \<open>A run of attempts: the ones that won, in order, and the final state.\<close>

fun cas_attempts :: "('p \<Rightarrow> 'p \<Rightarrow> 's \<Rightarrow> bool \<times> 's) \<Rightarrow> ('p \<times> 'p) list \<Rightarrow> 's \<Rightarrow> ('p \<times> 'p) list \<times> 's" where
  "cas_attempts cas [] s = ([], s)"
| "cas_attempts cas ((e, v) # as) s =
     (case cas_attempts cas as (snd (cas e v s)) of
        (ws, s') \<Rightarrow> (if fst (cas e v s) then (e, v) # ws else ws, s'))"

text \<open>From \<open>x\<close>, each element replaces the value its predecessor left, ending in \<open>y\<close>.\<close>

fun cas_chain :: "('p \<Rightarrow> 'v) \<Rightarrow> 'v \<Rightarrow> ('p \<times> 'p) list \<Rightarrow> 'v \<Rightarrow> bool" where
  "cas_chain enc x [] y = (x = y)"
| "cas_chain enc x ((e, v) # ws) y = (x = enc e \<and> cas_chain enc (enc v) ws y)"

text \<open>
  \<open>read\<close> is the stored value, \<open>enc\<close> the stored form of a value a client passes, and
  \<open>cas e v s\<close> tries to replace \<open>e\<close> by \<open>v\<close>.
\<close>

locale cas_cell =
  fixes read :: "'s \<Rightarrow> 'v"
    and enc :: "'p \<Rightarrow> 'v"
    and cas :: "'p \<Rightarrow> 'p \<Rightarrow> 's \<Rightarrow> bool \<times> 's"
    and usable :: "'s \<Rightarrow> bool"
  assumes cas_hit: "usable s \<Longrightarrow> read s = enc e \<Longrightarrow> fst (cas e v s)"
    and cas_hit_read: "usable s \<Longrightarrow> read s = enc e \<Longrightarrow> read (snd (cas e v s)) = enc v"
    and cas_miss: "usable s \<Longrightarrow> read s \<noteq> enc e \<Longrightarrow> \<not> fst (cas e v s)"
    and cas_miss_read: "usable s \<Longrightarrow> read s \<noteq> enc e \<Longrightarrow> read (snd (cas e v s)) = read s"
    and cas_usable: "usable s \<Longrightarrow> usable (snd (cas e v s))"
begin

lemma cas_iff: "usable s \<Longrightarrow> fst (cas e v s) \<longleftrightarrow> read s = enc e"
  using cas_hit cas_miss by blast

text \<open>Of two writers that saw the same value, the second to write fails.\<close>

lemma second_writer_fails:
  "usable s \<Longrightarrow> fst (cas e v s) \<Longrightarrow> enc v \<noteq> enc e \<Longrightarrow> \<not> fst (cas e v' (snd (cas e v s)))"
  by (simp add: cas_iff cas_hit_read cas_usable)

text \<open>
  In every run of attempts the winners form a chain: each winner replaced exactly the value its
  predecessor wrote, and the last one's value is what the cell holds. No update is lost.
\<close>

lemma attempts_chain:
  "usable s \<Longrightarrow> cas_attempts cas as s = (ws, s') \<Longrightarrow> cas_chain enc (read s) ws (read s')"
proof (induction as arbitrary: s ws)
  case Nil
  then show ?case by simp
next
  case (Cons a as)
  obtain e v where a: "a = (e, v)" by (cases a)
  obtain ws1 where r: "cas_attempts cas as (snd (cas e v s)) = (ws1, s')"
    using Cons.prems(2) a by (cases "cas_attempts cas as (snd (cas e v s))") auto
  have ih: "cas_chain enc (read (snd (cas e v s))) ws1 (read s')"
    using Cons.IH [OF cas_usable [OF Cons.prems(1)] r] .
  show ?case
  proof (cases "read s = enc e")
    case True
    then have "ws = (e, v) # ws1" using Cons.prems a r cas_hit by simp
    then show ?thesis using True ih cas_hit_read [OF Cons.prems(1) True] by simp
  next
    case False
    then have "ws = ws1" using Cons.prems a r cas_miss by simp
    then show ?thesis using ih cas_miss_read [OF Cons.prems(1) False] by simp
  qed
qed

end

section \<open>Step systems\<close>

locale step_system =
  fixes step :: "'s \<Rightarrow> 's \<Rightarrow> bool"
    and inv :: "'s \<Rightarrow> bool"
  assumes step_inv: "step s t \<Longrightarrow> inv s \<Longrightarrow> inv t"
begin

lemma steps_inv: "step\<^sup>*\<^sup>* s t \<Longrightarrow> inv s \<Longrightarrow> inv t"
  by (induction rule: rtranclp_induct) (auto intro: step_inv)

end

section \<open>Lock tables\<close>

text \<open>Owners with their keys, of which no two of different owners clash.\<close>

definition exclusive :: "('k \<Rightarrow> 'k \<Rightarrow> bool) \<Rightarrow> ('i \<times> 'k) set \<Rightarrow> bool" where
  "exclusive clash h = (\<forall>(i, k)\<in>h. \<forall>(j, l)\<in>h. i \<noteq> j \<longrightarrow> \<not> clash k l)"

lemma exclusive_mono: "exclusive clash h \<Longrightarrow> h' \<subseteq> h \<Longrightarrow> exclusive clash h'"
  by (force simp: exclusive_def)

text \<open>
  \<open>holds s\<close> is who holds which lock in state \<open>s\<close>. A step may release locks, and may add one
  owner whose key clashes with none of the other owners after the step.
\<close>

locale lock_table =
  fixes holds :: "'s \<Rightarrow> ('i \<times> 'k) set"
    and clash :: "'k \<Rightarrow> 'k \<Rightarrow> bool"
    and ok :: "'s \<Rightarrow> bool"
    and step :: "'s \<Rightarrow> 's \<Rightarrow> bool"
  assumes clash_sym: "clash k l \<Longrightarrow> clash l k"
    and step_ok: "step s t \<Longrightarrow> ok s \<Longrightarrow> ok t"
    and step_holds: "step s t \<Longrightarrow> ok s \<Longrightarrow> holds t \<subseteq> holds s
      \<or> (\<exists>i k. holds t \<subseteq> insert (i, k) (holds s) \<and> (\<forall>(j, l)\<in>holds t. j = i \<or> \<not> clash k l))"
begin

lemma step_exclusive:
  assumes "step s t" and "ok s" and "exclusive clash (holds s)"
  shows "exclusive clash (holds t)"
  using step_holds [OF assms(1,2)]
proof (elim disjE exE conjE)
  assume "holds t \<subseteq> holds s"
  then show ?thesis using assms(3) by (rule exclusive_mono [rotated])
next
  fix i k
  assume h: "holds t \<subseteq> insert (i, k) (holds s)" and free: "\<forall>(j, l)\<in>holds t. j = i \<or> \<not> clash k l"
  show ?thesis
    unfolding exclusive_def
  proof (clarify)
    fix a x b y
    assume *: "(a, x) \<in> holds t" "(b, y) \<in> holds t" "a \<noteq> b" "clash x y"
    have ex: "\<not> clash u v" if "(c, u) \<in> holds s" "(d, v) \<in> holds s" "c \<noteq> d" for c d u v
      using assms(3) that unfolding exclusive_def by fast
    consider "(a, x) = (i, k)" | "(b, y) = (i, k)" | "(a, x) \<in> holds s" "(b, y) \<in> holds s"
      using h *(1,2) by blast
    then show False
      using * free clash_sym [OF *(4)] ex by cases fastforce+
  qed
qed

end

sublocale lock_table \<subseteq> step_system step "\<lambda>s. ok s \<and> exclusive clash (holds s)"
  by unfold_locales (auto intro: step_ok step_exclusive)

end
