(* ===== verification/Watchdog_State.thy ===== *)
theory Watchdog_State
  imports Contracts
begin

text \<open>
  The durable watchdog state of \<open>services/watchdog_runtime_state.py\<close>: one row of the SQLite
  table \<open>watchdog_state\<close>, read by \<open>load_watchdog_runtime_state\<close> and written by
  \<open>update_watchdog_runtime_state\<close>, whose \<open>expected_*\<close> arguments turn the write into a
  compare-and-set.

  A \<open>world\<close> holds the row (absent before the first write), the in-process global
  \<open>_TRAFFIC_FAILURE_CANDIDATE\<close> of the failure-state module, the text that SQLite's
  \<open>CURRENT_TIMESTAMP\<close> yields, and a schedule of what happens at each SQL statement: it
  succeeds, it raises, or another connection commits a row of its own first. Every operation issues
  its statements in the order of the code and consumes the schedule, so every interleaving with
  another writer and every failing statement is an execution of the model. An exhausted schedule
  means that nothing else happens.
\<close>

section \<open>State\<close>

record wd_row =
  r_path_key :: pyval
  r_failure_candidate_json :: "json_text option"
  r_last_processed_decision_id :: pyval
  r_last_successful_failover_at :: pyval
  r_failover_path_key :: pyval
  r_previous_target_id :: pyval
  r_selected_target_id :: pyval
  r_cooldown_until :: pyval
  r_last_idle_probe_at :: pyval
  r_last_idle_probe_server_id :: pyval
  r_last_idle_probe_status :: pyval
  r_updated_at :: pyval

datatype db_event = DbOk | DbFail | DbOther "wd_row option"

record world =
  wd_row :: "wd_row option"
  wd_mem :: pyval
  wd_clock :: string
  wd_env :: "db_event list"

text \<open>One SQL statement: whether it runs (otherwise it raises), and the world in which it runs.\<close>

definition db_step :: "world \<Rightarrow> bool \<times> world" where
  "db_step w =
     (case wd_env w of
        [] \<Rightarrow> (True, w)
      | DbOk # es \<Rightarrow> (True, w\<lparr>wd_env := es\<rparr>)
      | DbFail # es \<Rightarrow> (False, w\<lparr>wd_env := es\<rparr>)
      | DbOther r # es \<Rightarrow> (True, w\<lparr>wd_row := r, wd_env := es\<rparr>))"

section \<open>Operations\<close>

definition json_loads_dict :: "json_text option \<Rightarrow> pyval" where
  "json_loads_dict value =
     (case value of
        None \<Rightarrow> PNone
      | Some (JMalformed _) \<Rightarrow> PNone
      | Some (JText loaded) \<Rightarrow> if is_dict loaded then loaded else PNone)"

definition json_dumps_dict :: "pyval \<Rightarrow> json_text option" where
  "json_dumps_dict value = (if value = PNone then None else Some (json_dumps value))"

definition default_row :: "string \<Rightarrow> wd_row" where
  "default_row clock =
     \<lparr>r_path_key = PNone, r_failure_candidate_json = None, r_last_processed_decision_id = PNone,
      r_last_successful_failover_at = PNone, r_failover_path_key = PNone,
      r_previous_target_id = PNone, r_selected_target_id = PNone, r_cooldown_until = PNone,
      r_last_idle_probe_at = PNone, r_last_idle_probe_server_id = PNone,
      r_last_idle_probe_status = PNone, r_updated_at = PStr clock\<rparr>"

definition ensure_watchdog_runtime_state_row :: "world \<Rightarrow> bool \<times> world" where
  "ensure_watchdog_runtime_state_row w =
     (case db_step w of
        (False, w1) \<Rightarrow> (False, w1)
      | (True, w1) \<Rightarrow>
          (True, (case wd_row w1 of
                    None \<Rightarrow> w1\<lparr>wd_row := Some (default_row (wd_clock w1))\<rparr>
                  | Some _ \<Rightarrow> w1)))"

definition empty_watchdog_runtime_state :: pydict where
  "empty_watchdog_runtime_state =
     [(''id'', PInt 1),
      (''path_key'', PNone),
      (''failure_candidate'', PNone),
      (''last_processed_decision_id'', PNone),
      (''last_successful_failover_at'', PNone),
      (''failover_path_key'', PNone),
      (''previous_target_id'', PNone),
      (''selected_target_id'', PNone),
      (''cooldown_until'', PNone),
      (''last_idle_probe_at'', PNone),
      (''last_idle_probe_server_id'', PNone),
      (''last_idle_probe_status'', PNone),
      (''updated_at'', PNone)]"

definition row_state :: "wd_row \<Rightarrow> pydict" where
  "row_state row =
     [(''id'', PInt 1),
      (''path_key'', r_path_key row),
      (''failure_candidate'', json_loads_dict (r_failure_candidate_json row)),
      (''last_processed_decision_id'', r_last_processed_decision_id row),
      (''last_successful_failover_at'', r_last_successful_failover_at row),
      (''failover_path_key'', r_failover_path_key row),
      (''previous_target_id'', r_previous_target_id row),
      (''selected_target_id'', r_selected_target_id row),
      (''cooldown_until'', r_cooldown_until row),
      (''last_idle_probe_at'', r_last_idle_probe_at row),
      (''last_idle_probe_server_id'', r_last_idle_probe_server_id row),
      (''last_idle_probe_status'', r_last_idle_probe_status row),
      (''updated_at'', r_updated_at row)]"

text \<open>\<open>load_watchdog_runtime_state(strict=True)\<close> raises when the session fails; without
  \<open>strict\<close> it returns the empty state.\<close>

definition load_watchdog_runtime_state_strict :: "world \<Rightarrow> (exc + pydict) \<times> world" where
  "load_watchdog_runtime_state_strict w =
     (case db_step w of
        (False, w1) \<Rightarrow> (Inl (SqlError ''session''), w1)
      | (True, w1) \<Rightarrow>
          (Inr (case wd_row w1 of None \<Rightarrow> empty_watchdog_runtime_state | Some row \<Rightarrow> row_state row), w1))"

definition load_watchdog_runtime_state :: "world \<Rightarrow> pydict \<times> world" where
  "load_watchdog_runtime_state w =
     (case load_watchdog_runtime_state_strict w of
        (Inl _, w1) \<Rightarrow> (empty_watchdog_runtime_state, w1)
      | (Inr state, w1) \<Rightarrow> (state, w1))"

text \<open>The keyword arguments of \<open>update_watchdog_runtime_state\<close>; \<open>None\<close> is \<open>_UNSET\<close>.\<close>

record wd_update =
  u_path_key :: "pyval option"
  u_failure_candidate :: "pyval option"
  u_last_processed_decision_id :: "pyval option"
  u_last_successful_failover_at :: "pyval option"
  u_failover_path_key :: "pyval option"
  u_previous_target_id :: "pyval option"
  u_selected_target_id :: "pyval option"
  u_cooldown_until :: "pyval option"
  u_last_idle_probe_at :: "pyval option"
  u_last_idle_probe_server_id :: "pyval option"
  u_last_idle_probe_status :: "pyval option"
  u_expected_failure_candidate :: "pyval option"
  u_expected_path_key :: "pyval option"
  u_expected_last_processed_decision_id :: "pyval option"

definition no_update :: wd_update where
  "no_update =
     \<lparr>u_path_key = None, u_failure_candidate = None, u_last_processed_decision_id = None,
      u_last_successful_failover_at = None, u_failover_path_key = None, u_previous_target_id = None,
      u_selected_target_id = None, u_cooldown_until = None, u_last_idle_probe_at = None,
      u_last_idle_probe_server_id = None, u_last_idle_probe_status = None,
      u_expected_failure_candidate = None, u_expected_path_key = None,
      u_expected_last_processed_decision_id = None\<rparr>"

definition update_conditional :: "wd_update \<Rightarrow> bool" where
  "update_conditional u =
     (u_expected_failure_candidate u \<noteq> None \<or> u_expected_path_key u \<noteq> None
      \<or> u_expected_last_processed_decision_id u \<noteq> None)"

definition has_assignments :: "wd_update \<Rightarrow> bool" where
  "has_assignments u =
     (u_path_key u \<noteq> None \<or> u_failure_candidate u \<noteq> None \<or> u_last_processed_decision_id u \<noteq> None
      \<or> u_last_successful_failover_at u \<noteq> None \<or> u_failover_path_key u \<noteq> None
      \<or> u_previous_target_id u \<noteq> None \<or> u_selected_target_id u \<noteq> None \<or> u_cooldown_until u \<noteq> None
      \<or> u_last_idle_probe_at u \<noteq> None \<or> u_last_idle_probe_server_id u \<noteq> None
      \<or> u_last_idle_probe_status u \<noteq> None)"

definition assign :: "'a option \<Rightarrow> 'a \<Rightarrow> 'a" where
  "assign new old = (case new of None \<Rightarrow> old | Some v \<Rightarrow> v)"

definition apply_assignments :: "wd_update \<Rightarrow> string \<Rightarrow> wd_row \<Rightarrow> wd_row" where
  "apply_assignments u clock row =
     row\<lparr>r_path_key := assign (u_path_key u) (r_path_key row),
         r_failure_candidate_json :=
           (case u_failure_candidate u of
              None \<Rightarrow> r_failure_candidate_json row | Some v \<Rightarrow> json_dumps_dict v),
         r_last_processed_decision_id :=
           assign (u_last_processed_decision_id u) (r_last_processed_decision_id row),
         r_last_successful_failover_at :=
           assign (u_last_successful_failover_at u) (r_last_successful_failover_at row),
         r_failover_path_key := assign (u_failover_path_key u) (r_failover_path_key row),
         r_previous_target_id := assign (u_previous_target_id u) (r_previous_target_id row),
         r_selected_target_id := assign (u_selected_target_id u) (r_selected_target_id row),
         r_cooldown_until := assign (u_cooldown_until u) (r_cooldown_until row),
         r_last_idle_probe_at := assign (u_last_idle_probe_at u) (r_last_idle_probe_at row),
         r_last_idle_probe_server_id :=
           assign (u_last_idle_probe_server_id u) (r_last_idle_probe_server_id row),
         r_last_idle_probe_status :=
           assign (u_last_idle_probe_status u) (r_last_idle_probe_status row),
         r_updated_at := PStr clock\<rparr>"

text \<open>The \<open>WHERE\<close> clause; SQL's \<open>IS\<close> compares a column with a parameter, \<open>NULL\<close> included.\<close>

definition row_expected :: "wd_update \<Rightarrow> wd_row \<Rightarrow> bool" where
  "row_expected u row =
     ((case u_expected_failure_candidate u of
         None \<Rightarrow> True | Some v \<Rightarrow> r_failure_candidate_json row = json_dumps_dict v)
      \<and> (case u_expected_path_key u of None \<Rightarrow> True | Some v \<Rightarrow> r_path_key row = v)
      \<and> (case u_expected_last_processed_decision_id u of
           None \<Rightarrow> True | Some v \<Rightarrow> r_last_processed_decision_id row = v))"

text \<open>The \<open>UPDATE\<close> statement: the number of rows it changes and the table after it.\<close>

definition sql_update :: "wd_update \<Rightarrow> string \<Rightarrow> wd_row option \<Rightarrow> nat \<times> wd_row option" where
  "sql_update u clock r =
     (case r of
        None \<Rightarrow> (0, None)
      | Some row \<Rightarrow>
          if row_expected u row then (1, Some (apply_assignments u clock row)) else (0, Some row))"

definition update_watchdog_runtime_state :: "wd_update \<Rightarrow> world \<Rightarrow> pydict option \<times> world" where
  "update_watchdog_runtime_state u w =
     (let conditional = update_conditional u;
          on_exception = (\<lambda>wx. if conditional then (None, wx)
                               else (case load_watchdog_runtime_state wx of (s, wy) \<Rightarrow> (Some s, wy)))
      in case ensure_watchdog_runtime_state_row w of
           (False, w1) \<Rightarrow> on_exception w1
         | (True, w1) \<Rightarrow>
             if \<not> has_assignments u
             then (case load_watchdog_runtime_state w1 of (s, w2) \<Rightarrow> (Some s, w2))
             else (case db_step w1 of
                     (False, w2) \<Rightarrow> on_exception w2
                   | (True, w2) \<Rightarrow>
                       (case sql_update u (wd_clock w2) (wd_row w2) of
                          (rowcount, r) \<Rightarrow>
                            let w3 = w2\<lparr>wd_row := r\<rparr>
                            in if conditional \<and> rowcount \<noteq> 1 then (None, w3)
                               else (case load_watchdog_runtime_state w3 of (s, w4) \<Rightarrow> (Some s, w4)))))"

section \<open>Library\<close>

lemma json_loads_dumps [simp]:
  "json_loads_dict (json_dumps_dict v) = (if is_dict v then sort_keys v else PNone)"
  by (cases v) (auto simp: json_loads_dict_def json_dumps_dict_def json_dumps_def)

lemma json_dumps_dict_inject:
  "json_dumps_dict v = json_dumps_dict v' \<longleftrightarrow> sort_keys v = sort_keys v'"
  by (cases v; cases v') (auto simp: json_dumps_dict_def json_dumps_def)

lemma json_dumps_sort_keys [simp]: "json_dumps_dict (sort_keys v) = json_dumps_dict v"
  by (simp add: json_dumps_dict_inject)

lemma db_step_quiet [simp]: "wd_env w = [] \<Longrightarrow> db_step w = (True, w)"
  by (simp add: db_step_def)

definition state_of :: "wd_row option \<Rightarrow> pydict" where
  "state_of r = (case r of None \<Rightarrow> empty_watchdog_runtime_state | Some row \<Rightarrow> row_state row)"

definition current_row :: "world \<Rightarrow> wd_row" where
  "current_row w = (case wd_row w of None \<Rightarrow> default_row (wd_clock w) | Some row \<Rightarrow> row)"

lemma current_row_Some [simp]: "wd_row w = Some row \<Longrightarrow> current_row w = row"
  by (simp add: current_row_def)

lemma row_state_get [simp]:
  "dict_get (row_state row) ''path_key'' = r_path_key row"
  "dict_get (row_state row) ''failure_candidate'' = json_loads_dict (r_failure_candidate_json row)"
  "dict_get (row_state row) ''last_processed_decision_id'' = r_last_processed_decision_id row"
  "dict_get (row_state row) ''cooldown_until'' = r_cooldown_until row"
  "dict_get (row_state row) ''last_idle_probe_at'' = r_last_idle_probe_at row"
  "dict_get (row_state row) ''last_idle_probe_server_id'' = r_last_idle_probe_server_id row"
  by (simp_all add: row_state_def)

lemma state_of_get [simp]:
  "dict_get (state_of (wd_row w)) ''path_key'' = r_path_key (current_row w)"
  "dict_get (state_of (wd_row w)) ''failure_candidate''
     = json_loads_dict (r_failure_candidate_json (current_row w))"
  "dict_get (state_of (wd_row w)) ''last_processed_decision_id''
     = r_last_processed_decision_id (current_row w)"
  "dict_get (state_of (wd_row w)) ''cooldown_until'' = r_cooldown_until (current_row w)"
  "dict_get (state_of (wd_row w)) ''last_idle_probe_at'' = r_last_idle_probe_at (current_row w)"
  "dict_get (state_of (wd_row w)) ''last_idle_probe_server_id''
     = r_last_idle_probe_server_id (current_row w)"
  by (simp_all add: state_of_def current_row_def empty_watchdog_runtime_state_def default_row_def
      json_loads_dict_def split: option.split)

lemma load_strict_quiet [simp]:
  "wd_env w = [] \<Longrightarrow> load_watchdog_runtime_state_strict w = (Inr (state_of (wd_row w)), w)"
  by (simp add: load_watchdog_runtime_state_strict_def state_of_def split: option.split)

lemma load_quiet [simp]:
  "wd_env w = [] \<Longrightarrow> load_watchdog_runtime_state w = (state_of (wd_row w), w)"
  by (simp add: load_watchdog_runtime_state_def)

lemma ensure_quiet [simp]:
  "wd_env w = [] \<Longrightarrow> ensure_watchdog_runtime_state_row w = (True, w\<lparr>wd_row := Some (current_row w)\<rparr>)"
  by (cases w) (simp add: ensure_watchdog_runtime_state_row_def current_row_def split: option.split)

lemma row_expected_unconditional [simp]: "\<not> update_conditional u \<Longrightarrow> row_expected u row"
  by (simp add: update_conditional_def row_expected_def)

lemma no_update_sel [simp]:
  "u_path_key no_update = None" "u_failure_candidate no_update = None"
  "u_last_processed_decision_id no_update = None" "u_last_successful_failover_at no_update = None"
  "u_failover_path_key no_update = None" "u_previous_target_id no_update = None"
  "u_selected_target_id no_update = None" "u_cooldown_until no_update = None"
  "u_last_idle_probe_at no_update = None" "u_last_idle_probe_server_id no_update = None"
  "u_last_idle_probe_status no_update = None" "u_expected_failure_candidate no_update = None"
  "u_expected_path_key no_update = None" "u_expected_last_processed_decision_id no_update = None"
  by (simp_all add: no_update_def)

lemma assign_simps [simp]: "assign None x = x" "assign (Some v) x = v"
  by (simp_all add: assign_def)

text \<open>Without interference an update either writes the assigned columns or leaves the row alone.\<close>

lemma update_quiet:
  assumes "wd_env w = []" and "has_assignments u"
  shows "update_watchdog_runtime_state u w =
    (if row_expected u (current_row w)
     then (Some (row_state (apply_assignments u (wd_clock w) (current_row w))),
           w\<lparr>wd_row := Some (apply_assignments u (wd_clock w) (current_row w))\<rparr>)
     else (None, w\<lparr>wd_row := Some (current_row w)\<rparr>))"
  using assms
  by (auto simp: update_watchdog_runtime_state_def Let_def sql_update_def state_of_def)

text \<open>
  What another writer committed between the caller's read and the \<open>UPDATE\<close> decides alone: the
  assignments land on that row if it still has the expected values, and it stays as it is otherwise.
\<close>

lemma update_after_interference:
  assumes "wd_env w = [DbOk, DbOther (Some row)]" and "has_assignments u" and "update_conditional u"
  shows "update_watchdog_runtime_state u w =
    (if row_expected u row
     then (Some (row_state (apply_assignments u (wd_clock w) row)),
           w\<lparr>wd_row := Some (apply_assignments u (wd_clock w) row), wd_env := []\<rparr>)
     else (None, w\<lparr>wd_row := Some row, wd_env := []\<rparr>))"
  using assms
  by (auto simp: update_watchdog_runtime_state_def ensure_watchdog_runtime_state_row_def db_step_def
      Let_def sql_update_def state_of_def load_watchdog_runtime_state_def
      load_watchdog_runtime_state_strict_def split: option.split)

section \<open>The row as a compare-and-set cell\<close>

text \<open>The three columns that the confirmation code guards, and the guarded write of all three.\<close>

type_synonym guarded = "pyval \<times> pyval \<times> pyval"

definition guarded_columns :: "world \<Rightarrow> json_text option \<times> pyval \<times> pyval" where
  "guarded_columns w = (r_failure_candidate_json (current_row w), r_path_key (current_row w),
     r_last_processed_decision_id (current_row w))"

definition guarded_enc :: "guarded \<Rightarrow> json_text option \<times> pyval \<times> pyval" where
  "guarded_enc = (\<lambda>(c, p, d). (json_dumps_dict c, p, d))"

definition guarded_update :: "guarded \<Rightarrow> guarded \<Rightarrow> wd_update" where
  "guarded_update = (\<lambda>(c, p, d) (c', p', d').
     no_update\<lparr>u_failure_candidate := Some c', u_path_key := Some p', u_last_processed_decision_id := Some d',
               u_expected_failure_candidate := Some c, u_expected_path_key := Some p,
               u_expected_last_processed_decision_id := Some d\<rparr>)"

definition watchdog_cas :: "guarded \<Rightarrow> guarded \<Rightarrow> world \<Rightarrow> bool \<times> world" where
  "watchdog_cas e v w = (case update_watchdog_runtime_state (guarded_update e v) w of
     (r, w') \<Rightarrow> (r \<noteq> None, w'))"

lemma guarded_update_assigns [simp]: "has_assignments (guarded_update e v)"
  by (cases e; cases v) (simp add: guarded_update_def has_assignments_def)

lemma guarded_update_conditional [simp]: "update_conditional (guarded_update e v)"
  by (cases e; cases v) (simp add: guarded_update_def update_conditional_def)

lemma row_expected_guarded:
  "row_expected (guarded_update e v) (current_row w) \<longleftrightarrow> guarded_columns w = guarded_enc e"
  by (cases e; cases v) (auto simp: guarded_update_def row_expected_def guarded_columns_def guarded_enc_def)

lemma guarded_columns_written:
  "guarded_columns (w\<lparr>wd_row := Some (apply_assignments (guarded_update e v) c row)\<rparr>) = guarded_enc v"
  by (cases e; cases v) (simp add: guarded_update_def guarded_columns_def guarded_enc_def apply_assignments_def)

lemma watchdog_cas_quiet:
  assumes "wd_env w = []"
  shows "watchdog_cas e v w =
    (if guarded_columns w = guarded_enc e
     then (True, w\<lparr>wd_row := Some (apply_assignments (guarded_update e v) (wd_clock w) (current_row w))\<rparr>)
     else (False, w\<lparr>wd_row := Some (current_row w)\<rparr>))"
  using assms by (simp add: watchdog_cas_def update_quiet row_expected_guarded)

interpretation wdcas: cas_cell guarded_columns guarded_enc watchdog_cas "\<lambda>w. wd_env w = []"
proof unfold_locales
  fix s :: world and e v :: guarded
  assume q: "wd_env s = []"
  note cas = watchdog_cas_quiet [OF q, of e v]
  show "wd_env (snd (watchdog_cas e v s)) = []" using q by (simp add: cas)
  show "fst (watchdog_cas e v s)" if "guarded_columns s = guarded_enc e" using that by (simp add: cas)
  show "guarded_columns (snd (watchdog_cas e v s)) = guarded_enc v" if "guarded_columns s = guarded_enc e"
    using that by (simp add: cas guarded_columns_written)
  show "\<not> fst (watchdog_cas e v s)" if "guarded_columns s \<noteq> guarded_enc e" using that by (simp add: cas)
  show "guarded_columns (snd (watchdog_cas e v s)) = guarded_columns s" if "guarded_columns s \<noteq> guarded_enc e"
    using that by (simp add: cas guarded_columns_def)
qed

section \<open>Properties\<close>



text \<open>
  C11. Writers linearise. Whatever sequence of conditional writes of the three guarded columns
  processes attempt, each with the values it read before, the writes that succeed form a chain from
  the initial columns to the final ones: every winner replaced exactly what the previous winner wrote.
\<close>

theorem guarded_writes_linearise:
  assumes "wd_env w = []" and "cas_attempts watchdog_cas as w = (winners, w')"
  shows "cas_chain guarded_enc (guarded_columns w) winners (guarded_columns w')"
  using assms by (rule wdcas.attempts_chain)

theorem guarded_writes_linearise_witness:
  "\<exists>w winners w'. winners = [((PNone, PNone, PNone), (PDict [], PStr ''a'', PStr ''1''))]
     \<and> cas_attempts watchdog_cas
         [((PNone, PNone, PNone), (PDict [], PStr ''a'', PStr ''1'')),
          ((PNone, PNone, PNone), (PDict [], PStr ''b'', PStr ''2''))] w = (winners, w')
     \<and> cas_chain guarded_enc (guarded_columns w) winners (guarded_columns w')"
proof -
  let ?w = "\<lparr>wd_row = None, wd_mem = PNone, wd_clock = ''now'', wd_env = []\<rparr>"
  let ?as = "[((PNone, PNone, PNone), (PDict [], PStr ''a'', PStr ''1'')),
              ((PNone, PNone, PNone), (PDict [], PStr ''b'', PStr ''2''))]"
  let ?e = "(PNone, PNone, PNone)" and ?v = "(PDict [], PStr ''a'', PStr ''1'')"
  have q: "wd_env ?w = []" by simp
  have c: "guarded_columns ?w = guarded_enc ?e"
    by (simp add: guarded_columns_def guarded_enc_def json_dumps_dict_def current_row_def default_row_def)
  have ne: "guarded_enc ?v \<noteq> guarded_enc ?e" by (simp add: guarded_enc_def)
  have q1: "wd_env (snd (watchdog_cas ?e ?v ?w)) = []" using wdcas.cas_usable [OF q] .
  have w1: "fst (watchdog_cas ?e ?v ?w)" using wdcas.cas_hit [OF q c] .
  have w2: "\<not> fst (watchdog_cas ?e v' (snd (watchdog_cas ?e ?v ?w)))" for v'
    using wdcas.second_writer_fails [OF q w1 ne] .
  have "\<exists>w'. cas_attempts watchdog_cas ?as ?w = ([hd ?as], w')"
    using w1 w2 by simp
  then obtain w' where r: "cas_attempts watchdog_cas ?as ?w = ([hd ?as], w')" by blast
  show ?thesis
    by (rule exI [of _ ?w], rule exI [of _ "[hd ?as]"], rule exI [of _ w'])
      (use guarded_writes_linearise [OF q r] r in \<open>simp only: list.sel simp_thms\<close>)
qed

text \<open>
  Round trip through the row: what an update writes is what the next load returns; the
  candidate comes back with its keys sorted, as \<open>json.dumps(sort_keys=True)\<close> wrote it.
\<close>

theorem update_then_load:
  assumes "wd_env w = []"
  shows "\<exists>state. fst (load_watchdog_runtime_state (snd (update_watchdog_runtime_state
             (no_update\<lparr>u_path_key := Some p, u_failure_candidate := Some (PDict c),
                        u_last_processed_decision_id := Some d\<rparr>) w))) = state
    \<and> dict_get state ''path_key'' = p
    \<and> dict_get state ''failure_candidate'' = sort_keys (PDict c)
    \<and> dict_get state ''last_processed_decision_id'' = d
    \<and> dict_get state ''cooldown_until'' = r_cooldown_until (current_row w)"
  using assms
  by (simp add: update_quiet has_assignments_def update_conditional_def apply_assignments_def state_of_def)

theorem update_then_load_witness:
  "dict_get (fst (load_watchdog_runtime_state (snd (update_watchdog_runtime_state
       (no_update\<lparr>u_path_key := Some (PStr ''p''),
                  u_failure_candidate := Some (PDict [(''b'', PInt 1), (''a'', PInt 2)]),
                  u_last_processed_decision_id := Some PNone\<rparr>)
       \<lparr>wd_row = None, wd_mem = PNone, wd_clock = ''now'', wd_env = []\<rparr>))))
     ''failure_candidate'' = PDict [(''a'', PInt 2), (''b'', PInt 1)]"
proof -
  let ?w = "\<lparr>wd_row = None, wd_mem = PNone, wd_clock = ''now'', wd_env = []\<rparr>"
  have q: "wd_env ?w = []" by simp
  have s: "sort_keys (PDict [(''b'', PInt 1), (''a'', PInt 2)]) = PDict [(''a'', PInt 2), (''b'', PInt 1)]"
    by code_simp
  from update_then_load [OF q, where p = "PStr ''p''" and c = "[(''b'', PInt 1), (''a'', PInt 2)]" and d = PNone]
  show ?thesis by (elim exE conjE) (simp only: s)
qed

end
