(* ===== verification/Py_Datetime.thy ===== *)
theory Py_Datetime
  imports Py_Prelude
begin

text \<open>
  The part of \<open>datetime\<close> that the services use: \<open>isoformat\<close> of an aware UTC instant,
  \<open>strftime("%Y-%m-%d %H:%M:%S")\<close>, \<open>fromisoformat\<close> on the texts that \<open>isoformat\<close>
  produces, and differences in whole seconds. Instants are microseconds since the epoch. The
  conversion between day numbers and calendar dates is the proleptic Gregorian calendar, in
  400-year eras that start on the first of March.
\<close>

definition civil_from_days :: "int \<Rightarrow> int \<times> int \<times> int" where
  "civil_from_days z0 =
     (let z = z0 + 719468;
          era = z div 146097;
          doe = z - era * 146097;
          yoe = (doe - doe div 1460 + doe div 36524 - doe div 146096) div 365;
          doy = doe - (365 * yoe + yoe div 4 - yoe div 100);
          mp = (5 * doy + 2) div 153;
          d = doy - (153 * mp + 2) div 5 + 1;
          m = (if mp < 10 then mp + 3 else mp - 9);
          y = yoe + era * 400
      in (if m \<le> 2 then y + 1 else y, m, d))"

definition days_from_civil :: "int \<Rightarrow> int \<Rightarrow> int \<Rightarrow> int" where
  "days_from_civil y0 m d =
     (let y = (if m \<le> 2 then y0 - 1 else y0);
          era = y div 400;
          yoe = y - era * 400;
          doy = (153 * (if m > 2 then m - 3 else m + 9) + 2) div 5 + d - 1;
          doe = yoe * 365 + yoe div 4 - yoe div 100 + doy
      in era * 146097 + doe - 719468)"

definition date_text :: "int \<Rightarrow> string" where
  "date_text days = (case civil_from_days days of (y, m, d) \<Rightarrow>
     pad_int 4 y @ ''-'' @ pad_int 2 m @ ''-'' @ pad_int 2 d)"

definition clock_text :: "int \<Rightarrow> string" where
  "clock_text sod = pad_int 2 (sod div 3600) @ '':'' @ pad_int 2 (sod mod 3600 div 60)
     @ '':'' @ pad_int 2 (sod mod 60)"

text \<open>The text of a local time, with its fraction when that is not zero.\<close>

definition local_text :: "int \<Rightarrow> string" where
  "local_text t =
     (let secs = t div 1000000; us = t mod 1000000
      in date_text (secs div 86400) @ ''T'' @ clock_text (secs mod 86400)
         @ (if us = 0 then [] else ''.'' @ pad_int 6 us))"

definition isoformat :: "datetime \<Rightarrow> string" where
  "isoformat t = local_text t @ ''+00:00''"

definition strftime_sql :: "datetime \<Rightarrow> string" where
  "strftime_sql t = (let secs = t div 1000000 in date_text (secs div 86400) @ '' '' @ clock_text (secs mod 86400))"

text \<open>An aware time with an offset in seconds prints its local time and that offset.\<close>

definition isoformat_tz :: "int \<times> int \<Rightarrow> string" where
  "isoformat_tz = (\<lambda>(t, off). local_text (t + off * 1000000)
     @ (if off < 0 then ''-'' else ''+'') @ pad_int 2 (\<bar>off\<bar> div 3600) @ '':''
     @ pad_int 2 (\<bar>off\<bar> mod 3600 div 60)
     @ (if \<bar>off\<bar> mod 60 = 0 then [] else '':'' @ pad_int 2 (\<bar>off\<bar> mod 60)))"

text \<open>\<open>int((a - b).total_seconds())\<close>: truncation towards zero.\<close>

definition seconds_between :: "datetime \<Rightarrow> datetime \<Rightarrow> int" where
  "seconds_between a b = (let d = a - b in if d < 0 then - ((- d) div 1000000) else d div 1000000)"

lemma seconds_between_nonneg: "b \<le> a \<Longrightarrow> seconds_between a b = (a - b) div 1000000"
  by (simp add: seconds_between_def Let_def)

lemma seconds_between_mono: "a \<le> a' \<Longrightarrow> seconds_between a b \<le> seconds_between a' b"
  unfolding seconds_between_def Let_def by (smt (verit) pos_imp_zdiv_nonneg_iff zdiv_mono1)

lemma seconds_between_ge: "0 < n \<Longrightarrow> n \<le> seconds_between a b \<longleftrightarrow> n * 1000000 \<le> a - b"
  by (simp add: seconds_between_def Let_def) linarith

section \<open>Parsing\<close>

definition digits_opt :: "string \<Rightarrow> int option" where
  "digits_opt s = (if s \<noteq> [] \<and> list_all is_digit s then Some (foldl (\<lambda>n c. 10 * n + digit_val c) 0 s) else None)"

definition leap_year :: "int \<Rightarrow> bool" where
  "leap_year y = (y mod 4 = 0 \<and> (y mod 100 \<noteq> 0 \<or> y mod 400 = 0))"

definition month_days :: "int \<Rightarrow> int \<Rightarrow> int" where
  "month_days y m = (if m = 2 then (if leap_year y then 29 else 28) else if m \<in> {4, 6, 9, 11} then 30 else 31)"

definition parse_date :: "string \<Rightarrow> int option" where
  "parse_date s =
     (if length s = 10 \<and> s ! 4 = CHR ''-'' \<and> s ! 7 = CHR ''-''
      then (case (digits_opt (take 4 s), digits_opt (take 2 (drop 5 s)), digits_opt (drop 8 s)) of
              (Some y, Some m, Some d) \<Rightarrow>
                 if 1 \<le> y \<and> 1 \<le> m \<and> m \<le> 12 \<and> 1 \<le> d \<and> d \<le> month_days y m
                 then Some (days_from_civil y m d) else None
            | _ \<Rightarrow> None)
      else None)"

text \<open>\<open>HH\<close>, \<open>HH:MM\<close>, \<open>HH:MM:SS\<close>, \<open>HH:MM:SS.fff\<close> or \<open>HH:MM:SS.ffffff\<close>, in microseconds.\<close>

definition parse_clock :: "string \<Rightarrow> int option" where
  "parse_clock s =
     (let n = length s;
          h = digits_opt (take 2 s);
          m = (if n \<le> 2 then Some 0 else if s ! 2 = CHR '':'' then digits_opt (take 2 (drop 3 s)) else None);
          sec = (if n \<le> 5 then Some 0 else if s ! 5 = CHR '':'' then digits_opt (take 2 (drop 6 s)) else None);
          us = (if n \<le> 8 then Some 0
                else if s ! 8 = CHR ''.'' then map_option (\<lambda>f. if n = 12 then f * 1000 else f) (digits_opt (drop 9 s))
                else None)
      in if n \<notin> {2, 5, 8, 12, 15} then None
         else (case (h, m, sec, us) of
                 (Some hh, Some mm, Some ss, Some uu) \<Rightarrow>
                    if hh < 24 \<and> mm < 60 \<and> ss < 60
                    then Some (((hh * 60 + mm) * 60 + ss) * 1000000 + uu) else None
               | _ \<Rightarrow> None))"

text \<open>
  \<open>datetime.fromisoformat\<close>: the local time in microseconds and the offset in seconds of an
  aware text, \<open>None\<close> for the offset of a naive text, and \<open>None\<close> where the call raises
  \<open>ValueError\<close>.
\<close>

definition fromisoformat :: "string \<Rightarrow> (int \<times> int option) option" where
  "fromisoformat s =
     (case parse_date (take 10 s) of
        None \<Rightarrow> None
      | Some days \<Rightarrow>
          if length s = 10 then Some (days * 86400000000, None)
          else (let t = drop 11 s;
                    clock = takeWhile (\<lambda>c. c \<noteq> CHR ''+'' \<and> c \<noteq> CHR ''-'') t;
                    tz = dropWhile (\<lambda>c. c \<noteq> CHR ''+'' \<and> c \<noteq> CHR ''-'') t
                in case parse_clock clock of
                     None \<Rightarrow> None
                   | Some us \<Rightarrow>
                       (case tz of
                          [] \<Rightarrow> Some (days * 86400000000 + us, None)
                        | sg # off \<Rightarrow>
                            if length off \<notin> {5, 8} then None
                            else (case parse_clock off of
                                    None \<Rightarrow> None
                                  | Some o_us \<Rightarrow>
                                      Some (days * 86400000000 + us,
                                            Some ((if sg = CHR ''-'' then - o_us else o_us) div 1000000))))))"

section \<open>Order of printed numbers\<close>

text \<open>Zero-padded numbers of the same width compare as texts in the way they compare as numbers.\<close>

lemma digit_char_less:
  assumes "0 \<le> a" "a < 10" "0 \<le> b" "b < 10"
  shows "digit_char a < digit_char b \<longleftrightarrow> a < b" and "digit_char a = digit_char b \<longleftrightarrow> a = b"
proof -
  have "\<forall>a\<in>{0, 1, 2, 3, 4, 5, 6, 7, 8, 9 :: int}. \<forall>b\<in>{0, 1, 2, 3, 4, 5, 6, 7, 8, 9}.
      (digit_char a < digit_char b \<longleftrightarrow> a < b) \<and> (digit_char a = digit_char b \<longleftrightarrow> a = b)"
    by code_simp
  moreover have "x \<in> {0, 1, 2, 3, 4, 5, 6, 7, 8, 9}" if "0 \<le> x" "x < 10" for x :: int
    using that by (simp, arith)
  ultimately show "digit_char a < digit_char b \<longleftrightarrow> a < b" "digit_char a = digit_char b \<longleftrightarrow> a = b"
    using assms by blast+
qed

lemma digit_zero: "digit_char 0 = CHR ''0''" by code_simp

lemma dec_text_snoc: "10 \<le> n \<Longrightarrow> dec_text n = dec_text (n div 10) @ [digit_char (n mod 10)]"
  by (subst dec_text.simps) simp

lemma dec_text_one: "n < 10 \<Longrightarrow> dec_text n = [digit_char n]"
  by (subst dec_text.simps) simp

lemma pad_int_step:
  assumes "0 \<le> n" and "0 < w"
  shows "pad_int (Suc w) n = pad_int w (n div 10) @ [digit_char (n mod 10)]"
proof (cases "n < 10")
  case True
  then have "n div 10 = 0" "n mod 10 = n" using assms(1) by auto
  then show ?thesis
    using True assms(2) by (cases w) (simp_all add: pad_int_def dec_text_one digit_zero replicate_append_same [symmetric])
next
  case False
  then show ?thesis using assms by (simp add: pad_int_def dec_text_snoc Let_def)
qed

lemma pad_int_one: "0 \<le> n \<Longrightarrow> n < 10 \<Longrightarrow> pad_int 1 n = [digit_char n]"
  by (simp add: pad_int_def dec_text_one)

lemma pad_int_digits:
  assumes "0 \<le> n"
  shows "n < 100 \<Longrightarrow> pad_int 2 n = [digit_char (n div 10), digit_char (n mod 10)]"
    and "n < 10000 \<Longrightarrow> pad_int 4 n = [digit_char (n div 1000), digit_char (n div 100 mod 10), digit_char (n div 10 mod 10), digit_char (n mod 10)]"
proof -
  show "pad_int 2 n = [digit_char (n div 10), digit_char (n mod 10)]" if "n < 100"
    using pad_int_step [of n 1] pad_int_one [of "n div 10"] that assms by (simp add: numeral_2_eq_2)
  assume n: "n < 10000"
  have "pad_int 4 n = pad_int 3 (n div 10) @ [digit_char (n mod 10)]"
    using pad_int_step [of n 3] assms by (simp add: eval_nat_numeral)
  also have "pad_int 3 (n div 10) = pad_int 2 (n div 10 div 10) @ [digit_char (n div 10 mod 10)]"
    using pad_int_step [of "n div 10" 2] assms by (simp add: eval_nat_numeral)
  also have "pad_int 2 (n div 10 div 10) = pad_int 1 (n div 10 div 10 div 10) @ [digit_char (n div 10 div 10 mod 10)]"
    using pad_int_step [of "n div 10 div 10" 1] assms by (simp add: eval_nat_numeral)
  finally show "pad_int 4 n = [digit_char (n div 1000), digit_char (n div 100 mod 10), digit_char (n div 10 mod 10), digit_char (n mod 10)]"
    using pad_int_one [of "n div 10 div 10 div 10"] n assms by (simp add: zdiv_zmult2_eq [symmetric])
qed

lemma digits_less:
  fixes a b :: int
  shows "a < b \<longleftrightarrow> a div 10 < b div 10 \<or> a div 10 = b div 10 \<and> a mod 10 < b mod 10"
    and "a = b \<longleftrightarrow> a div 10 = b div 10 \<and> a mod 10 = b mod 10"
proof -
  have *: "a = 10 * (a div 10) + a mod 10" "b = 10 * (b div 10) + b mod 10" by simp_all
  have **: "0 \<le> a mod 10" "a mod 10 < 10" "0 \<le> b mod 10" "b mod 10 < 10" by simp_all
  show "a < b \<longleftrightarrow> a div 10 < b div 10 \<or> a div 10 = b div 10 \<and> a mod 10 < b mod 10" using * ** by linarith
  show "a = b \<longleftrightarrow> a div 10 = b div 10 \<and> a mod 10 = b mod 10" using * by metis
qed

lemma year_less:
  fixes a b :: int
  shows "a < b \<longleftrightarrow> (a div 1000 < b div 1000 \<or> a div 1000 = b div 1000 \<and> (a div 100 mod 10 < b div 100 mod 10
    \<or> a div 100 mod 10 = b div 100 mod 10 \<and> (a div 10 mod 10 < b div 10 mod 10 \<or>
       a div 10 mod 10 = b div 10 mod 10 \<and> a mod 10 < b mod 10)))"
    and "a = b \<longleftrightarrow> a div 1000 = b div 1000 \<and> a div 100 mod 10 = b div 100 mod 10
      \<and> a div 10 mod 10 = b div 10 mod 10 \<and> a mod 10 = b mod 10"
proof -
  have d: "x div 10 div 10 = x div 100" "x div 100 div 10 = x div 1000" for x :: int
    by (simp_all add: zdiv_zmult2_eq [symmetric])
  note l = digits_less [of a b] digits_less [of "a div 10" "b div 10", unfolded d]
    digits_less [of "a div 100" "b div 100", unfolded d]
  show "a < b \<longleftrightarrow> (a div 1000 < b div 1000 \<or> a div 1000 = b div 1000 \<and> (a div 100 mod 10 < b div 100 mod 10
    \<or> a div 100 mod 10 = b div 100 mod 10 \<and> (a div 10 mod 10 < b div 10 mod 10 \<or>
       a div 10 mod 10 = b div 10 mod 10 \<and> a mod 10 < b mod 10)))" using l by blast
  show "a = b \<longleftrightarrow> a div 1000 = b div 1000 \<and> a div 100 mod 10 = b div 100 mod 10
      \<and> a div 10 mod 10 = b div 10 mod 10 \<and> a mod 10 = b mod 10" using l by blast
qed

definition month_text :: "int \<Rightarrow> int \<Rightarrow> string" where
  "month_text y m = pad_int 4 y @ ''-'' @ pad_int 2 m"

lemma month_text_less:
  assumes "0 \<le> y" "y < 10000" "0 \<le> y'" "y' < 10000" "1 \<le> m" "m \<le> 12" "1 \<le> m'" "m' \<le> 12"
  shows "month_text y m < month_text y' m' \<longleftrightarrow> y * 12 + m < y' * 12 + m'"
proof -
  have y: "0 \<le> y div 1000" "y div 1000 < 10" "0 \<le> y' div 1000" "y' div 1000 < 10"
    and m: "0 \<le> m div 10" "m div 10 < 10" "0 \<le> m' div 10" "m' div 10 < 10" using assms by auto
  have p: "pad_int 4 y = [digit_char (y div 1000), digit_char (y div 100 mod 10), digit_char (y div 10 mod 10), digit_char (y mod 10)]"
    "pad_int 4 y' = [digit_char (y' div 1000), digit_char (y' div 100 mod 10), digit_char (y' div 10 mod 10), digit_char (y' mod 10)]"
    "pad_int 2 m = [digit_char (m div 10), digit_char (m mod 10)]" "pad_int 2 m' = [digit_char (m' div 10), digit_char (m' mod 10)]"
    using assms by (simp_all add: pad_int_digits)
  have "month_text y m < month_text y' m' \<longleftrightarrow> y < y' \<or> y = y' \<and> m < m'"
    unfolding month_text_def p year_less [of y y'] digits_less(1) [of m m']
    by (simp add: digit_char_less y m) blast
  then show ?thesis using assms by auto
qed

end
