(* ===== verification/Watchdog_Failure.thy ===== *)
theory Watchdog_Failure
  imports Watchdog_State Py_Datetime
begin

text \<open>
  The failure-confirmation state machine of \<open>services/watchdog_failure_state.py\<close>: the failure
  candidate kept in the watchdog row and mirrored in the process-wide
  \<open>_TRAFFIC_FAILURE_CANDIDATE\<close>, its confirmation by stalled traffic
  (\<open>traffic_failure_confirmation\<close>) or by degraded checks of the active server
  (\<open>active_quality_degraded_confirmation\<close> and its idle variant), its recovery, the pending
  recovery incident, and the failover cooldown.

  The functions of the code that return a dictionary return the same dictionary here. The callables
  \<open>now_fn\<close> and \<open>parse_timestamp\<close> are arguments of the code and stay arguments:
  \<open>now\<close> is the value a call of \<open>now_fn\<close> yields (twice where the code calls it twice).
  The thread lock makes each operation atomic within the process; interference comes from the
  statement schedule of the world.
\<close>

section \<open>The candidate in memory and in the row\<close>

definition get_traffic_failure_candidate :: "world \<Rightarrow> pyval" where
  "get_traffic_failure_candidate w = wd_mem w"

definition set_traffic_failure_candidate :: "pyval \<Rightarrow> world \<Rightarrow> world" where
  "set_traffic_failure_candidate c w = w\<lparr>wd_mem := c\<rparr>"

text \<open>The reduced candidate that keeps only a pending recovery incident.\<close>

definition recovery_stub :: "pyval \<Rightarrow> pyval \<Rightarrow> pyval" where
  "recovery_stub path_key pending =
     PDict [(''kind'', PStr ''traffic_recovery''), (''path_key'', path_key), (''recovery_pending'', pending)]"

definition reset_traffic_failure_candidate :: "world \<Rightarrow> world" where
  "reset_traffic_failure_candidate w =
     (case load_watchdog_runtime_state w of (state, w1) \<Rightarrow>
        let existing = dict_get state ''failure_candidate'';
            preserved = (if is_dict existing \<and> is_dict (get_in existing ''recovery_pending'')
                         then recovery_stub (get_in existing ''path_key'') (get_in existing ''recovery_pending'')
                         else PNone);
            w2 = set_traffic_failure_candidate preserved w1
        in snd (update_watchdog_runtime_state
                  (no_update\<lparr>u_path_key := Some PNone, u_failure_candidate := Some preserved,
                             u_last_processed_decision_id := Some PNone\<rparr>) w2))"

definition get_recovery_pending :: "world \<Rightarrow> pyval \<times> world" where
  "get_recovery_pending w =
     (case load_watchdog_runtime_state w of (state, w1) \<Rightarrow>
        let candidate = dict_get state ''failure_candidate'';
            pending = get_in candidate ''recovery_pending''
        in (if is_dict pending then pending else PNone, w1))"

text \<open>The candidate with its incident replaced or, for \<open>None\<close>, removed.\<close>

definition with_recovery_pending :: "pydict \<Rightarrow> pyval \<Rightarrow> pyval" where
  "with_recovery_pending candidate pending =
     (if pending = PNone
      then (let updated = dict_pop candidate ''recovery_pending''
            in if dict_get updated ''kind'' = PStr ''traffic_recovery'' then PNone else PDict updated)
      else PDict (dict_set candidate ''recovery_pending'' pending))"

definition set_recovery_pending :: "pyval \<Rightarrow> world \<Rightarrow> world" where
  "set_recovery_pending pending w =
     (case load_watchdog_runtime_state w of (state, w1) \<Rightarrow>
        let candidate0 = dict_get state ''failure_candidate'';
            candidate = (if is_dict candidate0 then items candidate0
                         else [(''kind'', PStr ''traffic_recovery''),
                               (''path_key'', if truthy pending then get_in pending ''path_key'' else PNone)]);
            updated = with_recovery_pending candidate pending
        in snd (update_watchdog_runtime_state (no_update\<lparr>u_failure_candidate := Some updated\<rparr>) w1))"

text \<open>
  \<open>compare_and_set_recovery_pending\<close>: a \<open>SELECT\<close> and an \<open>UPDATE\<close> guarded by the
  text just read, with a point between them at which another connection may commit.
\<close>

definition row_candidate_json :: "world \<Rightarrow> json_text option" where
  "row_candidate_json w = (case wd_row w of None \<Rightarrow> None | Some row \<Rightarrow> r_failure_candidate_json row)"

definition guarded_write ::
  "json_text option \<Rightarrow> (wd_row \<Rightarrow> wd_row) \<Rightarrow> world \<Rightarrow> bool \<times> world" where
  "guarded_write raw f w =
     (case db_step w of
        (False, w1) \<Rightarrow> (False, w1)
      | (True, w1) \<Rightarrow>
          (case wd_row w1 of
             Some row \<Rightarrow>
               if r_failure_candidate_json row = raw
               then (True, w1\<lparr>wd_row := Some ((f row)\<lparr>r_updated_at := PStr (wd_clock w1)\<rparr>)\<rparr>)
               else (False, w1)
           | None \<Rightarrow> (False, w1)))"

definition compare_and_set_recovery_pending :: "pyval \<Rightarrow> pyval \<Rightarrow> world \<Rightarrow> bool \<times> world" where
  "compare_and_set_recovery_pending expected pending w =
     (case ensure_watchdog_runtime_state_row w of
        (False, w1) \<Rightarrow> (False, w1)
      | (True, w1) \<Rightarrow>
          (case db_step w1 of
             (False, w2) \<Rightarrow> (False, w2)
           | (True, w2) \<Rightarrow>
               let raw = row_candidate_json w2;
                   candidate = json_loads_dict raw;
                   current = get_in candidate ''recovery_pending''
               in if \<not> py_eq current expected then (False, w2)
                  else (let updated = with_recovery_pending (items candidate) pending
                        in guarded_write raw
                             (\<lambda>row. row\<lparr>r_failure_candidate_json := json_dumps_dict updated\<rparr>) w2)))"

definition complete_recovery_pending :: "pyval \<Rightarrow> world \<Rightarrow> bool \<times> world" where
  "complete_recovery_pending expected w =
     (case ensure_watchdog_runtime_state_row w of
        (False, w1) \<Rightarrow> (False, w1)
      | (True, w1) \<Rightarrow>
          (case db_step w1 of
             (False, w2) \<Rightarrow> (False, w2)
           | (True, w2) \<Rightarrow>
               let raw = row_candidate_json w2;
                   candidate = json_loads_dict raw;
                   pending = get_in candidate ''recovery_pending''
               in if \<not> py_eq pending expected then (False, w2)
                  else (let preserved =
                          (if is_dict candidate
                              \<and> get_in candidate ''kind'' = PStr ''active_quality_degraded''
                           then PDict (dict_pop (items candidate) ''recovery_pending'') else PNone)
                        in case guarded_write raw
                               (\<lambda>row. row\<lparr>r_path_key := PNone,
                                          r_failure_candidate_json := json_dumps_dict preserved,
                                          r_last_processed_decision_id := PNone\<rparr>) w2 of
                             (False, w3) \<Rightarrow> (False, w3)
                           | (True, w3) \<Rightarrow> (True, w3\<lparr>wd_mem := preserved\<rparr>))))"

definition reset_stalled_traffic_failure_candidate :: "world \<Rightarrow> world" where
  "reset_stalled_traffic_failure_candidate w =
     (case load_watchdog_runtime_state w of (state, w1) \<Rightarrow>
        let candidate0 = dict_get state ''failure_candidate'';
            candidate = (if is_dict candidate0 then candidate0 else wd_mem w1)
        in if is_dict candidate \<and> get_in candidate ''kind'' = PStr ''active_quality_degraded''
           then w1\<lparr>wd_mem := candidate\<rparr>
           else if is_dict candidate \<and> is_dict (get_in candidate ''recovery_pending'')
           then (let stub = recovery_stub (get_in candidate ''path_key'') (get_in candidate ''recovery_pending'')
                 in snd (update_watchdog_runtime_state (no_update\<lparr>u_failure_candidate := Some stub\<rparr>)
                           (w1\<lparr>wd_mem := stub\<rparr>)))
           else snd (update_watchdog_runtime_state
                       (no_update\<lparr>u_path_key := Some PNone, u_failure_candidate := Some PNone,
                                  u_last_processed_decision_id := Some PNone\<rparr>)
                       (w1\<lparr>wd_mem := PNone\<rparr>)))"

section \<open>Idle probes\<close>

definition idle_probe_due ::
  "pyval \<Rightarrow> int \<Rightarrow> datetime \<Rightarrow> (pyval \<Rightarrow> datetime option) \<Rightarrow> world \<Rightarrow> pydict \<times> world" where
  "idle_probe_due active_server_id interval_seconds now parse_timestamp w =
     (let server_id = clean active_server_id in
      case load_watchdog_runtime_state w of (state, w1) \<Rightarrow>
        if server_id = []
        then ([(''due'', PBool False), (''reason'', PStr ''idle_probe_no_active_server''),
               (''state'', PDict state)], w1)
        else (let previous = clean (dict_get state ''last_idle_probe_server_id'')
              in if previous \<noteq> [] \<and> previous \<noteq> server_id
                 then (let candidate = dict_get state ''failure_candidate''
                       in if is_dict candidate \<and> get_in candidate ''kind'' = PStr ''idle_active_failure''
                          then (let w2 = snd (update_watchdog_runtime_state
                                           (no_update\<lparr>u_failure_candidate := Some PNone,
                                                      u_last_processed_decision_id := Some PNone\<rparr>) w1)
                                in case load_watchdog_runtime_state w2 of (state', w3) \<Rightarrow>
                                     ([(''due'', PBool True),
                                       (''reason'', PStr ''idle_probe_active_server_changed''),
                                       (''state'', PDict state')], w3))
                          else ([(''due'', PBool True),
                                 (''reason'', PStr ''idle_probe_active_server_changed''),
                                 (''state'', PDict state)], w1))
                 else (case parse_timestamp (dict_get state ''last_idle_probe_at'') of
                         None \<Rightarrow> ([(''due'', PBool True), (''reason'', PStr ''idle_probe_never_checked''),
                                   (''state'', PDict state)], w1)
                       | Some checked_at \<Rightarrow>
                           let elapsed = max 0 (seconds_between now checked_at);
                               due = (elapsed \<ge> interval_seconds)
                           in ([(''due'', PBool due),
                                (''reason'', PStr (if due then ''idle_probe_due'' else ''idle_probe_not_due'')),
                                (''elapsed_seconds'', PInt elapsed),
                                (''remaining_seconds'', PInt (max 0 (interval_seconds - elapsed))),
                                (''state'', PDict state)], w1))))"

definition record_idle_probe :: "string \<Rightarrow> string \<Rightarrow> string \<Rightarrow> world \<Rightarrow> pydict option \<times> world" where
  "record_idle_probe active_server_id status checked_at w =
     update_watchdog_runtime_state
       (no_update\<lparr>u_last_idle_probe_at := Some (PStr checked_at),
                  u_last_idle_probe_server_id := Some (PStr active_server_id),
                  u_last_idle_probe_status := Some (PStr status)\<rparr>) w"

section \<open>The rolling history of quality checks\<close>

definition compact_active_quality_check :: "pydict \<Rightarrow> pydict" where
  "compact_active_quality_check active_check =
     [(''ok'', PBool (truthy (dict_get active_check ''ok''))),
      (''status'', dict_get active_check ''status''),
      (''server_id'', dict_get active_check ''server_id''),
      (''last_ping_ms'', dict_get active_check ''last_ping_ms''),
      (''error_code'', dict_get active_check ''error_code''),
      (''error_message'', dict_get active_check ''error_message'')]"

definition compact_quality_traffic_signal :: "pydict \<Rightarrow> pydict" where
  "compact_quality_traffic_signal traffic_signal =
     [(''response_observed'', PBool (truthy (dict_get traffic_signal ''response_observed''))),
      (''outbound_observed'', PBool (truthy (dict_get traffic_signal ''outbound_observed''))),
      (''authoritative_rx_delta'', dict_get traffic_signal ''authoritative_rx_delta''),
      (''authoritative_tx_delta'', dict_get traffic_signal ''authoritative_tx_delta''),
      (''active_samples_count'', dict_get traffic_signal ''active_samples_count'')]"

definition active_quality_history_entry ::
  "datetime \<Rightarrow> string \<Rightarrow> bool \<Rightarrow> pydict \<Rightarrow> pydict \<Rightarrow> pydict" where
  "active_quality_history_entry now decision_id degraded active_check traffic_signal =
     [(''checked_at'', PStr (isoformat now)),
      (''decision_id'', PStr decision_id),
      (''degraded'', PBool degraded),
      (''active_check'', PDict (compact_active_quality_check active_check)),
      (''traffic_signal'', PDict (compact_quality_traffic_signal traffic_signal))]"

definition candidate_quality_history :: "pydict \<Rightarrow> pydict list" where
  "candidate_quality_history candidate =
     (case dict_get candidate ''quality_checks'' of
        PList raw \<Rightarrow> map items (filter is_dict raw)
      | _ \<Rightarrow>
          if truthy (dict_get candidate ''active_check'')
          then [[(''checked_at'', py_or (dict_get candidate ''last_seen_at'') (dict_get candidate ''first_seen_at'')),
                 (''decision_id'', dict_get candidate ''decision_id''),
                 (''degraded'', PBool True),
                 (''active_check'', dict_get candidate ''active_check''),
                 (''traffic_signal'', py_or (dict_get candidate ''latest_signal'') (dict_get candidate ''traffic_signal''))]]
          else [])"

text \<open>\<open>history[-n:]\<close> for a positive \<open>n\<close>.\<close>

definition take_last :: "nat \<Rightarrow> 'a list \<Rightarrow> 'a list" where
  "take_last n xs = drop (length xs - n) xs"

definition append_quality_history :: "pydict list \<Rightarrow> pydict \<Rightarrow> int \<Rightarrow> pydict list" where
  "append_quality_history history entry max_checks =
     (let checked_at = py_str (py_or (dict_get entry ''checked_at'') (PStr []));
          history' = (if history \<noteq> [] \<and> checked_at \<noteq> []
                         \<and> py_str (py_or (dict_get (last history) ''checked_at'') (PStr [])) = checked_at
                      then butlast history else history)
      in take_last (nat (max 1 max_checks)) (history' @ [entry]))"

definition is_degraded :: "pydict \<Rightarrow> bool" where
  "is_degraded entry = truthy (dict_get entry ''degraded'')"

definition quality_history_bad_count :: "pydict list \<Rightarrow> int" where
  "quality_history_bad_count history = int (length (filter is_degraded history))"

text \<open>The loop over \<open>reversed(history)\<close> with its \<open>break\<close>.\<close>

fun count_good :: "pydict list \<Rightarrow> int \<Rightarrow> int" where
  "count_good [] n = n"
| "count_good (entry # rest) n = (if is_degraded entry then n else count_good rest (n + 1))"

definition quality_history_good_count :: "pydict list \<Rightarrow> int" where
  "quality_history_good_count history = count_good (rev history) 0"

section \<open>Confirmation of a degraded active server\<close>

record quality_params =
  q_threshold :: int
  q_bad_checks :: int
  q_window_checks :: int
  q_window_bad_checks :: int

text \<open>\<open>int(x or default)\<close> on an integer.\<close>

definition or_default :: "int \<Rightarrow> int \<Rightarrow> int" where
  "or_default x d = (if x = 0 then d else x)"

definition quality_requirements :: "int \<Rightarrow> int \<Rightarrow> int \<Rightarrow> int \<Rightarrow> quality_params" where
  "quality_requirements confirm_seconds bad_checks_required window_checks window_bad_checks =
     (let required_window_checks = max 2 (or_default window_checks 4)
      in \<lparr>q_threshold = max 30 (or_default confirm_seconds 180),
          q_bad_checks = max 1 (or_default bad_checks_required 2),
          q_window_checks = required_window_checks,
          q_window_bad_checks = max 1 (min required_window_checks (or_default window_bad_checks 3))\<rparr>)"

definition requirement_fields :: "quality_params \<Rightarrow> pydict" where
  "requirement_fields q =
     [(''confirm_seconds'', PInt (q_threshold q)),
      (''bad_checks_required'', PInt (q_bad_checks q)),
      (''window_checks'', PInt (q_window_checks q)),
      (''window_bad_checks'', PInt (q_window_bad_checks q))]"

text \<open>The identifiers that every call derives from its arguments.\<close>

record signal_ids =
  s_server_id :: string
  s_path_key :: string
  s_collected_at :: string
  s_decision_id :: string

definition signal_identity :: "pyval \<Rightarrow> pyval \<Rightarrow> pydict \<Rightarrow> signal_ids" where
  "signal_identity active_server_id path_key traffic_signal =
     (let server = clean active_server_id;
          collected = clean (dict_get traffic_signal ''last_collected_at'')
      in \<lparr>s_server_id = server,
          s_path_key = clean (py_or path_key (PStr server)),
          s_collected_at = collected,
          s_decision_id = clean (py_or (dict_get traffic_signal ''decision_id'') (PStr collected))\<rparr>)"

definition unconfirmed :: "string \<Rightarrow> signal_ids \<Rightarrow> quality_params \<Rightarrow> pydict" where
  "unconfirmed reason ids q =
     [(''confirmed'', PBool False), (''pending'', PBool False), (''reason'', PStr reason),
      (''path_key'', PStr (s_path_key ids)), (''server_id'', PStr (s_server_id ids)),
      (''decision_id'', PStr (s_decision_id ids))] @ requirement_fields q"

definition new_quality_candidate ::
  "string \<Rightarrow> signal_ids \<Rightarrow> datetime \<Rightarrow> pydict \<Rightarrow> pydict \<Rightarrow> pydict" where
  "new_quality_candidate candidate_kind ids now active_check traffic_signal =
     [(''kind'', PStr candidate_kind),
      (''path_key'', PStr (s_path_key ids)),
      (''server_id'', PStr (s_server_id ids)),
      (''first_seen_at'', PStr (isoformat now)),
      (''last_seen_at'', PStr (isoformat now)),
      (''last_collected_at'', PStr (s_collected_at ids)),
      (''decision_id'', PStr (s_decision_id ids)),
      (''bad_checks'', PInt 1),
      (''good_checks'', PInt 0),
      (''quality_checks'',
         PList [PDict (active_quality_history_entry now (s_decision_id ids) True active_check traffic_signal)]),
      (''active_check'', PDict (compact_active_quality_check active_check)),
      (''traffic_signal'', PDict (compact_quality_traffic_signal traffic_signal))]"

text \<open>The conditional write of a candidate: only over the state that was read.\<close>

definition write_over :: "pydict \<Rightarrow> pyval \<Rightarrow> pyval \<Rightarrow> pyval \<Rightarrow> world \<Rightarrow> pydict option \<times> world" where
  "write_over state path_key candidate decision_id w =
     update_watchdog_runtime_state
       (no_update\<lparr>u_path_key := Some path_key,
                  u_failure_candidate := Some candidate,
                  u_last_processed_decision_id := Some decision_id,
                  u_expected_failure_candidate := Some (dict_get state ''failure_candidate''),
                  u_expected_path_key := Some (dict_get state ''path_key''),
                  u_expected_last_processed_decision_id :=
                    Some (dict_get state ''last_processed_decision_id'')\<rparr>) w"

text \<open>The first degraded check of a server: a new candidate replaces whatever was there.\<close>

definition first_degraded_check ::
  "string \<Rightarrow> bool \<Rightarrow> signal_ids \<Rightarrow> quality_params \<Rightarrow> datetime \<Rightarrow> pydict \<Rightarrow> pydict \<Rightarrow> pydict
   \<Rightarrow> world \<Rightarrow> pydict \<times> world" where
  "first_degraded_check candidate_kind require_response_traffic ids q now active_check traffic_signal state w =
     (let candidate = new_quality_candidate candidate_kind ids now active_check traffic_signal
      in case write_over state (PStr (s_path_key ids)) (PDict candidate) (PStr (s_decision_id ids)) w of
           (None, w1) \<Rightarrow> (unconfirmed ''watchdog_state_changed'' ids q, w1)
         | (Some _, w1) \<Rightarrow>
             ([(''confirmed'', PBool False), (''pending'', PBool False),
               (''reason'', PStr (if require_response_traffic then ''first_active_quality_degraded_check''
                                  else ''first_idle_active_failure_check'')),
               (''path_key'', PStr (s_path_key ids)), (''server_id'', PStr (s_server_id ids)),
               (''first_seen_at'', dict_get candidate ''first_seen_at''),
               (''last_seen_at'', dict_get candidate ''last_seen_at''),
               (''decision_id'', PStr (s_decision_id ids)),
               (''bad_checks'', PInt 1), (''good_checks'', PInt 0)]
              @ requirement_fields q
              @ [(''window_observed_checks'', PInt 1), (''window_bad_observed_checks'', PInt 1)],
              w1\<lparr>wd_mem := PDict candidate\<rparr>))"

text \<open>A further degraded check of the same server: the candidate with its history extended.\<close>

definition extended_quality_history ::
  "pydict \<Rightarrow> signal_ids \<Rightarrow> quality_params \<Rightarrow> datetime \<Rightarrow> pydict \<Rightarrow> pydict \<Rightarrow> pydict list" where
  "extended_quality_history candidate ids q now active_check traffic_signal =
     append_quality_history (candidate_quality_history candidate)
       (active_quality_history_entry now (s_decision_id ids) True active_check traffic_signal)
       (q_window_checks q)"

definition next_quality_candidate ::
  "pydict \<Rightarrow> pydict list \<Rightarrow> signal_ids \<Rightarrow> datetime \<Rightarrow> pydict \<Rightarrow> pydict \<Rightarrow> pydict" where
  "next_quality_candidate candidate0 check_history ids now active_check traffic_signal =
     (let c1 = dict_set candidate0 ''quality_checks'' (PList (map PDict check_history));
          c2 = dict_set c1 ''bad_checks'' (PInt (quality_history_bad_count check_history));
          c3 = dict_set c2 ''good_checks'' (PInt (quality_history_good_count check_history));
          c4 = dict_set c3 ''last_collected_at'' (PStr (s_collected_at ids));
          c5 = dict_set c4 ''decision_id'' (PStr (s_decision_id ids));
          c6 = dict_set c5 ''last_seen_at'' (PStr (isoformat now));
          c7 = dict_set c6 ''active_check'' (PDict (compact_active_quality_check active_check))
      in dict_set c7 ''latest_signal'' (PDict (compact_quality_traffic_signal traffic_signal)))"

text \<open>The candidate with the \<open>first_seen_at\<close> that the code settles on, and that time.\<close>

definition settle_first_seen ::
  "pydict \<Rightarrow> datetime \<Rightarrow> (pyval \<Rightarrow> datetime option) \<Rightarrow> pydict \<times> datetime" where
  "settle_first_seen candidate now parse_timestamp =
     (case parse_timestamp (PStr (py_str (py_or (dict_get candidate ''first_seen_at'') (PStr [])))) of
        Some t \<Rightarrow> (candidate, t)
      | None \<Rightarrow> (dict_set candidate ''first_seen_at'' (PStr (isoformat now)), now))"

definition window_result ::
  "bool \<Rightarrow> bool \<Rightarrow> string \<Rightarrow> signal_ids \<Rightarrow> quality_params \<Rightarrow> datetime \<Rightarrow> datetime \<Rightarrow> pydict list \<Rightarrow> pydict" where
  "window_result confirmed pending reason ids q first_seen_at now check_history =
     [(''confirmed'', PBool confirmed), (''pending'', PBool pending), (''reason'', PStr reason),
      (''path_key'', PStr (s_path_key ids)), (''server_id'', PStr (s_server_id ids)),
      (''first_seen_at'', PStr (isoformat first_seen_at)), (''last_seen_at'', PStr (isoformat now)),
      (''decision_id'', PStr (s_decision_id ids)),
      (''bad_checks'', PInt (quality_history_bad_count check_history))]
     @ (if confirmed then [] else [(''good_checks'', PInt (quality_history_good_count check_history))])
     @ [(''age_seconds'', PInt (max 0 (seconds_between now first_seen_at)))]
     @ requirement_fields q
     @ [(''window_observed_checks'', PInt (int (length check_history))),
        (''window_bad_observed_checks'', PInt (quality_history_bad_count check_history))]"

definition further_degraded_check ::
  "bool \<Rightarrow> signal_ids \<Rightarrow> quality_params \<Rightarrow> datetime \<Rightarrow> (pyval \<Rightarrow> datetime option) \<Rightarrow> pydict \<Rightarrow> pydict
   \<Rightarrow> pydict \<Rightarrow> pydict \<Rightarrow> world \<Rightarrow> pydict \<times> world" where
  "further_degraded_check require_response_traffic ids q now parse_timestamp active_check traffic_signal
     state candidate0 w =
     (case settle_first_seen candidate0 now parse_timestamp of (candidate1, first_seen_at) \<Rightarrow>
        let check_history = extended_quality_history candidate1 ids q now active_check traffic_signal;
            candidate = next_quality_candidate candidate1 check_history ids now active_check traffic_signal;
            bad_checks = quality_history_bad_count check_history;
            observed_checks = int (length check_history)
        in case write_over state (PStr (s_path_key ids)) (PDict candidate) (PStr (s_decision_id ids)) w of
             (None, w1) \<Rightarrow> (unconfirmed ''watchdog_state_changed'' ids q, w1)
           | (Some _, w1) \<Rightarrow>
               let w2 = w1\<lparr>wd_mem := PDict candidate\<rparr>
               in if bad_checks < q_bad_checks q
                  then (window_result False False ''active_quality_bad_checks_window'' ids q first_seen_at
                          now check_history, w2)
                  else if observed_checks < q_window_checks q \<or> bad_checks < q_window_bad_checks q
                  then (window_result False True ''active_quality_rolling_window'' ids q first_seen_at
                          now check_history, w2)
                  else (case update_watchdog_runtime_state
                               (no_update\<lparr>u_path_key := Some (PStr (s_path_key ids)),
                                          u_failure_candidate := Some PNone,
                                          u_last_processed_decision_id := Some (PStr (s_decision_id ids)),
                                          u_expected_failure_candidate := Some (PDict candidate),
                                          u_expected_path_key := Some (PStr (s_path_key ids)),
                                          u_expected_last_processed_decision_id :=
                                            Some (PStr (s_decision_id ids))\<rparr>) w2 of
                          (None, w3) \<Rightarrow> (unconfirmed ''watchdog_state_changed'' ids q, w3)
                        | (Some _, w3) \<Rightarrow>
                            (window_result True False
                               (if require_response_traffic then ''active_quality_degraded_confirmed''
                                else ''idle_active_failure_confirmed'') ids q first_seen_at now check_history,
                             w3\<lparr>wd_mem := PNone\<rparr>)))"

definition active_quality_degraded_confirmation ::
  "pyval \<Rightarrow> pydict \<Rightarrow> pydict \<Rightarrow> int \<Rightarrow> int \<Rightarrow> int \<Rightarrow> int \<Rightarrow> pyval \<Rightarrow> datetime
   \<Rightarrow> (pyval \<Rightarrow> datetime option) \<Rightarrow> string \<Rightarrow> bool \<Rightarrow> world \<Rightarrow> pydict \<times> world" where
  "active_quality_degraded_confirmation active_server_id active_check traffic_signal confirm_seconds
     bad_checks_required window_checks window_bad_checks path_key now parse_timestamp candidate_kind
     require_response_traffic w =
     (let ids = signal_identity active_server_id path_key traffic_signal;
          q = quality_requirements confirm_seconds bad_checks_required window_checks window_bad_checks
      in if s_path_key ids = [] \<or> s_server_id ids = [] \<or> s_collected_at ids = [] \<or> s_decision_id ids = []
            \<or> (require_response_traffic \<and> \<not> truthy (dict_get traffic_signal ''response_observed''))
         then ([(''confirmed'', PBool False), (''pending'', PBool False),
                (''reason'', PStr (if require_response_traffic then ''active_quality_not_evaluable''
                                   else ''idle_active_failure_not_evaluable''))] @ requirement_fields q, w)
         else (case load_watchdog_runtime_state_strict w of
                 (Inl _, w1) \<Rightarrow> (unconfirmed ''watchdog_state_unavailable'' ids q, w1)
               | (Inr state, w1) \<Rightarrow>
                   let candidate0 = dict_get state ''failure_candidate'';
                       candidate1 = (if is_dict candidate0 then candidate0 else wd_mem w1);
                       recovery_pending = get_in candidate1 ''recovery_pending''
                   in if is_dict candidate1 \<and> is_dict recovery_pending
                      then (unconfirmed ''recovery_pending'' ids q, w1)
                      else (let candidate = (if is_dict candidate1
                                                \<and> get_in candidate1 ''kind'' = PStr ''traffic_recovery''
                                             then PNone else candidate1)
                            in if \<not> is_dict candidate
                                  \<or> get_in candidate ''kind'' \<noteq> PStr candidate_kind
                                  \<or> get_in candidate ''path_key'' \<noteq> PStr (s_path_key ids)
                                  \<or> get_in candidate ''server_id'' \<noteq> PStr (s_server_id ids)
                               then first_degraded_check candidate_kind require_response_traffic ids q now
                                      active_check traffic_signal state w1
                               else further_degraded_check require_response_traffic ids q now
                                      parse_timestamp active_check traffic_signal state (items candidate) w1)))"

definition idle_active_failure_confirmation ::
  "pyval \<Rightarrow> pydict \<Rightarrow> pydict \<Rightarrow> int \<Rightarrow> int \<Rightarrow> int \<Rightarrow> int \<Rightarrow> pyval \<Rightarrow> datetime
   \<Rightarrow> (pyval \<Rightarrow> datetime option) \<Rightarrow> world \<Rightarrow> pydict \<times> world" where
  "idle_active_failure_confirmation active_server_id active_check traffic_signal confirm_seconds
     bad_checks_required window_checks window_bad_checks path_key now parse_timestamp w =
     active_quality_degraded_confirmation active_server_id active_check traffic_signal confirm_seconds
       2 2 2 path_key now parse_timestamp ''idle_active_failure'' False w"

section \<open>Recovery of a degraded active server\<close>

definition recovery_result ::
  "bool \<Rightarrow> bool \<Rightarrow> string \<Rightarrow> string \<Rightarrow> string \<Rightarrow> int option \<Rightarrow> int \<Rightarrow> int \<Rightarrow> pydict" where
  "recovery_result recovered pending reason path_key server_id good_checks good_required window =
     [(''recovered'', PBool recovered), (''pending'', PBool pending), (''reason'', PStr reason),
      (''path_key'', PStr path_key), (''server_id'', PStr server_id)]
     @ (case good_checks of None \<Rightarrow> [] | Some n \<Rightarrow> [(''good_checks'', PInt n)])
     @ [(''good_checks_required'', PInt good_required), (''window_checks'', PInt window)]"

definition healthy_history_entry :: "datetime \<Rightarrow> string \<Rightarrow> pydict \<Rightarrow> pydict" where
  "healthy_history_entry now decision_id traffic_signal =
     [(''checked_at'', PStr (isoformat now)),
      (''decision_id'', PStr decision_id),
      (''degraded'', PBool False),
      (''traffic_signal'',
         PDict [(''response_observed'', PBool (truthy (dict_get traffic_signal ''response_observed''))),
                (''outbound_observed'', PBool (truthy (dict_get traffic_signal ''outbound_observed'')))])]"

definition recovering_candidate :: "pydict \<Rightarrow> pydict list \<Rightarrow> string \<Rightarrow> datetime \<Rightarrow> pydict" where
  "recovering_candidate candidate0 check_history decision_id now =
     (let c1 = dict_set candidate0 ''quality_checks'' (PList (map PDict check_history));
          c2 = dict_set c1 ''bad_checks'' (PInt (quality_history_bad_count check_history));
          c3 = dict_set c2 ''good_checks'' (PInt (quality_history_good_count check_history));
          c4 = dict_set c3 ''decision_id'' (PStr decision_id)
      in dict_set c4 ''last_seen_at'' (PStr (isoformat now)))"

text \<open>The steps of \<open>active_quality_recovery_confirmation\<close> once a matching candidate is known.\<close>

definition recovery_check ::
  "string \<Rightarrow> string \<Rightarrow> string \<Rightarrow> int \<Rightarrow> int \<Rightarrow> datetime \<Rightarrow> datetime \<Rightarrow> pydict \<Rightarrow> pydict \<Rightarrow> pydict
   \<Rightarrow> world \<Rightarrow> pydict \<times> world" where
  "recovery_check path_key server_id decision_id good_required window now1 now2 traffic_signal state candidate0 w =
     (let check_history = append_quality_history (candidate_quality_history candidate0)
            (healthy_history_entry now1 decision_id traffic_signal) window;
          candidate = recovering_candidate candidate0 check_history decision_id now2;
          good_checks = quality_history_good_count check_history;
          last_decision = (if decision_id = [] then PNone else PStr decision_id);
          result = (\<lambda>recovered pending reason.
             recovery_result recovered pending reason path_key server_id (Some good_checks) good_required window)
      in if good_checks \<ge> good_required
         then (case write_over state (PStr path_key) PNone last_decision w of
                 (None, w1) \<Rightarrow> (result False False ''watchdog_state_changed'', w1)
               | (Some _, w1) \<Rightarrow> (result True False ''active_quality_recovered'', w1\<lparr>wd_mem := PNone\<rparr>))
         else (case write_over state (PStr path_key) (PDict candidate) last_decision w of
                 (None, w1) \<Rightarrow> (result False False ''watchdog_state_changed'', w1)
               | (Some _, w1) \<Rightarrow>
                   (result False True ''active_quality_recovery_window'', w1\<lparr>wd_mem := PDict candidate\<rparr>)))"

definition active_quality_recovery_confirmation ::
  "pyval \<Rightarrow> pydict \<Rightarrow> int \<Rightarrow> int \<Rightarrow> pyval \<Rightarrow> datetime \<Rightarrow> datetime \<Rightarrow> world \<Rightarrow> pydict \<times> world" where
  "active_quality_recovery_confirmation active_server_id traffic_signal recovery_checks_required
     window_checks path_key now1 now2 w =
     (let server_id = clean active_server_id;
          path = clean (py_or path_key (PStr server_id));
          decision_id = clean (py_or (dict_get traffic_signal ''decision_id'')
                                     (dict_get traffic_signal ''last_collected_at''));
          good_required = max 1 (or_default recovery_checks_required 2);
          window = max 2 (or_default window_checks 4)
      in case load_watchdog_runtime_state_strict w of
           (Inl _, w1) \<Rightarrow>
             (recovery_result False False ''watchdog_state_unavailable'' path server_id None good_required window, w1)
         | (Inr state, w1) \<Rightarrow>
             let candidate0 = dict_get state ''failure_candidate'';
                 candidate1 = (if is_dict candidate0 then candidate0 else wd_mem w1);
                 recovery_pending = get_in candidate1 ''recovery_pending''
             in if is_dict candidate1 \<and> is_dict recovery_pending
                then (recovery_result False False ''recovery_pending'' path server_id None good_required window, w1)
                else (let candidate = (if is_dict candidate1 \<and> get_in candidate1 ''kind'' = PStr ''traffic_recovery''
                                       then PNone else candidate1)
                      in if \<not> is_dict candidate
                            \<or> get_in candidate ''kind'' \<noteq> PStr ''active_quality_degraded''
                            \<or> get_in candidate ''path_key'' \<noteq> PStr path
                            \<or> get_in candidate ''server_id'' \<noteq> PStr server_id
                         then ([(''recovered'', PBool False), (''pending'', PBool False),
                                (''reason'', PStr ''no_active_quality_candidate''),
                                (''good_checks_required'', PInt good_required),
                                (''window_checks'', PInt window)], w1)
                         else recovery_check path server_id decision_id good_required window now1 now2
                                traffic_signal state (items candidate) w1))"

section \<open>Confirmation of stalled traffic\<close>

definition stalled_signal_fields :: "pydict \<Rightarrow> pyval" where
  "stalled_signal_fields traffic_signal =
     PDict [(''total_rx_delta'', dict_get traffic_signal ''total_rx_delta''),
            (''total_tx_delta'', dict_get traffic_signal ''total_tx_delta''),
            (''active_samples_count'', dict_get traffic_signal ''active_samples_count'')]"

definition new_stalled_candidate :: "signal_ids \<Rightarrow> datetime \<Rightarrow> pydict \<Rightarrow> pyval \<Rightarrow> pydict" where
  "new_stalled_candidate ids now traffic_signal recovery_pending =
     [(''kind'', PStr ''stalled_traffic''),
      (''path_key'', PStr (s_path_key ids)),
      (''server_id'', PStr (s_server_id ids)),
      (''first_seen_at'', PStr (isoformat now)),
      (''last_collected_at'', PStr (s_collected_at ids)),
      (''decision_id'', PStr (s_decision_id ids)),
      (''stalled_snapshots'', PInt 1),
      (''traffic_signal'', stalled_signal_fields traffic_signal)]
     @ (if is_dict recovery_pending then [(''recovery_pending'', recovery_pending)] else [])"

definition next_stalled_candidate :: "pydict \<Rightarrow> signal_ids \<Rightarrow> int \<Rightarrow> pydict \<Rightarrow> pydict" where
  "next_stalled_candidate candidate ids stalled_snapshots traffic_signal =
     dict_set (dict_set (dict_set (dict_set candidate
       ''last_collected_at'' (PStr (s_collected_at ids)))
       ''decision_id'' (PStr (s_decision_id ids)))
       ''stalled_snapshots'' (PInt stalled_snapshots))
       ''latest_signal'' (stalled_signal_fields traffic_signal)"

definition stalled_result ::
  "bool \<Rightarrow> bool \<Rightarrow> string \<Rightarrow> signal_ids \<Rightarrow> datetime \<Rightarrow> int option \<Rightarrow> int \<Rightarrow> int \<Rightarrow> pydict" where
  "stalled_result confirmed pending reason ids first_seen_at age stalled_snapshots threshold =
     [(''confirmed'', PBool confirmed), (''pending'', PBool pending), (''reason'', PStr reason),
      (''path_key'', PStr (s_path_key ids)), (''server_id'', PStr (s_server_id ids)),
      (''first_seen_at'', PStr (isoformat first_seen_at)),
      (''last_collected_at'', PStr (s_collected_at ids)),
      (''decision_id'', PStr (s_decision_id ids))]
     @ (case age of None \<Rightarrow> [] | Some a \<Rightarrow> [(''age_seconds'', PInt a)])
     @ [(''stalled_snapshots'', PInt stalled_snapshots),
        (''stalled_snapshots_required'', PInt 2),
        (''confirm_seconds'', PInt threshold)]"

definition write_stalled :: "signal_ids \<Rightarrow> pyval \<Rightarrow> world \<Rightarrow> world" where
  "write_stalled ids candidate w =
     snd (update_watchdog_runtime_state
            (no_update\<lparr>u_path_key := Some (PStr (s_path_key ids)),
                       u_failure_candidate := Some candidate,
                       u_last_processed_decision_id := Some (PStr (s_decision_id ids))\<rparr>)
            (w\<lparr>wd_mem := candidate\<rparr>))"

text \<open>
  A signal with the decision already recorded changes nothing, except that a candidate held only in
  memory gets a missing \<open>first_seen_at\<close> filled in (the code mutates the shared dictionary).
\<close>

definition same_stalled_snapshot ::
  "signal_ids \<Rightarrow> int \<Rightarrow> datetime \<Rightarrow> (pyval \<Rightarrow> datetime option) \<Rightarrow> bool \<Rightarrow> pydict \<Rightarrow> world
   \<Rightarrow> (exc + pydict) \<times> world" where
  "same_stalled_snapshot ids threshold now parse_timestamp in_memory candidate0 w =
     (case settle_first_seen candidate0 now parse_timestamp of (candidate, first_seen_at) \<Rightarrow>
        let w1 = (if in_memory then w\<lparr>wd_mem := PDict candidate\<rparr> else w)
        in case py_int (py_or (dict_get candidate ''stalled_snapshots'') (PInt 1)) of
             Inl e \<Rightarrow> (Inl e, w1)
           | Inr n \<Rightarrow> (Inr (stalled_result False True ''same_stalled_traffic_snapshot'' ids first_seen_at
                              (Some (max 0 (seconds_between now first_seen_at))) n threshold), w1))"

definition further_stalled_snapshot ::
  "signal_ids \<Rightarrow> int \<Rightarrow> datetime \<Rightarrow> (pyval \<Rightarrow> datetime option) \<Rightarrow> pydict \<Rightarrow> pyval \<Rightarrow> pydict \<Rightarrow> world
   \<Rightarrow> (exc + pydict) \<times> world" where
  "further_stalled_snapshot ids threshold now parse_timestamp traffic_signal recovery_pending candidate0 w =
     (let first_seen_at = snd (settle_first_seen candidate0 now parse_timestamp);
          age_seconds = max 0 (seconds_between now first_seen_at)
      in case py_int (py_or (dict_get candidate0 ''stalled_snapshots'') (PInt 1)) of
           Inl e \<Rightarrow> (Inl e, w)
         | Inr n \<Rightarrow>
             let stalled_snapshots = n + 1;
                 candidate = next_stalled_candidate candidate0 ids stalled_snapshots traffic_signal;
                 w1 = write_stalled ids (PDict candidate) w;
                 result = (\<lambda>confirmed pending reason.
                   stalled_result confirmed pending reason ids first_seen_at (Some age_seconds)
                     stalled_snapshots threshold)
             in if age_seconds < threshold
                then (Inr (result False True ''stalled_traffic_confirmation_window''), w1)
                else if stalled_snapshots < 2
                then (Inr (result False True ''stalled_traffic_consecutive_checks''), w1)
                else (let preserved = (if is_dict recovery_pending
                                       then recovery_stub (PStr (s_path_key ids)) recovery_pending else PNone)
                      in (Inr (result True False ''stalled_traffic_confirmed''), write_stalled ids preserved w1)))"

definition traffic_failure_confirmation ::
  "pyval \<Rightarrow> pydict \<Rightarrow> int \<Rightarrow> pyval \<Rightarrow> datetime \<Rightarrow> (pyval \<Rightarrow> datetime option) \<Rightarrow> world
   \<Rightarrow> (exc + pydict) \<times> world" where
  "traffic_failure_confirmation active_server_id traffic_signal confirm_seconds path_key now parse_timestamp w =
     (let ids = signal_identity active_server_id path_key traffic_signal;
          threshold = max 30 (or_default confirm_seconds 60)
      in if s_path_key ids = [] \<or> s_collected_at ids = [] \<or> s_decision_id ids = []
            \<or> \<not> truthy (dict_get traffic_signal ''traffic_stalled'')
         then (Inr [(''confirmed'', PBool False), (''pending'', PBool False),
                    (''reason'', PStr ''traffic_not_stalled''), (''confirm_seconds'', PInt threshold),
                    (''stalled_snapshots_required'', PInt 2)],
               reset_traffic_failure_candidate w)
         else (case load_watchdog_runtime_state w of (state, w1) \<Rightarrow>
                 let candidate0 = dict_get state ''failure_candidate'';
                     in_memory = (\<not> is_dict candidate0);
                     candidate1 = (if in_memory then wd_mem w1 else candidate0);
                     recovery_pending = get_in candidate1 ''recovery_pending'';
                     candidate = (if is_dict candidate1 \<and> get_in candidate1 ''kind'' = PStr ''traffic_recovery''
                                  then PNone else candidate1)
                 in if \<not> is_dict candidate \<or> get_in candidate ''path_key'' \<noteq> PStr (s_path_key ids)
                    then (let new = new_stalled_candidate ids now traffic_signal recovery_pending
                          in (Inr (stalled_result False True ''first_stalled_traffic_snapshot'' ids now None 1 threshold),
                              write_stalled ids (PDict new) w1))
                    else if get_in candidate ''decision_id'' = PStr (s_decision_id ids)
                    then same_stalled_snapshot ids threshold now parse_timestamp in_memory (items candidate) w1
                    else further_stalled_snapshot ids threshold now parse_timestamp traffic_signal
                           recovery_pending (items candidate) w1))"

section \<open>Failover cooldown\<close>

definition failover_cooldown_status ::
  "datetime \<Rightarrow> (pyval \<Rightarrow> datetime option) \<Rightarrow> world \<Rightarrow> pydict \<times> world" where
  "failover_cooldown_status now parse_timestamp w =
     (case load_watchdog_runtime_state w of (state, w1) \<Rightarrow>
        let cooldown_until = parse_timestamp (PStr (py_str (py_or (dict_get state ''cooldown_until'') (PStr []))));
            active = (case cooldown_until of None \<Rightarrow> False | Some t \<Rightarrow> now < t)
        in ([(''active'', PBool active),
             (''cooldown_until'', case cooldown_until of None \<Rightarrow> PNone | Some t \<Rightarrow> PStr (isoformat t)),
             (''remaining_seconds'',
                PInt (case cooldown_until of
                        None \<Rightarrow> 0
                      | Some t \<Rightarrow> if active then max 0 (seconds_between t now) else 0)),
             (''state'', PDict state)], w1))"

definition record_successful_failover ::
  "pyval \<Rightarrow> pyval \<Rightarrow> pyval \<Rightarrow> int \<Rightarrow> datetime \<Rightarrow> world \<Rightarrow> pydict option \<times> world" where
  "record_successful_failover path_key previous_target_id selected_target_id cooldown_seconds now w =
     (let cooldown_until = now + max 30 (or_default cooldown_seconds 300) * 1000000
      in update_watchdog_runtime_state
           (no_update\<lparr>u_path_key := Some path_key,
                      u_failure_candidate := Some PNone,
                      u_last_successful_failover_at := Some (PStr (isoformat now)),
                      u_failover_path_key := Some path_key,
                      u_previous_target_id := Some previous_target_id,
                      u_selected_target_id := Some selected_target_id,
                      u_cooldown_until := Some (PStr (isoformat cooldown_until))\<rparr>) w)"

definition cooldown_fields :: "pyval \<Rightarrow> exc + pydict" where
  "cooldown_fields cooldown =
     (let state = items cooldown
      in case py_int (py_or (dict_get state ''remaining_seconds'') (PInt 0)) of
           Inl e \<Rightarrow> Inl e
         | Inr n \<Rightarrow> Inr [(''cooldown_active'', PBool (truthy (dict_get state ''active''))),
                         (''cooldown_until'', dict_get state ''cooldown_until''),
                         (''cooldown_remaining_seconds'', PInt n)])"

definition runtime_response_fields :: "pydict \<Rightarrow> pyval \<Rightarrow> pyval \<Rightarrow> exc + pydict" where
  "runtime_response_fields runtime_state path_key cooldown =
     (case cooldown_fields cooldown of
        Inl e \<Rightarrow> Inl e
      | Inr cooldown_part \<Rightarrow>
          Inr (dict_update
                 [(''path_key'', py_or path_key (dict_get runtime_state ''path_key'')),
                  (''selection_mode'', dict_get runtime_state ''selection_mode''),
                  (''active_target_id'', dict_get runtime_state ''active_target_id''),
                  (''failover_supported'', PBool (truthy (dict_get runtime_state ''failover_supported'')))]
                 cooldown_part))"

end
