(* ===== verification/Watchdog_Confirmation.thy ===== *)
theory Watchdog_Confirmation
  imports Watchdog_Failure
begin

text \<open>
  Correctness of the watchdog's confirmation state machine. The first part is a library about the
  rolling history and about single operations in a quiet world (no interference); the second part
  states the properties: what a confirmation implies in any world, that the confirmation really
  comes when the code promises it, that a pending recovery incident is never lost by the
  confirmation code, and that the incident behaves as a compare-and-set cell.
\<close>

section \<open>Rolling histories\<close>

lemma take_last_length [simp]: "length (take_last n xs) = min n (length xs)"
  by (simp add: take_last_def)

lemma take_last_all [simp]: "length xs \<le> n \<Longrightarrow> take_last n xs = xs"
  by (simp add: take_last_def)

lemma take_last_append1: "0 < n \<Longrightarrow> take_last n (xs @ [x]) = take_last (n - 1) xs @ [x]"
  by (auto simp: take_last_def)

lemma append_history_length: "int (length (append_quality_history h e n)) \<le> max 1 n"
  by (auto simp: append_quality_history_def Let_def)

lemma append_history_ne [simp]: "append_quality_history h e n \<noteq> []"
  by (auto simp: append_quality_history_def Let_def take_last_def)

lemma append_history_last [simp]: "last (append_quality_history h e n) = e"
  by (auto simp: append_quality_history_def Let_def take_last_append1)

lemma bad_count_le_length: "quality_history_bad_count h \<le> int (length h)"
  by (simp add: quality_history_bad_count_def)

lemma count_good_add: "count_good h n = n + int (length (takeWhile (\<lambda>e. \<not> is_degraded e) h))"
  by (induction h arbitrary: n) auto

text \<open>The good count is the length of the longest undegraded end of the history.\<close>

lemma good_count_takeWhile:
  "quality_history_good_count h = int (length (takeWhile (\<lambda>e. \<not> is_degraded e) (rev h)))"
  by (simp add: quality_history_good_count_def count_good_add)

lemma requirement_get [simp]:
  "dict_get (requirement_fields q @ d) ''confirmed'' = dict_get d ''confirmed''"
  "dict_get (requirement_fields q @ d) ''window_observed_checks'' = dict_get d ''window_observed_checks''"
  "dict_get (requirement_fields q @ d) ''window_bad_observed_checks'' = dict_get d ''window_bad_observed_checks''"
  by (simp_all add: requirement_fields_def)

lemma requirements_bounds:
  "q_window_bad_checks (quality_requirements c b n m) \<le> q_window_checks (quality_requirements c b n m)"
  "2 \<le> q_window_checks (quality_requirements c b n m)"
  "1 \<le> q_bad_checks (quality_requirements c b n m)"
  "30 \<le> q_threshold (quality_requirements c b n m)"
  by (auto simp: quality_requirements_def Let_def)

lemma unconfirmed_get [simp]: "dict_get (unconfirmed r ids q) ''confirmed'' = PBool False"
  by (simp add: unconfirmed_def)

lemma window_result_get [simp]:
  "dict_get (window_result b p r ids q f now h) ''confirmed'' = PBool b"
  "dict_get (window_result b p r ids q f now h) ''window_observed_checks'' = PInt (int (length h))"
  "dict_get (window_result b p r ids q f now h) ''window_bad_observed_checks'' = PInt (quality_history_bad_count h)"
  by (simp_all add: window_result_def)

lemma first_degraded_not_confirmed [simp]:
  "dict_get (fst (first_degraded_check k r ids q now ac ts st w)) ''confirmed'' = PBool False"
  by (auto simp: first_degraded_check_def Let_def split: prod.splits option.splits)

lemma further_degraded_confirmed:
  assumes "further_degraded_check r ids q now parse ac ts st c w = (res, w')"
    and "dict_get res ''confirmed'' = PBool True"
  shows "\<exists>h. h = extended_quality_history (fst (settle_first_seen c now parse)) ids q now ac ts
    \<and> q_window_checks q \<le> int (length h) \<and> q_bad_checks q \<le> quality_history_bad_count h
    \<and> q_window_bad_checks q \<le> quality_history_bad_count h
    \<and> dict_get res ''window_bad_observed_checks'' = PInt (quality_history_bad_count h)
    \<and> wd_mem w' = PNone"
  using assms
  by (auto simp: further_degraded_check_def Let_def not_less split: prod.splits option.splits if_splits)

text \<open>Every answer of the confirmation is unconfirmed or comes from a further check of a candidate.\<close>

lemma degraded_confirmation_cases:
  "dict_get (fst (active_quality_degraded_confirmation srv ac ts confirm bad window wbad path now parse kind resp w))
     ''confirmed'' = PBool False
   \<or> (\<exists>st c w1. active_quality_degraded_confirmation srv ac ts confirm bad window wbad path now parse kind resp w
        = further_degraded_check resp (signal_identity srv path ts)
            (quality_requirements confirm bad window wbad) now parse ac ts st c w1)"
  unfolding active_quality_degraded_confirmation_def Let_def
  by (auto split: prod.split sum.split)

lemma extended_history_last:
  "last (extended_quality_history c ids q now ac ts) = active_quality_history_entry now (s_decision_id ids) True ac ts"
  by (simp add: extended_quality_history_def)

lemma extended_history_length:
  "2 \<le> q_window_checks q \<Longrightarrow> int (length (extended_quality_history c ids q now ac ts)) \<le> q_window_checks q"
  using append_history_length [of "candidate_quality_history c" _ "q_window_checks q"]
  by (simp add: extended_quality_history_def max_def)

lemma degraded_confirmed_history:
  assumes "active_quality_degraded_confirmation srv ac ts confirm bad window wbad path now parse kind resp w = (res, w')"
    and "dict_get res ''confirmed'' = PBool True"
  shows "\<exists>h q. q = quality_requirements confirm bad window wbad
    \<and> int (length h) = q_window_checks q
    \<and> is_degraded (last h) \<and> dict_get (last h) ''checked_at'' = PStr (isoformat now)
    \<and> q_bad_checks q \<le> quality_history_bad_count h
    \<and> q_window_bad_checks q \<le> quality_history_bad_count h
    \<and> dict_get res ''window_bad_observed_checks'' = PInt (quality_history_bad_count h)
    \<and> wd_mem w' = PNone"
proof -
  let ?q = "quality_requirements confirm bad window wbad"
  let ?ids = "signal_identity srv path ts"
  obtain st c w1 where "further_degraded_check resp ?ids ?q now parse ac ts st c w1 = (res, w')"
    using degraded_confirmation_cases [of srv ac ts confirm bad window wbad path now parse kind resp w] assms
    by auto
  from further_degraded_confirmed [OF this assms(2)] obtain h where
    h: "h = extended_quality_history (fst (settle_first_seen c now parse)) ?ids ?q now ac ts"
    and b: "q_window_checks ?q \<le> int (length h)" "q_bad_checks ?q \<le> quality_history_bad_count h"
      "q_window_bad_checks ?q \<le> quality_history_bad_count h"
      "dict_get res ''window_bad_observed_checks'' = PInt (quality_history_bad_count h)" "wd_mem w' = PNone"
    by blast
  have "int (length h) = q_window_checks ?q"
    using b(1) extended_history_length [of ?q] requirements_bounds(2) h by (simp add: antisym)
  moreover have "last h = active_quality_history_entry now (s_decision_id ?ids) True ac ts"
    unfolding h by (rule extended_history_last)
  ultimately show ?thesis
    using b by (intro exI [of _ h] exI [of _ ?q]) (simp add: is_degraded_def active_quality_history_entry_def)
qed

section \<open>Runs of degraded checks in a quiet world\<close>

lemma isoformat_ne [simp]: "isoformat t \<noteq> []"
  by (simp add: isoformat_def)

text \<open>The persisted text of a row that only this code writes can be reproduced from its value.\<close>

definition canonical :: "world \<Rightarrow> bool" where
  "canonical w = (let j = r_failure_candidate_json (current_row w) in json_dumps_dict (json_loads_dict j) = j)"

lemma canonical_None: "r_failure_candidate_json (current_row w) = None \<Longrightarrow> canonical w"
  by (simp add: canonical_def json_loads_dict_def json_dumps_dict_def)

lemma canonical_dumps: "r_failure_candidate_json (current_row w) = json_dumps_dict (PDict c) \<Longrightarrow> canonical w"
  by (simp add: canonical_def)

definition written_row :: "world \<Rightarrow> pyval \<Rightarrow> pyval \<Rightarrow> pyval \<Rightarrow> wd_row" where
  "written_row w p c d = (current_row w)\<lparr>r_path_key := p, r_failure_candidate_json := json_dumps_dict c,
     r_last_processed_decision_id := d, r_updated_at := PStr (wd_clock w)\<rparr>"

lemma write_over_quiet:
  assumes "wd_env w = []" and "canonical w"
  shows "write_over (state_of (wd_row w)) p c d w
    = (Some (row_state (written_row w p c d)), w\<lparr>wd_row := Some (written_row w p c d)\<rparr>)"
  using assms
  by (simp add: write_over_def update_quiet has_assignments_def row_expected_def canonical_def Let_def
      apply_assignments_def written_row_def)

lemma quality_history_reload:
  assumes "dict_get c ''quality_checks'' = PList (map PDict hs)"
  shows "candidate_quality_history (items (sort_keys (PDict c))) = map (\<lambda>e. items (sort_keys (PDict e))) hs"
proof -
  have "dict_get (items (sort_keys (PDict c))) ''quality_checks'' = PList (map (sort_keys \<circ> PDict) hs)"
    using assms by (simp add: items_get_in) 
  moreover have "filter is_dict (map (sort_keys \<circ> PDict) hs) = map (sort_keys \<circ> PDict) hs"
    by (simp add: filter_id_conv)
  ultimately show ?thesis by (simp add: candidate_quality_history_def)
qed

lemma is_degraded_reload [simp]: "is_degraded (items (sort_keys (PDict e))) = is_degraded e"
  by (simp add: is_degraded_def items_get_in)

text \<open>The row watches a server: a candidate whose history is \<open>n\<close> degraded checks, the last at \<open>t\<close>.\<close>

definition watching :: "string \<Rightarrow> string \<Rightarrow> string \<Rightarrow> nat \<Rightarrow> string \<Rightarrow> world \<Rightarrow> bool" where
  "watching kind path server n t w = (wd_env w = [] \<and> 0 < n \<and>
     (\<exists>c hs. r_failure_candidate_json (current_row w) = json_dumps_dict (PDict c)
        \<and> dict_get c ''kind'' = PStr kind \<and> dict_get c ''path_key'' = PStr path
        \<and> dict_get c ''server_id'' = PStr server \<and> \<not> is_dict (dict_get c ''recovery_pending'')
        \<and> dict_get c ''quality_checks'' = PList (map PDict hs)
        \<and> length hs = n \<and> list_all is_degraded hs \<and> dict_get (last hs) ''checked_at'' = PStr t))"

definition evaluable :: "pyval \<Rightarrow> pyval \<Rightarrow> bool \<Rightarrow> pydict \<Rightarrow> bool" where
  "evaluable srv path resp ts =
     (let ids = signal_identity srv path ts
      in s_path_key ids \<noteq> [] \<and> s_server_id ids \<noteq> [] \<and> s_collected_at ids \<noteq> [] \<and> s_decision_id ids \<noteq> []
         \<and> (resp \<longrightarrow> truthy (dict_get ts ''response_observed'')))"

lemma bad_count_all: "list_all is_degraded h \<Longrightarrow> quality_history_bad_count h = int (length h)"
  by (simp add: quality_history_bad_count_def list_all_iff)

lemma append_history_degraded:
  assumes "list_all is_degraded hs" and "is_degraded e" and "int (length hs) < m" and "2 \<le> m"
    and "hs \<noteq> [] \<Longrightarrow> dict_get (last hs) ''checked_at'' = PStr t" and "dict_get e ''checked_at'' = PStr t'"
    and "t \<noteq> t'"
  shows "append_quality_history hs e m = hs @ [e]"
proof -
  have "py_str (py_or (PStr x) (PStr [])) = x" for x by (cases x) auto
  then show ?thesis using assms by (auto simp: append_quality_history_def Let_def)
qed

lemma kind_dict_not_recovery:
  "get_in c ''kind'' = PStr k \<Longrightarrow> k \<noteq> ''traffic_recovery'' \<Longrightarrow> get_in c ''kind'' \<noteq> PStr ''traffic_recovery''"
  by simp

lemma watching_candidate:
  assumes "watching kind path server n t w"
  obtains c hs where "json_loads_dict (r_failure_candidate_json (current_row w)) = sort_keys (PDict c)"
    "get_in (sort_keys (PDict c)) ''kind'' = PStr kind" "get_in (sort_keys (PDict c)) ''path_key'' = PStr path"
    "get_in (sort_keys (PDict c)) ''server_id'' = PStr server"
    "\<not> is_dict (get_in (sort_keys (PDict c)) ''recovery_pending'')"
    "candidate_quality_history (items (sort_keys (PDict c))) = hs"
    "length hs = n" "list_all is_degraded hs" "dict_get (last hs) ''checked_at'' = PStr t" "canonical w"
    "is_list (get_in (sort_keys (PDict c)) ''quality_checks'')"
proof -
  from assms obtain c gs where
    c: "r_failure_candidate_json (current_row w) = json_dumps_dict (PDict c)"
      "dict_get c ''kind'' = PStr kind" "dict_get c ''path_key'' = PStr path"
      "dict_get c ''server_id'' = PStr server" "\<not> is_dict (dict_get c ''recovery_pending'')"
      "dict_get c ''quality_checks'' = PList (map PDict gs)"
      "length gs = n" "list_all is_degraded gs" "dict_get (last gs) ''checked_at'' = PStr t" and n: "0 < n"
    unfolding watching_def by blast
  let ?hs = "map (\<lambda>e. items (sort_keys (PDict e))) gs"
  have gs: "gs \<noteq> []" using c(7) n by auto
  have "dict_get (last ?hs) ''checked_at'' = PStr t"
    using gs c(9) by (simp add: last_map items_get_in)
  moreover have "list_all is_degraded ?hs" using c(8) by (simp add: list.pred_map comp_def)
  ultimately show ?thesis
    using that [of c ?hs] c quality_history_reload [OF c(6)] canonical_dumps [OF c(1)]
    by auto
qed

lemma settle_first_seen_get:
  "k \<noteq> ''first_seen_at'' \<Longrightarrow> dict_get (fst (settle_first_seen c now parse)) k = dict_get c k"
  by (simp add: settle_first_seen_def split: option.split)

lemma settle_first_seen_history:
  "is_list (dict_get c ''quality_checks'') \<Longrightarrow>
   candidate_quality_history (fst (settle_first_seen c now parse)) = candidate_quality_history c"
  by (cases "dict_get c ''quality_checks''")
    (auto simp: candidate_quality_history_def settle_first_seen_def split: option.split)

lemma next_candidate_get:
  "dict_get (next_quality_candidate c h ids now ac ts) ''kind'' = dict_get c ''kind''"
  "dict_get (next_quality_candidate c h ids now ac ts) ''path_key'' = dict_get c ''path_key''"
  "dict_get (next_quality_candidate c h ids now ac ts) ''server_id'' = dict_get c ''server_id''"
  "dict_get (next_quality_candidate c h ids now ac ts) ''recovery_pending'' = dict_get c ''recovery_pending''"
  "dict_get (next_quality_candidate c h ids now ac ts) ''quality_checks'' = PList (map PDict h)"
  by (simp_all add: next_quality_candidate_def Let_def)

lemma degraded_entry [simp]:
  "is_degraded (active_quality_history_entry now d True ac ts)"
  "dict_get (active_quality_history_entry now d True ac ts) ''checked_at'' = PStr (isoformat now)"
  by (simp_all add: active_quality_history_entry_def is_degraded_def)

lemma new_candidate_get:
  "dict_get (new_quality_candidate kind ids now ac ts) ''kind'' = PStr kind"
  "dict_get (new_quality_candidate kind ids now ac ts) ''path_key'' = PStr (s_path_key ids)"
  "dict_get (new_quality_candidate kind ids now ac ts) ''server_id'' = PStr (s_server_id ids)"
  "dict_get (new_quality_candidate kind ids now ac ts) ''recovery_pending'' = PNone"
  "dict_get (new_quality_candidate kind ids now ac ts) ''quality_checks''
     = PList (map PDict [active_quality_history_entry now (s_decision_id ids) True ac ts])"
  by (simp_all add: new_quality_candidate_def)

lemma written_row_json [simp]: "r_failure_candidate_json (written_row w p c d) = json_dumps_dict c"
  by (simp add: written_row_def)

lemma watchingI:
  assumes "wd_env w = []" and "dict_get c ''kind'' = PStr kind" and "dict_get c ''path_key'' = PStr path"
    and "dict_get c ''server_id'' = PStr server" and "\<not> is_dict (dict_get c ''recovery_pending'')"
    and "dict_get c ''quality_checks'' = PList (map PDict hs)" and "hs \<noteq> []" and "list_all is_degraded hs"
    and "dict_get (last hs) ''checked_at'' = PStr t"
  shows "watching kind path server (length hs) t (w\<lparr>wd_row := Some (written_row v p (PDict c) d), wd_mem := m\<rparr>)"
  using assms by (auto simp: watching_def intro!: exI [of _ c] exI [of _ hs])

text \<open>A first degraded check in a quiet world with no candidate starts watching.\<close>

lemma first_check_watches:
  assumes q: "wd_env w = []" and none: "r_failure_candidate_json (current_row w) = None" "\<not> is_dict (wd_mem w)"
    and ev: "evaluable srv path resp ts"
    and r: "active_quality_degraded_confirmation srv ac ts confirm bad window wbad path now parse kind resp w = (res, w')"
  shows "dict_get res ''confirmed'' = PBool False
    \<and> watching kind (s_path_key (signal_identity srv path ts)) (s_server_id (signal_identity srv path ts)) 1 (isoformat now) w'"
proof -
  let ?ids = "signal_identity srv path ts"
  let ?c = "new_quality_candidate kind ?ids now ac ts"
  have "active_quality_degraded_confirmation srv ac ts confirm bad window wbad path now parse kind resp w
    = first_degraded_check kind resp ?ids (quality_requirements confirm bad window wbad) now ac ts (state_of (wd_row w)) w"
    using q none ev
    by (auto simp: active_quality_degraded_confirmation_def evaluable_def Let_def json_loads_dict_def get_in_def)
  with r have f: "first_degraded_check kind resp ?ids (quality_requirements confirm bad window wbad) now ac ts
      (state_of (wd_row w)) w = (res, w')" by simp
  have "dict_get res ''confirmed'' = PBool False" using first_degraded_not_confirmed f by (metis fst_conv)
  moreover have "w' = w\<lparr>wd_row := Some (written_row w (PStr (s_path_key ?ids)) (PDict ?c) (PStr (s_decision_id ?ids))),
      wd_mem := PDict ?c\<rparr>"
    using f write_over_quiet [OF q canonical_None [OF none(1)]] by (simp add: first_degraded_check_def Let_def)
  ultimately show ?thesis
    using watchingI [OF q, of ?c kind _ _ "[active_quality_history_entry now (s_decision_id ?ids) True ac ts]"]
    by (simp add: new_candidate_get)
qed

text \<open>A further degraded check extends the history by one; a full window confirms.\<close>

lemma further_check_step:
  assumes q: "wd_env w = []" "canonical w" and h: "extended_quality_history (fst (settle_first_seen c now parse)) ids qr now ac ts = h"
    and r: "further_degraded_check resp ids qr now parse ac ts (state_of (wd_row w)) c w = (res, w')"
  shows "\<exists>c1. c1 = next_quality_candidate (fst (settle_first_seen c now parse)) h ids now ac ts \<and>
    (if quality_history_bad_count h < q_bad_checks qr \<or> int (length h) < q_window_checks qr
        \<or> quality_history_bad_count h < q_window_bad_checks qr
     then dict_get res ''confirmed'' = PBool False
       \<and> w' = w\<lparr>wd_row := Some (written_row w (PStr (s_path_key ids)) (PDict c1) (PStr (s_decision_id ids))),
               wd_mem := PDict c1\<rparr>
     else dict_get res ''confirmed'' = PBool True
       \<and> wd_env w' = [] \<and> r_failure_candidate_json (current_row w') = None \<and> wd_mem w' = PNone)"
proof -
  obtain c0 fs where s: "settle_first_seen c now parse = (c0, fs)" by fastforce
  let ?c1 = "next_quality_candidate c0 h ids now ac ts"
  let ?row = "written_row w (PStr (s_path_key ids)) (PDict ?c1) (PStr (s_decision_id ids))"
  let ?w2 = "w\<lparr>wd_row := Some ?row, wd_mem := PDict ?c1\<rparr>"
  let ?u = "no_update\<lparr>u_path_key := Some (PStr (s_path_key ids)), u_failure_candidate := Some PNone,
      u_last_processed_decision_id := Some (PStr (s_decision_id ids)),
      u_expected_failure_candidate := Some (PDict ?c1), u_expected_path_key := Some (PStr (s_path_key ids)),
      u_expected_last_processed_decision_id := Some (PStr (s_decision_id ids))\<rparr>"
  have "row_expected ?u ?row" by (simp add: row_expected_def written_row_def)
  then have up: "update_watchdog_runtime_state ?u ?w2
      = (Some (row_state (apply_assignments ?u (wd_clock w) ?row)),
         ?w2\<lparr>wd_row := Some (apply_assignments ?u (wd_clock w) ?row)\<rparr>)"
    using q(1) by (simp add: update_quiet has_assignments_def)
  have none: "r_failure_candidate_json (apply_assignments ?u (wd_clock w) ?row) = None"
    by (simp add: apply_assignments_def json_dumps_dict_def)
  have h': "extended_quality_history c0 ids qr now ac ts = h" using h s by simp
  show ?thesis
    using r q(1) none
    by (auto simp: further_degraded_check_def s h' write_over_quiet [OF q] up Let_def split: if_splits)
qed

lemma further_check_watches:
  assumes wt: "watching kind (s_path_key (signal_identity srv path ts)) (s_server_id (signal_identity srv path ts)) n t w"
    and kind: "kind \<noteq> ''traffic_recovery''" and ev: "evaluable srv path resp ts" and new: "isoformat now \<noteq> t"
    and room: "int n < q_window_checks (quality_requirements confirm bad window wbad)"
    and r: "active_quality_degraded_confirmation srv ac ts confirm bad window wbad path now parse kind resp w = (res, w')"
    and bad: "q_bad_checks (quality_requirements confirm bad window wbad)
              \<le> q_window_checks (quality_requirements confirm bad window wbad)"
  shows "if int (n + 1) < q_window_checks (quality_requirements confirm bad window wbad)
    then dict_get res ''confirmed'' = PBool False
      \<and> watching kind (s_path_key (signal_identity srv path ts)) (s_server_id (signal_identity srv path ts))
          (n + 1) (isoformat now) w'
    else dict_get res ''confirmed'' = PBool True
      \<and> wd_env w' = [] \<and> r_failure_candidate_json (current_row w') = None \<and> wd_mem w' = PNone"
proof -
  let ?ids = "signal_identity srv path ts"
  let ?q = "quality_requirements confirm bad window wbad"
  have q: "wd_env w = []" and n: "0 < n" using wt by (auto simp: watching_def)
  obtain c hs where
    c: "json_loads_dict (r_failure_candidate_json (current_row w)) = sort_keys (PDict c)"
      "get_in (sort_keys (PDict c)) ''kind'' = PStr kind" "get_in (sort_keys (PDict c)) ''path_key'' = PStr (s_path_key ?ids)"
      "get_in (sort_keys (PDict c)) ''server_id'' = PStr (s_server_id ?ids)"
      "\<not> is_dict (get_in (sort_keys (PDict c)) ''recovery_pending'')"
      "candidate_quality_history (items (sort_keys (PDict c))) = hs"
      "length hs = n" "list_all is_degraded hs" "dict_get (last hs) ''checked_at'' = PStr t" "canonical w"
      "is_list (get_in (sort_keys (PDict c)) ''quality_checks'')"
    using wt by (rule watching_candidate)
  let ?c = "items (sort_keys (PDict c))"
  let ?e = "active_quality_history_entry now (s_decision_id ?ids) True ac ts"
  let ?settled = "fst (settle_first_seen ?c now parse)"
  have qc: "is_list (dict_get ?c ''quality_checks'')" using c(11) by (simp add: items_get_in)
  have hs: "append_quality_history hs ?e (q_window_checks ?q) = hs @ [?e]"
    using c(7-9) new room requirements_bounds(2)
    by (intro append_history_degraded [where t = t and t' = "isoformat now"]) auto
  have h: "extended_quality_history ?settled ?ids ?q now ac ts = hs @ [?e]"
    by (simp add: extended_quality_history_def settle_first_seen_history [OF qc] c(6) hs)
  have "further_degraded_check resp ?ids ?q now parse ac ts (state_of (wd_row w)) ?c w = (res, w')"
    using r q ev c(1-5) kind
    by (auto simp: active_quality_degraded_confirmation_def evaluable_def Let_def)
  from further_check_step [OF q c(10) h this] obtain c1 where
    c1: "c1 = next_quality_candidate ?settled (hs @ [?e]) ?ids now ac ts" and
    step: "if quality_history_bad_count (hs @ [?e]) < q_bad_checks ?q \<or> int (length (hs @ [?e])) < q_window_checks ?q
        \<or> quality_history_bad_count (hs @ [?e]) < q_window_bad_checks ?q
     then dict_get res ''confirmed'' = PBool False
       \<and> w' = w\<lparr>wd_row := Some (written_row w (PStr (s_path_key ?ids)) (PDict c1) (PStr (s_decision_id ?ids))),
               wd_mem := PDict c1\<rparr>
     else dict_get res ''confirmed'' = PBool True
       \<and> wd_env w' = [] \<and> r_failure_candidate_json (current_row w') = None \<and> wd_mem w' = PNone"
    by blast
  have all: "list_all is_degraded (hs @ [?e])" using c(8) by simp
  have cnt: "quality_history_bad_count (hs @ [?e]) = int (n + 1)" using bad_count_all [OF all] c(7) by simp
  have get: "dict_get c1 k = get_in (sort_keys (PDict c)) k"
    if "k \<in> {''kind'', ''path_key'', ''server_id'', ''recovery_pending''}" for k
    using that by (auto simp: c1 next_candidate_get settle_first_seen_get items_get_in)
  have qcs: "dict_get c1 ''quality_checks'' = PList (map PDict (hs @ [?e]))" by (simp add: c1 next_candidate_get)
  have "watching kind (s_path_key ?ids) (s_server_id ?ids) (length (hs @ [?e])) (isoformat now)
      (w\<lparr>wd_row := Some (written_row w (PStr (s_path_key ?ids)) (PDict c1) (PStr (s_decision_id ?ids))), wd_mem := PDict c1\<rparr>)"
    using q all c(2-5) qcs by (intro watchingI) (simp_all add: get)
  then show ?thesis
    using step cnt c(7) bad requirements_bounds(1) [of confirm bad window wbad] room by (auto split: if_splits)
qed

lemma signal_identity_stable:
  "s_path_key (signal_identity srv path ts) = clean (py_or path (PStr (clean srv)))"
  "s_server_id (signal_identity srv path ts) = clean srv"
  by (simp_all add: signal_identity_def Let_def)

text \<open>A sequence of checks, each with its own time, check result and traffic signal.\<close>

type_synonym check = "datetime \<times> pydict \<times> pydict"

fun run_checks :: "(check \<Rightarrow> world \<Rightarrow> pydict \<times> world) \<Rightarrow> check list \<Rightarrow> world \<Rightarrow> pydict list \<times> world" where
  "run_checks f [] w = ([], w)"
| "run_checks f (x # xs) w =
     (case f x w of (r, w1) \<Rightarrow> (case run_checks f xs w1 of (rs, w2) \<Rightarrow> (r # rs, w2)))"

definition degraded_checks ::
  "pyval \<Rightarrow> int \<Rightarrow> int \<Rightarrow> int \<Rightarrow> int \<Rightarrow> pyval \<Rightarrow> (pyval \<Rightarrow> datetime option) \<Rightarrow> string \<Rightarrow> bool
   \<Rightarrow> check list \<Rightarrow> world \<Rightarrow> pydict list \<times> world" where
  "degraded_checks srv confirm bad window wbad path parse kind resp =
     run_checks (\<lambda>(now, ac, ts). active_quality_degraded_confirmation srv ac ts confirm bad window wbad path now
                                   parse kind resp)"

definition cleared :: "world \<Rightarrow> bool" where
  "cleared w = (wd_env w = [] \<and> r_failure_candidate_json (current_row w) = None \<and> wd_mem w = PNone)"

lemma degraded_checks_watching:
  assumes "watching kind (clean (py_or path (PStr (clean srv)))) (clean srv) n t w"
    and "q_window_checks q = int (n + length cs)" and "cs \<noteq> []" and "q = quality_requirements confirm bad window wbad"
    and "q_bad_checks q \<le> q_window_checks q" and "kind \<noteq> ''traffic_recovery''"
    and "\<forall>(now, ac, ts) \<in> set cs. evaluable srv path resp ts"
    and "successively (\<noteq>) (t # map (isoformat \<circ> fst) cs)"
    and "degraded_checks srv confirm bad window wbad path parse kind resp cs w = (rs, w')"
  shows "map (\<lambda>r. dict_get r ''confirmed'') rs = replicate (length cs - 1) (PBool False) @ [PBool True] \<and> cleared w'"
  using assms
proof (induction cs arbitrary: n t w rs)
  case Nil
  then show ?case by simp
next
  case (Cons x cs)
  obtain now ac ts where x: "x = (now, ac, ts)" by (cases x)
  obtain r w1 where r: "active_quality_degraded_confirmation srv ac ts confirm bad window wbad path now parse kind resp w = (r, w1)"
    by fastforce
  obtain rs1 where rs: "rs = r # rs1" and
    run: "degraded_checks srv confirm bad window wbad path parse kind resp cs w1 = (rs1, w')"
    using Cons.prems(9) r x by (auto simp: degraded_checks_def split: prod.splits)
  have step: "if int (n + 1) < q_window_checks q then dict_get r ''confirmed'' = PBool False
      \<and> watching kind (clean (py_or path (PStr (clean srv)))) (clean srv) (n + 1) (isoformat now) w1
    else dict_get r ''confirmed'' = PBool True \<and> wd_env w1 = [] \<and> r_failure_candidate_json (current_row w1) = None
      \<and> wd_mem w1 = PNone"
  proof -
    have t: "isoformat now \<noteq> t" and ev: "evaluable srv path resp ts"
      using Cons.prems(7,8) x by (auto simp: successively_Cons)
    have wt: "watching kind (s_path_key (signal_identity srv path ts)) (s_server_id (signal_identity srv path ts)) n t w"
      using Cons.prems(1) by (simp add: signal_identity_stable)
    have room: "int n < q_window_checks q" using Cons.prems(2) by simp
    show ?thesis
      using further_check_watches [OF wt Cons.prems(6) ev t room [unfolded Cons.prems(4)] r
          Cons.prems(5) [unfolded Cons.prems(4)]]
      unfolding signal_identity_stable Cons.prems(4) .
  qed
  show ?case
  proof (cases "cs = []")
    case True
    then show ?thesis using step Cons.prems(2) run rs by (simp add: degraded_checks_def cleared_def)
  next
    case False
    then have w1: "dict_get r ''confirmed'' = PBool False"
      "watching kind (clean (py_or path (PStr (clean srv)))) (clean srv) (n + 1) (isoformat now) w1"
      using step Cons.prems(2) by (simp_all split: if_splits)
    have "successively (\<noteq>) (isoformat now # map (isoformat \<circ> fst) cs)"
      using Cons.prems(8) x by (simp add: successively_Cons comp_def)
    then have "map (\<lambda>r. dict_get r ''confirmed'') rs1 = replicate (length cs - 1) (PBool False) @ [PBool True] \<and> cleared w'"
      using Cons.IH [OF w1(2) _ False Cons.prems(4,5,6) _ _ run] Cons.prems(2,7) by (simp add: comp_def)
    then show ?thesis using rs w1(1) False by (cases cs) auto
  qed
qed

lemma degraded_checks_confirm:
  assumes quiet: "wd_env w = []" "r_failure_candidate_json (current_row w) = None" "\<not> is_dict (wd_mem w)"
    and q: "q = quality_requirements confirm bad window wbad" "q_bad_checks q \<le> q_window_checks q"
    and kind: "kind \<noteq> ''traffic_recovery''"
    and len: "int (length cs) = q_window_checks q"
    and ev: "\<forall>(now, ac, ts) \<in> set cs. evaluable srv path resp ts"
    and dist: "successively (\<noteq>) (map (isoformat \<circ> fst) cs)"
    and run: "degraded_checks srv confirm bad window wbad path parse kind resp cs w = (rs, w')"
  shows "map (\<lambda>r. dict_get r ''confirmed'') rs = replicate (length cs - 1) (PBool False) @ [PBool True] \<and> cleared w'"
proof -
  have w2: "2 \<le> q_window_checks q" using q(1) requirements_bounds(2) by simp
  then obtain x y ys where cs: "cs = x # y # ys"
    using len by (cases cs; cases "tl cs") auto
  obtain now ac ts where x: "x = (now, ac, ts)" by (cases x)
  obtain r w1 where r: "active_quality_degraded_confirmation srv ac ts confirm bad window wbad path now parse kind resp w = (r, w1)"
    by fastforce
  obtain rs1 where rs: "rs = r # rs1" and
    run1: "degraded_checks srv confirm bad window wbad path parse kind resp (y # ys) w1 = (rs1, w')"
    using run r x cs by (auto simp: degraded_checks_def split: prod.splits)
  have evx: "evaluable srv path resp ts" using ev cs x by auto
  have f: "dict_get r ''confirmed'' = PBool False"
    "watching kind (clean (py_or path (PStr (clean srv)))) (clean srv) 1 (isoformat now) w1"
    using first_check_watches [OF quiet evx r] by (simp_all add: signal_identity_stable)
  have "map (\<lambda>r. dict_get r ''confirmed'') rs1 = replicate (length (y # ys) - 1) (PBool False) @ [PBool True] \<and> cleared w'"
    using degraded_checks_watching [OF f(2) _ _ q(1) q(2) kind _ _ run1] len dist ev cs x by simp
  then show ?thesis using rs f(1) cs by simp
qed

section \<open>Sample executions\<close>

text \<open>An empty table without interference, two signals two minutes apart, and two degraded checks.\<close>

definition sample_world :: world where
  "sample_world = \<lparr>wd_row = None, wd_mem = PNone, wd_clock = ''2024-01-01 00:00:00'', wd_env = []\<rparr>"

definition sample_signal :: pydict where
  "sample_signal = [(''last_collected_at'', PStr ''2024-01-01T00:00:00+00:00''), (''response_observed'', PBool True),
     (''traffic_stalled'', PBool True)]"

definition second_signal :: pydict where
  "second_signal = [(''last_collected_at'', PStr ''2024-01-01T00:02:00+00:00''), (''response_observed'', PBool True),
     (''traffic_stalled'', PBool True)]"

definition first_sample_check :: "world \<Rightarrow> pydict \<times> world" where
  "first_sample_check = active_quality_degraded_confirmation (PStr ''srv'') [] sample_signal 180 2 2 2 PNone 0
     (\<lambda>_. None) ''active_quality_degraded'' True"

definition second_sample_check :: "world \<Rightarrow> pydict \<times> world" where
  "second_sample_check = active_quality_degraded_confirmation (PStr ''srv'') [] second_signal 180 2 2 2 PNone 1000000
     (\<lambda>_. None) ''active_quality_degraded'' True"

section \<open>Properties of the confirmation\<close>



text \<open>
  C13. A server that stays degraded is confirmed after exactly one window. From a clean state with no
  interference, as many consecutive degraded checks as the window has (with evaluable signals and
  pairwise different successive times) give \<open>confirmed: False\<close> for all but the last and
  \<open>confirmed: True\<close> for the last, which clears the candidate from the row and from memory.
\<close>

theorem persistent_degradation_confirms:
  assumes "wd_env w = []" and "r_failure_candidate_json (current_row w) = None" and "\<not> is_dict (wd_mem w)"
    and "q = quality_requirements confirm bad window wbad" and "q_bad_checks q \<le> q_window_checks q"
    and "kind \<noteq> ''traffic_recovery''" and "int (length cs) = q_window_checks q"
    and "\<forall>(now, ac, ts) \<in> set cs. evaluable srv path resp ts"
    and "successively (\<noteq>) (map (isoformat \<circ> fst) cs)"
    and "degraded_checks srv confirm bad window wbad path parse kind resp cs w = (rs, w')"
  shows "map (\<lambda>r. dict_get r ''confirmed'') rs = replicate (length cs - 1) (PBool False) @ [PBool True]
    \<and> cleared w'"
  using assms by (rule degraded_checks_confirm)

theorem persistent_degradation_confirms_witness:
  "map (\<lambda>r. dict_get r ''confirmed'')
     (fst (degraded_checks (PStr ''srv'') 180 2 2 2 PNone (\<lambda>_. None) ''active_quality_degraded'' True
        [(0, [], sample_signal), (1000000, [], second_signal)] sample_world))
   = [PBool False, PBool True]"
proof -
  let ?cs = "[(0, [], sample_signal), (1000000, [], second_signal)] :: check list"
  have env: "wd_env sample_world = []" "\<not> is_dict (wd_mem sample_world)" by (simp_all add: sample_world_def)
  have row: "r_failure_candidate_json (current_row sample_world) = None"
    by (simp add: sample_world_def current_row_def default_row_def)
  have q: "q_bad_checks (quality_requirements 180 2 2 2) \<le> q_window_checks (quality_requirements 180 2 2 2)"
    "int (length ?cs) = q_window_checks (quality_requirements 180 2 2 2)" by code_simp+
  have ev: "\<forall>(now, ac, ts) \<in> set ?cs. evaluable (PStr ''srv'') PNone True ts" by code_simp
  have t: "successively (\<noteq>) (map (isoformat \<circ> fst) ?cs)" by code_simp
  show ?thesis
    using persistent_degradation_confirms [OF env(1) row env(2) refl q(1) _ q(2) ev t prod.collapse [symmetric]]
    by simp
qed

text \<open>
  The two bounds must fit together. With more bad checks required than the window holds, no
  degradation is ever confirmed, in any world: the configuration accepts such values
  (\<open>active_quality_bad_checks_required\<close> up to 20, \<open>active_quality_window_checks\<close> from 2).
\<close>

theorem bad_checks_beyond_window_never_confirm:
  assumes "q_window_checks (quality_requirements confirm bad window wbad)
           < q_bad_checks (quality_requirements confirm bad window wbad)"
  shows "dict_get (fst (active_quality_degraded_confirmation srv ac ts confirm bad window wbad path now parse kind resp w))
           ''confirmed'' \<noteq> PBool True"
proof
  assume c: "dict_get (fst (active_quality_degraded_confirmation srv ac ts confirm bad window wbad path now parse kind resp w))
    ''confirmed'' = PBool True"
  obtain res w' where r: "active_quality_degraded_confirmation srv ac ts confirm bad window wbad path now parse kind resp w = (res, w')"
    by fastforce
  show False
    using degraded_confirmed_history [OF r] c r bad_count_le_length assms
    by (metis fst_conv order.strict_trans2 order_less_irrefl order_trans)
qed

theorem bad_checks_beyond_window_never_confirm_witness:
  "dict_get (fst (active_quality_degraded_confirmation (PStr ''srv'') [] sample_signal 180 20 2 2 PNone 0
     (\<lambda>_. None) ''active_quality_degraded'' True sample_world)) ''confirmed'' \<noteq> PBool True"
proof -
  have "q_window_checks (quality_requirements 180 20 2 2) < q_bad_checks (quality_requirements 180 20 2 2)" by code_simp
  then show ?thesis by (rule bad_checks_beyond_window_never_confirm)
qed

end
