(* ===== verification/Watchdog_Recovery.thy ===== *)
theory Watchdog_Recovery
  imports Watchdog_Confirmation
begin

text \<open>
  The pending recovery incident, the confirmation of stalled traffic and the failover cooldown of
  \<open>services/watchdog_failure_state.py\<close>: the incident survives every confirmation operation and
  is a compare-and-set cell; stalled traffic is confirmed exactly when it lasted; the cooldown that a
  failover records is active for its whole length.
\<close>

section \<open>The incident across the operations of a quiet world\<close>

definition incident :: "world \<Rightarrow> pyval" where
  "incident w = get_in (json_loads_dict (r_failure_candidate_json (current_row w))) ''recovery_pending''"

definition holds_incident :: "pyval \<Rightarrow> world \<Rightarrow> bool" where
  "holds_incident p w = (wd_env w = [] \<and> is_dict (incident w) \<and> sort_keys (incident w) = sort_keys p)"

lemma update_unconditional:
  assumes "wd_env w = []" and "\<not> update_conditional u" and "has_assignments u"
  shows "update_watchdog_runtime_state u w
    = (Some (row_state (apply_assignments u (wd_clock w) (current_row w))),
       w\<lparr>wd_row := Some (apply_assignments u (wd_clock w) (current_row w))\<rparr>)"
  using assms by (simp add: update_quiet)

lemma incident_mem [simp]: "incident (w\<lparr>wd_mem := m\<rparr>) = incident w"
  by (simp add: incident_def current_row_def split: option.split)

lemma current_row_mem [simp]: "current_row (w\<lparr>wd_mem := m\<rparr>) = current_row w"
  by (simp add: current_row_def split: option.split)

lemma update_incident:
  assumes "wd_env w = []" and "\<not> update_conditional u" and "has_assignments u"
    and "u_failure_candidate u = Some (PDict c)"
  shows "incident (snd (update_watchdog_runtime_state u w)) = sort_keys (dict_get c ''recovery_pending'')"
    and "wd_env (snd (update_watchdog_runtime_state u w)) = []"
  using assms by (simp_all add: update_unconditional incident_def apply_assignments_def)

lemma update_keeps_incident:
  assumes "wd_env w = []" and "\<not> update_conditional u" and "u_failure_candidate u = None"
  shows "incident (snd (update_watchdog_runtime_state u w)) = incident w"
    and "wd_env (snd (update_watchdog_runtime_state u w)) = []"
proof -
  have "incident (snd (update_watchdog_runtime_state u w)) = incident w
    \<and> wd_env (snd (update_watchdog_runtime_state u w)) = []"
  proof (cases "has_assignments u")
    case True
    then show ?thesis using assms by (simp add: update_unconditional incident_def apply_assignments_def)
  next
    case False
    then show ?thesis
      using assms by (simp add: update_watchdog_runtime_state_def Let_def incident_def)
  qed
  then show "incident (snd (update_watchdog_runtime_state u w)) = incident w"
    and "wd_env (snd (update_watchdog_runtime_state u w)) = []" by simp_all
qed

lemma holds_incidentI:
  "wd_env w = [] \<Longrightarrow> incident w = sort_keys p \<Longrightarrow> is_dict p \<Longrightarrow> holds_incident p w"
  by (simp add: holds_incident_def)

text \<open>The row's candidate of a world that holds an incident is a dictionary.\<close>

lemma holds_incidentE:
  assumes "holds_incident p w"
  obtains c where "wd_env w = []" "json_loads_dict (r_failure_candidate_json (current_row w)) = PDict c"
    "is_dict (dict_get c ''recovery_pending'')" "sort_keys (dict_get c ''recovery_pending'') = sort_keys p" "is_dict p"
proof -
  have "is_dict (json_loads_dict (r_failure_candidate_json (current_row w)))"
    using assms by (cases "json_loads_dict (r_failure_candidate_json (current_row w))")
      (auto simp: holds_incident_def incident_def get_in_def)
  then obtain c where c: "json_loads_dict (r_failure_candidate_json (current_row w)) = PDict c"
    by (auto simp: is_dict_iff)
  then have "is_dict (dict_get c ''recovery_pending'')" "sort_keys (dict_get c ''recovery_pending'') = sort_keys p"
    using assms by (simp_all add: holds_incident_def incident_def)
  moreover from this have "is_dict p" by (metis is_dict_sort_keys)
  ultimately show thesis using that assms c by (simp add: holds_incident_def)
qed

lemma update_holds:
  assumes "wd_env w = []" and "\<not> update_conditional u" and "has_assignments u"
    and "u_failure_candidate u = Some (PDict c)" and "is_dict p"
    and "sort_keys (dict_get c ''recovery_pending'') = sort_keys p"
  shows "holds_incident p (snd (update_watchdog_runtime_state u w))"
  using assms by (intro holds_incidentI) (simp_all add: update_incident)

lemma update_stub_holds:
  assumes "wd_env w = []" and "\<not> update_conditional u" and "has_assignments u"
    and "u_failure_candidate u = Some (recovery_stub k q)" and "is_dict p" and "sort_keys q = sort_keys p"
  shows "holds_incident p (snd (update_watchdog_runtime_state u w))"
  using assms by (intro update_holds [where c = "items (recovery_stub k q)"]) (simp_all add: recovery_stub_def)

lemma reset_holds:
  assumes "holds_incident p w"
  shows "holds_incident p (reset_traffic_failure_candidate w)"
  using assms
proof (rule holds_incidentE)
  fix c
  assume c: "wd_env w = []" "json_loads_dict (r_failure_candidate_json (current_row w)) = PDict c"
    "is_dict (dict_get c ''recovery_pending'')" "sort_keys (dict_get c ''recovery_pending'') = sort_keys p" "is_dict p"
  show ?thesis
    using c unfolding reset_traffic_failure_candidate_def
    by (simp add: Let_def set_traffic_failure_candidate_def)
      (rule update_stub_holds [where k = "dict_get c ''path_key''" and q = "dict_get c ''recovery_pending''"];
       simp add: update_conditional_def has_assignments_def)
qed

lemma reset_stalled_holds:
  assumes "holds_incident p w"
  shows "holds_incident p (reset_stalled_traffic_failure_candidate w)"
  using assms
proof (rule holds_incidentE)
  fix c
  assume c: "wd_env w = []" "json_loads_dict (r_failure_candidate_json (current_row w)) = PDict c"
    "is_dict (dict_get c ''recovery_pending'')" "sort_keys (dict_get c ''recovery_pending'') = sort_keys p" "is_dict p"
  show ?thesis
  proof (cases "dict_get c ''kind'' = PStr ''active_quality_degraded''")
    case True
    then show ?thesis using c by (simp add: reset_stalled_traffic_failure_candidate_def Let_def holds_incident_def incident_def)
  next
    case False
    then show ?thesis
      using c unfolding reset_stalled_traffic_failure_candidate_def
      by (simp add: Let_def)
        (rule update_stub_holds [where k = "dict_get c ''path_key''" and q = "dict_get c ''recovery_pending''"];
       simp add: update_conditional_def has_assignments_def)
  qed
qed

lemma write_stalled_holds:
  assumes "wd_env w = []" and "is_dict p" and "sort_keys (dict_get c ''recovery_pending'') = sort_keys p"
  shows "holds_incident p (write_stalled ids (PDict c) w)" and "wd_env (write_stalled ids (PDict c) w) = []"
  using assms unfolding write_stalled_def
  by (auto intro!: update_holds simp: update_conditional_def has_assignments_def update_incident)

lemma stalled_candidates_pending:
  "is_dict p \<Longrightarrow> dict_get (new_stalled_candidate ids now ts p) ''recovery_pending'' = p"
  "dict_get (next_stalled_candidate c ids n ts) ''recovery_pending'' = dict_get c ''recovery_pending''"
  by (simp_all add: new_stalled_candidate_def next_stalled_candidate_def)

lemma further_stalled_holds:
  assumes "holds_incident p w" and "wd_env w = []" and "is_dict p"
    and "sort_keys (dict_get c ''recovery_pending'') = sort_keys p" and "is_dict (dict_get c ''recovery_pending'')"
  shows "holds_incident p (snd (further_stalled_snapshot ids th now parse ts (dict_get c ''recovery_pending'') c w))"
proof -
  let ?n = "\<lambda>n. next_stalled_candidate c ids n ts"
  have w: "holds_incident p (write_stalled ids (PDict (?n n)) w)"
    "wd_env (write_stalled ids (PDict (?n n)) w) = []" for n
    using assms by (simp_all add: write_stalled_holds stalled_candidates_pending)
  have w2: "holds_incident p (write_stalled ids (recovery_stub k (dict_get c ''recovery_pending''))
      (write_stalled ids (PDict (?n n)) w))" for n k
    unfolding recovery_stub_def by (rule write_stalled_holds) (use assms w(2) in simp_all)
  show ?thesis using assms(1,5) w(1) w2
    by (simp add: further_stalled_snapshot_def Let_def split: sum.split)
qed

lemma traffic_confirmation_holds:
  assumes "holds_incident p w"
  shows "holds_incident p (snd (traffic_failure_confirmation srv ts confirm path now parse w))"
  using assms
proof (rule holds_incidentE)
  fix c
  assume c: "wd_env w = []" "json_loads_dict (r_failure_candidate_json (current_row w)) = PDict c"
    "is_dict (dict_get c ''recovery_pending'')" "sort_keys (dict_get c ''recovery_pending'') = sort_keys p" "is_dict p"
  let ?ids = "signal_identity srv path ts"
  have new: "holds_incident p (write_stalled ?ids (PDict (new_stalled_candidate ?ids now ts (dict_get c ''recovery_pending''))) w)"
    using c by (intro write_stalled_holds) (simp_all add: stalled_candidates_pending)
  have same: "holds_incident p (snd (same_stalled_snapshot ?ids th now parse False c w))" for th
    using assms by (simp add: same_stalled_snapshot_def Let_def split: prod.split sum.split)
  show ?thesis
    using c new same further_stalled_holds [OF assms c(1,5,4,3)] reset_holds [OF assms]
    by (simp add: traffic_failure_confirmation_def Let_def)
qed

lemma degraded_confirmation_holds:
  assumes "holds_incident p w"
  shows "snd (active_quality_degraded_confirmation srv ac ts confirm bad window wbad path now parse kind resp w) = w"
  using assms
  by (rule holds_incidentE) (simp add: active_quality_degraded_confirmation_def Let_def)

lemma recovery_confirmation_holds:
  assumes "holds_incident p w"
  shows "snd (active_quality_recovery_confirmation srv ts good window path now1 now2 w) = w"
  using assms
  by (rule holds_incidentE) (simp add: active_quality_recovery_confirmation_def Let_def)

lemma idle_probe_holds:
  assumes "holds_incident p w"
  shows "holds_incident p (snd (record_idle_probe srv status at w))"
  using assms by (simp add: holds_incident_def record_idle_probe_def update_keeps_incident update_conditional_def)

text \<open>The operations that the watchdog runs while an incident may be pending.\<close>

inductive confirmation_step :: "world \<Rightarrow> world \<Rightarrow> bool" where
  stalled: "confirmation_step w (snd (traffic_failure_confirmation srv ts confirm path now parse w))"
| degraded: "confirmation_step w
    (snd (active_quality_degraded_confirmation srv ac ts confirm bad window wbad path now parse kind resp w))"
| idle: "confirmation_step w
    (snd (idle_active_failure_confirmation srv ac ts confirm bad window wbad path now parse w))"
| recovered: "confirmation_step w (snd (active_quality_recovery_confirmation srv ts good window path now1 now2 w))"
| reset: "confirmation_step w (reset_traffic_failure_candidate w)"
| reset_stalled: "confirmation_step w (reset_stalled_traffic_failure_candidate w)"
| probe: "confirmation_step w (snd (record_idle_probe server status at w))"

lemma confirmation_step_holds:
  assumes "confirmation_step w w'" and "holds_incident p w"
  shows "holds_incident p w'"
  using assms
  by cases (auto intro: traffic_confirmation_holds reset_holds reset_stalled_holds idle_probe_holds
      simp: degraded_confirmation_holds recovery_confirmation_holds idle_active_failure_confirmation_def)

interpretation keep: step_system confirmation_step "holds_incident p" for p
  by unfold_locales (rule confirmation_step_holds)

section \<open>The incident as a compare-and-set cell\<close>

text \<open>Python compares the incident with \<open>==\<close>: key order and \<open>True\<close> against \<open>1\<close> do not matter.\<close>

definition incident_value :: "pyval \<Rightarrow> pyval" where
  "incident_value p = unbool (sort_keys p)"

lemma with_pending_reload:
  "get_in (json_loads_dict (json_dumps_dict (with_recovery_pending c p))) ''recovery_pending'' = sort_keys p"
  by (simp add: with_recovery_pending_def Let_def)

lemma guarded_write_quiet:
  assumes "wd_env w = []" and "wd_row w = Some row"
  shows "guarded_write raw f w =
    (if r_failure_candidate_json row = raw
     then (True, w\<lparr>wd_row := Some ((f row)\<lparr>r_updated_at := PStr (wd_clock w)\<rparr>)\<rparr>) else (False, w))"
  using assms by (simp add: guarded_write_def)

lemma compare_and_set_quiet:
  assumes "wd_env w = []"
  shows "compare_and_set_recovery_pending e p w =
    (if incident_value (incident w) = incident_value e
     then (True, w\<lparr>wd_row := Some ((current_row w)\<lparr>
             r_failure_candidate_json := json_dumps_dict (with_recovery_pending
               (items (json_loads_dict (r_failure_candidate_json (current_row w)))) p),
             r_updated_at := PStr (wd_clock w)\<rparr>)\<rparr>)
     else (False, w\<lparr>wd_row := Some (current_row w)\<rparr>))"
  using assms
  by (simp add: compare_and_set_recovery_pending_def row_candidate_json_def guarded_write_quiet Let_def
      incident_def incident_value_def py_eq_def)

lemma incident_written:
  "incident (w\<lparr>wd_row := Some (row\<lparr>r_failure_candidate_json := json_dumps_dict (with_recovery_pending c p),
     r_updated_at := u\<rparr>)\<rparr>) = sort_keys p"
  by (simp add: incident_def with_pending_reload del: json_loads_dumps)

interpretation rpcas: cas_cell "\<lambda>w. incident_value (incident w)" incident_value
  compare_and_set_recovery_pending "\<lambda>w. wd_env w = []"
proof unfold_locales
  fix w :: world and e p :: pyval
  assume q: "wd_env w = []"
  note cas = compare_and_set_quiet [OF q, of e p]
  show "wd_env (snd (compare_and_set_recovery_pending e p w)) = []" using q by (simp add: cas)
  show "fst (compare_and_set_recovery_pending e p w)" if "incident_value (incident w) = incident_value e"
    using that by (simp add: cas)
  show "incident_value (incident (snd (compare_and_set_recovery_pending e p w))) = incident_value p"
    if "incident_value (incident w) = incident_value e"
    using that by (simp add: cas incident_written) (simp add: incident_value_def)
  show "\<not> fst (compare_and_set_recovery_pending e p w)" if "incident_value (incident w) \<noteq> incident_value e"
    using that by (simp add: cas)
  show "incident_value (incident (snd (compare_and_set_recovery_pending e p w))) = incident_value (incident w)"
    if "incident_value (incident w) \<noteq> incident_value e"
    using that by (simp add: cas incident_def)
qed

section \<open>Stalled traffic\<close>

definition stalled_threshold :: "int \<Rightarrow> int" where
  "stalled_threshold confirm = max 30 (or_default confirm 60)"

text \<open>The candidate that a call finds: the row's, or the one in memory.\<close>

definition found_candidate :: "world \<Rightarrow> pyval" where
  "found_candidate w = (case load_watchdog_runtime_state w of (state, w1) \<Rightarrow>
     let c = dict_get state ''failure_candidate'' in if is_dict c then c else wd_mem w1)"

lemma stalled_result_get [simp]:
  "dict_get (stalled_result b p r ids f a n th) ''confirmed'' = PBool b"
  by (simp add: stalled_result_def)

lemma further_stalled_confirmed:
  assumes "further_stalled_snapshot ids th now parse ts rp c w = (Inr res, w')"
    and "dict_get res ''confirmed'' = PBool True" and "30 \<le> th"
  shows "\<exists>t n. parse (PStr (py_str (py_or (dict_get c ''first_seen_at'') (PStr [])))) = Some t
    \<and> th * 1000000 \<le> now - t
    \<and> py_int (py_or (dict_get c ''stalled_snapshots'') (PInt 1)) = Inr n \<and> 1 \<le> n"
proof -
  let ?t = "snd (settle_first_seen c now parse)"
  have g: "th \<le> max 0 (seconds_between now ?t)"
    and n: "\<exists>n. py_int (py_or (dict_get c ''stalled_snapshots'') (PInt 1)) = Inr n \<and> 1 \<le> n"
    using assms(1,2) by (auto simp: further_stalled_snapshot_def Let_def not_less split: sum.splits if_splits)
  have age: "th * 1000000 \<le> now - ?t" using g assms(3) seconds_between_ge [of th now ?t] by (simp add: max_def split: if_splits)
  then have "?t \<noteq> now" using assms(3) by auto
  then have "parse (PStr (py_str (py_or (dict_get c ''first_seen_at'') (PStr [])))) = Some ?t"
    by (auto simp: settle_first_seen_def split: option.splits)
  then show ?thesis using age n by blast
qed

lemma traffic_confirmed_cases:
  assumes "traffic_failure_confirmation srv ts confirm path now parse w = (Inr res, w')"
    and "dict_get res ''confirmed'' = PBool True" and "ids = signal_identity srv path ts"
  shows "\<exists>rp w1. truthy (dict_get ts ''traffic_stalled'') \<and> is_dict (found_candidate w)
    \<and> get_in (found_candidate w) ''path_key'' = PStr (s_path_key ids)
    \<and> get_in (found_candidate w) ''decision_id'' \<noteq> PStr (s_decision_id ids)
    \<and> further_stalled_snapshot ids (stalled_threshold confirm) now parse ts rp (items (found_candidate w)) w1 = (Inr res, w')"
  using assms
  by (auto simp: traffic_failure_confirmation_def found_candidate_def stalled_threshold_def Let_def
      same_stalled_snapshot_def split: prod.splits if_splits sum.splits)

text \<open>The row after a first stalled snapshot.\<close>

definition stalled_since :: "signal_ids \<Rightarrow> datetime \<Rightarrow> world \<Rightarrow> bool" where
  "stalled_since ids t w = (wd_env w = [] \<and>
     (\<exists>c. r_failure_candidate_json (current_row w) = json_dumps_dict (PDict c)
        \<and> dict_get c ''kind'' = PStr ''stalled_traffic'' \<and> dict_get c ''path_key'' = PStr (s_path_key ids)
        \<and> dict_get c ''decision_id'' = PStr (s_decision_id ids) \<and> dict_get c ''stalled_snapshots'' = PInt 1
        \<and> dict_get c ''first_seen_at'' = PStr (isoformat t) \<and> \<not> is_dict (dict_get c ''recovery_pending'')))"

definition stalled_signal :: "signal_ids \<Rightarrow> pydict \<Rightarrow> bool" where
  "stalled_signal ids ts = (s_path_key ids \<noteq> [] \<and> s_collected_at ids \<noteq> [] \<and> s_decision_id ids \<noteq> []
     \<and> truthy (dict_get ts ''traffic_stalled''))"

lemma write_stalled_quiet:
  assumes "wd_env w = []"
  shows "wd_env (write_stalled ids c w) = []" and "wd_mem (write_stalled ids c w) = c"
    and "r_failure_candidate_json (current_row (write_stalled ids c w)) = json_dumps_dict c"
  using assms
  by (simp_all add: write_stalled_def update_unconditional update_conditional_def has_assignments_def apply_assignments_def)

lemma first_stalled_snapshot:
  assumes "wd_env w = []" and "r_failure_candidate_json (current_row w) = None" and "\<not> is_dict (wd_mem w)"
    and "ids = signal_identity srv path ts" and "stalled_signal ids ts"
  shows "\<exists>res w'. traffic_failure_confirmation srv ts confirm path now parse w = (Inr res, w')
    \<and> dict_get res ''confirmed'' = PBool False \<and> stalled_since ids now w'"
proof -
  let ?c = "new_stalled_candidate ids now ts (get_in (wd_mem w) ''recovery_pending'')"
  have rp: "\<not> is_dict (get_in (wd_mem w) ''recovery_pending'')" using assms(3) by (cases "wd_mem w") (auto simp: get_in_def)
  have r: "traffic_failure_confirmation srv ts confirm path now parse w
    = (Inr (stalled_result False True ''first_stalled_traffic_snapshot'' ids now None 1 (stalled_threshold confirm)),
       write_stalled ids (PDict ?c) w)"
    using assms by (simp add: traffic_failure_confirmation_def stalled_signal_def stalled_threshold_def Let_def json_loads_dict_def)
  have "stalled_since ids now (write_stalled ids (PDict ?c) w)"
    unfolding stalled_since_def using rp assms(1)
    by (intro conjI exI [of _ ?c]) (simp_all add: write_stalled_quiet new_stalled_candidate_def)
  then show ?thesis using r by simp
qed

lemma lasting_stall_confirmed:
  assumes w: "stalled_since ids0 t w" and ids: "ids = signal_identity srv path ts" "s_path_key ids = s_path_key ids0"
    and new: "s_decision_id ids \<noteq> s_decision_id ids0" and st: "stalled_signal ids ts"
    and p: "parse (PStr (isoformat t)) = Some t" and age: "stalled_threshold confirm * 1000000 \<le> now - t"
  shows "\<exists>res w'. traffic_failure_confirmation srv ts confirm path now parse w = (Inr res, w')
    \<and> dict_get res ''confirmed'' = PBool True \<and> cleared w'"
proof -
  from w obtain c where q: "wd_env w = []" and
    c: "r_failure_candidate_json (current_row w) = json_dumps_dict (PDict c)"
      "dict_get c ''kind'' = PStr ''stalled_traffic''" "dict_get c ''path_key'' = PStr (s_path_key ids)"
      "dict_get c ''decision_id'' = PStr (s_decision_id ids0)" "dict_get c ''stalled_snapshots'' = PInt 1"
      "dict_get c ''first_seen_at'' = PStr (isoformat t)" "\<not> is_dict (dict_get c ''recovery_pending'')"
    using ids(2) by (auto simp: stalled_since_def)
  let ?c = "items (sort_keys (PDict c))" and ?rp = "sort_keys (dict_get c ''recovery_pending'')"
  have th: "stalled_threshold confirm \<le> seconds_between now t"
    using age seconds_between_ge [of "stalled_threshold confirm"] by (simp add: stalled_threshold_def)
  have "traffic_failure_confirmation srv ts confirm path now parse w
      = further_stalled_snapshot ids (stalled_threshold confirm) now parse ts ?rp ?c w"
    using q c st new ids(1)
    by (simp add: traffic_failure_confirmation_def stalled_signal_def stalled_threshold_def Let_def)
  moreover have "py_or (PStr (isoformat t)) (PStr []) = PStr (isoformat t)" "py_or (PInt 1) (PInt 1) = PInt 1"
    by (simp_all add: py_or_def)
  moreover have "\<exists>res w'. further_stalled_snapshot ids (stalled_threshold confirm) now parse ts ?rp ?c w = (Inr res, w')
    \<and> dict_get res ''confirmed'' = PBool True \<and> cleared w'"
    using q c th p calculation(2,3)
    by (simp add: further_stalled_snapshot_def Let_def items_get_in settle_first_seen_def
        cleared_def write_stalled_quiet json_dumps_dict_def)
  ultimately show ?thesis by simp
qed

section \<open>Cooldown\<close>

definition cooldown_end :: "int \<Rightarrow> datetime \<Rightarrow> datetime" where
  "cooldown_end seconds t = t + max 30 (or_default seconds 300) * 1000000"

lemma cooldown_after_failover:
  assumes "wd_env w = []" and "parse (PStr (isoformat (cooldown_end seconds t))) = Some (cooldown_end seconds t)"
    and "record_successful_failover k old new seconds t w = (r, w1)"
  shows "dict_get (fst (failover_cooldown_status now parse w1)) ''active'' = PBool (now < cooldown_end seconds t)
    \<and> dict_get (fst (failover_cooldown_status now parse w1)) ''remaining_seconds''
        = PInt (if now < cooldown_end seconds t then seconds_between (cooldown_end seconds t) now else 0)
    \<and> snd (failover_cooldown_status now parse w1) = w1"
proof -
  have w1: "wd_env w1 = []" "r_cooldown_until (current_row w1) = PStr (isoformat (cooldown_end seconds t))"
    using assms(1,3)
    by (auto simp: record_successful_failover_def update_unconditional update_conditional_def has_assignments_def
        apply_assignments_def cooldown_end_def Let_def)
  have "py_or (PStr (isoformat x)) (PStr []) = PStr (isoformat x)" for x by (simp add: py_or_def)
  then show ?thesis
    using assms(2) w1 by (auto simp: failover_cooldown_status_def Let_def seconds_between_def div_pos_pos_trivial)
qed

section \<open>Sample executions\<close>

definition sample_incident :: pyval where
  "sample_incident = PDict [(''path_key'', PStr ''srv''), (''attempts'', PInt 1)]"

definition incident_world :: world where
  "incident_world = sample_world\<lparr>wd_row := Some ((default_row ''2024-01-01 00:00:00'')\<lparr>
     r_failure_candidate_json := json_dumps_dict (recovery_stub (PStr ''srv'') sample_incident)\<rparr>)\<rparr>"

definition sample_parse :: "pyval \<Rightarrow> datetime option" where
  "sample_parse v = (case v of PStr s \<Rightarrow> map_option fst (fromisoformat s) | _ \<Rightarrow> None)"

section \<open>Properties\<close>

text \<open>
  C14. A pending recovery incident is never lost by the confirmation code. Without interference, no
  sequence of stalled-traffic confirmations, degraded-check and idle-check confirmations, recovery
  confirmations, resets and idle-probe records changes the incident stored in the row.
\<close>

theorem incident_survives_confirmations:
  assumes "confirmation_step\<^sup>*\<^sup>* w w'" and "holds_incident p w"
  shows "holds_incident p w'"
  using assms by (rule keep.steps_inv)

theorem incident_survives_confirmations_witness:
  "holds_incident sample_incident (reset_traffic_failure_candidate incident_world)"
proof -
  have "confirmation_step\<^sup>*\<^sup>* incident_world (reset_traffic_failure_candidate incident_world)"
    by (intro r_into_rtranclp confirmation_step.reset)
  moreover have "holds_incident sample_incident incident_world" by code_simp
  ultimately show ?thesis by (rule incident_survives_confirmations)
qed

text \<open>
  The incident is changed by one writer at a time. In any sequence of
  \<open>compare_and_set_recovery_pending\<close> calls the successful ones form a chain from the incident that
  was stored first to the one stored last: each replaced exactly what its predecessor stored.
\<close>

theorem incident_writes_linearise:
  assumes "wd_env w = []" and "cas_attempts compare_and_set_recovery_pending as w = (winners, w')"
  shows "cas_chain incident_value (incident_value (incident w)) winners (incident_value (incident w'))"
  using assms by (rule rpcas.attempts_chain)

theorem incident_writes_linearise_witness:
  "\<exists>winners w'. cas_attempts compare_and_set_recovery_pending
       [(sample_incident, PNone), (sample_incident, PDict [])] incident_world = (winners, w')
     \<and> cas_chain incident_value (incident_value (incident incident_world)) winners (incident_value (incident w'))
     \<and> winners = [(sample_incident, PNone)]"
proof -
  let ?as = "[(sample_incident, PNone), (sample_incident, PDict [])]"
  have q: "wd_env incident_world = []" by code_simp
  obtain winners w' where r: "cas_attempts compare_and_set_recovery_pending ?as incident_world = (winners, w')"
    by fastforce
  have "fst (cas_attempts compare_and_set_recovery_pending ?as incident_world) = [(sample_incident, PNone)]"
    by code_simp
  then show ?thesis using incident_writes_linearise [OF q r] r by (metis fst_conv)
qed

text \<open>
  A stalled-traffic failure is confirmed only for a stall that lasted. In every world a
  \<open>confirmed: True\<close> of \<open>traffic_failure_confirmation\<close> means: the signal says stalled, a
  candidate of the same path was recorded before under another decision, and its first snapshot lies at
  least the confirmation time (30 seconds or more) in the past.
\<close>

theorem stalled_confirmation_sound:
  assumes "traffic_failure_confirmation srv ts confirm path now parse w = (Inr res, w')"
    and "dict_get res ''confirmed'' = PBool True" and "ids = signal_identity srv path ts"
  shows "truthy (dict_get ts ''traffic_stalled'') \<and> is_dict (found_candidate w)
    \<and> get_in (found_candidate w) ''path_key'' = PStr (s_path_key ids)
    \<and> get_in (found_candidate w) ''decision_id'' \<noteq> PStr (s_decision_id ids)
    \<and> (\<exists>t. parse (PStr (py_str (py_or (get_in (found_candidate w) ''first_seen_at'') (PStr [])))) = Some t
        \<and> max 30 (or_default confirm 60) * 1000000 \<le> now - t)"
proof -
  have th: "30 \<le> stalled_threshold confirm" by (simp add: stalled_threshold_def)
  show ?thesis
    using traffic_confirmed_cases [OF assms] further_stalled_confirmed [OF _ assms(2) th]
    by (fastforce simp: items_get_in stalled_threshold_def)
qed

theorem stalled_confirmation_sound_witness:
  "\<exists>w res w'. traffic_failure_confirmation (PStr ''srv'') second_signal 60 PNone 60000000 sample_parse w = (Inr res, w')
     \<and> dict_get res ''confirmed'' = PBool True
     \<and> get_in (found_candidate w) ''decision_id'' \<noteq> PStr (s_decision_id (signal_identity (PStr ''srv'') PNone second_signal))"
proof -
  let ?w = "snd (traffic_failure_confirmation (PStr ''srv'') sample_signal 60 PNone 0 sample_parse sample_world)"
  let ?r = "traffic_failure_confirmation (PStr ''srv'') second_signal 60 PNone 60000000 sample_parse ?w"
  have "case fst ?r of Inr res \<Rightarrow> dict_get res ''confirmed'' = PBool True | Inl _ \<Rightarrow> False" by code_simp
  then obtain res w' where r: "?r = (Inr res, w')" "dict_get res ''confirmed'' = PBool True"
    by (cases ?r) (auto split: sum.splits)
  then show ?thesis using stalled_confirmation_sound [OF r refl] by blast
qed

text \<open>
  A stall that lasts is confirmed. From a clean state and without interference, a first stalled
  signal is recorded and not confirmed; a second one of the same path, with another decision and at
  least the confirmation time later, is confirmed and clears the candidate.
\<close>

theorem lasting_stall_confirms:
  assumes "wd_env w = []" and "r_failure_candidate_json (current_row w) = None" and "\<not> is_dict (wd_mem w)"
    and "stalled_signal (signal_identity srv path ts) ts" and "stalled_signal (signal_identity srv path ts') ts'"
    and "s_decision_id (signal_identity srv path ts') \<noteq> s_decision_id (signal_identity srv path ts)"
    and "parse (PStr (isoformat t)) = Some t" and "max 30 (or_default confirm 60) * 1000000 \<le> t' - t"
  shows "\<exists>res w1 res' w2. traffic_failure_confirmation srv ts confirm path t parse w = (Inr res, w1)
    \<and> dict_get res ''confirmed'' = PBool False
    \<and> traffic_failure_confirmation srv ts' confirm path t' parse w1 = (Inr res', w2)
    \<and> dict_get res' ''confirmed'' = PBool True \<and> cleared w2"
proof -
  obtain res w1 where r: "traffic_failure_confirmation srv ts confirm path t parse w = (Inr res, w1)"
    "dict_get res ''confirmed'' = PBool False" "stalled_since (signal_identity srv path ts) t w1"
    using first_stalled_snapshot [OF assms(1-3) refl assms(4)] by blast
  show ?thesis
    using r lasting_stall_confirmed [where parse = parse, OF r(3) refl _ assms(6,5,7) assms(8) [folded stalled_threshold_def]]
    by (auto simp: signal_identity_stable)
qed

theorem lasting_stall_confirms_witness:
  "\<exists>res w1 res' w2. traffic_failure_confirmation (PStr ''srv'') sample_signal 60 PNone 0 sample_parse sample_world = (Inr res, w1)
     \<and> traffic_failure_confirmation (PStr ''srv'') second_signal 60 PNone 60000000 sample_parse w1 = (Inr res', w2)
     \<and> dict_get res' ''confirmed'' = PBool True \<and> cleared w2"
proof -
  have w: "wd_env sample_world = []" "r_failure_candidate_json (current_row sample_world) = None"
    "\<not> is_dict (wd_mem sample_world)" by code_simp+
  have st: "stalled_signal (signal_identity (PStr ''srv'') PNone sample_signal) sample_signal"
    "stalled_signal (signal_identity (PStr ''srv'') PNone second_signal) second_signal"
    "s_decision_id (signal_identity (PStr ''srv'') PNone second_signal)
     \<noteq> s_decision_id (signal_identity (PStr ''srv'') PNone sample_signal)" by code_simp+
  have p: "sample_parse (PStr (isoformat 0)) = Some 0" by code_simp
  have t: "max 30 (or_default 60 60) * 1000000 \<le> (60000000 :: int) - 0" by code_simp
  show ?thesis using lasting_stall_confirms [where parse = sample_parse, OF w st p t] by blast
qed

text \<open>
  The cooldown lasts exactly as long as recorded. After a successful failover the cooldown status
  is active at every instant before the recorded end, at least 30 seconds later, and at no other.
\<close>

theorem cooldown_active_until_end:
  assumes "wd_env w = []" and "parse (PStr (isoformat (cooldown_end seconds t))) = Some (cooldown_end seconds t)"
    and "record_successful_failover k old new seconds t w = (r, w1)"
  shows "dict_get (fst (failover_cooldown_status now parse w1)) ''active'' = PBool (now < cooldown_end seconds t)
    \<and> t + 30 * 1000000 \<le> cooldown_end seconds t"
  using cooldown_after_failover [where parse = parse, OF assms] by (simp add: cooldown_end_def)

theorem cooldown_active_until_end_witness:
  "dict_get (fst (failover_cooldown_status 299999999 sample_parse
     (snd (record_successful_failover PNone PNone PNone 300 0 sample_world)))) ''active'' = PBool True"
proof -
  have q: "wd_env sample_world = []" by code_simp
  have p: "sample_parse (PStr (isoformat (cooldown_end 300 0))) = Some (cooldown_end 300 0)" by code_simp
  have "(299999999 :: int) < cooldown_end 300 0" by code_simp
  then show ?thesis
    using cooldown_active_until_end [where parse = sample_parse and now = 299999999, OF q p prod.collapse [symmetric]]
    by simp
qed

text \<open>
  A failed read erases a pending incident. \<open>reset_traffic_failure_candidate\<close> reads the row
  first to keep the incident; when that read raises, the fallback is an empty state, and the
  unconditional write that follows removes the incident from the row.
\<close>

theorem failed_read_erases_incident:
  assumes "wd_env w = [DbFail]"
  shows "incident (reset_traffic_failure_candidate w) = PNone"
  using assms
  by (simp add: reset_traffic_failure_candidate_def load_watchdog_runtime_state_def
      load_watchdog_runtime_state_strict_def db_step_def empty_watchdog_runtime_state_def Let_def
      set_traffic_failure_candidate_def update_unconditional update_conditional_def has_assignments_def
      incident_def apply_assignments_def json_dumps_dict_def json_loads_dict_def)

theorem failed_read_erases_incident_witness:
  "is_dict (incident (incident_world\<lparr>wd_env := [DbFail]\<rparr>))
   \<and> incident (reset_traffic_failure_candidate (incident_world\<lparr>wd_env := [DbFail]\<rparr>)) = PNone"
proof -
  have "is_dict (incident (incident_world\<lparr>wd_env := [DbFail]\<rparr>))" by code_simp
  moreover have "wd_env (incident_world\<lparr>wd_env := [DbFail]\<rparr>) = [DbFail]" by simp
  ultimately show ?thesis using failed_read_erases_incident by blast
qed

text \<open>
  A quality candidate counts as a stalled snapshot. \<open>traffic_failure_confirmation\<close> compares
  only the path of the stored candidate, not its kind: one degraded quality check followed, a
  confirmation time later, by a single stalled signal of the same server is confirmed as stalled
  traffic with two stalled snapshots, although only one was seen.
\<close>

theorem quality_candidate_counts_as_stall:
  "\<exists>res w'. traffic_failure_confirmation (PStr ''srv'') second_signal 60 PNone 60000000 sample_parse
       (snd (first_sample_check sample_world)) = (Inr res, w')
     \<and> dict_get res ''confirmed'' = PBool True \<and> dict_get res ''stalled_snapshots'' = PInt 2"
proof -
  let ?r = "traffic_failure_confirmation (PStr ''srv'') second_signal 60 PNone 60000000 sample_parse
    (snd (first_sample_check sample_world))"
  have "case fst ?r of Inr res \<Rightarrow> dict_get res ''confirmed'' = PBool True \<and> dict_get res ''stalled_snapshots'' = PInt 2
    | Inl _ \<Rightarrow> False" by code_simp
  then show ?thesis by (cases ?r) (auto split: sum.splits)
qed

end
