(* ===== verification/Jobs.thy ===== *)
theory Jobs
  imports Contracts Py_Datetime
begin

text \<open>
  The SQLite job table of \<open>services/jobs.py\<close> with the statuses of \<open>jobs/base.py\<close>: creation
  under a lock key, the transitions of a job, the cleanup of stale jobs and the terminal snapshot that
  every transition into a terminal status writes in the same transaction.

  A \<open>job_db\<close> holds the tables \<open>jobs\<close> and \<open>operational_logs\<close> in insertion order;
  timestamps are the texts that the code stores and that SQLite compares. A session that raises is
  rolled back, so an operation that returns an error returns the tables of before the session. Between
  a \<open>SELECT\<close> and the first writing statement of a session another connection may commit: there
  the operations take an argument \<open>other\<close>, a function on the tables. \<open>clock i\<close> is the value of
  the \<open>i\<close>-th call of \<open>utc_now\<close>.

  The record \<open>job_env\<close> holds the settings and the functions of other modules that the code calls:
  the audit writer \<open>write_audit_event\<close> (the document it stores for a call, or the exception),
  \<open>uuid5\<close> on a job id, and \<open>sanitize_value\<close>.
\<close>

section \<open>Tables\<close>

datatype job_status = QUEUED | RUNNING | SUCCESS | FAILED | CANCELLED

primrec status_value :: "job_status \<Rightarrow> string" where
  "status_value QUEUED = ''queued''"
| "status_value RUNNING = ''running''"
| "status_value SUCCESS = ''success''"
| "status_value FAILED = ''failed''"
| "status_value CANCELLED = ''cancelled''"

record job_row =
  j_job_id :: string
  j_job_type :: string
  j_status :: job_status
  j_lock_key :: "string option"
  j_requested_by :: "string option"
  j_input_json :: "json_text option"
  j_event_context_json :: "json_text option"
  j_result_json :: "json_text option"
  j_error_code :: "string option"
  j_error_message :: "string option"
  j_artifact_dir :: "string option"
  j_created_at :: string
  j_started_at :: "string option"
  j_finished_at :: "string option"
  j_updated_at :: string

record log_row =
  l_event_id :: string
  l_event_type :: string
  l_details_json :: "json_text option"

record job_db =
  db_jobs :: "job_row list"
  db_logs :: "log_row list"

record audit_call =
  a_event_id :: string
  a_entity_id :: string
  a_result :: string
  a_context :: pydict
  a_identity :: pyval
  a_details :: pydict

record job_env =
  e_audit :: "audit_call \<Rightarrow> exc + pydict"
  e_snapshot_id :: "string \<Rightarrow> string"
  e_sanitize :: "pyval \<Rightarrow> pyval"
  e_max_bytes :: int
  e_stale_timeout :: int

datatype job_error = LockConflict string pydict | Raised exc

definition active_status :: "job_status \<Rightarrow> bool" where
  "active_status s = (s \<in> {QUEUED, RUNNING})"

definition select_job :: "string \<Rightarrow> job_db \<Rightarrow> job_row option" where
  "select_job job_id db = find (\<lambda>r. j_job_id r = job_id) (db_jobs db)"

text \<open>\<open>UPDATE jobs SET f WHERE p\<close>: the row count and the tables after it.\<close>

definition update_jobs :: "(job_row \<Rightarrow> bool) \<Rightarrow> (job_row \<Rightarrow> job_row) \<Rightarrow> job_db \<Rightarrow> nat \<times> job_db" where
  "update_jobs p f db =
     (length (filter p (db_jobs db)), db\<lparr>db_jobs := map (\<lambda>r. if p r then f r else r) (db_jobs db)\<rparr>)"

section \<open>JSON columns\<close>

text \<open>\<open>_json_loads\<close>: an empty text is \<open>None\<close>, a malformed one raises, a value that is no
  dictionary is wrapped.\<close>

definition job_json_loads :: "json_text option \<Rightarrow> exc + pyval" where
  "job_json_loads value =
     (case value of
        None \<Rightarrow> Inr PNone
      | Some (JMalformed t) \<Rightarrow> if t = [] then Inr PNone else Inl ValueError
      | Some (JText v) \<Rightarrow> Inr (if is_dict v then v else PDict [(''value'', v)]))"

definition job_json_dumps :: "pyval \<Rightarrow> json_text option" where
  "job_json_dumps value = (if value = PNone then None else Some (json_dumps value))"

section \<open>Job results\<close>

definition trim_scalar :: "pyval \<Rightarrow> pyval" where
  "trim_scalar value =
     (case value of
        PStr s \<Rightarrow> PStr (if length s \<le> 256 then s else take 253 s @ ''...'')
      | _ \<Rightarrow> value)"

definition preferred_keys :: "string list" where
  "preferred_keys =
     [''job_status'', ''status'', ''stage'', ''message'', ''error_code'', ''error_message'', ''job_id'',
      ''changed'', ''ok'', ''apply'', ''rules_state'', ''reconcile_reason'', ''reconcile_action'',
      ''candidate'', ''config_validation'', ''promoted'', ''container'', ''mihomo'']"

fun summarize_result_value :: "nat \<Rightarrow> pyval \<Rightarrow> pyval" where
  "summarize_result_value depth (PList xs) =
     (if depth \<ge> 1 then PDict [(''type'', PStr ''list''), (''length'', PInt (int (length xs)))]
      else PDict [(''type'', PStr ''list''), (''length'', PInt (int (length xs))),
                  (''sample'', PList (take 3 (map (summarize_result_value (Suc depth)) xs)))])"
| "summarize_result_value depth (PDict d) =
     (let inner = map (map_prod id (summarize_result_value (Suc depth))) d;
          added = filter (dict_has d) preferred_keys;
          extra = take 8 (filter (\<lambda>k. k \<notin> set added) (map fst d))
      in PDict (map (\<lambda>k. (k, dict_get inner k)) added
           @ (if depth = 0 \<and> extra \<noteq> [] then [(''_extra_keys'', PList (map PStr extra))] else [])
           @ [(''_keys_count'', PInt (int (length d)))]))"
| "summarize_result_value depth value = trim_scalar value"

definition encode_job_result :: "int \<Rightarrow> pyval \<Rightarrow> json_text option" where
  "encode_job_result max_bytes result =
     (if result = PNone then None
      else (let raw = json_dumps result
            in if json_length raw \<le> max_bytes then Some raw
               else (let payload = (\<lambda>summary. PDict [(''__truncated__'', PBool True),
                           (''original_bytes'', PInt (json_length raw)),
                           (''max_bytes'', PInt max_bytes), (''summary'', summary)]);
                         summarized = json_dumps (payload (summarize_result_value 0 result))
                     in if json_length summarized \<le> max_bytes then Some summarized
                        else Some (json_dumps (payload (PDict
                               [(''job_status'', get_in result ''job_status''),
                                (''status'', get_in result ''status''),
                                (''stage'', get_in result ''stage''),
                                (''error_code'', get_in result ''error_code''),
                                (''error_message'', trim_scalar (get_in result ''error_message'')),
                                (''_keys_count'', PInt (int (length (items result))))]))))))"

definition row_to_job :: "job_row \<Rightarrow> exc + pydict" where
  "row_to_job row =
     (case (job_json_loads (j_input_json row), job_json_loads (j_event_context_json row),
            job_json_loads (j_result_json row)) of
        (Inr input, Inr context, Inr result) \<Rightarrow>
          Inr [(''job_id'', PStr (j_job_id row)),
               (''job_type'', PStr (j_job_type row)),
               (''status'', PStr (status_value (j_status row))),
               (''lock_key'', opt_val (j_lock_key row)),
               (''requested_by'', opt_val (j_requested_by row)),
               (''input'', input), (''event_context'', context), (''result'', result),
               (''error_code'', opt_val (j_error_code row)),
               (''error_message'', opt_val (j_error_message row)),
               (''artifact_dir'', opt_val (j_artifact_dir row)),
               (''created_at'', PStr (j_created_at row)),
               (''started_at'', opt_val (j_started_at row)),
               (''updated_at'', PStr (j_updated_at row)),
               (''finished_at'', opt_val (j_finished_at row))]
      | _ \<Rightarrow> Inl ValueError)"

definition optional_job :: "job_row option \<Rightarrow> job_error + pydict option" where
  "optional_job r =
     (case r of
        None \<Rightarrow> Inr None
      | Some row \<Rightarrow> (case row_to_job row of Inl e \<Rightarrow> Inl (Raised e) | Inr job \<Rightarrow> Inr (Some job)))"

section \<open>Terminal snapshots\<close>

definition hex_char :: "char \<Rightarrow> bool" where
  "hex_char c = (c \<in> set ''0123456789abcdef'')"

text \<open>\<open>str(UUID(s)) == s\<close>; for every other text the code raises, from \<open>UUID\<close> or its own check.\<close>

definition canonical_uuid :: "string \<Rightarrow> bool" where
  "canonical_uuid s =
     (length s = 36 \<and> (\<forall>i<36. if i \<in> {8, 13, 18, 23} then s ! i = CHR ''-'' else hex_char (s ! i)))"

definition terminal_snapshot_event_id :: "job_env \<Rightarrow> string \<Rightarrow> string" where
  "terminal_snapshot_event_id env job_id = e_snapshot_id env job_id"

definition classification_matches :: "job_status \<Rightarrow> pyval \<Rightarrow> pyval \<Rightarrow> bool" where
  "classification_matches status assurance classification =
     (if assurance = PStr ''terminal_commit'' \<and> is_str classification
      then (status = SUCCESS \<and> classification = PStr ''handler_completed'')
           \<or> (status = FAILED \<and> classification \<in> {PStr ''handler_failed'', PStr ''stale_queue_timeout'',
                                                  PStr ''stale_running_timeout''})
           \<or> (status = CANCELLED \<and> classification = PStr ''handler_cancelled'')
      else if assurance = PStr ''retention_observation''
      then status \<in> {SUCCESS, FAILED, CANCELLED} \<and> classification = PStr ''legacy_terminal_observed''
      else False)"

definition terminal_snapshot_matches :: "job_row \<Rightarrow> log_row \<Rightarrow> bool" where
  "terminal_snapshot_matches row event_row =
     (case l_details_json event_row of
        Some (JText details) \<Rightarrow>
          is_dict details \<and>
          (let get = get_in details;
               context = get ''event_context'';
               status = PStr (status_value (j_status row));
               job_id = PStr (j_job_id row)
           in l_event_type event_row = ''job.terminal_outcome''
              \<and> get ''event_code'' = PStr ''job.terminal_outcome''
              \<and> get ''action'' = PStr ''job.terminal_outcome''
              \<and> get ''entity_type'' = PStr ''job''
              \<and> get ''entity_id'' = job_id
              \<and> is_dict context \<and> get_in context ''job_id'' = job_id
              \<and> get ''result'' = status \<and> get ''outcome'' = status \<and> get ''execution_status'' = status
              \<and> get ''finished_at_utc'' = opt_val (j_finished_at row)
              \<and> is_str (get ''snapshot_assurance'')
              \<and> classification_matches (j_status row) (get ''snapshot_assurance'')
                  (get ''execution_classification''))
      | _ \<Rightarrow> False)"

definition correlation_fields :: "string list" where
  "correlation_fields = [''request_id'', ''apply_id'', ''workflow_id'', ''causation_id'', ''correlation_id'',
     ''server_id'', ''connection_id'', ''recovery_attempt_id'']"

definition safe_id_char :: "char \<Rightarrow> bool" where
  "safe_id_char c = (is_digit c \<or> CHR ''A'' \<le> c \<and> c \<le> CHR ''Z'' \<or> CHR ''a'' \<le> c \<and> c \<le> CHR ''z''
     \<or> c \<in> set ''._:-'')"

definition context_values :: "pyval \<Rightarrow> pydict" where
  "context_values context_data =
     map (\<lambda>k. (k, get_in context_data k))
       (filter (\<lambda>k. case get_in context_data k of
                      PStr v \<Rightarrow> 0 < length v \<and> length v \<le> 128 \<and> list_all safe_id_char v
                    | _ \<Rightarrow> False) correlation_fields)"

definition snapshot_call :: "job_env \<Rightarrow> job_row \<Rightarrow> pyval \<Rightarrow> string \<Rightarrow> string \<Rightarrow> bool \<Rightarrow> audit_call" where
  "snapshot_call env row context_data classification assurance include_attribution =
     (let job_id = j_job_id row; status = status_value (j_status row)
      in \<lparr>a_event_id = terminal_snapshot_event_id env job_id,
          a_entity_id = job_id,
          a_result = status,
          a_context = context_values context_data,
          a_identity = (if include_attribution then get_in context_data ''_api_identity'' else PNone),
          a_details = [(''outcome'', PStr status), (''entity_type'', PStr ''job''), (''entity_id'', PStr job_id),
                       (''execution_status'', PStr status), (''execution_classification'', PStr classification),
                       (''finished_at_utc'', PStr (py_str (opt_val (j_finished_at row)))),
                       (''snapshot_assurance'', PStr assurance)]\<rparr>)"

text \<open>\<open>INSERT INTO operational_logs\<close>: the event id is the primary key.\<close>

definition insert_log :: "log_row \<Rightarrow> job_db \<Rightarrow> exc + job_db" where
  "insert_log l db =
     (if l_event_id l \<in> l_event_id ` set (db_logs db) then Inl (SqlError ''IntegrityError'')
      else Inr (db\<lparr>db_logs := db_logs db @ [l]\<rparr>))"

definition write_terminal_snapshot ::
  "job_env \<Rightarrow> job_row \<Rightarrow> string \<Rightarrow> string \<Rightarrow> bool \<Rightarrow> job_db \<Rightarrow> exc + job_db" where
  "write_terminal_snapshot env row classification assurance include_attribution db =
     (if \<not> canonical_uuid (j_job_id row) then Inl ValueError
      else if classification \<notin> {''handler_completed'', ''handler_failed'', ''handler_cancelled'',
               ''stale_queue_timeout'', ''stale_running_timeout'', ''legacy_terminal_observed''}
      then Inl ValueError
      else if assurance \<notin> {''terminal_commit'', ''retention_observation''} then Inl ValueError
      else if (assurance = ''terminal_commit'') = (classification = ''legacy_terminal_observed'')
      then Inl ValueError
      else (case job_json_loads (j_event_context_json row) of
              Inl e \<Rightarrow> Inl e
            | Inr context_data \<Rightarrow>
                let call = snapshot_call env row (py_or context_data (PDict [])) classification assurance
                             include_attribution
                in case e_audit env call of
                     Inl e \<Rightarrow> Inl e
                   | Inr details \<Rightarrow>
                       insert_log \<lparr>l_event_id = a_event_id call, l_event_type = ''job.terminal_outcome'',
                                   l_details_json = Some (json_dumps (PDict details))\<rparr> db))"

section \<open>Transitions\<close>

text \<open>
  The common shape of the three handler outcomes: the guarded \<open>UPDATE\<close> of a running job, the
  \<open>SELECT\<close> of the row, and the snapshot when the \<open>UPDATE\<close> changed one row, in one session.
\<close>

definition finish_running ::
  "job_env \<Rightarrow> string \<Rightarrow> (job_row \<Rightarrow> job_row) \<Rightarrow> string \<Rightarrow> job_db \<Rightarrow> (job_error + pydict option) \<times> job_db" where
  "finish_running env job_id f classification db =
     (case update_jobs (\<lambda>r. j_job_id r = job_id \<and> j_status r = RUNNING) f db of
        (rowcount, db1) \<Rightarrow>
          (case select_job job_id db1 of
             None \<Rightarrow> (Inr None, db1)
           | Some row \<Rightarrow>
               if rowcount = 1
               then (case write_terminal_snapshot env row classification ''terminal_commit'' True db1 of
                       Inl e \<Rightarrow> (Inl (Raised e), db)
                     | Inr db2 \<Rightarrow> (optional_job (Some row), db2))
               else (optional_job (Some row), db1)))"

definition mark_job_success :: "job_env \<Rightarrow> string \<Rightarrow> pyval \<Rightarrow> datetime \<Rightarrow> job_db \<Rightarrow> (job_error + pydict option) \<times> job_db" where
  "mark_job_success env job_id result now db =
     finish_running env job_id
       (\<lambda>r. r\<lparr>j_status := SUCCESS, j_result_json := encode_job_result (e_max_bytes env) result,
              j_error_code := None, j_error_message := None,
              j_finished_at := Some (strftime_sql now), j_updated_at := strftime_sql now\<rparr>)
       ''handler_completed'' db"

definition mark_job_failed ::
  "job_env \<Rightarrow> string \<Rightarrow> string \<Rightarrow> string \<Rightarrow> pyval \<Rightarrow> datetime \<Rightarrow> job_db \<Rightarrow> (job_error + pydict option) \<times> job_db" where
  "mark_job_failed env job_id error_code error_message result now db =
     finish_running env job_id
       (\<lambda>r. r\<lparr>j_status := FAILED, j_result_json := encode_job_result (e_max_bytes env) result,
              j_error_code := Some error_code, j_error_message := Some error_message,
              j_finished_at := Some (strftime_sql now), j_updated_at := strftime_sql now\<rparr>)
       (if error_code = ''JOB_STALE_QUEUE_TIMEOUT'' then ''stale_queue_timeout''
        else if error_code = ''JOB_STALE_TIMEOUT'' then ''stale_running_timeout'' else ''handler_failed'') db"

definition mark_job_cancelled :: "job_env \<Rightarrow> string \<Rightarrow> pyval \<Rightarrow> datetime \<Rightarrow> job_db \<Rightarrow> (job_error + pydict option) \<times> job_db" where
  "mark_job_cancelled env job_id result now db =
     finish_running env job_id
       (\<lambda>r. r\<lparr>j_status := CANCELLED, j_result_json := encode_job_result (e_max_bytes env) result,
              j_error_code := None, j_error_message := None,
              j_finished_at := Some (strftime_sql now), j_updated_at := strftime_sql now\<rparr>)
       ''handler_cancelled'' db"

text \<open>
  \<open>mark_job_running\<close> reads the row first and writes it without a guard on its status; the read
  starts no transaction, so \<open>other\<close> may commit in between.
\<close>

definition mark_job_running ::
  "string \<Rightarrow> datetime \<Rightarrow> (job_db \<Rightarrow> job_db) \<Rightarrow> job_db \<Rightarrow> (job_error + pydict option) \<times> job_db" where
  "mark_job_running job_id now other db =
     (case select_job job_id db of
        None \<Rightarrow> (Inr None, db)
      | Some row \<Rightarrow>
          if j_status row \<noteq> QUEUED then (optional_job (Some row), db)
          else (case update_jobs (\<lambda>r. j_job_id r = job_id)
                       (\<lambda>r. r\<lparr>j_status := RUNNING, j_started_at := Some (strftime_sql now),
                              j_updated_at := strftime_sql now\<rparr>) (other db) of
                  (_, db1) \<Rightarrow>
                    (case select_job job_id db1 of
                       None \<Rightarrow> (Inl (Raised TypeError), db1)
                     | Some updated \<Rightarrow> (optional_job (Some updated), db1))))"

definition touch_job_running :: "string \<Rightarrow> datetime \<Rightarrow> job_db \<Rightarrow> (job_error + pydict option) \<times> job_db" where
  "touch_job_running job_id now db =
     (case update_jobs (\<lambda>r. j_job_id r = job_id \<and> j_status r = RUNNING)
             (\<lambda>r. r\<lparr>j_updated_at := strftime_sql now\<rparr>) db of
        (_, db1) \<Rightarrow> (optional_job (select_job job_id db1), db1))"

definition update_job_running_result ::
  "job_env \<Rightarrow> string \<Rightarrow> pyval \<Rightarrow> datetime \<Rightarrow> job_db \<Rightarrow> (job_error + pydict option) \<times> job_db" where
  "update_job_running_result env job_id result now db =
     (case update_jobs (\<lambda>r. j_job_id r = job_id \<and> j_status r = RUNNING)
             (\<lambda>r. r\<lparr>j_result_json := encode_job_result (e_max_bytes env) result, j_updated_at := strftime_sql now\<rparr>) db of
        (_, db1) \<Rightarrow> (optional_job (select_job job_id db1), db1))"

section \<open>Stale jobs\<close>

definition stale_update :: "bool \<Rightarrow> string \<Rightarrow> job_row \<Rightarrow> job_row" where
  "stale_update was_queued finished_at r =
     r\<lparr>j_status := FAILED,
       j_error_code := Some (if was_queued then ''JOB_STALE_QUEUE_TIMEOUT'' else ''JOB_STALE_TIMEOUT''),
       j_error_message := Some (if was_queued
         then ''Job marked failed because it remained queued past the stale timeout window.''
         else ''Job marked failed because it exceeded timeout / stale running lease.''),
       j_finished_at := Some finished_at, j_updated_at := finished_at\<rparr>"

text \<open>The loop over the selected rows; an exception in it rolls the whole session back.\<close>

fun fail_stale ::
  "job_env \<Rightarrow> string \<Rightarrow> (nat \<Rightarrow> datetime) \<Rightarrow> job_row list \<Rightarrow> job_db \<Rightarrow> exc + job_row list \<times> job_db" where
  "fail_stale env cutoff clock [] db = Inr ([], db)"
| "fail_stale env cutoff clock (stale_row # rest) db =
     (let was_queued = (j_status stale_row = QUEUED);
          finished_at = strftime_sql (clock 0);
          next_clock = (\<lambda>i. clock (Suc i))
      in case update_jobs
                (\<lambda>r. j_job_id r = j_job_id stale_row \<and> j_status r = j_status stale_row \<and> j_updated_at r \<le> cutoff)
                (stale_update was_queued finished_at) db of
           (rowcount, db1) \<Rightarrow>
             if rowcount \<noteq> 1 then fail_stale env cutoff next_clock rest db1
             else (case select_job (j_job_id stale_row) db1 of
                     None \<Rightarrow> Inl TypeError
                   | Some terminal_row \<Rightarrow>
                       (case write_terminal_snapshot env terminal_row
                               (if was_queued then ''stale_queue_timeout'' else ''stale_running_timeout'')
                               ''terminal_commit'' True db1 of
                          Inl e \<Rightarrow> Inl e
                        | Inr db2 \<Rightarrow>
                            (case fail_stale env cutoff next_clock rest db2 of
                               Inl e \<Rightarrow> Inl e
                             | Inr (rows, db3) \<Rightarrow> Inr (terminal_row # rows, db3)))))"

definition select_stale :: "string \<Rightarrow> job_db \<Rightarrow> job_row list" where
  "select_stale cutoff db =
     sort_key j_updated_at (filter (\<lambda>r. active_status (j_status r) \<and> j_updated_at r \<le> cutoff) (db_jobs db))"

text \<open>The returned job descriptions, with the error fields of the stale kind.\<close>

definition stale_job :: "job_row \<Rightarrow> job_error + pydict" where
  "stale_job row =
     (case row_to_job row of
        Inl e \<Rightarrow> Inl (Raised e)
      | Inr job \<Rightarrow>
          let was_queued = (j_error_code row = Some ''JOB_STALE_QUEUE_TIMEOUT'')
          in Inr (dict_set (dict_set job
               ''error_code'' (PStr (if was_queued then ''JOB_STALE_QUEUE_TIMEOUT'' else ''JOB_STALE_TIMEOUT'')))
               ''error_message'' (PStr (if was_queued
                  then ''Job marked failed because it remained queued past the stale timeout window.''
                  else ''Job marked failed because it exceeded timeout / stale running lease.''))))"

fun collect :: "('a \<Rightarrow> 'e + 'b) \<Rightarrow> 'a list \<Rightarrow> 'e + 'b list" where
  "collect f [] = Inr []"
| "collect f (x # xs) =
     (case f x of Inl e \<Rightarrow> Inl e | Inr y \<Rightarrow> (case collect f xs of Inl e \<Rightarrow> Inl e | Inr ys \<Rightarrow> Inr (y # ys)))"

definition stale_timeout :: "job_env \<Rightarrow> int option \<Rightarrow> int" where
  "stale_timeout env stale_after_seconds =
     (case stale_after_seconds of None \<Rightarrow> e_stale_timeout env | Some n \<Rightarrow> n)"

definition stale_cutoff :: "datetime \<Rightarrow> int \<Rightarrow> string" where
  "stale_cutoff now timeout = strftime_sql (now - timeout * 1000000)"

definition cleanup_stale_running_jobs ::
  "job_env \<Rightarrow> int option \<Rightarrow> (nat \<Rightarrow> datetime) \<Rightarrow> (job_db \<Rightarrow> job_db) \<Rightarrow> job_db \<Rightarrow> (job_error + pydict list) \<times> job_db" where
  "cleanup_stale_running_jobs env stale_after_seconds clock other db =
     (let timeout_seconds = stale_timeout env stale_after_seconds
      in if timeout_seconds < 0 then (Inr [], db)
         else (let cutoff = stale_cutoff (clock 0) timeout_seconds;
                   stale_rows = select_stale cutoff db;
                   db1 = other db
               in case fail_stale env cutoff (\<lambda>i. clock (Suc i)) stale_rows db1 of
                    Inl e \<Rightarrow> (Inl (Raised e), db1)
                  | Inr (transitioned_rows, db2) \<Rightarrow> (collect stale_job transitioned_rows, db2)))"

section \<open>Locks\<close>

definition lock_tokens :: "string option \<Rightarrow> string set" where
  "lock_tokens lock_key =
     (case lock_key of
        None \<Rightarrow> {}
      | Some k \<Rightarrow> set (filter (\<lambda>t. t \<noteq> []) (split_char CHR ''+'' (replace_char CHR '' '' ''+''
                    (replace_char CHR '','' ''+'' k)))))"

text \<open>The loop over the active rows; each row is decoded before its tokens are compared.\<close>

fun first_conflict :: "string set \<Rightarrow> job_row list \<Rightarrow> job_error + pydict option" where
  "first_conflict wanted [] = Inr None"
| "first_conflict wanted (row # rest) =
     (case row_to_job row of
        Inl e \<Rightarrow> Inl (Raised e)
      | Inr active_job \<Rightarrow>
          if wanted \<inter> lock_tokens (j_lock_key row) \<noteq> {} then Inr (Some active_job)
          else first_conflict wanted rest)"

definition select_active :: "string option \<Rightarrow> job_db \<Rightarrow> job_row list" where
  "select_active exclude_job_id db =
     sort_key j_created_at
       (filter (\<lambda>r. active_status (j_status r) \<and> Some (j_job_id r) \<noteq> exclude_job_id) (db_jobs db))"

definition find_active_lock_conflict ::
  "job_env \<Rightarrow> string \<Rightarrow> string option \<Rightarrow> (nat \<Rightarrow> datetime) \<Rightarrow> job_db \<Rightarrow> (job_error + pydict option) \<times> job_db" where
  "find_active_lock_conflict env lock_key exclude_job_id clock db =
     (let wanted_tokens = lock_tokens (Some lock_key)
      in if wanted_tokens = {} then (Inr None, db)
         else (case cleanup_stale_running_jobs env None clock id db of
                 (Inl e, db1) \<Rightarrow> (Inl e, db1)
               | (Inr _, db1) \<Rightarrow> (first_conflict wanted_tokens (select_active exclude_job_id db1), db1)))"

definition lease_of :: "string \<Rightarrow> pydict \<Rightarrow> pydict" where
  "lease_of lock_key active_job =
     [(''lock_key'', PStr lock_key),
      (''owner_job_id'', dict_get active_job ''job_id''),
      (''owner_status'', dict_get active_job ''status''),
      (''acquired_at'', dict_get active_job ''created_at''),
      (''heartbeat_at'', py_or (dict_get active_job ''updated_at'') (dict_get active_job ''started_at'')),
      (''requested_by'', dict_get active_job ''requested_by'')]"

definition get_active_lock_lease ::
  "job_env \<Rightarrow> string \<Rightarrow> string option \<Rightarrow> (nat \<Rightarrow> datetime) \<Rightarrow> job_db \<Rightarrow> (job_error + pydict option) \<times> job_db" where
  "get_active_lock_lease env lock_key exclude_job_id clock db =
     (case find_active_lock_conflict env lock_key exclude_job_id clock db of
        (Inl e, db1) \<Rightarrow> (Inl e, db1)
      | (Inr None, db1) \<Rightarrow> (Inr None, db1)
      | (Inr (Some active_job), db1) \<Rightarrow> (Inr (Some (lease_of lock_key active_job)), db1))"

definition get_job_without_cleanup :: "string \<Rightarrow> job_db \<Rightarrow> job_error + pydict option" where
  "get_job_without_cleanup job_id db = optional_job (select_job job_id db)"

section \<open>Creation and queries\<close>

record new_job =
  n_job_id :: string
  n_job_type :: string
  n_lock_key :: "string option"
  n_requested_by :: "string option"
  n_input_data :: pyval
  n_artifact_dir :: "string option"
  n_event_context :: pyval

definition queued_row :: "job_env \<Rightarrow> new_job \<Rightarrow> string \<Rightarrow> job_row" where
  "queued_row env n sql_now =
     \<lparr>j_job_id = n_job_id n, j_job_type = n_job_type n, j_status = QUEUED, j_lock_key = n_lock_key n,
      j_requested_by = n_requested_by n, j_input_json = job_json_dumps (n_input_data n),
      j_event_context_json = job_json_dumps (e_sanitize env (py_or (n_event_context n) (PDict []))),
      j_result_json = None, j_error_code = None, j_error_message = None,
      j_artifact_dir = n_artifact_dir n, j_created_at = sql_now, j_started_at = None,
      j_finished_at = None, j_updated_at = sql_now\<rparr>"

text \<open>
  \<open>INSERT INTO jobs\<close>: the primary key and the partial unique index
  \<open>idx_jobs_active_lock_unique\<close> on the lock keys of active rows.
\<close>

definition insert_job :: "job_row \<Rightarrow> job_db \<Rightarrow> job_db option" where
  "insert_job row db =
     (if j_job_id row \<in> j_job_id ` set (db_jobs db)
         \<or> (j_lock_key row \<noteq> None \<and> active_status (j_status row)
            \<and> (\<exists>r\<in>set (db_jobs db). active_status (j_status r) \<and> j_lock_key r = j_lock_key row))
      then None else Some (db\<lparr>db_jobs := db_jobs db @ [row]\<rparr>))"

definition has_lock_key :: "string option \<Rightarrow> bool" where
  "has_lock_key k = (case k of None \<Rightarrow> False | Some s \<Rightarrow> s \<noteq> [])"

text \<open>The check before the insert: the conflict that \<open>create_job\<close> raises, if any.\<close>

definition check_lock ::
  "job_env \<Rightarrow> string option \<Rightarrow> (nat \<Rightarrow> datetime) \<Rightarrow> job_db \<Rightarrow> (job_error + unit) \<times> job_db" where
  "check_lock env lock_key clock db =
     (if \<not> has_lock_key lock_key then (Inr (), db)
      else (case get_active_lock_lease env (the lock_key) None clock db of
              (Inl e, db1) \<Rightarrow> (Inl e, db1)
            | (Inr None, db1) \<Rightarrow> (Inr (), db1)
            | (Inr (Some lease), db1) \<Rightarrow>
                (case get_job_without_cleanup (py_str (dict_get lease ''owner_job_id'')) db1 of
                   Inl e \<Rightarrow> (Inl e, db1)
                 | Inr None \<Rightarrow> (Inl (LockConflict (the lock_key) lease), db1)
                 | Inr (Some job) \<Rightarrow> (Inl (LockConflict (the lock_key) job), db1))))"

definition insert_queued ::
  "job_env \<Rightarrow> new_job \<Rightarrow> string \<Rightarrow> (nat \<Rightarrow> datetime) \<Rightarrow> job_db \<Rightarrow> (job_error + pydict) \<times> job_db" where
  "insert_queued env n sql_now clock db =
     (let row = queued_row env n sql_now
      in case insert_job row db of
           Some db1 \<Rightarrow> (case row_to_job row of Inl e \<Rightarrow> (Inl (Raised e), db1) | Inr job \<Rightarrow> (Inr job, db1))
         | None \<Rightarrow>
             if has_lock_key (n_lock_key n)
             then (case find_active_lock_conflict env (the (n_lock_key n)) None clock db of
                     (Inl e, db1) \<Rightarrow> (Inl e, db1)
                   | (Inr (Some active_job), db1) \<Rightarrow> (Inl (LockConflict (the (n_lock_key n)) active_job), db1)
                   | (Inr None, db1) \<Rightarrow> (Inl (Raised (SqlError ''IntegrityError'')), db1))
             else (Inl (Raised (SqlError ''IntegrityError'')), db))"

text \<open>\<open>clock i\<close> is the clock of the \<open>i\<close>-th cleanup; \<open>other\<close> runs between the check and the insert.\<close>

definition create_job ::
  "job_env \<Rightarrow> new_job \<Rightarrow> string \<Rightarrow> (nat \<Rightarrow> nat \<Rightarrow> datetime) \<Rightarrow> (job_db \<Rightarrow> job_db) \<Rightarrow> job_db
   \<Rightarrow> (job_error + pydict) \<times> job_db" where
  "create_job env n sql_now clock other db =
     (case cleanup_stale_running_jobs env None (clock 0) id db of
        (Inl e, db1) \<Rightarrow> (Inl e, db1)
      | (Inr _, db1) \<Rightarrow>
          (case check_lock env (n_lock_key n) (clock 1) db1 of
             (Inl e, db2) \<Rightarrow> (Inl e, db2)
           | (Inr _, db2) \<Rightarrow> insert_queued env n sql_now (clock 2) (other db2)))"

definition get_job :: "job_env \<Rightarrow> string \<Rightarrow> (nat \<Rightarrow> datetime) \<Rightarrow> job_db \<Rightarrow> (job_error + pydict option) \<times> job_db" where
  "get_job env job_id clock db =
     (case cleanup_stale_running_jobs env None clock id db of
        (Inl e, db1) \<Rightarrow> (Inl e, db1)
      | (Inr _, db1) \<Rightarrow> (optional_job (select_job job_id db1), db1))"

definition list_jobs ::
  "job_env \<Rightarrow> int \<Rightarrow> string option \<Rightarrow> string option \<Rightarrow> (nat \<Rightarrow> datetime) \<Rightarrow> job_db \<Rightarrow> (job_error + pydict list) \<times> job_db" where
  "list_jobs env limit job_type status clock db =
     (case cleanup_stale_running_jobs env None clock id db of
        (Inl e, db1) \<Rightarrow> (Inl e, db1)
      | (Inr _, db1) \<Rightarrow>
          let safe_limit = max 1 (min limit 200);
              wanted = (\<lambda>r. (case job_type of None \<Rightarrow> True | Some t \<Rightarrow> t = [] \<or> j_job_type r = t)
                          \<and> (case status of None \<Rightarrow> True | Some s \<Rightarrow> s = [] \<or> status_value (j_status r) = s));
              rows = take (nat safe_limit) (rev (sort_key j_created_at (filter wanted (db_jobs db1))))
          in (collect (\<lambda>r. case row_to_job r of Inl e \<Rightarrow> Inl (Raised e) | Inr job \<Rightarrow> Inr job) rows, db1))"

section \<open>Compaction of stored results\<close>

definition parsed_result :: "int \<Rightarrow> json_text \<Rightarrow> pyval" where
  "parsed_result limit_bytes original =
     (case original of
        JText v \<Rightarrow> if is_dict v then v else PDict [(''value'', v)]
      | JMalformed _ \<Rightarrow>
          PDict [(''__truncated__'', PBool True), (''original_bytes'', PInt (json_length original)),
                 (''max_bytes'', PInt limit_bytes), (''summary'', PDict [(''error'', PStr ''invalid_json'')])])"

definition compaction_candidate :: "job_env \<Rightarrow> int \<Rightarrow> job_row \<Rightarrow> (string \<times> int \<times> json_text) option" where
  "compaction_candidate env limit_bytes row =
     (case j_result_json row of
        None \<Rightarrow> None
      | Some original \<Rightarrow>
          (case encode_job_result (e_max_bytes env) (parsed_result limit_bytes original) of
             None \<Rightarrow> None
           | Some encoded \<Rightarrow>
               if json_length encoded \<ge> json_length original then None
               else Some (j_job_id row, json_length original - json_length encoded, encoded)))"

definition select_oversized :: "int \<Rightarrow> job_db \<Rightarrow> job_row list" where
  "select_oversized limit_bytes db =
     rev (sort_key (\<lambda>r. json_length (the (j_result_json r)))
       (filter (\<lambda>r. j_result_json r \<noteq> None \<and> json_length (the (j_result_json r)) > limit_bytes
                     \<and> \<not> active_status (j_status r)) (db_jobs db)))"

fun store_compacted :: "(string \<times> int \<times> json_text) list \<Rightarrow> job_db \<Rightarrow> job_db" where
  "store_compacted [] db = db"
| "store_compacted ((job_id, saved, encoded) # rest) db =
     store_compacted rest (snd (update_jobs (\<lambda>r. j_job_id r = job_id) (\<lambda>r. r\<lparr>j_result_json := Some encoded\<rparr>) db))"

text \<open>The jobs whose result was replaced, the bytes saved, and the tables.\<close>

definition compact_oversized_job_results ::
  "job_env \<Rightarrow> int option \<Rightarrow> bool \<Rightarrow> job_db \<Rightarrow> (string list \<times> int) \<times> job_db" where
  "compact_oversized_job_results env max_bytes dry_run db =
     (let limit_bytes = (case max_bytes of None \<Rightarrow> e_max_bytes env | Some n \<Rightarrow> n);
          candidates = List.map_filter (compaction_candidate env limit_bytes) (select_oversized limit_bytes db);
          saved = sum_list (map (\<lambda>(_, n, _). n) candidates)
      in if dry_run then (([], saved), db)
         else ((map fst candidates, saved), store_compacted candidates db))"

end
