(* ===== verification/Job_Table.thy ===== *)
theory Job_Table
  imports Jobs "HOL-Library.Sublist"
begin

text \<open>
  The job table as a state machine: how every operation changes the rows, that the locks of active jobs
  stay disjoint, that a terminal outcome never changes and always has its snapshot, and where the code
  leaves a window between its check and its write.
\<close>

section \<open>How rows may change\<close>

definition active :: "job_row \<Rightarrow> bool" where
  "active r = active_status (j_status r)"

text \<open>What the audit writer must keep of a snapshot call for the retention check to accept it.\<close>

definition document_keeps :: "audit_call \<Rightarrow> pydict \<Rightarrow> bool" where
  "document_keeps call details =
     (dict_get details ''event_code'' = PStr ''job.terminal_outcome''
      \<and> dict_get details ''action'' = PStr ''job.terminal_outcome''
      \<and> dict_get details ''result'' = PStr (a_result call)
      \<and> get_in (dict_get details ''event_context'') ''job_id'' = PStr (a_entity_id call)
      \<and> (\<forall>k\<in>set (map fst (a_details call)). dict_get details k = dict_get (a_details call) k))"

definition audit_faithful :: "job_env \<Rightarrow> bool" where
  "audit_faithful env =
     (\<forall>row ctx classification assurance include details.
        canonical_uuid (j_job_id row) \<longrightarrow>
        e_audit env (snapshot_call env row ctx classification assurance include) = Inr details \<longrightarrow>
        document_keeps (snapshot_call env row ctx classification assurance include) details)"

definition recorded :: "job_env \<Rightarrow> log_row list \<Rightarrow> job_row \<Rightarrow> bool" where
  "recorded env logs r =
     (\<exists>l\<in>set logs. l_event_id l = terminal_snapshot_event_id env (j_job_id r)
        \<and> (audit_faithful env \<longrightarrow> terminal_snapshot_matches r l))"

definition row_progress :: "job_env \<Rightarrow> log_row list \<Rightarrow> job_row \<Rightarrow> job_row \<Rightarrow> bool" where
  "row_progress env logs r r' =
     (j_job_id r' = j_job_id r \<and> j_lock_key r' = j_lock_key r \<and> (\<not> active r \<longrightarrow> r' = r)
      \<and> (active r \<and> \<not> active r' \<longrightarrow> recorded env logs r'))"

text \<open>No row appears or disappears, terminal rows stay as they are, and logs are only appended.\<close>

definition progress :: "job_env \<Rightarrow> job_db \<Rightarrow> job_db \<Rightarrow> bool" where
  "progress env db db' = (list_all2 (row_progress env (db_logs db')) (db_jobs db) (db_jobs db')
     \<and> prefix (db_logs db) (db_logs db'))"

definition distinct_ids :: "job_db \<Rightarrow> bool" where
  "distinct_ids db = distinct (map j_job_id (db_jobs db))"

lemma recorded_mono: "recorded env logs r \<Longrightarrow> prefix logs logs' \<Longrightarrow> recorded env logs' r"
  by (auto simp: recorded_def dest: set_mono_prefix)

lemma row_progress_refl [simp]: "row_progress env logs r r"
  by (simp add: row_progress_def)

lemma row_progress_trans:
  "row_progress env logs r s \<Longrightarrow> row_progress env logs' s t \<Longrightarrow> prefix logs logs' \<Longrightarrow> row_progress env logs' r t"
  by (auto simp: row_progress_def dest: recorded_mono)

lemma progress_refl [simp]: "progress env db db"
  by (simp add: progress_def list_all2_same)

lemma progress_trans [trans]:
  assumes "progress env a b" and "progress env b c"
  shows "progress env a c"
proof -
  have p: "prefix (db_logs b) (db_logs c)" using assms by (simp add: progress_def)
  have "list_all2 (row_progress env (db_logs c)) (db_jobs a) (db_jobs c)"
    using list_all2_trans [of "row_progress env (db_logs b)" "row_progress env (db_logs c)"] row_progress_trans p assms
    by (smt (verit) progress_def)
  then show ?thesis using assms by (auto simp: progress_def)
qed

lemma progress_ids: "progress env db db' \<Longrightarrow> map j_job_id (db_jobs db') = map j_job_id (db_jobs db)"
proof -
  assume "progress env db db'"
  then have "list_all2 (row_progress env (db_logs db')) (db_jobs db) (db_jobs db')" by (simp add: progress_def)
  then show ?thesis by (induction rule: list_all2_induct) (auto simp: row_progress_def)
qed

lemma progress_distinct: "progress env db db' \<Longrightarrow> distinct_ids db \<Longrightarrow> distinct_ids db'"
  by (simp add: distinct_ids_def progress_ids)

section \<open>Single updates\<close>

lemma update_jobs_simps [simp]:
  "fst (update_jobs p f db) = length (filter p (db_jobs db))"
  "db_jobs (snd (update_jobs p f db)) = map (\<lambda>r. if p r then f r else r) (db_jobs db)"
  "db_logs (snd (update_jobs p f db)) = db_logs db"
  by (simp_all add: update_jobs_def)

lemma list_all2_map_same: "list_all2 P xs (map f xs) \<longleftrightarrow> (\<forall>x\<in>set xs. P x (f x))"
  by (induction xs) auto

text \<open>An update that keeps ids, lock keys and activity, of active rows only.\<close>

lemma update_active_progress:
  assumes "\<And>r. r \<in> set (db_jobs db) \<Longrightarrow> p r \<Longrightarrow> active r \<and> active (f r) \<and> j_job_id (f r) = j_job_id r \<and> j_lock_key (f r) = j_lock_key r"
  shows "progress env db (snd (update_jobs p f db))"
  using assms by (auto simp: progress_def list_all2_map_same row_progress_def)

text \<open>A row count of one: the updated row is the one that the next \<open>SELECT\<close> finds.\<close>

lemma find_filter: "find P xs = (case filter P xs of [] \<Rightarrow> None | x # _ \<Rightarrow> Some x)"
  by (induction xs) auto

lemma distinct_key_filter:
  "distinct (map g xs) \<Longrightarrow> r \<in> set xs \<Longrightarrow> filter (\<lambda>x. g x = g r) xs = [r]"
  by (induction xs) (auto simp: filter_empty_conv, metis image_eqI)

lemma select_job_unique:
  "distinct_ids db \<Longrightarrow> r \<in> set (db_jobs db) \<Longrightarrow> select_job (j_job_id r) db = Some r"
  using distinct_key_filter [of j_job_id "db_jobs db" r]
  by (simp add: select_job_def find_filter distinct_ids_def)

lemma select_job_Some: "select_job i db = Some r \<Longrightarrow> r \<in> set (db_jobs db) \<and> j_job_id r = i"
  by (auto simp: select_job_def find_Some_iff in_set_conv_nth)

lemma select_job_None: "select_job i db = None \<longleftrightarrow> i \<notin> j_job_id ` set (db_jobs db)"
  by (auto simp: select_job_def find_None_iff)

lemma update_none:
  "filter p (db_jobs db) = [] \<Longrightarrow> update_jobs p f db = (0, db)"
  by (cases db) (auto simp: update_jobs_def filter_empty_conv intro!: map_idI)

lemma keyed_update_cases:
  assumes "distinct_ids db" and "\<And>r. p r \<Longrightarrow> j_job_id r = i"
  obtains "filter p (db_jobs db) = []" | r where "r \<in> set (db_jobs db)" "p r" "filter p (db_jobs db) = [r]"
proof (cases "\<exists>r\<in>set (db_jobs db). p r")
  case True
  then obtain r where r: "r \<in> set (db_jobs db)" "p r" by blast
  have "filter p (db_jobs db) = filter p (filter (\<lambda>x. j_job_id x = j_job_id r) (db_jobs db))"
    using assms(2) r(2) by (auto intro!: filter_cong)
  also have "\<dots> = [r]"
    using distinct_key_filter [of j_job_id "db_jobs db" r] assms(1) r by (simp add: distinct_ids_def)
  finally show thesis using that(2) r by blast
next
  case False
  then show thesis using that(1) by (auto simp: filter_empty_conv)
qed

text \<open>Of rows with distinct ids, an update by id changes at most one.\<close>

lemma keyed_update:
  assumes "distinct_ids db" and "\<And>r. p r \<Longrightarrow> j_job_id r = i"
  obtains "update_jobs p f db = (0, db)" | db1 where "update_jobs p f db = (1, db1)"
proof (rule keyed_update_cases [OF assms])
  assume "filter p (db_jobs db) = []"
  then show thesis using that(1) update_none by blast
next
  fix r
  assume "filter p (db_jobs db) = [r]"
  then show thesis using that(2) by (simp add: update_jobs_def)
qed

lemma selected_after_update:
  assumes "distinct_ids db" and "r \<in> set (db_jobs db)" and "p r" and "\<And>x. j_job_id (f x) = j_job_id x"
  shows "select_job (j_job_id r) (snd (update_jobs p f db)) = Some (f r)"
proof -
  have "distinct_ids (snd (update_jobs p f db))"
    using assms(1,4) by (simp add: distinct_ids_def comp_def if_distrib cong: if_cong)
  moreover have "f r \<in> set (db_jobs (snd (update_jobs p f db)))" using assms(2,3) by force
  ultimately show ?thesis using select_job_unique assms(4) by metis
qed

lemma updated_row_found:
  assumes "distinct_ids db" and "\<And>r. p r \<Longrightarrow> j_job_id r = i" and "\<And>x. j_job_id (f x) = j_job_id x"
    and "update_jobs p f db = (1, db1)"
  shows "\<exists>r\<in>set (db_jobs db). p r \<and> select_job i db1 = Some (f r)"
proof (rule keyed_update_cases [where db = db and p = p and i = i, OF assms(1,2)])
  show ?thesis if "filter p (db_jobs db) = []" using update_none [OF that] assms(4) by simp
next
  fix r
  assume r: "r \<in> set (db_jobs db)" "p r"
  then have "select_job i db1 = Some (f r)"
    using selected_after_update [where p = p and f = f, OF assms(1) r assms(3)] assms(2) [OF r(2)] assms(4) by simp
  then show ?thesis using r by blast
qed

section \<open>Snapshots\<close>

lemma write_snapshot_cases:
  assumes "write_terminal_snapshot env row cls assurance include db = Inr db'"
  obtains ctx details where
    "canonical_uuid (j_job_id row)"
    "e_audit env (snapshot_call env row ctx cls assurance include) = Inr details"
    "terminal_snapshot_event_id env (j_job_id row) \<notin> l_event_id ` set (db_logs db)"
    "db' = db\<lparr>db_logs := db_logs db @ [\<lparr>l_event_id = terminal_snapshot_event_id env (j_job_id row),
       l_event_type = ''job.terminal_outcome'', l_details_json = Some (json_dumps (PDict details))\<rparr>]\<rparr>"
proof -
  obtain ctx details where
    "canonical_uuid (j_job_id row)" "e_audit env (snapshot_call env row ctx cls assurance include) = Inr details"
    "insert_log \<lparr>l_event_id = terminal_snapshot_event_id env (j_job_id row),
       l_event_type = ''job.terminal_outcome'', l_details_json = Some (json_dumps (PDict details))\<rparr> db = Inr db'"
    using assms
    by (auto simp: write_terminal_snapshot_def Let_def snapshot_call_def split: if_splits sum.splits)
  then show thesis
    using that [of ctx details] by (simp add: insert_log_def split: if_splits)
qed

lemma snapshot_matches_faithful:
  assumes "audit_faithful env" and "canonical_uuid (j_job_id row)" and "j_finished_at row = Some t"
    and "e_audit env (snapshot_call env row ctx cls assurance include) = Inr details"
    and "classification_matches (j_status row) (PStr assurance) (PStr cls)"
  shows "terminal_snapshot_matches row
    \<lparr>l_event_id = i, l_event_type = ''job.terminal_outcome'', l_details_json = Some (json_dumps (PDict details))\<rparr>"
proof -
  let ?call = "snapshot_call env row ctx cls assurance include"
  have keeps: "document_keeps ?call details" using assms(1,2,4) unfolding audit_faithful_def by blast
  have get: "dict_get details ''outcome'' = PStr (status_value (j_status row))"
    "dict_get details ''entity_type'' = PStr ''job''" "dict_get details ''entity_id'' = PStr (j_job_id row)"
    "dict_get details ''execution_status'' = PStr (status_value (j_status row))"
    "dict_get details ''execution_classification'' = PStr cls" "dict_get details ''finished_at_utc'' = PStr t"
    "dict_get details ''snapshot_assurance'' = PStr assurance"
    "dict_get details ''result'' = PStr (status_value (j_status row))"
    "get_in (dict_get details ''event_context'') ''job_id'' = PStr (j_job_id row)"
    "dict_get details ''event_code'' = PStr ''job.terminal_outcome''"
    "dict_get details ''action'' = PStr ''job.terminal_outcome''"
    using keeps assms(3) by (simp_all add: snapshot_call_def Let_def document_keeps_def)
  obtain c where c: "dict_get details ''event_context'' = PDict c" "dict_get c ''job_id'' = PStr (j_job_id row)"
    using get(9) by (cases "dict_get details ''event_context''") (auto simp: get_in_def)
  have ctx: "get_in (sort_keys (PDict details)) ''event_context'' = sort_keys (PDict c)" using c(1) by simp
  note keys = get_in_sort_keys is_dict_sort_keys sort_keys.simps(1-4)
  show ?thesis
    unfolding terminal_snapshot_matches_def json_dumps_def Let_def ctx
    using get c assms(3,5) by (simp only: keys) simp
qed

text \<open>A guarded transition of one active row into a terminal status, with its snapshot.\<close>

lemma terminal_transition:
  assumes ids: "distinct_ids db" and p: "\<And>r. p r \<Longrightarrow> j_job_id r = i \<and> active r"
    and f: "\<And>r. j_job_id (f r) = j_job_id r" "\<And>r. j_lock_key (f r) = j_lock_key r"
      "\<And>r. j_finished_at (f r) = Some t"
      "\<And>r. p r \<Longrightarrow> \<not> active (f r) \<and> classification_matches (j_status (f r)) (PStr ''terminal_commit'') (PStr cls)"
    and up: "update_jobs p f db = (1, db1)" and row: "select_job i db1 = Some row"
    and w: "write_terminal_snapshot env row cls ''terminal_commit'' True db1 = Inr db2"
  shows "progress env db db2"
proof -
  obtain r where r: "r \<in> set (db_jobs db)" "p r" "filter p (db_jobs db) = [r]"
    by (rule keyed_update_cases [OF ids, of p i]) (use p up in \<open>auto simp: update_jobs_def\<close>)
  have d1: "db_jobs db1 = map (\<lambda>r. if p r then f r else r) (db_jobs db)" "db_logs db1 = db_logs db"
    using up by (auto simp: update_jobs_def)
  have fr: "row = f r"
    using selected_after_update [where p = p and f = f, OF ids r(1,2) f(1)] row p [OF r(2)] up by simp
  from w obtain ctx details where
    s: "canonical_uuid (j_job_id row)" "e_audit env (snapshot_call env row ctx cls ''terminal_commit'' True) = Inr details"
      "db2 = db1\<lparr>db_logs := db_logs db1 @
         [\<lparr>l_event_id = terminal_snapshot_event_id env (j_job_id row),
           l_event_type = ''job.terminal_outcome'', l_details_json = Some (json_dumps (PDict details))\<rparr>]\<rparr>"
    by (rule write_snapshot_cases)
  have rec: "recorded env (db_logs db2) (f r)"
    unfolding recorded_def using snapshot_matches_faithful [OF _ s(1) _ s(2)] f(3) f(4) [OF r(2)] fr s(3) by auto
  have only: "x = r" if "x \<in> set (db_jobs db)" "p x" for x
  proof -
    have "x \<in> set (filter p (db_jobs db))" using that by simp
    then show ?thesis using r(3) by simp
  qed
  show ?thesis
    unfolding progress_def using f(1,2) p rec only s(3) d1
    by (auto simp: list_all2_map_same row_progress_def)
qed

section \<open>Progress of the operations\<close>

lemma terminal_statuses [simp]:
  "active_status QUEUED" "active_status RUNNING" "\<not> active_status SUCCESS" "\<not> active_status FAILED"
  "\<not> active_status CANCELLED"
  by (simp_all add: active_status_def)

lemma finish_running_progress:
  assumes "distinct_ids db"
    and "\<And>r. j_job_id (f r) = j_job_id r" and "\<And>r. j_lock_key (f r) = j_lock_key r"
    and "\<And>r. j_finished_at (f r) = Some t" and "\<And>r. \<not> active (f r)"
    and "\<And>r. classification_matches (j_status (f r)) (PStr ''terminal_commit'') (PStr cls)"
    and "finish_running env i f cls db = (res, db')"
  shows "progress env db db'"
proof -
  let ?p = "\<lambda>r. j_job_id r = i \<and> j_status r = RUNNING"
  have p: "\<And>r. ?p r \<Longrightarrow> j_job_id r = i \<and> active r" by (simp add: active_def)
  show ?thesis
  proof (rule keyed_update [OF assms(1), of ?p i f])
    show "j_job_id r = i" if "?p r" for r using that by simp
    show ?thesis if "update_jobs ?p f db = (0, db)"
      using assms(7) that by (auto simp: finish_running_def split: option.splits)
    fix db1
    assume u: "update_jobs ?p f db = (1, db1)"
    obtain row where row: "select_job i db1 = Some row"
      using updated_row_found [where p = ?p and f = f and i = i, OF assms(1) _ assms(2) u] by auto
    show ?thesis
      using assms(7) terminal_transition [where p = ?p and f = f and cls = cls and t = t and env = env,
          OF assms(1) p assms(2-4) _ u row] assms(5,6)
      by (auto simp: finish_running_def u row split: sum.splits)
  qed
qed

lemma mark_progress:
  assumes "distinct_ids db"
  shows "progress env db (snd (mark_job_success env i result now db))"
    and "progress env db (snd (mark_job_failed env i code msg result now db))"
    and "progress env db (snd (mark_job_cancelled env i result now db))"
  unfolding mark_job_success_def mark_job_failed_def mark_job_cancelled_def
  by (rule finish_running_progress [OF assms, where t = "strftime_sql now", OF _ _ _ _ _ prod.collapse [symmetric]];
      simp add: active_def classification_matches_def)+

lemma touch_progress: "progress env db (snd (touch_job_running i now db))"
  "progress env db (snd (update_job_running_result env i result now db))"
  by (auto simp: touch_job_running_def update_job_running_result_def active_def split: prod.split
      intro!: update_active_progress dest!: arg_cong [where f = snd])

lemma mark_running_progress:
  assumes "distinct_ids db"
  shows "progress env db (snd (mark_job_running i now id db))"
proof (cases "select_job i db")
  case None
  then show ?thesis by (simp add: mark_job_running_def)
next
  case (Some row)
  let ?f = "\<lambda>r. r\<lparr>j_status := RUNNING, j_started_at := Some (strftime_sql now), j_updated_at := strftime_sql now\<rparr>"
  show ?thesis
  proof (cases "j_status row = QUEUED")
    case True
    have only: "r = row" if "r \<in> set (db_jobs db)" "j_job_id r = i" for r
      using select_job_unique [OF assms that(1)] that(2) Some by simp
    have "progress env db (snd (update_jobs (\<lambda>r. j_job_id r = i) ?f db))"
      by (rule update_active_progress) (use only True in \<open>auto simp: active_def\<close>)
    moreover have "snd (mark_job_running i now id db) = snd (update_jobs (\<lambda>r. j_job_id r = i) ?f db)"
      using Some True by (simp add: mark_job_running_def split: prod.split option.split)
    ultimately show ?thesis by simp
  next
    case False
    then show ?thesis using Some by (simp add: mark_job_running_def)
  qed
qed

lemma stale_update_simps [simp]:
  "j_job_id (stale_update q t r) = j_job_id r" "j_lock_key (stale_update q t r) = j_lock_key r"
  "j_finished_at (stale_update q t r) = Some t" "j_status (stale_update q t r) = FAILED"
  by (simp_all add: stale_update_def)

lemma fail_stale_progress:
  assumes "distinct_ids db" and "\<forall>r\<in>set rows. active r" and "fail_stale env cutoff clock rows db = Inr (out, db')"
  shows "progress env db db'"
  using assms
proof (induction rows arbitrary: clock db out)
  case Nil
  then show ?case by simp
next
  case (Cons s rows)
  let ?p = "\<lambda>r. j_job_id r = j_job_id s \<and> j_status r = j_status s \<and> j_updated_at r \<le> cutoff"
  let ?f = "stale_update (j_status s = QUEUED) (strftime_sql (clock 0))"
  let ?cls = "if j_status s = QUEUED then ''stale_queue_timeout'' else ''stale_running_timeout''"
  have p: "\<And>r. ?p r \<Longrightarrow> j_job_id r = j_job_id s \<and> active r" using Cons.prems(2) by (simp add: active_def)
  have f: "\<And>r. ?p r \<Longrightarrow> \<not> active (?f r) \<and> classification_matches (j_status (?f r)) (PStr ''terminal_commit'') (PStr ?cls)"
    by (simp add: active_def classification_matches_def)
  show ?case
  proof (rule keyed_update [OF Cons.prems(1), of ?p "j_job_id s" ?f])
    show "j_job_id r = j_job_id s" if "?p r" for r using that by simp
    assume "update_jobs ?p ?f db = (0, db)"
    then have "fail_stale env cutoff (\<lambda>i. clock (Suc i)) rows db = Inr (out, db')"
      using Cons.prems(3) by (simp add: Let_def)
    then show ?thesis using Cons.IH [OF Cons.prems(1)] Cons.prems(2) by simp
  next
    fix db1
    assume u: "update_jobs ?p ?f db = (1, db1)"
    obtain row db2 out2 where
      row: "select_job (j_job_id s) db1 = Some row"
      and w: "write_terminal_snapshot env row ?cls ''terminal_commit'' True db1 = Inr db2"
      and rest: "fail_stale env cutoff (\<lambda>i. clock (Suc i)) rows db2 = Inr (out2, db')"
    proof -
      obtain row where row: "select_job (j_job_id s) db1 = Some row"
        using updated_row_found [where p = ?p and f = ?f and i = "j_job_id s", OF Cons.prems(1) _ _ u] by auto
      have e: "(case write_terminal_snapshot env row ?cls ''terminal_commit'' True db1 of
          Inl e \<Rightarrow> Inl e
        | Inr db2 \<Rightarrow> (case fail_stale env cutoff (\<lambda>i. clock (Suc i)) rows db2 of
            Inl e \<Rightarrow> Inl e | Inr (rs, db3) \<Rightarrow> Inr (row # rs, db3))) = Inr (out, db')"
        using Cons.prems(3) u row by (simp add: Let_def)
      show thesis
        by (cases "write_terminal_snapshot env row ?cls ''terminal_commit'' True db1")
          (use e that [OF row] in \<open>auto split: sum.splits\<close>)
    qed
    have 1: "progress env db db2"
      by (rule terminal_transition [where p = ?p and f = ?f and cls = ?cls and t = "strftime_sql (clock 0)",
            OF Cons.prems(1) p _ _ _ f u row w]) simp_all
    also have "progress env db2 db'"
      using Cons.IH [OF progress_distinct [OF 1 Cons.prems(1)] _ rest] Cons.prems(2) by simp
    finally show ?thesis .
  qed
qed

lemma cleanup_progress:
  assumes "distinct_ids db"
  shows "progress env db (snd (cleanup_stale_running_jobs env after clock id db))"
proof -
  have "\<forall>r\<in>set (select_stale c db). active r" for c by (simp add: select_stale_def active_def)
  then show ?thesis
    using fail_stale_progress [OF assms]
    by (simp add: cleanup_stale_running_jobs_def Let_def split: sum.split prod.split) blast
qed

lemma find_conflict_progress:
  "distinct_ids db \<Longrightarrow> progress env db (snd (find_active_lock_conflict env k ex clock db))"
  using cleanup_progress [of db env None clock]
  by (auto simp: find_active_lock_conflict_def Let_def split: prod.split sum.split)

lemma check_lock_progress:
  "distinct_ids db \<Longrightarrow> progress env db (snd (check_lock env k clock db))"
  using find_conflict_progress [of db env "the k" None clock]
  by (auto simp: check_lock_def get_active_lock_lease_def Let_def split: prod.splits sum.splits option.splits)

section \<open>Locks\<close>

definition job_holds :: "job_db \<Rightarrow> (string \<times> string set) set" where
  "job_holds db = (\<lambda>r. (j_job_id r, lock_tokens (j_lock_key r))) ` {r \<in> set (db_jobs db). active r}"

definition lock_clash :: "string set \<Rightarrow> string set \<Rightarrow> bool" where
  "lock_clash k l = (k \<inter> l \<noteq> {})"

lemma progress_row:
  assumes "progress env db db'" and "r' \<in> set (db_jobs db')"
  shows "\<exists>r\<in>set (db_jobs db). row_progress env (db_logs db') r r'"
  using assms unfolding progress_def list_all2_conv_all_nth by (metis in_set_conv_nth)

lemma progress_forward:
  assumes "progress env db db'" and "r \<in> set (db_jobs db)"
  shows "\<exists>r'\<in>set (db_jobs db'). row_progress env (db_logs db') r r'"
  using assms unfolding progress_def list_all2_conv_all_nth by (metis in_set_conv_nth)

lemma progress_holds: "progress env db db' \<Longrightarrow> job_holds db' \<subseteq> job_holds db"
  using progress_row by (fastforce simp: job_holds_def row_progress_def)

lemma first_conflict_None:
  "first_conflict wanted rows = Inr None \<Longrightarrow> r \<in> set rows \<Longrightarrow> wanted \<inter> lock_tokens (j_lock_key r) = {}"
  by (induction rows) (auto split: sum.splits if_splits)

lemma find_conflict_None:
  assumes "find_active_lock_conflict env k None clock db = (Inr None, db')" and "r \<in> set (db_jobs db')" and "active r"
  shows "lock_tokens (Some k) \<inter> lock_tokens (j_lock_key r) = {}"
  using assms first_conflict_None [of "lock_tokens (Some k)" "select_active None db'" r]
  by (auto simp: find_active_lock_conflict_def Let_def select_active_def active_def split: prod.splits sum.splits if_splits)

lemma check_lock_free:
  assumes "check_lock env k clock db = (Inr u, db')" and "r \<in> set (db_jobs db')" and "active r"
  shows "lock_tokens k \<inter> lock_tokens (j_lock_key r) = {}"
proof (cases "has_lock_key k")
  case True
  then obtain key where k: "k = Some key" by (cases k) (auto simp: has_lock_key_def)
  have "find_active_lock_conflict env key None clock db = (Inr None, db')"
    using assms(1) True k
    by (auto simp: check_lock_def get_active_lock_lease_def split: prod.splits sum.splits option.splits)
  then show ?thesis using find_conflict_None assms(2,3) k by blast
next
  case False
  then have "lock_tokens k = {}" by (cases k) (auto simp: has_lock_key_def lock_tokens_def replace_char_def)
  then show ?thesis by simp
qed

text \<open>What \<open>create_job\<close> does when nothing runs between its check and its insert.\<close>

lemma create_job_effect:
  assumes ids: "distinct_ids db" and c: "create_job env n t clock id db = (res, db')"
  shows "progress env db db' \<or> (\<exists>db2. progress env db db2 \<and> insert_job (queued_row env n t) db2 = Some db'
    \<and> (\<forall>r\<in>set (db_jobs db2). active r \<longrightarrow> lock_tokens (n_lock_key n) \<inter> lock_tokens (j_lock_key r) = {}))"
proof -
  obtain r1 db1 where a: "cleanup_stale_running_jobs env None (clock 0) id db = (r1, db1)" by fastforce
  obtain r2 db2 where b: "check_lock env (n_lock_key n) (clock 1) db1 = (r2, db2)" by fastforce
  have 1: "progress env db db1" using cleanup_progress [OF ids, of env None "clock 0"] a by simp
  note d1 = progress_distinct [OF 1 ids]
  have 2: "progress env db db2"
    using progress_trans [OF 1] check_lock_progress [OF d1, of env "n_lock_key n" "clock 1"] b by simp
  note d2 = progress_distinct [OF 2 ids]
  have 3: "progress env db (snd (find_active_lock_conflict env k None c db2))" for k c
    using progress_trans [OF 2 find_conflict_progress [OF d2]] .
  consider "db' = db1" | "db' = db2" | u where "r2 = Inr u" "insert_queued env n t (clock 2) db2 = (res, db')"
    using c a b by (cases r1; cases r2) (auto simp: create_job_def)
  then show ?thesis
  proof cases
    case (3 u)
    show ?thesis
    proof (cases "insert_job (queued_row env n t) db2")
      case None
      then show ?thesis using 3(2) 2 \<open>\<And>k c. progress env db (snd (find_active_lock_conflict env k None c db2))\<close>
        by (auto simp: insert_queued_def Let_def split: prod.splits sum.splits option.splits if_splits)
          (metis snd_conv)+
    next
      case (Some db3)
      then have "db' = db3" using 3(2) by (auto simp: insert_queued_def Let_def split: sum.splits)
      then show ?thesis using Some 2 check_lock_free [of env "n_lock_key n" "clock 1" db1 u db2] b 3(1) by blast
    qed
  qed (use 1 2 in auto)
qed

lemma insert_job_Some:
  assumes "insert_job row db = Some db'"
  shows "db' = db\<lparr>db_jobs := db_jobs db @ [row]\<rparr>" and "j_job_id row \<notin> j_job_id ` set (db_jobs db)"
  using assms by (auto simp: insert_job_def split: if_splits)

section \<open>The job table as a step system\<close>

inductive job_step :: "job_env \<Rightarrow> job_db \<Rightarrow> job_db \<Rightarrow> bool" for env where
  create: "job_step env db (snd (create_job env n t clock id db))"
| running: "job_step env db (snd (mark_job_running i now id db))"
| touch: "job_step env db (snd (touch_job_running i now db))"
| partial_result: "job_step env db (snd (update_job_running_result env i result now db))"
| success: "job_step env db (snd (mark_job_success env i result now db))"
| failed: "job_step env db (snd (mark_job_failed env i code msg result now db))"
| cancelled: "job_step env db (snd (mark_job_cancelled env i result now db))"
| cleanup: "job_step env db (snd (cleanup_stale_running_jobs env after ticks id db))"

lemma job_step_effect:
  assumes "job_step env db db'" and "distinct_ids db"
  shows "progress env db db' \<or> (\<exists>n t db2. progress env db db2 \<and> insert_job (queued_row env n t) db2 = Some db'
    \<and> (\<forall>r\<in>set (db_jobs db2). active r \<longrightarrow> lock_tokens (n_lock_key n) \<inter> lock_tokens (j_lock_key r) = {}))"
  using assms(1)
proof cases
  case (create n t clock)
  then show ?thesis using create_job_effect [OF assms(2) prod.collapse [symmetric], of env n t clock] by blast
qed (use assms(2) in \<open>simp_all add: mark_progress touch_progress mark_running_progress cleanup_progress\<close>)

definition all_recorded :: "job_env \<Rightarrow> job_db \<Rightarrow> bool" where
  "all_recorded env db = (\<forall>r\<in>set (db_jobs db). \<not> active r \<longrightarrow> recorded env (db_logs db) r)"

lemma progress_all_recorded:
  assumes "progress env db db'" and "all_recorded env db"
  shows "all_recorded env db'"
proof -
  have p: "prefix (db_logs db) (db_logs db')" using assms(1) by (simp add: progress_def)
  show ?thesis
    unfolding all_recorded_def
  proof (intro ballI impI)
    fix r' assume r': "r' \<in> set (db_jobs db')" "\<not> active r'"
    obtain r where "r \<in> set (db_jobs db)" "row_progress env (db_logs db') r r'"
      using progress_row [OF assms(1) r'(1)] by blast
    then show "recorded env (db_logs db') r'"
      using assms(2) r'(2) recorded_mono [OF _ p] unfolding all_recorded_def row_progress_def by metis
  qed
qed

definition job_ok :: "job_env \<Rightarrow> job_db \<Rightarrow> bool" where
  "job_ok env db = (distinct_ids db \<and> all_recorded env db)"

lemma job_step_ok:
  assumes "job_step env db db'" and "job_ok env db"
  shows "job_ok env db'"
  using job_step_effect [OF assms(1) conjunct1 [OF assms(2) [unfolded job_ok_def]]]
proof (elim disjE exE conjE)
  assume "progress env db db'"
  then show ?thesis using assms(2) progress_distinct progress_all_recorded by (auto simp: job_ok_def)
next
  fix n t db2
  assume p: "progress env db db2" and i: "insert_job (queued_row env n t) db2 = Some db'"
  have "distinct_ids db2" "all_recorded env db2"
    using p assms(2) progress_distinct progress_all_recorded by (auto simp: job_ok_def)
  then show ?thesis
    using insert_job_Some [OF i]
    by (auto simp: job_ok_def distinct_ids_def all_recorded_def queued_row_def active_def)
qed

lemma job_step_holds:
  assumes "job_step env db db'" and "job_ok env db"
  shows "job_holds db' \<subseteq> job_holds db
    \<or> (\<exists>i k. job_holds db' \<subseteq> insert (i, k) (job_holds db) \<and> (\<forall>(j, l)\<in>job_holds db'. j = i \<or> \<not> lock_clash k l))"
  using job_step_effect [OF assms(1) conjunct1 [OF assms(2) [unfolded job_ok_def]]]
proof (elim disjE exE conjE)
  assume "progress env db db'"
  then show ?thesis using progress_holds by blast
next
  fix n t db2
  assume p: "progress env db db2" and i: "insert_job (queued_row env n t) db2 = Some db'"
    and free: "\<forall>r\<in>set (db_jobs db2). active r \<longrightarrow> lock_tokens (n_lock_key n) \<inter> lock_tokens (j_lock_key r) = {}"
  have h: "job_holds db' = insert (n_job_id n, lock_tokens (n_lock_key n)) (job_holds db2)"
  proof -
    have "{r \<in> set (db_jobs db'). active r} = insert (queued_row env n t) {r \<in> set (db_jobs db2). active r}"
      using insert_job_Some(1) [OF i] by (auto simp: queued_row_def active_def)
    then show ?thesis by (simp add: job_holds_def queued_row_def)
  qed
  moreover have "\<forall>(j, l)\<in>job_holds db2. \<not> lock_clash (lock_tokens (n_lock_key n)) l"
    using free by (auto simp: job_holds_def lock_clash_def)
  ultimately show ?thesis using progress_holds [OF p]
    by (intro disjI2 exI [of _ "n_job_id n"] exI [of _ "lock_tokens (n_lock_key n)"]) auto
qed

interpretation jobs: lock_table job_holds lock_clash "job_ok env" "job_step env" for env
  by unfold_locales (simp add: lock_clash_def inf_commute, erule (1) job_step_ok, erule (1) job_step_holds)

text \<open>A terminal row stays in the table, unchanged, whatever steps follow.\<close>

definition frozen :: "job_row \<Rightarrow> job_db \<Rightarrow> bool" where
  "frozen r db = (distinct_ids db \<and> \<not> active r \<and> r \<in> set (db_jobs db))"

lemma progress_frozen: "progress env db db' \<Longrightarrow> frozen r db \<Longrightarrow> frozen r db'"
  using progress_forward [of env db db' r] progress_distinct [of env db db']
  by (auto simp: frozen_def row_progress_def)

lemma job_step_frozen:
  assumes "job_step env db db'" and "frozen r db"
  shows "frozen r db'"
  using job_step_effect [OF assms(1) conjunct1 [OF assms(2) [unfolded frozen_def]]]
proof (elim disjE exE conjE)
  assume "progress env db db'"
  then show ?thesis using assms(2) by (rule progress_frozen)
next
  fix n t db2
  assume p: "progress env db db2" and i: "insert_job (queued_row env n t) db2 = Some db'"
  show ?thesis
    using progress_frozen [OF p assms(2)] insert_job_Some [OF i] by (auto simp: frozen_def distinct_ids_def)
qed

interpretation outcome: step_system "job_step env" "frozen r" for env r
  by unfold_locales (rule job_step_frozen)

end
