(* ===== verification/Job_Properties.thy ===== *)
theory Job_Properties
  imports Job_Table
begin

text \<open>
  The properties of the job table: exclusive locks, final outcomes with their snapshots, exact stale
  cleanup, lock conflicts reported with their owner, bounded results, and the two windows that the code
  leaves open between a check and the write that relies on it.
\<close>

section \<open>Conflicts\<close>

lemma row_to_job_id: "row_to_job r = Inr job \<Longrightarrow> dict_get job ''job_id'' = PStr (j_job_id r)"
  by (auto simp: row_to_job_def split: sum.splits prod.splits)

lemma first_conflict_Some:
  assumes "\<forall>r\<in>set rows. \<exists>job. row_to_job r = Inr job" and "\<exists>r\<in>set rows. wanted \<inter> lock_tokens (j_lock_key r) \<noteq> {}"
  shows "\<exists>r\<in>set rows. \<exists>job. first_conflict wanted rows = Inr (Some job) \<and> row_to_job r = Inr job
    \<and> wanted \<inter> lock_tokens (j_lock_key r) \<noteq> {}"
  using assms by (induction rows) (auto split: sum.splits)

lemma cleanup_nothing_stale:
  assumes "select_stale (stale_cutoff (clock 0) (e_stale_timeout env)) db = []"
  shows "cleanup_stale_running_jobs env None clock id db = (Inr [], db)"
  using assms by (simp add: cleanup_stale_running_jobs_def stale_timeout_def Let_def)

lemma create_job_conflict:
  assumes ids: "distinct_ids db" and key: "n_lock_key n = Some k"
    and fresh: "\<And>i. select_stale (stale_cutoff (clock i 0) (e_stale_timeout env)) db = []"
    and decodable: "\<forall>r\<in>set (db_jobs db). active r \<longrightarrow> (\<exists>job. row_to_job r = Inr job)"
    and owner: "r \<in> set (db_jobs db)" "active r" "lock_tokens (Some k) \<inter> lock_tokens (j_lock_key r) \<noteq> {}"
  shows "\<exists>q\<in>set (db_jobs db). \<exists>job. active q \<and> row_to_job q = Inr job
    \<and> lock_tokens (Some k) \<inter> lock_tokens (j_lock_key q) \<noteq> {}
    \<and> create_job env n t clock other db = (Inl (LockConflict k job), db)"
proof -
  have hk: "has_lock_key (Some k)" using owner(3) by (auto simp: has_lock_key_def lock_tokens_def replace_char_def)
  have clean: "cleanup_stale_running_jobs env None (clock i) id db = (Inr [], db)" for i
    by (rule cleanup_nothing_stale) (rule fresh)
  let ?rows = "select_active None db"
  have rows: "set ?rows = {r \<in> set (db_jobs db). active r}" by (auto simp: select_active_def active_def)
  obtain s job where s: "s \<in> set (db_jobs db)" "active s" "row_to_job s = Inr job"
      "lock_tokens (Some k) \<inter> lock_tokens (j_lock_key s) \<noteq> {}"
    and fc: "first_conflict (lock_tokens (Some k)) ?rows = Inr (Some job)"
    using first_conflict_Some [of ?rows "lock_tokens (Some k)"] rows decodable owner by auto
  have "find_active_lock_conflict env k None (clock 1) db = (Inr (Some job), db)"
    using fc s(4) clean by (auto simp: find_active_lock_conflict_def Let_def)
  moreover have "get_job_without_cleanup (j_job_id s) db = Inr (Some job)"
    using select_job_unique [OF ids s(1)] s(3) by (simp add: get_job_without_cleanup_def optional_job_def)
  ultimately have "check_lock env (Some k) (clock 1) db = (Inl (LockConflict k job), db)"
    using hk row_to_job_id [OF s(3)] by (simp add: check_lock_def get_active_lock_lease_def lease_of_def)
  then show ?thesis
    using s key clean by (auto simp: create_job_def)
qed

section \<open>Stale cleanup\<close>

text \<open>The rows of a session after the loop: the selected ones failed, the others as they were.\<close>

lemma snapshot_keeps_jobs:
  "write_terminal_snapshot env row cls a include db = Inr db' \<Longrightarrow> db_jobs db' = db_jobs db"
  by (erule write_snapshot_cases) simp

lemma fail_stale_exact:
  assumes "distinct_ids db" and "distinct (map j_job_id rows)" and "set rows \<subseteq> set (db_jobs db)"
    and "\<forall>r\<in>set rows. active r \<and> j_updated_at r \<le> cutoff"
    and "fail_stale env cutoff clock rows db = Inr (out, db')"
  shows "map j_job_id out = map j_job_id rows
    \<and> (\<forall>r\<in>set (db_jobs db). if r \<in> set rows then \<exists>t. stale_update (j_status r = QUEUED) t r \<in> set (db_jobs db')
                              else r \<in> set (db_jobs db'))"
  using assms
proof (induction rows arbitrary: clock db out)
  case Nil
  then show ?case by simp
next
  case (Cons s rows)
  let ?p = "\<lambda>r. j_job_id r = j_job_id s \<and> j_status r = j_status s \<and> j_updated_at r \<le> cutoff"
  let ?f = "stale_update (j_status s = QUEUED) (strftime_sql (clock 0))"
  let ?cls = "if j_status s = QUEUED then ''stale_queue_timeout'' else ''stale_running_timeout''"
  have s: "s \<in> set (db_jobs db)" "?p s" using Cons.prems by auto
  obtain db1 where u: "update_jobs ?p ?f db = (1, db1)"
  proof (rule keyed_update [OF Cons.prems(1), of ?p "j_job_id s" ?f])
    show "thesis" if "update_jobs ?p ?f db = (0, db)"
      using that s by (auto simp: update_jobs_def filter_empty_conv)
  qed (use that in auto)
  have d1: "db_jobs db1 = map (\<lambda>r. if ?p r then ?f r else r) (db_jobs db)" using u by (auto simp: update_jobs_def)
  have row: "select_job (j_job_id s) db1 = Some (?f s)"
    using selected_after_update [where p = ?p and f = ?f, OF Cons.prems(1) s] u by simp
  have e: "(case write_terminal_snapshot env (?f s) ?cls ''terminal_commit'' True db1 of
      Inl e \<Rightarrow> Inl e
    | Inr db2 \<Rightarrow> (case fail_stale env cutoff (\<lambda>i. clock (Suc i)) rows db2 of
        Inl e \<Rightarrow> Inl e | Inr (rs, db3) \<Rightarrow> Inr (?f s # rs, db3))) = Inr (out, db')"
    using Cons.prems(5) u row by (simp add: Let_def)
  obtain db2 out2 where w: "write_terminal_snapshot env (?f s) ?cls ''terminal_commit'' True db1 = Inr db2"
    and rest: "fail_stale env cutoff (\<lambda>i. clock (Suc i)) rows db2 = Inr (out2, db')" and out: "out = ?f s # out2"
    using e by (cases "write_terminal_snapshot env (?f s) ?cls ''terminal_commit'' True db1") (auto split: sum.splits)
  have d2: "db_jobs db2 = db_jobs db1" using snapshot_keeps_jobs [OF w] .
  have only: "r = s" if "r \<in> set (db_jobs db)" "j_job_id r = j_job_id s" for r
    using that s(1) Cons.prems(1) by (auto simp: distinct_ids_def distinct_map inj_on_def)
  have jobs: "set (db_jobs db2) = insert (?f s) (set (db_jobs db) - {s})"
    using s only by (auto simp: d2 d1 image_iff)
  have ids2: "distinct_ids db2"
  proof -
    have "map j_job_id (db_jobs db2) = map j_job_id (db_jobs db)" by (auto simp: d2 d1)
    then show ?thesis using Cons.prems(1) by (simp only: distinct_ids_def)
  qed
  have sub: "set rows \<subseteq> set (db_jobs db2)" using Cons.prems(2,3) by (auto simp: jobs)
  have ih: "map j_job_id out2 = map j_job_id rows"
    "\<forall>r\<in>set (db_jobs db2). if r \<in> set rows then \<exists>t. stale_update (j_status r = QUEUED) t r \<in> set (db_jobs db')
                            else r \<in> set (db_jobs db')"
    using Cons.IH [OF ids2 _ sub _ rest] Cons.prems(2,4) by auto
  have "?f s \<notin> set rows"
  proof
    assume "?f s \<in> set rows"
    then have "j_job_id (?f s) \<in> j_job_id ` set rows" by (rule imageI)
    then show False using Cons.prems(2) by simp
  qed
  then have fs: "?f s \<in> set (db_jobs db')" using bspec [OF ih(2), of "?f s"] jobs by simp
  show ?case
    using ih jobs fs out by (auto split: if_splits)
qed

lemma cleanup_exact:
  assumes ids: "distinct_ids db" and t: "0 \<le> stale_timeout env after"
    and run: "fail_stale env (stale_cutoff (clock 0) (stale_timeout env after)) (\<lambda>i. clock (Suc i))
      (select_stale (stale_cutoff (clock 0) (stale_timeout env after)) db) db = Inr (out, db')"
    and r: "r \<in> set (db_jobs db)"
  shows "if active r \<and> j_updated_at r \<le> stale_cutoff (clock 0) (stale_timeout env after)
    then \<exists>t. stale_update (j_status r = QUEUED) t r \<in> set (db_jobs db') else r \<in> set (db_jobs db')"
proof -
  let ?c = "stale_cutoff (clock 0) (stale_timeout env after)"
  let ?rows = "select_stale ?c db"
  have rows: "set ?rows = {r \<in> set (db_jobs db). active r \<and> j_updated_at r \<le> ?c}"
    by (auto simp: select_stale_def active_def)
  have m: "mset ?rows = mset (filter (\<lambda>r. active_status (j_status r) \<and> j_updated_at r \<le> ?c) (db_jobs db))"
    by (simp add: select_stale_def)
  have "distinct (map j_job_id (filter (\<lambda>r. active_status (j_status r) \<and> j_updated_at r \<le> ?c) (db_jobs db)))"
    using ids by (simp add: distinct_ids_def distinct_map_filter)
  then have dist: "distinct (map j_job_id ?rows)"
    using mset_eq_imp_distinct_iff [OF arg_cong [where f = "image_mset j_job_id", OF m, folded mset_map]] by simp
  have sub: "set ?rows \<subseteq> set (db_jobs db)" "\<forall>r\<in>set ?rows. active r \<and> j_updated_at r \<le> ?c" using rows by simp_all
  have mem: "r \<in> set ?rows \<longleftrightarrow> active r \<and> j_updated_at r \<le> ?c" using rows r by simp
  show ?thesis
    using bspec [OF conjunct2 [OF fail_stale_exact [OF ids dist sub run]] r] unfolding mem .
qed

section \<open>Rollback\<close>

lemma finish_running_fails:
  assumes "distinct_ids db" and "r \<in> set (db_jobs db)" and "j_status r = RUNNING"
    and "\<forall>call. \<exists>e. e_audit env call = Inl e" and "\<And>x. j_job_id (f x) = j_job_id x"
  shows "\<exists>e. finish_running env (j_job_id r) f cls db = (Inl (Raised e), db)"
proof -
  let ?p = "\<lambda>x. j_job_id x = j_job_id r \<and> j_status x = RUNNING"
  obtain db1 where u: "update_jobs ?p f db = (1, db1)"
  proof (rule keyed_update [OF assms(1), of ?p "j_job_id r" f])
    show "thesis" if "update_jobs ?p f db = (0, db)"
      using that assms(2,3) by (auto simp: update_jobs_def filter_empty_conv)
  qed (use that in auto)
  obtain row where row: "select_job (j_job_id r) db1 = Some row"
    using updated_row_found [where p = ?p and f = f and i = "j_job_id r", OF assms(1) _ assms(5) u] by auto
  have "\<exists>e. write_terminal_snapshot env row cls ''terminal_commit'' True db1 = Inl e"
    using assms(4) write_snapshot_cases [of env row cls "''terminal_commit''" True db1]
    by (cases "write_terminal_snapshot env row cls ''terminal_commit'' True db1") (auto, metis Inl_Inr_False)
  then show ?thesis using u row by (auto simp: finish_running_def)
qed

section \<open>Sample tables\<close>

definition sample_job_id :: "char \<Rightarrow> string" where
  "sample_job_id c = ''00000000-0000-0000-0000-00000000000'' @ [c]"

definition sample_env :: job_env where
  "sample_env = \<lparr>e_audit = (\<lambda>call. Inr ([(''event_code'', PStr ''job.terminal_outcome''),
       (''action'', PStr ''job.terminal_outcome''), (''result'', PStr (a_result call)),
       (''event_context'', PDict [(''job_id'', PStr (a_entity_id call))])] @ a_details call)),
     e_snapshot_id = (\<lambda>i. ''snapshot-'' @ i), e_sanitize = id, e_max_bytes = 4096, e_stale_timeout = 120\<rparr>"

definition sample_new_job :: "char \<Rightarrow> string option \<Rightarrow> new_job" where
  "sample_new_job c key = \<lparr>n_job_id = sample_job_id c, n_job_type = ''apply_mutation'', n_lock_key = key,
     n_requested_by = None, n_input_data = PNone, n_artifact_dir = None, n_event_context = PNone\<rparr>"

definition empty_db :: job_db where
  "empty_db = \<lparr>db_jobs = [], db_logs = []\<rparr>"

text \<open>One queued job with the lock key \<open>apply+rules\<close>, created at the epoch.\<close>

definition queued_db :: job_db where
  "queued_db = \<lparr>db_jobs = [queued_row sample_env (sample_new_job CHR ''1'' (Some ''apply+rules''))
     ''1970-01-01 00:00:00''], db_logs = []\<rparr>"

lemma sample_env_faithful: "audit_faithful sample_env"
  by (auto simp: audit_faithful_def document_keeps_def sample_env_def snapshot_call_def Let_def)

lemma empty_db_ok: "job_ok env empty_db" "job_holds empty_db = {}"
  by (simp_all add: empty_db_def job_ok_def distinct_ids_def all_recorded_def job_holds_def)

section \<open>Properties\<close>

text \<open>
  C15. Mutual exclusion. Starting from a table whose active jobs have disjoint locks, every sequence of
  job operations, each run without another one inside it, keeps the lock tokens of different active jobs
  disjoint.
\<close>

theorem active_locks_stay_disjoint:
  assumes "(job_step env)\<^sup>*\<^sup>* db db'" and "job_ok env db" and "exclusive lock_clash (job_holds db)"
    and "a \<in> set (db_jobs db')" and "b \<in> set (db_jobs db')" and "active a" and "active b" and "j_job_id a \<noteq> j_job_id b"
  shows "lock_tokens (j_lock_key a) \<inter> lock_tokens (j_lock_key b) = {}"
proof -
  have "exclusive lock_clash (job_holds db')" using jobs.steps_inv [OF assms(1)] assms(2,3) by blast
  moreover have "(j_job_id a, lock_tokens (j_lock_key a)) \<in> job_holds db'"
    "(j_job_id b, lock_tokens (j_lock_key b)) \<in> job_holds db'"
    using assms(4-7) by (auto simp: job_holds_def)
  ultimately show ?thesis using assms(8) by (fastforce simp: exclusive_def lock_clash_def)
qed

theorem active_locks_stay_disjoint_witness:
  "\<exists>db a b. (job_step sample_env)\<^sup>*\<^sup>* empty_db db \<and> db_jobs db = [a, b] \<and> active a \<and> active b
     \<and> lock_tokens (j_lock_key a) \<inter> lock_tokens (j_lock_key b) = {}"
proof -
  let ?c = "\<lambda>i j. 0 :: datetime"
  let ?m = "\<lambda>c key. sample_new_job c (Some key)"
  let ?d1 = "snd (create_job sample_env (?m CHR ''1'' ''apply'') ''1970-01-01 00:00:00'' ?c id empty_db)"
  let ?d2 = "snd (create_job sample_env (?m CHR ''2'' ''rules'') ''1970-01-01 00:00:00'' ?c id ?d1)"
  let ?a = "queued_row sample_env (?m CHR ''1'' ''apply'') ''1970-01-01 00:00:00''"
  let ?b = "queued_row sample_env (?m CHR ''2'' ''rules'') ''1970-01-01 00:00:00''"
  have st: "(job_step sample_env)\<^sup>*\<^sup>* empty_db ?d2"
    by (rule rtranclp_trans [OF r_into_rtranclp r_into_rtranclp]) (rule job_step.create)+
  have jobs: "db_jobs ?d2 = [?a, ?b]" by code_simp
  have ab: "active ?a" "active ?b" "j_job_id ?a \<noteq> j_job_id ?b" by code_simp+
  have ex: "exclusive lock_clash (job_holds empty_db)" by (simp add: empty_db_ok exclusive_def)
  have "lock_tokens (j_lock_key ?a) \<inter> lock_tokens (j_lock_key ?b) = {}"
    by (rule active_locks_stay_disjoint [OF st empty_db_ok(1) ex _ _ ab]) (simp_all add: jobs)
  then show ?thesis using st jobs ab by blast
qed



text \<open>
  C17. Every outcome has its snapshot. In every table reachable from the empty one, each job in a
  terminal status has a snapshot in the operational log that the retention check accepts, provided
  the audit writer keeps the fields of the call.
\<close>

theorem every_outcome_has_its_snapshot:
  assumes "audit_faithful env" and "(job_step env)\<^sup>*\<^sup>* empty_db db" and "r \<in> set (db_jobs db)" and "\<not> active r"
  shows "\<exists>l\<in>set (db_logs db). l_event_id l = terminal_snapshot_event_id env (j_job_id r) \<and> terminal_snapshot_matches r l"
proof -
  have "job_ok env db"
    using jobs.steps_inv [OF assms(2)] empty_db_ok(1) [of env] empty_db_ok(2) by (auto simp: exclusive_def)
  then show ?thesis using assms(1,3,4) by (auto simp: job_ok_def all_recorded_def recorded_def)
qed

theorem every_outcome_has_its_snapshot_witness:
  "\<exists>(db :: job_db) (r :: job_row). r \<in> set (db_jobs db) \<and> j_status r = FAILED \<and> (\<exists>l\<in>set (db_logs db). terminal_snapshot_matches r l)"
proof -
  let ?d1 = "snd (create_job sample_env (sample_new_job CHR ''1'' None) ''1970-01-01 00:00:00'' (\<lambda>i j. 0) id empty_db)"
  let ?d2 = "snd (cleanup_stale_running_jobs sample_env None (\<lambda>i. 120000000) id ?d1)"
  have st: "(job_step sample_env)\<^sup>*\<^sup>* empty_db ?d2"
    by (rule rtranclp_trans [OF r_into_rtranclp r_into_rtranclp], rule job_step.create, rule job_step.cleanup)
  have len: "map j_status (db_jobs ?d2) = [FAILED]" by code_simp
  then obtain r where r: "db_jobs ?d2 = [r]" "j_status r = FAILED" by auto
  then have mem: "r \<in> set (db_jobs ?d2)" "\<not> active r" by (auto simp: active_def)
  from every_outcome_has_its_snapshot [OF sample_env_faithful st mem] obtain l where
    l: "l \<in> set (db_logs ?d2)" "terminal_snapshot_matches r l" by blast
  show ?thesis by (rule exI [of _ ?d2], rule exI [of _ r]) (use mem(1) r(2) l in blast)
qed

text \<open>
  An outcome and its snapshot are one transaction. When the snapshot of a running job cannot be
  written, marking the job successful, failed or cancelled raises and leaves both tables as they were.
\<close>

theorem failed_snapshot_rolls_back:
  assumes "distinct_ids db" and "r \<in> set (db_jobs db)" and "j_status r = RUNNING"
    and "\<forall>call. \<exists>e. e_audit env call = Inl e"
  shows "(\<exists>e. mark_job_success env (j_job_id r) result now db = (Inl (Raised e), db))
    \<and> (\<exists>e. mark_job_failed env (j_job_id r) code msg result now db = (Inl (Raised e), db))
    \<and> (\<exists>e. mark_job_cancelled env (j_job_id r) result now db = (Inl (Raised e), db))"
  unfolding mark_job_success_def mark_job_failed_def mark_job_cancelled_def
  by (intro conjI; rule finish_running_fails [OF assms]; simp)

theorem failed_snapshot_rolls_back_witness:
  "\<exists>db r. j_status r = RUNNING \<and> db_jobs db = [r]
     \<and> (\<exists>e. mark_job_success (sample_env\<lparr>e_audit := \<lambda>_. Inl ValueError\<rparr>) (j_job_id r) PNone 0 db = (Inl (Raised e), db))"
proof -
  let ?r = "(hd (db_jobs queued_db))\<lparr>j_status := RUNNING\<rparr>"
  let ?db = "queued_db\<lparr>db_jobs := [?r]\<rparr>"
  have "\<exists>e. mark_job_success (sample_env\<lparr>e_audit := \<lambda>_. Inl ValueError\<rparr>) (j_job_id ?r) PNone 0 ?db = (Inl (Raised e), ?db)"
    by (rule conjunct1 [OF failed_snapshot_rolls_back]) (simp_all add: distinct_ids_def)
  moreover have "j_status ?r = RUNNING" "db_jobs ?db = [?r]" by simp_all
  ultimately show ?thesis by blast
qed

text \<open>
  C18. A conflicting job is refused with the owner of the lock. When no active job is stale and an
  active job holds a token of the wanted lock key, \<open>create_job\<close> raises \<open>JobLockConflictError\<close>
  with the description of an active job whose tokens overlap, and changes nothing, whatever other
  connections would do before the insert.
\<close>

theorem conflicting_create_reports_owner:
  assumes "distinct_ids db" and "n_lock_key n = Some k"
    and "\<And>i. select_stale (stale_cutoff (clock i 0) (e_stale_timeout env)) db = []"
    and "\<forall>r\<in>set (db_jobs db). active r \<longrightarrow> (\<exists>job. row_to_job r = Inr job)"
    and "r \<in> set (db_jobs db)" and "active r" and "lock_tokens (Some k) \<inter> lock_tokens (j_lock_key r) \<noteq> {}"
  shows "\<exists>q\<in>set (db_jobs db). \<exists>job. active q \<and> row_to_job q = Inr job
    \<and> lock_tokens (Some k) \<inter> lock_tokens (j_lock_key q) \<noteq> {}
    \<and> create_job env n t clock other db = (Inl (LockConflict k job), db)"
  using assms by (rule create_job_conflict)

theorem conflicting_create_reports_owner_witness:
  "\<exists>job. create_job sample_env (sample_new_job CHR ''2'' (Some ''rules'')) ''1970-01-01 00:00:01'' (\<lambda>i j. 1000000) id queued_db
     = (Inl (LockConflict ''rules'' job), queued_db)"
proof -
  let ?r = "hd (db_jobs queued_db)"
  have ids: "distinct_ids queued_db" by (simp add: distinct_ids_def queued_db_def)
  have stale: "select_stale (stale_cutoff 1000000 (e_stale_timeout sample_env)) queued_db = []" by code_simp
  have dec: "\<forall>r\<in>set (db_jobs queued_db). active r \<longrightarrow> (\<exists>job. row_to_job r = Inr job)"
    by (simp add: queued_db_def queued_row_def row_to_job_def job_json_loads_def job_json_dumps_def sample_new_job_def
        sample_env_def json_dumps_def)
  have r: "?r \<in> set (db_jobs queued_db)" by (simp add: queued_db_def)
  have act: "active ?r" "lock_tokens (Some ''rules'') \<inter> lock_tokens (j_lock_key ?r) \<noteq> {}" by code_simp+
  have key: "n_lock_key (sample_new_job CHR ''2'' (Some ''rules'')) = Some ''rules''" by (simp add: sample_new_job_def)
  show ?thesis
    using conflicting_create_reports_owner [where clock = "\<lambda>i j. 1000000", OF ids key stale dec r act] by blast
qed

text \<open>
  C19. The stale cleanup fails exactly the overdue jobs. Once its loop commits, every active job
  whose lease text is at or before the cutoff is failed with the timeout of its kind, and every other
  row is as it was.
\<close>

theorem stale_cleanup_exact:
  assumes "distinct_ids db" and "0 \<le> stale_timeout env after"
    and "cleanup_stale_running_jobs env after clock id db = (Inr stale, db')"
    and "r \<in> set (db_jobs db)"
  shows "if active r \<and> j_updated_at r \<le> stale_cutoff (clock 0) (stale_timeout env after)
    then \<exists>t. stale_update (j_status r = QUEUED) t r \<in> set (db_jobs db') else r \<in> set (db_jobs db')"
proof -
  obtain out where "fail_stale env (stale_cutoff (clock 0) (stale_timeout env after)) (\<lambda>i. clock (Suc i))
      (select_stale (stale_cutoff (clock 0) (stale_timeout env after)) db) db = Inr (out, db')"
    using assms(2,3) by (auto simp: cleanup_stale_running_jobs_def Let_def split: sum.splits)
  from cleanup_exact [OF assms(1,2) this assms(4)] show ?thesis .
qed

theorem stale_cleanup_exact_witness:
  "\<exists>t. stale_update True t (hd (db_jobs queued_db))
     \<in> set (db_jobs (snd (cleanup_stale_running_jobs sample_env None (\<lambda>i. 120000000) id queued_db)))"
proof -
  let ?r = "hd (db_jobs queued_db)"
  let ?c = "cleanup_stale_running_jobs sample_env None (\<lambda>i. 120000000) id queued_db"
  have ids: "distinct_ids queued_db" by (simp add: distinct_ids_def queued_db_def)
  have t: "0 \<le> stale_timeout sample_env None" by code_simp
  have "case fst ?c of Inr _ \<Rightarrow> True | Inl _ \<Rightarrow> False" by code_simp
  then obtain stale db' where c: "?c = (Inr stale, db')" by (cases ?c) (auto split: sum.splits)
  have r: "?r \<in> set (db_jobs queued_db)" by (simp add: queued_db_def)
  have st: "active ?r" "j_status ?r = QUEUED" "j_updated_at ?r \<le> stale_cutoff 120000000 (stale_timeout sample_env None)"
    by code_simp+
  show ?thesis using stale_cleanup_exact [OF ids t c r] st c by simp
qed

text \<open>
  A finished job can be reopened. \<open>mark_job_running\<close> updates by job id alone: when another
  connection finishes the queued job between its \<open>SELECT\<close> and its \<open>UPDATE\<close>, for example as
  stale, the job is running again although its terminal snapshot is already recorded.
\<close>

theorem running_mark_reopens_finished_job:
  assumes "select_job i db = Some row" and "j_status row = QUEUED"
    and "r \<in> set (db_jobs (other db))" and "j_job_id r = i" and "\<not> active r"
  shows "\<exists>r'\<in>set (db_jobs (snd (mark_job_running i now other db))). j_job_id r' = i \<and> j_status r' = RUNNING
    \<and> db_logs (snd (mark_job_running i now other db)) = db_logs (other db)"
proof -
  let ?f = "\<lambda>r. r\<lparr>j_status := RUNNING, j_started_at := Some (strftime_sql now), j_updated_at := strftime_sql now\<rparr>"
  have "snd (mark_job_running i now other db) = snd (update_jobs (\<lambda>r. j_job_id r = i) ?f (other db))"
    using assms(1,2) by (simp add: mark_job_running_def split: prod.split option.split)
  moreover have "?f r \<in> set (db_jobs (snd (update_jobs (\<lambda>r. j_job_id r = i) ?f (other db))))"
    using assms(3,4) by force
  ultimately show ?thesis using assms(4) by (intro bexI [of _ "?f r"]) simp_all
qed

theorem running_mark_reopens_finished_job_witness:
  "\<exists>db'. db' = snd (mark_job_running (sample_job_id CHR ''1'') 120000000
       (\<lambda>db. snd (cleanup_stale_running_jobs sample_env None (\<lambda>i. 120000000) id db)) queued_db)
     \<and> (\<exists>r'\<in>set (db_jobs db'). j_status r' = RUNNING) \<and> db_logs db' \<noteq> []"
proof -
  let ?o = "\<lambda>db. snd (cleanup_stale_running_jobs sample_env None (\<lambda>i. 120000000) id db)"
  let ?i = "sample_job_id CHR ''1''" and ?row = "hd (db_jobs queued_db)"
  have sel: "select_job ?i queued_db = Some ?row" "j_status ?row = QUEUED" by code_simp+
  have "map (\<lambda>r. (j_job_id r, j_status r)) (db_jobs (?o queued_db)) = [(?i, FAILED)]" by code_simp
  then obtain r where r: "r \<in> set (db_jobs (?o queued_db))" "j_job_id r = ?i" "\<not> active r"
    by (auto simp: active_def)
  have "db_logs (?o queued_db) \<noteq> []" by code_simp
  with running_mark_reopens_finished_job [where other = ?o, OF sel r] show ?thesis by metis
qed

text \<open>
  Overlapping locks can be held at once. The conflict check and the insert of \<open>create_job\<close>
  are separate sessions, and the unique index only compares whole lock keys: a job with the lock
  \<open>apply+rules\<close>, created between them, and the job with the lock \<open>rules\<close> are both active.
\<close>

theorem overlapping_locks_race:
  "\<exists>db a b. db = snd (create_job sample_env (sample_new_job CHR ''2'' (Some ''rules'')) ''1970-01-01 00:00:00'' (\<lambda>i j. 0)
       (\<lambda>d. snd (create_job sample_env (sample_new_job CHR ''1'' (Some ''apply+rules'')) ''1970-01-01 00:00:00''
                   (\<lambda>i j. 0) id d)) empty_db)
     \<and> db_jobs db = [a, b] \<and> active a \<and> active b \<and> lock_tokens (j_lock_key a) \<inter> lock_tokens (j_lock_key b) \<noteq> {}"
proof -
  let ?a = "queued_row sample_env (sample_new_job CHR ''1'' (Some ''apply+rules'')) ''1970-01-01 00:00:00''"
  let ?b = "queued_row sample_env (sample_new_job CHR ''2'' (Some ''rules'')) ''1970-01-01 00:00:00''"
  let ?db = "snd (create_job sample_env (sample_new_job CHR ''2'' (Some ''rules'')) ''1970-01-01 00:00:00'' (\<lambda>i j. 0)
       (\<lambda>d. snd (create_job sample_env (sample_new_job CHR ''1'' (Some ''apply+rules'')) ''1970-01-01 00:00:00''
                   (\<lambda>i j. 0) id d)) empty_db)"
  have "db_jobs ?db = [?a, ?b]" by code_simp
  moreover have "active ?a" "active ?b" "lock_tokens (j_lock_key ?a) \<inter> lock_tokens (j_lock_key ?b) \<noteq> {}" by code_simp+
  ultimately show ?thesis by blast
qed

text \<open>
  Stored results are exact or say that they are not. A result that fits is stored as it is; a
  larger one is replaced by a document marked as truncated that states the original length and the limit.
\<close>

theorem result_encoding:
  assumes "encode_job_result max_bytes (PDict d) = Some t"
  shows "if json_length (json_dumps (PDict d)) \<le> max_bytes then t = json_dumps (PDict d)
    else (\<exists>summary. t = json_dumps (PDict [(''__truncated__'', PBool True),
            (''original_bytes'', PInt (json_length (json_dumps (PDict d)))), (''max_bytes'', PInt max_bytes),
            (''summary'', summary)]))"
  using assms by (auto simp: encode_job_result_def Let_def split: if_splits)

theorem result_encoding_witness:
  "\<exists>t. encode_job_result 20 (PDict [(''message'', PStr ''a long message of a handler'')]) = Some t
     \<and> (\<exists>summary. t = json_dumps (PDict [(''__truncated__'', PBool True), (''original_bytes'', PInt 42),
           (''max_bytes'', PInt 20), (''summary'', summary)]))"
proof -
  let ?d = "[(''message'', PStr ''a long message of a handler'')]"
  have "encode_job_result 20 (PDict ?d) \<noteq> None" by code_simp
  then obtain t where t: "encode_job_result 20 (PDict ?d) = Some t" by blast
  have "json_length (json_dumps (PDict ?d)) = 42" by code_simp
  then show ?thesis using result_encoding [OF t] t by auto
qed

text \<open>
  The limit given to the compaction only selects rows. \<open>compact_oversized_job_results\<close> passes
  every selected result to \<open>_encode_job_result\<close>, which reads the configured limit again: a result
  that fits the configured limit is never compacted, however small the limit of the call.
\<close>

theorem compaction_limit_ignored:
  assumes "j_result_json row = Some (json_dumps (PDict d))" and "json_length (json_dumps (PDict d)) \<le> e_max_bytes env"
  shows "compaction_candidate env limit row = None"
proof -
  have "parsed_result limit (json_dumps (PDict d)) = sort_keys (PDict d)"
    by (simp add: parsed_result_def json_dumps_def)
  moreover have "json_dumps (sort_keys (PDict d)) = json_dumps (PDict d)" by (simp add: json_dumps_def)
  moreover have "sort_keys (PDict d) \<noteq> PNone" by simp
  ultimately show ?thesis using assms by (simp add: compaction_candidate_def encode_job_result_def Let_def)
qed

theorem compaction_limit_ignored_witness:
  "compaction_candidate sample_env 1 ((hd (db_jobs queued_db))\<lparr>j_result_json := Some (json_dumps (PDict [(''ok'', PBool True)]))\<rparr>)
   = None"
proof -
  let ?d = "[(''ok'', PBool True)]"
  have "json_length (json_dumps (PDict ?d)) \<le> e_max_bytes sample_env" by code_simp
  then show ?thesis by (intro compaction_limit_ignored [where d = ?d]) simp_all
qed

end
