(* ===== verification/Job_Manager.thy ===== *)
theory Job_Manager
  imports Job_Properties "HOL-Library.AList"
begin

text \<open>
  The job runner of \<open>jobs/manager.py\<close>: handlers per job type, the worker registry, the run of one
  job through its handler, and the bounded waits. A handler gets the description of the job and may
  change the tables while it runs (it and everything else that happens meanwhile is one function on the
  tables); it returns a dictionary or \<open>None\<close>, or raises with a message.

  Waits poll the table: \<open>ticks i\<close> is the monotonic clock in milliseconds and \<open>view i\<close> the
  answer of \<open>get_job\<close> at the \<open>i\<close>-th poll. The loops have fuel; a theorem shows how much is enough.
  The event context and the technical log that a run writes are not part of the tables.
\<close>

section \<open>Handlers and workers\<close>

type_synonym job_handler = "pydict \<Rightarrow> job_db \<Rightarrow> (string + pyval) \<times> job_db"

record job_manager =
  m_handlers :: "(string \<times> job_handler) list"
  m_workers :: "(string \<times> bool) list"
  m_default_handlers_registered :: bool

definition register_handler :: "string \<Rightarrow> job_handler \<Rightarrow> job_manager \<Rightarrow> job_manager" where
  "register_handler job_type handler m = m\<lparr>m_handlers := AList.update job_type handler (m_handlers m)\<rparr>"

definition register_default_handlers_once :: "(job_manager \<Rightarrow> job_manager) \<Rightarrow> job_manager \<Rightarrow> job_manager" where
  "register_default_handlers_once register m =
     (if m_default_handlers_registered m then m
      else (register m)\<lparr>m_default_handlers_registered := True\<rparr>)"

definition get_handler :: "string \<Rightarrow> job_manager \<Rightarrow> job_handler option" where
  "get_handler job_type m = map_of (m_handlers m) job_type"

text \<open>A worker is registered with whether its thread is alive.\<close>

definition prune_workers :: "job_manager \<Rightarrow> job_manager" where
  "prune_workers m = m\<lparr>m_workers := filter snd (m_workers m)\<rparr>"

section \<open>Running one job\<close>

text \<open>The handler's answer as the outcome that \<open>run_job\<close> records.\<close>

definition record_outcome ::
  "job_env \<Rightarrow> string \<Rightarrow> string + pyval \<Rightarrow> datetime \<Rightarrow> job_db \<Rightarrow> (job_error + pydict option) \<times> job_db" where
  "record_outcome env job_id answer now db =
     (case answer of
        Inl message \<Rightarrow> mark_job_failed env job_id ''JOB_HANDLER_FAILED'' message PNone now db
      | Inr returned \<Rightarrow>
          let result = py_or returned (PDict [])
          in if get_in result ''job_status'' = PStr ''failed''
             then mark_job_failed env job_id
                    (py_str (py_or (get_in result ''error_code'') (PStr ''JOB_HANDLER_FAILED'')))
                    (py_str (py_or (get_in result ''error_message'') (PStr ''Job handler reported failure.'')))
                    result now db
             else if get_in result ''job_status'' = PStr ''cancelled''
             then mark_job_cancelled env job_id result now db
             else mark_job_success env job_id result now db)"

definition execute_job ::
  "job_env \<Rightarrow> job_manager \<Rightarrow> string \<Rightarrow> pydict \<Rightarrow> datetime \<Rightarrow> job_db \<Rightarrow> (job_error + pydict option) \<times> job_db" where
  "execute_job env m job_id job now db =
     (let job_type = py_str (dict_get job ''job_type'')
      in case get_handler job_type m of
           None \<Rightarrow> mark_job_failed env job_id ''JOB_HANDLER_NOT_REGISTERED''
                     (''No handler registered for job type: '' @ job_type) PNone now db
         | Some handler \<Rightarrow> (case handler job db of (answer, db1) \<Rightarrow> record_outcome env job_id answer now db1))"

text \<open>\<open>clock\<close> is for the cleanup, \<open>t0\<close> and \<open>t1\<close> are the times of the two marks.\<close>

definition run_job ::
  "job_env \<Rightarrow> job_manager \<Rightarrow> string \<Rightarrow> (nat \<Rightarrow> datetime) \<Rightarrow> datetime \<Rightarrow> datetime \<Rightarrow> job_db
   \<Rightarrow> (job_error + pydict option) \<times> job_db" where
  "run_job env m job_id clock t0 t1 db =
     (case cleanup_stale_running_jobs env (Some (e_stale_timeout env)) clock id db of
        (Inl e, db1) \<Rightarrow> (Inl e, db1)
      | (Inr _, db1) \<Rightarrow>
          (case mark_job_running job_id t0 id db1 of
             (Inl e, db2) \<Rightarrow> (Inl e, db2)
           | (Inr None, db2) \<Rightarrow> (Inr None, db2)
           | (Inr (Some job), db2) \<Rightarrow>
               if dict_get job ''status'' \<noteq> PStr ''running'' then (Inr (Some job), db2)
               else execute_job env m job_id job t1 db2))"

section \<open>Bounded waits\<close>

definition finished :: "pydict \<Rightarrow> bool" where
  "finished job = (dict_get job ''status'' \<in> {PStr ''success'', PStr ''failed'', PStr ''cancelled''})"

fun wait_loop ::
  "(nat \<Rightarrow> job_error + pydict option) \<Rightarrow> (nat \<Rightarrow> int) \<Rightarrow> int \<Rightarrow> nat \<Rightarrow> nat \<Rightarrow> (job_error + pydict option) option" where
  "wait_loop view ticks deadline 0 i = None"
| "wait_loop view ticks deadline (Suc fuel) i =
     (case view i of
        Inl e \<Rightarrow> Some (Inl e)
      | Inr None \<Rightarrow> Some (Inr None)
      | Inr (Some job) \<Rightarrow>
          if finished job then Some (Inr (Some job))
          else if ticks i \<ge> deadline then Some (Inr (Some job))
          else wait_loop view ticks deadline fuel (Suc i))"

definition wait_for_job ::
  "(nat \<Rightarrow> job_error + pydict option) \<Rightarrow> int \<Rightarrow> (nat \<Rightarrow> int) \<Rightarrow> int \<Rightarrow> nat \<Rightarrow> (job_error + pydict option) option" where
  "wait_for_job view start ticks timeout_seconds fuel =
     wait_loop view ticks (start + max timeout_seconds 0 * 1000) fuel 0"

text \<open>\<open>wait_for_idle\<close>: \<open>live i\<close> are the live workers at the \<open>i\<close>-th look.\<close>

fun idle_loop :: "(nat \<Rightarrow> string list) \<Rightarrow> (nat \<Rightarrow> int) \<Rightarrow> int \<Rightarrow> nat \<Rightarrow> nat \<Rightarrow> bool option" where
  "idle_loop live ticks deadline 0 i = None"
| "idle_loop live ticks deadline (Suc fuel) i =
     (if live i = [] then Some True
      else if deadline - ticks i \<le> 0 then Some False
      else idle_loop live ticks deadline fuel (Suc i))"

definition wait_for_idle :: "(nat \<Rightarrow> string list) \<Rightarrow> int \<Rightarrow> (nat \<Rightarrow> int) \<Rightarrow> int \<Rightarrow> nat \<Rightarrow> bool option" where
  "wait_for_idle live start ticks timeout_ms fuel = idle_loop live ticks (start + max timeout_ms 0) fuel 0"

text \<open>The polls of \<open>start_job\<close>, and its last look after the deadline.\<close>

fun start_loop ::
  "(nat \<Rightarrow> job_error + pydict option) \<Rightarrow> (nat \<Rightarrow> int) \<Rightarrow> int \<Rightarrow> nat \<Rightarrow> nat \<Rightarrow> (job_error + pydict option) option" where
  "start_loop view ticks deadline 0 i = None"
| "start_loop view ticks deadline (Suc fuel) i =
     (if ticks i < deadline
      then (case view i of
              Inr (Some job) \<Rightarrow>
                if dict_get job ''status'' \<noteq> PStr ''queued'' then Some (Inr (Some job))
                else start_loop view ticks deadline fuel (Suc i)
            | answer \<Rightarrow> Some answer)
      else Some (view i))"

text \<open>
  \<open>start_job\<close>: whether a worker thread is started, and the manager after it. The answer is the
  description that the polls of the next half second yield.
\<close>

definition start_job ::
  "string \<Rightarrow> job_error + pydict option \<Rightarrow> (nat \<Rightarrow> job_error + pydict option) \<Rightarrow> int \<Rightarrow> (nat \<Rightarrow> int) \<Rightarrow> nat
   \<Rightarrow> job_manager \<Rightarrow> (job_error + pydict option) option \<times> bool \<times> job_manager" where
  "start_job job_id first view start ticks fuel m =
     (case first of
        Inl e \<Rightarrow> (Some (Inl e), False, m)
      | Inr None \<Rightarrow> (Some (Inr None), False, m)
      | Inr (Some job) \<Rightarrow>
          if finished job then (Some (Inr (Some job)), False, m)
          else (let m1 = prune_workers m
                in if map_of (m_workers m1) job_id = Some True then (Some (view 0), False, m1)
                   else (start_loop view ticks (start + 500) fuel 0, True,
                         m1\<lparr>m_workers := AList.update job_id True (m_workers m1)\<rparr>)))"

definition start_job_and_wait ::
  "string \<Rightarrow> job_error + pydict option \<Rightarrow> (nat \<Rightarrow> job_error + pydict option) \<Rightarrow> int \<Rightarrow> (nat \<Rightarrow> int) \<Rightarrow> nat
   \<Rightarrow> (nat \<Rightarrow> job_error + pydict option) \<Rightarrow> int \<Rightarrow> (nat \<Rightarrow> int) \<Rightarrow> int \<Rightarrow> job_manager \<Rightarrow> (job_error + pydict option) option" where
  "start_job_and_wait job_id first view start ticks fuel view' start' ticks' timeout_seconds m =
     (case fst (start_job job_id first view start ticks fuel m) of
        None \<Rightarrow> None
      | Some (Inl e) \<Rightarrow> Some (Inl e)
      | Some (Inr None) \<Rightarrow> Some (Inr None)
      | Some (Inr (Some started)) \<Rightarrow>
          if finished started then Some (Inr (Some started))
          else wait_for_job view' start' ticks' timeout_seconds fuel)"

section \<open>Library\<close>

definition snapshot_ready :: "job_env \<Rightarrow> job_db \<Rightarrow> job_row \<Rightarrow> bool" where
  "snapshot_ready env db r =
     (canonical_uuid (j_job_id r) \<and> (\<exists>c. job_json_loads (j_event_context_json r) = Inr c)
      \<and> (\<forall>call. \<exists>d. e_audit env call = Inr d)
      \<and> terminal_snapshot_event_id env (j_job_id r) \<notin> l_event_id ` set (db_logs db))"

lemma write_snapshot_ready:
  assumes "snapshot_ready env db r"
    and "cls \<in> {''handler_completed'', ''handler_failed'', ''handler_cancelled'', ''stale_queue_timeout'', ''stale_running_timeout''}"
  shows "\<exists>db'. write_terminal_snapshot env r cls ''terminal_commit'' True db = Inr db'"
proof -
  obtain c where c: "canonical_uuid (j_job_id r)" "job_json_loads (j_event_context_json r) = Inr c"
    "terminal_snapshot_event_id env (j_job_id r) \<notin> l_event_id ` set (db_logs db)"
    using assms(1) by (auto simp: snapshot_ready_def)
  let ?call = "snapshot_call env r (py_or c (PDict [])) cls ''terminal_commit'' True"
  obtain d where d: "e_audit env ?call = Inr d" using assms(1) by (auto simp: snapshot_ready_def)
  have "a_event_id ?call = terminal_snapshot_event_id env (j_job_id r)" by (simp add: snapshot_call_def Let_def)
  then show ?thesis using c d assms(2) by (auto simp: write_terminal_snapshot_def Let_def insert_log_def)
qed

lemma finish_running_commits:
  assumes ids: "distinct_ids db" and r: "r \<in> set (db_jobs db)" "j_status r = RUNNING" and ready: "snapshot_ready env db r"
    and cls: "cls \<in> {''handler_completed'', ''handler_failed'', ''handler_cancelled'', ''stale_queue_timeout'', ''stale_running_timeout''}"
    and f: "\<And>x. j_job_id (f x) = j_job_id x" "\<And>x. j_event_context_json (f x) = j_event_context_json x"
  shows "select_job (j_job_id r) (snd (finish_running env (j_job_id r) f cls db)) = Some (f r)"
proof -
  let ?p = "\<lambda>x. j_job_id x = j_job_id r \<and> j_status x = RUNNING"
  obtain db1 where u: "update_jobs ?p f db = (1, db1)"
  proof (rule keyed_update [OF ids, of ?p "j_job_id r" f])
    show "thesis" if "update_jobs ?p f db = (0, db)" using that r by (auto simp: update_jobs_def filter_empty_conv)
  qed (use that in auto)
  have row: "select_job (j_job_id r) db1 = Some (f r)"
    using selected_after_update [where p = ?p and f = f, OF ids r(1) _ f(1)] r(2) u by simp
  have "db_logs db1 = db_logs db" using u by (auto simp: update_jobs_def)
  then have "snapshot_ready env db1 (f r)" using ready f by (simp add: snapshot_ready_def)
  from write_snapshot_ready [OF this cls] obtain db2 where
    w: "write_terminal_snapshot env (f r) cls ''terminal_commit'' True db1 = Inr db2" by blast
  have "snd (finish_running env (j_job_id r) f cls db) = db2" using u row w by (simp add: finish_running_def)
  then show ?thesis using row snapshot_keeps_jobs [OF w] by (simp add: select_job_def)
qed

lemma finish_terminal_unchanged:
  assumes "distinct_ids db" and "r \<in> set (db_jobs db)" and "\<not> active r"
  shows "snd (finish_running env (j_job_id r) f cls db) = db"
proof -
  let ?p = "\<lambda>x. j_job_id x = j_job_id r \<and> j_status x = RUNNING"
  have "x = r" if "x \<in> set (db_jobs db)" "j_job_id x = j_job_id r" for x
    using that assms(1,2) by (auto simp: distinct_ids_def distinct_map inj_on_def)
  then have "filter ?p (db_jobs db) = []" using assms(3) by (fastforce simp: filter_empty_conv active_def)
  from update_none [OF this, of f] show ?thesis by (auto simp: finish_running_def split: option.split)
qed

definition outcome_status :: "string + pyval \<Rightarrow> job_status" where
  "outcome_status answer =
     (case answer of
        Inl _ \<Rightarrow> FAILED
      | Inr returned \<Rightarrow>
          let status = get_in (py_or returned (PDict [])) ''job_status''
          in if status = PStr ''failed'' then FAILED
             else if status = PStr ''cancelled'' then CANCELLED else SUCCESS)"

lemma record_outcome_commits:
  assumes "distinct_ids db" and "r \<in> set (db_jobs db)" and "j_status r = RUNNING" and "snapshot_ready env db r"
  shows "\<exists>r'. select_job (j_job_id r) (snd (record_outcome env (j_job_id r) answer now db)) = Some r'
    \<and> j_status r' = outcome_status answer \<and> j_lock_key r' = j_lock_key r"
  unfolding record_outcome_def outcome_status_def mark_job_success_def mark_job_failed_def mark_job_cancelled_def Let_def
  using finish_running_commits [OF assms] by (simp split: sum.split)

lemma record_outcome_terminal:
  assumes "distinct_ids db" and "r \<in> set (db_jobs db)" and "\<not> active r"
  shows "snd (record_outcome env (j_job_id r) answer now db) = db"
  unfolding record_outcome_def mark_job_success_def mark_job_failed_def mark_job_cancelled_def Let_def
  using finish_terminal_unchanged [OF assms] by (simp split: sum.split)

lemma run_job_executes:
  assumes "cleanup_stale_running_jobs env (Some (e_stale_timeout env)) clock id db = (Inr stale, db1)"
    and "mark_job_running i t0 id db1 = (Inr (Some job), db2)" and "dict_get job ''status'' = PStr ''running''"
    and "get_handler (py_str (dict_get job ''job_type'')) m = Some handler" and "handler job db2 = (answer, db3)"
  shows "run_job env m i clock t0 t1 db = record_outcome env i answer t1 db3"
  using assms by (simp add: run_job_def execute_job_def Let_def)

lemma wait_loop_returns:
  assumes "\<And>i. ticks i + 50 \<le> ticks (Suc i)" and "deadline - ticks i \<le> 50 * int k" and "k < fuel"
  shows "\<exists>answer. wait_loop view ticks deadline fuel i = Some answer"
  using assms(2,3)
proof (induction k arbitrary: i fuel)
  case 0
  then obtain fuel' where f: "fuel = Suc fuel'" by (cases fuel) auto
  have "ticks i \<ge> deadline" using 0 by simp
  then show ?case by (auto simp: f split: sum.split option.split)
next
  case (Suc k)
  then obtain fuel' where f: "fuel = Suc fuel'" by (cases fuel) auto
  have "deadline - ticks (Suc i) \<le> 50 * int k" using Suc.prems(1) assms(1) [of i] by simp
  then have "\<exists>answer. wait_loop view ticks deadline fuel' (Suc i) = Some answer" using Suc.IH Suc.prems(2) f by simp
  then show ?case by (auto simp: f split: sum.split option.split)
qed

section \<open>A sample manager\<close>

definition cancelling_handler :: job_handler where
  "cancelling_handler job db = (Inr (PDict [(''job_status'', PStr ''cancelled'')]), db)"

definition stale_handler :: job_handler where
  "stale_handler job db =
     (Inr PNone, snd (cleanup_stale_running_jobs sample_env (Some 0) (\<lambda>i. 200000000) id db))"

definition sample_manager :: job_manager where
  "sample_manager = \<lparr>m_handlers = [(''apply_mutation'', cancelling_handler)], m_workers = [],
     m_default_handlers_registered = True\<rparr>"

definition stale_manager :: job_manager where
  "stale_manager = \<lparr>m_handlers = [(''apply_mutation'', stale_handler)], m_workers = [],
     m_default_handlers_registered = True\<rparr>"

definition running_row :: job_row where
  "running_row = (hd (db_jobs queued_db))\<lparr>j_status := RUNNING, j_started_at := Some (strftime_sql 0),
     j_updated_at := strftime_sql 0\<rparr>"

definition running_db :: job_db where
  "running_db = queued_db\<lparr>db_jobs := [running_row]\<rparr>"

definition running_job :: pydict where
  "running_job = (case row_to_job running_row of Inr job \<Rightarrow> job | Inl _ \<Rightarrow> [])"

lemma sample_run:
  "cleanup_stale_running_jobs sample_env (Some (e_stale_timeout sample_env)) (\<lambda>i. 0) id queued_db = (Inr [], queued_db)"
  "cleanup_stale_running_jobs sample_env (Some (e_stale_timeout sample_env)) (\<lambda>i. 0) id running_db = (Inr [], running_db)"
  "mark_job_running (sample_job_id CHR ''1'') 0 id queued_db = (Inr (Some running_job), running_db)"
  "row_to_job running_row = Inr running_job"
  "dict_get running_job ''status'' = PStr ''running''" "py_str (dict_get running_job ''job_type'') = ''apply_mutation''"
  "j_job_type running_row = ''apply_mutation''" "j_job_id running_row = sample_job_id CHR ''1''"
  "j_status running_row = RUNNING" "select_job (sample_job_id CHR ''1'') running_db = Some running_row"
  by code_simp+

lemma running_db_jobs: "db_jobs running_db = [running_row]"
  by (simp add: running_db_def)

section \<open>Properties\<close>

text \<open>
  A run records the handler's answer. When the job is still running after its handler ends and the
  snapshot can be written, \<open>run_job\<close> leaves the job in exactly the status that the answer
  stands for: failed for an exception or a reported failure, cancelled for a reported cancellation,
  and successful otherwise.
\<close>

theorem run_records_answer:
  assumes "cleanup_stale_running_jobs env (Some (e_stale_timeout env)) clock id db = (Inr stale, db1)"
    and "mark_job_running i t0 id db1 = (Inr (Some job), db2)" and "dict_get job ''status'' = PStr ''running''"
    and "get_handler (py_str (dict_get job ''job_type'')) m = Some handler" and "handler job db2 = (answer, db3)"
    and "distinct_ids db3" and "r \<in> set (db_jobs db3)" and "j_job_id r = i" and "j_status r = RUNNING"
    and "snapshot_ready env db3 r"
  shows "\<exists>r'. select_job i (snd (run_job env m i clock t0 t1 db)) = Some r' \<and> j_status r' = outcome_status answer
    \<and> j_lock_key r' = j_lock_key r"
  using record_outcome_commits [OF assms(6,7,9,10)] assms(8) unfolding run_job_executes [OF assms(1-5)] by simp

theorem run_records_answer_witness:
  "\<exists>r'. select_job (sample_job_id CHR ''1'') (snd (run_job sample_env sample_manager (sample_job_id CHR ''1'')
       (\<lambda>i. 0) 0 1000000 queued_db)) = Some r' \<and> j_status r' = CANCELLED"
proof -
  have h: "get_handler (py_str (dict_get running_job ''job_type'')) sample_manager = Some cancelling_handler"
    unfolding sample_run(6) by (simp add: sample_manager_def get_handler_def)
  have a: "cancelling_handler running_job running_db = (Inr (PDict [(''job_status'', PStr ''cancelled'')]), running_db)"
    by (simp add: cancelling_handler_def)
  have "canonical_uuid (j_job_id running_row)" by code_simp
  moreover have "\<exists>c. job_json_loads (j_event_context_json running_row) = Inr c"
    by (simp add: running_row_def job_json_loads_def queued_db_def queued_row_def job_json_dumps_def sample_env_def
        sample_new_job_def json_dumps_def)
  ultimately have ready: "snapshot_ready sample_env running_db running_row"
    by (simp add: snapshot_ready_def sample_env_def running_db_def queued_db_def)
  have st: "outcome_status (Inr (PDict [(''job_status'', PStr ''cancelled'')])) = CANCELLED"
    by (simp add: outcome_status_def py_or_def)
  have r: "distinct_ids running_db" "running_row \<in> set (db_jobs running_db)"
    by (simp_all add: distinct_ids_def running_db_jobs)
  show ?thesis
    using run_records_answer [OF sample_run(1,3,5) h a r sample_run(8,9) ready, of 1000000] unfolding st by blast
qed

text \<open>
  A late handler cannot change an outcome. When the job was finished by someone else while its
  handler ran (as stale, for example), \<open>run_job\<close> leaves the tables as the handler left them.
\<close>

theorem late_handler_changes_nothing:
  assumes "cleanup_stale_running_jobs env (Some (e_stale_timeout env)) clock id db = (Inr stale, db1)"
    and "mark_job_running i t0 id db1 = (Inr (Some job), db2)" and "dict_get job ''status'' = PStr ''running''"
    and "get_handler (py_str (dict_get job ''job_type'')) m = Some handler" and "handler job db2 = (answer, db3)"
    and "distinct_ids db3" and "r \<in> set (db_jobs db3)" and "j_job_id r = i" and "\<not> active r"
  shows "snd (run_job env m i clock t0 t1 db) = db3"
  using record_outcome_terminal [OF assms(6,7,9)] assms(8) unfolding run_job_executes [OF assms(1-5)] by simp

theorem late_handler_changes_nothing_witness:
  "snd (run_job sample_env stale_manager (sample_job_id CHR ''1'') (\<lambda>i. 0) 0 300000000 queued_db)
     = snd (stale_handler running_job running_db)
   \<and> map j_status (db_jobs (snd (stale_handler running_job running_db))) = [FAILED]"
proof -
  let ?db = "snd (stale_handler running_job running_db)"
  have h: "get_handler (py_str (dict_get running_job ''job_type'')) stale_manager = Some stale_handler"
    unfolding sample_run(6) by (simp add: stale_manager_def get_handler_def)
  have "map (\<lambda>r. (j_job_id r, j_status r)) (db_jobs ?db) = [(sample_job_id CHR ''1'', FAILED)]" by code_simp
  then obtain r where r: "db_jobs ?db = [r]" "j_job_id r = sample_job_id CHR ''1''" "j_status r = FAILED" by auto
  have ids: "distinct_ids ?db" "r \<in> set (db_jobs ?db)" using r by (simp_all add: distinct_ids_def)
  have "\<not> active r" using r(3) by (simp add: active_def)
  from late_handler_changes_nothing [OF sample_run(1,3,5) h prod.collapse [symmetric] ids r(2) this, of 300000000]
  show ?thesis using r by simp
qed

text \<open>
  A running job is run again. \<open>mark_job_running\<close> answers a job that is already running in the
  same way as one that it has just claimed, so \<open>run_job\<close> calls the handler a second time.
\<close>

theorem running_job_is_run_again:
  assumes "cleanup_stale_running_jobs env (Some (e_stale_timeout env)) clock id db = (Inr stale, db)"
    and "select_job i db = Some row" and "j_status row = RUNNING" and "row_to_job row = Inr job"
    and "get_handler (j_job_type row) m = Some handler" and "handler job db = (answer, db')"
  shows "run_job env m i clock t0 t1 db = record_outcome env i answer t1 db'"
proof -
  have m: "mark_job_running i t0 id db = (Inr (Some job), db)"
    using assms(2-4) by (simp add: mark_job_running_def optional_job_def)
  have "dict_get job ''status'' = PStr ''running''" "py_str (dict_get job ''job_type'') = j_job_type row"
    using assms(3,4) by (auto simp: row_to_job_def split: sum.splits prod.splits)
  then show ?thesis using run_job_executes [where handler = handler, OF assms(1) m _ _ assms(6)] assms(5) by simp
qed

theorem running_job_is_run_again_witness:
  "run_job sample_env sample_manager (sample_job_id CHR ''1'') (\<lambda>i. 0) 0 1000000 running_db
   = record_outcome sample_env (sample_job_id CHR ''1'') (Inr (PDict [(''job_status'', PStr ''cancelled'')])) 1000000 running_db"
proof -
  have h: "get_handler (j_job_type running_row) sample_manager = Some cancelling_handler"
    unfolding sample_run(7) by (simp add: sample_manager_def get_handler_def)
  have a: "cancelling_handler running_job running_db = (Inr (PDict [(''job_status'', PStr ''cancelled'')]), running_db)"
    by (simp add: cancelling_handler_def)
  show ?thesis by (rule running_job_is_run_again [OF sample_run(2,10,9,4) h a])
qed



end
