(* ===== verification/Traffic.thy ===== *)
theory Traffic
  imports Contracts Py_Datetime "HOL-Library.AList" "HOL-Library.Product_Lexorder"
begin

text \<open>
  Traffic accounting of \<open>services/traffic.py\<close>: counter samples are normalised, bound to a subject,
  compared with the previous reading of their counter and booked into the monthly totals of the subject.

  A \<open>traffic_db\<close> holds the tables \<open>traffic_counter_snapshots\<close>, \<open>traffic_monthly\<close>,
  \<open>subjects\<close> and \<open>subject_fwrouter\<close>. The registry lookup \<open>get_external_connection\<close> is an
  argument; logging is not modelled. Letters are those of ASCII.
\<close>

section \<open>Data\<close>

record traffic_sample =
  t_counter_key :: string
  t_subject_id :: string
  t_path :: string
  t_rx_bytes :: int
  t_tx_bytes :: int
  t_metadata :: pydict

record counter_snapshot =
  c_counter_key :: string
  c_subject_id :: "string option"
  c_path :: string
  c_rx_bytes :: int
  c_tx_bytes :: int
  c_collected_at :: string
  c_metadata :: pyval

record monthly_row =
  mo_subject_id :: string
  mo_period_month :: string
  mo_direct_rx :: int
  mo_direct_tx :: int
  mo_vpn_rx :: int
  mo_vpn_tx :: int
  mo_blocked_rx :: int
  mo_blocked_tx :: int
  mo_updated_at :: string

record subject_row =
  sb_subject_id :: string
  sb_subject_type :: string
  sb_subject_role :: string
  sb_implementation_kind :: string
  sb_stable_key :: string
  sb_display_name :: string
  sb_desired_mode :: string
  sb_runtime_state :: string
  sb_is_active :: bool
  sb_is_deleted :: bool
  sb_last_traffic_at :: "string option"
  sb_last_seen_at :: "string option"
  sb_inactive_since :: "string option"
  sb_metadata :: pyval
  sb_updated_at :: string

record traffic_db =
  tr_snapshots :: "counter_snapshot list"
  tr_monthly :: "monthly_row list"
  tr_subjects :: "subject_row list"
  tr_fwrouter :: "(string \<times> string) list"

definition traffic_paths :: "string list" where
  "traffic_paths = [''direct'', ''vpn'', ''blocked'']"

section \<open>Normalisation\<close>

definition is_alnum :: "char \<Rightarrow> bool" where
  "is_alnum c = (is_digit c \<or> CHR ''A'' \<le> c \<and> c \<le> CHR ''Z'' \<or> CHR ''a'' \<le> c \<and> c \<le> CHR ''z'')"

definition strip_char :: "char \<Rightarrow> string \<Rightarrow> string" where
  "strip_char x s = rev (dropWhile (\<lambda>c. c = x) (rev (dropWhile (\<lambda>c. c = x) s)))"

definition counter_subject_suffix :: "string \<Rightarrow> string" where
  "counter_subject_suffix value =
     strip_char CHR ''_'' (map (\<lambda>c. if is_alnum c then lower_char c else CHR ''_'') value)"

definition drop_end :: "nat \<Rightarrow> string \<Rightarrow> string" where
  "drop_end n s = take (length s - n) s"

definition sample_error :: "string \<Rightarrow> string \<Rightarrow> pydict" where
  "sample_error code message = [(''code'', PStr code), (''message'', PStr message)]"

definition counter_prefix :: string where
  "counter_prefix = ''nft:counter:cnt_''"

text \<open>The name of a named counter without its direction, and whether it counts outgoing bytes.\<close>

definition split_direction :: "string \<Rightarrow> string \<times> bool" where
  "split_direction name =
     (if ends_with name ''_rx'' then (drop_end 3 name, False)
      else if ends_with name ''_tx'' then (drop_end 3 name, True)
      else (name, False))"

definition split_path :: "string \<Rightarrow> string \<Rightarrow> string \<times> string" where
  "split_path path name =
     (if ends_with name ''_direct'' then (''direct'', drop_end 7 name)
      else if ends_with name ''_vpn'' then (''vpn'', drop_end 4 name)
      else if ends_with name ''_blocked'' then (''blocked'', drop_end 8 name)
      else (if path \<notin> set traffic_paths then ''direct'' else path, name))"

definition subject_prefixes :: "string list" where
  "subject_prefixes = [''lan_'', ''host_'', ''tailscale_'', ''docker_'', ''xray_'', ''fwrouter_'']"

definition named_subject :: "string \<Rightarrow> string" where
  "named_subject name =
     (case find (\<lambda>prefix. starts_with name prefix) subject_prefixes of
        Some prefix \<Rightarrow>
          (let remainder = drop (length prefix) name
           in if prefix = ''tailscale_''
              then ''tailscale-node:'' @ replace_char CHR ''_'' ''-''
                     (if starts_with remainder ''node_'' then drop 5 remainder else remainder)
              else replace_char CHR ''_'' '':'' prefix @ replace_char CHR ''_'' ''-'' remainder)
      | None \<Rightarrow> replace_char CHR ''_'' '':'' name)"

text \<open>Subject, path and direction after the mapping of named counters.\<close>

definition map_counter :: "string \<Rightarrow> string \<Rightarrow> string \<Rightarrow> string \<times> string \<times> bool" where
  "map_counter counter_key subject_id path =
     (if subject_id = [] \<or> path \<notin> set traffic_paths
      then (if starts_with counter_key counter_prefix
            then (case split_direction (drop (length counter_prefix) counter_key) of (name, is_tx) \<Rightarrow>
                    (case split_path path name of (path', name') \<Rightarrow>
                       (if subject_id = [] then named_subject name' else subject_id, path', is_tx)))
            else if counter_key = ''mihomo:global''
            then (if subject_id = [] then ''fwrouter:global'' else subject_id,
                  if path \<notin> set traffic_paths then ''vpn'' else path, False)
            else (subject_id, path, False))
      else (subject_id, path, False))"

definition normalize_sample :: "pydict \<Rightarrow> pydict + traffic_sample" where
  "normalize_sample payload =
     (let counter_key = clean (dict_get payload ''counter_key'')
      in case map_counter counter_key (clean (dict_get payload ''subject_id''))
                (lower (clean (dict_get payload ''path''))) of
           (subject_id, path, is_nft_tx) \<Rightarrow>
             if counter_key = [] then Inl (sample_error ''COUNTER_KEY_REQUIRED'' ''counter_key is required.'')
             else if subject_id = [] then Inl (sample_error ''SUBJECT_ID_REQUIRED'' ''subject_id is required.'')
             else if path \<notin> set traffic_paths
             then Inl (sample_error ''TRAFFIC_PATH_INVALID'' ''path must be one of: blocked, direct, vpn.'')
             else (case (py_int (py_or (dict_get payload ''rx_bytes'') (PInt 0)),
                         py_int (py_or (dict_get payload ''tx_bytes'') (PInt 0))) of
                     (Inr rx0, Inr tx0) \<Rightarrow>
                       let rx = (if is_nft_tx then 0 else rx0);
                           tx = (if is_nft_tx then rx0 else tx0)
                       in if rx < 0 \<or> tx < 0
                          then Inl (sample_error ''TRAFFIC_BYTES_NEGATIVE'' ''rx_bytes and tx_bytes must be non-negative.'')
                          else Inr \<lparr>t_counter_key = counter_key, t_subject_id = subject_id, t_path = path,
                                    t_rx_bytes = rx, t_tx_bytes = tx,
                                    t_metadata = (case dict_get payload ''metadata'' of
                                                    PNone \<Rightarrow> [] | PDict d \<Rightarrow> d | v \<Rightarrow> [(''value'', v)])\<rparr>
                   | _ \<Rightarrow> Inl (sample_error ''TRAFFIC_BYTES_INVALID'' ''rx_bytes and tx_bytes must be integers.'')))"

definition external_connection_id_from_collector :: "string \<Rightarrow> string option" where
  "external_connection_id_from_collector collector =
     (let normalized = lower (strip collector)
      in case find (\<lambda>prefix. starts_with normalized prefix) [''external_connection:'', ''external_client:''] of
           Some prefix \<Rightarrow>
             (let candidate = strip (drop (length prefix) normalized)
              in if candidate = [] then None else Some candidate)
         | None \<Rightarrow> None)"

text \<open>\<open>registry\<close> is \<open>get_external_connection\<close>; its rows have a \<open>connection_id\<close>.\<close>

definition bind_external_connection_metadata ::
  "(string \<Rightarrow> pydict option) \<Rightarrow> string \<Rightarrow> traffic_sample \<Rightarrow> pydict + traffic_sample" where
  "bind_external_connection_metadata registry collector sample =
     (let metadata = t_metadata sample;
          explicit_id = clean (dict_get metadata ''connection_id'');
          connection_id = (if explicit_id \<noteq> [] then Some explicit_id
                           else external_connection_id_from_collector collector)
      in case connection_id of
           None \<Rightarrow> Inr sample
         | Some cid \<Rightarrow>
             (case registry cid of
                None \<Rightarrow> Inl (sample_error ''EXTERNAL_SYSTEM_NOT_REGISTERED''
                              (''External connection is not registered: '' @ cid @ ''.''))
              | Some system \<Rightarrow>
                  let connection_type = lower (clean (dict_get system ''connection_type''));
                      id_value = dict_get system ''connection_id'';
                      text = (\<lambda>v. PStr (py_str v))
                  in if connection_type = ''external_management''
                     then Inl (sample_error ''EXTERNAL_SYSTEM_TRAFFIC_UNSUPPORTED''
                            ''external_management connections may call management API, but must not submit traffic accounting samples.'')
                     else Inr (sample\<lparr>t_metadata := dict_update metadata
                            [(''connection_id'', text id_value),
                             (''external_system_id'', text id_value),
                             (''external_display_system_id'', text (py_or (dict_get system ''system_id'') id_value)),
                             (''external_system_label'', text (py_or (dict_get system ''label'') id_value)),
                             (''connection_type'', PStr connection_type),
                             (''external_runtime_type'', text (py_or (dict_get system ''runtime_type'') (PStr []))),
                             (''external_connection_location'', text (py_or (dict_get system ''location'') (PStr [])))]\<rparr>)))"

section \<open>Subjects\<close>

text \<open>The subject of each counter suffix; a suffix of two subjects has none.\<close>

fun subject_by_suffix :: "string list \<Rightarrow> (string \<times> string option) list \<Rightarrow> (string \<times> string option) list" where
  "subject_by_suffix [] acc = acc"
| "subject_by_suffix (subject_id # rest) acc =
     (let suffix = counter_subject_suffix subject_id
      in subject_by_suffix rest
           (AList.update suffix
              (case map_of acc suffix of
                 Some known \<Rightarrow> if known \<noteq> Some subject_id then None else Some subject_id
               | None \<Rightarrow> Some subject_id) acc))"

definition live_subject_ids :: "traffic_db \<Rightarrow> string list" where
  "live_subject_ids db = map sb_subject_id (filter (\<lambda>r. \<not> sb_is_deleted r) (tr_subjects db))"

fun resolve_samples ::
  "(string \<times> string option) list \<Rightarrow> string list \<Rightarrow> traffic_sample list \<Rightarrow> traffic_sample list \<times> string list" where
  "resolve_samples by_suffix existing [] = ([], existing)"
| "resolve_samples by_suffix existing (sample # rest) =
     (if t_subject_id sample \<in> set existing \<or> \<not> starts_with (t_counter_key sample) counter_prefix
      then (case resolve_samples by_suffix existing rest of (out, ex) \<Rightarrow> (sample # out, ex))
      else (case map_of by_suffix (counter_subject_suffix (t_subject_id sample)) of
              Some (Some resolved) \<Rightarrow>
                (let metadata = (if dict_has (t_metadata sample) ''resolved_from_subject_id'' then t_metadata sample
                                 else dict_set (t_metadata sample) ''resolved_from_subject_id'' (PStr (t_subject_id sample)))
                 in case resolve_samples by_suffix (List.insert resolved existing) rest of
                      (out, ex) \<Rightarrow> (sample\<lparr>t_subject_id := resolved, t_metadata := metadata\<rparr> # out, ex))
            | _ \<Rightarrow> (case resolve_samples by_suffix existing rest of (out, ex) \<Rightarrow> (sample # out, ex))))"

definition resolve_counter_subject_aliases ::
  "traffic_sample list \<Rightarrow> string list \<Rightarrow> traffic_db \<Rightarrow> traffic_sample list \<times> string list" where
  "resolve_counter_subject_aliases samples existing db =
     (if \<not> (\<exists>s\<in>set samples. t_subject_id s \<notin> set existing \<and> starts_with (t_counter_key s) counter_prefix)
      then (samples, existing)
      else resolve_samples (subject_by_suffix (live_subject_ids db) []) existing samples)"

definition is_stale_docker_named_counter :: "traffic_sample \<Rightarrow> bool" where
  "is_stale_docker_named_counter sample =
     (starts_with (t_counter_key sample) ''nft:counter:cnt_docker_'' \<and> starts_with (t_subject_id sample) ''docker:'')"

definition is_stale_host_named_counter :: "traffic_sample \<Rightarrow> bool" where
  "is_stale_host_named_counter sample =
     (starts_with (t_counter_key sample) ''nft:counter:cnt_host_'' \<and> starts_with (t_subject_id sample) ''host:'')"

text \<open>\<open>INSERT ... ON CONFLICT(subject_id) DO UPDATE\<close> of a router component and its detail row.\<close>

definition component_name :: "string \<Rightarrow> string" where
  "component_name subject_id =
     (let rest = drop 1 (dropWhile (\<lambda>c. c \<noteq> CHR '':'') subject_id) in if rest = [] then ''global'' else rest)"

definition ensure_fwrouter_subject :: "string \<Rightarrow> string \<Rightarrow> traffic_db \<Rightarrow> traffic_db" where
  "ensure_fwrouter_subject sql_now subject_id db =
     (let name = component_name subject_id;
          subjects =
            (if subject_id \<in> sb_subject_id ` set (tr_subjects db)
             then map (\<lambda>r. if sb_subject_id r = subject_id
                           then r\<lparr>sb_subject_role := ''router_core'', sb_implementation_kind := ''fwrouter'',
                                  sb_runtime_state := ''running'', sb_is_active := True, sb_is_deleted := False,
                                  sb_updated_at := sql_now\<rparr>
                           else r) (tr_subjects db)
             else tr_subjects db @
               [\<lparr>sb_subject_id = subject_id, sb_subject_type = ''fwrouter'', sb_subject_role = ''router_core'',
                 sb_implementation_kind = ''fwrouter'', sb_stable_key = subject_id,
                 sb_display_name = ''FWRouter '' @ name, sb_desired_mode = ''direct'', sb_runtime_state = ''running'',
                 sb_is_active = True, sb_is_deleted = False, sb_last_traffic_at = None, sb_last_seen_at = None,
                 sb_inactive_since = None,
                 sb_metadata = PDict [(''source'', PStr ''traffic_accounting''), (''component_name'', PStr name)],
                 sb_updated_at = sql_now\<rparr>])
      in db\<lparr>tr_subjects := subjects, tr_fwrouter := AList.update subject_id name (tr_fwrouter db)\<rparr>)"

definition subject_exists :: "string \<Rightarrow> traffic_db \<Rightarrow> bool" where
  "subject_exists subject_id db = (subject_id \<in> set (live_subject_ids db))"

definition ensure_subject_for_traffic :: "string \<Rightarrow> string \<Rightarrow> traffic_db \<Rightarrow> bool \<times> traffic_db" where
  "ensure_subject_for_traffic sql_now subject_id db =
     (if subject_exists subject_id db then (True, db)
      else if \<not> starts_with subject_id ''fwrouter:'' then (False, db)
      else (True, ensure_fwrouter_subject sql_now subject_id db))"

section \<open>Booking\<close>

definition delta_from_previous :: "traffic_sample \<Rightarrow> counter_snapshot option \<Rightarrow> int \<times> int \<times> string" where
  "delta_from_previous sample previous =
     (case previous of
        None \<Rightarrow> (0, 0, ''seeded_baseline'')
      | Some p \<Rightarrow>
          let rx_reset = (t_rx_bytes sample < c_rx_bytes p);
              tx_reset = (t_tx_bytes sample < c_tx_bytes p);
              rx_delta = (if rx_reset then t_rx_bytes sample else t_rx_bytes sample - c_rx_bytes p);
              tx_delta = (if tx_reset then t_tx_bytes sample else t_tx_bytes sample - c_tx_bytes p)
          in (rx_delta, tx_delta, if rx_reset \<or> tx_reset then ''counter_reset'' else ''delta''))"

definition is_xray_stats_sample :: "traffic_sample \<Rightarrow> bool" where
  "is_xray_stats_sample sample =
     (starts_with (t_counter_key sample) ''xray:subject:''
      \<or> lower (clean (dict_get (t_metadata sample) ''source'')) = ''xray_api'')"

text \<open>The delta that is booked: the first reading of an Xray counter counts as activity.\<close>

definition booked_delta :: "traffic_sample \<Rightarrow> counter_snapshot option \<Rightarrow> int \<times> int \<times> string" where
  "booked_delta sample previous =
     (if previous = None \<and> is_xray_stats_sample sample \<and> (t_rx_bytes sample > 0 \<or> t_tx_bytes sample > 0)
      then (t_rx_bytes sample, t_tx_bytes sample, ''initial_xray_activity'')
      else delta_from_previous sample previous)"

definition upsert_snapshot :: "traffic_sample \<Rightarrow> string \<Rightarrow> pydict \<Rightarrow> traffic_db \<Rightarrow> traffic_db" where
  "upsert_snapshot sample collected_at metadata db =
     (let row = \<lparr>c_counter_key = t_counter_key sample, c_subject_id = Some (t_subject_id sample),
                 c_path = t_path sample, c_rx_bytes = t_rx_bytes sample, c_tx_bytes = t_tx_bytes sample,
                 c_collected_at = collected_at, c_metadata = PDict metadata\<rparr>
      in db\<lparr>tr_snapshots :=
              (if t_counter_key sample \<in> c_counter_key ` set (tr_snapshots db)
               then map (\<lambda>r. if c_counter_key r = t_counter_key sample then row else r) (tr_snapshots db)
               else tr_snapshots db @ [row])\<rparr>)"

definition add_to_path :: "string \<Rightarrow> int \<Rightarrow> int \<Rightarrow> monthly_row \<Rightarrow> monthly_row" where
  "add_to_path path rx tx r =
     (if path = ''direct'' then r\<lparr>mo_direct_rx := mo_direct_rx r + rx, mo_direct_tx := mo_direct_tx r + tx\<rparr>
      else if path = ''vpn'' then r\<lparr>mo_vpn_rx := mo_vpn_rx r + rx, mo_vpn_tx := mo_vpn_tx r + tx\<rparr>
      else r\<lparr>mo_blocked_rx := mo_blocked_rx r + rx, mo_blocked_tx := mo_blocked_tx r + tx\<rparr>)"

definition empty_month :: "string \<Rightarrow> string \<Rightarrow> string \<Rightarrow> monthly_row" where
  "empty_month subject_id period_month sql_now =
     \<lparr>mo_subject_id = subject_id, mo_period_month = period_month, mo_direct_rx = 0, mo_direct_tx = 0,
      mo_vpn_rx = 0, mo_vpn_tx = 0, mo_blocked_rx = 0, mo_blocked_tx = 0, mo_updated_at = sql_now\<rparr>"

definition record_monthly_delta ::
  "string \<Rightarrow> string \<Rightarrow> int \<Rightarrow> int \<Rightarrow> string \<Rightarrow> string \<Rightarrow> string \<Rightarrow> traffic_db \<Rightarrow> traffic_db" where
  "record_monthly_delta subject_id path rx_delta tx_delta period_month now_ts sql_now db =
     (let hit = (\<lambda>r. mo_subject_id r = subject_id \<and> mo_period_month r = period_month);
          monthly =
            (if \<exists>r\<in>set (tr_monthly db). hit r
             then map (\<lambda>r. if hit r then (add_to_path path rx_delta tx_delta r)\<lparr>mo_updated_at := sql_now\<rparr> else r)
                    (tr_monthly db)
             else tr_monthly db @ [add_to_path path rx_delta tx_delta (empty_month subject_id period_month sql_now)]);
          subjects = map (\<lambda>r. if sb_subject_id r = subject_id
                              then r\<lparr>sb_last_traffic_at := Some now_ts, sb_last_seen_at := Some now_ts,
                                     sb_is_active := True, sb_inactive_since := None, sb_updated_at := sql_now\<rparr>
                              else r) (tr_subjects db)
      in db\<lparr>tr_monthly := monthly, tr_subjects := subjects\<rparr>)"

definition month_key :: "datetime \<Rightarrow> string" where
  "month_key t = take 7 (strftime_sql t)"

record processed_sample =
  p_sample :: traffic_sample
  p_rx_delta :: int
  p_tx_delta :: int
  p_delta_kind :: string
  p_baseline_seeded :: bool
  p_applied :: bool

record traffic_result =
  x_processed :: "processed_sample list"
  x_skipped :: "pydict list"
  x_invalid :: "pydict list"
  x_updated_count :: nat
  x_seeded_count :: nat
  x_total_rx_delta :: int
  x_total_tx_delta :: int

definition sample_metadata :: "string \<Rightarrow> string \<Rightarrow> traffic_sample \<Rightarrow> int \<times> int \<times> string \<Rightarrow> pydict" where
  "sample_metadata collector collected_at sample = (\<lambda>(rx_delta, tx_delta, delta_kind).
     dict_update (t_metadata sample)
       [(''collector'', PStr collector), (''collected_at'', PStr collected_at), (''delta_kind'', PStr delta_kind),
        (''rx_delta'', PInt rx_delta), (''tx_delta'', PInt tx_delta),
        (''activity_observed'', PBool (rx_delta > 0 \<or> tx_delta > 0))])"

definition missing_subject_error :: "traffic_sample \<Rightarrow> pydict" where
  "missing_subject_error sample =
     [(''counter_key'', PStr (t_counter_key sample)),
      (''sample'', PDict [(''subject_id'', PStr (t_subject_id sample)), (''path'', PStr (t_path sample))]),
      (''error'', PDict (sample_error ''SUBJECT_NOT_FOUND'' (''Subject not found: '' @ t_subject_id sample)))]"

definition stale_counter :: "string \<Rightarrow> string \<Rightarrow> traffic_sample \<Rightarrow> pydict" where
  "stale_counter code message sample =
     [(''counter_key'', PStr (t_counter_key sample)),
      (''sample'', PDict [(''subject_id'', PStr (t_subject_id sample)), (''path'', PStr (t_path sample))]),
      (''reason'', PDict (sample_error code (message @ t_subject_id sample)))]"

record traffic_call =
  k_collector :: string
  k_dry_run :: bool
  k_now :: datetime
  k_sql_now :: string

definition book_sample ::
  "traffic_call \<Rightarrow> traffic_sample \<Rightarrow> int \<times> int \<times> string \<Rightarrow> traffic_db \<Rightarrow> traffic_db" where
  "book_sample k sample delta db =
     (let collected_at = isoformat (k_now k);
          db1 = upsert_snapshot sample collected_at (sample_metadata (k_collector k) collected_at sample delta) db;
          rx_delta = fst delta; tx_delta = fst (snd delta)
      in if rx_delta > 0 \<or> tx_delta > 0
         then record_monthly_delta (t_subject_id sample) (t_path sample) rx_delta tx_delta (month_key (k_now k))
                collected_at (k_sql_now k) db1
         else db1)"

text \<open>One iteration of the main loop; \<open>previous\<close> are the snapshots read before the loop.\<close>

definition process_sample ::
  "traffic_call \<Rightarrow> counter_snapshot list \<Rightarrow> string list \<Rightarrow> traffic_sample \<Rightarrow> traffic_result \<times> traffic_db
   \<Rightarrow> traffic_result \<times> traffic_db" where
  "process_sample k previous existing sample = (\<lambda>(x, db).
     if t_subject_id sample \<notin> set existing
     then (if is_stale_docker_named_counter sample
           then (x\<lparr>x_skipped := x_skipped x @ [stale_counter ''STALE_DOCKER_COUNTER'' ''Stale Docker counter skipped: '' sample]\<rparr>, db)
           else if is_stale_host_named_counter sample
           then (x\<lparr>x_skipped := x_skipped x @ [stale_counter ''STALE_HOST_COUNTER'' ''Stale host counter skipped: '' sample]\<rparr>, db)
           else (x\<lparr>x_invalid := x_invalid x @ [missing_subject_error sample]\<rparr>, db))
     else (let prev = find (\<lambda>r. c_counter_key r = t_counter_key sample) previous;
               delta = booked_delta sample prev;
               rx_delta = fst delta; tx_delta = fst (snd delta); kind = snd (snd delta)
           in (x\<lparr>x_seeded_count := x_seeded_count x + (if prev = None \<and> kind = ''seeded_baseline'' then 1 else 0),
                 x_updated_count := x_updated_count x + (if rx_delta > 0 \<or> tx_delta > 0 then 1 else 0),
                 x_total_rx_delta := x_total_rx_delta x + rx_delta,
                 x_total_tx_delta := x_total_tx_delta x + tx_delta,
                 x_processed := x_processed x @
                   [\<lparr>p_sample = sample, p_rx_delta = rx_delta, p_tx_delta = tx_delta, p_delta_kind = kind,
                     p_baseline_seeded = (prev = None), p_applied = (\<not> k_dry_run k)\<rparr>]\<rparr>,
               if k_dry_run k then db else book_sample k sample delta db)))"

fun process_all ::
  "traffic_call \<Rightarrow> counter_snapshot list \<Rightarrow> string list \<Rightarrow> traffic_sample list \<Rightarrow> traffic_result \<times> traffic_db
   \<Rightarrow> traffic_result \<times> traffic_db" where
  "process_all k previous existing [] st = st"
| "process_all k previous existing (s # ss) st =
     process_all k previous existing ss (process_sample k previous existing s st)"

text \<open>The first loop: the valid samples and the rejected ones, with their index.\<close>

fun normalize_all ::
  "(string \<Rightarrow> pydict option) \<Rightarrow> string \<Rightarrow> nat \<Rightarrow> pydict list \<Rightarrow> traffic_sample list \<times> pydict list" where
  "normalize_all registry collector index [] = ([], [])"
| "normalize_all registry collector index (payload # rest) =
     (case normalize_all registry collector (Suc index) rest of (samples, invalid) \<Rightarrow>
        let bad = (\<lambda>error. [(''index'', PInt (int index)), (''sample'', PDict payload), (''error'', PDict error)])
        in case normalize_sample payload of
             Inl error \<Rightarrow> (samples, bad error # invalid)
           | Inr sample \<Rightarrow>
               (case bind_external_connection_metadata registry collector sample of
                  Inl error \<Rightarrow> (samples, bad error # invalid)
                | Inr bound \<Rightarrow> (bound # samples, invalid)))"

definition ensure_missing :: "traffic_call \<Rightarrow> string list \<Rightarrow> traffic_db \<Rightarrow> traffic_db" where
  "ensure_missing k missing db = (if k_dry_run k then db else fold (ensure_fwrouter_subject (k_sql_now k)) missing db)"

definition record_traffic_samples ::
  "(string \<Rightarrow> pydict option) \<Rightarrow> traffic_call \<Rightarrow> pydict list \<Rightarrow> traffic_db \<Rightarrow> traffic_result \<times> traffic_db" where
  "record_traffic_samples registry k payloads db =
     (case normalize_all registry (k_collector k) 0 payloads of (samples, invalid) \<Rightarrow>
        let subject_ids = sort (remdups (map t_subject_id samples));
            previous = filter (\<lambda>r. c_counter_key r \<in> t_counter_key ` set samples) (tr_snapshots db);
            existing = filter (\<lambda>i. i \<in> set (live_subject_ids db)) subject_ids;
            missing = filter (\<lambda>i. starts_with i ''fwrouter:'' \<and> i \<notin> set existing) subject_ids;
            db1 = ensure_missing k missing db
        in case resolve_counter_subject_aliases samples (existing @ missing) db1 of (resolved, existing') \<Rightarrow>
             process_all k previous existing' resolved
               (\<lparr>x_processed = [], x_skipped = [], x_invalid = invalid, x_updated_count = 0, x_seeded_count = 0,
                 x_total_rx_delta = 0, x_total_tx_delta = 0\<rparr>, db1))"

section \<open>Retention\<close>

definition civil_of :: "datetime \<Rightarrow> int \<times> int \<times> int" where
  "civil_of t = civil_from_days (t div 1000000 div 86400)"

definition retention_cutoff_month :: "datetime \<Rightarrow> string" where
  "retention_cutoff_month now =
     (case civil_of now of (year, month, _) \<Rightarrow>
        let month_index = year * 12 + month - 1;
            keep_from_index = month_index - (12 - 1)
        in pad_int 4 (keep_from_index div 12) @ ''-'' @ pad_int 2 (keep_from_index mod 12 + 1))"

definition invalid_snapshot :: "traffic_db \<Rightarrow> counter_snapshot \<Rightarrow> bool" where
  "invalid_snapshot db r =
     (case c_subject_id r of None \<Rightarrow> True | Some i \<Rightarrow> i = [] \<or> i \<notin> set (live_subject_ids db))"

text \<open>
  The candidates of both kinds, the numbers of deleted rows, and the tables. The invalid snapshots are
  ordered by \<open>collected_at DESC, counter_key\<close>: both sorts are stable.
\<close>

definition cleanup_traffic_history ::
  "bool \<Rightarrow> datetime \<Rightarrow> traffic_db \<Rightarrow> (monthly_row list \<times> counter_snapshot list \<times> nat \<times> nat) \<times> traffic_db" where
  "cleanup_traffic_history dry_run now db =
     (let cutoff_month = retention_cutoff_month now;
          candidates = sort_key (\<lambda>r. (mo_period_month r, mo_subject_id r))
                         (filter (\<lambda>r. mo_period_month r < cutoff_month) (tr_monthly db));
          invalid = rev (sort_key c_collected_at (rev (sort_key c_counter_key
                      (filter (invalid_snapshot db) (tr_snapshots db)))));
          deleted = (if dry_run then 0 else length candidates);
          deleted_invalid = (if dry_run then 0 else length invalid)
      in ((candidates, invalid, deleted, deleted_invalid),
          if dry_run then db
          else db\<lparr>tr_monthly := filter (\<lambda>r. \<not> mo_period_month r < cutoff_month) (tr_monthly db),
                  tr_snapshots := filter (\<lambda>r. \<not> invalid_snapshot db r) (tr_snapshots db)\<rparr>))"

section \<open>Collection from the script\<close>

text \<open>
  The result of the script runner: it cannot be started, it failed with its error output, or its output
  is a JSON document or no JSON.
\<close>

datatype script_result = NotStarted string | Failed string | Output json_text

definition raw_samples :: "pyval \<Rightarrow> pyval" where
  "raw_samples payload =
     (case payload of
        PDict d \<Rightarrow> py_or (py_or (dict_get d ''counters'') (dict_get d ''samples'')) (PList [])
      | PList xs \<Rightarrow> PList xs
      | _ \<Rightarrow> PList [])"

definition collect_traffic_from_script ::
  "(string \<Rightarrow> pydict option) \<Rightarrow> traffic_call \<Rightarrow> script_result \<Rightarrow> datetime \<Rightarrow> traffic_db
   \<Rightarrow> (string + traffic_result) \<times> traffic_db" where
  "collect_traffic_from_script registry k result now db =
     (case result of
        NotStarted _ \<Rightarrow> (Inl ''SCRIPT_RUNNER_ERROR'', db)
      | Failed _ \<Rightarrow> (Inl ''SCRIPT_RUN_FAILED'', db)
      | Output (JMalformed _) \<Rightarrow> (Inl ''SCRIPT_OUTPUT_INVALID_JSON'', db)
      | Output (JText payload) \<Rightarrow>
          (case raw_samples payload of
             PList raw \<Rightarrow>
               (case record_traffic_samples registry k (map items (filter is_dict raw)) db of
                  (collected, db1) \<Rightarrow>
                    (Inr collected, if k_dry_run k then db1 else snd (cleanup_traffic_history False now db1)))
           | _ \<Rightarrow> (Inl ''SCRIPT_OUTPUT_INVALID_SHAPE'', db)))"

section \<open>Reading the accounting\<close>

record monthly_view =
  mv_row :: monthly_row
  mv_total_direct :: int
  mv_total_vpn :: int
  mv_total_blocked :: int

definition monthly_view_of :: "monthly_row \<Rightarrow> monthly_view" where
  "monthly_view_of r =
     \<lparr>mv_row = r, mv_total_direct = mo_direct_rx r + mo_direct_tx r, mv_total_vpn = mo_vpn_rx r + mo_vpn_tx r,
      mv_total_blocked = mo_blocked_rx r + mo_blocked_tx r\<rparr>"

definition list_monthly_traffic ::
  "string option \<Rightarrow> string option \<Rightarrow> int \<Rightarrow> traffic_db \<Rightarrow> monthly_view list" where
  "list_monthly_traffic subject_id period_month limit db =
     (let safe_limit = max 1 (min limit 500);
          wanted = (\<lambda>r. (case subject_id of None \<Rightarrow> True | Some i \<Rightarrow> i = [] \<or> mo_subject_id r = i)
                      \<and> (case period_month of None \<Rightarrow> True | Some m \<Rightarrow> m = [] \<or> mo_period_month r = m))
      in map monthly_view_of (take (nat safe_limit)
           (rev (sort_key (\<lambda>r. (mo_period_month r, mo_updated_at r)) (filter wanted (tr_monthly db))))))"

definition max_text :: "string list \<Rightarrow> string option" where
  "max_text xs = (if xs = [] then None else Some (foldr max (tl xs) (hd xs)))"

record traffic_state =
  ts_snapshots_count :: nat
  ts_last_collected_at :: "string option"
  ts_last_collected_age :: "int option"
  ts_monthly_rows_count :: nat
  ts_monthly_subjects_count :: nat
  ts_monthly_last_updated_at :: "string option"
  ts_signal_fresh :: bool
  ts_signal_authoritative :: bool
  ts_signal_authority :: string
  ts_last_fresh_sample_at :: "string option"
  ts_safe_for_watchdog_auto :: bool

text \<open>The age of the last reading; a timestamp without an offset cannot be compared with the clock.\<close>

definition collected_age :: "datetime \<Rightarrow> string option \<Rightarrow> exc + int option" where
  "collected_age now last_collected_at =
     (case last_collected_at of
        None \<Rightarrow> Inr None
      | Some t \<Rightarrow>
          if t = [] then Inr None
          else (case fromisoformat (replace_char CHR ''Z'' ''+00:00'' t) of
                  None \<Rightarrow> Inr None
                | Some (_, None) \<Rightarrow> Inl TypeError
                | Some (local, Some offset) \<Rightarrow>
                    Inr (Some (max 0 (seconds_between now (local - offset * 1000000))))))"

definition get_traffic_accounting_state :: "datetime \<Rightarrow> traffic_db \<Rightarrow> exc + traffic_state" where
  "get_traffic_accounting_state now db =
     (let last_collected_at = max_text (map c_collected_at (tr_snapshots db))
      in case collected_age now last_collected_at of
           Inl e \<Rightarrow> Inl e
         | Inr age \<Rightarrow>
             let fresh = (case age of None \<Rightarrow> False | Some a \<Rightarrow> a \<le> 60 * 2); authoritative = fresh
             in Inr \<lparr>ts_snapshots_count = length (tr_snapshots db), ts_last_collected_at = last_collected_at,
                     ts_last_collected_age = age, ts_monthly_rows_count = length (tr_monthly db),
                     ts_monthly_subjects_count = length (remdups (map mo_subject_id (tr_monthly db))),
                     ts_monthly_last_updated_at = max_text (map mo_updated_at (tr_monthly db)),
                     ts_signal_fresh = fresh, ts_signal_authoritative = authoritative,
                     ts_signal_authority = (if authoritative then ''authoritative''
                                            else if fresh then ''best_effort'' else ''unavailable''),
                     ts_last_fresh_sample_at = (if fresh then last_collected_at else None),
                     ts_safe_for_watchdog_auto = authoritative\<rparr>)"

end
