(* ===== verification/Traffic_Properties.thy ===== *)
theory Traffic_Properties
  imports Traffic
begin

text \<open>
  Properties of traffic accounting: every counted byte is booked exactly once, deltas are taken against
  the stored reading, counters are attributed to one subject only, normalised samples are well formed,
  and the retention keeps twelve months.
\<close>

section \<open>Well-formed samples\<close>

definition good_sample :: "traffic_sample \<Rightarrow> bool" where
  "good_sample s = (t_counter_key s \<noteq> [] \<and> t_subject_id s \<noteq> [] \<and> t_path s \<in> set traffic_paths
     \<and> 0 \<le> t_rx_bytes s \<and> 0 \<le> t_tx_bytes s)"

lemma normalize_good: "normalize_sample payload = Inr s \<Longrightarrow> good_sample s"
  by (auto simp: normalize_sample_def Let_def good_sample_def split: prod.splits if_splits sum.splits)

lemma bind_keeps:
  "bind_external_connection_metadata registry c s = Inr s' \<Longrightarrow> \<exists>m. s' = s\<lparr>t_metadata := m\<rparr>"
  by (cases s) (auto simp: bind_external_connection_metadata_def Let_def split: option.splits if_splits)

lemma normalize_all_good:
  "s \<in> set (fst (normalize_all registry c i ps)) \<Longrightarrow> good_sample s"
proof (induction ps arbitrary: i)
  case Nil
  then show ?case by simp
next
  case (Cons p ps)
  have bound: "good_sample t'" if "normalize_sample p = Inr t" "bind_external_connection_metadata registry c t = Inr t'" for t t'
    using normalize_good [OF that(1)] bind_keeps [OF that(2)] by (auto simp: good_sample_def)
  show ?case
    using Cons.prems Cons.IH [of "Suc i"] by (auto simp: Let_def intro: bound split: prod.splits sum.splits)
qed

section \<open>Attribution\<close>

lemma subject_by_suffix_sound:
  assumes "map_of (subject_by_suffix ids acc) suf = Some (Some i)"
  shows "(i \<in> set ids \<and> counter_subject_suffix i = suf \<or> map_of acc suf = Some (Some i))
    \<and> (\<forall>j\<in>set ids. counter_subject_suffix j = suf \<longrightarrow> j = i)
    \<and> (\<forall>v. map_of acc suf = Some v \<longrightarrow> v = Some i)"
  using assms
proof (induction ids arbitrary: acc)
  case Nil
  then show ?case by simp
next
  case (Cons x ids)
  let ?s = "counter_subject_suffix x"
  let ?acc = "AList.update ?s (case map_of acc ?s of Some known \<Rightarrow> if known \<noteq> Some x then None else Some x | None \<Rightarrow> Some x) acc"
  have ih: "(i \<in> set ids \<and> counter_subject_suffix i = suf \<or> map_of ?acc suf = Some (Some i))
    \<and> (\<forall>j\<in>set ids. counter_subject_suffix j = suf \<longrightarrow> j = i) \<and> (\<forall>v. map_of ?acc suf = Some v \<longrightarrow> v = Some i)"
    using Cons.IH [of ?acc] Cons.prems by (simp add: Let_def)
  show ?case
  proof (cases "?s = suf")
    case True
    then have m: "map_of ?acc suf = Some (case map_of acc suf of Some known \<Rightarrow> if known \<noteq> Some x then None else Some x | None \<Rightarrow> Some x)"
      by (simp add: update_conv')
    then have "(case map_of acc suf of Some known \<Rightarrow> if known \<noteq> Some x then None else Some x | None \<Rightarrow> Some x) = Some i"
      using ih by blast
    then show ?thesis using ih True by (auto split: option.splits if_splits)
  next
    case False
    then have "map_of ?acc suf = map_of acc suf" by (simp add: update_conv')
    then show ?thesis using ih False by auto
  qed
qed

text \<open>A resolved sample: only its subject and its metadata differ.\<close>

definition attributed :: "string list \<Rightarrow> traffic_sample \<Rightarrow> traffic_sample \<Rightarrow> bool" where
  "attributed live s s' =
     (s' = s \<or> (\<exists>i m. s' = s\<lparr>t_subject_id := i, t_metadata := m\<rparr> \<and> i \<in> set live
        \<and> counter_subject_suffix i = counter_subject_suffix (t_subject_id s)
        \<and> (\<forall>j\<in>set live. counter_subject_suffix j = counter_subject_suffix (t_subject_id s) \<longrightarrow> j = i)))"

lemma resolve_samples_attributed:
  "list_all2 (attributed live) ss (fst (resolve_samples (subject_by_suffix live []) existing ss))"
proof (induction ss arbitrary: existing)
  case Nil
  then show ?case by simp
next
  case (Cons s ss)
  have "attributed live s (s\<lparr>t_subject_id := i, t_metadata := m\<rparr>)"
    if "map_of (subject_by_suffix live []) (counter_subject_suffix (t_subject_id s)) = Some (Some i)" for i m
    using subject_by_suffix_sound [OF that] unfolding attributed_def by (intro disjI2 exI [of _ i] exI [of _ m]) auto
  moreover from this have "attributed live s (s\<lparr>t_subject_id := i\<rparr>)"
    if "map_of (subject_by_suffix live []) (counter_subject_suffix (t_subject_id s)) = Some (Some i)" for i
    using that by (metis traffic_sample.surjective traffic_sample.update_convs(2,6))
  moreover have "attributed live s s" by (simp add: attributed_def)
  moreover have "list_all2 (attributed live) ss out"
    if "resolve_samples (subject_by_suffix live []) e ss = (out, ex)" for e out ex
    using Cons.IH [of e] that by simp
  ultimately show ?case by (simp add: Let_def split: prod.split option.split)
qed

lemma resolve_attributed:
  "list_all2 (attributed (live_subject_ids db)) ss (fst (resolve_counter_subject_aliases ss existing db))"
  by (simp add: resolve_counter_subject_aliases_def resolve_samples_attributed list_all2_same attributed_def)

section \<open>Conservation\<close>

definition month_total :: "monthly_row \<Rightarrow> int" where
  "month_total r = mo_direct_rx r + mo_direct_tx r + mo_vpn_rx r + mo_vpn_tx r + mo_blocked_rx r + mo_blocked_tx r"

definition booked_total :: "traffic_db \<Rightarrow> int" where
  "booked_total db = sum_list (map month_total (tr_monthly db))"

text \<open>The primary key of \<open>traffic_monthly\<close>.\<close>

definition month_keys :: "traffic_db \<Rightarrow> (string \<times> string) list" where
  "month_keys db = map (\<lambda>r. (mo_subject_id r, mo_period_month r)) (tr_monthly db)"

lemma add_to_path_simps [simp]:
  "month_total (add_to_path p rx tx r) = month_total r + rx + tx"
  "mo_subject_id (add_to_path p rx tx r) = mo_subject_id r"
  "mo_period_month (add_to_path p rx tx r) = mo_period_month r"
  "month_total (r\<lparr>mo_updated_at := u\<rparr>) = month_total r"
  by (simp_all add: add_to_path_def month_total_def)

lemma sum_list_update_one:
  fixes g :: "'a \<Rightarrow> int"
  assumes "distinct (map key xs)" and "x \<in> set xs" and "key x = k" and "\<And>y. g (f y) = g y + d"
  shows "sum_list (map g (map (\<lambda>y. if key y = k then f y else y) xs)) = sum_list (map g xs) + d"
  using assms(1,2,3)
proof (induction xs)
  case (Cons y ys)
  show ?case
  proof (cases "key y = k")
    case True
    then have "k \<notin> key ` set ys" using Cons.prems(1) by simp
    then have "map (\<lambda>z. if key z = k then f z else z) ys = ys" by (fastforce intro!: map_idI)
    then show ?thesis using True assms(4) by simp
  next
    case False
    then show ?thesis using Cons by auto
  qed
qed simp

lemma record_monthly_total:
  assumes "distinct (month_keys db)"
  shows "booked_total (record_monthly_delta i p rx tx m now sql db) = booked_total db + rx + tx"
    and "distinct (month_keys (record_monthly_delta i p rx tx m now sql db))"
proof -
  let ?hit = "\<lambda>r. mo_subject_id r = i \<and> mo_period_month r = m"
  let ?key = "\<lambda>r. (mo_subject_id r, mo_period_month r)"
  let ?f = "\<lambda>r. (add_to_path p rx tx r)\<lparr>mo_updated_at := sql\<rparr>"
  let ?db = "record_monthly_delta i p rx tx m now sql db"
  have "booked_total ?db = booked_total db + rx + tx \<and> distinct (month_keys ?db)"
  proof (cases "\<exists>r\<in>set (tr_monthly db). ?hit r")
    case True
    then obtain r where r: "r \<in> set (tr_monthly db)" "?key r = (i, m)" by auto
    have e: "map (\<lambda>r. if ?hit r then ?f r else r) (tr_monthly db) = map (\<lambda>r. if ?key r = (i, m) then ?f r else r) (tr_monthly db)"
      by simp
    have "sum_list (map month_total (map (\<lambda>r. if ?key r = (i, m) then ?f r else r) (tr_monthly db)))
      = sum_list (map month_total (tr_monthly db)) + (rx + tx)"
      by (rule sum_list_update_one [where key = ?key and k = "(i, m)" and f = ?f and x = r, OF _ r]) (use assms in \<open>simp_all add: month_keys_def\<close>)
    moreover have tm: "tr_monthly ?db = map (\<lambda>r. if ?key r = (i, m) then ?f r else r) (tr_monthly db)"
      using True e by (simp add: record_monthly_delta_def Let_def)
    moreover have "month_keys ?db = month_keys db" by (simp add: month_keys_def tm comp_def if_distrib cong: if_cong)
    ultimately show ?thesis using assms by (simp only: booked_total_def add.assoc simp_thms)
  next
    case False
    then show ?thesis
      using assms
      by (auto simp: record_monthly_delta_def Let_def booked_total_def month_keys_def empty_month_def month_total_def
          add_to_path_def)
  qed
  then show "booked_total ?db = booked_total db + rx + tx" "distinct (month_keys ?db)" by simp_all
qed

lemma upsert_monthly [simp]:
  "tr_monthly (upsert_snapshot s c m db) = tr_monthly db"
  "booked_total (upsert_snapshot s c m db) = booked_total db"
  "month_keys (upsert_snapshot s c m db) = month_keys db"
  by (simp_all add: upsert_snapshot_def Let_def booked_total_def month_keys_def)

lemma booked_delta_nonneg:
  "0 \<le> t_rx_bytes s \<Longrightarrow> 0 \<le> t_tx_bytes s \<Longrightarrow> 0 \<le> fst (booked_delta s prev) \<and> 0 \<le> fst (snd (booked_delta s prev))"
  by (auto simp: booked_delta_def delta_from_previous_def Let_def split: option.split)

lemma book_sample_total:
  assumes "distinct (month_keys db)" and "0 \<le> fst d" and "0 \<le> fst (snd d)"
  shows "booked_total (book_sample k s d db) = booked_total db + fst d + fst (snd d)"
    and "distinct (month_keys (book_sample k s d db))"
  using assms record_monthly_total [of "upsert_snapshot s (isoformat (k_now k))
      (sample_metadata (k_collector k) (isoformat (k_now k)) s d) db"]
  by (simp_all add: book_sample_def Let_def)

lemma process_all_total:
  assumes "\<forall>s\<in>set ss. 0 \<le> t_rx_bytes s \<and> 0 \<le> t_tx_bytes s" and "distinct (month_keys db)" and "\<not> k_dry_run k"
    and "process_all k prev ex ss (x, db) = (x', db')"
  shows "booked_total db' - booked_total db
      = (x_total_rx_delta x' - x_total_rx_delta x) + (x_total_tx_delta x' - x_total_tx_delta x)"
  using assms
proof (induction ss arbitrary: x db)
  case Nil
  then show ?case by simp
next
  case (Cons s ss)
  let ?p = "find (\<lambda>r. c_counter_key r = t_counter_key s) prev"
  obtain x1 db1 where st: "process_sample k prev ex s (x, db) = (x1, db1)" by fastforce
  have nn: "0 \<le> fst (booked_delta s ?p)" "0 \<le> fst (snd (booked_delta s ?p))"
    using booked_delta_nonneg Cons.prems(1) by auto
  note bt = book_sample_total [OF Cons.prems(2) nn, of k s]
  have "booked_total db1 - booked_total db
      = (x_total_rx_delta x1 - x_total_rx_delta x) + (x_total_tx_delta x1 - x_total_tx_delta x)
      \<and> distinct (month_keys db1)"
    using st bt Cons.prems(2,3) by (auto simp: process_sample_def Let_def split: if_splits)
  moreover have "booked_total db' - booked_total db1
      = (x_total_rx_delta x' - x_total_rx_delta x1) + (x_total_tx_delta x' - x_total_tx_delta x1)"
    using Cons.IH [of db1 x1] Cons.prems st calculation by simp
  ultimately show ?case by linarith
qed

lemma ensure_fwrouter_monthly [simp]:
  "tr_monthly (ensure_fwrouter_subject sql i db) = tr_monthly db"
  "tr_snapshots (ensure_fwrouter_subject sql i db) = tr_snapshots db"
  by (simp_all add: ensure_fwrouter_subject_def Let_def)

lemma ensure_missing_monthly [simp]:
  "tr_monthly (ensure_missing k is db) = tr_monthly db" "tr_snapshots (ensure_missing k is db) = tr_snapshots db"
proof -
  have "tr_monthly (fold (ensure_fwrouter_subject sql) is d) = tr_monthly d
    \<and> tr_snapshots (fold (ensure_fwrouter_subject sql) is d) = tr_snapshots d" for sql d
    by (induction "is" arbitrary: d) simp_all
  then show "tr_monthly (ensure_missing k is db) = tr_monthly db" "tr_snapshots (ensure_missing k is db) = tr_snapshots db"
    by (simp_all add: ensure_missing_def)
qed

text \<open>What a collection is: the samples it processes, from the tables with the router components ensured.\<close>

lemma record_traffic_cases:
  assumes "record_traffic_samples registry k payloads db = (x, db')"
  obtains samples resolved existing prev db1 invalid where
    "fst (normalize_all registry (k_collector k) 0 payloads) = samples"
    "list_all2 (attributed (live_subject_ids db1)) samples resolved"
    "prev = filter (\<lambda>r. c_counter_key r \<in> t_counter_key ` set samples) (tr_snapshots db)"
    "tr_monthly db1 = tr_monthly db" "tr_snapshots db1 = tr_snapshots db" "k_dry_run k \<Longrightarrow> db1 = db"
    "process_all k prev existing resolved
       (\<lparr>x_processed = [], x_skipped = [], x_invalid = invalid, x_updated_count = 0, x_seeded_count = 0,
         x_total_rx_delta = 0, x_total_tx_delta = 0\<rparr>, db1) = (x, db')"
proof -
  obtain samples invalid where n: "normalize_all registry (k_collector k) 0 payloads = (samples, invalid)" by fastforce
  let ?ids = "sort (remdups (map t_subject_id samples))"
  let ?ex = "filter (\<lambda>i. i \<in> set (live_subject_ids db)) ?ids"
  let ?missing = "filter (\<lambda>i. starts_with i ''fwrouter:'' \<and> i \<notin> set ?ex) ?ids"
  let ?db = "ensure_missing k ?missing db"
  obtain resolved existing where r: "resolve_counter_subject_aliases samples (?ex @ ?missing) ?db = (resolved, existing)"
    by fastforce
  have a: "list_all2 (attributed (live_subject_ids ?db)) samples resolved"
    using resolve_attributed [of ?db samples "?ex @ ?missing"] r by simp
  have run: "process_all k (filter (\<lambda>r. c_counter_key r \<in> t_counter_key ` set samples) (tr_snapshots db)) existing resolved
       (\<lparr>x_processed = [], x_skipped = [], x_invalid = invalid, x_updated_count = 0, x_seeded_count = 0,
         x_total_rx_delta = 0, x_total_tx_delta = 0\<rparr>, ?db) = (x, db')"
    using assms unfolding record_traffic_samples_def by (simp only: Let_def prod.case r n)
  show thesis
  proof (rule that [OF _ a refl _ _ _ run])
    show "fst (normalize_all registry (k_collector k) 0 payloads) = samples" using n by simp
    show "?db = db" if "k_dry_run k" using that by (simp only: ensure_missing_def if_True)
  qed simp_all
qed

lemma attributed_sample:
  "attributed live s s' \<Longrightarrow> t_counter_key s' = t_counter_key s \<and> t_rx_bytes s' = t_rx_bytes s \<and> t_tx_bytes s' = t_tx_bytes s
     \<and> t_path s' = t_path s"
  by (auto simp: attributed_def)

section \<open>Readings\<close>

definition reading :: "traffic_db \<Rightarrow> string \<Rightarrow> (int \<times> int) option" where
  "reading db key = map_option (\<lambda>r. (c_rx_bytes r, c_tx_bytes r)) (find (\<lambda>r. c_counter_key r = key) (tr_snapshots db))"

lemma find_map_if:
  "find P (map (\<lambda>r. if Q r then a else r) xs)
   = (case find (\<lambda>r. P (if Q r then a else r)) xs of None \<Rightarrow> None | Some r \<Rightarrow> Some (if Q r then a else r))"
  by (induction xs) auto

lemma find_append: "find P (xs @ ys) = (case find P xs of None \<Rightarrow> find P ys | Some x \<Rightarrow> Some x)"
  by (induction xs) auto

lemma upsert_list_reading:
  assumes "c_counter_key row = k"
  shows "find (\<lambda>r. c_counter_key r = key)
      (if k \<in> c_counter_key ` set rows then map (\<lambda>r. if c_counter_key r = k then row else r) rows else rows @ [row])
    = (if key = k then Some row else find (\<lambda>r. c_counter_key r = key) rows)"
proof (induction rows)
  case Nil
  then show ?case using assms by auto
next
  case (Cons r rows)
  have "map (\<lambda>r. if c_counter_key r = k then row else r) rows = rows" if "k \<notin> c_counter_key ` set rows"
    using that by (fastforce intro!: map_idI)
  then show ?case using Cons assms by (auto split: if_splits)
qed

lemma upsert_reading:
  "reading (upsert_snapshot s c m db) key = (if key = t_counter_key s then Some (t_rx_bytes s, t_tx_bytes s) else reading db key)"
proof -
  let ?row = "\<lparr>c_counter_key = t_counter_key s, c_subject_id = Some (t_subject_id s), c_path = t_path s,
    c_rx_bytes = t_rx_bytes s, c_tx_bytes = t_tx_bytes s, c_collected_at = c, c_metadata = PDict m\<rparr>"
  have "find (\<lambda>r. c_counter_key r = key) (tr_snapshots (upsert_snapshot s c m db))
    = (if key = t_counter_key s then Some ?row else find (\<lambda>r. c_counter_key r = key) (tr_snapshots db))"
    using upsert_list_reading [of ?row "t_counter_key s" key "tr_snapshots db"] by (simp add: upsert_snapshot_def Let_def)
  then show ?thesis by (simp add: reading_def)
qed

lemma monthly_reading [simp]: "reading (record_monthly_delta i p a b m n q db) key = reading db key"
  by (simp add: reading_def record_monthly_delta_def Let_def)

lemma book_reading:
  "reading (book_sample k s d db) key = (if key = t_counter_key s then Some (t_rx_bytes s, t_tx_bytes s) else reading db key)"
  by (simp add: book_sample_def Let_def upsert_reading)

text \<open>After a collection the reading of a counter is that of the last processed sample of it.\<close>

definition last_reading :: "processed_sample list \<Rightarrow> string \<Rightarrow> (int \<times> int) option \<Rightarrow> (int \<times> int) option" where
  "last_reading ps key old =
     (case filter (\<lambda>p. t_counter_key (p_sample p) = key) ps of
        [] \<Rightarrow> old
      | qs \<Rightarrow> Some (t_rx_bytes (p_sample (last qs)), t_tx_bytes (p_sample (last qs))))"

lemma last_reading_snoc:
  "last_reading (ps @ [p]) key old
   = (if t_counter_key (p_sample p) = key then Some (t_rx_bytes (p_sample p), t_tx_bytes (p_sample p))
      else last_reading ps key old)"
  by (cases "filter (\<lambda>q. t_counter_key (p_sample q) = key) ps") (simp_all add: last_reading_def)

lemma process_all_reading:
  assumes "\<not> k_dry_run k" and "process_all k prev ex ss (x, db) = (x', db')"
    and "reading db key = last_reading (x_processed x) key old"
  shows "reading db' key = last_reading (x_processed x') key old"
  using assms(2,3)
proof (induction ss arbitrary: x db)
  case Nil
  then show ?case by simp
next
  case (Cons s ss)
  obtain x1 db1 where st: "process_sample k prev ex s (x, db) = (x1, db1)" by fastforce
  have "reading db1 key = last_reading (x_processed x1) key old"
    using st Cons.prems(2) assms(1)
    by (auto simp: process_sample_def Let_def book_reading last_reading_snoc split: if_splits)
  then show ?case using Cons.IH [of x1 db1] Cons.prems(1) st by simp
qed

text \<open>Every processed sample has the delta against the snapshot that was stored before.\<close>

lemma process_all_deltas:
  assumes "process_all k prev ex ss (x, db) = (x', db')" and "p \<in> set (x_processed x')" and "p \<notin> set (x_processed x)"
  shows "p_sample p \<in> set ss
    \<and> (\<exists>kind. booked_delta (p_sample p) (find (\<lambda>r. c_counter_key r = t_counter_key (p_sample p)) prev)
         = (p_rx_delta p, p_tx_delta p, kind))"
  using assms
proof (induction ss arbitrary: x db)
  case Nil
  then show ?case by simp
next
  case (Cons s ss)
  obtain x1 db1 where st: "process_sample k prev ex s (x, db) = (x1, db1)" by fastforce
  show ?case
  proof (cases "p \<in> set (x_processed x1)")
    case True
    then show ?thesis
      using st Cons.prems(3) by (auto simp: process_sample_def Let_def prod_eq_iff split: if_splits)
  next
    case False
    then show ?thesis using Cons.IH [of x1 db1] Cons.prems st by auto
  qed
qed

lemma find_filter_key:
  "key \<in> K \<Longrightarrow> find (\<lambda>r. f r = key) (filter (\<lambda>r. f r \<in> K) xs) = find (\<lambda>r. f r = key) xs"
  by (induction xs) auto

lemma collection_deltas:
  assumes "record_traffic_samples registry k payloads db = (x, db')" and "p \<in> set (x_processed x)"
  shows "\<exists>kind. booked_delta (p_sample p) (find (\<lambda>r. c_counter_key r = t_counter_key (p_sample p)) (tr_snapshots db))
    = (p_rx_delta p, p_tx_delta p, kind)"
  using assms(1)
proof (rule record_traffic_cases)
  fix samples resolved existing prev db1 invalid
  assume a: "list_all2 (attributed (live_subject_ids db1)) samples resolved"
    and prev: "prev = filter (\<lambda>r. c_counter_key r \<in> t_counter_key ` set samples) (tr_snapshots db)"
    and run: "process_all k prev existing resolved
       (\<lparr>x_processed = [], x_skipped = [], x_invalid = invalid, x_updated_count = 0, x_seeded_count = 0,
         x_total_rx_delta = 0, x_total_tx_delta = 0\<rparr>, db1) = (x, db')"
  from process_all_deltas [OF run assms(2)] obtain kind where
    d: "p_sample p \<in> set resolved"
      "booked_delta (p_sample p) (find (\<lambda>r. c_counter_key r = t_counter_key (p_sample p)) prev) = (p_rx_delta p, p_tx_delta p, kind)"
    by auto
  have "t_counter_key (p_sample p) \<in> t_counter_key ` set samples"
    using a d(1) attributed_sample by (fastforce simp: list_all2_conv_all_nth in_set_conv_nth)
  then have "find (\<lambda>r. c_counter_key r = t_counter_key (p_sample p)) prev
    = find (\<lambda>r. c_counter_key r = t_counter_key (p_sample p)) (tr_snapshots db)"
    unfolding prev by (rule find_filter_key)
  with d(2) show ?thesis by (intro exI [of _ kind]) (simp only:)
qed

lemma collection_readings:
  assumes "record_traffic_samples registry k payloads db = (x, db')" and "\<not> k_dry_run k"
  shows "reading db' key = last_reading (x_processed x) key (reading db key)"
  using assms(1)
proof (rule record_traffic_cases)
  fix samples resolved existing prev db1 invalid
  assume s: "tr_snapshots db1 = tr_snapshots db"
    and run: "process_all k prev existing resolved
       (\<lparr>x_processed = [], x_skipped = [], x_invalid = invalid, x_updated_count = 0, x_seeded_count = 0,
         x_total_rx_delta = 0, x_total_tx_delta = 0\<rparr>, db1) = (x, db')"
  have "reading db1 key = reading db key" using s by (simp add: reading_def)
  then show ?thesis using process_all_reading [OF assms(2) run, of key "reading db key"] by (simp add: last_reading_def)
qed

lemma process_all_dry:
  "k_dry_run k \<Longrightarrow> snd (process_all k prev ex ss st) = snd st"
  by (induction ss arbitrary: st) (auto simp: process_sample_def Let_def split: prod.splits)

section \<open>Sample data\<close>

definition sample_call :: traffic_call where
  "sample_call = \<lparr>k_collector = ''api'', k_dry_run = False, k_now = 0, k_sql_now = ''1970-01-01 00:00:00''\<rparr>"

definition sample_payload :: "int \<Rightarrow> int \<Rightarrow> pydict" where
  "sample_payload rx tx = [(''counter_key'', PStr ''mihomo:global''), (''rx_bytes'', PInt rx), (''tx_bytes'', PInt tx)]"

definition empty_traffic :: traffic_db where
  "empty_traffic = \<lparr>tr_snapshots = [], tr_monthly = [], tr_subjects = [], tr_fwrouter = []\<rparr>"

text \<open>The tables after a first reading of 100 bytes in and 10 out.\<close>

definition seeded_traffic :: traffic_db where
  "seeded_traffic = snd (record_traffic_samples (\<lambda>_. None) sample_call [sample_payload 100 10] empty_traffic)"

text \<open>A device whose identifier has colons, and the sample of its named counter, which has none.\<close>

definition lan_device :: subject_row where
  "lan_device = \<lparr>sb_subject_id = ''lan:aa:bb'', sb_subject_type = ''lan'', sb_subject_role = ''client'',
     sb_implementation_kind = ''lan'', sb_stable_key = ''lan:aa:bb'', sb_display_name = ''laptop'',
     sb_desired_mode = ''direct'', sb_runtime_state = ''running'', sb_is_active = True, sb_is_deleted = False,
     sb_last_traffic_at = None, sb_last_seen_at = None, sb_inactive_since = None, sb_metadata = PNone,
     sb_updated_at = ''1970-01-01 00:00:00''\<rparr>"

definition lan_sample :: traffic_sample where
  "lan_sample = \<lparr>t_counter_key = ''nft:counter:cnt_lan_aa_bb_direct_rx'', t_subject_id = ''lan:aa-bb'',
     t_path = ''direct'', t_rx_bytes = 7, t_tx_bytes = 0, t_metadata = []\<rparr>"

section \<open>Properties\<close>

text \<open>
  C21. Every counted byte is booked once. A collection that is not a dry run raises the sum of all
  monthly totals by exactly the deltas it reports, received and sent together.
\<close>

theorem counted_bytes_are_booked:
  assumes "record_traffic_samples registry k payloads db = (x, db')" and "\<not> k_dry_run k" and "distinct (month_keys db)"
  shows "booked_total db' = booked_total db + x_total_rx_delta x + x_total_tx_delta x"
  using assms(1)
proof (rule record_traffic_cases)
  fix samples resolved existing prev db1 invalid
  assume n: "fst (normalize_all registry (k_collector k) 0 payloads) = samples"
    and a: "list_all2 (attributed (live_subject_ids db1)) samples resolved" and m: "tr_monthly db1 = tr_monthly db"
    and run: "process_all k prev existing resolved
       (\<lparr>x_processed = [], x_skipped = [], x_invalid = invalid, x_updated_count = 0, x_seeded_count = 0,
         x_total_rx_delta = 0, x_total_tx_delta = 0\<rparr>, db1) = (x, db')"
  have good: "\<forall>s\<in>set resolved. 0 \<le> t_rx_bytes s \<and> 0 \<le> t_tx_bytes s"
  proof
    fix s assume "s \<in> set resolved"
    then obtain i where i: "i < length resolved" "s = resolved ! i" by (auto simp: in_set_conv_nth)
    then have "samples ! i \<in> set samples" "attributed (live_subject_ids db1) (samples ! i) s"
      using a by (auto simp: list_all2_conv_all_nth)
    then show "0 \<le> t_rx_bytes s \<and> 0 \<le> t_tx_bytes s"
      using attributed_sample normalize_all_good n by (metis good_sample_def)
  qed
  have "distinct (month_keys db1)" "booked_total db1 = booked_total db" using assms(3) m by (simp_all add: month_keys_def booked_total_def)
  then show ?thesis using process_all_total [OF good _ assms(2) run] by simp
qed

theorem counted_bytes_are_booked_witness:
  "booked_total (snd (record_traffic_samples (\<lambda>_. None) sample_call [sample_payload 150 30] seeded_traffic))
   = booked_total seeded_traffic + 50 + 20"
proof -
  let ?r = "record_traffic_samples (\<lambda>_. None) sample_call [sample_payload 150 30] seeded_traffic"
  have d: "x_total_rx_delta (fst ?r) = 50" "x_total_tx_delta (fst ?r) = 20" by code_simp+
  have k: "\<not> k_dry_run sample_call" "distinct (month_keys seeded_traffic)" by code_simp+
  show ?thesis using counted_bytes_are_booked [OF prod.collapse [symmetric] k, of "\<lambda>_. None" "[sample_payload 150 30]"] d by simp
qed

text \<open>
  C22. A delta is what happened since the last collection. When a collection processed one sample of a
  counter, the next collection books for that counter the increase since that sample, or the whole
  new reading when the counter went backwards.
\<close>

theorem delta_since_last_collection:
  assumes "record_traffic_samples r1 k1 ps1 db = (x1, db1)" and "\<not> k_dry_run k1"
    and "filter (\<lambda>p. t_counter_key (p_sample p) = key) (x_processed x1) = [p]"
    and "record_traffic_samples r2 k2 ps2 db1 = (x2, db2)"
    and "q \<in> set (x_processed x2)" and "t_counter_key (p_sample q) = key"
  shows "p_rx_delta q = (if t_rx_bytes (p_sample p) \<le> t_rx_bytes (p_sample q)
                         then t_rx_bytes (p_sample q) - t_rx_bytes (p_sample p) else t_rx_bytes (p_sample q))
    \<and> p_tx_delta q = (if t_tx_bytes (p_sample p) \<le> t_tx_bytes (p_sample q)
                         then t_tx_bytes (p_sample q) - t_tx_bytes (p_sample p) else t_tx_bytes (p_sample q))"
proof -
  have "reading db1 key = Some (t_rx_bytes (p_sample p), t_tx_bytes (p_sample p))"
    using collection_readings [OF assms(1,2), of key] assms(3) by (simp add: last_reading_def)
  then obtain r where r: "find (\<lambda>r. c_counter_key r = key) (tr_snapshots db1) = Some r"
      "c_rx_bytes r = t_rx_bytes (p_sample p)" "c_tx_bytes r = t_tx_bytes (p_sample p)"
    by (auto simp: reading_def)
  then show ?thesis
    using collection_deltas [OF assms(4,5)] assms(6) by (auto simp: booked_delta_def delta_from_previous_def Let_def)
qed

theorem delta_since_last_collection_witness:
  "\<exists>q. x_processed (fst (record_traffic_samples (\<lambda>_. None) sample_call [sample_payload 150 5] seeded_traffic)) = [q]
     \<and> p_rx_delta q = 50 \<and> p_tx_delta q = 5"
proof -
  let ?r1 = "record_traffic_samples (\<lambda>_. None) sample_call [sample_payload 100 10] empty_traffic"
  let ?r2 = "record_traffic_samples (\<lambda>_. None) sample_call [sample_payload 150 5] seeded_traffic"
  have "map (\<lambda>p. (t_counter_key (p_sample p), t_rx_bytes (p_sample p), t_tx_bytes (p_sample p))) (x_processed (fst ?r1))
    = [(''mihomo:global'', 100, 10)]" by code_simp
  then obtain p where p: "x_processed (fst ?r1) = [p]" "t_counter_key (p_sample p) = ''mihomo:global''"
    "t_rx_bytes (p_sample p) = 100" "t_tx_bytes (p_sample p) = 10" by auto
  have "map (\<lambda>p. (t_counter_key (p_sample p), t_rx_bytes (p_sample p), t_tx_bytes (p_sample p))) (x_processed (fst ?r2))
    = [(''mihomo:global'', 150, 5)]" by code_simp
  then obtain q where q: "x_processed (fst ?r2) = [q]" "t_counter_key (p_sample q) = ''mihomo:global''"
    "t_rx_bytes (p_sample q) = 150" "t_tx_bytes (p_sample q) = 5" by auto
  have 1: "?r1 = (fst ?r1, seeded_traffic)" by (simp add: seeded_traffic_def)
  have dry: "\<not> k_dry_run sample_call" by (simp add: sample_call_def)
  have f: "filter (\<lambda>p. t_counter_key (p_sample p) = ''mihomo:global'') (x_processed (fst ?r1)) = [p]" using p by simp
  have "q \<in> set (x_processed (fst ?r2))" using q by simp
  from delta_since_last_collection [OF 1 dry f prod.collapse [symmetric] this q(2)] show ?thesis using p q by auto
qed

text \<open>
  A counter that occurs twice in one collection is counted twice. Both samples are compared with
  the snapshot read before the loop: a counter that advanced by 50 bytes is booked with 100.
\<close>

theorem duplicate_counter_counted_twice:
  "booked_total (snd (record_traffic_samples (\<lambda>_. None) sample_call [sample_payload 150 10, sample_payload 150 10] seeded_traffic))
   = booked_total seeded_traffic + 100
   \<and> reading (snd (record_traffic_samples (\<lambda>_. None) sample_call [sample_payload 150 10, sample_payload 150 10] seeded_traffic))
       ''mihomo:global'' = Some (150, 10)
   \<and> reading seeded_traffic ''mihomo:global'' = Some (100, 10)"
  by code_simp

text \<open>
  Attribution is unambiguous. A sample whose subject is resolved through the suffix of its counter
  is moved to a live subject with that suffix, and only if no other live subject has it; the reading and
  the path of the sample stay as they were.
\<close>

theorem attribution_is_unambiguous:
  assumes "resolve_counter_subject_aliases samples existing db = (resolved, existing')" and "i < length samples"
    and "t_subject_id (resolved ! i) \<noteq> t_subject_id (samples ! i)"
  shows "t_subject_id (resolved ! i) \<in> set (live_subject_ids db)
    \<and> (\<forall>j\<in>set (live_subject_ids db). counter_subject_suffix j = counter_subject_suffix (t_subject_id (samples ! i))
         \<longrightarrow> j = t_subject_id (resolved ! i))
    \<and> t_counter_key (resolved ! i) = t_counter_key (samples ! i) \<and> t_path (resolved ! i) = t_path (samples ! i)
    \<and> t_rx_bytes (resolved ! i) = t_rx_bytes (samples ! i) \<and> t_tx_bytes (resolved ! i) = t_tx_bytes (samples ! i)"
proof -
  have "attributed (live_subject_ids db) (samples ! i) (resolved ! i)"
    using resolve_attributed [of db samples existing] assms(1,2) by (simp add: list_all2_conv_all_nth)
  then show ?thesis using assms(3) by (auto simp: attributed_def)
qed

theorem attribution_is_unambiguous_witness:
  "\<exists>resolved existing'. resolve_counter_subject_aliases [lan_sample] [] (empty_traffic\<lparr>tr_subjects := [lan_device]\<rparr>)
       = (resolved, existing')
     \<and> t_subject_id (resolved ! 0) = ''lan:aa:bb'' \<and> t_rx_bytes (resolved ! 0) = t_rx_bytes ([lan_sample] ! 0)"
proof -
  let ?db = "empty_traffic\<lparr>tr_subjects := [lan_device]\<rparr>"
  let ?r = "resolve_counter_subject_aliases [lan_sample] [] ?db"
  have m: "t_subject_id (fst ?r ! 0) = ''lan:aa:bb''" "t_subject_id ([lan_sample] ! 0) = ''lan:aa-bb''" by code_simp+
  then have ne: "t_subject_id (fst ?r ! 0) \<noteq> t_subject_id ([lan_sample] ! 0)" by simp
  have "0 < length [lan_sample]" by simp
  from attribution_is_unambiguous [OF prod.collapse [symmetric] this ne] m(1) show ?thesis
    by (intro exI [of _ "fst ?r"] exI [of _ "snd ?r"]) simp
qed

text \<open>
  The retention keeps twelve months. A monthly row of a four-digit year survives the cleanup exactly
  when its month is the current one or one of the eleven before.
\<close>

theorem retention_keeps_twelve_months:
  assumes "civil_of now = (y, m, d)" and "1 \<le> y" and "y < 10000" and "1 \<le> m" and "m \<le> 12"
    and "row \<in> set (tr_monthly db)" and "mo_period_month row = month_text y' m'"
    and "0 \<le> y'" and "y' < 10000" and "1 \<le> m'" and "m' \<le> 12"
  shows "row \<in> set (tr_monthly (snd (cleanup_traffic_history False now db))) \<longleftrightarrow> y * 12 + m - 11 \<le> y' * 12 + m'"
proof -
  let ?i = "y * 12 + m - 12"
  have e: "?i div 12 * 12 + ?i mod 12 = ?i" by (rule div_mult_mod_eq)
  have i: "0 \<le> ?i div 12" "?i div 12 < 10000" "1 \<le> ?i mod 12 + 1" "?i mod 12 + 1 \<le> 12"
    using assms(2-5) by auto
  have "retention_cutoff_month now = month_text (?i div 12) (?i mod 12 + 1)"
    using assms(1) by (simp add: retention_cutoff_month_def month_text_def Let_def)
  then have "mo_period_month row < retention_cutoff_month now \<longleftrightarrow> y' * 12 + m' < ?i div 12 * 12 + (?i mod 12 + 1)"
    using month_text_less [OF assms(8,9) i(1,2) assms(10,11) i(3,4)] assms(7) by simp
  then show ?thesis using assms(6) e by (auto simp: cleanup_traffic_history_def Let_def)
qed

theorem retention_keeps_twelve_months_witness:
  "\<exists>row (db :: traffic_db). row \<in> set (tr_monthly db)
     \<and> row \<notin> set (tr_monthly (snd (cleanup_traffic_history False 0 db)))"
proof -
  let ?row = "empty_month ''fwrouter:global'' (month_text 1969 1) ''1970-01-01 00:00:00''"
  let ?db = "empty_traffic\<lparr>tr_monthly := [?row]\<rparr>"
  have c: "civil_of 0 = (1970, 1, 1)" by code_simp
  have r: "?row \<in> set (tr_monthly ?db)" "mo_period_month ?row = month_text 1969 1" by (simp_all add: empty_month_def)
  from retention_keeps_twelve_months [OF c _ _ _ _ r] have "?row \<notin> set (tr_monthly (snd (cleanup_traffic_history False 0 ?db)))"
    by simp
  with r(1) show ?thesis by blast
qed

end
