(* ===== verification/Job_Retention.thy ===== *)
theory Job_Retention
  imports Job_Table "HOL-Library.AList" "HOL-Library.Product_Lexorder"
begin

text \<open>
  Retention of jobs, \<open>services/jobs_retention.py\<close>: which finished jobs are too old or too many, the
  transaction that deletes them only beside a matching outcome snapshot, and the removal of their artifact
  directories and of directories no job owns.

  A \<open>retention_db\<close> is the job table and log with the row of \<open>rules_state\<close> and the job references of
  \<open>apply_versions\<close>, which SQLite clears with a deleted job. The candidates are read in sessions of
  their own before the transaction, so the tables they were read from are arguments. A directory is kept
  with the size that \<open>_path_size\<close> finds for it and its time of modification. An age is in
  microseconds, where the code compares days as floats.
\<close>

section \<open>Policy\<close>

fun retention_days_by_status :: "job_status \<Rightarrow> int option" where
  "retention_days_by_status SUCCESS = Some 1"
| "retention_days_by_status FAILED = Some 14"
| "retention_days_by_status CANCELLED = Some 1"
| "retention_days_by_status _ = None"

definition protected_status :: "job_status \<Rightarrow> bool" where
  "protected_status s = (s \<in> {QUEUED, RUNNING})"

fun max_count_by_status :: "job_status \<Rightarrow> nat option" where
  "max_count_by_status SUCCESS = Some 500"
| "max_count_by_status FAILED = Some 100"
| "max_count_by_status CANCELLED = Some 100"
| "max_count_by_status _ = None"

definition max_count_by_job_type_status :: "((string \<times> job_status) \<times> nat) list" where
  "max_count_by_job_type_status =
     [((''apply_mutation'', SUCCESS), 20), ((''apply_mutation'', FAILED), 20),
      ((''apply_control_plane_dry_run'', SUCCESS), 10), ((''manual_apply'', FAILED), 10),
      ((''maintenance_cleanup'', SUCCESS), 10), ((''traffic_accounting_collect'', SUCCESS), 500),
      ((''traffic_accounting_collect'', FAILED), 50)]"

definition job_retention_days :: "job_row \<Rightarrow> int option" where
  "job_retention_days job =
     (if protected_status (j_status job) then None else retention_days_by_status (j_status job))"

definition job_max_count :: "job_row \<Rightarrow> nat option" where
  "job_max_count job =
     (if protected_status (j_status job) then None
      else case map_of max_count_by_job_type_status (j_job_type job, j_status job) of
             Some n \<Rightarrow> Some n
           | None \<Rightarrow> max_count_by_status (j_status job))"

section \<open>Timestamps\<close>

definition short_number :: "int \<Rightarrow> int \<Rightarrow> string \<Rightarrow> int option" where
  "short_number lo hi s =
     (case digits_opt s of
        Some n \<Rightarrow> if length s \<le> 2 \<and> lo \<le> n \<and> n \<le> hi then Some n else None
      | None \<Rightarrow> None)"

definition not_space :: "char \<Rightarrow> bool" where
  "not_space c = (\<not> is_space c)"

text \<open>
  \<open>datetime.strptime(s, "%Y-%m-%d %H:%M:%S")\<close>: numbers may lack their leading zero, a one-digit day
  may follow a blank, and date and time are separated by any white space. \<open>None\<close> where the call
  raises \<open>ValueError\<close>.
\<close>

definition strptime_sql :: "string \<Rightarrow> datetime option" where
  "strptime_sql s =
     (case split_char CHR ''-'' s of
        [y, m, rest] \<Rightarrow>
          (let blank = starts_with rest '' '';
               rest1 = (if blank then drop 1 rest else rest);
               day = takeWhile not_space rest1;
               gap = dropWhile not_space rest1
           in case (split_char CHR '':'' (dropWhile is_space gap), digits_opt y, short_number 1 12 m, short_number 1 31 day) of
                ([hh, mm, ss], Some year, Some month, Some d) \<Rightarrow>
                  (case (short_number 0 23 hh, short_number 0 59 mm, short_number 0 59 ss) of
                     (Some h, Some mi, Some sec) \<Rightarrow>
                       if length y = 4 \<and> 1 \<le> year \<and> d \<le> month_days year month \<and> (blank \<longrightarrow> length day = 1)
                       then Some (((days_from_civil year month d * 24 + h) * 60 + mi) * 60000000 + sec * 1000000)
                       else None
                   | _ \<Rightarrow> None)
              | _ \<Rightarrow> None)
      | _ \<Rightarrow> None)"

definition parse_sqlite_timestamp :: "string option \<Rightarrow> datetime option" where
  "parse_sqlite_timestamp value =
     (case value of
        None \<Rightarrow> None
      | Some t \<Rightarrow>
          if t = [] then None
          else (case fromisoformat (replace_char CHR ''Z'' ''+00:00'' t) of
                  Some (local, None) \<Rightarrow> Some local
                | Some (local, Some offset) \<Rightarrow> Some (local - offset * 1000000)
                | None \<Rightarrow> strptime_sql t))"

definition job_age :: "datetime \<Rightarrow> job_row \<Rightarrow> int option" where
  "job_age now job =
     (case parse_sqlite_timestamp (j_finished_at job) of
        Some t \<Rightarrow> Some (now - t)
      | None \<Rightarrow> map_option (\<lambda>t. now - t) (parse_sqlite_timestamp (Some (j_created_at job))))"

definition one_day :: int where
  "one_day = 86400000000"

section \<open>Paths\<close>

text \<open>\<open>str(Path(s))\<close> and \<open>base / name\<close> of POSIX paths.\<close>

definition path_text :: "string \<Rightarrow> string" where
  "path_text s =
     (let parts = filter (\<lambda>p. p \<noteq> [] \<and> p \<noteq> ''.'') (split_char CHR ''/'' s);
          root = (if starts_with s ''//'' \<and> \<not> starts_with s ''///'' then ''//''
                  else if starts_with s ''/'' then ''/'' else [])
      in if root = [] \<and> parts = [] then ''.'' else root @ join ''/'' parts)"

definition path_join :: "string \<Rightarrow> string \<Rightarrow> string" where
  "path_join base name = path_text (if starts_with name ''/'' then name else base @ ''/'' @ name)"

datatype fs_entry = FsFile int | FsDir int datetime

record artifact_fs =
  fs_entries :: "(string \<times> fs_entry) list"
  fs_rmtree_error :: "string \<Rightarrow> string option"

definition path_size :: "artifact_fs \<Rightarrow> string \<Rightarrow> int" where
  "path_size fs path =
     (case map_of (fs_entries fs) path of Some (FsFile n) \<Rightarrow> n | Some (FsDir n _) \<Rightarrow> n | None \<Rightarrow> 0)"

definition default_job_artifact_dir :: "string \<Rightarrow> string \<Rightarrow> string" where
  "default_job_artifact_dir jobs_dir job_id = path_join jobs_dir job_id"

definition artifact_dir_of :: "string \<Rightarrow> job_row \<Rightarrow> string" where
  "artifact_dir_of jobs_dir job =
     (case j_artifact_dir job of
        Some d \<Rightarrow> if d = [] then default_job_artifact_dir jobs_dir (j_job_id job) else d
      | None \<Rightarrow> default_job_artifact_dir jobs_dir (j_job_id job))"

section \<open>Candidates\<close>

record retention_candidate =
  cd_job_id :: string
  cd_job_type :: string
  cd_status :: job_status
  cd_created_at :: string
  cd_finished_at :: "string option"
  cd_age :: "int option"
  cd_retention_days :: "int option"
  cd_max_count :: "nat option"
  cd_rank :: "nat option"
  cd_delete_reason :: string
  cd_artifact_dir :: string
  cd_artifact_size :: int

definition load_jobs :: "job_db \<Rightarrow> job_row list" where
  "load_jobs db = sort_key j_created_at (db_jobs db)"

definition datetime_min :: datetime where
  "datetime_min = days_from_civil 1 1 1 * 86400000000"

definition newest_key :: "job_row \<Rightarrow> datetime \<times> string" where
  "newest_key job =
     (case parse_sqlite_timestamp (Some (j_created_at job)) of Some t \<Rightarrow> t | None \<Rightarrow> datetime_min, j_job_id job)"

text \<open>\<open>sorted(rows, key=..., reverse=True)\<close> keeps the order of rows with the same key.\<close>

definition newest_first :: "job_row list \<Rightarrow> job_row list" where
  "newest_first rows = rev (sort_key newest_key (rev rows))"

definition type_status :: "job_row \<Rightarrow> string \<times> job_status" where
  "type_status job = (j_job_type job, j_status job)"

fun rank_jobs :: "job_row list \<Rightarrow> ((string \<times> job_status) \<times> nat) list \<Rightarrow> (string \<times> nat) list \<Rightarrow> (string \<times> nat) list" where
  "rank_jobs [] seen acc = acc"
| "rank_jobs (job # rest) seen acc =
     (let n = (case map_of seen (type_status job) of Some n \<Rightarrow> n | None \<Rightarrow> 0) + 1
      in rank_jobs rest (AList.update (type_status job) n seen) (AList.update (j_job_id job) n acc))"

definition due_to_age :: "datetime \<Rightarrow> job_row \<Rightarrow> bool" where
  "due_to_age now job =
     (case (job_retention_days job, job_age now job) of (Some days, Some age) \<Rightarrow> days * one_day \<le> age | _ \<Rightarrow> False)"

definition due_to_count :: "(string \<times> nat) list \<Rightarrow> job_row \<Rightarrow> bool" where
  "due_to_count ranks job =
     (case (job_max_count job, map_of ranks (j_job_id job)) of (Some n, Some rank) \<Rightarrow> n < rank | _ \<Rightarrow> False)"

definition candidate_of :: "string \<Rightarrow> artifact_fs \<Rightarrow> datetime \<Rightarrow> (string \<times> nat) list \<Rightarrow> job_row \<Rightarrow> retention_candidate option" where
  "candidate_of jobs_dir fs now ranks job =
     (if job_retention_days job = None \<and> job_max_count job = None then None
      else if \<not> due_to_age now job \<and> \<not> due_to_count ranks job then None
      else Some \<lparr>cd_job_id = j_job_id job, cd_job_type = j_job_type job, cd_status = j_status job,
                 cd_created_at = j_created_at job, cd_finished_at = j_finished_at job, cd_age = job_age now job,
                 cd_retention_days = job_retention_days job, cd_max_count = job_max_count job,
                 cd_rank = map_of ranks (j_job_id job),
                 cd_delete_reason = (if due_to_age now job \<and> due_to_count ranks job then ''age+count''
                                     else if due_to_age now job then ''age'' else ''count''),
                 cd_artifact_dir = artifact_dir_of jobs_dir job,
                 cd_artifact_size = path_size fs (path_text (artifact_dir_of jobs_dir job))\<rparr>)"

definition find_retention_candidates ::
  "string \<Rightarrow> artifact_fs \<Rightarrow> datetime \<Rightarrow> job_db \<Rightarrow> retention_candidate list" where
  "find_retention_candidates jobs_dir fs now db =
     (let rows = load_jobs db; ranks = rank_jobs (newest_first rows) [] []
      in List.map_filter (candidate_of jobs_dir fs now ranks) rows)"

section \<open>Directories without a job\<close>

record orphan_dir =
  or_path :: string
  or_modified_at :: datetime
  or_size :: int

definition child_name :: "string \<Rightarrow> string \<Rightarrow> string option" where
  "child_name dir path =
     (if starts_with path (dir @ ''/'')
      then (let name = drop (length dir + 1) path in if name \<noteq> [] \<and> CHR ''/'' \<notin> set name then Some name else None)
      else None)"

text \<open>The directories directly under \<open>jobs_dir\<close>, so the test of their parent always succeeds.\<close>

definition list_artifact_dirs :: "string \<Rightarrow> artifact_fs \<Rightarrow> (string \<times> int \<times> datetime) list" where
  "list_artifact_dirs jobs_dir fs =
     (if map_of (fs_entries fs) jobs_dir = None then []
      else sort_key fst
        (List.map_filter (\<lambda>(path, e). case e of
             FsDir bytes mtime \<Rightarrow> if child_name jobs_dir path = None then None else Some (path, bytes, mtime)
           | FsFile _ \<Rightarrow> None) (fs_entries fs)))"

definition known_directory :: "string \<Rightarrow> job_db \<Rightarrow> string \<Rightarrow> bool" where
  "known_directory jobs_dir db path =
     ((\<exists>r\<in>set (db_jobs db). child_name jobs_dir path = Some (j_job_id r))
      \<or> (\<exists>r\<in>set (db_jobs db). case j_artifact_dir r of Some d \<Rightarrow> d \<noteq> [] \<and> path_text d = path | None \<Rightarrow> False))"

definition find_orphan_artifact_dirs :: "string \<Rightarrow> artifact_fs \<Rightarrow> datetime \<Rightarrow> job_db \<Rightarrow> orphan_dir list" where
  "find_orphan_artifact_dirs jobs_dir fs now db =
     sort_key or_path
       (List.map_filter (\<lambda>(path, bytes, mtime).
            if known_directory jobs_dir db path then None
            else if mtime \<ge> now - 1 * one_day then None
            else Some \<lparr>or_path = path, or_modified_at = mtime, or_size = bytes\<rparr>)
          (list_artifact_dirs jobs_dir fs))"

section \<open>The transaction\<close>

record rules_refs =
  rs_last_apply_job_id :: "string option"
  rs_last_update_job_id :: "string option"
  rs_updated_at :: string

record retention_db =
  rt_job_db :: job_db
  rt_rules :: "rules_refs option"
  rt_versions :: "(string \<times> string option) list"

fun remove_text :: "string \<Rightarrow> string \<Rightarrow> string" where
  "remove_text p [] = []"
| "remove_text p (c # s) =
     (if p \<noteq> [] \<and> starts_with (c # s) p then remove_text p (drop (length p - 1) s) else c # remove_text p s)"

definition hex_digit_char :: "char \<Rightarrow> bool" where
  "hex_digit_char c = hex_char (lower_char c)"

text \<open>\<open>int(s, 16)\<close> succeeds with a value that is not negative; \<open>UUID\<close> refuses the others.\<close>

definition hex_number :: "string \<Rightarrow> bool" where
  "hex_number s =
     (let t = strip s;
          u = (if starts_with t ''+'' \<or> starts_with t ''-'' then drop 1 t else t);
          prefixed = starts_with (lower u) ''0x'';
          v = (if prefixed then drop 2 u else u);
          groups = split_char CHR ''_'' (if prefixed \<and> starts_with v ''_'' then drop 1 v else v)
      in list_all (\<lambda>g. g \<noteq> [] \<and> list_all hex_digit_char g) groups
         \<and> (starts_with t ''-'' \<longrightarrow> list_all (\<lambda>g. list_all (\<lambda>c. c = CHR ''0'') g) groups))"

definition uuid_accepts :: "string \<Rightarrow> bool" where
  "uuid_accepts s =
     (let braces = (\<lambda>c. c = CHR ''{'' \<or> c = CHR ''}'');
          t = remove_text ''uuid:'' (remove_text ''urn:'' s);
          hex = filter (\<lambda>c. c \<noteq> CHR ''-'') (rev (dropWhile braces (rev (dropWhile braces t))))
      in length hex = 32 \<and> hex_number hex)"

definition canonical_finished_at :: "string option \<Rightarrow> bool" where
  "canonical_finished_at finished_at =
     (let text = (case finished_at of Some t \<Rightarrow> t | None \<Rightarrow> [])
      in case strptime_sql text of Some t \<Rightarrow> strftime_sql t = text | None \<Rightarrow> False)"

definition candidate_unchanged :: "string \<Rightarrow> retention_candidate \<Rightarrow> job_row \<Rightarrow> bool" where
  "candidate_unchanged jobs_dir cand current =
     (j_status current = cd_status cand \<and> j_job_type current = cd_job_type cand
      \<and> j_created_at current = cd_created_at cand \<and> j_finished_at current = cd_finished_at cand
      \<and> artifact_dir_of jobs_dir current = cd_artifact_dir cand)"

text \<open>\<open>UPDATE rules_state ... WHERE id = 1\<close>\<close>

definition forget_job :: "string \<Rightarrow> string \<Rightarrow> rules_refs \<Rightarrow> rules_refs" where
  "forget_job sql_now job_id s =
     (let hit = (\<lambda>x. x = Some job_id)
      in s\<lparr>rs_last_apply_job_id := (if hit (rs_last_apply_job_id s) then None else rs_last_apply_job_id s),
           rs_last_update_job_id := (if hit (rs_last_update_job_id s) then None else rs_last_update_job_id s),
           rs_updated_at := (if hit (rs_last_apply_job_id s) \<or> hit (rs_last_update_job_id s) then sql_now
                             else rs_updated_at s)\<rparr>)"

text \<open>\<open>DELETE FROM jobs WHERE ...\<close>: the row count and the tables, with the references set to null.\<close>

definition delete_job :: "job_row \<Rightarrow> retention_db \<Rightarrow> nat \<times> retention_db" where
  "delete_job current db =
     (let hit = (\<lambda>r. j_job_id r = j_job_id current \<and> j_status r = j_status current
                    \<and> j_created_at r = j_created_at current
                    \<and> j_finished_at r \<noteq> None \<and> j_finished_at r = j_finished_at current);
          jobs = db_jobs (rt_job_db db);
          gone = j_job_id ` set (filter hit jobs)
      in (length (filter hit jobs),
          db\<lparr>rt_job_db := (rt_job_db db)\<lparr>db_jobs := filter (\<lambda>r. \<not> hit r) jobs\<rparr>,
             rt_versions := map (\<lambda>(v, j). (v, case j of Some i \<Rightarrow> if i \<in> gone then None else Some i | None \<Rightarrow> None))
                              (rt_versions db)\<rparr>))"

datatype retire_outcome = Gone | Held string | Deleted

definition ensure_snapshot :: "job_env \<Rightarrow> job_row \<Rightarrow> job_db \<Rightarrow> exc + job_db" where
  "ensure_snapshot env current db =
     (case find (\<lambda>l. l_event_id l = terminal_snapshot_event_id env (j_job_id current)) (db_logs db) of
        Some l \<Rightarrow>
          if terminal_snapshot_matches current l then Inr db
          else Inl (RuntimeErr ''terminal snapshot mismatch; retention batch rolled back'')
      | None \<Rightarrow>
          write_terminal_snapshot env current ''legacy_terminal_observed'' ''retention_observation'' False db)"

definition retire_candidate ::
  "job_env \<Rightarrow> string \<Rightarrow> string \<Rightarrow> retention_candidate \<Rightarrow> retention_db \<Rightarrow> exc + retire_outcome \<times> retention_db" where
  "retire_candidate env jobs_dir sql_now cand db =
     (case select_job (cd_job_id cand) (rt_job_db db) of
        None \<Rightarrow> Inr (Gone, db)
      | Some current \<Rightarrow>
          if \<not> candidate_unchanged jobs_dir cand current then Inr (Held ''retention_candidate_changed; row held'', db)
          else if protected_status (j_status current) then Inr (Held ''active_job_retention_denied; row held'', db)
          else if retention_days_by_status (j_status current) = None then Inr (Held ''unknown_job_status; row held'', db)
          else if \<not> uuid_accepts (j_job_id current) then Inr (Held ''invalid_job_id; row held'', db)
          else if \<not> canonical_finished_at (j_finished_at current) then Inr (Held ''invalid_finished_at; row held'', db)
          else (case ensure_snapshot env current (rt_job_db db) of
                  Inl e \<Rightarrow> Inl e
                | Inr jobs \<Rightarrow>
                    (case delete_job current
                            (db\<lparr>rt_job_db := jobs, rt_rules := map_option (forget_job sql_now (j_job_id current)) (rt_rules db)\<rparr>) of
                       (rowcount, db') \<Rightarrow>
                         if rowcount = 1 then Inr (Deleted, db')
                         else Inl (RuntimeErr ''retention candidate changed during delete; batch rolled back''))))"

text \<open>The ids of the deleted jobs, the errors, and the tables at the commit.\<close>

fun retire_all ::
  "job_env \<Rightarrow> string \<Rightarrow> string \<Rightarrow> retention_candidate list \<Rightarrow> retention_db
   \<Rightarrow> exc + string list \<times> (string \<times> string) list \<times> retention_db" where
  "retire_all env jobs_dir sql_now [] db = Inr ([], [], db)"
| "retire_all env jobs_dir sql_now (cand # rest) db =
     (case retire_candidate env jobs_dir sql_now cand db of
        Inl e \<Rightarrow> Inl e
      | Inr (outcome, db1) \<Rightarrow>
          (case retire_all env jobs_dir sql_now rest db1 of
             Inl e \<Rightarrow> Inl e
           | Inr (deleted, errors, db2) \<Rightarrow>
               Inr (case outcome of
                      Gone \<Rightarrow> (deleted, errors, db2)
                    | Held reason \<Rightarrow> (deleted, (cd_job_id cand, reason) # errors, db2)
                    | Deleted \<Rightarrow> (cd_job_id cand # deleted, errors, db2))))"

section \<open>The files\<close>

record retention_result =
  rr_candidates :: "retention_candidate list"
  rr_orphans :: "orphan_dir list"
  rr_deleted_jobs :: "string list"
  rr_deleted_dirs :: "string list"
  rr_deleted_bytes :: int
  rr_job_errors :: "(string \<times> string) list"
  rr_path_errors :: "(string \<times> string) list"

text \<open>\<open>shutil.rmtree\<close>; a removal that fails is reported and leaves the directory.\<close>

definition rmtree :: "string \<Rightarrow> artifact_fs \<Rightarrow> artifact_fs" where
  "rmtree path fs = fs\<lparr>fs_entries := filter (\<lambda>(p, _). p \<noteq> path \<and> \<not> starts_with p (path @ ''/'')) (fs_entries fs)\<rparr>"

definition remove_artifact :: "string \<Rightarrow> retention_result \<times> artifact_fs \<Rightarrow> retention_result \<times> artifact_fs" where
  "remove_artifact path = (\<lambda>(x, fs).
     case map_of (fs_entries fs) path of
       Some (FsDir bytes _) \<Rightarrow>
         (case fs_rmtree_error fs path of
            Some e \<Rightarrow> (x\<lparr>rr_path_errors := rr_path_errors x @ [(path, e)]\<rparr>, fs)
          | None \<Rightarrow> (x\<lparr>rr_deleted_bytes := rr_deleted_bytes x + bytes, rr_deleted_dirs := rr_deleted_dirs x @ [path]\<rparr>,
                     rmtree path fs))
     | _ \<Rightarrow> (x, fs))"

definition candidate_dirs :: "retention_candidate list \<Rightarrow> string list \<Rightarrow> string list" where
  "candidate_dirs candidates deleted =
     map (\<lambda>c. path_text (cd_artifact_dir c)) (filter (\<lambda>c. cd_job_id c \<in> set deleted) candidates)"

text \<open>
  \<open>seen\<close> and \<open>seen_orphans\<close> are the tables when the candidates and the known directories were
  read, \<open>db\<close> the tables at \<open>BEGIN\<close>.
\<close>

definition cleanup_jobs_retention ::
  "job_env \<Rightarrow> string \<Rightarrow> bool \<Rightarrow> datetime \<Rightarrow> string \<Rightarrow> job_db \<Rightarrow> job_db \<Rightarrow> retention_db \<Rightarrow> artifact_fs
   \<Rightarrow> (exc + retention_result) \<times> retention_db \<times> artifact_fs" where
  "cleanup_jobs_retention env jobs_dir dry_run now sql_now seen seen_orphans db fs =
     (let candidates = find_retention_candidates jobs_dir fs now seen;
          orphans = find_orphan_artifact_dirs jobs_dir fs now seen_orphans;
          report = \<lparr>rr_candidates = candidates, rr_orphans = orphans, rr_deleted_jobs = [], rr_deleted_dirs = [],
                    rr_deleted_bytes = 0, rr_job_errors = [], rr_path_errors = []\<rparr>
      in if dry_run \<or> (candidates = [] \<and> orphans = []) then (Inr report, db, fs)
         else case retire_all env jobs_dir sql_now candidates db of
                Inl e \<Rightarrow> (Inl e, db, fs)
              | Inr (deleted, errors, db') \<Rightarrow>
                  (case fold remove_artifact (candidate_dirs candidates deleted @ map or_path orphans)
                          (report\<lparr>rr_deleted_jobs := deleted, rr_job_errors := errors\<rparr>, fs) of
                     (x, fs') \<Rightarrow> (Inr x, db', fs')))"

end
