(* ===== verification/Retention_Properties.thy ===== *)
theory Retention_Properties
  imports Job_Retention Job_Properties
begin

text \<open>
  What the retention deletes: the rank of a job counts the newer jobs of its type and status, a deleted
  job was finished, due and has a recorded outcome, and every due job is deleted or reported.
\<close>

section \<open>Ranks\<close>

lemma rank_jobs_other:
  "i \<notin> j_job_id ` set js \<Longrightarrow> map_of (rank_jobs js seen acc) i = map_of acc i"
  by (induction js arbitrary: seen acc) (auto simp: Let_def update_conv)

definition seen_before :: "((string \<times> job_status) \<times> nat) list \<Rightarrow> job_row \<Rightarrow> nat" where
  "seen_before seen r = (case map_of seen (type_status r) of Some n \<Rightarrow> n | None \<Rightarrow> 0)"

lemma rank_jobs_position:
  assumes "distinct (map j_job_id (pre @ r # post))"
  shows "map_of (rank_jobs (pre @ r # post) seen acc) (j_job_id r)
    = Some (Suc (seen_before seen r + length (filter (\<lambda>x. type_status x = type_status r) pre)))"
  using assms
proof (induction pre arbitrary: seen acc)
  case Nil
  then show ?case by (simp add: Let_def rank_jobs_other update_conv seen_before_def)
next
  case (Cons x pre)
  let ?n = "(case map_of seen (type_status x) of Some n \<Rightarrow> n | None \<Rightarrow> 0) + 1"
  have "seen_before (AList.update (type_status x) ?n seen) r
    = seen_before seen r + (if type_status x = type_status r then 1 else 0)"
    by (simp add: seen_before_def update_conv)
  then show ?case using Cons.IH [of "AList.update (type_status x) ?n seen"] Cons.prems by (simp add: Let_def)
qed

lemma newest_first_set [simp]: "set (newest_first rows) = set rows"
  by (simp add: newest_first_def)

lemma newest_first_mset: "mset (newest_first rows) = mset rows"
  by (simp add: newest_first_def)

lemma newest_first_sorted: "sorted_wrt (\<lambda>a b. newest_key b \<le> newest_key a) (newest_first rows)"
proof -
  have "sorted (map newest_key (sort_key newest_key (rev rows)))" by simp
  then show ?thesis by (simp add: newest_first_def sorted_wrt_rev sorted_map)
qed

definition newer_of_kind :: "job_row \<Rightarrow> job_row \<Rightarrow> bool" where
  "newer_of_kind r x = (type_status x = type_status r \<and> newest_key r < newest_key x)"

lemma rank_counts_newer:
  assumes "distinct (map j_job_id rows)" and "r \<in> set rows"
  shows "map_of (rank_jobs (newest_first rows) [] []) (j_job_id r)
    = Some (Suc (length (filter (newer_of_kind r) rows)))"
proof -
  obtain pre post where split: "newest_first rows = pre @ r # post"
    using assms(2) by (metis newest_first_set split_list)
  have d: "distinct (map j_job_id (pre @ r # post))"
    using assms(1) newest_first_mset [of rows] unfolding split [symmetric]
    by (metis mset_eq_imp_distinct_iff mset_map)
  have s: "sorted_wrt (\<lambda>a b. newest_key b \<le> newest_key a) (pre @ r # post)"
    using newest_first_sorted [of rows] by (simp add: split)
  have "newest_key r < newest_key x" if "x \<in> set pre" for x
  proof -
    have "newest_key r \<le> newest_key x" using s that by (simp add: sorted_wrt_append)
    moreover have "newest_key r \<noteq> newest_key x" using d that by (auto simp: newest_key_def)
    ultimately show ?thesis by simp
  qed
  then have pre: "filter (newer_of_kind r) pre = filter (\<lambda>x. type_status x = type_status r) pre"
    by (auto simp: newer_of_kind_def intro: filter_cong)
  have "\<not> newer_of_kind r x" if "x \<in> set (r # post)" for x
    using s that by (auto simp: newer_of_kind_def sorted_wrt_append)
  then have "filter (newer_of_kind r) (r # post) = []" by (simp add: filter_empty_conv)
  then have "length (filter (newer_of_kind r) (newest_first rows)) = length (filter (\<lambda>x. type_status x = type_status r) pre)"
    using pre by (simp add: split)
  moreover have "length (filter (newer_of_kind r) (newest_first rows)) = length (filter (newer_of_kind r) rows)"
    by (metis mset_filter newest_first_mset size_mset)
  ultimately show ?thesis using rank_jobs_position [OF d, of "[]" "[]"] by (simp add: split seen_before_def)
qed

section \<open>Candidates\<close>

text \<open>A job is due when it is old enough or when enough newer jobs of its type and status exist.\<close>

definition due :: "datetime \<Rightarrow> job_db \<Rightarrow> job_row \<Rightarrow> bool" where
  "due now db r = (due_to_age now r
     \<or> (case job_max_count r of Some n \<Rightarrow> n \<le> length (filter (newer_of_kind r) (db_jobs db)) | None \<Rightarrow> False))"

lemma due_not_active: "due now db r \<Longrightarrow> \<not> active r"
  by (auto simp: due_def due_to_age_def job_retention_days_def job_max_count_def protected_status_def active_def
      active_status_def split: option.splits if_splits)

lemma load_jobs_facts:
  "set (load_jobs db) = set (db_jobs db)" "mset (load_jobs db) = mset (db_jobs db)"
  "distinct_ids db \<Longrightarrow> distinct (map j_job_id (load_jobs db))"
  unfolding distinct_ids_def load_jobs_def
  by (simp, simp, metis mset_eq_imp_distinct_iff mset_map mset_sort)

lemma candidate_iff_due:
  assumes "distinct_ids db" and "r \<in> set (db_jobs db)"
  shows "candidate_of dir fs now (rank_jobs (newest_first (load_jobs db)) [] []) r \<noteq> None \<longleftrightarrow> due now db r"
proof -
  have "map_of (rank_jobs (newest_first (load_jobs db)) [] []) (j_job_id r)
    = Some (Suc (length (filter (newer_of_kind r) (load_jobs db))))"
    using rank_counts_newer [of "load_jobs db" r] load_jobs_facts [of db] assms by simp
  moreover have "length (filter (newer_of_kind r) (load_jobs db)) = length (filter (newer_of_kind r) (db_jobs db))"
    by (metis load_jobs_facts(2) mset_filter size_mset)
  ultimately have "due_to_count (rank_jobs (newest_first (load_jobs db)) [] []) r \<longleftrightarrow>
    (case job_max_count r of Some n \<Rightarrow> n \<le> length (filter (newer_of_kind r) (db_jobs db)) | None \<Rightarrow> False)"
    by (auto simp: due_to_count_def split: option.splits)
  then show ?thesis
    by (auto simp: candidate_of_def due_def due_to_age_def split: option.splits)
qed

lemma map_filter_iff: "y \<in> set (List.map_filter f xs) \<longleftrightarrow> (\<exists>x\<in>set xs. f x = Some y)"
  by (induction xs) (auto simp: List.map_filter_simps split: option.splits)

definition describes :: "string \<Rightarrow> retention_candidate \<Rightarrow> job_row \<Rightarrow> bool" where
  "describes dir c r = (cd_job_id c = j_job_id r \<and> candidate_unchanged dir c r)"

lemma candidate_describes: "candidate_of dir fs now ranks r = Some c \<Longrightarrow> describes dir c r"
  by (auto simp: candidate_of_def describes_def candidate_unchanged_def split: if_splits)

lemma candidates_are_due:
  assumes "distinct_ids db" and "c \<in> set (find_retention_candidates dir fs now db)"
  shows "\<exists>s\<in>set (db_jobs db). describes dir c s \<and> due now db s"
  using assms candidate_iff_due [OF assms(1), of _ dir fs now]
  by (auto simp: find_retention_candidates_def Let_def map_filter_iff load_jobs_facts intro: candidate_describes)

lemma due_is_candidate:
  assumes "distinct_ids db" and "r \<in> set (db_jobs db)" and "due now db r"
  shows "\<exists>c\<in>set (find_retention_candidates dir fs now db). describes dir c r"
proof -
  obtain c where "candidate_of dir fs now (rank_jobs (newest_first (load_jobs db)) [] []) r = Some c"
    using candidate_iff_due [OF assms(1,2), of dir fs now] assms(3) by blast
  moreover from this have "c \<in> set (find_retention_candidates dir fs now db)"
    using assms(2) by (auto simp: find_retention_candidates_def Let_def map_filter_iff load_jobs_facts(1))
  ultimately show ?thesis using candidate_describes by blast
qed

text \<open>Rows with the same candidate are due together.\<close>

lemma describes_same_due:
  "describes dir c r \<Longrightarrow> describes dir c s \<Longrightarrow> due now db s \<Longrightarrow> due now db r"
proof -
  assume "describes dir c r" "describes dir c s"
  then have e: "j_job_id r = j_job_id s" "j_status r = j_status s" "j_job_type r = j_job_type s"
    "j_created_at r = j_created_at s" "j_finished_at r = j_finished_at s"
    by (auto simp: describes_def candidate_unchanged_def)
  have "newer_of_kind r = newer_of_kind s"
    by (rule ext) (simp add: newer_of_kind_def type_status_def newest_key_def e)
  moreover have "job_retention_days r = job_retention_days s" by (simp only: job_retention_days_def e)
  moreover have "job_max_count r = job_max_count s" by (simp only: job_max_count_def e)
  moreover have "job_age now r = job_age now s" by (simp only: job_age_def e)
  moreover assume "due now db s"
  ultimately show "due now db r" by (simp only: due_def due_to_age_def)
qed

section \<open>The transaction\<close>

lemma recorded_by_retention:
  assumes "ensure_snapshot env r db = Inr db'" and "\<not> active r" and "j_finished_at r = Some t"
  shows "recorded env (db_logs db') r \<and> prefix (db_logs db) (db_logs db') \<and> db_jobs db' = db_jobs db"
proof (cases "find (\<lambda>l. l_event_id l = terminal_snapshot_event_id env (j_job_id r)) (db_logs db)")
  case None
  then have w: "write_terminal_snapshot env r ''legacy_terminal_observed'' ''retention_observation'' False db = Inr db'"
    using assms(1) by (simp add: ensure_snapshot_def)
  have "classification_matches (j_status r) (PStr ''retention_observation'') (PStr ''legacy_terminal_observed'')"
    using assms(2) by (cases "j_status r") (simp_all add: classification_matches_def active_def)
  with w assms(3) show ?thesis
    by (elim write_snapshot_cases) (auto simp: recorded_def intro: snapshot_matches_faithful)
next
  case (Some l)
  then have "db' = db" "terminal_snapshot_matches r l" using assms(1) by (auto simp: ensure_snapshot_def split: if_splits)
  moreover have "l \<in> set (db_logs db)" "l_event_id l = terminal_snapshot_event_id env (j_job_id r)"
    using Some by (auto simp: find_Some_iff)
  ultimately show ?thesis by (auto simp: recorded_def)
qed

lemma canonical_finished_Some: "canonical_finished_at f \<Longrightarrow> \<exists>t. f = Some t"
  by (cases f) (auto simp: canonical_finished_at_def strptime_sql_def)

lemma delete_job_unique:
  assumes "distinct_ids (rt_job_db db)" and "r \<in> set (db_jobs (rt_job_db db))" and "delete_job r db = (n, db')"
  shows "db_logs (rt_job_db db') = db_logs (rt_job_db db)
    \<and> set (db_jobs (rt_job_db db')) \<subseteq> set (db_jobs (rt_job_db db))
    \<and> (n = 1 \<longrightarrow> set (db_jobs (rt_job_db db')) = set (db_jobs (rt_job_db db)) - {r})
    \<and> distinct_ids (rt_job_db db')"
proof -
  have unique: "x = r" if "x \<in> set (db_jobs (rt_job_db db))" "j_job_id x = j_job_id r" for x
    using assms(1,2) that by (metis distinct_ids_def eq_key_imp_eq_value inj_onD distinct_map)
  let ?hit = "\<lambda>x. j_job_id x = j_job_id r \<and> j_status x = j_status r \<and> j_created_at x = j_created_at r
                    \<and> j_finished_at x \<noteq> None \<and> j_finished_at x = j_finished_at r"
  have d: "rt_job_db db' = (rt_job_db db)\<lparr>db_jobs := filter (\<lambda>x. \<not> ?hit x) (db_jobs (rt_job_db db))\<rparr>"
    "n = length (filter ?hit (db_jobs (rt_job_db db)))"
    using assms(3) by (auto simp: delete_job_def Let_def)
  have "n = 1 \<longrightarrow> ?hit r"
  proof
    assume "n = 1"
    then have "filter ?hit (db_jobs (rt_job_db db)) \<noteq> []" using d(2) by auto
    then obtain x where "x \<in> set (db_jobs (rt_job_db db))" "?hit x" unfolding filter_empty_conv by blast
    then show "?hit r" using unique by blast
  qed
  then show ?thesis using d(1) unique assms(1) by (auto simp: distinct_ids_def distinct_map_filter)
qed

text \<open>The effect of one candidate on the tables.\<close>

lemma retire_candidate_effect:
  assumes "distinct_ids (rt_job_db db)" and "retire_candidate env dir now c db = Inr (out, db')"
  shows "(out \<noteq> Deleted \<longrightarrow> db' = db)
    \<and> (out = Deleted \<longrightarrow> (\<exists>r\<in>set (db_jobs (rt_job_db db)). describes dir c r \<and> recorded env (db_logs (rt_job_db db')) r
          \<and> set (db_jobs (rt_job_db db')) = set (db_jobs (rt_job_db db)) - {r}))
    \<and> distinct_ids (rt_job_db db') \<and> prefix (db_logs (rt_job_db db)) (db_logs (rt_job_db db'))"
proof (cases "select_job (cd_job_id c) (rt_job_db db)")
  case None
  then show ?thesis using assms by (auto simp: retire_candidate_def)
next
  case (Some r)
  show ?thesis
  proof (cases "out = Deleted")
    case False
    then have "db' = db"
      using assms(2) Some by (auto simp: retire_candidate_def split: if_splits sum.splits prod.splits)
    then show ?thesis using assms(1) False by simp
  next
    case True
    obtain jobs where c: "candidate_unchanged dir c r" "\<not> protected_status (j_status r)"
        "canonical_finished_at (j_finished_at r)" "ensure_snapshot env r (rt_job_db db) = Inr jobs"
      and del: "delete_job r (db\<lparr>rt_job_db := jobs, rt_rules := map_option (forget_job now (j_job_id r)) (rt_rules db)\<rparr>) = (1, db')"
      using assms(2) Some True by (auto simp: retire_candidate_def split: if_splits sum.splits prod.splits)
    obtain t where t: "j_finished_at r = Some t" using canonical_finished_Some [OF c(3)] by blast
    have na: "\<not> active r" using c(2) by (simp add: protected_status_def active_def active_status_def)
    have r: "r \<in> set (db_jobs (rt_job_db db))" "j_job_id r = cd_job_id c" using select_job_Some [OF Some] by auto
    have s: "recorded env (db_logs jobs) r" "prefix (db_logs (rt_job_db db)) (db_logs jobs)" "db_jobs jobs = db_jobs (rt_job_db db)"
      using recorded_by_retention [OF c(4) na t] by auto
    have "distinct_ids jobs" using s(3) assms(1) by (simp add: distinct_ids_def)
    then show ?thesis
      using delete_job_unique [OF _ _ del] s r c(1) True by (auto simp: describes_def intro!: bexI [of _ r])
  qed
qed

lemma retire_candidate_reported:
  assumes "retire_candidate env dir now c db = Inr (out, db')" and "r \<in> set (db_jobs (rt_job_db db))"
    and "cd_job_id c = j_job_id r"
  shows "out \<noteq> Gone"
  using assms select_job_None [of "cd_job_id c" "rt_job_db db"]
  by (auto simp: retire_candidate_def split: if_splits sum.splits prod.splits option.splits)

text \<open>The effect of the whole batch.\<close>

lemma retire_all_Cons:
  assumes "retire_all env dir now (c # cs) db = Inr (deleted, errors, db')"
  obtains out db1 del1 err1 where "retire_candidate env dir now c db = Inr (out, db1)"
    "retire_all env dir now cs db1 = Inr (del1, err1, db')"
    "errors = (case out of Held reason \<Rightarrow> (cd_job_id c, reason) # err1 | _ \<Rightarrow> err1)"
    "deleted = (if out = Deleted then cd_job_id c # del1 else del1)"
  using assms by (auto split: sum.splits retire_outcome.splits)

lemma retire_all_effect:
  assumes "retire_all env dir now cs db = Inr (deleted, errors, db')" and "distinct_ids (rt_job_db db)"
  shows "distinct_ids (rt_job_db db') \<and> prefix (db_logs (rt_job_db db)) (db_logs (rt_job_db db'))
    \<and> set (db_jobs (rt_job_db db')) \<subseteq> set (db_jobs (rt_job_db db))
    \<and> (\<forall>r\<in>set (db_jobs (rt_job_db db)). r \<notin> set (db_jobs (rt_job_db db')) \<longrightarrow>
          recorded env (db_logs (rt_job_db db')) r \<and> (\<exists>c\<in>set cs. describes dir c r))"
  using assms
proof (induction cs arbitrary: db deleted errors)
  case Nil
  then show ?case by simp
next
  case (Cons c cs)
  from Cons.prems(1) obtain out db1 del1 err1 where one: "retire_candidate env dir now c db = Inr (out, db1)"
    and rest: "retire_all env dir now cs db1 = Inr (del1, err1, db')" by (rule retire_all_Cons)
  note e = retire_candidate_effect [OF Cons.prems(2) one]
  note ih = Cons.IH [OF rest conjunct1 [OF conjunct2 [OF conjunct2 [OF e]]]]
  have sub: "set (db_jobs (rt_job_db db1)) \<subseteq> set (db_jobs (rt_job_db db))" using e by (cases "out = Deleted") auto
  have pre: "prefix (db_logs (rt_job_db db1)) (db_logs (rt_job_db db'))" using ih by blast
  have "recorded env (db_logs (rt_job_db db')) r \<and> (\<exists>c\<in>set (c # cs). describes dir c r)"
    if r: "r \<in> set (db_jobs (rt_job_db db))" "r \<notin> set (db_jobs (rt_job_db db'))" for r
  proof (cases "r \<in> set (db_jobs (rt_job_db db1))")
    case True
    then show ?thesis using ih r(2) by auto
  next
    case False
    then have "out = Deleted" using e r(1) by auto
    then have "recorded env (db_logs (rt_job_db db1)) r" "describes dir c r" using e r(1) False by blast+
    then show ?thesis using pre recorded_mono by auto
  qed
  moreover have "prefix (db_logs (rt_job_db db)) (db_logs (rt_job_db db'))" using e pre prefix_order.trans by blast
  ultimately show ?case using ih sub by blast
qed

lemma retire_all_reported:
  assumes "retire_all env dir now cs db = Inr (deleted, errors, db')" and "distinct_ids (rt_job_db db)"
    and "r \<in> set (db_jobs (rt_job_db db'))" and "c \<in> set cs" and "cd_job_id c = j_job_id r"
  shows "j_job_id r \<in> fst ` set errors"
  using assms
proof (induction cs arbitrary: db deleted errors)
  case Nil
  then show ?case by simp
next
  case (Cons x cs)
  from Cons.prems(1) obtain out db1 del1 err1 where one: "retire_candidate env dir now x db = Inr (out, db1)"
    and rest: "retire_all env dir now cs db1 = Inr (del1, err1, db')"
    and errors: "errors = (case out of Held reason \<Rightarrow> (cd_job_id x, reason) # err1 | _ \<Rightarrow> err1)"
    by (rule retire_all_Cons)
  note e = retire_candidate_effect [OF Cons.prems(2) one]
  have ids: "distinct_ids (rt_job_db db1)" using e by blast
  have in1: "r \<in> set (db_jobs (rt_job_db db1))" using retire_all_effect [OF rest ids] Cons.prems(3) by blast
  then have in0: "r \<in> set (db_jobs (rt_job_db db))" using e by (cases "out = Deleted") auto
  show ?case
  proof (cases "x = c")
    case True
    then have "out \<noteq> Gone" using retire_candidate_reported [OF one in0] Cons.prems(5) by simp
    moreover have "out \<noteq> Deleted"
    proof
      assume "out = Deleted"
      then obtain s where s: "s \<in> set (db_jobs (rt_job_db db))" "describes dir x s" "r \<noteq> s" using e in1 by blast
      then show False
        using in0 True Cons.prems(2,5) by (metis describes_def distinct_ids_def distinct_map inj_onD)
    qed
    ultimately show ?thesis using errors Cons.prems(5) True by (cases out) auto
  next
    case False
    then have "j_job_id r \<in> fst ` set err1" using Cons.IH [OF rest ids Cons.prems(3)] Cons.prems(4,5) by simp
    then show ?thesis using errors by (cases out) auto
  qed
qed

lemma cleanup_effect:
  assumes "cleanup_jobs_retention env dir dry now sql_now seen seen2 db fs = (res, db', fs')" and "distinct_ids (rt_job_db db)"
  shows "distinct_ids (rt_job_db db') \<and> prefix (db_logs (rt_job_db db)) (db_logs (rt_job_db db'))
    \<and> set (db_jobs (rt_job_db db')) \<subseteq> set (db_jobs (rt_job_db db))
    \<and> (\<forall>r\<in>set (db_jobs (rt_job_db db)). r \<notin> set (db_jobs (rt_job_db db')) \<longrightarrow>
          recorded env (db_logs (rt_job_db db')) r \<and> (\<exists>c\<in>set (find_retention_candidates dir fs now seen). describes dir c r))"
proof (cases "\<exists>d e. retire_all env dir sql_now (find_retention_candidates dir fs now seen) db = Inr (d, e, db')")
  case True
  then show ?thesis using retire_all_effect [OF _ assms(2)] by blast
next
  case False
  then have "db' = db"
    using assms(1) by (auto simp: cleanup_jobs_retention_def Let_def split: if_splits sum.splits prod.splits)
  then show ?thesis using assms(2) by simp
qed

section \<open>Jobs and their retention as one system\<close>

text \<open>Job operations and retention runs; a run may work with candidates read from other tables.\<close>

inductive life_step :: "job_env \<Rightarrow> retention_db \<Rightarrow> retention_db \<Rightarrow> bool" for env where
  job: "job_step env (rt_job_db db) jobs \<Longrightarrow> life_step env db (db\<lparr>rt_job_db := jobs\<rparr>)"
| retention: "life_step env db (fst (snd (cleanup_jobs_retention env dir dry now sql_now seen seen_orphans db fs)))"

lemma job_step_logs:
  assumes "job_step env db db'" and "distinct_ids db"
  shows "prefix (db_logs db) (db_logs db')"
  using job_step_effect [OF assms] by (auto simp: progress_def dest!: insert_job_Some(1))

lemma life_step_logs:
  assumes "life_step env db db'" and "distinct_ids (rt_job_db db)"
  shows "prefix (db_logs (rt_job_db db)) (db_logs (rt_job_db db'))"
  using assms(1)
proof cases
  case (job jobs)
  then show ?thesis using job_step_logs assms(2) by simp
next
  case (retention dir dry now sql_now seen seen_orphans fs)
  then show ?thesis using cleanup_effect assms(2) by (metis prod.collapse)
qed

lemma retention_ok:
  assumes "distinct_ids (rt_job_db db')" and "prefix (db_logs (rt_job_db db)) (db_logs (rt_job_db db'))"
    and "set (db_jobs (rt_job_db db')) \<subseteq> set (db_jobs (rt_job_db db))" and "job_ok env (rt_job_db db)"
  shows "job_ok env (rt_job_db db')" and "job_holds (rt_job_db db') \<subseteq> job_holds (rt_job_db db)"
  using assms recorded_mono by (auto simp: job_ok_def all_recorded_def job_holds_def)

lemma life_step_cases:
  assumes "life_step env db db'" and "job_ok env (rt_job_db db)"
  obtains "job_step env (rt_job_db db) (rt_job_db db')"
  | "job_ok env (rt_job_db db')" "job_holds (rt_job_db db') \<subseteq> job_holds (rt_job_db db)"
  using assms(1)
proof cases
  case (job jobs)
  then show ?thesis using that(1) by simp
next
  case (retention dir dry now sql_now seen seen_orphans fs)
  have "distinct_ids (rt_job_db db)" using assms(2) by (simp add: job_ok_def)
  with retention have "distinct_ids (rt_job_db db')" "prefix (db_logs (rt_job_db db)) (db_logs (rt_job_db db'))"
    "set (db_jobs (rt_job_db db')) \<subseteq> set (db_jobs (rt_job_db db))"
    using cleanup_effect by (metis prod.collapse)+
  then show ?thesis using that(2) retention_ok assms(2) by blast
qed

interpretation life: lock_table "\<lambda>db. job_holds (rt_job_db db)" lock_clash "\<lambda>db. job_ok env (rt_job_db db)" "life_step env" for env
proof unfold_locales
  show "lock_clash l k" if "lock_clash k l" for k l using that by (simp add: lock_clash_def inf_commute)
  show "job_ok env (rt_job_db t)" if "life_step env s t" "job_ok env (rt_job_db s)" for s t
    using that by (elim life_step_cases) (auto intro: job_step_ok)
  show "job_holds (rt_job_db t) \<subseteq> job_holds (rt_job_db s)
      \<or> (\<exists>i k. job_holds (rt_job_db t) \<subseteq> insert (i, k) (job_holds (rt_job_db s))
          \<and> (\<forall>(j, l)\<in>job_holds (rt_job_db t). j = i \<or> \<not> lock_clash k l))"
    if "life_step env s t" "job_ok env (rt_job_db s)" for s t
    using that(1,2)
  proof (cases rule: life_step_cases)
    case 1
    then show ?thesis using that(2) by (rule job_step_holds)
  qed simp
qed

definition outcome_kept :: "job_env \<Rightarrow> job_row \<Rightarrow> retention_db \<Rightarrow> bool" where
  "outcome_kept env r db = (job_ok env (rt_job_db db) \<and> recorded env (db_logs (rt_job_db db)) r)"

interpretation archive: step_system "life_step env" "outcome_kept env r" for env r
proof unfold_locales
  show "outcome_kept env r t" if "life_step env s t" "outcome_kept env r s" for s t
    using that life_step_logs [OF that(1)] life.step_ok [OF that(1)] recorded_mono
    by (auto simp: outcome_kept_def job_ok_def)
qed

section \<open>Files\<close>

definition below :: "string \<Rightarrow> string \<Rightarrow> bool" where
  "below path p = (p = path \<or> starts_with p (path @ ''/''))"

lemma removed_entries:
  assumes "e \<in> set (fs_entries fs)" and "e \<notin> set (fs_entries (snd (fold remove_artifact ps (x, fs))))"
  shows "\<exists>p\<in>set ps. below p (fst e)"
  using assms
proof (induction ps arbitrary: x fs)
  case Nil
  then show ?case by simp
next
  case (Cons p ps)
  obtain x1 fs1 where st: "remove_artifact p (x, fs) = (x1, fs1)" by fastforce
  show ?case
  proof (cases "e \<in> set (fs_entries fs1)")
    case True
    then show ?thesis using Cons.IH [OF True, of x1] Cons.prems(2) st by auto
  next
    case False
    then have "below p (fst e)"
      using st Cons.prems(1)
      by (auto simp: remove_artifact_def rmtree_def below_def split: option.splits fs_entry.splits if_splits)
    then show ?thesis by simp
  qed
qed

lemma retire_all_deleted:
  assumes "retire_all env dir now cs db = Inr (deleted, errors, db')" and "distinct_ids (rt_job_db db)" and "i \<in> set deleted"
  shows "i \<notin> j_job_id ` set (db_jobs (rt_job_db db'))"
  using assms
proof (induction cs arbitrary: db deleted errors)
  case Nil
  then show ?case by simp
next
  case (Cons c cs)
  from Cons.prems(1) obtain out db1 del1 err1 where one: "retire_candidate env dir now c db = Inr (out, db1)"
    and rest: "retire_all env dir now cs db1 = Inr (del1, err1, db')"
    and del: "deleted = (if out = Deleted then cd_job_id c # del1 else del1)" by (rule retire_all_Cons)
  note e = retire_candidate_effect [OF Cons.prems(2) one]
  have ids: "distinct_ids (rt_job_db db1)" using e by blast
  show ?case
  proof (cases "i \<in> set del1")
    case True
    then show ?thesis using Cons.IH [OF rest ids] by blast
  next
    case False
    then have o: "out = Deleted" "i = cd_job_id c" using del Cons.prems(3) by (auto split: if_splits)
    then obtain r where r: "r \<in> set (db_jobs (rt_job_db db))" "j_job_id r = i"
      "set (db_jobs (rt_job_db db1)) = set (db_jobs (rt_job_db db)) - {r}" using e unfolding describes_def by metis
    have "x = r" if "x \<in> set (db_jobs (rt_job_db db))" "j_job_id x = i" for x
      using that r Cons.prems(2) by (metis distinct_ids_def distinct_map inj_onD)
    then have "i \<notin> j_job_id ` set (db_jobs (rt_job_db db1))" using r(3) by auto
    then show ?thesis using retire_all_effect [OF rest ids] by blast
  qed
qed

lemma orphan_facts:
  "q \<in> set (find_orphan_artifact_dirs dir fs now seen) \<Longrightarrow>
   (or_path q, FsDir (or_size q) (or_modified_at q)) \<in> set (fs_entries fs) \<and> \<not> known_directory dir seen (or_path q)
     \<and> or_modified_at q < now - one_day"
  by (auto simp: find_orphan_artifact_dirs_def list_artifact_dirs_def map_filter_iff split: if_splits fs_entry.splits)

text \<open>Removing directories leaves the report of the transaction.\<close>

lemma removed_report: "fold remove_artifact ps (x, fs) = (x', fs') \<Longrightarrow>
  rr_job_errors x' = rr_job_errors x \<and> rr_deleted_jobs x' = rr_deleted_jobs x"
proof (induction ps arbitrary: x fs)
  case Nil
  then show ?case by simp
next
  case (Cons p ps)
  obtain x1 fs1 where st: "remove_artifact p (x, fs) = (x1, fs1)" by fastforce
  then have "rr_job_errors x1 = rr_job_errors x \<and> rr_deleted_jobs x1 = rr_deleted_jobs x"
    by (auto simp: remove_artifact_def split: option.splits fs_entry.splits)
  then show ?case using Cons.IH [of x1 fs1] Cons.prems st by simp
qed

text \<open>A run that had something to do and committed.\<close>

lemma cleanup_committed:
  assumes "cleanup_jobs_retention env dir dry now sql_now seen seen_orphans db fs = (res, db', fs')"
    and "fs' \<noteq> fs \<or> (\<not> dry \<and> res = Inr x \<and> find_retention_candidates dir fs now seen \<noteq> [])"
  obtains deleted errors x0 x1 where
    "retire_all env dir sql_now (find_retention_candidates dir fs now seen) db = Inr (deleted, errors, db')"
    "fold remove_artifact (candidate_dirs (find_retention_candidates dir fs now seen) deleted
       @ map or_path (find_orphan_artifact_dirs dir fs now seen_orphans)) (x0, fs) = (x1, fs')"
    "res = Inr x1" "rr_job_errors x1 = errors"
proof (cases "retire_all env dir sql_now (find_retention_candidates dir fs now seen) db")
  case (Inl e)
  then show ?thesis using assms by (auto simp: cleanup_jobs_retention_def Let_def split: if_splits)
next
  case (Inr y)
  obtain deleted errors db1 where y: "y = (deleted, errors, db1)" by (cases y)
  obtain x0 x1 where r: "fold remove_artifact (candidate_dirs (find_retention_candidates dir fs now seen) deleted
       @ map or_path (find_orphan_artifact_dirs dir fs now seen_orphans)) (x0, fs) = (x1, fs')"
    "res = Inr x1" "db' = db1" "rr_job_errors x0 = errors"
    using assms Inr y
    by (auto simp: cleanup_jobs_retention_def Let_def simp del: fold_append split: if_splits prod.splits)
  then show ?thesis using that Inr y removed_report [OF r(1)] by blast
qed

section \<open>Sample data\<close>

text \<open>A job that succeeded at the epoch, its directory, and an old directory without a job.\<close>

definition finished_job :: job_row where
  "finished_job = (queued_row sample_env (sample_new_job CHR ''1'' None) ''1970-01-01 00:00:00'')
     \<lparr>j_status := SUCCESS, j_finished_at := Some ''1970-01-01 00:00:00''\<rparr>"

definition aged_db :: retention_db where
  "aged_db = \<lparr>rt_job_db = \<lparr>db_jobs = [finished_job], db_logs = []\<rparr>, rt_rules = None, rt_versions = []\<rparr>"

definition sample_fs :: artifact_fs where
  "sample_fs = \<lparr>fs_entries = [(''/jobs'', FsDir 3 0), (''/jobs/'' @ sample_job_id CHR ''1'', FsDir 2 0), (''/jobs/old'', FsDir 1 0)],
     fs_rmtree_error = (\<lambda>_. None)\<rparr>"

definition sample_run :: "(exc + retention_result) \<times> retention_db \<times> artifact_fs" where
  "sample_run = cleanup_jobs_retention sample_env ''/jobs'' False (2 * one_day) ''1970-01-03 00:00:00''
     (rt_job_db aged_db) (rt_job_db aged_db) aged_db sample_fs"

lemma sample_run_facts:
  "db_jobs (rt_job_db (fst (snd sample_run))) = []"
  "map fst (fs_entries (snd (snd sample_run))) = [''/jobs'']"
  "db_jobs (rt_job_db aged_db) = [finished_job]" "distinct_ids (rt_job_db aged_db)"
  by code_simp+

section \<open>Properties\<close>

text \<open>
  C23. The retention deletes only what is due and recorded. A job that a cleanup removes is neither queued
  nor running, its outcome snapshot is in the log and matches it (when the audit writer keeps what it is
  given), and it was due when the candidates were read: old enough for its status, or with at least the
  allowed number of newer jobs of its type and status. This holds although the table may have changed
  since the candidates were read.
\<close>

theorem retention_deletes_only_due_jobs:
  assumes "cleanup_jobs_retention env dir dry now sql_now seen seen_orphans db fs = (res, db', fs')"
    and "distinct_ids (rt_job_db db)" and "distinct_ids seen"
    and "r \<in> set (db_jobs (rt_job_db db))" and "r \<notin> set (db_jobs (rt_job_db db'))"
  shows "\<not> active r
    \<and> (\<exists>l\<in>set (db_logs (rt_job_db db')). l_event_id l = terminal_snapshot_event_id env (j_job_id r)
          \<and> (audit_faithful env \<longrightarrow> terminal_snapshot_matches r l))
    \<and> (due_to_age now r \<or> (\<exists>n. job_max_count r = Some n \<and> n \<le> length (filter (newer_of_kind r) (db_jobs seen))))"
proof -
  obtain c where c: "recorded env (db_logs (rt_job_db db')) r" "c \<in> set (find_retention_candidates dir fs now seen)" "describes dir c r"
    using cleanup_effect [OF assms(1,2)] assms(4,5) by blast
  then obtain s where "describes dir c s" "due now seen s" using candidates_are_due [OF assms(3)] by blast
  then have d: "due now seen r" using describes_same_due [OF c(3)] by blast
  then show ?thesis using c(1) due_not_active [OF d] by (auto simp: due_def recorded_def split: option.splits)
qed

theorem retention_deletes_only_due_jobs_witness:
  "finished_job \<notin> set (db_jobs (rt_job_db (fst (snd sample_run)))) \<and> \<not> active finished_job
   \<and> (\<exists>l\<in>set (db_logs (rt_job_db (fst (snd sample_run)))). terminal_snapshot_matches finished_job l)"
proof -
  have run: "cleanup_jobs_retention sample_env ''/jobs'' False (2 * one_day) ''1970-01-03 00:00:00''
     (rt_job_db aged_db) (rt_job_db aged_db) aged_db sample_fs = (fst sample_run, fst (snd sample_run), snd (snd sample_run))"
    by (simp add: sample_run_def)
  have "finished_job \<in> set (db_jobs (rt_job_db aged_db))" "finished_job \<notin> set (db_jobs (rt_job_db (fst (snd sample_run))))"
    by (simp_all add: sample_run_facts)
  then show ?thesis
    using retention_deletes_only_due_jobs [OF run sample_run_facts(4,4)] sample_env_faithful by blast
qed

text \<open>
  C24. Nothing that is due is forgotten. When the table has not changed since the candidates were read and
  the transaction commits, a job that is due and still there is named in the errors with the reason why
  it is held.
\<close>

theorem due_jobs_are_deleted_or_reported:
  assumes "cleanup_jobs_retention env dir False now sql_now (rt_job_db db) seen_orphans db fs = (Inr x, db', fs')"
    and "distinct_ids (rt_job_db db)" and "r \<in> set (db_jobs (rt_job_db db))" and "due now (rt_job_db db) r"
    and "r \<in> set (db_jobs (rt_job_db db'))"
  shows "j_job_id r \<in> fst ` set (rr_job_errors x)"
proof -
  obtain c where c: "c \<in> set (find_retention_candidates dir fs now (rt_job_db db))" "describes dir c r"
    using due_is_candidate [OF assms(2-4)] by blast
  then have "find_retention_candidates dir fs now (rt_job_db db) \<noteq> []" by auto
  then obtain deleted errors where run: "retire_all env dir sql_now (find_retention_candidates dir fs now (rt_job_db db)) db
      = Inr (deleted, errors, db')" and x: "rr_job_errors x = errors"
    using cleanup_committed [OF assms(1), of x] by blast
  show ?thesis
    using retire_all_reported [OF run assms(2,5) c(1)] c(2) x by (simp add: describes_def)
qed

definition held_job :: job_row where
  "held_job = finished_job\<lparr>j_job_id := ''not-a-uuid''\<rparr>"

theorem due_jobs_are_deleted_or_reported_witness:
  "\<exists>x db' fs'. cleanup_jobs_retention sample_env ''/jobs'' False (2 * one_day) ''1970-01-03 00:00:00''
       (rt_job_db (aged_db\<lparr>rt_job_db := \<lparr>db_jobs = [held_job], db_logs = []\<rparr>\<rparr>)) empty_db
       (aged_db\<lparr>rt_job_db := \<lparr>db_jobs = [held_job], db_logs = []\<rparr>\<rparr>) sample_fs = (Inr x, db', fs')
     \<and> held_job \<in> set (db_jobs (rt_job_db db')) \<and> ''not-a-uuid'' \<in> fst ` set (rr_job_errors x)"
proof -
  let ?db = "aged_db\<lparr>rt_job_db := \<lparr>db_jobs = [held_job], db_logs = []\<rparr>\<rparr>"
  let ?run = "cleanup_jobs_retention sample_env ''/jobs'' False (2 * one_day) ''1970-01-03 00:00:00''
    (rt_job_db ?db) empty_db ?db sample_fs"
  have ok: "isl (fst ?run) = False" "db_jobs (rt_job_db (fst (snd ?run))) = [held_job]" by code_simp+
  then obtain x where x: "fst ?run = Inr x" by (cases "fst ?run") auto
  then have run: "?run = (Inr x, fst (snd ?run), snd (snd ?run))" by (metis prod.collapse)
  have f: "distinct_ids (rt_job_db ?db)" "due (2 * one_day) (rt_job_db ?db) held_job" "j_job_id held_job = ''not-a-uuid''"
    by code_simp+
  have h: "held_job \<in> set (db_jobs (rt_job_db ?db))" "held_job \<in> set (db_jobs (rt_job_db (fst (snd ?run))))" using ok(2) by simp_all
  have "''not-a-uuid'' \<in> fst ` set (rr_job_errors x)"
    using due_jobs_are_deleted_or_reported [OF run f(1) h(1) f(2) h(2)] f(3) by simp
  then show ?thesis using run h(2) by blast
qed

text \<open>
  C25. No outcome is lost. Through every sequence of job operations and retention runs, whatever tables
  their candidates were read from, a job that was once finished keeps its outcome snapshot in the log,
  also after its row is deleted, and the locks of the active jobs stay disjoint.
\<close>

theorem outcome_survives_retention:
  assumes "(life_step env)\<^sup>*\<^sup>* db db'" and "job_ok env (rt_job_db db)" and "exclusive lock_clash (job_holds (rt_job_db db))"
    and "r \<in> set (db_jobs (rt_job_db db))" and "\<not> active r"
  shows "(\<exists>l\<in>set (db_logs (rt_job_db db')). l_event_id l = terminal_snapshot_event_id env (j_job_id r)
        \<and> (audit_faithful env \<longrightarrow> terminal_snapshot_matches r l))
    \<and> exclusive lock_clash (job_holds (rt_job_db db'))"
proof -
  have "outcome_kept env r db" using assms(2,4,5) by (simp add: outcome_kept_def job_ok_def all_recorded_def)
  from archive.steps_inv [OF assms(1) this] show ?thesis
    using life.steps_inv [OF assms(1)] assms(2,3) by (simp add: outcome_kept_def recorded_def)
qed

text \<open>The finished job with the snapshot that the retention wrote for it.\<close>

definition recorded_db :: retention_db where
  "recorded_db = aged_db\<lparr>rt_job_db := \<lparr>db_jobs = [finished_job], db_logs = db_logs (rt_job_db (fst (snd sample_run)))\<rparr>\<rparr>"

theorem outcome_survives_retention_witness:
  "\<exists>db'. (life_step sample_env)\<^sup>*\<^sup>* recorded_db db' \<and> db_jobs (rt_job_db db') = []
     \<and> (\<exists>l\<in>set (db_logs (rt_job_db db')). terminal_snapshot_matches finished_job l)"
proof -
  let ?run = "cleanup_jobs_retention sample_env ''/jobs'' False (2 * one_day) ''1970-01-03 00:00:00''
     (rt_job_db recorded_db) (rt_job_db recorded_db) recorded_db sample_fs"
  have st: "(life_step sample_env)\<^sup>*\<^sup>* recorded_db (fst (snd ?run))" by (rule r_into_rtranclp) (rule life_step.retention)
  have none: "db_jobs (rt_job_db (fst (snd ?run))) = []" by code_simp
  have row: "db_jobs (rt_job_db recorded_db) = [finished_job]" "\<not> active finished_job" by code_simp+
  have "list_ex (\<lambda>l. l_event_id l = terminal_snapshot_event_id sample_env (j_job_id finished_job)
     \<and> terminal_snapshot_matches finished_job l) (db_logs (rt_job_db recorded_db))" by code_simp
  then have "recorded sample_env (db_logs (rt_job_db recorded_db)) finished_job" by (auto simp: recorded_def list_ex_iff)
  then have ok: "job_ok sample_env (rt_job_db recorded_db)" "exclusive lock_clash (job_holds (rt_job_db recorded_db))"
    using row by (auto simp: job_ok_def distinct_ids_def all_recorded_def job_holds_def exclusive_def)
  have "finished_job \<in> set (db_jobs (rt_job_db recorded_db))" using row by simp
  from outcome_survives_retention [OF st ok this row(2)] sample_env_faithful show ?thesis using st none by blast
qed

text \<open>
  The retention removes only files nobody owns. A path that disappears lies in the artifact directory
  of a candidate whose job is not in the table any more, or in a directory that no job of the table that was
  read owned and that was not modified for a day.
\<close>

theorem retention_removes_only_unowned_files:
  assumes "cleanup_jobs_retention env dir dry now sql_now seen seen_orphans db fs = (res, db', fs')"
    and "distinct_ids (rt_job_db db)" and "e \<in> set (fs_entries fs)" and "e \<notin> set (fs_entries fs')"
  shows "(\<exists>c\<in>set (find_retention_candidates dir fs now seen). below (path_text (cd_artifact_dir c)) (fst e)
          \<and> cd_job_id c \<notin> j_job_id ` set (db_jobs (rt_job_db db')))
    \<or> (\<exists>path bytes mtime. (path, FsDir bytes mtime) \<in> set (fs_entries fs) \<and> below path (fst e)
          \<and> \<not> known_directory dir seen_orphans path \<and> mtime < now - one_day)"
proof -
  have "fs' \<noteq> fs" using assms(3,4) by blast
  then obtain deleted errors x0 x1 where
    run: "retire_all env dir sql_now (find_retention_candidates dir fs now seen) db = Inr (deleted, errors, db')"
    and gone: "fold remove_artifact (candidate_dirs (find_retention_candidates dir fs now seen) deleted
       @ map or_path (find_orphan_artifact_dirs dir fs now seen_orphans)) (x0, fs) = (x1, fs')"
    using cleanup_committed [OF assms(1)] by metis
  obtain p where p: "p \<in> set (candidate_dirs (find_retention_candidates dir fs now seen) deleted
       @ map or_path (find_orphan_artifact_dirs dir fs now seen_orphans))" "below p (fst e)"
    using removed_entries [OF assms(3), of _ x0] assms(4) gone by (metis snd_conv)
  show ?thesis
  proof (cases "p \<in> set (candidate_dirs (find_retention_candidates dir fs now seen) deleted)")
    case True
    then show ?thesis using p(2) retire_all_deleted [OF run assms(2)] by (auto simp: candidate_dirs_def)
  next
    case False
    then obtain q where "q \<in> set (find_orphan_artifact_dirs dir fs now seen_orphans)" "p = or_path q" using p(1) by auto
    then show ?thesis using p(2) orphan_facts by blast
  qed
qed

theorem retention_removes_only_unowned_files_witness:
  "\<exists>e. e \<in> set (fs_entries sample_fs) \<and> e \<notin> set (fs_entries (snd (snd sample_run)))
     \<and> (\<exists>path bytes mtime. (path, FsDir bytes mtime) \<in> set (fs_entries sample_fs) \<and> below path (fst e)
          \<and> \<not> known_directory ''/jobs'' (rt_job_db aged_db) path \<and> mtime < 2 * one_day - one_day)"
proof -
  have run: "cleanup_jobs_retention sample_env ''/jobs'' False (2 * one_day) ''1970-01-03 00:00:00''
     (rt_job_db aged_db) (rt_job_db aged_db) aged_db sample_fs = (fst sample_run, fst (snd sample_run), snd (snd sample_run))"
    by (simp add: sample_run_def)
  let ?e = "(''/jobs/old'', FsDir 1 0)"
  have 1: "?e \<in> set (fs_entries sample_fs)" by (simp add: sample_fs_def)
  have 2: "?e \<notin> set (fs_entries (snd (snd sample_run)))"
  proof
    assume "?e \<in> set (fs_entries (snd (snd sample_run)))"
    then have "fst ?e \<in> set (map fst (fs_entries (snd (snd sample_run))))" by (metis image_eqI list.set_map)
    then show False by (simp add: sample_run_facts(2))
  qed
  have 3: "\<not> (\<exists>c\<in>set (find_retention_candidates ''/jobs'' sample_fs (2 * one_day) (rt_job_db aged_db)).
    below (path_text (cd_artifact_dir c)) (fst ?e) \<and> cd_job_id c \<notin> j_job_id ` set (db_jobs (rt_job_db (fst (snd sample_run)))))"
    by code_simp
  show ?thesis
    using retention_removes_only_unowned_files [OF run sample_run_facts(4) 1 2, THEN disjE, OF notE [OF 3]] 1 2
    by (intro exI [of _ ?e] conjI)
qed

end
