(* ===== verification/Network_Contract.thy ===== *)
theory Network_Contract
  imports Ip_Networks
begin

text \<open>
  The network contract of \<open>services/network_contract.py\<close>: which networks are protected or trusted,
  and which interfaces belong to the LAN. The settings are a record of the lists that
  \<open>core/config.py\<close> reads, \<open>None\<close> where a list is absent.
\<close>

record net_settings =
  cfg_protected_ipv4 :: "string list option"
  cfg_protected_ipv6 :: "string list option"
  cfg_rules_extra :: "string list option"
  cfg_trusted_ipv4 :: "string list option"
  cfg_trusted_ipv6 :: "string list option"
  cfg_lan_allowlist :: "string list option"
  cfg_lan_deny_prefixes :: "string list option"
  cfg_local_lan_hosts :: pyval

definition default_protected_ipv4 :: "string list" where
  "default_protected_ipv4 = [''127.0.0.0/8'', ''10.0.0.0/8'', ''172.16.0.0/12'', ''192.168.0.0/16'', ''100.64.0.0/10'',
     ''169.254.0.0/16'', ''224.0.0.0/4'']"

definition default_protected_ipv6 :: "string list" where
  "default_protected_ipv6 = [''::1/128'', ''fc00::/7'', ''fe80::/10'', ''ff00::/8'']"

definition default_rules_extra :: "string list" where
  "default_rules_extra = [''0.0.0.0/8'', ''240.0.0.0/4'']"

definition default_trusted_ipv4 :: "string list" where
  "default_trusted_ipv4 = [''10.0.0.0/8'', ''100.64.0.0/10'', ''172.16.0.0/12'', ''192.168.0.0/16'']"

definition default_trusted_ipv6 :: "string list" where
  "default_trusted_ipv6 = [''fc00::/7'', ''fe80::/10'']"

definition default_lan_deny_prefixes :: "string list" where
  "default_lan_deny_prefixes = [''docker'', ''br-'', ''veth'', ''tailscale'', ''virbr'', ''lo'']"

definition default_local_lan_hosts :: "(string \<times> string) list" where
  "default_local_lan_hosts = [(''fwrouter.lan'', ''FWRouter UI via local ingress''),
     (''homes.lan'', ''Home Assistant via local ingress'')]"

definition reserved_interface_roles :: "(string \<times> string) list" where
  "reserved_interface_roles = [(''rescue0'', ''rescue'')]"

section \<open>Networks\<close>

fun unique_networks :: "ip_version option \<Rightarrow> string list \<Rightarrow> string list \<Rightarrow> string list" where
  "unique_networks version acc [] = acc"
| "unique_networks version acc (raw # rest) =
     (case parse_network (strip raw) of
        None \<Rightarrow> unique_networks version acc rest
      | Some n \<Rightarrow>
          if version \<noteq> None \<and> version \<noteq> Some (net_version n) then unique_networks version acc rest
          else if network_text n \<in> set acc then unique_networks version acc rest
          else unique_networks version (acc @ [network_text n]) rest)"

definition normalize_network_strings ::
  "string list option \<Rightarrow> string list \<Rightarrow> ip_version option \<Rightarrow> string list" where
  "normalize_network_strings values fallback version =
     (let normalized = unique_networks version [] (case values of Some vs \<Rightarrow> vs | None \<Rightarrow> fallback)
      in if normalized \<noteq> [] then normalized else fallback)"

fun unique_strings :: "string list \<Rightarrow> string list \<Rightarrow> string list" where
  "unique_strings acc [] = acc"
| "unique_strings acc (raw # rest) =
     (let value = strip raw
      in unique_strings (if value \<noteq> [] \<and> value \<notin> set acc then acc @ [value] else acc) rest)"

definition normalize_string_list :: "string list option \<Rightarrow> string list \<Rightarrow> string list" where
  "normalize_string_list values fallback =
     (let normalized = unique_strings [] (case values of Some vs \<Rightarrow> vs | None \<Rightarrow> fallback)
      in if normalized \<noteq> [] then normalized else fallback)"

definition protected_ipv4_networks :: "net_settings \<Rightarrow> string list" where
  "protected_ipv4_networks s = normalize_network_strings (cfg_protected_ipv4 s) default_protected_ipv4 (Some V4)"

definition protected_ipv6_networks :: "net_settings \<Rightarrow> string list" where
  "protected_ipv6_networks s = normalize_network_strings (cfg_protected_ipv6 s) default_protected_ipv6 (Some V6)"

definition rules_extra_protected_networks :: "net_settings \<Rightarrow> string list" where
  "rules_extra_protected_networks s = normalize_network_strings (cfg_rules_extra s) default_rules_extra None"

definition protected_rule_network_strings :: "net_settings \<Rightarrow> string list" where
  "protected_rule_network_strings s =
     normalize_network_strings
       (Some (rules_extra_protected_networks s @ protected_ipv4_networks s @ protected_ipv6_networks s))
       (default_rules_extra @ default_protected_ipv4 @ default_protected_ipv6) None"

text \<open>The texts above always parse, so the call of \<open>ip_network\<close> never raises here.\<close>

definition protected_rule_ip_networks :: "net_settings \<Rightarrow> ip_net list" where
  "protected_rule_ip_networks s = List.map_filter parse_network (protected_rule_network_strings s)"

definition trusted_client_ipv4_networks :: "net_settings \<Rightarrow> string list" where
  "trusted_client_ipv4_networks s = normalize_network_strings (cfg_trusted_ipv4 s) default_trusted_ipv4 (Some V4)"

definition trusted_client_ipv6_networks :: "net_settings \<Rightarrow> string list" where
  "trusted_client_ipv6_networks s = normalize_network_strings (cfg_trusted_ipv6 s) default_trusted_ipv6 (Some V6)"

definition nft_network_set_literal :: "string list \<Rightarrow> string" where
  "nft_network_set_literal values =
     ''{ '' @ join '', '' (normalize_network_strings (Some values) default_trusted_ipv4 None) @ '' }''"

definition trusted_client_ipv4_nft_set :: "net_settings \<Rightarrow> string" where
  "trusted_client_ipv4_nft_set s = nft_network_set_literal (trusted_client_ipv4_networks s)"

definition trusted_client_ipv6_nft_set :: "net_settings \<Rightarrow> string" where
  "trusted_client_ipv6_nft_set s = nft_network_set_literal (trusted_client_ipv6_networks s)"

section \<open>Interfaces\<close>

definition lan_interface_allowlist :: "net_settings \<Rightarrow> string list" where
  "lan_interface_allowlist s = normalize_string_list (cfg_lan_allowlist s) []"

definition lan_interface_deny_prefixes :: "net_settings \<Rightarrow> string list" where
  "lan_interface_deny_prefixes s = normalize_string_list (cfg_lan_deny_prefixes s) default_lan_deny_prefixes"

definition reserved_interface_role :: "string \<Rightarrow> string option" where
  "reserved_interface_role ifname = map_of reserved_interface_roles (strip ifname)"

definition lan_interface_allowed :: "net_settings \<Rightarrow> string \<Rightarrow> bool" where
  "lan_interface_allowed s ifname =
     (let name = strip ifname; allowlist = lan_interface_allowlist s
      in if name = [] then False
         else if reserved_interface_role name \<noteq> None then False
         else if allowlist \<noteq> [] \<and> name \<notin> set allowlist then False
         else \<not> (\<exists>prefix\<in>set (lan_interface_deny_prefixes s). starts_with name prefix))"

definition rstrip_dots :: "string \<Rightarrow> string" where
  "rstrip_dots s = rev (dropWhile (\<lambda>c. c = CHR ''.'') (rev s))"

fun normalize_hosts :: "pydict \<Rightarrow> (string \<times> string) list \<Rightarrow> (string \<times> string) list" where
  "normalize_hosts [] acc = acc"
| "normalize_hosts ((raw_host, raw_description) # rest) acc =
     (let hostname = rstrip_dots (lower (strip raw_host))
      in normalize_hosts rest (if hostname = [] then acc else AList.update hostname (clean raw_description) acc))"

text \<open>\<open>raw_env\<close> is the parsed environment variable, \<open>None\<close> when it is not set.\<close>

definition local_lan_hosts :: "json_text option \<Rightarrow> net_settings \<Rightarrow> (string \<times> string) list" where
  "local_lan_hosts raw_env s =
     (case (case raw_env of
              None \<Rightarrow> cfg_local_lan_hosts s
            | Some (JText v) \<Rightarrow> v
            | Some (JMalformed _) \<Rightarrow> PNone) of
        PDict d \<Rightarrow>
          (let normalized = normalize_hosts d []
           in if normalized \<noteq> [] then normalized else default_local_lan_hosts)
      | _ \<Rightarrow> default_local_lan_hosts)"

record network_manifest =
  nm_protected_ipv4 :: "string list"
  nm_protected_ipv6 :: "string list"
  nm_rules_extra :: "string list"
  nm_trusted_ipv4 :: "string list"
  nm_trusted_ipv6 :: "string list"
  nm_lan_allowlist :: "string list"
  nm_lan_deny_prefixes :: "string list"
  nm_reserved_roles :: "(string \<times> string) list"
  nm_local_lan_hosts :: "(string \<times> string) list"

definition network_contract_manifest :: "json_text option \<Rightarrow> net_settings \<Rightarrow> network_manifest" where
  "network_contract_manifest raw_env s =
     \<lparr>nm_protected_ipv4 = protected_ipv4_networks s, nm_protected_ipv6 = protected_ipv6_networks s,
      nm_rules_extra = rules_extra_protected_networks s, nm_trusted_ipv4 = trusted_client_ipv4_networks s,
      nm_trusted_ipv6 = trusted_client_ipv6_networks s, nm_lan_allowlist = lan_interface_allowlist s,
      nm_lan_deny_prefixes = lan_interface_deny_prefixes s, nm_reserved_roles = sort_key fst reserved_interface_roles,
      nm_local_lan_hosts = local_lan_hosts raw_env s\<rparr>"

end
