(* ===== verification/Rules_Compile.thy ===== *)
theory Rules_Compile
  imports Network_Contract
begin

text \<open>
  The rule compiler of \<open>services/rules_compile.py\<close>: texts of rules are validated and normalised,
  large lists are minimised, and the sources are merged by priority into the effective rules. Texts are
  ASCII, so the Cyrillic action names never occur and the IDNA encoding of a label is the label itself.
  The policy for the URLs of remote sources is not modelled.
\<close>

section \<open>Texts\<close>

definition line_break :: "char \<Rightarrow> bool" where
  "line_break c = (c \<in> {CHR 0x0A, CHR 0x0B, CHR 0x0C, CHR 0x0D, CHR 0x1C, CHR 0x1D, CHR 0x1E})"

text \<open>\<open>str.splitlines\<close>: \<open>cur\<close> is the current line; a line break at the end starts no new line.\<close>

fun splitlines_from :: "string \<Rightarrow> string \<Rightarrow> string list" where
  "splitlines_from cur [] = (if cur = [] then [] else [cur])"
| "splitlines_from cur (c # cs) =
     (if line_break c
      then cur # splitlines_from [] (if c = CHR 0x0D \<and> starts_with cs [CHR 0x0A] then drop 1 cs else cs)
      else splitlines_from (cur @ [c]) cs)"

definition splitlines :: "string \<Rightarrow> string list" where
  "splitlines s = splitlines_from [] s"

text \<open>\<open>str.split()\<close>: the pieces between runs of white space.\<close>

fun split_ws_from :: "string \<Rightarrow> string \<Rightarrow> string list" where
  "split_ws_from cur [] = (if cur = [] then [] else [cur])"
| "split_ws_from cur (c # cs) =
     (if is_space c then (if cur = [] then [] else [cur]) @ split_ws_from [] cs
      else split_ws_from (cur @ [c]) cs)"

definition split_ws :: "string \<Rightarrow> string list" where
  "split_ws s = split_ws_from [] s"

definition upper_char :: "char \<Rightarrow> char" where
  "upper_char c = (let n = (of_char c :: int) in if 97 \<le> n \<and> n \<le> 122 then char_of (n - 32) else c)"

definition upper :: "string \<Rightarrow> string" where
  "upper s = map upper_char s"

definition lstrip_dots :: "string \<Rightarrow> string" where
  "lstrip_dots s = dropWhile (\<lambda>c. c = CHR ''.'') s"

definition numbered :: "'a list \<Rightarrow> (nat \<times> 'a) list" where
  "numbered xs = zip [1 ..< Suc (length xs)] xs"

section \<open>Data\<close>

record rule_entry =
  ru_action :: string
  ru_kind :: string
  ru_value :: string
  ru_source :: string
  ru_match :: string
  ru_line :: "nat option"
  ru_priority :: "nat option"
  ru_protected :: bool

definition rule_action_aliases :: "(string \<times> string) list" where
  "rule_action_aliases = [(''DIRECT'', ''DIRECT''), (''DIR'', ''DIRECT''), (''DIRECTLY'', ''DIRECT''), (''VPN'', ''VPN'')]"

definition protected_service_domains :: "string list" where
  "protected_service_domains = [''localhost'']"

definition large_sources :: "string list" where
  "large_sources = [''big_direct'', ''big_vpn'']"

section \<open>Values\<close>

definition domain_char :: "char \<Rightarrow> bool" where
  "domain_char c = (is_digit c \<or> CHR ''a'' \<le> c \<and> c \<le> CHR ''z'')"

text \<open>\<open>DOMAIN_LABEL_RE\<close>: up to 63 letters, digits and inner hyphens.\<close>

definition domain_label :: "string \<Rightarrow> bool" where
  "domain_label s =
     (s \<noteq> [] \<and> length s \<le> 63 \<and> domain_char (hd s) \<and> domain_char (last s)
      \<and> list_all (\<lambda>c. domain_char c \<or> c = CHR ''-'') s)"

text \<open>\<open>DOMAIN_RE\<close>: at most 253 characters, two labels or more.\<close>

definition domain_name :: "string \<Rightarrow> bool" where
  "domain_name s =
     (length s \<le> 253 \<and> 2 \<le> length (split_char CHR ''.'' s) \<and> list_all domain_label (split_char CHR ''.'' s))"

definition normalize_domain_name :: "bool \<Rightarrow> string \<Rightarrow> string option" where
  "normalize_domain_name allow_single_label value =
     (let normalized = rstrip_dots (lower (strip value));
          labels = split_char CHR ''.'' normalized
      in if normalized = [] then None
         else if \<exists>l\<in>set labels. l = [] then None
         else if \<exists>l\<in>set labels. 64 \<le> length l then None
         else if allow_single_label \<and> length labels = 1
         then (if domain_label normalized then Some normalized else None)
         else (if domain_name normalized then Some normalized else None))"

definition value_error :: "string \<Rightarrow> string \<Rightarrow> string option \<Rightarrow> pydict" where
  "value_error code message value =
     [(''code'', PStr code), (''message'', PStr message)] @ (case value of Some v \<Rightarrow> [(''value'', PStr v)] | None \<Rightarrow> [])"

definition normalize_rule_value :: "string \<Rightarrow> pydict + (string \<times> string)" where
  "normalize_rule_value value =
     (let raw = strip value
      in if raw = [] then Inl (value_error ''EMPTY_VALUE'' ''Rule value is empty.'' None)
         else case parse_address raw of
           Some (v, a) \<Rightarrow> Inr (''ip'', address_text v a)
         | None \<Rightarrow>
             (case parse_network raw of
                Some n \<Rightarrow> Inr (''cidr'', network_text n)
              | None \<Rightarrow>
                  if starts_with raw ''.''
                  then (case normalize_domain_name True (lstrip_dots raw) of
                          None \<Rightarrow> Inl (value_error ''INVALID_DOMAIN_SUFFIX'' ''Invalid domain suffix rule value.'' (Some raw))
                        | Some suffix \<Rightarrow> Inr (''domain_suffix'', ''.'' @ suffix))
                  else if CHR ''/'' \<in> set raw
                  then Inl (value_error ''INVALID_CIDR'' ''Invalid IP/CIDR rule value.'' (Some raw))
                  else (case normalize_domain_name False raw of
                          None \<Rightarrow> Inl (value_error ''INVALID_DOMAIN'' ''Invalid domain rule value.'' (Some raw))
                        | Some domain \<Rightarrow> Inr (''domain'', domain))))"

definition normalize_large_list_value :: "string \<Rightarrow> string" where
  "normalize_large_list_value value =
     (let stripped = strip value
      in if length (filter (\<lambda>c. c = CHR '':'') stripped) = 1 \<and> CHR ''/'' \<notin> set stripped
         then (case split_char CHR '':'' stripped of
                 [host_part, port_part] \<Rightarrow>
                   if port_part \<noteq> [] \<and> list_all is_digit port_part
                   then (if parse_address host_part \<noteq> None then host_part
                         else if CHR ''.'' \<in> set host_part then host_part else stripped)
                   else stripped
               | _ \<Rightarrow> stripped)
         else stripped)"

text \<open>The network of an address or network rule; values come from \<open>normalize_rule_value\<close> and always parse.\<close>

definition network_for_rule :: "string \<Rightarrow> string \<Rightarrow> ip_net option" where
  "network_for_rule kind value =
     (if kind \<in> {''domain'', ''domain_suffix''} then None
      else if kind = ''ip''
      then (case parse_address value of
              Some (v, _) \<Rightarrow> parse_network (value @ ''/'' @ (if v = V4 then ''32'' else ''128''))
            | None \<Rightarrow> None)
      else parse_network value)"

definition is_protected_local :: "net_settings \<Rightarrow> string \<Rightarrow> string \<Rightarrow> bool" where
  "is_protected_local s kind value =
     (case network_for_rule kind value of
        None \<Rightarrow> value \<in> set protected_service_domains
      | Some n \<Rightarrow> \<exists>p\<in>set (protected_rule_ip_networks s). overlaps n p)"

definition build_rule_entry ::
  "string \<Rightarrow> string \<Rightarrow> string \<Rightarrow> nat option \<Rightarrow> string \<Rightarrow> nat option \<Rightarrow> bool \<Rightarrow> rule_entry" where
  "build_rule_entry action kind value line source priority protected =
     \<lparr>ru_action = action, ru_kind = kind, ru_value = value, ru_source = source,
      ru_match = (if kind = ''domain'' then ''exact'' else if kind = ''domain_suffix'' then ''domain_suffix''
                  else ''exact_or_network''),
      ru_line = line, ru_priority = priority, ru_protected = protected\<rparr>"

section \<open>Large lists\<close>

text \<open>\<open>grouped.setdefault(key, []).append(x)\<close>: the groups keep the order of their first element.\<close>

definition group_add :: "'k \<Rightarrow> 'x \<Rightarrow> ('k \<times> 'x list) list \<Rightarrow> ('k \<times> 'x list) list" where
  "group_add key x g =
     (if key \<in> fst ` set g then map (\<lambda>(k, xs). if k = key then (k, xs @ [x]) else (k, xs)) g else g @ [(key, [x])])"

fun group_rules ::
  "rule_entry list \<Rightarrow> rule_entry list \<Rightarrow> ((string \<times> string) \<times> (ip_net \<times> rule_entry) list) list
   \<Rightarrow> rule_entry list \<times> ((string \<times> string) \<times> (ip_net \<times> rule_entry) list) list" where
  "group_rules [] preserved grouped = (preserved, grouped)"
| "group_rules (rule # rest) preserved grouped =
     (if ru_kind rule \<noteq> ''cidr'' then group_rules rest (preserved @ [rule]) grouped
      else case parse_network (ru_value rule) of
             None \<Rightarrow> group_rules rest (preserved @ [rule]) grouped
           | Some n \<Rightarrow> group_rules rest preserved (group_add (ru_action rule, version_text (net_version n)) (n, rule) grouped))"

text \<open>A collapsed network keeps the last rule that has it, or gets a new rule after the first of the group.\<close>

definition collapsed_rule :: "(ip_net \<times> rule_entry) list \<Rightarrow> ip_net \<Rightarrow> rule_entry" where
  "collapsed_rule entries n =
     (case map_of (rev (map (\<lambda>(m, rule). (network_text m, rule)) entries)) (network_text n) of
        Some existing \<Rightarrow> existing
      | None \<Rightarrow>
          let template = snd (hd entries)
          in build_rule_entry (ru_action template) ''cidr'' (network_text n) (ru_line template) (ru_source template) None False)"

definition collapse_group :: "(ip_net \<times> rule_entry) list \<Rightarrow> rule_entry list" where
  "collapse_group entries = map (collapsed_rule entries) (collapse_addresses (map fst entries))"

definition collapse_rule_networks :: "rule_entry list \<Rightarrow> rule_entry list \<times> nat" where
  "collapse_rule_networks rules =
     (case group_rules rules [] [] of
        (preserved, grouped) \<Rightarrow>
          (preserved @ concat (map (\<lambda>(_, entries). collapse_group entries) grouped),
           sum_list (map (\<lambda>(_, entries). length entries - length (collapse_group entries)) grouped)))"

definition suffix_labels :: "string \<Rightarrow> string list" where
  "suffix_labels value = split_char CHR ''.'' (lstrip_dots value)"

definition suffix_subsumed :: "string \<Rightarrow> string list \<Rightarrow> bool" where
  "suffix_subsumed value kept =
     (let labels = suffix_labels value
      in \<exists>i\<in>set [1 ..< length labels]. ''.'' @ join ''.'' (drop i labels) \<in> set kept)"

fun minimize_suffixes :: "rule_entry list \<Rightarrow> string list \<Rightarrow> rule_entry list \<times> nat" where
  "minimize_suffixes [] kept = ([], 0)"
| "minimize_suffixes (rule # rest) kept =
     (if ru_value rule \<in> set kept \<or> suffix_subsumed (ru_value rule) kept
      then (case minimize_suffixes rest kept of (rules, removed) \<Rightarrow> (rules, removed + 1))
      else (case minimize_suffixes rest (ru_value rule # kept) of (rules, removed) \<Rightarrow> (rule # rules, removed)))"

definition suffix_key :: "rule_entry \<Rightarrow> nat \<times> nat \<times> string" where
  "suffix_key rule = (length (suffix_labels (ru_value rule)), length (ru_value rule), ru_value rule)"

definition kind_order :: "string \<Rightarrow> nat" where
  "kind_order kind =
     (if kind = ''cidr'' then 0 else if kind = ''ip'' then 1 else if kind = ''domain'' then 2
      else if kind = ''domain_suffix'' then 3 else 9)"

definition compile_large_list_rules :: "string \<Rightarrow> rule_entry list \<Rightarrow> rule_entry list \<times> nat \<times> nat" where
  "compile_large_list_rules source rules =
     (if source \<notin> set large_sources then (rules, 0, 0)
      else case collapse_rule_networks rules of
        (collapsed, cidr_removed) \<Rightarrow>
          let non_suffix = filter (\<lambda>r. ru_kind r \<noteq> ''domain_suffix'') collapsed;
              suffixes = filter (\<lambda>r. ru_kind r = ''domain_suffix'') collapsed
          in case minimize_suffixes (sort_key suffix_key suffixes) [] of
               (minimized, suffix_removed) \<Rightarrow>
                 (sort_key (\<lambda>r. (kind_order (ru_kind r), ru_value r)) (non_suffix @ minimized), cidr_removed, suffix_removed))"

section \<open>Validation\<close>

record validation =
  va_errors :: "pydict list"
  va_rules :: "rule_entry list"
  va_normalized_text :: string
  va_stats :: "nat \<times> nat \<times> nat"

definition va_valid :: "validation \<Rightarrow> bool" where
  "va_valid v = (va_errors v = [])"

definition line_error :: "nat \<Rightarrow> pydict \<Rightarrow> pydict" where
  "line_error n d = (''line'', PInt (int n)) # d"

definition coded :: "string \<Rightarrow> string \<Rightarrow> (string \<times> string) list \<Rightarrow> pydict" where
  "coded code message extra =
     [(''code'', PStr code), (''message'', PStr message)] @ map (\<lambda>(k, v). (k, PStr v)) extra"

definition protected_message :: string where
  "protected_message = ''Protected local/private/service pools cannot be routed through VPN.''"

definition normalized_lines :: "string list \<Rightarrow> string" where
  "normalized_lines ls = (let t = join [CHR 0x0A] ls in if t \<noteq> [] then t @ [CHR 0x0A] else t)"

text \<open>One line of the manual rules: skipped, rejected, or a rule that may already be known.\<close>

datatype 'r line_result = Skip | Reject pydict | Protected_Skip | Rule 'r

definition manual_line :: "net_settings \<Rightarrow> string \<Rightarrow> (string \<times> string \<times> string) line_result" where
  "manual_line s original =
     (let stripped = strip original
      in if stripped = [] \<or> starts_with stripped ''#'' then Skip
         else if CHR ''#'' \<in> set stripped
         then Reject (coded ''INLINE_COMMENT_NOT_SUPPORTED'' ''Inline comments are not supported.'' [(''text'', original)])
         else case split_ws stripped of
           [raw_action, value] \<Rightarrow>
             (case map_of rule_action_aliases (upper (strip raw_action)) of
                None \<Rightarrow> Reject (coded ''INVALID_ACTION''
                          ''Rule action must be DIRECT/VPN or supported localized aliases.'' [(''action'', strip raw_action)])
              | Some action \<Rightarrow>
                  (case normalize_rule_value value of
                     Inl e \<Rightarrow> Reject e
                   | Inr (kind, normalized) \<Rightarrow>
                       if action = ''VPN'' \<and> is_protected_local s kind normalized
                       then Reject (coded ''VPN_LOCAL_DIRECT_PROTECTED'' protected_message [(''value'', normalized)])
                       else Rule (action, kind, normalized)))
         | _ \<Rightarrow> Reject (coded ''INVALID_FORMAT'' ''Rule must have exactly two fields: ACTION VALUE.'' [(''text'', original)]))"

fun manual_lines ::
  "net_settings \<Rightarrow> (nat \<times> string) list \<Rightarrow> ((string \<times> string) \<times> string) list
   \<Rightarrow> pydict list \<times> rule_entry list" where
  "manual_lines s [] seen = ([], [])"
| "manual_lines s ((n, original) # rest) seen =
     (case manual_line s original of
        Skip \<Rightarrow> manual_lines s rest seen
      | Protected_Skip \<Rightarrow> manual_lines s rest seen
      | Reject e \<Rightarrow> (case manual_lines s rest seen of (errors, rules) \<Rightarrow> (line_error n e # errors, rules))
      | Rule (action, kind, value) \<Rightarrow>
          (case map_of seen (kind, value) of
             Some previous \<Rightarrow>
               if previous = action then manual_lines s rest seen
               else (case manual_lines s rest seen of (errors, rules) \<Rightarrow>
                       (line_error n (coded ''MANUAL_RULE_CONFLICT'' ''The same value cannot be both DIRECT and VPN.''
                          [(''value'', value), (''previous_action'', previous), (''action'', action)]) # errors, rules))
           | None \<Rightarrow>
               (case manual_lines s rest (((kind, value), action) # seen) of (errors, rules) \<Rightarrow>
                  (errors, build_rule_entry action kind value (Some n) ''manual'' None False # rules))))"

definition validate_manual_rules :: "net_settings \<Rightarrow> string \<Rightarrow> validation" where
  "validate_manual_rules s text =
     (case manual_lines s (numbered (splitlines text)) [] of
        (errors, rules) \<Rightarrow>
          \<lparr>va_errors = errors, va_rules = rules,
           va_normalized_text = normalized_lines (map (\<lambda>r. ru_action r @ '' '' @ ru_value r) rules),
           va_stats = (0, 0, 0)\<rparr>)"

definition value_line :: "net_settings \<Rightarrow> string \<Rightarrow> string \<Rightarrow> string \<Rightarrow> (string \<times> string) line_result" where
  "value_line s action source original =
     (let stripped = strip original; src = (''source'', source)
      in if stripped = [] \<or> starts_with stripped ''#'' then Skip
         else if CHR ''#'' \<in> set stripped
         then Reject (coded ''INLINE_COMMENT_NOT_SUPPORTED'' ''Inline comments are not supported.'' [(''text'', original), src])
         else if length (split_ws stripped) \<noteq> 1
         then Reject (coded ''INVALID_FORMAT'' ''Large list entries must contain exactly one value per line.''
                        [(''text'', original), src])
         else case normalize_rule_value (normalize_large_list_value stripped) of
           Inl e \<Rightarrow> Reject ((''source'', PStr source) # e)
         | Inr (kind0, value0) \<Rightarrow>
             let large = (source \<in> set large_sources);
                 suffix = (large \<and> kind0 = ''domain'');
                 kind = (if suffix then ''domain_suffix'' else kind0);
                 value = (if suffix then ''.'' @ value0 else value0)
             in if action = ''VPN'' \<and> is_protected_local s kind value
                then (if large then Protected_Skip
                      else Reject (coded ''VPN_LOCAL_DIRECT_PROTECTED'' protected_message [(''value'', value), src]))
                else Rule (kind, value))"

fun value_lines ::
  "net_settings \<Rightarrow> string \<Rightarrow> string \<Rightarrow> (nat \<times> string) list \<Rightarrow> (string \<times> string) list
   \<Rightarrow> pydict list \<times> rule_entry list \<times> nat" where
  "value_lines s action source [] seen = ([], [], 0)"
| "value_lines s action source ((n, original) # rest) seen =
     (case value_line s action source original of
        Skip \<Rightarrow> value_lines s action source rest seen
      | Protected_Skip \<Rightarrow>
          (case value_lines s action source rest seen of (errors, rules, skipped) \<Rightarrow> (errors, rules, skipped + 1))
      | Reject e \<Rightarrow>
          (case value_lines s action source rest seen of (errors, rules, skipped) \<Rightarrow> (line_error n e # errors, rules, skipped))
      | Rule (kind, value) \<Rightarrow>
          if (kind, value) \<in> set seen then value_lines s action source rest seen
          else (case value_lines s action source rest ((kind, value) # seen) of (errors, rules, skipped) \<Rightarrow>
                  (errors, build_rule_entry action kind value (Some n) source None False # rules, skipped)))"

definition validate_value_list :: "net_settings \<Rightarrow> string \<Rightarrow> string \<Rightarrow> string \<Rightarrow> validation" where
  "validate_value_list s action source text =
     (case value_lines s action source (numbered (splitlines text)) [] of
        (errors, rules, skipped) \<Rightarrow>
          (case compile_large_list_rules source rules of
             (compiled, cidr_removed, suffix_removed) \<Rightarrow>
               \<lparr>va_errors = errors, va_rules = compiled,
                va_normalized_text = normalized_lines (map ru_value compiled),
                va_stats = (cidr_removed, suffix_removed, skipped)\<rparr>))"

section \<open>Effective rules\<close>

definition protected_rules :: "net_settings \<Rightarrow> rule_entry list" where
  "protected_rules s =
     map (\<lambda>n. build_rule_entry ''DIRECT'' ''cidr'' (network_text n) None ''protected'' None True) (protected_rule_ip_networks s)
     @ map (\<lambda>d. build_rule_entry ''DIRECT'' ''domain'' d None ''protected'' None True) protected_service_domains"

definition rules_from_validation :: "string \<Rightarrow> validation option \<Rightarrow> rule_entry list" where
  "rules_from_validation source v =
     (case v of
        None \<Rightarrow> []
      | Some va \<Rightarrow> map (\<lambda>r. build_rule_entry (ru_action r) (ru_kind r) (ru_value r) (ru_line r) source None False) (va_rules va))"

definition rule_key :: "rule_entry \<Rightarrow> string \<times> string" where
  "rule_key r = (ru_kind r, ru_value r)"

text \<open>The merging loop: one rule per kind and value, with the priority of its source, and the counts.\<close>

fun merge_entries ::
  "nat \<Rightarrow> rule_entry list \<Rightarrow> (string \<times> string) list \<Rightarrow> rule_entry list \<times> (string \<times> string) list" where
  "merge_entries priority [] seen = ([], seen)"
| "merge_entries priority (entry # rest) seen =
     (if rule_key entry \<in> set seen then merge_entries priority rest seen
      else case merge_entries priority rest (rule_key entry # seen) of
        (rules, seen') \<Rightarrow> (entry\<lparr>ru_priority := Some priority\<rparr> # rules, seen'))"

fun merge_sources ::
  "(string \<times> nat \<times> rule_entry list) list \<Rightarrow> (string \<times> string) list \<Rightarrow> rule_entry list \<times> (string \<times> nat) list" where
  "merge_sources [] seen = ([], [])"
| "merge_sources ((source, priority, entries) # rest) seen =
     (case merge_entries priority entries seen of
        (rules, seen') \<Rightarrow>
          (case merge_sources rest seen' of
             (rest_rules, counts) \<Rightarrow> (rules @ rest_rules, (source, length rules) # counts)))"

record effective_artifact =
  ef_selective_default :: string
  ef_default_action :: string
  ef_rules :: "rule_entry list"
  ef_manual_rules :: "rule_entry list"
  ef_source_counts :: "(string \<times> nat) list"
  ef_total :: nat
  ef_direct :: nat
  ef_vpn :: nat
  ef_protected :: nat

definition ordered_sources ::
  "net_settings \<Rightarrow> validation \<Rightarrow> validation option \<Rightarrow> validation option \<Rightarrow> validation option
   \<Rightarrow> (string \<times> nat \<times> rule_entry list) list" where
  "ordered_sources s manual static_direct big_direct big_vpn =
     [(''protected'', 1, protected_rules s),
      (''manual'', 2, rules_from_validation ''manual'' (Some manual)),
      (''static_direct'', 3, rules_from_validation ''static_direct'' static_direct),
      (''big_direct'', 4, rules_from_validation ''big_direct'' big_direct),
      (''big_vpn'', 5, rules_from_validation ''big_vpn'' big_vpn)]"

definition build_effective_rules_artifact ::
  "net_settings \<Rightarrow> validation \<Rightarrow> string \<Rightarrow> validation option \<Rightarrow> validation option \<Rightarrow> validation option
   \<Rightarrow> effective_artifact" where
  "build_effective_rules_artifact s manual selective_default static_direct big_direct big_vpn =
     (case merge_sources (ordered_sources s manual static_direct big_direct big_vpn) [] of
        (rules, counts) \<Rightarrow>
          \<lparr>ef_selective_default = selective_default, ef_default_action = upper selective_default, ef_rules = rules,
           ef_manual_rules = rules_from_validation ''manual'' (Some manual), ef_source_counts = counts,
           ef_total = length rules,
           ef_direct = length (filter (\<lambda>r. ru_action r = ''DIRECT'') rules),
           ef_vpn = length (filter (\<lambda>r. ru_action r = ''VPN'') rules),
           ef_protected = (case map_of counts ''protected'' of Some n \<Rightarrow> n | None \<Rightarrow> 0)\<rparr>)"

fun render_rules :: "nat option \<Rightarrow> rule_entry list \<Rightarrow> string list" where
  "render_rules current [] = []"
| "render_rules current (r # rs) =
     (let priority = (case ru_priority r of Some p \<Rightarrow> p | None \<Rightarrow> 0)
      in (if Some priority \<noteq> current
          then [''# priority='' @ nat_text priority @ '' source='' @ ru_source r] else [])
         @ (ru_action r @ '' '' @ ru_value r) # render_rules (Some priority) rs)"

definition render_effective_rules_text :: "effective_artifact \<Rightarrow> string" where
  "render_effective_rules_text a =
     join [CHR 0x0A]
       ([''# FWRouter effective rules'',
         ''# priority: protected > manual > static_direct > big_direct > big_vpn > selective_default'',
         ''# selective_default='' @ ef_selective_default a]
        @ render_rules None (ef_rules a)
        @ [''# default_action='' @ ef_default_action a])
     @ [CHR 0x0A]"

text \<open>The candidate that \<open>services/rules_artifacts.py\<close> prepares from the stored texts.\<close>

record rule_texts =
  tx_draft :: string
  tx_static_direct :: string
  tx_big_direct :: string
  tx_big_vpn :: string
  tx_selective_default :: string

record rules_candidate =
  ca_manual :: validation
  ca_static_direct :: validation
  ca_big_direct :: validation
  ca_big_vpn :: validation
  ca_effective :: effective_artifact
  ca_text :: string

definition prepare_manual_rules_candidate :: "net_settings \<Rightarrow> rule_texts \<Rightarrow> rules_candidate" where
  "prepare_manual_rules_candidate s t =
     (let manual = validate_manual_rules s (tx_draft t);
          static_direct = validate_value_list s ''DIRECT'' ''static_direct'' (tx_static_direct t);
          big_direct = validate_value_list s ''DIRECT'' ''big_direct'' (tx_big_direct t);
          big_vpn = validate_value_list s ''VPN'' ''big_vpn'' (tx_big_vpn t);
          effective = build_effective_rules_artifact s manual (tx_selective_default t) (Some static_direct)
            (Some big_direct) (Some big_vpn)
      in \<lparr>ca_manual = manual, ca_static_direct = static_direct, ca_big_direct = big_direct, ca_big_vpn = big_vpn,
          ca_effective = effective, ca_text = render_effective_rules_text effective\<rparr>)"

end
