(* ===== verification/Ip_Properties.thy ===== *)
theory Ip_Properties
  imports Ip_Networks
begin

text \<open>
  Networks as sets of addresses: collapsing keeps the covered set, and texts of networks are read back as
  the networks they were printed from.
\<close>

section \<open>Networks as intervals\<close>

definition wf_net :: "ip_net \<Rightarrow> bool" where
  "wf_net n = (net_prefixlen n \<le> max_prefixlen (net_version n) \<and> 0 \<le> net_address n \<and> net_address n < 2 ^ max_prefixlen (net_version n)
     \<and> 2 ^ host_bits n dvd net_address n)"

definition addresses :: "ip_net \<Rightarrow> int set" where
  "addresses n = {net_address n ..< net_address n + 2 ^ host_bits n}"

definition covered :: "ip_net list \<Rightarrow> int set" where
  "covered ns = (\<Union>n\<in>set ns. addresses n)"

lemma covered_simps [simp]:
  "covered [] = {}" "covered (n # ns) = addresses n \<union> covered ns" "covered (ms @ ns) = covered ms \<union> covered ns"
  by (auto simp: covered_def)

lemma contains_address_iff: "contains_address n a \<longleftrightarrow> a \<in> addresses n"
proof -
  have "0 < (2::int) ^ host_bits n" by simp
  then show ?thesis unfolding contains_address_def broadcast_def addresses_def atLeastLessThan_iff by linarith
qed

lemma masked_simps [simp]:
  "net_version (masked v a len) = v" "net_prefixlen (masked v a len) = len"
  "host_bits (masked v a len) = max_prefixlen v - len"
  "net_address (masked v a len) = a div 2 ^ (max_prefixlen v - len) * 2 ^ (max_prefixlen v - len)"
  by (simp_all add: masked_def Let_def host_bits_def)

lemma div_mult_le: "0 < s \<Longrightarrow> (a::int) div s * s \<le> a"
  using div_mult_mod_eq [of a s] pos_mod_sign [of s a] by linarith

lemma masked_wf: "len \<le> max_prefixlen v \<Longrightarrow> 0 \<le> a \<Longrightarrow> a < 2 ^ max_prefixlen v \<Longrightarrow> wf_net (masked v a len)"
  unfolding wf_net_def by (simp add: le_less_trans [OF div_mult_le] pos_imp_zdiv_nonneg_iff)

lemma masked_id: "wf_net n \<Longrightarrow> masked (net_version n) (net_address n) (net_prefixlen n) = n"
  by (simp add: wf_net_def masked_def Let_def host_bits_def)

lemma masked_contains: "a \<in> addresses (masked v a len)"
proof -
  let ?s = "2 ^ (max_prefixlen v - len) :: int"
  have "a div ?s * ?s + a mod ?s = a" by (rule div_mult_mod_eq)
  moreover have "0 \<le> a mod ?s" "a mod ?s < ?s" by simp_all
  ultimately show ?thesis unfolding addresses_def masked_simps atLeastLessThan_iff by linarith
qed

lemma wf_net_bounds:
  "wf_net n \<Longrightarrow> net_prefixlen n \<le> max_prefixlen (net_version n)" "wf_net n \<Longrightarrow> net_address n < 2 ^ max_prefixlen (net_version n)"
  "wf_net n \<Longrightarrow> 0 \<le> net_address n"
  by (simp_all add: wf_net_def)

lemma supernet_wf [simp]: "wf_net n \<Longrightarrow> wf_net (supernet n)"
  using masked_wf [of "net_prefixlen n - 1" "net_version n" "net_address n"] wf_net_bounds [of n]
  by (simp add: supernet_def)

lemma supernet_version [simp]: "net_version (supernet n) = net_version n"
  by (simp add: supernet_def)

lemma ip_net_eq_iff:
  "(m :: ip_net) = n \<longleftrightarrow> net_version m = net_version n \<and> net_address m = net_address n \<and> net_prefixlen m = net_prefixlen n"
  by (cases m; cases n) auto

text \<open>A network is the lower or the upper half of its supernet.\<close>

lemma half_of_supernet:
  assumes "wf_net n" and "0 < net_prefixlen n"
  obtains b where "0 \<le> b" and "b < 2" and "net_address n = net_address (supernet n) + b * 2 ^ host_bits n"
    and "host_bits (supernet n) = Suc (host_bits n)"
proof -
  have h: "max_prefixlen (net_version n) - (net_prefixlen n - 1) = Suc (host_bits n)"
    using wf_net_bounds(1) [OF assms(1)] assms(2) unfolding host_bits_def by linarith
  obtain k where "net_address n = 2 ^ host_bits n * k" using assms(1) unfolding wf_net_def by (elim conjE dvdE)
  then have "net_address n = 2 ^ host_bits n * (k div 2 * 2 + k mod 2)" by simp
  then obtain q r where k: "net_address n = 2 ^ host_bits n * (q * 2 + r)" and r: "0 \<le> r" "r < 2"
    using pos_mod_bound [OF zero_less_numeral, of k] pos_mod_sign [OF zero_less_numeral, of k] by blast
  have a: "net_address (supernet n) = net_address n div 2 ^ Suc (host_bits n) * 2 ^ Suc (host_bits n)"
    using assms(2) unfolding supernet_def by (simp only: masked_simps h if_False neq0_conv [symmetric])
  have "net_address n div 2 ^ Suc (host_bits n) = 2 ^ host_bits n * (q * 2 + r) div (2 ^ host_bits n * 2)"
    by (simp only: k power_Suc2)
  then have d: "net_address n div 2 ^ Suc (host_bits n) = q" using r by simp
  have "net_address n = net_address (supernet n) + r * 2 ^ host_bits n"
    unfolding a d by (simp add: k algebra_simps)
  moreover have "host_bits (supernet n) = Suc (host_bits n)" using assms(2) h by (simp add: supernet_def)
  ultimately show ?thesis using that [of r] r by simp
qed

lemma addresses_supernet: "wf_net n \<Longrightarrow> addresses n \<subseteq> addresses (supernet n)"
proof (cases "net_prefixlen n = 0")
  case True
  then show ?thesis by (simp add: supernet_def)
next
  case False
  assume "wf_net n"
  with False obtain b where "0 \<le> b" "b < 2" "net_address n = net_address (supernet n) + b * 2 ^ host_bits n"
    "host_bits (supernet n) = Suc (host_bits n)" by (auto elim: half_of_supernet)
  moreover from this(1,2) have "b = 0 \<or> b = 1" by linarith
  ultimately show ?thesis by (auto simp: addresses_def)
qed

lemma two_halves:
  assumes "wf_net m" and "wf_net n" and "supernet m = supernet n" and "m \<noteq> n"
  shows "addresses m \<union> addresses n = addresses (supernet n)"
proof (cases "net_prefixlen m = 0 \<or> net_prefixlen n = 0")
  case True
  then have "addresses (supernet n) = addresses m \<or> addresses (supernet n) = addresses n"
    using assms(3) by (metis supernet_def)
  then show ?thesis using addresses_supernet [OF assms(1)] addresses_supernet [OF assms(2)] assms(3) by auto
next
  case False
  obtain b where b: "0 \<le> b" "b < 2" "net_address m = net_address (supernet m) + b * 2 ^ host_bits m"
    "host_bits (supernet m) = Suc (host_bits m)" using half_of_supernet [OF assms(1)] False by blast
  obtain c where c: "0 \<le> c" "c < 2" "net_address n = net_address (supernet n) + c * 2 ^ host_bits n"
    "host_bits (supernet n) = Suc (host_bits n)" using half_of_supernet [OF assms(2)] False by blast
  have v: "net_version m = net_version n" using assms(3) supernet_version by metis
  have h: "host_bits m = host_bits n" using b(4) c(4) assms(3) by simp
  then have "net_prefixlen m = net_prefixlen n"
    using v wf_net_bounds(1) [OF assms(1)] wf_net_bounds(1) [OF assms(2)] unfolding host_bits_def by simp
  then have "b \<noteq> c" using assms(3,4) b(3) c(3) v h by (auto simp: ip_net_eq_iff)
  then consider "b = 0" "c = 1" | "b = 1" "c = 0" using b(1,2) c(1,2) by linarith
  moreover define p :: int where "p = 2 ^ host_bits n"
  moreover have "0 < p" "2 ^ Suc (host_bits n) = p + p" by (simp_all add: p_def)
  ultimately show ?thesis
    using b(3,4) c(3,4) h assms(3) by cases (auto simp: addresses_def p_def [symmetric])
qed

section \<open>Collapsing\<close>

definition half_map :: "ip_version \<Rightarrow> (ip_net \<times> ip_net) list \<Rightarrow> bool" where
  "half_map v s = (distinct (map fst s) \<and> (\<forall>(k, n)\<in>set s. k = supernet n \<and> wf_net n \<and> net_version n = v))"

lemma merge_covers:
  assumes "\<forall>n\<in>set ns. wf_net n \<and> net_version n = v" and "half_map v s"
  shows "half_map v (merge_subnets ns s) \<and> covered (map snd (merge_subnets ns s)) = covered ns \<union> covered (map snd s)"
  using assms
proof (induction ns s rule: merge_subnets.induct)
  case (1 s)
  then show ?case by simp
next
  case (2 n ns s)
  show ?case
  proof (cases "map_of s (supernet n)")
    case None
    then have "half_map v ((supernet n, n) # s)" using 2(4,5) by (auto simp: half_map_def map_of_eq_None_iff)
    moreover have "\<forall>x\<in>set ns. wf_net x \<and> net_version x = v" using 2(4) by simp
    ultimately show ?thesis using 2(1) [OF None] None by (simp add: Un_ac)
  next
    case (Some m)
    then have m: "(supernet n, m) \<in> set s" by (rule map_of_SomeD)
    have wf: "wf_net m" "supernet m = supernet n" "wf_net n" "net_version n = v"
      using m 2(4,5) by (auto simp: half_map_def)
    show ?thesis
    proof (cases "m = n")
      case True
      then have "addresses n \<subseteq> covered (map snd s)" unfolding covered_def using m by force
      moreover have "\<forall>x\<in>set ns. wf_net x \<and> net_version x = v" using 2(4) by simp
      ultimately show ?thesis using 2(3) [OF Some _ _ 2(5)] Some True by (simp add: sup.absorb2 Un_assoc) blast
    next
      case False
      let ?t = "filter (\<lambda>(k, _). k \<noteq> supernet n) s"
      have t: "half_map v ?t" using 2(5) unfolding half_map_def by (simp add: distinct_map_filter)
      have only: "x = m" if "(supernet n, x) \<in> set s" for x
        using eq_key_imp_eq_value [OF _ that m] 2(5) by (simp add: half_map_def)
      have "set s = insert (supernet n, m) (set ?t)"
        unfolding set_filter using m by (auto dest: only)
      then have s: "covered (map snd s) = covered (map snd ?t) \<union> addresses m" by (auto simp: covered_def)
      have u: "addresses m \<union> addresses n = addresses (supernet n)" using two_halves wf False by blast
      have "\<forall>x\<in>set (supernet n # ns). wf_net x \<and> net_version x = v" using 2(4) wf by simp
      from 2(2) [OF Some False this t] show ?thesis using Some False by (simp add: s flip: u) blast
    qed
  qed
qed

lemma broadcast_le: "net_address m \<le> net_address n \<Longrightarrow> broadcast n \<le> broadcast m \<Longrightarrow> addresses n \<subseteq> addresses m"
proof -
  assume "net_address m \<le> net_address n" "broadcast n \<le> broadcast m"
  moreover have "0 < (2::int) ^ host_bits m" "0 < (2::int) ^ host_bits n" by simp_all
  ultimately have "net_address m \<le> net_address n" "net_address n + 2 ^ host_bits n \<le> net_address m + 2 ^ host_bits m"
    unfolding broadcast_def by linarith+
  then show ?thesis unfolding addresses_def by auto
qed

lemma drop_covered_covers:
  assumes "sorted (map net_key ns)" and "\<forall>n\<in>set ns. wf_net n"
    and "\<forall>l. last_net = Some l \<longrightarrow> wf_net l \<and> (\<forall>n\<in>set ns. net_address l \<le> net_address n)"
  shows "covered (drop_covered last_net ns) \<union> covered (case last_net of None \<Rightarrow> [] | Some l \<Rightarrow> [l])
    = covered ns \<union> covered (case last_net of None \<Rightarrow> [] | Some l \<Rightarrow> [l])"
  using assms
proof (induction last_net ns rule: drop_covered.induct)
  case (3 l n ns)
  have le: "\<forall>x\<in>set ns. net_address n \<le> net_address x" using 3(3) by (auto simp: net_key_def)
  show ?case
  proof (cases "broadcast l \<ge> broadcast n")
    case True
    then have "addresses n \<subseteq> addresses l" using 3(5) by (intro broadcast_le) auto
    then show ?thesis using 3(1) [OF True] 3(3-5) True by auto
  next
    case False
    then show ?thesis using 3(2) [OF False] 3(3-5) le by auto
  qed
next
  case (2 n ns)
  then have "\<forall>x\<in>set ns. net_address n \<le> net_address x" by (auto simp: net_key_def)
  with 2 show ?case by (simp add: Un_commute)
qed simp

lemma drop_covered_subset: "set (drop_covered l ns) \<subseteq> set ns"
  by (induction l ns rule: drop_covered.induct) auto

lemma collapse_covers:
  assumes "\<forall>n\<in>set ns. wf_net n \<and> net_version n = v"
  shows "covered (collapse_addresses ns) = covered ns" and "\<forall>n\<in>set (collapse_addresses ns). wf_net n \<and> net_version n = v"
proof -
  let ?s = "merge_subnets (rev ns) []"
  have "half_map v []" by (simp add: half_map_def)
  moreover have "\<forall>n\<in>set (rev ns). wf_net n \<and> net_version n = v" using assms by simp
  moreover have "covered (rev ns) = covered ns" by (simp add: covered_def)
  ultimately have m: "half_map v ?s" "covered (map snd ?s) = covered ns" using merge_covers [of "rev ns" v "[]"] by simp_all
  have wf: "\<forall>n\<in>set (map snd ?s). wf_net n \<and> net_version n = v" using m(1) by (auto simp: half_map_def)
  have "covered (sort_key net_key (map snd ?s)) = covered ns" using m(2) by (simp add: covered_def)
  moreover have "covered (drop_covered None (sort_key net_key (map snd ?s))) = covered (sort_key net_key (map snd ?s))"
  proof -
    have "\<forall>n\<in>set (sort_key net_key (map snd ?s)). wf_net n" using wf unfolding set_sort by blast
    from drop_covered_covers [OF sorted_sort_key this, of None] show ?thesis by simp
  qed
  ultimately show "covered (collapse_addresses ns) = covered ns" unfolding collapse_addresses_def by (rule trans [rotated])
  show "\<forall>n\<in>set (collapse_addresses ns). wf_net n \<and> net_version n = v"
    using drop_covered_subset [of None "sort_key net_key (map snd ?s)"] wf unfolding collapse_addresses_def set_sort by blast
qed

section \<open>Texts\<close>

lemma split_char_no: "c \<notin> set s \<Longrightarrow> split_char c s = [s]"
  by (induction s) auto

lemma split_char_app: "c \<notin> set s \<Longrightarrow> split_char c (s @ c # t) = s # split_char c t"
  by (induction s) auto

lemma split_join: "ps \<noteq> [] \<Longrightarrow> \<forall>p\<in>set ps. c \<notin> set p \<Longrightarrow> split_char c (join [c] ps) = ps"
proof (induction ps)
  case (Cons p ps)
  then show ?case by (cases ps) (auto simp: split_char_no split_char_app)
qed simp

lemma digit_cases:
  assumes "0 \<le> n" and "n < 10"
  shows "digit_val (digit_char n) = n" and "is_digit (digit_char n)" and "digit_char n = CHR ''0'' \<longleftrightarrow> n = 0"
proof -
  have "n \<in> {0, 1, 2, 3, 4, 5, 6, 7, 8, 9}" using assms by (simp, arith)
  then show "digit_val (digit_char n) = n" "is_digit (digit_char n)" "digit_char n = CHR ''0'' \<longleftrightarrow> n = 0"
    by (auto simp: digit_val_def digit_char_def decimal_digits_def is_digit_def)
qed

lemma dec_text_value:
  "0 \<le> n \<Longrightarrow> dec_text n \<noteq> [] \<and> list_all is_digit (dec_text n) \<and> foldl (\<lambda>n c. 10 * n + digit_val c) 0 (dec_text n) = n
     \<and> (0 < n \<longrightarrow> hd (dec_text n) \<noteq> CHR ''0'')"
proof (induction n rule: dec_text.induct)
  case (1 n)
  show ?case
  proof (cases "n < 10")
    case True
    then show ?thesis using digit_cases [of n] 1(2) by (simp add: dec_text_one)
  next
    case False
    then show ?thesis using 1(1) [OF False] digit_cases [of "n mod 10"] by (simp add: dec_text_snoc)
  qed
qed

lemma nat_text_digits: "digits_opt (nat_text n) = Some (int n)"
  using dec_text_value [of "int n"] by (simp add: nat_text_def digits_opt_def)

lemma dec_text_length: "0 \<le> n \<Longrightarrow> n < 10 ^ k \<Longrightarrow> 0 < k \<Longrightarrow> length (dec_text n) \<le> k"
proof (induction k arbitrary: n)
  case (Suc k)
  show ?case
  proof (cases "n < 10")
    case False
    moreover have "0 < k" using False Suc.prems(2) by (cases k) auto
    moreover have "n div 10 < 10 ^ k" using Suc.prems(2) by (simp add: div_less_iff_less_mult mult.commute)
    ultimately show ?thesis using Suc.IH [of "n div 10"] Suc.prems(1) by (simp add: dec_text_snoc)
  qed (simp add: dec_text_one)
qed simp

lemma digit_not_separator: "is_digit c \<Longrightarrow> c \<notin> {CHR ''.'', CHR '':'', CHR ''/''}"
  by (auto simp: is_digit_def decimal_digits_def)

lemma nat_text_chars: "c \<in> {CHR ''.'', CHR '':'', CHR ''/''} \<Longrightarrow> c \<notin> set (nat_text n)"
  using dec_text_value [of "int n"] digit_not_separator by (auto simp: nat_text_def list_all_iff)

lemma dec_text_digits: "0 \<le> n \<Longrightarrow> digits_opt (dec_text n) = Some n"
  using dec_text_value [of n] by (simp add: digits_opt_def)

lemma dec_text_chars: "0 \<le> n \<Longrightarrow> c \<in> {CHR ''.'', CHR '':'', CHR ''/''} \<Longrightarrow> c \<notin> set (dec_text n)"
  using nat_text_chars [of c "nat n"] by (simp add: nat_text_def)

lemma parse_octet_text:
  assumes "0 \<le> n" and "n < 256"
  shows "parse_octet (dec_text n) = Some n"
proof -
  have "length (dec_text n) \<le> 3" using dec_text_length [of n 3] assms by simp
  moreover have "dec_text n = ''0'' \<or> hd (dec_text n) \<noteq> CHR ''0''"
  proof (cases "n = 0")
    case True
    then show ?thesis using digit_cases [of 0] by (simp add: dec_text_one)
  next
    case False
    then show ?thesis using dec_text_value [of n] assms(1) by simp
  qed
  ultimately show ?thesis using assms by (simp add: parse_octet_def dec_text_digits)
qed

lemma parse_prefix_text: "len \<le> max_prefixlen v \<Longrightarrow> parse_prefix v (nat_text len) = Some len"
  by (simp add: parse_prefix_def nat_text_digits)

lemma parse_ipv4_text:
  assumes "0 \<le> a" and "a < 2 ^ 32"
  shows "parse_ipv4 (ipv4_text a) = Some a"
proof -
  define w x y z where "w = a div 16777216 mod 256" and "x = a div 65536 mod 256" and "y = a div 256 mod 256" and "z = a mod 256"
  have b: "0 \<le> w" "w < 256" "0 \<le> x" "x < 256" "0 \<le> y" "y < 256" "0 \<le> z" "z < 256"
    by (simp_all add: w_def x_def y_def z_def)
  have "split_char CHR ''.'' (ipv4_text a) = [dec_text w, dec_text x, dec_text y, dec_text z]"
    unfolding ipv4_text_def w_def x_def y_def z_def by (rule split_join) (simp_all add: dec_text_chars)
  moreover have "((w * 256 + x) * 256 + y) * 256 + z = a"
  proof -
    have "a div 16777216 < 256" "0 \<le> a div 16777216" using assms by simp_all
    then have "w = a div 16777216" by (simp add: w_def)
    moreover have "a div 65536 = a div 256 div 256" "a div 16777216 = a div 65536 div 256"
      using zdiv_zmult2_eq [of 256 a 256] zdiv_zmult2_eq [of 256 a 65536] by simp_all
    ultimately show ?thesis by (simp only: x_def y_def z_def div_mult_mod_eq)
  qed
  ultimately show ?thesis using b by (simp add: parse_ipv4_def parse_octet_text)
qed

subsection \<open>Version 6\<close>

lemma hex_digit_facts:
  assumes "0 \<le> n" and "n < 16"
  shows "hex_value (hex_char_of n) = n" and "is_hex (hex_char_of n)" and "hex_char_of n \<notin> {CHR ''.'', CHR '':'', CHR ''/''}"
    and "hex_char_of n = CHR ''0'' \<longleftrightarrow> n = 0"
proof -
  have "\<forall>n\<in>set [0 .. 15]. hex_value (hex_char_of n) = n \<and> is_hex (hex_char_of n)
    \<and> hex_char_of n \<notin> {CHR ''.'', CHR '':'', CHR ''/''} \<and> (hex_char_of n = CHR ''0'' \<longleftrightarrow> n = 0)" by code_simp
  moreover have "n \<in> set [0 .. 15]" using assms by simp
  ultimately show "hex_value (hex_char_of n) = n" "is_hex (hex_char_of n)"
    "hex_char_of n \<notin> {CHR ''.'', CHR '':'', CHR ''/''}" "hex_char_of n = CHR ''0'' \<longleftrightarrow> n = 0" by blast+
qed

lemma hex_text_one: "n < 16 \<Longrightarrow> hex_text n = [hex_char_of n]"
  by (subst hex_text.simps) simp

lemma hex_text_snoc: "\<not> n < 16 \<Longrightarrow> hex_text n = hex_text (n div 16) @ [hex_char_of (n mod 16)]"
  by (subst hex_text.simps) simp

lemma hex_text_value:
  "0 \<le> n \<Longrightarrow> hex_text n \<noteq> [] \<and> list_all is_hex (hex_text n) \<and> foldl (\<lambda>n c. 16 * n + hex_value c) 0 (hex_text n) = n
     \<and> set (hex_text n) \<inter> {CHR ''.'', CHR '':'', CHR ''/''} = {} \<and> (hex_text n = ''0'' \<longleftrightarrow> n = 0)"
proof (induction n rule: hex_text.induct)
  case (1 n)
  show ?case
  proof (cases "n < 16")
    case True
    then show ?thesis using hex_digit_facts [of n] 1(2) by (simp add: hex_text_one)
  next
    case False
    then show ?thesis using 1(1) [OF False] hex_digit_facts [of "n mod 16"] by (simp add: hex_text_snoc)
  qed
qed

lemma hex_text_ne [simp]: "hex_text n \<noteq> []" "[] \<noteq> hex_text n"
  by (subst hex_text.simps, simp)+

lemma hex_text_length: "0 \<le> n \<Longrightarrow> n < 16 ^ k \<Longrightarrow> 0 < k \<Longrightarrow> length (hex_text n) \<le> k"
proof (induction k arbitrary: n)
  case (Suc k)
  show ?case
  proof (cases "n < 16")
    case False
    moreover have "0 < k" using False Suc.prems(2) by (cases k) auto
    moreover have "n div 16 < 16 ^ k" using Suc.prems(2) by (simp add: div_less_iff_less_mult mult.commute)
    ultimately show ?thesis using Suc.IH [of "n div 16"] Suc.prems(1) by (simp add: hex_text_snoc)
  qed (simp add: hex_text_one)
qed simp

lemma parse_hextet_text: "0 \<le> n \<Longrightarrow> n < 65536 \<Longrightarrow> parse_hextet (hex_text n) = Some n"
  using hex_text_value [of n] hex_text_length [of n 4] by (simp add: parse_hextet_def)

lemma all_some_map: "\<forall>x\<in>set xs. f x = Some (g x) \<Longrightarrow> all_some (map f xs) = Some (map g xs)"
  by (induction xs) auto

lemma all_hextets: "\<forall>h\<in>set hs. 0 \<le> h \<and> h < 65536 \<Longrightarrow> all_some (map (parse_hextet \<circ> hex_text) hs) = Some hs"
  using all_some_map [of hs "parse_hextet \<circ> hex_text" id] parse_hextet_text by simp

lemma foldl_digits:
  "foldl (\<lambda>n h. 65536 * n + h) x (map (\<lambda>i. a div 65536 ^ (k - Suc i) mod 65536) [0 ..< k]) = x * 65536 ^ k + a mod (65536 ^ k :: int)"
proof (induction k arbitrary: x)
  case (Suc k)
  have l: "map (\<lambda>i. a div 65536 ^ (Suc k - Suc i) mod 65536) [0 ..< Suc k]
    = (a div 65536 ^ k mod 65536) # map (\<lambda>i. a div 65536 ^ (k - Suc i) mod 65536) [0 ..< k]"
    by (simp add: upt_conv_Cons map_Suc_upt [symmetric] del: upt_Suc)
  have "a mod 65536 ^ Suc k = 65536 ^ k * (a div 65536 ^ k mod 65536) + a mod 65536 ^ k"
    using zmod_zmult2_eq [of 65536 a "65536 ^ k"] by (simp add: mult.commute)
  then show ?case unfolding l foldl_Cons Suc.IH by (simp add: algebra_simps)
qed simp

lemma join_hextets_of: "0 \<le> a \<Longrightarrow> a < 2 ^ 128 \<Longrightarrow> join_hextets (hextets_of a) = a"
proof -
  assume "0 \<le> a" "a < 2 ^ 128"
  moreover have "(65536 :: int) ^ 8 = 2 ^ 128" by simp
  moreover have "hextets_of a = map (\<lambda>i. a div 65536 ^ (8 - Suc i) mod 65536) [0 ..< 8]" by (simp add: hextets_of_def)
  ultimately show ?thesis unfolding join_hextets_def by (simp only: foldl_digits) simp
qed

text \<open>The run that is replaced by \<open>::\<close> consists of zeros.\<close>

definition zero_run :: "string list \<Rightarrow> nat \<Rightarrow> nat \<times> nat \<Rightarrow> bool" where
  "zero_run hs n = (\<lambda>(s, l). s + l \<le> n \<and> (\<forall>i. s \<le> i \<and> i < s + l \<longrightarrow> hs ! i = ''0''))"

lemma best_run_zero:
  assumes "zero_run (pre @ hs) (length pre) best" and "zero_run (pre @ hs) (length pre) (s, l)" and "0 < l \<longrightarrow> s + l = length pre"
  shows "zero_run (pre @ hs) (length (pre @ hs)) (best_run (length pre) (s, l) best hs)"
  using assms
proof (induction hs arbitrary: pre s l best)
  case (Cons h hs)
  obtain bs bl where best: "best = (bs, bl)" by fastforce
  have grow: "zero_run ((pre @ [h]) @ hs) (length (pre @ [h])) r" if "zero_run (pre @ h # hs) (length pre) r" for r
    using that by (auto simp: zero_run_def)
  show ?case
  proof (cases "h = ''0''")
    case True
    let ?s = "if l = 0 then length pre else s"
    have run: "zero_run ((pre @ [h]) @ hs) (length (pre @ [h])) (?s, l + 1)"
      using Cons.prems(2,3) True by (auto simp: zero_run_def nth_append less_Suc_eq)
    have "zero_run ((pre @ [h]) @ hs) (length (pre @ [h])) (if bl < l + 1 then (?s, l + 1) else (bs, bl))"
      using run grow [OF Cons.prems(1)] best by simp
    moreover have "?s + (l + 1) = length (pre @ [h])" using Cons.prems(3) by simp
    moreover have "best_run (length pre) (s, l) best (h # hs)
      = best_run (length (pre @ [h])) (?s, l + 1) (if bl < l + 1 then (?s, l + 1) else (bs, bl)) hs"
      using True best by (simp add: Let_def)
    ultimately show ?thesis using Cons.IH [OF _ run] by (metis append.assoc append_Cons append_Nil)
  next
    case False
    have "zero_run ((pre @ [h]) @ hs) (length (pre @ [h])) (0, 0)" by (simp add: zero_run_def)
    then show ?thesis using Cons.IH [OF grow [OF Cons.prems(1)], of 0 0] False best by simp
  qed
qed simp

lemma filter_upt_single:
  assumes "a \<le> i" and "i < b" and "\<And>j. a \<le> j \<Longrightarrow> j < b \<Longrightarrow> P j \<longleftrightarrow> j = i"
  shows "filter P [a ..< b] = [i]"
proof -
  have "[a ..< b] = [a ..< i] @ [i ..< b]" using upt_add_eq_append [OF assms(1), of "b - i"] assms(2) by simp
  also have "[i ..< b] = i # [Suc i ..< b]" using assms(2) by (rule upt_conv_Cons)
  finally have "[a ..< b] = [a ..< i] @ i # [Suc i ..< b]" .
  then show ?thesis using assms by (simp add: filter_empty_conv)
qed

lemma no_skips: "\<forall>p\<in>set ps. p \<noteq> [] \<Longrightarrow> filter (\<lambda>i. ps ! i = []) [1 ..< length ps - 1] = []"
  by (auto simp: filter_empty_conv)

text \<open>Hextets around \<open>::\<close>, with the empty parts that \<open>join\<close> needs at the ends.\<close>

definition around :: "string list \<Rightarrow> string list \<Rightarrow> string list" where
  "around P D = (if P = [] then [[]] else []) @ P @ [[]] @ D @ (if D = [] then [[]] else [])"

lemma around_skip:
  assumes "\<forall>p\<in>set P \<union> set D. p \<noteq> []"
  shows "filter (\<lambda>i. around P D ! i = []) [1 ..< length (around P D) - 1] = [max 1 (length P)]"
proof (rule filter_upt_single)
  fix j assume j: "1 \<le> j" "j < length (around P D) - 1"
  have D: "D ! i \<noteq> []" if "i < length D" for i using that assms by auto
  show "around P D ! j = [] \<longleftrightarrow> j = max 1 (length P)"
  proof (cases P)
    case Nil
    then show ?thesis using j D by (auto simp: around_def nth_append nth_Cons split: if_splits nat.splits)
  next
    case (Cons a list)
    have "list ! i \<noteq> []" if "i < length list" for i using that assms Cons by auto
    then show ?thesis using j D Cons by (auto simp: around_def nth_append nth_Cons split: if_splits nat.splits)
  qed
qed (cases P; cases D; simp add: around_def)+

lemma parse_around:
  assumes "\<forall>h\<in>set H. 0 \<le> h \<and> h < 65536" and "\<forall>h\<in>set L. 0 \<le> h \<and> h < 65536" and "length H + length L < 8"
  shows "parse_hextets (around (map hex_text H) (map hex_text L)) = Some (H @ replicate (8 - (length H + length L)) 0 @ L)"
proof -
  let ?P = "map hex_text H" and ?D = "map hex_text L"
  let ?c = "around ?P ?D"
  have ne: "\<forall>p\<in>set ?P \<union> set ?D. p \<noteq> []" by auto
  have sk: "filter (\<lambda>i. ?c ! i = []) [1 ..< length ?c - 1] = [max 1 (length H)]" using around_skip [OF ne] by (simp only: length_map)
  have n: "length ?c = (if H = [] then 1 else 0) + length H + 1 + length L + (if L = [] then 1 else 0)"
    by (simp add: around_def)
  have hd: "hd ?c = [] \<longleftrightarrow> H = []" using ne by (cases H) (auto simp: around_def)
  have last: "last ?c = [] \<longleftrightarrow> L = []" using ne by (cases L rule: rev_cases) (auto simp: around_def)
  have hi: "(if hd ?c = [] then max 1 (length H) - 1 else max 1 (length H)) = length H"
    unfolding hd by (cases H) auto
  have lo: "(if last ?c = [] then length ?c - max 1 (length H) - 2 else length ?c - max 1 (length H) - 1) = length L"
    unfolding last n by (cases H; cases L) auto
  have t: "take (length H) ?c = ?P" by (cases H) (auto simp: around_def)
  have d: "drop (length ?c - length L) ?c = ?D" unfolding n by (cases H; cases L) (auto simp: around_def)
  have s: "all_some (map parse_hextet ?P) = Some H" "all_some (map parse_hextet ?D) = Some L"
    using all_hextets [OF assms(1)] all_hextets [OF assms(2)] by simp_all
  have "\<not> 9 < length ?c" using n assms(3) by (cases H; cases L) auto
  then show ?thesis
    unfolding parse_hextets_def Let_def sk list.case hi lo t d s using assms(3) by (simp add: hd last)
qed

lemma hextets_of_bounds: "length (hextets_of a) = 8" "\<forall>h\<in>set (hextets_of a). 0 \<le> h \<and> h < 65536"
  "\<forall>h\<in>set (hextets_of a). 0 \<le> h"
  by (auto simp: hextets_of_def)

lemma replicate_zero_run:
  assumes "zero_run (map hex_text H) (length H) (s, l)" and "\<forall>h\<in>set H. 0 \<le> h"
  shows "take s H @ replicate l 0 @ drop (s + l) H = H"
proof -
  have "take l (drop s H) = replicate l 0"
  proof (rule nth_equalityI)
    show "length (take l (drop s H)) = length (replicate l 0)" using assms by (auto simp: zero_run_def)
    fix i assume "i < length (take l (drop s H))"
    then have i: "i < l" "s + i < length H" by auto
    have "\<forall>i. s \<le> i \<and> i < s + l \<longrightarrow> map hex_text H ! i = ''0''" using assms unfolding zero_run_def by blast
    then have "map hex_text H ! (s + i) = ''0''" using i(1) by (auto dest: spec [of _ "s + i"])
    then have "hex_text (H ! (s + i)) = ''0''" using i by simp
    moreover have "0 \<le> H ! (s + i)" using assms(2) i(2) by simp
    ultimately show "take l (drop s H) ! i = replicate l 0 ! i" using i hex_text_value [of "H ! (s + i)"] by simp
  qed
  then show ?thesis by (metis append_take_drop_id drop_drop add.commute)
qed

text \<open>The parts of a printed address: eight hextets, or those around the run.\<close>

lemma compress_cases:
  assumes "length H = 8" and "\<forall>h\<in>set H. 0 \<le> h"
  obtains "compress_hextets (map hex_text H) = map hex_text H"
  | s l where "1 < l" "s + l \<le> 8" "take s H @ replicate l 0 @ drop (s + l) H = H"
      "compress_hextets (map hex_text H) = around (map hex_text (take s H)) (map hex_text (drop (s + l) H))"
proof -
  obtain s l where sl: "best_run 0 (0, 0) (0, 0) (map hex_text H) = (s, l)" by fastforce
  have "zero_run ([] @ map hex_text H) (length ([] :: string list)) (0, 0)" by (simp add: zero_run_def)
  from best_run_zero [OF this this] have z: "zero_run (map hex_text H) (length H) (s, l)" using sl by simp
  show thesis
  proof (cases "1 < l")
    case True
    have "s + l \<le> 8" using z assms by (simp add: zero_run_def)
    moreover have "compress_hextets (map hex_text H) = around (map hex_text (take s H)) (map hex_text (drop (s + l) H))"
      using sl True assms \<open>s + l \<le> 8\<close> by (auto simp: compress_hextets_def around_def take_map drop_map)
    ultimately show thesis using that(2) True replicate_zero_run [OF z assms(2)] by blast
  next
    case False
    then show thesis using that(1) sl by (simp add: compress_hextets_def)
  qed
qed

lemma parse_compressed:
  assumes "length H = 8" and "\<forall>h\<in>set H. 0 \<le> h \<and> h < 65536" and "\<forall>h\<in>set H. 0 \<le> h"
  shows "parse_hextets (compress_hextets (map hex_text H)) = Some H"
  using assms(1,3)
proof (cases rule: compress_cases)
  case 1
  have "H \<noteq> []" using assms(1) by auto
  then have "hd (map hex_text H) \<noteq> []" "last (map hex_text H) \<noteq> []" by (simp_all add: hd_map last_map)
  then show ?thesis
    using 1 assms(1) all_hextets [OF assms(2)] no_skips [of "map hex_text H"] by (simp add: parse_hextets_def)
next
  case (2 s l)
  have "\<forall>h\<in>set (take s H). 0 \<le> h \<and> h < 65536" "\<forall>h\<in>set (drop (s + l) H). 0 \<le> h \<and> h < 65536"
    using assms(2) by (auto dest: in_set_takeD in_set_dropD)
  moreover have "length (take s H) + length (drop (s + l) H) < 8" "8 - (length (take s H) + length (drop (s + l) H)) = l"
    using 2(1,2) assms(1) by auto
  ultimately show ?thesis using parse_around [of "take s H" "drop (s + l) H"] 2(3,4) by simp
qed

lemma compressed_chars:
  assumes "length H = 8" and "\<forall>h\<in>set H. 0 \<le> h"
  shows "\<forall>p\<in>set (compress_hextets (map hex_text H)). set p \<inter> {CHR ''.'', CHR '':'', CHR ''/''} = {}"
    and "3 \<le> length (compress_hextets (map hex_text H))"
proof -
  have h: "set (hex_text h) \<inter> {CHR ''.'', CHR '':'', CHR ''/''} = {}" if "0 \<le> h" for h
    using hex_text_value [OF that] by blast
  have m: "\<forall>p\<in>set (map hex_text xs). set p \<inter> {CHR ''.'', CHR '':'', CHR ''/''} = {}" if "set xs \<subseteq> set H" for xs
  proof
    fix p assume "p \<in> set (map hex_text xs)"
    then obtain x where "p = hex_text x" "x \<in> set xs" unfolding set_map by blast
    then show "set p \<inter> {CHR ''.'', CHR '':'', CHR ''/''} = {}" using h that assms(2) by blast
  qed
  show "\<forall>p\<in>set (compress_hextets (map hex_text H)). set p \<inter> {CHR ''.'', CHR '':'', CHR ''/''} = {}"
    using assms
  proof (cases rule: compress_cases)
    case 1
    then show ?thesis using m [OF subset_refl] by (simp only:)
  next
    case (2 s l)
    have sub: "set (around P D) \<subseteq> insert [] (set P \<union> set D)" for P D by (auto simp: around_def)
    show ?thesis
    proof
      fix p assume "p \<in> set (compress_hextets (map hex_text H))"
      then have "p = [] \<or> p \<in> set (map hex_text (take s H)) \<or> p \<in> set (map hex_text (drop (s + l) H))"
        unfolding 2(4) using sub by blast
      then show "set p \<inter> {CHR ''.'', CHR '':'', CHR ''/''} = {}"
      proof (elim disjE)
        assume "p = []"
        then show ?thesis by simp
      qed (rule bspec [OF m [OF set_take_subset]], assumption, rule bspec [OF m [OF set_drop_subset]], assumption)
    qed
  qed
  show "3 \<le> length (compress_hextets (map hex_text H))"
    using assms
  proof (cases rule: compress_cases)
    case (2 s l)
    then show ?thesis using assms by (cases "s = 0"; cases "s + l = 8") (auto simp: around_def)
  qed (simp add: assms)
qed

lemma parse_ipv6_text:
  assumes "0 \<le> a" and "a < 2 ^ 128"
  shows "parse_ipv6 (ipv6_text a) = Some a"
proof -
  let ?c = "compress_hextets (map hex_text (hextets_of a))"
  note c = compressed_chars [OF hextets_of_bounds(1,3), of a]
  have ne: "?c \<noteq> []" using c(2) by auto
  have "\<forall>p\<in>set ?c. CHR '':'' \<notin> set p" using c(1) by blast
  then have "split_char CHR '':'' (ipv6_text a) = ?c" unfolding ipv6_text_def using ne by (rule split_join [rotated])
  moreover have "CHR ''.'' \<notin> set (last ?c)" using c(1) last_in_set [OF ne] by blast
  ultimately have "hextet_parts (ipv6_text a) = Some ?c" using c(2) by (simp add: hextet_parts_def)
  then show ?thesis
    using parse_compressed [OF hextets_of_bounds] join_hextets_of [OF assms] by (simp add: parse_ipv6_def)
qed

lemma ipv6_text_chars: "CHR ''.'' \<notin> set (ipv6_text a)" "CHR ''/'' \<notin> set (ipv6_text a)"
proof -
  have j: "set (join [CHR '':''] ps) \<subseteq> insert CHR '':'' (\<Union> (set ` set ps))" for ps
    by (induction ps rule: induct_list012) auto
  show "CHR ''.'' \<notin> set (ipv6_text a)" "CHR ''/'' \<notin> set (ipv6_text a)"
    using j [of "compress_hextets (map hex_text (hextets_of a))"] compressed_chars(1) [OF hextets_of_bounds(1,3), of a]
    unfolding ipv6_text_def by fastforce+
qed

lemma ipv4_text_chars: "CHR ''/'' \<notin> set (ipv4_text a)"
  using dec_text_chars [of _ "CHR ''/''"] by (simp add: ipv4_text_def)

lemma parse_ipv4_of_ipv6: "parse_ipv4 (ipv6_text a) = None"
  using ipv6_text_chars by (simp add: parse_ipv4_def split_char_no split: option.splits)

lemma network_roundtrip:
  assumes "wf_net n"
  shows "parse_network (network_text n) = Some n"
proof -
  note b = wf_net_bounds [OF assms]
  have sl: "CHR ''/'' \<notin> set (nat_text (net_prefixlen n))" by (simp add: nat_text_chars)
  show ?thesis
  proof (cases "net_version n")
    case V4
    then have "split_char CHR ''/'' (network_text n) = [ipv4_text (net_address n), nat_text (net_prefixlen n)]"
      using ipv4_text_chars sl by (simp add: network_text_def split_char_app split_char_no)
    then have "parse_network_as V4 (network_text n) = Some n"
      using parse_ipv4_text [of "net_address n"] parse_prefix_text [of "net_prefixlen n" V4] b V4 masked_id [OF assms]
      by (simp add: parse_network_as_def)
    then show ?thesis by (simp add: parse_network_def)
  next
    case V6
    then have "split_char CHR ''/'' (network_text n) = [ipv6_text (net_address n), nat_text (net_prefixlen n)]"
      using ipv6_text_chars sl by (simp add: network_text_def split_char_app split_char_no)
    then have "parse_network_as V4 (network_text n) = None" "parse_network_as V6 (network_text n) = Some n"
      using parse_ipv6_text [of "net_address n"] parse_prefix_text [of "net_prefixlen n" V6] b V6 masked_id [OF assms]
        parse_ipv4_of_ipv6 by (simp_all add: parse_network_as_def)
    then show ?thesis by (simp add: parse_network_def)
  qed
qed

end
