(* ===== verification/Rules_Meaning.thy ===== *)
theory Rules_Meaning
  imports Rules_Compile Ip_Properties "HOL-Library.Sublist"
begin

text \<open>
  What a rule matches: the addresses of its network and the domains of its name. Accepted values are
  canonical, overlapping is a common address, and subsumed suffixes match nothing new.
\<close>

section \<open>Bounds of parsed values\<close>

lemma foldl_digits_bound:
  assumes "\<forall>x\<in>set xs. 0 \<le> f x \<and> f x < b" and "0 \<le> (n::int)" and "0 < b"
  shows "0 \<le> foldl (\<lambda>n x. b * n + f x) n xs \<and> foldl (\<lambda>n x. b * n + f x) n xs < (n + 1) * b ^ length xs"
  using assms
proof (induction xs arbitrary: n)
  case (Cons x xs)
  have "0 \<le> b * n + f x" using Cons.prems by simp
  then have ih: "0 \<le> foldl (\<lambda>n x. b * n + f x) (b * n + f x) xs"
    "foldl (\<lambda>n x. b * n + f x) (b * n + f x) xs < (b * n + f x + 1) * b ^ length xs"
    using Cons.IH [of "b * n + f x"] Cons.prems by auto
  have "b * n + f x + 1 \<le> (n + 1) * b" using Cons.prems(1) by (simp add: algebra_simps)
  then have "(b * n + f x + 1) * b ^ length xs \<le> (n + 1) * b * b ^ length xs" using Cons.prems(3) by (intro mult_right_mono) auto
  then show ?case using ih by (simp add: mult.assoc)
qed simp

lemma digit_val_bound: "is_digit c \<Longrightarrow> 0 \<le> digit_val c \<and> digit_val c < 10"
  by (auto simp: is_digit_def digit_val_def decimal_digits_def)

lemma digits_opt_nonneg: "digits_opt s = Some n \<Longrightarrow> 0 \<le> n"
  using foldl_digits_bound [of s digit_val 10 0] digit_val_bound
  by (auto simp: digits_opt_def list_all_iff split: if_splits)

lemma parse_octet_bound: "parse_octet s = Some n \<Longrightarrow> 0 \<le> n \<and> n < 256"
  using digits_opt_nonneg by (auto simp: parse_octet_def split: option.splits if_splits)

lemma parse_ipv4_bound:
  assumes "parse_ipv4 s = Some a"
  shows "0 \<le> a \<and> a < 2 ^ 32"
proof -
  obtain ps w x y z where ps: "split_char CHR ''.'' s = ps" "map parse_octet ps = [Some w, Some x, Some y, Some z]"
    and a: "a = ((w * 256 + x) * 256 + y) * 256 + z"
    using assms by (auto simp: parse_ipv4_def split: list.splits option.splits)
  then have "Some w \<in> parse_octet ` set ps" "Some x \<in> parse_octet ` set ps" "Some y \<in> parse_octet ` set ps"
    "Some z \<in> parse_octet ` set ps" by (simp_all flip: set_map)
  then have "0 \<le> w \<and> w < 256" "0 \<le> x \<and> x < 256" "0 \<le> y \<and> y < 256" "0 \<le> z \<and> z < 256"
    using parse_octet_bound by force+
  then show ?thesis using a by simp
qed

lemma length_takeWhile_hit: "x \<in> set xs \<Longrightarrow> length (takeWhile (\<lambda>y. y \<noteq> x) xs) < length xs"
  by (induction xs) auto

lemma hex_value_bound: "is_hex c \<Longrightarrow> 0 \<le> hex_value c \<and> hex_value c < 16"
  using length_takeWhile_hit [of "lower_char c" hex_digits] by (simp add: is_hex_def hex_value_def hex_digits_def)

lemma parse_hextet_bound: "parse_hextet s = Some n \<Longrightarrow> 0 \<le> n \<and> n < 65536"
proof -
  assume p: "parse_hextet s = Some n"
  then have n: "n = foldl (\<lambda>n c. 16 * n + hex_value c) 0 s" "list_all is_hex s" "length s \<le> 4"
    by (auto simp: parse_hextet_def split: if_splits)
  have "(16::int) ^ length s \<le> 16 ^ 4" using n(3) by (intro power_increasing) auto
  then show ?thesis
    using foldl_digits_bound [of s hex_value 16 0] hex_value_bound n by (auto simp: list_all_iff)
qed

lemma all_some_SomeD: "all_some xs = Some ys \<Longrightarrow> xs = map Some ys"
  by (induction xs arbitrary: ys rule: all_some.induct) auto

lemma all_hextet_bound: "all_some (map parse_hextet ps) = Some hs \<Longrightarrow> length hs = length ps \<and> (\<forall>h\<in>set hs. 0 \<le> h \<and> h < 65536)"
proof -
  assume "all_some (map parse_hextet ps) = Some hs"
  then have e: "map parse_hextet ps = map Some hs" by (rule all_some_SomeD)
  then have "\<forall>h\<in>set hs. \<exists>p. parse_hextet p = Some h" by (metis (no_types, lifting) imageE image_eqI list.set_map)
  then show ?thesis using parse_hextet_bound map_eq_imp_length_eq [OF e] by metis
qed

lemma parse_hextets_bound:
  assumes "parse_hextets ps = Some hs"
  shows "length hs = 8 \<and> (\<forall>h\<in>set hs. 0 \<le> h \<and> h < 65536)"
proof (cases "filter (\<lambda>i. ps ! i = []) [1 ..< length ps - 1]")
  case Nil
  then have "length ps = 8" "all_some (map parse_hextet ps) = Some hs"
    using assms unfolding parse_hextets_def Let_def by (simp_all only: list.case split: if_splits) auto
  then show ?thesis using all_hextet_bound by metis
next
  case (Cons i js)
  then have "i \<in> set (filter (\<lambda>i. ps ! i = []) [1 ..< length ps - 1])" by simp
  then have i: "1 \<le> i" "i < length ps - 1" by auto
  define hi where "hi = (if hd ps = [] then i - 1 else i)"
  define lo where "lo = (if last ps = [] then length ps - i - 2 else length ps - i - 1)"
  have "js = []" using assms Cons unfolding parse_hextets_def Let_def by (cases js) (simp_all split: if_splits)
  with Cons have f: "filter (\<lambda>i. ps ! i = []) [1 ..< length ps - 1] = [i]" by simp
  obtain hs1 hs2 where h: "all_some (map parse_hextet (take hi ps)) = Some hs1"
    "all_some (map parse_hextet (drop (length ps - lo) ps)) = Some hs2"
    "hs = hs1 @ replicate (8 - (hi + lo)) 0 @ hs2" "hi + lo + 1 \<le> 8"
    using assms unfolding parse_hextets_def Let_def f list.case hi_def [symmetric] lo_def [symmetric]
    by (auto split: if_split_asm option.split_asm)
  have "hi \<le> length ps" "lo \<le> length ps" using i by (auto simp: hi_def lo_def)
  then show ?thesis using h all_hextet_bound [OF h(1)] all_hextet_bound [OF h(2)] by auto
qed

lemma parse_ipv6_bound:
  assumes "parse_ipv6 s = Some a"
  shows "0 \<le> a \<and> a < 2 ^ 128"
proof -
  obtain ps hs where "parse_hextets ps = Some hs" "a = join_hextets hs"
    using assms by (auto simp: parse_ipv6_def split: option.splits)
  then have "length hs = 8" "\<forall>h\<in>set hs. 0 \<le> h \<and> h < 65536" "a = join_hextets hs" using parse_hextets_bound by auto
  then show ?thesis using foldl_digits_bound [of hs id 65536 0] by (simp add: join_hextets_def)
qed

lemma parse_prefix_bound: "parse_prefix v s = Some len \<Longrightarrow> len \<le> max_prefixlen v"
  using digits_opt_nonneg
  by (auto simp: parse_prefix_def find_Some_iff split: option.splits if_splits) (cases v; simp; linarith)+

lemma parse_network_as_wf: "parse_network_as v s = Some n \<Longrightarrow> wf_net n"
  by (auto simp: parse_network_as_def Let_def split: list.splits option.splits ip_version.splits
      dest: parse_ipv4_bound parse_ipv6_bound parse_prefix_bound intro!: masked_wf)

lemma parse_network_wf: "parse_network s = Some n \<Longrightarrow> wf_net n"
  by (auto simp: parse_network_def split: option.splits intro: parse_network_as_wf)

section \<open>What a rule matches\<close>

definition net_space :: "ip_net \<Rightarrow> (ip_version \<times> int) set" where
  "net_space n = Pair (net_version n) ` addresses n"

definition rule_addresses :: "rule_entry \<Rightarrow> (ip_version \<times> int) set" where
  "rule_addresses r = (case network_for_rule (ru_kind r) (ru_value r) of None \<Rightarrow> {} | Some n \<Rightarrow> net_space n)"

text \<open>A suffix rule \<open>.example.org\<close> matches the name itself and everything below it.\<close>

definition suffix_domains :: "string \<Rightarrow> string set" where
  "suffix_domains value = {d. suffix value (CHR ''.'' # d)}"

definition rule_domains :: "rule_entry \<Rightarrow> string set" where
  "rule_domains r =
     (if ru_kind r = ''domain'' then {ru_value r}
      else if ru_kind r = ''domain_suffix'' then suffix_domains (ru_value r) else {})"

definition rules_addresses :: "rule_entry list \<Rightarrow> (ip_version \<times> int) set" where
  "rules_addresses rules = (\<Union>r\<in>set rules. rule_addresses r)"

definition rules_domains :: "rule_entry list \<Rightarrow> string set" where
  "rules_domains rules = (\<Union>r\<in>set rules. rule_domains r)"

text \<open>The values the compiler accepts: printed addresses and networks, names of one or more labels.\<close>

definition canonical_value :: "string \<Rightarrow> string \<Rightarrow> bool" where
  "canonical_value kind value =
     (if kind = ''ip'' then (case parse_address value of Some (v, a) \<Rightarrow> address_text v a = value | None \<Rightarrow> False)
      else if kind = ''cidr'' then (case parse_network value of Some n \<Rightarrow> network_text n = value | None \<Rightarrow> False)
      else if kind = ''domain'' then domain_name value
      else kind = ''domain_suffix'' \<and> starts_with value ''.'' \<and> (domain_label (tl value) \<or> domain_name (tl value)))"

definition wf_rule :: "rule_entry \<Rightarrow> bool" where
  "wf_rule r = canonical_value (ru_kind r) (ru_value r)"

lemma overlaps_iff: "overlaps m n \<longleftrightarrow> net_space m \<inter> net_space n \<noteq> {}"
proof -
  have p: "0 < (2::int) ^ host_bits m" "0 < (2::int) ^ host_bits n" by simp_all
  have c: "(contains_address n (net_address m) \<or> contains_address n (broadcast m) \<or> contains_address m (net_address n)
      \<or> contains_address m (broadcast n))
    \<longleftrightarrow> net_address m < net_address n + 2 ^ host_bits n \<and> net_address n < net_address m + 2 ^ host_bits m"
    unfolding contains_address_def broadcast_def using p by linarith
  have "addresses m \<inter> addresses n \<noteq> {}
    \<longleftrightarrow> net_address m < net_address n + 2 ^ host_bits n \<and> net_address n < net_address m + 2 ^ host_bits m"
    unfolding addresses_def Int_atLeastLessThan using p by (simp add: max_def min_def; linarith)
  then have "overlaps m n \<longleftrightarrow> net_version m = net_version n \<and> addresses m \<inter> addresses n \<noteq> {}"
    unfolding overlaps_def c by blast
  then show ?thesis unfolding net_space_def by auto
qed

section \<open>Accepted values are canonical\<close>

lemma parse_address_text:
  assumes "0 \<le> a" and "a < 2 ^ max_prefixlen v"
  shows "parse_address (address_text v a) = Some (v, a)"
  using assms by (cases v) (simp_all add: parse_address_def parse_ipv4_text parse_ipv6_text parse_ipv4_of_ipv6)

lemma parse_address_bound: "parse_address s = Some (v, a) \<Longrightarrow> 0 \<le> a \<and> a < 2 ^ max_prefixlen v"
  by (auto simp: parse_address_def dest: parse_ipv4_bound parse_ipv6_bound split: option.splits)

lemma normalize_domain_accepts:
  assumes "normalize_domain_name allow value = Some d"
  shows "domain_name d \<or> allow \<and> domain_label d"
  using assms by (auto simp: normalize_domain_name_def Let_def split: if_splits)

lemma normalize_rule_value_canonical:
  assumes "normalize_rule_value value = Inr (kind, x)"
  shows "canonical_value kind x"
proof (cases "parse_address (strip value)")
  case (Some va)
  obtain v a where va: "va = (v, a)" by fastforce
  then have "kind = ''ip''" "x = address_text v a"
    using assms Some by (auto simp: normalize_rule_value_def Let_def split: if_splits)
  moreover have "parse_address (address_text v a) = Some (v, a)"
    using parse_address_bound parse_address_text Some va by blast
  ultimately show ?thesis by (simp add: canonical_value_def)
next
  case none: None
  show ?thesis
  proof (cases "parse_network (strip value)")
    case (Some n)
    then have "kind = ''cidr''" "x = network_text n"
      using assms none by (auto simp: normalize_rule_value_def Let_def split: if_splits)
    then show ?thesis using network_roundtrip [OF parse_network_wf [OF Some]] by (simp add: canonical_value_def)
  next
    case None
    consider (suffix) d where "normalize_domain_name True (lstrip_dots (strip value)) = Some d" "kind = ''domain_suffix''"
        "x = ''.'' @ d"
      | (domain) "normalize_domain_name False (strip value) = Some x" "kind = ''domain''"
      using assms none None unfolding normalize_rule_value_def Let_def by (auto split: if_splits option.splits)
    then show ?thesis
    proof cases
      case suffix
      then show ?thesis using normalize_domain_accepts [OF suffix(1)] by (auto simp add: canonical_value_def starts_with_def)
    next
      case domain
      then show ?thesis using normalize_domain_accepts [OF domain(1)] by (simp add: canonical_value_def)
    qed
  qed
qed

lemma host_network_text: "address_text v a @ ''/'' @ (if v = V4 then ''32'' else ''128'')
    = network_text \<lparr>net_version = v, net_address = a, net_prefixlen = max_prefixlen v\<rparr>"
proof -
  have "nat_text 32 = ''32''" "nat_text 128 = ''128''" by code_simp+
  then show ?thesis by (cases v) (simp_all add: network_text_def)
qed

lemma canonical_network:
  assumes "canonical_value kind value" and "kind \<in> {''ip'', ''cidr''}"
  obtains n where "network_for_rule kind value = Some n" and "wf_net n"
proof (cases "kind = ''ip''")
  case True
  then obtain v a where v: "parse_address value = Some (v, a)" "address_text v a = value"
    using assms by (auto simp: canonical_value_def split: option.splits)
  let ?n = "\<lparr>net_version = v, net_address = a, net_prefixlen = max_prefixlen v\<rparr>"
  have wf: "wf_net ?n" using parse_address_bound [OF v(1)] by (simp add: wf_net_def host_bits_def)
  have "value @ ''/'' @ (if v = V4 then ''32'' else ''128'') = network_text ?n"
    using host_network_text [of v a] v(2) by simp
  then have "network_for_rule kind value = Some ?n"
    using True v(1) network_roundtrip [OF wf] by (simp add: network_for_rule_def)
  then show ?thesis using wf that by blast
next
  case False
  then show ?thesis
    using assms that by (auto simp: canonical_value_def network_for_rule_def dest: parse_network_wf split: option.splits)
qed

end
