(* ===== verification/Network_Properties.thy ===== *)
theory Network_Properties
  imports Rules_Meaning
begin

text \<open>
  Properties of the network contract: every configured network is protected, the texts that the contract
  hands out always parse, and interfaces with a role of their own never count as LAN.
\<close>

section \<open>Printed networks survive stripping\<close>

text \<open>The characters of values.\<close>

definition value_char :: "char \<Rightarrow> bool" where
  "value_char c = (is_hex c \<or> c \<in> {CHR ''.'', CHR '':'', CHR ''/'', CHR ''-''} \<or> CHR ''a'' \<le> c \<and> c \<le> CHR ''z'')"

lemma digit_value_char: "is_digit c \<Longrightarrow> value_char c"
proof -
  have "list_all value_char decimal_digits" by code_simp
  then show "is_digit c \<Longrightarrow> value_char c" by (simp add: is_digit_def list_all_iff)
qed

lemma value_char_plain:
  assumes "value_char c"
  shows "\<not> is_space c" "c \<noteq> CHR ''#''"
proof -
  have "list_all (\<lambda>c. \<not> value_char c) [CHR '' '', CHR 0x09, CHR 0x0A, CHR 0x0B, CHR 0x0C, CHR 0x0D, CHR 0x1C, CHR 0x1D,
    CHR 0x1E, CHR 0x1F, CHR ''#'']" by code_simp
  then show "\<not> is_space c" "c \<noteq> CHR ''#''" using assms by (auto simp: is_space_def)
qed

lemma set_join: "set (join sep ps) \<subseteq> set sep \<union> (\<Union>p\<in>set ps. set p)"
  by (induction ps rule: induct_list012) auto

lemma compress_subset: "set (compress_hextets hs) \<subseteq> insert [] (set hs)"
  by (auto simp: compress_hextets_def dest: in_set_takeD in_set_dropD split: prod.splits if_splits)

lemma dec_text_value_char: "0 \<le> n \<Longrightarrow> c \<in> set (dec_text n) \<Longrightarrow> value_char c"
  using dec_text_value [of n] digit_value_char by (auto simp: list_all_iff)

lemma ipv4_text_value_char:
  assumes "c \<in> set (ipv4_text a)"
  shows "value_char c"
proof -
  have j: "set ps \<subseteq> dec_text ` {0..} \<Longrightarrow> set (join ''.'' ps) \<subseteq> set ''.'' \<union> (\<Union>n\<in>{0..}. set (dec_text n))" for ps
    by (rule subset_trans [OF set_join]) fastforce
  have nn: "b mod 256 \<in> {0..}" for b :: int by simp
  have "set (ipv4_text a) \<subseteq> set ''.'' \<union> (\<Union>n\<in>{0..}. set (dec_text n))"
    unfolding ipv4_text_def by (rule j) (simp only: list.set insert_subset empty_subsetI imageI nn simp_thms)
  moreover have "value_char CHR ''.''" by (simp add: value_char_def)
  ultimately show ?thesis using assms dec_text_value_char by auto
qed

lemma ipv6_text_value_char:
  assumes "c \<in> set (ipv6_text a)"
  shows "value_char c"
proof -
  let ?ps = "compress_hextets (map hex_text (hextets_of a))"
  have "c \<in> set '':'' \<union> (\<Union>p\<in>set ?ps. set p)"
    using assms set_join [of "'':''" ?ps] by (simp add: subset_iff ipv6_text_def)
  moreover have "value_char c" if p: "p \<in> set ?ps" "c \<in> set p" for p
  proof -
    have "p \<noteq> []" using p(2) by auto
    then have "p \<in> set (map hex_text (hextets_of a))" using compress_subset p(1) by blast
    then obtain h where "h \<in> set (hextets_of a)" "p = hex_text h" by auto
    then have "list_all is_hex p" using hextets_of_bounds(3) [of a] hex_text_value [of h] by blast
    then show ?thesis using p(2) by (simp add: list_all_iff value_char_def)
  qed
  moreover have "value_char CHR '':''" by (simp add: value_char_def)
  ultimately show ?thesis by auto
qed

lemma address_text_value_char: "c \<in> set (address_text v a) \<Longrightarrow> value_char c"
  using ipv4_text_value_char ipv6_text_value_char by (cases v) auto

lemma network_text_value_char: "c \<in> set (network_text n) \<Longrightarrow> value_char c"
proof -
  assume "c \<in> set (network_text n)"
  then have "c \<in> set (address_text (net_version n) (net_address n)) \<or> c = CHR ''/'' \<or> c \<in> set (dec_text (int (net_prefixlen n)))"
    by (auto simp: network_text_def nat_text_def)
  moreover have "value_char CHR ''/''" by (simp add: value_char_def)
  ultimately show ?thesis using address_text_value_char dec_text_value_char [of "int (net_prefixlen n)" c] by auto
qed

lemma strip_all: "\<forall>c\<in>set s. \<not> is_space c \<Longrightarrow> strip s = s"
  by (cases "s = []") (auto intro: strip_trimmed)

lemma strip_value: "\<forall>c\<in>set s. value_char c \<Longrightarrow> strip s = s"
  using value_char_plain(1) by (intro strip_all) blast

lemma strip_network_text: "strip (network_text n) = network_text n"
  using network_text_value_char by (intro strip_value) blast

section \<open>Normalised lists of networks\<close>

definition network_texts :: "ip_version option \<Rightarrow> string \<Rightarrow> string set" where
  "network_texts version raw =
     (case parse_network (strip raw) of
        Some n \<Rightarrow> if version = None \<or> version = Some (net_version n) then {network_text n} else {}
      | None \<Rightarrow> {})"

lemma unique_networks_set: "set (unique_networks version acc raws) = set acc \<union> (\<Union>raw\<in>set raws. network_texts version raw)"
proof (induction raws arbitrary: acc)
  case (Cons raw raws)
  then show ?case by (cases "parse_network (strip raw)") (auto simp: network_texts_def [of _ raw])
qed simp

lemma unique_networks_distinct: "distinct acc \<Longrightarrow> distinct (unique_networks version acc raws)"
  by (induction version acc raws rule: unique_networks.induct) (auto split: option.splits)

lemma normalized_member:
  assumes "raw \<in> set raws" and "parse_network (strip raw) = Some n" and "version = None \<or> version = Some (net_version n)"
  shows "network_text n \<in> set (normalize_network_strings (Some raws) fallback version)"
proof -
  have "network_text n \<in> set (unique_networks version [] raws)"
    unfolding unique_networks_set using assms by (force simp: network_texts_def)
  then show ?thesis by (auto simp: normalize_network_strings_def Let_def)
qed

lemma normalized_parses:
  assumes "t \<in> set (normalize_network_strings raws fallback version)" and "\<forall>t\<in>set fallback. parse_network t \<noteq> None"
  shows "parse_network t \<noteq> None"
proof (cases "t \<in> set fallback")
  case False
  then obtain raw where "t \<in> network_texts version raw"
    using assms(1) unique_networks_set [of version "[]"] by (auto simp: normalize_network_strings_def Let_def split: if_splits)
  then show ?thesis
    using network_roundtrip [OF parse_network_wf] by (auto simp: network_texts_def split: option.splits if_splits)
qed (use assms(2) in blast)

lemma default_networks_parse:
  "\<forall>t\<in>set (default_rules_extra @ default_protected_ipv4 @ default_protected_ipv6). parse_network t \<noteq> None"
  by code_simp

lemma protected_strings_parse: "t \<in> set (protected_rule_network_strings s) \<Longrightarrow> parse_network t \<noteq> None"
  unfolding protected_rule_network_strings_def by (rule normalized_parses [OF _ default_networks_parse])

lemma protected_strings_member:
  assumes "network_text n \<in> set (rules_extra_protected_networks s @ protected_ipv4_networks s @ protected_ipv6_networks s)"
    and "wf_net n"
  shows "n \<in> set (protected_rule_ip_networks s)"
proof -
  have p: "parse_network (network_text n) = Some n" by (rule network_roundtrip [OF assms(2)])
  have "network_text n \<in> set (protected_rule_network_strings s)"
    unfolding protected_rule_network_strings_def
    using normalized_member [OF assms(1), of n None] p strip_network_text by simp
  then show ?thesis unfolding protected_rule_ip_networks_def using p by (force simp: map_filter_def)
qed

text \<open>
  A valid network of the settings' protected list is a protected network of the rules, however it is
  written there, and the texts the contract hands to the rules all parse: the list of protected networks
  is built without an exception and has one network for each text.
\<close>

theorem configured_networks_protected:
  assumes "cfg_protected_ipv4 s = Some raws" and "raw \<in> set raws" and "parse_network (strip raw) = Some n"
    and "net_version n = V4"
  shows "n \<in> set (protected_rule_ip_networks s) \<and> map Some (protected_rule_ip_networks s) = map parse_network (protected_rule_network_strings s)"
proof -
  have "network_text n \<in> set (protected_ipv4_networks s)"
    unfolding protected_ipv4_networks_def assms(1) using assms(2-4) by (intro normalized_member) auto
  then have "n \<in> set (protected_rule_ip_networks s)"
    using protected_strings_member parse_network_wf [OF assms(3)] by simp
  moreover have "map Some (List.map_filter f xs) = map f xs" if "\<forall>x\<in>set xs. f x \<noteq> None" for f :: "string \<Rightarrow> ip_net option" and xs
    using that by (induction xs) (auto simp: map_filter_simps)
  ultimately show ?thesis using protected_strings_parse by (simp add: protected_rule_ip_networks_def)
qed

definition default_net_settings :: net_settings where
  "default_net_settings =
     \<lparr>cfg_protected_ipv4 = None, cfg_protected_ipv6 = None, cfg_rules_extra = None, cfg_trusted_ipv4 = None,
      cfg_trusted_ipv6 = None, cfg_lan_allowlist = None, cfg_lan_deny_prefixes = None, cfg_local_lan_hosts = PNone\<rparr>"

definition sample_net_settings :: net_settings where
  "sample_net_settings = default_net_settings\<lparr>cfg_protected_ipv4 := Some [''junk'', '' 203.0.113.9/24 '']\<rparr>"

theorem configured_networks_protected_witness:
  "masked V4 3405803776 24 \<in> set (protected_rule_ip_networks sample_net_settings)
   \<and> map Some (protected_rule_ip_networks sample_net_settings) = map parse_network (protected_rule_network_strings sample_net_settings)"
proof -
  have c: "cfg_protected_ipv4 sample_net_settings = Some [''junk'', '' 203.0.113.9/24 '']" by (simp add: sample_net_settings_def)
  have "parse_network (strip '' 203.0.113.9/24 '') = Some (masked V4 3405803776 24)" by code_simp
  with configured_networks_protected [OF c, of "'' 203.0.113.9/24 ''"] show ?thesis by simp
qed

text \<open>An interface with a role of its own never belongs to the LAN, even when it is on the allow list.\<close>

lemma lan_interface_allowed_iff:
  "lan_interface_allowed s ifname \<longleftrightarrow>
     strip ifname \<noteq> [] \<and> strip ifname \<noteq> ''rescue0''
     \<and> (lan_interface_allowlist s = [] \<or> strip ifname \<in> set (lan_interface_allowlist s))
     \<and> (\<forall>prefix\<in>set (lan_interface_deny_prefixes s). \<not> starts_with (strip ifname) prefix)"
proof -
  have "strip (strip ifname) = strip ifname" using strip_hd [of ifname] strip_trimmed by (cases "strip ifname = []") auto
  then show ?thesis
    by (auto simp: lan_interface_allowed_def Let_def reserved_interface_role_def reserved_interface_roles_def)
qed

end
