(* ===== verification/Rules_Properties.thy ===== *)
theory Rules_Properties
  imports Network_Properties
begin

text \<open>
  Properties of the rule compiler: what it accepts, that minimising a large list changes no match, that
  no VPN rule reaches a protected network, and that the effective rules are those of the first source
  that has them.
\<close>

section \<open>Groups of networks\<close>

definition entry_ok :: "string \<times> string \<Rightarrow> ip_net \<times> rule_entry \<Rightarrow> bool" where
  "entry_ok k e =
     (ru_kind (snd e) = ''cidr'' \<and> parse_network (ru_value (snd e)) = Some (fst e) \<and> wf_rule (snd e)
      \<and> k = (ru_action (snd e), version_text (net_version (fst e))))"

definition group_ok :: "string \<times> string \<Rightarrow> (ip_net \<times> rule_entry) list \<Rightarrow> bool" where
  "group_ok k entries = (entries \<noteq> [] \<and> (\<forall>e\<in>set entries. entry_ok k e))"

definition grouped_ok :: "((string \<times> string) \<times> (ip_net \<times> rule_entry) list) list \<Rightarrow> bool" where
  "grouped_ok g = (\<forall>e\<in>set g. group_ok (fst e) (snd e))"

definition grouped_rules :: "((string \<times> string) \<times> (ip_net \<times> rule_entry) list) list \<Rightarrow> rule_entry set" where
  "grouped_rules g = (\<Union>e\<in>set g. snd ` set (snd e))"

lemma group_add_mem:
  "group_add k x g = (if k \<in> fst ` set g then map (\<lambda>e. if fst e = k then (k, snd e @ [x]) else e) g else g @ [(k, [x])])"
  by (auto simp: group_add_def)

lemma group_add_rules: "grouped_rules (group_add k (n, r) g) = insert r (grouped_rules g)"
proof (cases "k \<in> fst ` set g")
  case True
  then obtain e where e: "e \<in> set g" "fst e = k" by auto
  have "snd ` set (snd (if fst e = k then (k, snd e @ [(n, r)]) else e)) = snd ` set (snd e) \<union> (if fst e = k then {r} else {})" for e
    by simp
  then have "grouped_rules (group_add k (n, r) g) = (\<Union>e\<in>set g. snd ` set (snd e) \<union> (if fst e = k then {r} else {}))"
    using True by (simp only: group_add_mem grouped_rules_def if_True set_map image_image)
  also have "\<dots> = insert r (grouped_rules g)" using e by (auto simp: grouped_rules_def split: if_splits)
  finally show ?thesis .
qed (simp add: group_add_mem grouped_rules_def)

lemma group_add_ok: "grouped_ok g \<Longrightarrow> entry_ok k x \<Longrightarrow> grouped_ok (group_add k x g)"
  by (force simp: group_add_mem grouped_ok_def group_ok_def)

lemma group_rules_result:
  assumes "\<forall>r\<in>set rules. wf_rule r" and "grouped_ok grouped" and "\<forall>r\<in>set preserved. wf_rule r \<and> ru_kind r \<noteq> ''cidr''"
    and "group_rules rules preserved grouped = (p, g)"
  shows "set p \<union> grouped_rules g = set rules \<union> set preserved \<union> grouped_rules grouped \<and> grouped_ok g
    \<and> (\<forall>r\<in>set p. wf_rule r \<and> ru_kind r \<noteq> ''cidr'')"
  using assms
proof (induction rules arbitrary: preserved grouped)
  case (Cons rule rest)
  have wf: "\<forall>r\<in>set rest. wf_rule r" "wf_rule rule" using Cons.prems(1) by auto
  show ?case
  proof (cases "ru_kind rule = ''cidr''")
    case True
    then obtain n where n: "parse_network (ru_value rule) = Some n"
      using wf(2) by (auto simp: wf_rule_def canonical_value_def split: option.splits)
    let ?g = "group_add (ru_action rule, version_text (net_version n)) (n, rule) grouped"
    have "group_rules rest preserved ?g = (p, g)" using Cons.prems(4) True n by simp
    have "grouped_ok ?g" using Cons.prems(2) True n wf(2) by (intro group_add_ok) (simp_all add: entry_ok_def)
    from Cons.IH [OF wf(1) this Cons.prems(3) \<open>group_rules rest preserved ?g = (p, g)\<close>] show ?thesis
      by (simp add: group_add_rules)
  next
    case False
    then have "group_rules rest (preserved @ [rule]) grouped = (p, g)" using Cons.prems(4) by simp
    moreover have "\<forall>r\<in>set (preserved @ [rule]). wf_rule r \<and> ru_kind r \<noteq> ''cidr''" using Cons.prems(3) wf False by simp
    moreover have "set (rule # rest) \<union> set preserved = set rest \<union> set (preserved @ [rule])" by auto
    ultimately show ?thesis using Cons.IH [OF wf(1) Cons.prems(2)] by presburger
  qed
qed simp

lemma version_text_inj: "version_text v = version_text w \<Longrightarrow> v = w"
  by (cases v; cases w) simp_all

lemma cidr_addresses: "ru_kind r = ''cidr'' \<Longrightarrow> parse_network (ru_value r) = Some n \<Longrightarrow> rule_addresses r = net_space n"
  by (simp add: rule_addresses_def network_for_rule_def)

lemma network_text_inj: "wf_net m \<Longrightarrow> wf_net n \<Longrightarrow> network_text m = network_text n \<Longrightarrow> m = n"
  by (metis network_roundtrip option.inject)

lemma built_cidr:
  assumes "wf_net n"
  shows "parse_network (ru_value (build_rule_entry a ''cidr'' (network_text n) l s p pr)) = Some n"
    "wf_rule (build_rule_entry a ''cidr'' (network_text n) l s p pr)"
  using network_roundtrip [OF assms] by (simp_all add: build_rule_entry_def wf_rule_def canonical_value_def)

text \<open>The rule of a collapsed network covers that network and keeps the action of its group.\<close>

lemma collapsed_rule_ok:
  assumes "group_ok (a, v) entries" and "wf_net n"
  shows "ru_kind (collapsed_rule entries n) = ''cidr''" "parse_network (ru_value (collapsed_rule entries n)) = Some n"
    "wf_rule (collapsed_rule entries n)" "ru_action (collapsed_rule entries n) = a"
proof -
  let ?m = "rev (map (\<lambda>(m, rule). (network_text m, rule)) entries)"
  have "ru_kind (collapsed_rule entries n) = ''cidr'' \<and> parse_network (ru_value (collapsed_rule entries n)) = Some n
    \<and> wf_rule (collapsed_rule entries n) \<and> ru_action (collapsed_rule entries n) = a"
  proof (cases "map_of ?m (network_text n)")
    case None
    have "entry_ok (a, v) (hd entries)" using assms(1) by (simp add: group_ok_def)
    then have "ru_action (snd (hd entries)) = a" by (simp add: entry_ok_def)
    then show ?thesis using None built_cidr [OF assms(2)] by (simp add: collapsed_rule_def Let_def) (simp add: build_rule_entry_def)
  next
    case (Some r)
    then obtain m where m: "(m, r) \<in> set entries" "network_text m = network_text n"
      using map_of_SomeD [OF Some] by auto
    then have "entry_ok (a, v) (m, r)" using assms(1) by (simp add: group_ok_def)
    then have r: "ru_kind r = ''cidr''" "parse_network (ru_value r) = Some m" "wf_rule r" "ru_action r = a"
      by (simp_all add: entry_ok_def)
    then have "m = n" using network_text_inj [OF parse_network_wf assms(2) m(2)] by blast
    then show ?thesis using r Some by (simp add: collapsed_rule_def)
  qed
  then show "ru_kind (collapsed_rule entries n) = ''cidr''" "parse_network (ru_value (collapsed_rule entries n)) = Some n"
    "wf_rule (collapsed_rule entries n)" "ru_action (collapsed_rule entries n) = a" by simp_all
qed

lemma group_versions:
  assumes "group_ok (a, t) entries"
  obtains v where "\<forall>n\<in>set (map fst entries). wf_net n \<and> net_version n = v"
proof -
  have "\<forall>n\<in>set (map fst entries). wf_net n \<and> version_text (net_version n) = t"
    using assms unfolding group_ok_def by (force simp: entry_ok_def intro: parse_network_wf)
  then show ?thesis using that version_text_inj by metis
qed

lemma same_version_space: "\<forall>n\<in>set ns. net_version n = v \<Longrightarrow> (\<Union>n\<in>set ns. net_space n) = Pair v ` covered ns"
  unfolding covered_def image_UN net_space_def by simp

lemma collapse_group_ok:
  assumes "group_ok (a, t) entries"
  shows "rules_addresses (collapse_group entries) = rules_addresses (map snd entries)"
    and "\<forall>r\<in>set (collapse_group entries). wf_rule r \<and> ru_kind r = ''cidr'' \<and> ru_action r = a"
proof -
  let ?ns = "map fst entries"
  obtain v where v: "\<forall>n\<in>set ?ns. wf_net n \<and> net_version n = v" using group_versions [OF assms] .
  note c = collapse_covers [OF v]
  have "rules_addresses (collapse_group entries) = (\<Union>n\<in>set (collapse_addresses ?ns). rule_addresses (collapsed_rule entries n))"
    by (simp add: rules_addresses_def collapse_group_def)
  also have "\<dots> = (\<Union>n\<in>set (collapse_addresses ?ns). net_space n)"
    by (intro SUP_cong refl cidr_addresses collapsed_rule_ok [OF assms]) (use c(2) in blast)+
  also have "\<dots> = Pair v ` covered ?ns" using same_version_space [of "collapse_addresses ?ns" v] c by simp
  also have "\<dots> = (\<Union>n\<in>set ?ns. net_space n)" by (rule same_version_space [symmetric]) (use v in blast)
  also have "\<dots> = (\<Union>x\<in>set entries. net_space (fst x))" by simp
  also have "\<dots> = (\<Union>x\<in>set entries. rule_addresses (snd x))"
    using assms cidr_addresses by (intro SUP_cong) (auto simp: group_ok_def entry_ok_def)
  finally show "rules_addresses (collapse_group entries) = rules_addresses (map snd entries)" by (simp add: rules_addresses_def)
  show "\<forall>r\<in>set (collapse_group entries). wf_rule r \<and> ru_kind r = ''cidr'' \<and> ru_action r = a"
    using c(2) collapsed_rule_ok [OF assms] by (auto simp: collapse_group_def)
qed

lemma rules_addresses_append [simp]: "rules_addresses (xs @ ys) = rules_addresses xs \<union> rules_addresses ys"
  by (simp add: rules_addresses_def)

lemma rules_domains_append [simp]: "rules_domains (xs @ ys) = rules_domains xs \<union> rules_domains ys"
  by (simp add: rules_domains_def)

lemma set_grouped: "set (concat (map (\<lambda>(_, entries). f entries) g)) = (\<Union>e\<in>set g. set (f (snd e)))"
  by (induction g) auto

lemma grouped_addresses:
  assumes "grouped_ok g"
  shows "rules_addresses (concat (map (\<lambda>(_, entries). collapse_group entries) g)) = (\<Union>r\<in>grouped_rules g. rule_addresses r)"
proof -
  have e: "rules_addresses (collapse_group (snd e)) = (\<Union>r\<in>snd ` set (snd e). rule_addresses r)" if "e \<in> set g" for e
    using collapse_group_ok(1) [of "fst (fst e)" "snd (fst e)" "snd e"] assms that
    by (simp add: grouped_ok_def rules_addresses_def)
  have "rules_addresses (concat (map (\<lambda>(_, entries). collapse_group entries) g))
    = (\<Union>e\<in>set g. rules_addresses (collapse_group (snd e)))"
    unfolding rules_addresses_def set_grouped by simp
  also have "\<dots> = (\<Union>e\<in>set g. \<Union>r\<in>snd ` set (snd e). rule_addresses r)" using e by (intro SUP_cong refl)
  finally show ?thesis by (simp add: grouped_rules_def)
qed

lemma grouped_collapse_ok:
  assumes "grouped_ok g" and "r \<in> set (concat (map (\<lambda>(_, entries). collapse_group entries) g))"
  shows "wf_rule r \<and> ru_kind r = ''cidr'' \<and> ru_action r \<in> ru_action ` grouped_rules g"
proof -
  obtain e where e: "e \<in> set g" "r \<in> set (collapse_group (snd e))" using assms(2) unfolding set_grouped by blast
  then have g: "group_ok (fst (fst e), snd (fst e)) (snd e)" using assms(1) by (simp add: grouped_ok_def)
  then have r: "wf_rule r" "ru_kind r = ''cidr''" "ru_action r = fst (fst e)" using collapse_group_ok(2) e(2) by blast+
  have "hd (snd e) \<in> set (snd e)" "entry_ok (fst e) (hd (snd e))" using g by (simp_all add: group_ok_def)
  then have h: "fst (fst e) = ru_action (snd (hd (snd e)))" "snd (hd (snd e)) \<in> grouped_rules g"
    using e(1) unfolding grouped_rules_def entry_ok_def by (metis fst_conv, blast)
  have "ru_action r \<in> ru_action ` grouped_rules g" unfolding r(3) h(1) using h(2) by (rule imageI)
  then show ?thesis using r(1,2) by (intro conjI)
qed

lemma domains_of_cidr: "\<forall>r\<in>R. ru_kind r = ''cidr'' \<Longrightarrow> (\<Union>r\<in>R. rule_domains r) = {}"
  by (simp add: rule_domains_def)

text \<open>Collapsing changes neither the addresses nor the domains that are matched.\<close>

lemma collapse_rule_networks_keeps:
  assumes "\<forall>r\<in>set rules. wf_rule r" and "collapse_rule_networks rules = (out, removed)"
  shows "rules_addresses out = rules_addresses rules" and "rules_domains out = rules_domains rules"
    and "\<forall>r\<in>set out. wf_rule r" and "ru_action ` set out \<subseteq> ru_action ` set rules"
proof -
  obtain p g where pg: "group_rules rules [] [] = (p, g)" by fastforce
  let ?c = "concat (map (\<lambda>(_, entries). collapse_group entries) g)"
  have out: "out = p @ ?c" using assms(2) pg by (simp add: collapse_rule_networks_def)
  have "grouped_ok []" "grouped_rules [] = {}" by (simp_all add: grouped_ok_def grouped_rules_def)
  with group_rules_result [OF assms(1) _ _ pg] have g: "set p \<union> grouped_rules g = set rules" "grouped_ok g"
    "\<forall>r\<in>set p. wf_rule r \<and> ru_kind r \<noteq> ''cidr''" by simp_all
  have all: "(\<Union>r\<in>set rules. f r) = (\<Union>r\<in>set p. f r) \<union> (\<Union>r\<in>grouped_rules g. f r)" for f :: "rule_entry \<Rightarrow> 'b set"
    unfolding g(1) [symmetric] by (rule UN_Un)
  have c: "\<forall>r\<in>set ?c. wf_rule r \<and> ru_kind r = ''cidr'' \<and> ru_action r \<in> ru_action ` grouped_rules g"
    using grouped_collapse_ok [OF g(2)] by blast
  have gc: "\<forall>r\<in>grouped_rules g. ru_kind r = ''cidr''"
    using g(2) unfolding grouped_ok_def grouped_rules_def group_ok_def entry_ok_def by blast
  show "rules_addresses out = rules_addresses rules"
    unfolding out rules_addresses_append grouped_addresses [OF g(2)] by (simp only: rules_addresses_def all)
  have "rules_domains ?c = {}" unfolding rules_domains_def using c by (intro domains_of_cidr) blast
  then show "rules_domains out = rules_domains rules"
    unfolding out rules_domains_append by (simp only: rules_domains_def all domains_of_cidr [OF gc])
  show "\<forall>r\<in>set out. wf_rule r" "ru_action ` set out \<subseteq> ru_action ` set rules"
    unfolding out g(1) [symmetric] using c g(3) by (auto simp del: set_concat)
qed

section \<open>Subsumed suffixes\<close>

lemma join_split_char: "join [c] (split_char c s) = s"
proof (induction s)
  case (Cons x s)
  have "split_char c s \<noteq> []" by (induction s) (auto split: list.splits)
  then obtain p ps where "split_char c s = p # ps" by (cases "split_char c s") auto
  then show ?case using Cons by (cases ps) auto
qed simp

lemma join_drop_suffix: "0 < i \<Longrightarrow> i < length ls \<Longrightarrow> suffix ([c] @ join [c] (drop i ls)) (join [c] ls)"
proof (induction ls arbitrary: i)
  case (Cons l ls)
  then obtain m ms where ls: "ls = m # ms" by (cases ls) auto
  have j: "join [c] (l # ls) = l @ [c] @ join [c] ls" by (simp add: ls)
  show ?case
  proof (cases "i = 1")
    case True
    then show ?thesis unfolding j by (simp add: suffix_def)
  next
    case False
    then have "suffix ([c] @ join [c] (drop (i - 1) ls)) (join [c] ls)" using Cons by (intro Cons.IH) auto
    moreover have "drop i (l # ls) = drop (i - 1) ls" using Cons.prems by (simp add: drop_Cons')
    moreover have "suffix (join [c] ls) (l @ [c] @ join [c] ls)" by (simp add: suffix_def)
    ultimately show ?thesis unfolding j by (metis suffix_order.trans)
  qed
qed simp

definition kept_domains :: "string list \<Rightarrow> string set" where
  "kept_domains kept = (\<Union>v\<in>set kept. suffix_domains v)"

lemma subsumed_domains:
  assumes "suffix_subsumed value kept"
  shows "suffix_domains value \<subseteq> kept_domains kept"
proof -
  let ?ls = "split_char CHR ''.'' (lstrip_dots value)"
  obtain i where i: "0 < i" "i < length ?ls" "''.'' @ join ''.'' (drop i ?ls) \<in> set kept"
    using assms by (auto simp: suffix_subsumed_def suffix_labels_def Let_def Suc_le_eq)
  have "suffix (''.'' @ join ''.'' (drop i ?ls)) (lstrip_dots value)"
    using join_drop_suffix [OF i(1,2), of "CHR ''.''"] by (simp add: join_split_char)
  moreover have "suffix (lstrip_dots value) value" by (simp add: lstrip_dots_def suffix_dropWhile)
  ultimately have "suffix (''.'' @ join ''.'' (drop i ?ls)) value" by (rule suffix_order.trans)
  then have "suffix_domains value \<subseteq> suffix_domains (''.'' @ join ''.'' (drop i ?ls))"
    unfolding suffix_domains_def by (auto elim: suffix_order.trans)
  then show ?thesis using i(3) by (auto simp: kept_domains_def)
qed

lemma minimize_suffixes_keeps:
  assumes "\<forall>r\<in>set rules. ru_kind r = ''domain_suffix''" and "minimize_suffixes rules kept = (out, removed)"
  shows "rules_domains out \<union> kept_domains kept = rules_domains rules \<union> kept_domains kept \<and> set out \<subseteq> set rules"
  using assms
proof (induction rules arbitrary: kept out removed)
  case Nil
  then show ?case by simp
next
  case (Cons r rest)
  have d: "rule_domains r = suffix_domains (ru_value r)" using Cons.prems by (simp add: rule_domains_def)
  have k: "\<forall>r\<in>set rest. ru_kind r = ''domain_suffix''" using Cons.prems(1) by simp
  show ?case
  proof (cases "ru_value r \<in> set kept \<or> suffix_subsumed (ru_value r) kept")
    case True
    then have "rule_domains r \<subseteq> kept_domains kept" unfolding d using subsumed_domains by (auto simp: kept_domains_def)
    moreover obtain n where "minimize_suffixes rest kept = (out, n)" using Cons.prems(2) True by (auto split: prod.splits)
    ultimately show ?thesis using Cons.IH [OF k] by (fastforce simp: rules_domains_def)
  next
    case False
    then obtain o1 n where o: "minimize_suffixes rest (ru_value r # kept) = (o1, n)" "out = r # o1"
      using Cons.prems(2) by (auto split: prod.splits)
    then show ?thesis using Cons.IH [OF k o(1)] d by (auto simp: rules_domains_def kept_domains_def)
  qed
qed

section \<open>Large lists\<close>

lemma compile_large_keeps:
  assumes "\<forall>r\<in>set rules. wf_rule r" and "compile_large_list_rules source rules = (out, c, d)"
  shows "rules_addresses out = rules_addresses rules" and "rules_domains out = rules_domains rules"
    and "\<forall>r\<in>set out. wf_rule r" and "ru_action ` set out \<subseteq> ru_action ` set rules"
proof -
  have "rules_addresses out = rules_addresses rules \<and> rules_domains out = rules_domains rules
    \<and> (\<forall>r\<in>set out. wf_rule r) \<and> ru_action ` set out \<subseteq> ru_action ` set rules"
  proof (cases "source \<in> set large_sources")
    case True
    obtain col n where col: "collapse_rule_networks rules = (col, n)" by fastforce
    let ?non = "filter (\<lambda>r. ru_kind r \<noteq> ''domain_suffix'') col"
    let ?suf = "filter (\<lambda>r. ru_kind r = ''domain_suffix'') col"
    obtain mini m where mini: "minimize_suffixes (sort_key suffix_key ?suf) [] = (mini, m)" by fastforce
    have set_out: "set out = set ?non \<union> set mini"
      using assms(2) True col mini by (auto simp: compile_large_list_rules_def Let_def)
    note k = collapse_rule_networks_keeps [OF assms(1) col]
    have k3: "wf_rule r" if "r \<in> set col" for r using k(3) that by blast
    have "\<forall>r\<in>set (sort_key suffix_key ?suf). ru_kind r = ''domain_suffix''" by simp
    from minimize_suffixes_keeps [OF this mini]
    have mk: "rules_domains mini = rules_domains (sort_key suffix_key ?suf)" "set mini \<subseteq> set (sort_key suffix_key ?suf)"
      by (simp_all add: kept_domains_def)
    then have md: "(\<Union>r\<in>set mini. rule_domains r) = (\<Union>r\<in>set ?suf. rule_domains r)" "set mini \<subseteq> set ?suf"
      by (simp_all add: rules_domains_def)
    have split: "set col = set ?non \<union> set ?suf" by auto
    have noaddr: "(\<Union>r\<in>R. rule_addresses r) = {}" if "R \<subseteq> set ?suf" for R
      using that by (auto simp: rule_addresses_def network_for_rule_def)
    have "rules_addresses out = rules_addresses col"
      unfolding rules_addresses_def set_out split UN_Un noaddr [OF md(2)] noaddr [OF subset_refl] ..
    moreover have "rules_domains out = rules_domains col" unfolding rules_domains_def set_out split UN_Un md(1) ..
    moreover have "set out \<subseteq> set col" unfolding set_out split using md(2) by blast
    ultimately show ?thesis using k(1,2,4) k3 by (metis image_mono subset_iff subset_trans)
  qed (use assms in \<open>simp add: compile_large_list_rules_def\<close>)
  then show "rules_addresses out = rules_addresses rules" "rules_domains out = rules_domains rules"
    "\<forall>r\<in>set out. wf_rule r" "ru_action ` set out \<subseteq> ru_action ` set rules" by blast+
qed

section \<open>Accepted lines\<close>

definition protected_space :: "net_settings \<Rightarrow> (ip_version \<times> int) set" where
  "protected_space s = (\<Union>n\<in>set (protected_rule_ip_networks s). net_space n)"

definition accepted :: "net_settings \<Rightarrow> string \<Rightarrow> string \<Rightarrow> string \<Rightarrow> bool" where
  "accepted s action kind value = (canonical_value kind value \<and> \<not> (action = ''VPN'' \<and> is_protected_local s kind value))"

lemma build_rule_entry_simps [simp]:
  "ru_action (build_rule_entry a k v l so p pr) = a" "ru_kind (build_rule_entry a k v l so p pr) = k"
  "ru_value (build_rule_entry a k v l so p pr) = v" "ru_source (build_rule_entry a k v l so p pr) = so"
  "ru_priority (build_rule_entry a k v l so p pr) = p" "ru_line (build_rule_entry a k v l so p pr) = l"
  "ru_protected (build_rule_entry a k v l so p pr) = pr"
  by (simp_all add: build_rule_entry_def)

lemma accepted_avoids:
  assumes "accepted s ''VPN'' (ru_kind r) (ru_value r)"
  shows "rule_addresses r \<inter> protected_space s = {}"
proof (cases "network_for_rule (ru_kind r) (ru_value r)")
  case (Some n)
  then have "\<forall>p\<in>set (protected_rule_ip_networks s). \<not> overlaps n p"
    using assms by (simp add: accepted_def is_protected_local_def)
  then show ?thesis using Some unfolding overlaps_iff rule_addresses_def protected_space_def by auto
qed (simp add: rule_addresses_def)

lemma manual_line_accepted:
  assumes "manual_line s l = Rule (action, kind, value)"
  shows "accepted s action kind value" and "action \<in> {''DIRECT'', ''VPN''}"
proof -
  obtain raw v where "map_of rule_action_aliases raw = Some action" "normalize_rule_value v = Inr (kind, value)"
    "\<not> (action = ''VPN'' \<and> is_protected_local s kind value)"
    using assms unfolding manual_line_def Let_def by (auto split: if_splits list.splits option.splits sum.splits)
  then show "accepted s action kind value" "action \<in> {''DIRECT'', ''VPN''}"
    by (auto simp: accepted_def rule_action_aliases_def intro: normalize_rule_value_canonical split: if_splits)
qed

definition accepted_rule :: "net_settings \<Rightarrow> rule_entry \<Rightarrow> bool" where
  "accepted_rule s r = (accepted s (ru_action r) (ru_kind r) (ru_value r) \<and> ru_action r \<in> {''DIRECT'', ''VPN''})"

lemma manual_lines_accepted:
  assumes "manual_lines s ls seen = (errors, rules)" and "r \<in> set rules"
  shows "accepted_rule s r"
  using assms
proof (induction ls arbitrary: seen errors rules)
  case (Cons l rest)
  obtain n original where l: "l = (n, original)" by (cases l)
  show ?case
  proof (cases "manual_line s original")
    case (Rule x)
    obtain a k v where x: "x = (a, k, v)" by (cases x)
    have acc: "accepted_rule s (build_rule_entry a k v (Some n) ''manual'' None False)"
      using manual_line_accepted [of s original a k v] Rule x by (simp add: accepted_rule_def)
    show ?thesis
    proof (cases "map_of seen (k, v)")
      case None
      then obtain es rs where "manual_lines s rest (((k, v), a) # seen) = (es, rs)"
        "rules = build_rule_entry a k v (Some n) ''manual'' None False # rs"
        using Cons.prems(1) Rule x l by (auto split: prod.splits)
      then show ?thesis using Cons.IH Cons.prems(2) acc by auto
    next
      case (Some prev)
      then obtain es where "manual_lines s rest seen = (es, rules)"
        using Cons.prems(1) Rule x l by (auto split: prod.splits if_splits)
      then show ?thesis using Cons.IH Cons.prems(2) by blast
    qed
  qed (use Cons l in \<open>auto split: prod.splits\<close>)
qed simp

lemma value_line_accepted:
  assumes "value_line s action source l = Rule (kind, value)"
  shows "accepted s action kind value"
proof -
  obtain w kind0 value0 where n: "normalize_rule_value w = Inr (kind0, value0)"
    and kv: "kind = (if source \<in> set large_sources \<and> kind0 = ''domain'' then ''domain_suffix'' else kind0)"
      "value = (if source \<in> set large_sources \<and> kind0 = ''domain'' then ''.'' @ value0 else value0)"
    and p: "\<not> (action = ''VPN'' \<and> is_protected_local s kind value)"
    using assms unfolding value_line_def Let_def by (force split: if_splits sum.splits prod.splits)
  have "canonical_value kind value"
  proof (cases "source \<in> set large_sources \<and> kind0 = ''domain''")
    case True
    then have "domain_name value0" using normalize_rule_value_canonical [OF n] by (simp add: canonical_value_def)
    then show ?thesis using kv True by (simp add: canonical_value_def starts_with_def)
  qed (use normalize_rule_value_canonical [OF n] kv in \<open>simp add: if_not_P\<close>)
  then show ?thesis using p by (simp add: accepted_def)
qed

lemma value_lines_accepted:
  assumes "value_lines s action source ls seen = (errors, rules, skipped)" and "r \<in> set rules"
  shows "accepted s (ru_action r) (ru_kind r) (ru_value r) \<and> ru_action r = action"
  using assms
proof (induction ls arbitrary: seen errors rules skipped)
  case (Cons l rest)
  obtain n original where l: "l = (n, original)" by (cases l)
  show ?case
  proof (cases "value_line s action source original")
    case (Rule x)
    obtain k v where x: "x = (k, v)" by (cases x)
    show ?thesis
    proof (cases "(k, v) \<in> set seen")
      case True
      then have "value_lines s action source rest seen = (errors, rules, skipped)" using Cons.prems(1) Rule x l by simp
      then show ?thesis using Cons.IH Cons.prems(2) by blast
    next
      case False
      then obtain es rs sk where "value_lines s action source rest ((k, v) # seen) = (es, rs, sk)"
        "rules = build_rule_entry action k v (Some n) source None False # rs"
        using Cons.prems(1) Rule x l by (auto split: prod.splits)
      then show ?thesis using Cons.IH Cons.prems(2) value_line_accepted [of s action source original k v] Rule x by auto
    qed
  qed (use Cons l in \<open>auto split: prod.splits\<close>)
qed simp

text \<open>The rules of a list before they are compiled, one for each new accepted line.\<close>

definition listed_rules :: "net_settings \<Rightarrow> string \<Rightarrow> string \<Rightarrow> string \<Rightarrow> rule_entry list" where
  "listed_rules s action source text = fst (snd (value_lines s action source (numbered (splitlines text)) []))"

lemma listed_rules_accepted:
  assumes "r \<in> set (listed_rules s action source text)"
  shows "accepted s action (ru_kind r) (ru_value r)" and "ru_action r = action"
proof -
  obtain es rs sk where "value_lines s action source (numbered (splitlines text)) [] = (es, rs, sk)"
    by (cases "value_lines s action source (numbered (splitlines text)) []")
  with assms have "accepted s (ru_action r) (ru_kind r) (ru_value r) \<and> ru_action r = action"
    by (intro value_lines_accepted) (simp_all add: listed_rules_def)
  then show "accepted s action (ru_kind r) (ru_value r)" "ru_action r = action" by auto
qed

lemma validate_value_list_rules:
  obtains c d where "compile_large_list_rules source (listed_rules s action source text)
    = (va_rules (validate_value_list s action source text), c, d)"
proof -
  obtain es rs sk where v: "value_lines s action source (numbered (splitlines text)) [] = (es, rs, sk)"
    by (cases "value_lines s action source (numbered (splitlines text)) []")
  obtain out c d where "compile_large_list_rules source rs = (out, c, d)" by (cases "compile_large_list_rules source rs")
  with v show thesis using that by (simp add: validate_value_list_def listed_rules_def)
qed

lemma validated_list:
  shows "rules_addresses (va_rules (validate_value_list s action source text))
      = rules_addresses (listed_rules s action source text)"
    and "rules_domains (va_rules (validate_value_list s action source text))
      = rules_domains (listed_rules s action source text)"
    and "r \<in> set (va_rules (validate_value_list s action source text)) \<Longrightarrow> wf_rule r \<and> ru_action r = action"
proof -
  let ?l = "listed_rules s action source text"
  have wf: "\<forall>r\<in>set ?l. wf_rule r" using listed_rules_accepted(1) by (auto simp: wf_rule_def accepted_def)
  obtain c d where "compile_large_list_rules source ?l = (va_rules (validate_value_list s action source text), c, d)"
    by (rule validate_value_list_rules)
  note k = compile_large_keeps [OF wf this]
  show "rules_addresses (va_rules (validate_value_list s action source text)) = rules_addresses ?l"
    "rules_domains (va_rules (validate_value_list s action source text)) = rules_domains ?l" by (rule k)+
  assume r: "r \<in> set (va_rules (validate_value_list s action source text))"
  then have "ru_action r \<in> ru_action ` set ?l" using k(4) by blast
  then show "wf_rule r \<and> ru_action r = action" using k(3) r listed_rules_accepted(2) by auto
qed

lemma vpn_list_avoids:
  assumes "r \<in> set (va_rules (validate_value_list s ''VPN'' source text))"
  shows "rule_addresses r \<inter> protected_space s = {}"
proof -
  have "rule_addresses r \<subseteq> rules_addresses (listed_rules s ''VPN'' source text)"
    using assms unfolding validated_list(1) [symmetric] by (auto simp: rules_addresses_def)
  moreover have "rules_addresses (listed_rules s ''VPN'' source text) \<inter> protected_space s = {}"
    unfolding rules_addresses_def using listed_rules_accepted(1) accepted_avoids by blast
  ultimately show ?thesis by blast
qed

section \<open>Effective rules\<close>

lemma rule_match_priority [simp]:
  "rule_addresses (e\<lparr>ru_priority := p\<rparr>) = rule_addresses e" "rule_domains (e\<lparr>ru_priority := p\<rparr>) = rule_domains e"
  "rule_key (e\<lparr>ru_priority := p\<rparr>) = rule_key e" "wf_rule (e\<lparr>ru_priority := p\<rparr>) = wf_rule e"
  by (simp_all add: rule_addresses_def rule_domains_def rule_key_def wf_rule_def)

lemma merge_entries_result:
  assumes "merge_entries p es seen = (rules, seen')"
  shows "set rules \<subseteq> (\<lambda>e. e\<lparr>ru_priority := Some p\<rparr>) ` set es" and "set seen' = set seen \<union> rule_key ` set es"
    and "distinct (map rule_key rules)" and "rule_key ` set rules \<inter> set seen = {}"
    and "map_of (map (\<lambda>r. (rule_key r, r)) rules) = (map_of (map (\<lambda>e. (rule_key e, e\<lparr>ru_priority := Some p\<rparr>)) es)) |` (- set seen)"
proof -
  have "set rules \<subseteq> (\<lambda>e. e\<lparr>ru_priority := Some p\<rparr>) ` set es \<and> set seen' = set seen \<union> rule_key ` set es
    \<and> distinct (map rule_key rules) \<and> rule_key ` set rules \<inter> set seen = {}
    \<and> map_of (map (\<lambda>r. (rule_key r, r)) rules)
        = (map_of (map (\<lambda>e. (rule_key e, e\<lparr>ru_priority := Some p\<rparr>)) es)) |` (- set seen)"
    using assms
  proof (induction es arbitrary: seen rules)
    case (Cons e es)
    show ?case
    proof (cases "rule_key e \<in> set seen")
      case True
      then show ?thesis using Cons.IH [of seen rules] Cons.prems by (auto simp: restrict_map_def fun_eq_iff)
    next
      case False
      then obtain rs where rs: "merge_entries p es (rule_key e # seen) = (rs, seen')" "rules = e\<lparr>ru_priority := Some p\<rparr> # rs"
        using Cons.prems by (auto split: prod.splits)
      show ?thesis using Cons.IH [OF rs(1)] rs(2) False by (auto simp: restrict_map_def fun_eq_iff)
    qed
  qed simp
  then show "set rules \<subseteq> (\<lambda>e. e\<lparr>ru_priority := Some p\<rparr>) ` set es" "set seen' = set seen \<union> rule_key ` set es"
    "distinct (map rule_key rules)" "rule_key ` set rules \<inter> set seen = {}"
    "map_of (map (\<lambda>r. (rule_key r, r)) rules) = (map_of (map (\<lambda>e. (rule_key e, e\<lparr>ru_priority := Some p\<rparr>)) es)) |` (- set seen)"
    by blast+
qed

text \<open>The reference: every source's rules with their priorities, in order, where the first one counts.\<close>

fun tagged_sources :: "(string \<times> nat \<times> rule_entry list) list \<Rightarrow> ((string \<times> string) \<times> rule_entry) list" where
  "tagged_sources [] = []"
| "tagged_sources ((source, p, es) # rest) = map (\<lambda>e. (rule_key e, e\<lparr>ru_priority := Some p\<rparr>)) es @ tagged_sources rest"

lemma merge_sources_result:
  assumes "merge_sources srcs seen = (rules, counts)"
  shows "set rules \<subseteq> snd ` set (tagged_sources srcs) \<and> distinct (map rule_key rules) \<and> rule_key ` set rules \<inter> set seen = {}
    \<and> map_of (map (\<lambda>r. (rule_key r, r)) rules) = (map_of (tagged_sources srcs)) |` (- set seen)
    \<and> sum_list (map snd counts) = length rules"
  using assms
proof (induction srcs arbitrary: seen rules counts)
  case (Cons src srcs)
  obtain source p es where src: "src = (source, p, es)" by (cases src)
  obtain rs1 seen1 where m1: "merge_entries p es seen = (rs1, seen1)" by fastforce
  obtain rs2 c2 where m2: "merge_sources srcs seen1 = (rs2, c2)" by fastforce
  have r: "rules = rs1 @ rs2" "counts = (source, length rs1) # c2" using Cons.prems src m1 m2 by simp_all
  note e = merge_entries_result [OF m1] and ih = Cons.IH [OF m2]
  have ih1: "set rs2 \<subseteq> snd ` set (tagged_sources srcs)" and ih2: "rule_key ` set rs2 \<inter> set seen1 = {}" using ih by simp_all
  have d: "rule_key ` set rs1 \<subseteq> set seen1" using e(1,2) by auto
  let ?m = "map_of (map (\<lambda>e. (rule_key e, e\<lparr>ru_priority := Some p\<rparr>)) es)"
  have dom: "k \<in> set seen1 \<longleftrightarrow> k \<in> set seen \<or> ?m k \<noteq> None" for k by (simp add: e(2) map_of_eq_None_iff image_image)
  have "map_of (map (\<lambda>r. (rule_key r, r)) rules) = (map_of (tagged_sources srcs) |` (- set seen1)) ++ (?m |` (- set seen))"
    using e(5) ih by (simp add: r)
  also have "\<dots> = (map_of (tagged_sources srcs) ++ ?m) |` (- set seen)"
    by (rule ext) (auto simp: restrict_map_def map_add_def dom split: option.splits)
  finally have "map_of (map (\<lambda>r. (rule_key r, r)) rules) = (map_of (tagged_sources (src # srcs))) |` (- set seen)"
    by (simp add: src)
  moreover have "snd ` set (tagged_sources (src # srcs))
      = (\<lambda>e. e\<lparr>ru_priority := Some p\<rparr>) ` set es \<union> snd ` set (tagged_sources srcs)"
    by (simp add: src image_Un image_image)
  then have "set rules \<subseteq> snd ` set (tagged_sources (src # srcs))" using Un_mono [OF e(1) ih1] unfolding r set_append by simp
  moreover have "rule_key ` set rs1 \<inter> rule_key ` set rs2 = {}" using d ih2 by blast
  then have "distinct (map rule_key rules)" using e(3) ih by (simp add: r)
  moreover have "rule_key ` set rules \<inter> set seen = {}" using e(2,4) ih2 unfolding r set_append image_Un by blast
  moreover have "sum_list (map snd counts) = length rules" using ih by (simp add: r)
  ultimately show ?case by (intro conjI)
qed simp

lemma merge_sources_priorities:
  assumes "merge_sources srcs seen = (rules, counts)" and "sorted (map (\<lambda>s. fst (snd s)) srcs)"
  shows "sorted (map (\<lambda>r. the (ru_priority r)) rules) \<and> (\<forall>r\<in>set rules. the (ru_priority r) \<in> (\<lambda>s. fst (snd s)) ` set srcs)"
  using assms
proof (induction srcs arbitrary: seen rules counts)
  case (Cons src srcs)
  obtain source p es where src: "src = (source, p, es)" by (cases src)
  obtain rs1 seen1 where m1: "merge_entries p es seen = (rs1, seen1)" by fastforce
  obtain rs2 c2 where m2: "merge_sources srcs seen1 = (rs2, c2)" by fastforce
  have r: "rules = rs1 @ rs2" using Cons.prems(1) src m1 m2 by simp
  have p: "\<forall>r\<in>set rs1. the (ru_priority r) = p" using merge_entries_result(1) [OF m1] by auto
  then have "map (\<lambda>r. the (ru_priority r)) rs1 = replicate (length rs1) p" by (simp add: map_eq_conv flip: map_replicate_const)
  moreover have "sorted (replicate (length rs1) p)" by (simp add: sorted_replicate)
  moreover have "\<forall>s\<in>set srcs. p \<le> fst (snd s)" "sorted (map (\<lambda>s. fst (snd s)) srcs)" using Cons.prems(2) src by auto
  ultimately show ?case using Cons.IH [OF m2] p by (fastforce simp: r src sorted_append)
qed simp

lemma effective_merge:
  obtains counts where "merge_sources (ordered_sources s manual sd bd bv) []
    = (ef_rules (build_effective_rules_artifact s manual sel sd bd bv), counts)"
    and "ef_source_counts (build_effective_rules_artifact s manual sel sd bd bv) = counts"
    and "ef_total (build_effective_rules_artifact s manual sel sd bd bv)
      = length (ef_rules (build_effective_rules_artifact s manual sel sd bd bv))"
proof -
  obtain rules counts where "merge_sources (ordered_sources s manual sd bd bv) [] = (rules, counts)" by fastforce
  then show thesis using that by (simp add: build_effective_rules_artifact_def)
qed

text \<open>
  C28. The effective rules are the reference's: for every kind and value the rule of the first source that
  has it, protected rules before the manual ones and these before the lists, each with the priority of
  its source. No kind and value occurs twice, priorities ascend, and the counts add up to the total.
\<close>

theorem effective_rules_first_source_wins:
  "map_of (map (\<lambda>r. (rule_key r, r)) (ef_rules (build_effective_rules_artifact s manual sel sd bd bv)))
     = map_of (tagged_sources (ordered_sources s manual sd bd bv))
   \<and> distinct (map rule_key (ef_rules (build_effective_rules_artifact s manual sel sd bd bv)))
   \<and> sorted (map (\<lambda>r. the (ru_priority r)) (ef_rules (build_effective_rules_artifact s manual sel sd bd bv)))
   \<and> sum_list (map snd (ef_source_counts (build_effective_rules_artifact s manual sel sd bd bv)))
     = ef_total (build_effective_rules_artifact s manual sel sd bd bv)"
proof -
  let ?a = "build_effective_rules_artifact s manual sel sd bd bv"
  obtain counts where m: "merge_sources (ordered_sources s manual sd bd bv) [] = (ef_rules ?a, counts)"
    and c: "ef_source_counts ?a = counts" "ef_total ?a = length (ef_rules ?a)"
    by (rule effective_merge)
  have "sorted (map (\<lambda>s. fst (snd s)) (ordered_sources s manual sd bd bv))" by (simp add: ordered_sources_def)
  moreover have "m |` UNIV = m" for m :: "string \<times> string \<Rightarrow> rule_entry option" by (simp add: restrict_map_def)
  ultimately show ?thesis using merge_sources_result [OF m] merge_sources_priorities [OF m] c by simp
qed

text \<open>
  C27. Compiling a list never changes what it matches: the collapsed networks and minimised suffixes of a
  validated list match exactly the addresses and the domains of its accepted lines, with the list's action.
\<close>

theorem large_list_compilation_equivalent:
  "rules_addresses (va_rules (validate_value_list s action source text)) = rules_addresses (listed_rules s action source text)
   \<and> rules_domains (va_rules (validate_value_list s action source text)) = rules_domains (listed_rules s action source text)
   \<and> ru_action ` set (va_rules (validate_value_list s action source text)) \<subseteq> {action}"
  using validated_list by blast

section \<open>The candidate\<close>

lemma from_validation:
  assumes "e \<in> set (rules_from_validation source (Some v))"
  obtains m where "m \<in> set (va_rules v)" "ru_action e = ru_action m" "ru_kind e = ru_kind m" "ru_value e = ru_value m"
proof -
  obtain m where "m \<in> set (va_rules v)"
    "e = build_rule_entry (ru_action m) (ru_kind m) (ru_value m) (ru_line m) source None False"
    using assms unfolding rules_from_validation_def option.case set_map by blast
  then show thesis using that by simp
qed

text \<open>Where an effective rule comes from.\<close>

lemma candidate_rules:
  assumes "r \<in> set (ef_rules (ca_effective (prepare_manual_rules_candidate s t)))"
  obtains (protected) "\<exists>p\<in>set (protected_rules s). r = p\<lparr>ru_priority := Some 1\<rparr>"
  | (manual) m where "m \<in> set (va_rules (validate_manual_rules s (tx_draft t)))"
      "ru_action r = ru_action m" "ru_kind r = ru_kind m" "ru_value r = ru_value m"
  | (listed) m action source tx where "m \<in> set (va_rules (validate_value_list s action source tx))"
      "(action, source, tx) \<in> {(''DIRECT'', ''static_direct'', tx_static_direct t),
         (''DIRECT'', ''big_direct'', tx_big_direct t), (''VPN'', ''big_vpn'', tx_big_vpn t)}"
      "ru_action r = ru_action m" "ru_kind r = ru_kind m" "ru_value r = ru_value m"
proof -
  let ?v = "\<lambda>a so tx. Some (validate_value_list s a so tx)"
  let ?sd = "?v ''DIRECT'' ''static_direct'' (tx_static_direct t)" and ?bd = "?v ''DIRECT'' ''big_direct'' (tx_big_direct t)"
    and ?bv = "?v ''VPN'' ''big_vpn'' (tx_big_vpn t)"
  let ?m = "validate_manual_rules s (tx_draft t)"
  obtain counts where "merge_sources (ordered_sources s ?m ?sd ?bd ?bv) [] = (ef_rules (ca_effective (prepare_manual_rules_candidate s t)), counts)"
    unfolding prepare_manual_rules_candidate_def Let_def rules_candidate.simps by (rule effective_merge)
  with assms have "r \<in> snd ` set (tagged_sources (ordered_sources s ?m ?sd ?bd ?bv))" using merge_sources_result by blast
  then consider "\<exists>p\<in>set (protected_rules s). r = p\<lparr>ru_priority := Some 1\<rparr>"
    | e where "e \<in> set (rules_from_validation ''manual'' (Some ?m))" "r = e\<lparr>ru_priority := Some 2\<rparr>"
    | e where "e \<in> set (rules_from_validation ''static_direct'' ?sd)" "r = e\<lparr>ru_priority := Some 3\<rparr>"
    | e where "e \<in> set (rules_from_validation ''big_direct'' ?bd)" "r = e\<lparr>ru_priority := Some 4\<rparr>"
    | e where "e \<in> set (rules_from_validation ''big_vpn'' ?bv)" "r = e\<lparr>ru_priority := Some 5\<rparr>"
    unfolding ordered_sources_def by (simp add: image_Un image_image) blast
  then show thesis
  proof cases
    case 1
    then show thesis by (rule protected)
  next
    case (2 e)
    from 2(1) obtain m where "m \<in> set (va_rules ?m)" "ru_action e = ru_action m" "ru_kind e = ru_kind m" "ru_value e = ru_value m"
      by (rule from_validation)
    then show thesis using manual [of m] 2(2) by simp
  next
    case (3 e)
    from 3(1) obtain m where "m \<in> set (va_rules (the ?sd))" "ru_action e = ru_action m" "ru_kind e = ru_kind m" "ru_value e = ru_value m"
      unfolding option.sel by (rule from_validation)
    then show thesis using listed [of m "''DIRECT''" "''static_direct''" "tx_static_direct t"] 3(2) by simp
  next
    case (4 e)
    from 4(1) obtain m where "m \<in> set (va_rules (the ?bd))" "ru_action e = ru_action m" "ru_kind e = ru_kind m" "ru_value e = ru_value m"
      unfolding option.sel by (rule from_validation)
    then show thesis using listed [of m "''DIRECT''" "''big_direct''" "tx_big_direct t"] 4(2) by simp
  next
    case (5 e)
    from 5(1) obtain m where "m \<in> set (va_rules (the ?bv))" "ru_action e = ru_action m" "ru_kind e = ru_kind m" "ru_value e = ru_value m"
      unfolding option.sel by (rule from_validation)
    then show thesis using listed [of m "''VPN''" "''big_vpn''" "tx_big_vpn t"] 5(2) by simp
  qed
qed

lemma validated_manual: "m \<in> set (va_rules (validate_manual_rules s text)) \<Longrightarrow> accepted_rule s m"
  unfolding validate_manual_rules_def using manual_lines_accepted by (auto split: prod.splits)

lemma rule_addresses_cong: "ru_kind r = ru_kind m \<Longrightarrow> ru_value r = ru_value m \<Longrightarrow> rule_addresses r = rule_addresses m"
  by (simp add: rule_addresses_def)

lemma protected_network_wf: "n \<in> set (protected_rule_ip_networks s) \<Longrightarrow> wf_net n"
  by (auto simp: protected_rule_ip_networks_def map_filter_def dest: parse_network_wf)

lemma protected_rule_direct: "p \<in> set (protected_rules s) \<Longrightarrow> ru_action p = ''DIRECT''"
  by (auto simp: protected_rules_def)

lemma vpn_rule_avoids:
  assumes "r \<in> set (ef_rules (ca_effective (prepare_manual_rules_candidate s t)))" and "ru_action r = ''VPN''"
  shows "rule_addresses r \<inter> protected_space s = {}"
  using assms(1)
proof (cases rule: candidate_rules)
  case protected
  then show ?thesis using assms(2) protected_rule_direct by auto
next
  case (manual m)
  then have "accepted_rule s m" by (intro validated_manual)
  then show ?thesis
    using accepted_avoids [of s m] manual assms(2) rule_addresses_cong [of r m] by (simp add: accepted_rule_def)
next
  case (listed m action source tx)
  have "action = ''VPN''" using validated_list(3) [OF listed(1)] listed(3) assms(2) by simp
  then show ?thesis using vpn_list_avoids listed(1) rule_addresses_cong [OF listed(4,5)] by metis
qed

text \<open>
  C26. No effective rule that sends traffic to the VPN matches an address of a protected network, whatever
  the drafts and the lists contain: not as a manual rule, and not as a network that collapsing made.
\<close>

theorem vpn_rules_avoid_protected:
  assumes "r \<in> set (ef_rules (ca_effective (prepare_manual_rules_candidate s t)))" and "ru_action r = ''VPN''"
  shows "rule_addresses r \<inter> protected_space s = {}"
  using assms by (rule vpn_rule_avoids)

text \<open>
  C29. Every effective rule from the draft or from a list has a canonical value of its kind: a printed
  address or network, a domain name or a suffix; and its action is one of the two.
\<close>

theorem effective_rules_canonical:
  assumes "r \<in> set (ef_rules (ca_effective (prepare_manual_rules_candidate s t)))" and "\<not> ru_protected r"
  shows "canonical_value (ru_kind r) (ru_value r) \<and> ru_action r \<in> {''DIRECT'', ''VPN''}"
  using assms(1)
proof (cases rule: candidate_rules)
  case protected
  then show ?thesis using assms(2) by (auto simp: protected_rules_def)
next
  case (manual m)
  then show ?thesis using validated_manual [OF manual(1)] by (simp add: accepted_rule_def accepted_def)
next
  case (listed m action source tx)
  then show ?thesis using validated_list(3) [OF listed(1)] by (auto simp: wf_rule_def)
qed

section \<open>Concrete texts\<close>

definition text_of :: "string list \<Rightarrow> string" where
  "text_of ls = concat (map (\<lambda>l. l @ [CHR 0x0A]) ls)"

definition small_settings :: net_settings where
  "small_settings = default_net_settings\<lparr>cfg_protected_ipv4 := Some [''10.0.0.0/8''], cfg_protected_ipv6 := Some [''fc00::/7''],
     cfg_rules_extra := Some [''0.0.0.0/8'']\<rparr>"

definition sample_texts :: rule_texts where
  "sample_texts =
     \<lparr>tx_draft = text_of [''# manual'', ''vpn 8.8.8.8'', ''DIRECT .Example.org''], tx_static_direct = [],
      tx_big_direct = [], tx_big_vpn = text_of [''1.0.0.0/24'', ''1.0.1.0/24'', ''10.1.1.1'', ''a.b.com'', ''b.com''],
      tx_selective_default = ''direct''\<rparr>"

definition collapsed_sample :: rule_entry where
  "collapsed_sample = (build_rule_entry ''VPN'' ''cidr'' ''1.0.0.0/23'' (Some 1) ''big_vpn'' None False)\<lparr>ru_priority := Some 5\<rparr>"

lemma sample_effective_rules:
  "drop 4 (ef_rules (ca_effective (prepare_manual_rules_candidate small_settings sample_texts))) =
     [(build_rule_entry ''VPN'' ''ip'' ''8.8.8.8'' (Some 2) ''manual'' None False)\<lparr>ru_priority := Some 2\<rparr>,
      (build_rule_entry ''DIRECT'' ''domain_suffix'' ''.example.org'' (Some 3) ''manual'' None False)\<lparr>ru_priority := Some 2\<rparr>,
      collapsed_sample,
      (build_rule_entry ''VPN'' ''domain_suffix'' ''.b.com'' (Some 5) ''big_vpn'' None False)\<lparr>ru_priority := Some 5\<rparr>]"
  by code_simp

lemma collapsed_sample_effective: "collapsed_sample \<in> set (ef_rules (ca_effective (prepare_manual_rules_candidate small_settings sample_texts)))"
  using in_set_dropD [of collapsed_sample 4] sample_effective_rules by simp

theorem vpn_rules_avoid_protected_witness:
  "ru_action collapsed_sample = ''VPN'' \<and> rule_addresses collapsed_sample \<inter> protected_space small_settings = {}"
proof -
  have "ru_action collapsed_sample = ''VPN''" by (simp add: collapsed_sample_def)
  with vpn_rules_avoid_protected [OF collapsed_sample_effective] show ?thesis by simp
qed

theorem effective_rules_canonical_witness:
  "\<not> ru_protected collapsed_sample \<and> canonical_value (ru_kind collapsed_sample) (ru_value collapsed_sample)"
proof -
  have "\<not> ru_protected collapsed_sample" by (simp add: collapsed_sample_def)
  with effective_rules_canonical [OF collapsed_sample_effective] show ?thesis by simp
qed

end
