(* ===== verification/Rules_Roundtrip.thy ===== *)
theory Rules_Roundtrip
  imports Rules_Properties
begin

text \<open>
  Normalised values are normal: normalising a value again gives the same kind and value, except for a
  domain that reads like an address. That exception is the way round the check for protected networks.
\<close>

section \<open>Normalising twice\<close>

lemma domain_char_facts:
  assumes "domain_char c"
  shows "lower_char c = c" "\<not> is_space c" "c \<noteq> CHR ''.''" "c \<noteq> CHR '':''" "c \<noteq> CHR ''/''"
proof -
  consider "is_digit c" | "97 \<le> (of_char c :: nat)" "(of_char c :: nat) \<le> 122"
    using assms by (auto simp: domain_char_def less_eq_char_def)
  then have "lower_char c = c \<and> \<not> is_space c \<and> c \<noteq> CHR ''.'' \<and> c \<noteq> CHR '':'' \<and> c \<noteq> CHR ''/''"
  proof cases
    case 1
    then show ?thesis by (auto simp: is_digit_def decimal_digits_def lower_char_def is_space_def)
  next
    case 2
    have "int (of_char c) = of_char c" by (rule of_nat_of_char)
    then have "97 \<le> (of_char c :: int)" using 2(1) by linarith
    then show ?thesis using 2 by (auto simp: lower_char_def Let_def is_space_def)
  qed
  then show "lower_char c = c" "\<not> is_space c" "c \<noteq> CHR ''.''" "c \<noteq> CHR '':''" "c \<noteq> CHR ''/''" by blast+
qed

lemma domain_label_char:
  assumes "domain_label l" and "c \<in> set l"
  shows "lower_char c = c" "c \<noteq> CHR ''.''" "c \<noteq> CHR '':''" "c \<noteq> CHR ''/''"
proof -
  have "domain_char c \<or> c = CHR ''-''" using assms by (auto simp: domain_label_def list_all_iff)
  then have "lower_char c = c \<and> c \<noteq> CHR ''.'' \<and> c \<noteq> CHR '':'' \<and> c \<noteq> CHR ''/''"
    using domain_char_facts [of c] by (elim disjE) (simp_all add: lower_char_def)
  then show "lower_char c = c" "c \<noteq> CHR ''.''" "c \<noteq> CHR '':''" "c \<noteq> CHR ''/''" by blast+
qed

text \<open>A text of labels: a domain name, or one label.\<close>

definition labelled :: "string \<Rightarrow> bool" where
  "labelled d = list_all domain_label (split_char CHR ''.'' d)"

lemma labelled_cases: "domain_label d \<or> domain_name d \<Longrightarrow> labelled d"
proof (elim disjE)
  assume d: "domain_label d"
  then have "CHR ''.'' \<notin> set d" using domain_label_char(2) by blast
  with d show ?thesis using split_char_no by (simp add: labelled_def)
qed (simp add: labelled_def domain_name_def)

lemma join_ends:
  assumes "ls \<noteq> []" and "\<forall>l\<in>set ls. l \<noteq> []"
  shows "join sep ls \<noteq> []" "hd (join sep ls) = hd (hd ls)" "last (join sep ls) = last (last ls)"
proof -
  have "join sep ls \<noteq> [] \<and> hd (join sep ls) = hd (hd ls) \<and> last (join sep ls) = last (last ls)"
    using assms by (induction ls rule: induct_list012) auto
  then show "join sep ls \<noteq> []" "hd (join sep ls) = hd (hd ls)" "last (join sep ls) = last (last ls)" by blast+
qed

lemma labelled_facts:
  assumes "labelled d"
  shows "d \<noteq> []" "domain_char (hd d)" "domain_char (last d)" "lower d = d" "CHR '':'' \<notin> set d" "CHR ''/'' \<notin> set d"
proof -
  let ?ls = "split_char CHR ''.'' d"
  have l: "\<forall>l\<in>set ?ls. domain_label l" using assms by (simp add: labelled_def list_all_iff)
  have ne: "\<forall>l\<in>set ?ls. l \<noteq> []" using l by (auto simp: domain_label_def)
  note j = join_ends [OF split_char_ne ne, of "''.''"]
  have d: "join ''.'' ?ls = d" by (rule join_split_char)
  show "d \<noteq> []" using j(1) d by simp
  have "hd ?ls \<in> set ?ls" "last ?ls \<in> set ?ls" using split_char_ne by simp_all
  then show "domain_char (hd d)" "domain_char (last d)" using j(2,3) d l by (auto simp: domain_label_def)
  have "set d \<subseteq> set ''.'' \<union> (\<Union>l\<in>set ?ls. set l)" using set_join [of "''.''" ?ls] unfolding d .
  then have c: "c = CHR ''.'' \<or> (\<exists>l. domain_label l \<and> c \<in> set l)" if "c \<in> set d" for c using that l by auto
  have "lower_char c = c" if "c \<in> set d" for c
    using c [OF that] domain_label_char(1) by (auto simp: lower_char_def)
  then show "lower d = d" unfolding lower_def by (simp add: map_idI)
  show "CHR '':'' \<notin> set d" "CHR ''/'' \<notin> set d" using c domain_label_char(3,4) by fastforce+
qed

lemma strip_chars_id:
  assumes "s \<noteq> []" and "hd s \<noteq> c" and "last s \<noteq> c"
  shows "dropWhile (\<lambda>x. x = c) s = s" "rev (dropWhile (\<lambda>x. x = c) (rev s)) = s"
proof -
  show "dropWhile (\<lambda>x. x = c) s = s" using assms by (cases s) auto
  show "rev (dropWhile (\<lambda>x. x = c) (rev s)) = s" using assms by (cases s rule: rev_cases) auto
qed

lemma normalize_labelled:
  assumes "labelled d" and "domain_name d \<or> allow \<and> domain_label d"
  shows "normalize_domain_name allow d = Some d"
proof -
  note f = labelled_facts [OF assms(1)]
  have "strip d = d" using f(1-3) domain_char_facts(2) by (intro strip_trimmed)
  moreover have "rstrip_dots d = d"
    unfolding rstrip_dots_def using strip_chars_id(2) [of d "CHR ''.''"] f(1-3) domain_char_facts(3) by blast
  moreover have "domain_label l \<Longrightarrow> l \<noteq> [] \<and> \<not> 64 \<le> length l" for l by (simp add: domain_label_def)
  then have "\<not> (\<exists>l\<in>set (split_char CHR ''.'' d). l = [])" "\<not> (\<exists>l\<in>set (split_char CHR ''.'' d). 64 \<le> length l)"
    using assms(1) unfolding labelled_def list_all_iff by blast+
  moreover have "length (split_char CHR ''.'' d) = 1" if l: "domain_label d"
  proof -
    have "CHR ''.'' \<notin> set d" using l domain_label_char(2) by blast
    then show ?thesis by (simp add: split_char_no)
  qed
  moreover have "length (split_char CHR ''.'' d) \<noteq> 1" if "domain_name d" using that by (simp add: domain_name_def)
  ultimately show ?thesis
    using f(1,4) assms(2) unfolding normalize_domain_name_def Let_def by presburger
qed

lemma no_colon_ipv6: "CHR '':'' \<notin> set s \<Longrightarrow> parse_ipv6 s = None"
  using split_char_no [of "CHR '':''" s] by (simp add: parse_ipv6_def hextet_parts_def)

lemma no_slash_network:
  assumes "CHR ''/'' \<notin> set s" and "parse_address s = None"
  shows "parse_network s = None"
  using assms split_char_no [of "CHR ''/''" s]
  by (auto simp: parse_network_def parse_network_as_def parse_address_def split: option.splits)

lemma no_domain_address: "CHR '':'' \<notin> set s \<Longrightarrow> parse_ipv4 s = None \<Longrightarrow> parse_address s = None"
  by (simp add: parse_address_def no_colon_ipv6)

lemma dot_no_ipv4: "parse_ipv4 (CHR ''.'' # s) = None"
proof -
  have "parse_octet [] = None" by (simp add: parse_octet_def digits_opt_def)
  then show ?thesis by (simp add: parse_ipv4_def)
qed

text \<open>A text with a slash is no address.\<close>

lemma slash_no_ipv4:
  assumes "CHR ''/'' \<in> set s"
  shows "parse_ipv4 s = None"
proof (rule ccontr)
  assume "parse_ipv4 s \<noteq> None"
  then obtain w x y z where "map parse_octet (split_char CHR ''.'' s) = [Some w, Some x, Some y, Some z]"
    by (auto simp: parse_ipv4_def split: list.splits option.splits)
  then have "\<forall>p\<in>set (split_char CHR ''.'' s). parse_octet p \<noteq> None" by auto
  then have "\<forall>p\<in>set (split_char CHR ''.'' s). list_all is_digit p"
    by (auto simp: parse_octet_def digits_opt_def split: if_splits)
  moreover have "CHR ''/'' \<in> set ''.'' \<union> (\<Union>p\<in>set (split_char CHR ''.'' s). set p)"
    using set_join [of "''.''" "split_char CHR ''.'' s"] assms unfolding join_split_char by blast
  ultimately have "is_digit CHR ''/''" by (auto simp: list_all_iff)
  then show False by (simp add: is_digit_def decimal_digits_def)
qed

lemma split_app: "c \<notin> set t \<Longrightarrow> split_char c (s @ t) = butlast (split_char c s) @ [last (split_char c s) @ t]"
proof (induction s)
  case (Cons x s)
  obtain p ps where ps: "split_char c s = p # ps" using split_char_ne by (cases "split_char c s") auto
  show ?case using Cons ps by (cases ps) auto
qed (simp add: split_char_no)

lemma all_some_None: "None \<in> set xs \<Longrightarrow> all_some xs = None"
  by (induction xs rule: all_some.induct) auto

lemma last_hextet:
  assumes "parse_hextets ps \<noteq> None" and "last ps \<noteq> []" and "ps \<noteq> []"
  shows "parse_hextet (last ps) \<noteq> None"
proof
  assume n: "parse_hextet (last ps) = None"
  show False
  proof (cases "filter (\<lambda>i. ps ! i = []) [1 ..< length ps - 1]")
    case Nil
    have "all_some (map parse_hextet ps) = None" using n assms(3) by (intro all_some_None) (auto simp: image_iff intro!: bexI [of _ "last ps"])
    then show False using assms(1) unfolding parse_hextets_def Let_def Nil list.case by (simp split: if_splits)
  next
    case (Cons i js)
    then have "i \<in> set (filter (\<lambda>i. ps ! i = []) [1 ..< length ps - 1])" by simp
    then have i: "1 \<le> i" "i < length ps - 1" by auto
    have "js = []" using assms(1) Cons unfolding parse_hextets_def Let_def by (cases js) (simp_all split: if_splits)
    with Cons have f: "filter (\<lambda>i. ps ! i = []) [1 ..< length ps - 1] = [i]" by simp
    have "last ps \<in> set (drop (length ps - (length ps - i - 1)) ps)" proof -
      have "length ps - (length ps - i - 1) < length ps" using i by linarith
      then show ?thesis using last_drop [of "length ps - (length ps - i - 1)" ps] last_in_set [of "drop (length ps - (length ps - i - 1)) ps"] by simp
    qed
    then have "all_some (map parse_hextet (drop (length ps - (length ps - i - 1)) ps)) = None"
      using n by (intro all_some_None) (metis image_eqI set_map)
    then show False using assms(1,2) unfolding parse_hextets_def Let_def f list.case by (simp split: if_splits option.splits)
  qed
qed

lemma network_text_no_address: "parse_address (network_text n) = None"
proof -
  let ?x = "network_text n" and ?t = "''/'' @ nat_text (net_prefixlen n)"
  have v4: "parse_ipv4 ?x = None" by (rule slash_no_ipv4) (simp add: network_text_def)
  have "parse_ipv6 ?x = None"
  proof (cases "hextet_parts ?x")
    case (Some ps)
    let ?l = "last (split_char CHR '':'' ?x)"
    have "CHR '':'' \<notin> set ?t" by (simp add: nat_text_chars)
    then have "?l = last (split_char CHR '':'' (address_text (net_version n) (net_address n))) @ ?t"
      unfolding network_text_def by (simp add: split_app)
    then have sl: "CHR ''/'' \<in> set ?l" by simp
    then have "ps = split_char CHR '':'' ?x"
      using Some slash_no_ipv4 [OF sl] by (simp add: hextet_parts_def Let_def split: if_splits)
    moreover have "\<not> is_hex CHR ''/''" by code_simp
    then have "parse_hextet ?l = None" using sl unfolding parse_hextet_def list_all_iff by auto
    ultimately have "parse_hextets ps = None" using last_hextet [of ps] sl split_char_ne [of "CHR '':''" ?x] by (metis empty_iff empty_set)
    then show ?thesis by (simp add: parse_ipv6_def Some)
  qed (simp add: parse_ipv6_def)
  then show ?thesis using v4 by (simp add: parse_address_def)
qed

lemma canonical_cases:
  assumes "canonical_value kind x"
  obtains (ip) v a where "kind = ''ip''" "parse_address x = Some (v, a)" "address_text v a = x"
  | (cidr) n where "kind = ''cidr''" "parse_network x = Some n" "network_text n = x"
  | (domain) "kind = ''domain''" "domain_name x"
  | (suffix) d where "kind = ''domain_suffix''" "x = CHR ''.'' # d" "domain_label d \<or> domain_name d"
proof -
  consider "kind = ''ip''" | "kind = ''cidr''" | "kind = ''domain''"
    | "kind = ''domain_suffix''" "starts_with x ''.''" "domain_label (tl x) \<or> domain_name (tl x)"
    using assms unfolding canonical_value_def by (simp only: split: if_splits)
  then show thesis
  proof cases
    case 1
    then show thesis using assms ip by (auto simp: canonical_value_def split: option.splits)
  next
    case 2
    then show thesis using assms cidr by (auto simp: canonical_value_def split: option.splits)
  next
    case 3
    then show thesis using assms domain by (simp add: canonical_value_def)
  next
    case 4
    then show thesis using suffix [of "tl x"] by (cases x) (simp_all add: starts_with_def)
  qed
qed

lemma canonical_normal:
  assumes "canonical_value kind x" and "\<not> (kind = ''domain'' \<and> parse_address x \<noteq> None)"
  shows "normalize_rule_value x = Inr (kind, x)"
proof -
  consider (ip) v a where "kind = ''ip''" "parse_address x = Some (v, a)" "address_text v a = x"
    | (cidr) n where "kind = ''cidr''" "parse_network x = Some n" "network_text n = x"
    | (domain) "kind = ''domain''" "domain_name x"
    | (suffix) d where "kind = ''domain_suffix''" "x = CHR ''.'' # d" "domain_label d \<or> domain_name d"
    using assms(1) by (rule canonical_cases)
  then show ?thesis
  proof cases
    case ip
    have "strip x = x"
      using address_text_value_char [of _ v a] ip(3) by (intro strip_value) simp
    moreover have "x \<noteq> []" using ip(2) by (auto simp: parse_address_def parse_ipv4_def parse_octet_def digits_opt_def no_colon_ipv6)
    ultimately show ?thesis using ip by (simp add: normalize_rule_value_def)
  next
    case cidr
    have wf: "wf_net n" by (rule parse_network_wf [OF cidr(2)])
    have "strip x = x" using strip_network_text [of n] cidr(3) by simp
    moreover have "CHR ''/'' \<in> set x" using cidr(3) by (auto simp: network_text_def)
    moreover have "parse_address x = None" using network_text_no_address [of n] cidr(3) by simp
    ultimately show ?thesis using cidr by (auto simp: normalize_rule_value_def)
  next
    case domain
    have l: "labelled x" using domain(2) labelled_cases by blast
    note f = labelled_facts [OF l]
    have "strip x = x" using f(1-3) domain_char_facts(2) by (intro strip_trimmed)
    moreover have "parse_address x = None" using assms(2) domain(1) by blast
    moreover have "\<not> starts_with x ''.''" using f(1,2) domain_char_facts(3) by (cases x) (auto simp: starts_with_def)
    ultimately show ?thesis
      using no_slash_network [OF f(6)] normalize_labelled [OF l, of False] domain f(1,6) by (simp add: normalize_rule_value_def)
  next
    case suffix
    have l: "labelled d" using suffix(3) labelled_cases by blast
    note f = labelled_facts [OF l]
    have "strip x = x" using f(1-3) domain_char_facts(2) suffix(2) by (intro strip_trimmed) (auto simp: is_space_def)
    moreover have a: "parse_address x = None" using dot_no_ipv4 no_domain_address [of x] f(5) suffix(2) by simp
    moreover have "parse_network x = None" using no_slash_network [OF _ a] f(6) suffix(2) by simp
    moreover have "lstrip_dots x = d"
      unfolding lstrip_dots_def suffix(2) using strip_chars_id(1) [of d "CHR ''.''"] f(1-3) domain_char_facts(3) by simp
    ultimately show ?thesis
      using normalize_labelled [OF l, of True] suffix by (auto simp: normalize_rule_value_def starts_with_def)
  qed
qed

section \<open>The normalised text\<close>

lemma canonical_value_char: "canonical_value kind x \<Longrightarrow> c \<in> set x \<Longrightarrow> value_char c"
proof -
  have lab: "value_char c" if "labelled d" "c \<in> set d" for c d
  proof -
    have "set d \<subseteq> set ''.'' \<union> (\<Union>l\<in>set (split_char CHR ''.'' d). set l)"
      using set_join [of "''.''" "split_char CHR ''.'' d"] unfolding join_split_char .
    then have "c = CHR ''.'' \<or> (\<exists>l. domain_label l \<and> c \<in> set l)" using that by (auto simp: labelled_def list_all_iff)
    then have "c \<in> {CHR ''.'', CHR ''-''} \<or> domain_char c" by (auto simp: domain_label_def list_all_iff)
    then show ?thesis using digit_value_char by (auto simp: domain_char_def value_char_def)
  qed
  assume "canonical_value kind x" "c \<in> set x"
  then show ?thesis
  proof (cases rule: canonical_cases)
    case (suffix d)
    then have "c = CHR ''.'' \<or> c \<in> set d" "labelled d" using \<open>c \<in> set x\<close> labelled_cases by auto
    then show ?thesis using lab by (auto simp: value_char_def)
  next
    case domain
    then show ?thesis using lab \<open>c \<in> set x\<close> labelled_cases by blast
  qed (use \<open>c \<in> set x\<close> address_text_value_char network_text_value_char in blast)+
qed

lemma canonical_ne: "canonical_value kind x \<Longrightarrow> x \<noteq> []"
proof -
  assume "canonical_value kind x"
  then show ?thesis
  proof (cases rule: canonical_cases)
    case (cidr n)
    then show ?thesis by (auto simp: network_text_def)
  next
    case domain
    then show ?thesis using labelled_cases labelled_facts(1) by blast
  next
    case ip
    then show ?thesis by (auto simp: parse_address_def parse_ipv4_def parse_octet_def digits_opt_def no_colon_ipv6)
  qed simp
qed

lemma splitlines_step:
  assumes "\<forall>c\<in>set l. \<not> line_break c"
  shows "splitlines_from cur (l @ CHR 0x0A # rest) = (cur @ l) # splitlines_from [] rest"
  using assms by (induction l arbitrary: cur) (simp_all add: line_break_def)

lemma normalized_lines_concat: "ls \<noteq> [] \<Longrightarrow> normalized_lines ls = concat (map (\<lambda>l. l @ [CHR 0x0A]) ls) \<or> join [CHR 0x0A] ls = []"
proof -
  have "ls \<noteq> [] \<Longrightarrow> join [CHR 0x0A] ls @ [CHR 0x0A] = concat (map (\<lambda>l. l @ [CHR 0x0A]) ls)"
    by (induction ls rule: induct_list012) auto
  then show "ls \<noteq> [] \<Longrightarrow> normalized_lines ls = concat (map (\<lambda>l. l @ [CHR 0x0A]) ls) \<or> join [CHR 0x0A] ls = []"
    by (simp add: normalized_lines_def Let_def)
qed

lemma splitlines_normalized:
  assumes "\<forall>l\<in>set ls. l \<noteq> [] \<and> (\<forall>c\<in>set l. \<not> line_break c)"
  shows "splitlines (normalized_lines ls) = ls"
proof (cases "ls = []")
  case True
  then show ?thesis by (simp add: normalized_lines_def splitlines_def)
next
  case False
  have "splitlines_from [] (concat (map (\<lambda>l. l @ [CHR 0x0A]) ls)) = ls"
    using assms by (induction ls) (simp_all add: splitlines_step)
  moreover have "join [CHR 0x0A] ls \<noteq> []" using join_ends(1) [OF False] assms by blast
  ultimately show ?thesis using normalized_lines_concat [OF False] by (auto simp: splitlines_def)
qed

lemma split_ws_word: "\<forall>c\<in>set w. \<not> is_space c \<Longrightarrow> split_ws_from cur w = (if cur @ w = [] then [] else [cur @ w])"
  by (induction w arbitrary: cur) simp_all

lemma split_ws_two:
  assumes "\<forall>c\<in>set a. \<not> is_space c" and "\<forall>c\<in>set v. \<not> is_space c" and "a \<noteq> []" and "v \<noteq> []"
  shows "split_ws (a @ '' '' @ v) = [a, v]"
proof -
  have "split_ws_from cur (a @ CHR '' '' # v) = (cur @ a) # split_ws_from [] v" if "cur @ a \<noteq> []" for cur
    using assms(1) that by (induction a arbitrary: cur) (simp_all add: is_space_def)
  from this [of "[]"] show ?thesis using assms(2-4) by (simp add: split_ws_def split_ws_word)
qed

lemma manual_line_printed:
  assumes "accepted s action kind value" and "action \<in> {''DIRECT'', ''VPN''}" and "\<not> (kind = ''domain'' \<and> parse_address value \<noteq> None)"
  shows "manual_line s (action @ '' '' @ value) = Rule (action, kind, value)"
proof -
  let ?l = "action @ '' '' @ value"
  have c: "canonical_value kind value" and p: "\<not> (action = ''VPN'' \<and> is_protected_local s kind value)"
    using assms(1) by (simp_all add: accepted_def)
  have v: "\<forall>c\<in>set value. \<not> is_space c \<and> c \<noteq> CHR ''#''" "value \<noteq> []"
    using canonical_value_char [OF c] value_char_plain canonical_ne [OF c] by blast+
  have a: "\<forall>c\<in>set action. \<not> is_space c \<and> c \<noteq> CHR ''#''" "action \<noteq> []" using assms(2) by (auto simp: is_space_def)
  have "strip ?l = ?l" using a v by (intro strip_trimmed) auto
  moreover have "strip action = action" using a(1) by (intro strip_all) blast
  moreover have "map_of rule_action_aliases (upper action) = Some action"
    using assms(2) by (auto simp: rule_action_aliases_def upper_def upper_char_def)
  moreover have "split_ws ?l = [action, value]" using a v by (intro split_ws_two) auto
  moreover have "CHR ''#'' \<notin> set ?l" using a(1) v(1) by auto
  moreover have "\<not> starts_with ?l ''#''" using a by (cases action) (auto simp: starts_with_def)
  ultimately show ?thesis
    using canonical_normal [OF c assms(3)] p a(2) by (simp add: manual_line_def)
qed

lemma manual_lines_keys:
  assumes "manual_lines s ls seen = (errors, rules)"
  shows "distinct (map rule_key rules) \<and> rule_key ` set rules \<inter> fst ` set seen = {}"
  using assms
proof (induction ls arbitrary: seen errors rules)
  case (Cons l rest)
  obtain n original where l: "l = (n, original)" by (cases l)
  show ?case
  proof (cases "manual_line s original")
    case (Rule x)
    obtain a k v where x: "x = (a, k, v)" by (cases x)
    show ?thesis
    proof (cases "map_of seen (k, v)")
      case None
      then obtain es rs where r: "manual_lines s rest (((k, v), a) # seen) = (es, rs)"
        "rules = build_rule_entry a k v (Some n) ''manual'' None False # rs"
        using Cons.prems(1) Rule x l by (auto split: prod.splits)
      have "(k, v) \<notin> fst ` set seen" using None by (simp add: map_of_eq_None_iff)
      then show ?thesis using Cons.IH [OF r(1)] r(2) by (simp add: rule_key_def)
    next
      case (Some prev)
      then obtain es where "manual_lines s rest seen = (es, rules)"
        using Cons.prems(1) Rule x l by (auto split: prod.splits if_splits)
      then show ?thesis using Cons.IH by blast
    qed
  next
    case (Reject e)
    then obtain es where "manual_lines s rest seen = (es, rules)" using Cons.prems(1) l by (auto split: prod.splits)
    then show ?thesis using Cons.IH by blast
  next
    case Skip
    then have "manual_lines s rest seen = (errors, rules)" using Cons.prems l by simp
    then show ?thesis by (rule Cons.IH)
  next
    case Protected_Skip
    then have "manual_lines s rest seen = (errors, rules)" using Cons.prems l by simp
    then show ?thesis by (rule Cons.IH)
  qed
qed simp

definition print_rule :: "rule_entry \<Rightarrow> string" where
  "print_rule r = ru_action r @ '' '' @ ru_value r"

definition printable :: "net_settings \<Rightarrow> rule_entry \<Rightarrow> bool" where
  "printable s r = (accepted_rule s r \<and> \<not> (ru_kind r = ''domain'' \<and> parse_address (ru_value r) \<noteq> None))"

lemma manual_line_print: "printable s r \<Longrightarrow> manual_line s (print_rule r) = Rule (ru_action r, ru_kind r, ru_value r)"
  unfolding printable_def accepted_rule_def print_rule_def by (rule manual_line_printed) blast+

lemma manual_lines_print:
  assumes "\<forall>r\<in>set rs. printable s r" and "distinct (map rule_key rs)" and "rule_key ` set rs \<inter> fst ` set seen = {}"
    and "length ns = length rs"
  shows "manual_lines s (zip ns (map print_rule rs)) seen
    = ([], map (\<lambda>(n, r). build_rule_entry (ru_action r) (ru_kind r) (ru_value r) (Some n) ''manual'' None False) (zip ns rs))"
  using assms
proof (induction rs arbitrary: ns seen)
  case (Cons r rs)
  obtain n ms where ns: "ns = n # ms" "length ms = length rs" using Cons.prems(4) by (cases ns) auto
  have m: "manual_line s (print_rule r) = Rule (ru_action r, ru_kind r, ru_value r)" using Cons.prems(1) manual_line_print by simp
  have "map_of seen (ru_kind r, ru_value r) = None"
    using Cons.prems(3) by (simp add: map_of_eq_None_iff rule_key_def)
  moreover have "manual_lines s (zip ms (map print_rule rs)) (((ru_kind r, ru_value r), ru_action r) # seen)
    = ([], map (\<lambda>(n, r). build_rule_entry (ru_action r) (ru_kind r) (ru_value r) (Some n) ''manual'' None False) (zip ms rs))"
    using Cons.prems ns(2) by (intro Cons.IH) (auto simp: rule_key_def)
  ultimately show ?case by (simp add: ns(1) m)
qed simp

lemma printed_line: "printable s r \<Longrightarrow> print_rule r \<noteq> [] \<and> (\<forall>c\<in>set (print_rule r). \<not> line_break c)"
proof
  assume r: "printable s r"
  show "print_rule r \<noteq> []" by (simp add: print_rule_def)
  have v: "\<forall>c\<in>set (ru_value r). \<not> is_space c"
    using r canonical_value_char value_char_plain(1) by (auto simp: printable_def accepted_rule_def accepted_def)
  have "line_break c \<Longrightarrow> is_space c \<and> c \<noteq> CHR '' ''" for c by (auto simp: line_break_def is_space_def)
  moreover have "\<forall>c\<in>set (ru_action r). \<not> line_break c"
    using r by (auto simp: printable_def accepted_rule_def line_break_def)
  ultimately show "\<forall>c\<in>set (print_rule r). \<not> line_break c" using v by (auto simp: print_rule_def)
qed

definition rule_of :: "rule_entry \<Rightarrow> string \<times> string \<times> string" where
  "rule_of r = (ru_action r, ru_kind r, ru_value r)"

lemma validate_manual_of:
  assumes "manual_lines s (numbered (splitlines text)) [] = (es, rs)"
  shows "validate_manual_rules s text
    = \<lparr>va_errors = es, va_rules = rs, va_normalized_text = normalized_lines (map print_rule rs), va_stats = (0, 0, 0)\<rparr>"
proof -
  have "print_rule = (\<lambda>r. ru_action r @ '' '' @ ru_value r)" by (simp add: fun_eq_iff print_rule_def)
  then show ?thesis using assms by (simp add: validate_manual_rules_def)
qed

text \<open>
  C30. The normalised text of the manual rules is a fixed point: validating it again gives no error, the same
  actions, kinds and values in the same order, and the same text; provided that no accepted domain reads like
  an address.
\<close>

theorem normalized_text_roundtrip:
  assumes "\<forall>r\<in>set (va_rules (validate_manual_rules s text)). \<not> (ru_kind r = ''domain'' \<and> parse_address (ru_value r) \<noteq> None)"
  shows "va_valid (validate_manual_rules s (va_normalized_text (validate_manual_rules s text)))
    \<and> map rule_of (va_rules (validate_manual_rules s (va_normalized_text (validate_manual_rules s text))))
        = map rule_of (va_rules (validate_manual_rules s text))
    \<and> va_normalized_text (validate_manual_rules s (va_normalized_text (validate_manual_rules s text)))
        = va_normalized_text (validate_manual_rules s text)"
proof -
  let ?rs = "va_rules (validate_manual_rules s text)"
  obtain es rs where "manual_lines s (numbered (splitlines text)) [] = (es, rs)" by fastforce
  then have m: "manual_lines s (numbered (splitlines text)) [] = (es, ?rs)"
    and n: "va_normalized_text (validate_manual_rules s text) = normalized_lines (map print_rule ?rs)"
    by (simp_all add: validate_manual_of)
  have pr: "\<forall>r\<in>set ?rs. printable s r" using assms validated_manual by (auto simp: printable_def)
  have "splitlines (normalized_lines (map print_rule ?rs)) = map print_rule ?rs"
    using pr printed_line by (intro splitlines_normalized) (simp, blast)
  then have nb: "numbered (splitlines (normalized_lines (map print_rule ?rs))) = zip [1 ..< Suc (length ?rs)] (map print_rule ?rs)"
    unfolding numbered_def by simp
  let ?out = "map (\<lambda>(n, r). build_rule_entry (ru_action r) (ru_kind r) (ru_value r) (Some n) ''manual'' None False) (zip [1 ..< Suc (length ?rs)] ?rs)"
  have "manual_lines s (numbered (splitlines (normalized_lines (map print_rule ?rs)))) [] = ([], ?out)"
    unfolding nb using manual_lines_keys [OF m] pr by (intro manual_lines_print) (auto simp: Suc_le_eq)
  note v = validate_manual_of [OF this]
  have "map rule_of ?out = map rule_of ?rs" "map print_rule ?out = map print_rule ?rs"
    by (auto intro: nth_equalityI simp: rule_of_def print_rule_def Suc_le_eq)
  then show ?thesis unfolding n v va_valid_def validation.simps by simp
qed

theorem normalized_text_roundtrip_witness:
  "va_valid (validate_manual_rules small_settings (va_normalized_text (validate_manual_rules small_settings (tx_draft sample_texts))))"
proof -
  have "list_all (\<lambda>r. \<not> (ru_kind r = ''domain'' \<and> parse_address (ru_value r) \<noteq> None))
    (va_rules (validate_manual_rules small_settings (tx_draft sample_texts)))" by code_simp
  with normalized_text_roundtrip [of small_settings "tx_draft sample_texts"] show ?thesis by (simp add: list_all_iff)
qed

text \<open>
  The proviso is needed: an address with a final dot is accepted as a domain that reads like the address,
  for the VPN and for a protected address too; its normalised text is rejected.
\<close>

theorem dotted_address_is_accepted:
  "va_errors (validate_manual_rules small_settings ''VPN 10.0.0.1.'') = []
   \<and> map rule_of (va_rules (validate_manual_rules small_settings ''VPN 10.0.0.1.'')) = [(''VPN'', ''domain'', ''10.0.0.1'')]
   \<and> \<not> va_valid (validate_manual_rules small_settings (va_normalized_text (validate_manual_rules small_settings ''VPN 10.0.0.1.'')))"
  by code_simp

text \<open>
  The check for conflicting manual rules compares texts: one address may be routed to the VPN as an address
  and directly as a network of length 32, and both rules are accepted.
\<close>

theorem conflict_check_is_textual:
  "va_errors (validate_manual_rules small_settings (text_of [''VPN 1.2.3.4'', ''DIRECT 1.2.3.4/32''])) = []
   \<and> map rule_of (va_rules (validate_manual_rules small_settings (text_of [''VPN 1.2.3.4'', ''DIRECT 1.2.3.4/32''])))
     = [(''VPN'', ''ip'', ''1.2.3.4''), (''DIRECT'', ''cidr'', ''1.2.3.4/32'')]"
  by code_simp

text \<open>
  The protected service domain is not protected: as a domain it is rejected for its form before the check,
  and as a suffix it is accepted for the VPN.
\<close>

theorem localhost_suffix_goes_to_vpn:
  "normalize_rule_value ''localhost'' = Inl (value_error ''INVALID_DOMAIN'' ''Invalid domain rule value.'' (Some ''localhost''))
   \<and> map rule_of (va_rules (validate_manual_rules small_settings ''VPN .localhost'')) = [(''VPN'', ''domain_suffix'', ''.localhost'')]
   \<and> va_valid (validate_manual_rules small_settings ''VPN .localhost'')"
  by code_simp

end
