(* ===== verification/Subject_Taxonomy.thy ===== *)
theory Subject_Taxonomy
  imports Ip_Networks
begin

text \<open>
  The kinds of subjects of \<open>services/subject_taxonomy.py\<close> with the provider contracts of
  \<open>services/external_provider_registry.py\<close>, and the codec for server overrides of
  \<open>services/subject_server_override_codec.py\<close>. An argument that may be \<open>None\<close> is a text, empty for
  \<open>None\<close>. The probe and status mappings of a contract, which only the discovery reads, are left out.
\<close>

section \<open>Provider contracts\<close>

definition external_ingress_providers :: "(string \<times> pydict) list" where
  "external_ingress_providers =
     [(''tailscale'',
       [(''provider'', PStr ''tailscale''), (''module_concept'', PStr ''tailscale''),
        (''subject_type'', PStr ''external_network_client''), (''implementation_kind'', PStr ''tailscale''),
        (''display_label'', PStr ''Tailscale''), (''identity_kind'', PStr ''tailscale_ip''),
        (''ingress_interface'', PStr ''tailscale0''), (''payload_source_cidr'', PStr ''100.64.0.0/10''),
        (''service_traffic_policy'', PStr ''direct_immune''), (''location'', PStr ''host''),
        (''integration_mode'', PStr ''command_probe''), (''refresh_mode'', PStr ''interval''),
        (''runtime_available_message'',
         PStr ''External ingress status is available through the allowlisted host probe.''),
        (''collector_config'',
         PDict [(''script_id'', PStr ''tailscale_status''), (''interval_seconds'', PInt 3600),
                (''timeout_seconds'', PInt 20), (''apply_traffic'', PBool False)])])]"

definition explicit_external_client_providers :: "(string \<times> pydict) list" where
  "explicit_external_client_providers =
     [(''xray'',
       [(''provider'', PStr ''xray''), (''subject_type'', PStr ''explicit_external_client''),
        (''implementation_kind'', PStr ''xray''), (''runtime_binding'', PStr ''xray_runtime_bindings''),
        (''identity_match_prefix'', PStr ''xray-client''), (''traffic_source'', PStr ''runtime_api''),
        (''transparent_dataplane_policy'', PBool False), (''virtual_vpn_auto_override'', PBool True)])]"

definition external_ingress_provider_contracts :: "pydict list" where
  "external_ingress_provider_contracts = map snd external_ingress_providers"

definition external_ingress_provider_contract :: "string \<Rightarrow> pydict option" where
  "external_ingress_provider_contract provider = map_of external_ingress_providers (lower (strip provider))"

definition explicit_external_client_provider_contracts :: "pydict list" where
  "explicit_external_client_provider_contracts = map snd explicit_external_client_providers"

section \<open>Subject types\<close>

definition native_ingress_subject_types :: "string list" where
  "native_ingress_subject_types = [''lan'']"

definition legacy_transparent_ingress_subject_aliases :: "(string \<times> string) list" where
  "legacy_transparent_ingress_subject_aliases =
     [(''tailscale'', ''external_network_client''), (''tailscale_node'', ''external_network_client'')]"

definition legacy_explicit_external_client_subject_aliases :: "(string \<times> string) list" where
  "legacy_explicit_external_client_subject_aliases = [(''xray'', ''explicit_external_client'')]"

definition external_ingress_subject_types :: "string list" where
  "external_ingress_subject_types =
     map (\<lambda>provider. py_str (dict_get provider ''subject_type'')) external_ingress_provider_contracts"

definition transparent_ingress_client_subject_types :: "string list" where
  "transparent_ingress_client_subject_types = native_ingress_subject_types @ external_ingress_subject_types"

definition explicit_external_client_subject_types :: "string list" where
  "explicit_external_client_subject_types =
     map (\<lambda>provider. py_str (dict_get provider ''subject_type'')) explicit_external_client_provider_contracts"

definition client_plane_subject_types :: "string list" where
  "client_plane_subject_types = transparent_ingress_client_subject_types @ explicit_external_client_subject_types"

definition system_scoped_subject_types :: "string list" where
  "system_scoped_subject_types = [''host'', ''docker'']"

definition control_plane_direct_safe_subject_types :: "string list" where
  "control_plane_direct_safe_subject_types = [''host'', ''docker'', ''fwrouter'']"

definition ui_active_subject_types :: "string list" where
  "ui_active_subject_types =
     client_plane_subject_types @ map fst legacy_transparent_ingress_subject_aliases
     @ map fst legacy_explicit_external_client_subject_aliases"

definition server_override_subject_types :: "string list" where
  "server_override_subject_types =
     transparent_ingress_client_subject_types @ map fst legacy_transparent_ingress_subject_aliases
     @ explicit_external_client_subject_types @ system_scoped_subject_types"

definition normalize_subject_type :: "string \<Rightarrow> string" where
  "normalize_subject_type subject_type =
     (let normalized = lower (strip subject_type)
      in case map_of legacy_explicit_external_client_subject_aliases normalized of
           Some t \<Rightarrow> t
         | None \<Rightarrow>
             (case map_of legacy_transparent_ingress_subject_aliases normalized of
                Some t \<Rightarrow> t
              | None \<Rightarrow> normalized))"

definition is_transparent_ingress_subject_type :: "string \<Rightarrow> bool \<Rightarrow> bool" where
  "is_transparent_ingress_subject_type subject_type include_legacy =
     (let normalized = lower (strip subject_type)
      in if normalized \<in> set transparent_ingress_client_subject_types then True
         else include_legacy \<and> normalized \<in> set (map fst legacy_transparent_ingress_subject_aliases))"

definition is_explicit_external_client_subject_type :: "string \<Rightarrow> bool" where
  "is_explicit_external_client_subject_type subject_type =
     (normalize_subject_type subject_type \<in> set explicit_external_client_subject_types)"

definition is_system_scoped_subject_type :: "string \<Rightarrow> bool" where
  "is_system_scoped_subject_type subject_type =
     (normalize_subject_type subject_type \<in> set system_scoped_subject_types)"

definition subject_follows_global_mode :: "string \<Rightarrow> bool" where
  "subject_follows_global_mode subject_type = is_transparent_ingress_subject_type subject_type True"

section \<open>Contracts of a subject\<close>

definition nonempty_contract :: "pydict option \<Rightarrow> pydict option" where
  "nonempty_contract c = (case c of Some d \<Rightarrow> if d \<noteq> [] then Some d else None | None \<Rightarrow> None)"

definition external_ingress_contract :: "string \<Rightarrow> pydict option" where
  "external_ingress_contract provider =
     nonempty_contract (external_ingress_provider_contract (lower (strip provider)))"

definition external_ingress_contract_by_module :: "string \<Rightarrow> pydict option" where
  "external_ingress_contract_by_module module_concept =
     find (\<lambda>contract. lower (clean (py_or (dict_get contract ''module_concept'') (dict_get contract ''provider'')))
                        = lower (strip module_concept))
       external_ingress_provider_contracts"

definition transparent_ingress_contract :: "string \<Rightarrow> pydict option" where
  "transparent_ingress_contract subject_type =
     (let normalized = normalize_subject_type subject_type
      in if normalized \<in> set native_ingress_subject_types
         then Some [(''provider'', PStr ''native_lan''), (''subject_type'', PStr normalized),
                    (''identity_kind'', PStr ''ip_address'')]
         else find (\<lambda>provider. py_str (dict_get provider ''subject_type'') = normalized)
                external_ingress_provider_contracts)"

definition transparent_ingress_contract_for_subject :: "string \<Rightarrow> string \<Rightarrow> pydict option" where
  "transparent_ingress_contract_for_subject subject_type implementation_kind =
     (let normalized = normalize_subject_type subject_type
      in if normalized \<in> set native_ingress_subject_types then transparent_ingress_contract normalized
         else external_ingress_contract (lower (strip implementation_kind)))"

definition title_char :: "bool \<Rightarrow> char \<Rightarrow> char" where
  "title_char start c =
     (let n = (of_char c :: int)
      in if start \<and> 97 \<le> n \<and> n \<le> 122 then char_of (n - 32)
         else if \<not> start \<and> 65 \<le> n \<and> n \<le> 90 then char_of (n + 32) else c)"

definition is_letter :: "char \<Rightarrow> bool" where
  "is_letter c = (let n = (of_char c :: int) in 97 \<le> n \<and> n \<le> 122 \<or> 65 \<le> n \<and> n \<le> 90)"

text \<open>\<open>str.title()\<close>: the first letter of every run of letters in upper case.\<close>

fun title_from :: "bool \<Rightarrow> string \<Rightarrow> string" where
  "title_from start [] = []"
| "title_from start (c # cs) = title_char start c # title_from (\<not> is_letter c) cs"

record display_contract =
  dc_system_id :: string
  dc_label :: string
  dc_runtime_type :: string
  dc_description :: string
  dc_location :: string
  dc_integration_mode :: string
  dc_refresh_mode :: string
  dc_collector_config :: pydict

definition external_network_source_display_contract :: "string \<Rightarrow> display_contract option" where
  "external_network_source_display_contract subject_type =
     (case transparent_ingress_contract subject_type of
        None \<Rightarrow> None
      | Some contract \<Rightarrow>
          if contract = [] \<or> \<not> truthy (dict_get contract ''module_concept'') then None
          else
            let provider = lower (clean (dict_get contract ''provider''));
                module_concept = lower (strip (py_str (py_or (dict_get contract ''module_concept'') (PStr provider))))
            in if provider = [] \<or> module_concept = [] then None
               else
                 let label = strip (py_str (py_or (dict_get contract ''display_label'')
                       (PStr (title_from True (replace_char CHR ''_'' '' '' provider)))))
                 in Some \<lparr>dc_system_id = ''external-network-'' @ module_concept, dc_label = label,
                          dc_runtime_type = provider,
                          dc_description = py_str (py_or (dict_get contract ''description'')
                            (PStr (''External network source discovered from '' @ label @ '' inventory.''))),
                          dc_location = py_str (py_or (dict_get contract ''location'') (PStr ''host'')),
                          dc_integration_mode =
                            py_str (py_or (dict_get contract ''integration_mode'') (PStr ''command_probe'')),
                          dc_refresh_mode = py_str (py_or (dict_get contract ''refresh_mode'') (PStr ''interval'')),
                          dc_collector_config = items (dict_get contract ''collector_config'')\<rparr>)"

definition explicit_external_client_contract :: "string \<Rightarrow> pydict option" where
  "explicit_external_client_contract subject_type =
     (let normalized = normalize_subject_type subject_type
      in find (\<lambda>provider. py_str (dict_get provider ''subject_type'') = normalized)
           explicit_external_client_provider_contracts)"

definition implementation_of :: "pydict \<Rightarrow> string" where
  "implementation_of contract =
     lower (clean (py_or (dict_get contract ''implementation_kind'') (dict_get contract ''provider'')))"

definition explicit_external_client_contract_for_subject :: "string \<Rightarrow> string \<Rightarrow> pydict option" where
  "explicit_external_client_contract_for_subject subject_type implementation_kind =
     (let normalized = normalize_subject_type subject_type; provider = lower (strip implementation_kind)
      in case find (\<lambda>contract. py_str (dict_get contract ''subject_type'') = normalized \<and> implementation_of contract = provider)
                explicit_external_client_provider_contracts of
           Some contract \<Rightarrow> Some contract
         | None \<Rightarrow> explicit_external_client_contract normalized)"

definition explicit_external_client_runtime_binding :: "string \<Rightarrow> string option" where
  "explicit_external_client_runtime_binding subject_type =
     (case explicit_external_client_contract subject_type of
        None \<Rightarrow> None
      | Some contract \<Rightarrow> (let b = clean (dict_get contract ''runtime_binding'') in if b = [] then None else Some b))"

definition explicit_external_client_allows_virtual_vpn_auto :: "string \<Rightarrow> bool" where
  "explicit_external_client_allows_virtual_vpn_auto subject_type =
     (case nonempty_contract (explicit_external_client_contract subject_type) of
        None \<Rightarrow> False
      | Some contract \<Rightarrow> truthy (dict_get contract ''virtual_vpn_auto_override''))"

definition explicit_external_client_subject_allows_virtual_vpn_auto :: "string \<Rightarrow> string \<Rightarrow> bool" where
  "explicit_external_client_subject_allows_virtual_vpn_auto subject_type implementation_kind =
     (let normalized = normalize_subject_type subject_type; provider = lower (strip implementation_kind)
      in list_ex (\<lambda>contract. py_str (py_or (dict_get contract ''subject_type'') (PStr [])) = normalized
                    \<and> implementation_of contract = provider \<and> truthy (dict_get contract ''virtual_vpn_auto_override''))
           explicit_external_client_provider_contracts)"

definition explicit_external_client_uses_transparent_policy :: "string \<Rightarrow> bool" where
  "explicit_external_client_uses_transparent_policy subject_type =
     (case nonempty_contract (explicit_external_client_contract subject_type) of
        None \<Rightarrow> False
      | Some contract \<Rightarrow> truthy (dict_get contract ''transparent_dataplane_policy''))"

definition subject_needs_transparent_policy :: "string \<Rightarrow> bool" where
  "subject_needs_transparent_policy subject_type =
     (if is_explicit_external_client_subject_type subject_type
      then explicit_external_client_uses_transparent_policy subject_type else True)"

definition watchdog_nft_subject_counter_prefixes :: "string list" where
  "watchdog_nft_subject_counter_prefixes =
     map (\<lambda>t. t @ ''_'') (sort (remdups (transparent_ingress_client_subject_types @ system_scoped_subject_types)))
     @ [''fwrouter_global_'']"

section \<open>Server overrides\<close>

definition virtual_xray_vpn_auto_server_id :: string where
  "virtual_xray_vpn_auto_server_id = ''virtual:xray:vpn-auto''"

definition encode_target :: "string \<Rightarrow> string \<times> string option" where
  "encode_target server_id =
     (let normalized = strip server_id
      in if normalized = virtual_xray_vpn_auto_server_id then (''vpn_auto'', None)
         else (''server'', if normalized = [] then None else Some normalized))"

record server_override_row =
  so_subject_id :: string
  so_server_id :: "string option"
  so_target_kind :: "string option"
  so_until :: "string option"
  so_apply_state :: string
  so_error_code :: "string option"
  so_error_message :: "string option"
  so_updated_at :: string

definition decode_target :: "server_override_row \<Rightarrow> string option" where
  "decode_target row =
     (let kind = (case so_target_kind row of Some k \<Rightarrow> if k = [] then ''server'' else k | None \<Rightarrow> ''server'')
      in if kind = ''vpn_auto''
         then (if so_server_id row \<noteq> None then None else Some virtual_xray_vpn_auto_server_id)
         else if kind = ''server'' \<and> so_server_id row \<noteq> None \<and> so_server_id row \<noteq> Some [] then so_server_id row
         else None)"

definition project_row :: "server_override_row \<Rightarrow> server_override_row" where
  "project_row row =
     row\<lparr>so_server_id := decode_target row,
         so_target_kind := Some (if decode_target row = Some virtual_xray_vpn_auto_server_id then ''vpn_auto'' else ''server'')\<rparr>"

end
