(* ===== verification/Scoped_Egress.thy ===== *)
theory Scoped_Egress
  imports Subject_Taxonomy
begin

text \<open>
  The scoped egress of \<open>services/scoped_egress.py\<close>: which subject is tracked, how its packets are
  matched, and whether its own path through the VPN is applied, pending or not applicable. The file with
  the bindings of explicit clients is an argument. A malformed address in a subject's details raises
  \<open>ValueError\<close>, as \<open>ip_address\<close> does. Zone identifiers of addresses are not modelled.
\<close>

section \<open>Subjects\<close>

record policy_subject =
  ps_id :: string
  ps_type :: string
  ps_implementation :: string
  ps_display_name :: pyval
  ps_desired_mode :: string
  ps_active :: bool
  ps_deleted :: bool
  ps_runtime_state :: pyval
  ps_visibility :: pyval
  ps_detail :: pyval

definition normalized_detail :: "policy_subject \<Rightarrow> pydict" where
  "normalized_detail subject = items (ps_detail subject)"

definition detail_text :: "pydict \<Rightarrow> string \<Rightarrow> string" where
  "detail_text detail k = clean (dict_get detail k)"

definition detail_source :: "pydict \<Rightarrow> pyval" where
  "detail_source detail = py_or (dict_get detail ''source'') (dict_get detail ''source_json'')"

definition lstrip_slashes :: "string \<Rightarrow> string" where
  "lstrip_slashes s = dropWhile (\<lambda>c. c = CHR ''/'') s"

definition protected_docker_runtime_identities :: "(string \<times> string \<times> string) list" where
  "protected_docker_runtime_identities =
     [(''mihomo'', ''fwrouter-mihomo'', ''vpn_dataplane''),
      (''fwrouter-xray'', ''fwrouter-xray'', ''explicit_client_runtime'')]"

definition protected_docker_runtime_role :: "policy_subject \<Rightarrow> string option" where
  "protected_docker_runtime_role subject =
     (if lower (strip (ps_type subject)) \<noteq> ''docker'' then None
      else if \<not> is_dict (ps_detail subject) then None
      else
        let detail = items (ps_detail subject); service = detail_text detail ''compose_service'';
            container_name = lstrip_slashes (detail_text detail ''container_name'')
        in map_option (\<lambda>(_, _, role). role)
             (find (\<lambda>(expected_service, expected_name, _). service = expected_service \<and> container_name = expected_name)
                protected_docker_runtime_identities))"

section \<open>Addresses\<close>

text \<open>\<open>ip_address(value)\<close> of a JSON value: texts are parsed, integers are addresses, all else raises.\<close>

fun ip_address_of :: "pyval \<Rightarrow> (ip_version \<times> int) option" where
  "ip_address_of (PStr s) = parse_address s"
| "ip_address_of (PInt n) = (if n < 0 then None else if n < 2 ^ 32 then Some (V4, n) else if n < 2 ^ 128 then Some (V6, n) else None)"
| "ip_address_of (PBool b) = Some (V4, if b then 1 else 0)"
| "ip_address_of _ = None"

definition canonical_address :: "ip_version \<times> int \<Rightarrow> string" where
  "canonical_address x = address_text (fst x) (snd x)"

fun ipv6_addresses :: "pyval list \<Rightarrow> string list option" where
  "ipv6_addresses [] = Some []"
| "ipv6_addresses (v # vs) =
     (case parse_address (strip (py_str v)) of
        Some (V6, a) \<Rightarrow> map_option ((#) (ipv6_text a)) (ipv6_addresses vs)
      | _ \<Rightarrow> None)"

definition docker_ipv6_inventory_state :: "policy_subject \<Rightarrow> string \<times> string list" where
  "docker_ipv6_inventory_state subject =
     (let source = detail_source (normalized_detail subject)
      in if \<not> is_dict source \<or> get_in source ''IPv6InventoryComplete'' \<noteq> PBool True then (''incomplete'', [])
         else case get_in source ''IPv6Addresses'' of
           PList vs \<Rightarrow>
             (case ipv6_addresses vs of
                None \<Rightarrow> (''incomplete'', [])
              | Some as \<Rightarrow>
                  if as \<noteq> [] then (''global_ipv6_present'', sort (remdups as)) else (''complete_no_global_ipv6'', []))
         | _ \<Rightarrow> (''incomplete'', []))"

section \<open>Bindings of explicit clients\<close>

definition load_xray_bindings :: "json_text option \<Rightarrow> (string \<times> pydict) list" where
  "load_xray_bindings file =
     (case file of
        Some (JText payload) \<Rightarrow>
          (case (if is_dict payload then get_in payload ''bindings'' else PList []) of
             PList bindings \<Rightarrow>
               fold (\<lambda>binding result.
                       if \<not> is_dict binding then result
                       else let subject_id = clean (get_in binding ''subject_id'')
                            in if subject_id = [] then result else AList.update subject_id (items binding) result)
                 bindings []
           | _ \<Rightarrow> [])
      | _ \<Rightarrow> [])"

definition explicit_client_runtime_binding :: "string \<Rightarrow> string \<Rightarrow> string option" where
  "explicit_client_runtime_binding subject_type implementation_kind =
     (case explicit_external_client_contract_for_subject subject_type implementation_kind of
        None \<Rightarrow> None
      | Some contract \<Rightarrow> (let b = clean (dict_get contract ''runtime_binding'') in if b = [] then None else Some b))"

definition load_explicit_client_runtime_bindings :: "json_text option \<Rightarrow> string \<Rightarrow> string \<Rightarrow> (string \<times> pydict) list" where
  "load_explicit_client_runtime_bindings file subject_type implementation_kind =
     (if explicit_client_runtime_binding subject_type implementation_kind = Some ''xray_runtime_bindings''
      then load_xray_bindings file else [])"

section \<open>Matching packets\<close>

record nft_matcher =
  nm_family :: string
  nm_type :: string
  nm_expr :: string
  nm_value :: string
  nm_values :: "string list option"

record matcher_state =
  mt_resolved :: bool
  mt_key :: "string option"
  mt_reason :: string
  mt_matcher :: "nft_matcher option"

definition unresolved :: "string option \<Rightarrow> string \<Rightarrow> matcher_state" where
  "unresolved key reason = \<lparr>mt_resolved = False, mt_key = key, mt_reason = reason, mt_matcher = None\<rparr>"

definition ip_matcher :: "string \<Rightarrow> string \<Rightarrow> exc + matcher_state" where
  "ip_matcher candidate_ip reason =
     (case parse_address candidate_ip of
        None \<Rightarrow> Inl ValueError
      | Some (V4, _) \<Rightarrow>
          Inr \<lparr>mt_resolved = True, mt_key = Some (''ip:'' @ candidate_ip), mt_reason = reason,
               mt_matcher = Some \<lparr>nm_family = ''ipv4'', nm_type = ''ipv4_addr'', nm_expr = ''ip saddr'',
                                  nm_value = candidate_ip, nm_values = None\<rparr>\<rparr>
      | Some (V6, _) \<Rightarrow>
          Inr \<lparr>mt_resolved = True, mt_key = Some (''ip:'' @ candidate_ip), mt_reason = reason,
               mt_matcher = Some \<lparr>nm_family = ''ipv6'', nm_type = ''ipv6_addr'', nm_expr = ''ip6 saddr'',
                                  nm_value = candidate_ip, nm_values = None\<rparr>\<rparr>)"

definition lan_matcher :: "pydict \<Rightarrow> exc + matcher_state" where
  "lan_matcher detail =
     (let candidate_ip = detail_text detail ''ip_address'';
          candidate_mac = lower (detail_text detail ''mac_address'')
      in if candidate_ip \<noteq> [] then ip_matcher candidate_ip ''subject_lan_ip''
         else if candidate_mac \<noteq> []
         then Inr (unresolved (Some (''mac:'' @ candidate_mac)) ''subject_lan_mac_not_supported_in_v1'')
         else Inr (unresolved None ''subject_lan_ip_missing''))"

definition external_network_matcher :: "pydict \<Rightarrow> string \<Rightarrow> exc + matcher_state" where
  "external_network_matcher detail identity_kind =
     (let candidate_ip = clean (py_or (dict_get detail identity_kind) (py_or (dict_get detail ''provider_ip'')
            (py_or (dict_get detail ''ip_address'') (dict_get detail ''tailscale_ip''))));
          candidate_node_id = clean (py_or (dict_get detail ''provider_node_id'')
            (py_or (dict_get detail ''node_id'') (dict_get detail ''id'')))
      in if candidate_ip \<noteq> [] then ip_matcher candidate_ip ''external_network_client_ip''
         else if candidate_node_id \<noteq> []
         then Inr (unresolved (Some (''node:'' @ candidate_node_id)) ''external_network_client_node_id_not_supported_in_v1'')
         else Inr (unresolved None ''external_network_client_ip_missing''))"

definition explicit_client_matcher :: "pydict \<Rightarrow> string \<Rightarrow> pydict option \<Rightarrow> matcher_state" where
  "explicit_client_matcher detail implementation_kind contract =
     (let match_prefix = strip (py_str (py_or (dict_get (case contract of Some c \<Rightarrow> c | None \<Rightarrow> []) ''identity_match_prefix'')
            (py_or (PStr implementation_kind) (PStr ''external-client''))));
          client_uuid = detail_text detail ''client_uuid''; client_id = detail_text detail ''client_id''
      in if client_uuid \<noteq> []
         then unresolved (Some (match_prefix @ ''-uuid:'' @ client_uuid)) ''explicit_external_client_uuid_runtime_binding_pending''
         else if client_id \<noteq> []
         then unresolved (Some (match_prefix @ ''-id:'' @ client_id)) ''explicit_external_client_id_runtime_binding_pending''
         else unresolved None ''explicit_external_client_identity_missing'')"

definition docker_matcher :: "pydict \<Rightarrow> exc + matcher_state" where
  "docker_matcher detail =
     (let candidate_ip = detail_text detail ''ip_address''; container_name = detail_text detail ''container_name''
      in if candidate_ip \<noteq> [] then ip_matcher candidate_ip ''subject_docker_ip''
         else if container_name \<noteq> []
         then Inr (unresolved (Some (''container:'' @ container_name)) ''subject_docker_ip_missing'')
         else Inr (unresolved None ''subject_docker_identity_missing''))"

definition host_matcher :: "pydict \<Rightarrow> matcher_state" where
  "host_matcher detail =
     (let systemd_unit = detail_text detail ''systemd_unit''; process_name = detail_text detail ''process_name''
      in if systemd_unit \<noteq> []
         then unresolved (Some (''systemd:'' @ systemd_unit)) ''subject_host_process_only_match_not_supported_in_v1''
         else if process_name \<noteq> []
         then unresolved (Some (''process:'' @ process_name)) ''subject_host_process_only_match_not_supported_in_v1''
         else unresolved None ''subject_host_identity_missing'')"

definition matcher_from_subject :: "policy_subject \<Rightarrow> exc + matcher_state" where
  "matcher_from_subject subject =
     (let subject_type = ps_type subject; kind = ps_implementation subject; detail = normalized_detail subject
      in case transparent_ingress_contract_for_subject subject_type kind of
           Some contract \<Rightarrow>
             (let identity_kind = detail_text contract ''identity_kind''
              in if identity_kind = ''ip_address'' then lan_matcher detail
                 else if identity_kind \<noteq> [] then external_network_matcher detail identity_kind
                 else Inr (unresolved None ''transparent_ingress_identity_kind_not_supported''))
         | None \<Rightarrow>
             if subject_type = ''lan'' then lan_matcher detail
             else
               (let explicit = explicit_external_client_contract_for_subject subject_type kind
                in if explicit \<noteq> None \<or> is_explicit_external_client_subject_type subject_type
                   then Inr (explicit_client_matcher detail kind explicit)
                   else if subject_type = ''docker'' then docker_matcher detail
                   else if subject_type = ''host'' then Inr (host_matcher detail)
                   else Inr (unresolved None ''subject_type_not_supported'')))"

section \<open>Docker inventories\<close>

definition max_docker_ipv4_source_addresses :: nat where
  "max_docker_ipv4_source_addresses = 64"

definition network_mode :: "pyval \<Rightarrow> string" where
  "network_mode source = (if is_dict source then lower (clean (get_in source ''NetworkMode'')) else [])"

text \<open>
  The sources of a container that goes directly while the global mode does not: the sorted addresses, when
  the inventory is complete, canonical, of version 4 and contains the primary address.
\<close>

definition docker_direct_addresses :: "policy_subject \<Rightarrow> string list option" where
  "docker_direct_addresses subject =
     (let detail = normalized_detail subject; source = detail_source detail;
          values = (case get_in source ''IPv4Addresses'' of PList vs \<Rightarrow> vs | _ \<Rightarrow> []);
          valid_values = (values \<noteq> [] \<and> length values \<le> max_docker_ipv4_source_addresses \<and> list_all is_str values)
      in case (if valid_values then all_some (map ip_address_of values) else Some []) of
           None \<Rightarrow> None
         | Some parsed \<Rightarrow>
             let addresses = map canonical_address parsed;
                 valid = (valid_values \<and> list_all (\<lambda>x. fst x = V4) parsed \<and> addresses = map py_str values)
             in case parse_address (py_str (py_or (dict_get detail ''ip_address'') (PStr []))) of
                  None \<Rightarrow> None
                | Some primary \<Rightarrow>
                    if \<not> is_dict source \<or> get_in source ''IPv4InventoryComplete'' \<noteq> PBool True \<or> \<not> valid
                       \<or> addresses = [] \<or> canonical_address primary \<notin> set addresses
                       \<or> fst (docker_ipv6_inventory_state subject) \<noteq> ''complete_no_global_ipv6''
                    then None else Some (sort (remdups addresses)))"

text \<open>Why a container cannot use the VPN: the status, the reason and the state of the IPv6 inventory once it is known.\<close>

definition docker_vpn_obstacle :: "policy_subject \<Rightarrow> (string \<times> string) option \<times> string option" where
  "docker_vpn_obstacle subject =
     (let detail = normalized_detail subject; source = detail_source detail
      in if network_mode source = ''host''
         then (Some (''pending_docker_host_network'', ''docker_host_network_full_vpn_unsupported''), None)
         else
           let parsed = (case get_in source ''IPv4Addresses'' of PList vs \<Rightarrow> all_some (map ip_address_of vs) | _ \<Rightarrow> Some []);
               addresses = (case parsed of None \<Rightarrow> [] | Some xs \<Rightarrow> remdups (map canonical_address xs));
               valid = (case parsed of None \<Rightarrow> False | Some xs \<Rightarrow> list_all (\<lambda>x. fst x = V4) xs)
           in if \<not> is_dict source \<or> get_in source ''IPv4InventoryComplete'' \<noteq> PBool True \<or> \<not> valid \<or> addresses = []
              then (Some (''pending_docker_ipv4_inventory'', ''docker_ipv4_inventory_incomplete''), None)
              else if length addresses \<noteq> 1
                      \<or> py_str (py_or (dict_get detail ''ip_address'') (PStr [])) \<notin> set addresses
              then (Some (''pending_docker_multi_ipv4_unsupported'', ''docker_single_ipv4_matcher_required''), None)
              else
                let ipv6_state = fst (docker_ipv6_inventory_state subject)
                in (if ipv6_state = ''incomplete''
                    then Some (''pending_docker_ipv6_inventory'', ''docker_ipv6_inventory_incomplete'')
                    else if ipv6_state = ''global_ipv6_present''
                    then Some (''pending_docker_ipv6_unsupported'', ''docker_ipv6_full_vpn_unsupported'')
                    else None, Some ipv6_state))"

section \<open>The runtime of one subject\<close>

definition scoped_egress_eligible_subject_types :: "string list" where
  "scoped_egress_eligible_subject_types = client_plane_subject_types @ system_scoped_subject_types"

definition scoped_egress_eligible_sources :: "string list" where
  "scoped_egress_eligible_sources = [''subject_override'', ''global_fixed'', ''vpn_auto'']"

definition selective_scoped_runtime_subject_types :: "string list" where
  "selective_scoped_runtime_subject_types = transparent_ingress_client_subject_types"

definition uses_scoped_runtime_path :: "string \<Rightarrow> string \<Rightarrow> bool" where
  "uses_scoped_runtime_path subject_type path =
     (if path = ''vpn'' then True
      else if \<not> subject_needs_transparent_policy subject_type then False
      else path = ''selective'' \<and> subject_type \<in> set selective_scoped_runtime_subject_types)"

text \<open>\<open>overridden\<close> tells whether the subject has a server override.\<close>

definition is_tracked_subject :: "string \<Rightarrow> string \<Rightarrow> bool \<Rightarrow> bool" where
  "is_tracked_subject subject_type path overridden =
     (if is_explicit_external_client_subject_type subject_type then path = ''vpn'' \<or> overridden
      else subject_type \<in> set scoped_egress_eligible_subject_types
           \<and> (uses_scoped_runtime_path subject_type path \<or> overridden))"

definition inventory_classification :: "string \<Rightarrow> string \<Rightarrow> bool \<Rightarrow> string option \<Rightarrow> string" where
  "inventory_classification subject_type path overridden infrastructure_role =
     (if infrastructure_role \<noteq> None then ''control_plane_direct_safe''
      else if subject_type = ''fwrouter'' then ''control_plane_direct_safe''
      else if subject_type \<in> set system_scoped_subject_types \<and> path \<noteq> ''vpn'' \<and> \<not> overridden
      then ''control_plane_direct_safe''
      else if subject_type \<in> set scoped_egress_eligible_subject_types
              \<and> (uses_scoped_runtime_path subject_type path \<or> overridden)
      then ''eligible_for_scoped_vpn''
      else ''tracked_only'')"

record scoped_runtime =
  sr_tracked :: bool
  sr_eligible :: bool
  sr_applied :: bool
  sr_status :: string
  sr_subject_id :: string
  sr_subject_type :: string
  sr_path :: string
  sr_server_id :: "string option"
  sr_server_source :: "string option"
  sr_target_id :: "string option"
  sr_target_source :: "string option"
  sr_match_key :: "string option"
  sr_reason :: string
  sr_matcher :: "nft_matcher option"
  sr_vpn_supported :: bool
  sr_bypass_active :: bool
  sr_materialized_by :: "string option"
  sr_role :: string
  sr_classification :: string
  sr_direct_safe :: bool
  sr_infrastructure_role :: "string option"
  sr_direct_coverage :: "string list option"
  sr_docker_ipv6 :: "string option"

text \<open>The arguments of the builder that describe the subject's binding and the runtime.\<close>

record scoped_args =
  sa_path :: string
  sa_server_id :: "string option"
  sa_server_source :: "string option"
  sa_target_id :: "string option"
  sa_target_source :: "string option"
  sa_overridden :: bool
  sa_vpn_supported :: bool
  sa_bypass :: bool
  sa_global_mode :: string

definition outcome :: "string \<Rightarrow> string \<Rightarrow> scoped_runtime \<Rightarrow> scoped_runtime" where
  "outcome status reason r = r\<lparr>sr_status := status, sr_reason := reason\<rparr>"

definition resolved_target_source :: "scoped_args \<Rightarrow> string option" where
  "resolved_target_source a = (if sa_target_source a \<noteq> None then sa_target_source a else sa_server_source a)"

text \<open>The target, where an explicit client on the automatic VPN gets the stable name of the handoff.\<close>

definition resolved_target_id :: "string \<Rightarrow> scoped_args \<Rightarrow> string option" where
  "resolved_target_id subject_type a =
     (let target = (if sa_target_id a \<noteq> None then sa_target_id a else sa_server_id a)
      in if is_explicit_external_client_subject_type subject_type \<and> sa_path a = ''vpn''
            \<and> resolved_target_source a = Some ''vpn_auto'' \<and> target = None
         then Some ''vpn-global'' else target)"

definition initial_runtime :: "policy_subject \<Rightarrow> scoped_args \<Rightarrow> matcher_state \<Rightarrow> scoped_runtime" where
  "initial_runtime subject a matcher =
     (let t = ps_type subject; role = protected_docker_runtime_role subject;
          target = (if sa_target_id a \<noteq> None then sa_target_id a else sa_server_id a);
          resolved = resolved_target_id t a
      in \<lparr>sr_tracked = is_tracked_subject t (sa_path a) (sa_overridden a), sr_eligible = False, sr_applied = False,
          sr_status = ''not_applicable'', sr_subject_id = ps_id subject, sr_subject_type = t, sr_path = sa_path a,
          sr_server_id = resolved, sr_server_source = resolved_target_source a,
          sr_target_id = (if target = None \<and> resolved \<noteq> None then resolved else sa_target_id a),
          sr_target_source = sa_target_source a, sr_match_key = mt_key matcher, sr_reason = mt_reason matcher,
          sr_matcher = mt_matcher matcher, sr_vpn_supported = sa_vpn_supported a, sr_bypass_active = sa_bypass a,
          sr_materialized_by = None,
          sr_role = (if t \<in> set client_plane_subject_types then ''client_plane''
                     else if t \<in> set control_plane_direct_safe_subject_types then ''system_control'' else ''unknown''),
          sr_classification = inventory_classification t (sa_path a) (sa_overridden a) role,
          sr_direct_safe = (t \<in> set control_plane_direct_safe_subject_types), sr_infrastructure_role = role,
          sr_direct_coverage = None, sr_docker_ipv6 = None\<rparr>)"

text \<open>The steps after the common checks, each with the runtime built so far.\<close>

definition selective_runtime :: "policy_subject \<Rightarrow> scoped_args \<Rightarrow> matcher_state \<Rightarrow> scoped_runtime \<Rightarrow> scoped_runtime" where
  "selective_runtime subject a matcher r =
     (if \<not> ps_active subject then outcome ''pending_inactive_subject'' ''subject_inactive'' r
      else let r = r\<lparr>sr_eligible := True\<rparr>
           in if \<not> sa_vpn_supported a then outcome ''pending_missing_vpn_runtime'' ''vpn_runtime_not_ready'' r
              else if \<not> mt_resolved matcher then r\<lparr>sr_status := ''pending_unresolved_subject_match''\<rparr>
              else if sa_bypass a then outcome ''pending_core_bypass'' ''core_bypass_active'' r
              else outcome ''applied'' ''subject_selective_runtime_materialized''
                     (r\<lparr>sr_applied := True, sr_materialized_by := Some ''nft_subject_classify''\<rparr>))"

text \<open>An explicit client is served when the binding in the file names the server that is expected for it.\<close>

definition expected_server :: "policy_subject \<Rightarrow> scoped_args \<Rightarrow> string option" where
  "expected_server subject a =
     (let contract = explicit_external_client_contract_for_subject (ps_type subject) (ps_implementation subject);
          target = resolved_target_id (ps_type subject) a;
          virtual = (case nonempty_contract contract of
                       Some c \<Rightarrow> truthy (dict_get c ''virtual_vpn_auto_override'') | None \<Rightarrow> False)
      in if resolved_target_source a = Some ''vpn_auto'' \<or> (target = Some virtual_xray_vpn_auto_server_id \<and> virtual)
         then Some ''vpn-global'' else target)"

definition binding_materialized :: "json_text option \<Rightarrow> policy_subject \<Rightarrow> scoped_args \<Rightarrow> bool" where
  "binding_materialized file subject a =
     (let expected = expected_server subject a
      in case map_of (load_explicit_client_runtime_bindings file (ps_type subject) (ps_implementation subject)) (ps_id subject) of
           None \<Rightarrow> False
         | Some b \<Rightarrow>
             let server = dict_get b ''selected_server_id''
             in py_str (py_or (dict_get b ''status'') (PStr [])) = ''applied'' \<and> expected \<noteq> None \<and> expected \<noteq> Some []
                \<and> server \<noteq> PNone \<and> expected = Some (py_str server))"

definition explicit_runtime :: "json_text option \<Rightarrow> policy_subject \<Rightarrow> scoped_args \<Rightarrow> scoped_runtime \<Rightarrow> scoped_runtime" where
  "explicit_runtime file subject a r =
     (if binding_materialized file subject a
      then outcome ''applied'' ''subject_explicit_client_binding_materialized''
             (r\<lparr>sr_applied := True,
                sr_materialized_by := Some (case explicit_client_runtime_binding (ps_type subject) (ps_implementation subject) of
                                              Some b \<Rightarrow> b | None \<Rightarrow> ''explicit_client_runtime_metadata'')\<rparr>)
      else outcome ''pending_unresolved_subject_match'' ''subject_explicit_client_runtime_binding_missing'' r)"

definition vpn_runtime :: "json_text option \<Rightarrow> policy_subject \<Rightarrow> scoped_args \<Rightarrow> matcher_state \<Rightarrow> scoped_runtime \<Rightarrow> scoped_runtime" where
  "vpn_runtime file subject a matcher r =
     (let source = resolved_target_source a
      in if resolved_target_id (ps_type subject) a = None \<or> source = None \<or> the source \<notin> set scoped_egress_eligible_sources
         then outcome ''pending_no_selected_server'' ''vpn_path_has_no_selected_server'' r
         else if \<not> ps_active subject then outcome ''pending_inactive_subject'' ''subject_inactive'' r
         else
           let r = r\<lparr>sr_eligible := True\<rparr>
           in if is_explicit_external_client_subject_type (ps_type subject) then explicit_runtime file subject a r
              else if \<not> sa_vpn_supported a then outcome ''pending_missing_vpn_runtime'' ''vpn_runtime_not_ready'' r
              else if \<not> mt_resolved matcher then r\<lparr>sr_status := ''pending_unresolved_subject_match''\<rparr>
              else if sa_bypass a then outcome ''pending_core_bypass'' ''core_bypass_active'' r
              else r\<lparr>sr_applied := True, sr_status := ''applied''\<rparr>)"

definition path_runtime :: "json_text option \<Rightarrow> policy_subject \<Rightarrow> scoped_args \<Rightarrow> matcher_state \<Rightarrow> scoped_runtime \<Rightarrow> scoped_runtime" where
  "path_runtime file subject a matcher r =
     (let t = ps_type subject; path = sa_path a;
          selective = (path = ''selective'' \<and> t \<in> set selective_scoped_runtime_subject_types)
      in if sa_overridden a \<and> path \<noteq> ''vpn'' \<and> \<not> selective
         then outcome ''pending_not_vpn_path'' ''subject_override_saved_but_subject_not_in_vpn_path'' r
         else if \<not> uses_scoped_runtime_path t path then outcome ''not_applicable'' ''subject_not_in_vpn_path'' r
         else if t = ''docker'' \<and> sr_infrastructure_role r \<noteq> None \<and> path = ''vpn''
         then outcome ''pending_infrastructure_immunity_conflict'' ''protected_runtime_cannot_use_scoped_vpn'' r
         else
           let obstacle = (if t = ''docker'' \<and> path = ''vpn'' then docker_vpn_obstacle subject else (None, None));
               r = r\<lparr>sr_docker_ipv6 := snd obstacle\<rparr>
           in case fst obstacle of
                Some (status, reason) \<Rightarrow> outcome status reason r
              | None \<Rightarrow>
                  if selective then selective_runtime subject a matcher r else vpn_runtime file subject a matcher r)"

text \<open>A container that goes directly while the global mode does not needs a rule for each of its addresses.\<close>

definition direct_coverage_applies :: "policy_subject \<Rightarrow> scoped_args \<Rightarrow> bool" where
  "direct_coverage_applies subject a =
     (ps_type subject = ''docker'' \<and> sa_path a = ''direct'' \<and> protected_docker_runtime_role subject = None \<and> \<not> sa_bypass a
      \<and> network_mode (detail_source (normalized_detail subject)) \<noteq> ''host'' \<and> sa_global_mode a \<in> {''vpn'', ''selective''})"

definition with_values :: "string list \<Rightarrow> nft_matcher option \<Rightarrow> nft_matcher" where
  "with_values addresses m =
     (case m of
        Some matcher \<Rightarrow> matcher\<lparr>nm_values := Some addresses\<rparr>
      | None \<Rightarrow> \<lparr>nm_family = [], nm_type = [], nm_expr = [], nm_value = [], nm_values = Some addresses\<rparr>)"

definition build_scoped_subject_runtime ::
  "json_text option \<Rightarrow> policy_subject \<Rightarrow> scoped_args \<Rightarrow> exc + scoped_runtime" where
  "build_scoped_subject_runtime file subject a =
     (case matcher_from_subject subject of
        Inl e \<Rightarrow> Inl e
      | Inr matcher \<Rightarrow>
          let r = initial_runtime subject a matcher
          in Inr
            (if ps_type subject \<notin> set scoped_egress_eligible_subject_types
             then r\<lparr>sr_reason := ''subject_type_not_supported''\<rparr>
             else if direct_coverage_applies subject a
             then
               (if \<not> ps_active subject then outcome ''not_applicable'' ''subject_inactive'' r
                else case docker_direct_addresses subject of
                  None \<Rightarrow>
                    outcome ''pending_docker_direct_source_coverage'' ''docker_direct_source_coverage_incomplete''
                      (r\<lparr>sr_tracked := True, sr_eligible := True, sr_classification := ''tracked_only''\<rparr>)
                | Some addresses \<Rightarrow>
                    let r = r\<lparr>sr_matcher := Some (with_values addresses (sr_matcher r)), sr_direct_coverage := Some addresses\<rparr>
                    in if \<not> sa_overridden a
                       then outcome ''applied'' ''docker_direct_source_coverage_materialized''
                              (r\<lparr>sr_tracked := True, sr_eligible := True, sr_applied := True,
                                 sr_classification := ''tracked_only'', sr_materialized_by := Some ''nft_subject_classify''\<rparr>)
                       else path_runtime file subject a matcher r)
             else path_runtime file subject a matcher r))"

section \<open>Summary, diagnostics and readiness\<close>

record scoped_binding =
  sn_subject_id :: string
  sn_subject_type :: string
  sn_display_name :: pyval
  sn_eligible :: bool
  sn_applied :: bool
  sn_status :: string
  sn_server_id :: "string option"
  sn_server_source :: "string option"
  sn_match_key :: "string option"
  sn_reason :: string
  sn_matcher :: "nft_matcher option"
  sn_role :: string
  sn_classification :: string

record scoped_summary =
  ss_state :: string
  ss_eligible :: nat
  ss_applied :: nat
  ss_pending :: nat
  ss_unresolved :: nat
  ss_status_counts :: "(string \<times> nat) list"
  ss_source_counts :: "(string \<times> nat) list"
  ss_inventory_counts :: "(string \<times> nat) list"
  ss_bindings :: "scoped_binding list"

definition bump :: "string \<Rightarrow> (string \<times> nat) list \<Rightarrow> (string \<times> nat) list" where
  "bump k counts = AList.update k (case map_of counts k of Some n \<Rightarrow> n + 1 | None \<Rightarrow> 1) counts"

definition binding_of :: "policy_subject \<Rightarrow> scoped_runtime \<Rightarrow> scoped_binding" where
  "binding_of subject r =
     \<lparr>sn_subject_id = ps_id subject, sn_subject_type = ps_type subject, sn_display_name = ps_display_name subject,
      sn_eligible = sr_eligible r, sn_applied = sr_applied r,
      sn_status = (if sr_status r = [] then ''not_applicable'' else sr_status r), sn_server_id = sr_server_id r,
      sn_server_source = sr_server_source r, sn_match_key = sr_match_key r, sn_reason = sr_reason r,
      sn_matcher = sr_matcher r, sn_role = sr_role r,
      sn_classification = (if sr_classification r = [] then ''tracked_only'' else sr_classification r)\<rparr>"

definition add_binding :: "policy_subject \<times> scoped_runtime option \<Rightarrow> scoped_summary \<Rightarrow> scoped_summary" where
  "add_binding x s =
     (case snd x of
        None \<Rightarrow> s
      | Some r \<Rightarrow>
          let b = binding_of (fst x) r; s = s\<lparr>ss_inventory_counts := bump (sn_classification b) (ss_inventory_counts s)\<rparr>
          in if \<not> sr_tracked r then s
             else s\<lparr>ss_bindings := ss_bindings s @ [b], ss_status_counts := bump (sn_status b) (ss_status_counts s),
                    ss_source_counts :=
                      bump (case sn_server_source b of Some t \<Rightarrow> if t = [] then ''none'' else t | None \<Rightarrow> ''none'') (ss_source_counts s),
                    ss_eligible := ss_eligible s + (if sn_eligible b then 1 else 0),
                    ss_applied := ss_applied s + (if sn_applied b then 1 else 0),
                    ss_pending := ss_pending s
                      + (if sn_eligible b \<and> \<not> sn_applied b \<and> starts_with (sn_status b) ''pending_'' then 1 else 0),
                    ss_unresolved := ss_unresolved s
                      + (if sn_status b = ''pending_unresolved_subject_match'' then 1 else 0)\<rparr>)"

definition empty_summary :: scoped_summary where
  "empty_summary =
     \<lparr>ss_state = [], ss_eligible = 0, ss_applied = 0, ss_pending = 0, ss_unresolved = 0, ss_status_counts = [],
      ss_source_counts = [],
      ss_inventory_counts = [(''eligible_for_scoped_vpn'', 0), (''tracked_only'', 0), (''control_plane_direct_safe'', 0)],
      ss_bindings = []\<rparr>"

definition summarize_scoped_subjects :: "(policy_subject \<times> scoped_runtime option) list \<Rightarrow> scoped_summary" where
  "summarize_scoped_subjects subjects =
     (let s = fold add_binding subjects empty_summary
      in s\<lparr>ss_state := (if ss_eligible s = 0 then ''disabled''
                        else if ss_applied s = ss_eligible s then ''active'' else ''degraded'')\<rparr>)"

definition scoped_pending_statuses :: "string list" where
  "scoped_pending_statuses =
     [''pending_not_vpn_path'', ''pending_core_bypass'', ''pending_missing_vpn_runtime'', ''pending_unresolved_subject_match'',
      ''pending_inactive_subject'', ''pending_no_selected_server'', ''pending_infrastructure_immunity_conflict'',
      ''pending_docker_host_network'', ''pending_docker_direct_source_coverage'', ''pending_docker_ipv4_inventory'',
      ''pending_docker_multi_ipv4_unsupported'', ''pending_docker_ipv6_inventory'', ''pending_docker_ipv6_unsupported'']"

text \<open>What the diagnostics read of the enforcement state: whether VPN is supported, whether the live
  mode is the intended one, and the TCP contour. Blockers are kept without their common severity, checks
  without their messages.\<close>

record enforcement =
  en_vpn_supported :: bool
  en_mode_matches :: bool
  en_transparent_tcp :: bool

record scoped_blocker =
  bl_code :: string
  bl_message :: string
  bl_count :: "nat option"

record scoped_diagnostics =
  di_summary :: scoped_summary
  di_applied_sample :: "scoped_binding list"
  di_pending_sample :: "scoped_binding list"
  di_unresolved_sample :: "scoped_binding list"
  di_blockers :: "scoped_blocker list"
  di_recommendations :: "string list"

definition build_scoped_egress_diagnostics :: "scoped_summary \<Rightarrow> enforcement \<Rightarrow> bool \<Rightarrow> scoped_diagnostics" where
  "build_scoped_egress_diagnostics s en bypass =
     (let pending = filter (\<lambda>b. sn_status b \<in> set scoped_pending_statuses) (ss_bindings s);
          unresolved_bindings = filter (\<lambda>b. sn_status b = ''pending_unresolved_subject_match'') (ss_bindings s);
          applied = filter sn_applied (ss_bindings s);
          selective = filter (\<lambda>b. sn_subject_type b \<in> set selective_scoped_runtime_subject_types) applied;
          tcp_unhealthy = (selective \<noteq> [] \<and> \<not> en_transparent_tcp en)
      in \<lparr>di_summary = s, di_applied_sample = take 10 applied, di_pending_sample = take 10 pending,
          di_unresolved_sample = take 10 unresolved_bindings,
          di_blockers =
            (if bypass then [\<lparr>bl_code = ''CORE_BYPASS_ACTIVE'',
                              bl_message = ''Core bypass suppresses scoped egress enforcement.'', bl_count = None\<rparr>] else [])
            @ (if \<not> en_mode_matches en then [\<lparr>bl_code = ''LIVE_DATAPLANE_MODE_MISMATCH'',
                 bl_message = ''Live nftables dataplane does not match the intended FWRouter mode.'', bl_count = None\<rparr>] else [])
            @ (if \<not> en_vpn_supported en then [\<lparr>bl_code = ''VPN_RUNTIME_NOT_READY'',
                 bl_message = ''Global VPN runtime prerequisites are not ready for scoped egress.'', bl_count = None\<rparr>] else [])
            @ (if tcp_unhealthy then [\<lparr>bl_code = ''SELECTIVE_TRANSPARENT_TCP_UNHEALTHY'',
                 bl_message = ''Selective LAN/Tailscale subjects are materialized, but transparent TCP ingress is not healthy.'',
                 bl_count = Some (length selective)\<rparr>] else [])
            @ (if unresolved_bindings \<noteq> [] then [\<lparr>bl_code = ''UNRESOLVED_SUBJECT_MATCHES'',
                 bl_message = ''Some scoped subjects do not have a supported runtime match key yet.'',
                 bl_count = Some (length unresolved_bindings)\<rparr>] else []),
          di_recommendations =
            (if unresolved_bindings \<noteq> [] then
               [''Resolve LAN/Tailscale match keys or add Xray runtime binding support before relying on scoped subject-specific egress.''] else [])
            @ (if \<not> en_vpn_supported en then
               [''Validate Mihomo TProxy and global VPN runtime prerequisites on the Linux server.''] else [])
            @ (if tcp_unhealthy then
               [''Verify the fwrouter-redir TCP listener and a materialized Mihomo transparent TCP session before trusting selective LAN/Tailscale VPN rules.''] else [])
            @ (if bypass then
               [''Disable core bypass before expecting scoped egress bindings to materialize.''] else [])\<rparr>)"

record readiness =
  re_state :: string
  re_ready :: bool
  re_checks :: "(string \<times> bool) list"
  re_tracked :: nat
  re_eligible :: nat
  re_applied :: nat
  re_pending :: nat
  re_unresolved :: nat

definition build_scoped_egress_readiness :: "scoped_diagnostics \<Rightarrow> enforcement \<Rightarrow> bool \<Rightarrow> readiness" where
  "build_scoped_egress_readiness d en bypass =
     (let s = di_summary d;
          state = (if bypass \<or> \<not> en_vpn_supported en \<or> \<not> en_mode_matches en then ''blocked''
                   else if ss_eligible s = 0 \<and> ss_pending s = 0 then ''ready''
                   else if ss_unresolved s > 0 \<or> ss_applied s < ss_eligible s then ''degraded'' else ''ready'')
      in \<lparr>re_state = state, re_ready = (state = ''ready''),
          re_checks =
            [(''vpn_runtime_supported'', en_vpn_supported en), (''core_bypass_inactive'', \<not> bypass),
             (''live_dataplane_matches_intent'', en_mode_matches en), (''subject_matches_resolved'', ss_unresolved s = 0),
             (''eligible_bindings_materialized'', ss_eligible s = 0 \<or> ss_applied s = ss_eligible s)],
          re_tracked = length (ss_bindings s), re_eligible = ss_eligible s, re_applied = ss_applied s,
          re_pending = ss_pending s, re_unresolved = ss_unresolved s\<rparr>)"

end
