(* ===== verification/Subject_Policy.thy ===== *)
theory Subject_Policy
  imports Scoped_Egress
begin

text \<open>
  The subject policy of \<open>services/subject_policy.py\<close>: the mode in force for a subject, its VPN target,
  the state that is shown for it, and the life of overrides. Time stamps are texts, compared as SQLite
  compares them; \<open>now\<close> stands for \<open>CURRENT_TIMESTAMP\<close>. What other services report is an argument:
  the enforcement state, the core bypass, the emergency of the provider recovery.
\<close>

section \<open>State\<close>

record routing =
  ro_desired_mode :: string
  ro_selective_default :: string
  ro_server_mode :: string
  ro_desired_fixed :: "string option"
  ro_applied_fixed :: "string option"
  ro_active_auto :: "string option"

definition routing_snapshot :: "routing option \<Rightarrow> routing" where
  "routing_snapshot stored =
     (case stored of
        Some r \<Rightarrow> r
      | None \<Rightarrow> \<lparr>ro_desired_mode = ''direct'', ro_selective_default = ''direct'', ro_server_mode = ''auto'',
                  ro_desired_fixed = None, ro_applied_fixed = None, ro_active_auto = None\<rparr>)"

definition resolve_selective_default :: "routing \<Rightarrow> string" where
  "resolve_selective_default r = (if ro_selective_default r = [] then ''direct'' else ro_selective_default r)"

record user_override_row =
  uo_subject_id :: string
  uo_mode :: "string option"
  uo_until :: "string option"
  uo_created_by :: string
  uo_updated_at :: string

record override_db =
  od_user :: "user_override_row list"
  od_server :: "server_override_row list"

text \<open>SQL comparisons with \<open>NULL\<close> are not true.\<close>

definition after_now :: "string \<Rightarrow> string option \<Rightarrow> bool" where
  "after_now now until = (case until of Some u \<Rightarrow> now < u | None \<Rightarrow> False)"

definition expired :: "string \<Rightarrow> string option \<Rightarrow> bool" where
  "expired now until = (case until of Some u \<Rightarrow> u \<le> now | None \<Rightarrow> False)"

definition user_override_active :: "string \<Rightarrow> user_override_row \<Rightarrow> bool" where
  "user_override_active now r = (uo_mode r \<noteq> None \<and> after_now now (uo_until r))"

definition server_override_active :: "string \<Rightarrow> server_override_row \<Rightarrow> bool" where
  "server_override_active now r =
     ((so_target_kind r = Some ''vpn_auto'' \<or> so_server_id r \<noteq> None) \<and> after_now now (so_until r))"

definition load_active_user_override :: "string \<Rightarrow> override_db \<Rightarrow> string \<Rightarrow> user_override_row option" where
  "load_active_user_override now db subject_id =
     find (\<lambda>r. uo_subject_id r = subject_id \<and> user_override_active now r) (od_user db)"

definition load_active_server_override :: "string \<Rightarrow> override_db \<Rightarrow> string \<Rightarrow> server_override_row option" where
  "load_active_server_override now db subject_id =
     map_option project_row (find (\<lambda>r. so_subject_id r = subject_id \<and> server_override_active now r) (od_server db))"

definition wanted_ids :: "string list \<Rightarrow> string list" where
  "wanted_ids subject_ids = filter (\<lambda>i. i \<noteq> []) (map strip subject_ids)"

definition load_active_user_overrides :: "string \<Rightarrow> override_db \<Rightarrow> string list \<Rightarrow> (string \<times> user_override_row) list" where
  "load_active_user_overrides now db subject_ids =
     fold (\<lambda>r acc. AList.update (uo_subject_id r) r acc)
       (filter (\<lambda>r. uo_subject_id r \<in> set (wanted_ids subject_ids) \<and> user_override_active now r) (od_user db)) []"

definition load_active_server_overrides :: "string \<Rightarrow> override_db \<Rightarrow> string list \<Rightarrow> (string \<times> server_override_row) list" where
  "load_active_server_overrides now db subject_ids =
     fold (\<lambda>r acc. AList.update (so_subject_id r) (project_row r) acc)
       (filter (\<lambda>r. so_subject_id r \<in> set (wanted_ids subject_ids) \<and> server_override_active now r) (od_server db)) []"

section \<open>The mode in force\<close>

definition xray_effective_mode :: "string \<Rightarrow> user_override_row option \<Rightarrow> string \<times> string" where
  "xray_effective_mode desired_mode user_override =
     (if desired_mode = ''disabled'' then (''disabled'', ''subject'')
      else if desired_mode = ''enabled''
      then (case user_override of
              Some r \<Rightarrow> (py_str (opt_val (uo_mode r)), ''user_override'')
            | None \<Rightarrow> (''forced_vpn'', ''subject_default''))
      else if desired_mode = ''forced_vpn'' then (''forced_vpn'', ''subject'')
      else if desired_mode \<in> {''direct'', ''selective'', ''vpn''} then (desired_mode, ''admin_locked'')
      else (''disabled'', ''subject''))"

definition user_override_gate :: "policy_subject \<Rightarrow> bool \<times> string" where
  "user_override_gate subject =
     (if subject_follows_global_mode (ps_type subject)
      then (ps_desired_mode subject = ''global'', ''User override is allowed only while admin mode is global.'')
      else if is_explicit_external_client_subject_type (ps_type subject)
      then (False, ''User mode changes are not allowed for explicit external client subjects.'')
      else (False, ''User mode changes are allowed only for LAN and Tailscale-node subjects.''))"

definition resolve_effective_capture_mode ::
  "policy_subject \<Rightarrow> routing \<Rightarrow> user_override_row option \<Rightarrow> string \<times> string" where
  "resolve_effective_capture_mode subject r user_override =
     (if subject_follows_global_mode (ps_type subject)
      then (if ps_desired_mode subject = ''global''
            then (case user_override of
                    Some u \<Rightarrow> (py_str (opt_val (uo_mode u)), ''user_override'')
                  | None \<Rightarrow> (ro_desired_mode r, ''global''))
            else (ps_desired_mode subject, ''admin_locked''))
      else if is_explicit_external_client_subject_type (ps_type subject)
      then xray_effective_mode (ps_desired_mode subject) user_override
      else (ps_desired_mode subject, ''subject''))"

definition effective_mode_with_override ::
  "policy_subject \<Rightarrow> routing \<Rightarrow> user_override_row option \<Rightarrow> string \<times> string" where
  "effective_mode_with_override subject r user_override =
     (if ps_type subject = ''fwrouter'' then (''direct'', ''architectural_invariant'')
      else resolve_effective_capture_mode subject r user_override)"

section \<open>The target\<close>

record vpn_target =
  vt_id :: "string option"
  vt_source :: "string option"
  vt_server_id :: "string option"
  vt_server_source :: string
  vt_selective_default :: "string option"

definition no_target :: "string \<Rightarrow> vpn_target" where
  "no_target source = \<lparr>vt_id = None, vt_source = None, vt_server_id = None, vt_server_source = source, vt_selective_default = None\<rparr>"

definition override_target :: "server_override_row \<Rightarrow> vpn_target" where
  "override_target o1 =
     \<lparr>vt_id = Some (py_str (opt_val (so_server_id o1))), vt_source = Some ''subject_override'', vt_server_id = so_server_id o1,
      vt_server_source = ''subject_override'', vt_selective_default = None\<rparr>"

definition resolve_effective_vpn_target ::
  "string \<Rightarrow> string \<Rightarrow> server_override_row option \<Rightarrow> routing \<Rightarrow> vpn_target" where
  "resolve_effective_vpn_target effective_mode subject_type server_override r =
     (if subject_type = ''fwrouter'' then no_target ''fwrouter_direct_safe''
      else if effective_mode = ''disabled'' then no_target ''disabled''
      else if effective_mode = ''direct'' then no_target ''direct''
      else if effective_mode = ''selective''
      then (case server_override of
              Some o1 \<Rightarrow> (override_target o1)\<lparr>vt_selective_default := Some (resolve_selective_default r)\<rparr>
            | None \<Rightarrow> (no_target (resolve_selective_default r))\<lparr>vt_selective_default := Some (resolve_selective_default r)\<rparr>)
      else if effective_mode \<notin> {''vpn'', ''forced_vpn''} then no_target ''unknown''
      else case server_override of
             Some o1 \<Rightarrow> override_target o1
           | None \<Rightarrow>
               let fixed = (case ro_applied_fixed r of Some (c # cs) \<Rightarrow> Some (c # cs) | _ \<Rightarrow> ro_desired_fixed r)
               in if ro_server_mode r = ''fixed'' \<and> fixed \<noteq> None \<and> fixed \<noteq> Some []
                  then \<lparr>vt_id = fixed, vt_source = Some ''global_fixed'', vt_server_id = fixed,
                        vt_server_source = ''global_fixed'', vt_selective_default = None\<rparr>
                  else \<lparr>vt_id = Some ''vpn-global'', vt_source = Some ''vpn_auto'', vt_server_id = ro_active_auto r,
                        vt_server_source = ''vpn_auto'', vt_selective_default = None\<rparr>)"

definition effective_path :: "string \<Rightarrow> string \<Rightarrow> string" where
  "effective_path effective_mode subject_type =
     (if subject_type = ''fwrouter'' then ''direct''
      else if effective_mode = ''disabled'' then ''blocked''
      else if effective_mode = ''direct'' then ''direct''
      else if effective_mode = ''selective'' then ''selective''
      else if effective_mode \<notin> {''vpn'', ''forced_vpn''} then effective_mode
      else ''vpn'')"

definition effective_binding ::
  "string \<Rightarrow> string \<Rightarrow> server_override_row option \<Rightarrow> routing \<Rightarrow> string \<times> vpn_target" where
  "effective_binding effective_mode subject_type server_override r =
     (effective_path effective_mode subject_type, resolve_effective_vpn_target effective_mode subject_type server_override r)"

section \<open>The effective state\<close>

record effective_state =
  es_desired_mode :: string
  es_mode :: string
  es_mode_source :: string
  es_path :: string
  es_target :: vpn_target
  es_routing :: routing
  es_user_override :: "user_override_row option"
  es_server_override :: "server_override_row option"
  es_scoped :: scoped_runtime
  es_visible :: bool
  es_known_only :: bool

text \<open>What the other services report, and the file of bindings.\<close>

record policy_env =
  pe_vpn_supported :: bool
  pe_bypass :: bool
  pe_emergency :: bool
  pe_bindings :: "json_text option"

definition scoped_of ::
  "policy_env \<Rightarrow> policy_subject \<Rightarrow> routing \<Rightarrow> string \<times> vpn_target \<Rightarrow> server_override_row option \<Rightarrow> exc + scoped_runtime" where
  "scoped_of env subject r binding server_override =
     build_scoped_subject_runtime (pe_bindings env) subject
       \<lparr>sa_path = fst binding, sa_server_id = vt_server_id (snd binding), sa_server_source = Some (vt_server_source (snd binding)),
        sa_target_id = vt_id (snd binding), sa_target_source = vt_source (snd binding), sa_overridden = (server_override \<noteq> None),
        sa_vpn_supported = pe_vpn_supported env, sa_bypass = pe_bypass env,
        sa_global_mode = (if pe_emergency env then ''direct''
                          else if ro_desired_mode r = [] then ''direct'' else ro_desired_mode r)\<rparr>"

definition enrich_subject_with_effective_state ::
  "policy_env \<Rightarrow> policy_subject \<Rightarrow> routing \<Rightarrow> user_override_row option \<Rightarrow> server_override_row option \<Rightarrow> exc + effective_state" where
  "enrich_subject_with_effective_state env subject r user_override server_override =
     (let t = ps_type subject; (mode0, source0) = effective_mode_with_override subject r user_override;
          emergency = (pe_emergency env \<and> mode0 \<in> {''vpn'', ''forced_vpn'', ''selective''});
          mode = (if emergency then ''direct'' else mode0);
          source = (if emergency then ''emergency_direct'' else source0);
          binding = effective_binding mode t (if emergency then None else server_override) r
      in case scoped_of env subject r binding server_override of
           Inl e \<Rightarrow> Inl e
         | Inr scoped \<Rightarrow>
             Inr \<lparr>es_desired_mode = ps_desired_mode subject, es_mode = mode, es_mode_source = source, es_path = fst binding,
                  es_target = snd binding, es_routing = r, es_user_override = user_override,
                  es_server_override = server_override, es_scoped = scoped,
                  es_visible = (ps_active subject \<and> t \<in> set ui_active_subject_types), es_known_only = (\<not> ps_active subject)\<rparr>)"

record subject_summary =
  su_subject :: policy_subject
  su_mode :: string
  su_mode_source :: string
  su_path :: string
  su_target :: vpn_target
  su_scoped :: scoped_runtime

definition subject_effective_state_summary ::
  "policy_env \<Rightarrow> policy_subject \<Rightarrow> routing \<Rightarrow> user_override_row option \<Rightarrow> server_override_row option \<Rightarrow> exc + subject_summary" where
  "subject_effective_state_summary env subject r user_override server_override =
     (let (mode, source) = effective_mode_with_override subject r user_override;
          binding = effective_binding mode (ps_type subject) server_override r
      in case scoped_of env subject r binding server_override of
           Inl e \<Rightarrow> Inl e
         | Inr scoped \<Rightarrow>
             Inr \<lparr>su_subject = subject, su_mode = mode, su_mode_source = source, su_path = fst binding, su_target = snd binding,
                  su_scoped = scoped\<rparr>)"

text \<open>A list comprehension whose body may raise.\<close>

fun map_raise :: "('a \<Rightarrow> exc + 'b) \<Rightarrow> 'a list \<Rightarrow> exc + 'b list" where
  "map_raise f [] = Inr []"
| "map_raise f (x # xs) =
     (case f x of
        Inl e \<Rightarrow> Inl e
      | Inr y \<Rightarrow> (case map_raise f xs of Inl e \<Rightarrow> Inl e | Inr ys \<Rightarrow> Inr (y # ys)))"

text \<open>The subjects are those that \<open>list_subjects\<close> returns for the filters of the call.\<close>

definition list_subjects_with_effective_state ::
  "policy_env \<Rightarrow> string \<Rightarrow> override_db \<Rightarrow> routing option \<Rightarrow> policy_subject list \<Rightarrow> exc + effective_state list" where
  "list_subjects_with_effective_state env now db stored subjects =
     (let ids = map ps_id subjects; users = load_active_user_overrides now db ids;
          servers = load_active_server_overrides now db ids
      in map_raise (\<lambda>s. enrich_subject_with_effective_state env s (routing_snapshot stored)
           (map_of users (ps_id s)) (map_of servers (ps_id s))) subjects)"

definition list_subjects_effective_summaries ::
  "policy_env \<Rightarrow> string \<Rightarrow> override_db \<Rightarrow> routing option \<Rightarrow> policy_subject list \<Rightarrow> exc + subject_summary list" where
  "list_subjects_effective_summaries env now db stored subjects =
     (let ids = map ps_id subjects; users = load_active_user_overrides now db ids;
          servers = load_active_server_overrides now db ids
      in map_raise (\<lambda>s. subject_effective_state_summary env s (routing_snapshot stored)
           (map_of users (ps_id s)) (map_of servers (ps_id s))) subjects)"

definition get_subject_with_effective_state ::
  "policy_env \<Rightarrow> string \<Rightarrow> override_db \<Rightarrow> routing option \<Rightarrow> policy_subject option \<Rightarrow> exc + effective_state option" where
  "get_subject_with_effective_state env now db stored subject =
     (case subject of
        None \<Rightarrow> Inr None
      | Some s \<Rightarrow>
          map_sum id Some (enrich_subject_with_effective_state env s (routing_snapshot stored)
            (load_active_user_override now db (ps_id s)) (load_active_server_override now db (ps_id s))))"

section \<open>Changing modes, expiring overrides\<close>

definition admin_modes_by_subject_type :: "(string \<times> string list) list" where
  "admin_modes_by_subject_type =
     [(''lan'', [''global'', ''direct'', ''selective'', ''vpn'', ''disabled'']),
      (''external_network_client'', [''global'', ''direct'', ''selective'', ''vpn'', ''disabled'']),
      (''tailscale'', [''global'', ''direct'', ''selective'', ''vpn'', ''disabled'']),
      (''tailscale_node'', [''global'', ''direct'', ''selective'', ''vpn'', ''disabled'']),
      (''explicit_external_client'', [''enabled'', ''direct'', ''selective'', ''vpn'', ''disabled'']),
      (''xray'', [''enabled'', ''direct'', ''selective'', ''vpn'', ''disabled'']),
      (''host'', [''direct'', ''vpn'', ''disabled'']), (''docker'', [''direct'', ''vpn'', ''disabled'']),
      (''fwrouter'', [''direct''])]"

definition user_modes :: "string list" where
  "user_modes = [''direct'', ''selective'', ''vpn'']"

definition validate_subject_mode :: "policy_subject \<Rightarrow> string \<Rightarrow> string \<Rightarrow> (string \<times> string) option" where
  "validate_subject_mode subject mode actor_scope =
     (let t = ps_type subject
      in if actor_scope = ''user''
         then (if \<not> subject_follows_global_mode t
               then Some (''SUBJECT_MODE_FORBIDDEN'',
                          ''User mode changes are allowed only for LAN and managed external ingress subjects.'')
               else if \<not> fst (user_override_gate subject)
               then Some (''SUBJECT_MODE_ADMIN_LOCKED'', snd (user_override_gate subject))
               else if mode \<notin> set user_modes
               then Some (''SUBJECT_MODE_INVALID'', ''User mode must be one of: '' @ join '', '' (sort user_modes) @ ''.'')
               else None)
         else
           let allowed = (case map_of admin_modes_by_subject_type t of Some ms \<Rightarrow> ms | None \<Rightarrow> [])
           in if mode \<notin> set allowed
              then Some (''SUBJECT_MODE_INVALID'',
                     ''Mode '' @ str_repr mode @ '' is not allowed for subject type '' @ t @ ''. Allowed: ''
                     @ join '', '' (sort allowed) @ ''.'')
              else None)"

record expiry_result =
  ex_dry_run :: bool
  ex_users :: "user_override_row list"
  ex_servers :: "server_override_row list"

text \<open>Deleting and logging: the log gets one entry per expired override, with its event type.\<close>

definition expire_subject_overrides ::
  "string \<Rightarrow> bool \<Rightarrow> override_db \<Rightarrow> expiry_result \<times> override_db \<times> (string \<times> string) list" where
  "expire_subject_overrides now dry_run db =
     (let users = sort_key (\<lambda>r. the (uo_until r)) (filter (\<lambda>r. expired now (uo_until r)) (od_user db));
          servers = map project_row
            (sort_key (\<lambda>r. the (so_until r)) (filter (\<lambda>r. expired now (so_until r)) (od_server db)));
          result = \<lparr>ex_dry_run = dry_run, ex_users = users, ex_servers = servers\<rparr>
      in if dry_run then (result, db, [])
         else (result,
               \<lparr>od_user = (if users = [] then od_user db else filter (\<lambda>r. \<not> expired now (uo_until r)) (od_user db)),
                od_server = (if servers = [] then od_server db else filter (\<lambda>r. \<not> expired now (so_until r)) (od_server db))\<rparr>,
               map (\<lambda>r. (''subject_user_override_expired'', uo_subject_id r)) users
               @ map (\<lambda>r. (''subject_server_override_expired'', so_subject_id r)) servers))"

end
