(* ===== verification/Subject_Properties.thy ===== *)
theory Subject_Properties
  imports Subject_Policy
begin

text \<open>
  Properties of the subject policy: the router itself stays direct, an emergency keeps every subject off the
  VPN, a scoped path counts as applied only when all it needs is there, readiness means that every eligible
  subject is applied, and overrides take effect, expire and are read consistently.
\<close>

section \<open>Types\<close>

lemmas type_defs = transparent_ingress_client_subject_types_def native_ingress_subject_types_def external_ingress_subject_types_def
  external_ingress_provider_contracts_def external_ingress_providers_def explicit_external_client_subject_types_def
  explicit_external_client_provider_contracts_def explicit_external_client_providers_def client_plane_subject_types_def
  system_scoped_subject_types_def

lemma transparent_types: "transparent_ingress_client_subject_types = [''lan'', ''external_network_client'']"
  by (simp add: type_defs)

lemma eligible_types:
  "scoped_egress_eligible_subject_types = [''lan'', ''external_network_client'', ''explicit_external_client'', ''host'', ''docker'']"
  by (simp add: type_defs scoped_egress_eligible_subject_types_def)

lemma type_facts:
  "\<not> is_explicit_external_client_subject_type ''lan''" "\<not> is_explicit_external_client_subject_type ''external_network_client''"
  "\<not> is_explicit_external_client_subject_type ''host''" "\<not> is_explicit_external_client_subject_type ''docker''"
  "is_explicit_external_client_subject_type ''explicit_external_client''"
  "\<not> subject_follows_global_mode ''fwrouter''" "\<not> is_explicit_external_client_subject_type ''fwrouter''"
  by code_simp+

lemma policy_facts:
  "subject_needs_transparent_policy ''lan''" "subject_needs_transparent_policy ''external_network_client''"
  "\<not> subject_needs_transparent_policy ''explicit_external_client''"
  by code_simp+

section \<open>Scoped paths\<close>

lemma initial_runtime_simps [simp]:
  "\<not> sr_applied (initial_runtime subject a m)" "\<not> sr_eligible (initial_runtime subject a m)"
  "sr_path (initial_runtime subject a m) = sa_path a" "sr_matcher (initial_runtime subject a m) = mt_matcher m"
  "sr_infrastructure_role (initial_runtime subject a m) = protected_docker_runtime_role subject"
  "sr_tracked (initial_runtime subject a m) = is_tracked_subject (ps_type subject) (sa_path a) (sa_overridden a)"
  by (simp_all add: initial_runtime_def Let_def)

lemma outcome_simps [simp]:
  "sr_applied (outcome st re r) = sr_applied r" "sr_eligible (outcome st re r) = sr_eligible r"
  "sr_tracked (outcome st re r) = sr_tracked r" "sr_matcher (outcome st re r) = sr_matcher r"
  "sr_status (outcome st re r) = st" "sr_reason (outcome st re r) = re" "sr_path (outcome st re r) = sr_path r"
  by (simp_all add: outcome_def)

text \<open>What an applied path needs, by the way the subject is matched.\<close>

definition packet_path_ready :: "scoped_args \<Rightarrow> matcher_state \<Rightarrow> bool" where
  "packet_path_ready a m = (sa_vpn_supported a \<and> \<not> sa_bypass a \<and> mt_resolved m)"

lemma selective_runtime_applied:
  assumes "\<not> sr_applied r"
  shows "sr_applied (selective_runtime subject a m r) \<longleftrightarrow> ps_active subject \<and> packet_path_ready a m"
    and "sr_applied (selective_runtime subject a m r) \<Longrightarrow> sr_eligible (selective_runtime subject a m r)
           \<and> sr_status (selective_runtime subject a m r) = ''applied''"
    and "sr_tracked (selective_runtime subject a m r) = sr_tracked r"
  using assms by (auto simp: selective_runtime_def packet_path_ready_def Let_def split: if_splits)

definition target_selected :: "policy_subject \<Rightarrow> scoped_args \<Rightarrow> bool" where
  "target_selected subject a =
     (resolved_target_id (ps_type subject) a \<noteq> None
      \<and> (\<exists>s\<in>set scoped_egress_eligible_sources. resolved_target_source a = Some s))"

lemma explicit_runtime_applied:
  assumes "\<not> sr_applied r"
  shows "sr_applied (explicit_runtime file subject a r) \<longleftrightarrow> binding_materialized file subject a"
    and "sr_applied (explicit_runtime file subject a r) \<Longrightarrow> sr_status (explicit_runtime file subject a r) = ''applied''"
    and "sr_eligible (explicit_runtime file subject a r) = sr_eligible r"
    and "sr_tracked (explicit_runtime file subject a r) = sr_tracked r"
  using assms by (auto simp: explicit_runtime_def split: if_splits)

lemma vpn_runtime_applied:
  assumes "\<not> sr_applied r"
  shows "sr_applied (vpn_runtime file subject a m r) \<longleftrightarrow> target_selected subject a \<and> ps_active subject
           \<and> (if is_explicit_external_client_subject_type (ps_type subject) then binding_materialized file subject a
              else packet_path_ready a m)"
    and "sr_applied (vpn_runtime file subject a m r) \<Longrightarrow> sr_eligible (vpn_runtime file subject a m r)
           \<and> sr_status (vpn_runtime file subject a m r) = ''applied''"
    and "sr_tracked (vpn_runtime file subject a m r) = sr_tracked r"
proof -
  have "\<not> sr_applied (r\<lparr>sr_eligible := True\<rparr>)" using assms by simp
  note ex = explicit_runtime_applied [OF this]
  have t: "target_selected subject a \<longleftrightarrow> \<not> (resolved_target_id (ps_type subject) a = None \<or> resolved_target_source a = None
      \<or> the (resolved_target_source a) \<notin> set scoped_egress_eligible_sources)"
    by (auto simp: target_selected_def)
  show "sr_applied (vpn_runtime file subject a m r) \<longleftrightarrow> target_selected subject a \<and> ps_active subject
           \<and> (if is_explicit_external_client_subject_type (ps_type subject) then binding_materialized file subject a
              else packet_path_ready a m)"
    unfolding t using assms ex(1) by (simp add: vpn_runtime_def Let_def packet_path_ready_def)
  show "sr_applied (vpn_runtime file subject a m r) \<Longrightarrow> sr_eligible (vpn_runtime file subject a m r)
           \<and> sr_status (vpn_runtime file subject a m r) = ''applied''"
    using assms ex(2,3) by (auto simp: vpn_runtime_def Let_def split: if_splits)
  show "sr_tracked (vpn_runtime file subject a m r) = sr_tracked r"
    using ex(4) by (simp add: vpn_runtime_def Let_def)
qed

definition docker_clear :: "policy_subject \<Rightarrow> scoped_args \<Rightarrow> bool" where
  "docker_clear subject a =
     (ps_type subject = ''docker'' \<and> sa_path a = ''vpn''
      \<longrightarrow> protected_docker_runtime_role subject = None \<and> fst (docker_vpn_obstacle subject) = None)"

definition on_selective_path :: "policy_subject \<Rightarrow> scoped_args \<Rightarrow> bool" where
  "on_selective_path subject a = (sa_path a = ''selective'' \<and> ps_type subject \<in> set selective_scoped_runtime_subject_types)"

lemma on_selective_uses: "on_selective_path subject a \<Longrightarrow> uses_scoped_runtime_path (ps_type subject) (sa_path a)"
  using policy_facts by (auto simp: on_selective_path_def uses_scoped_runtime_path_def selective_scoped_runtime_subject_types_def
      transparent_types)

lemma uses_iff: "uses_scoped_runtime_path (ps_type subject) (sa_path a) \<longleftrightarrow> sa_path a = ''vpn'' \<or> on_selective_path subject a"
  using on_selective_uses [of subject a] by (auto simp: uses_scoped_runtime_path_def on_selective_path_def split: if_splits)

text \<open>The exact condition for a path of the scoped runtime to be applied.\<close>

definition path_applied :: "json_text option \<Rightarrow> policy_subject \<Rightarrow> scoped_args \<Rightarrow> matcher_state \<Rightarrow> bool" where
  "path_applied file subject a m =
     (ps_active subject
      \<and> (if sa_path a = ''vpn''
         then docker_clear subject a \<and> target_selected subject a
              \<and> (if is_explicit_external_client_subject_type (ps_type subject) then binding_materialized file subject a
                 else packet_path_ready a m)
         else on_selective_path subject a \<and> packet_path_ready a m))"

lemma path_runtime_applied:
  assumes "\<not> sr_applied r" and "sr_infrastructure_role r = protected_docker_runtime_role subject"
  shows "sr_applied (path_runtime file subject a m r) \<longleftrightarrow> path_applied file subject a m"
    and "sr_applied (path_runtime file subject a m r) \<Longrightarrow> sr_eligible (path_runtime file subject a m r)
           \<and> sr_status (path_runtime file subject a m r) = ''applied''"
    and "sr_tracked (path_runtime file subject a m r) = sr_tracked r"
proof -
  let ?o = "if ps_type subject = ''docker'' \<and> sa_path a = ''vpn'' then docker_vpn_obstacle subject else (None, None)"
  let ?r = "r\<lparr>sr_docker_ipv6 := snd ?o\<rparr>"
  have r: "\<not> sr_applied ?r" "sr_tracked ?r = sr_tracked r" using assms(1) by simp_all
  note v = vpn_runtime_applied [OF r(1)] and s = selective_runtime_applied [OF r(1)]
  have p: "path_runtime file subject a m r =
    (if sa_overridden a \<and> sa_path a \<noteq> ''vpn'' \<and> \<not> on_selective_path subject a
     then outcome ''pending_not_vpn_path'' ''subject_override_saved_but_subject_not_in_vpn_path'' r
     else if \<not> (sa_path a = ''vpn'' \<or> on_selective_path subject a) then outcome ''not_applicable'' ''subject_not_in_vpn_path'' r
     else if ps_type subject = ''docker'' \<and> protected_docker_runtime_role subject \<noteq> None \<and> sa_path a = ''vpn''
     then outcome ''pending_infrastructure_immunity_conflict'' ''protected_runtime_cannot_use_scoped_vpn'' r
     else case fst ?o of
            Some (status, reason) \<Rightarrow> outcome status reason ?r
          | None \<Rightarrow> if on_selective_path subject a then selective_runtime subject a m ?r else vpn_runtime file subject a m ?r)"
    unfolding path_runtime_def Let_def uses_iff assms(2) by (simp only: on_selective_path_def)
  consider (off) "\<not> (sa_path a = ''vpn'' \<or> on_selective_path subject a)" | (sel) "on_selective_path subject a" "sa_path a \<noteq> ''vpn''"
    | (vpn) "sa_path a = ''vpn''" "\<not> on_selective_path subject a" by (auto simp: on_selective_path_def)
  then have "(sr_applied (path_runtime file subject a m r) \<longleftrightarrow> path_applied file subject a m)
    \<and> (sr_applied (path_runtime file subject a m r) \<longrightarrow> sr_eligible (path_runtime file subject a m r)
           \<and> sr_status (path_runtime file subject a m r) = ''applied'')
    \<and> sr_tracked (path_runtime file subject a m r) = sr_tracked r"
  proof cases
    case off
    then show ?thesis using assms(1) by (simp add: p path_applied_def)
  next
    case sel
    have "path_runtime file subject a m r = selective_runtime subject a m ?r" using sel by (simp add: p)
    then show ?thesis using s sel by (simp add: path_applied_def)
  next
    case vpn
    show ?thesis
    proof (cases "docker_clear subject a")
      case True
      have "path_runtime file subject a m r = vpn_runtime file subject a m ?r"
        using vpn True by (auto simp: p docker_clear_def)
      moreover have "path_applied file subject a m \<longleftrightarrow> sr_applied (vpn_runtime file subject a m ?r)"
        unfolding v(1) path_applied_def using vpn True by auto
      ultimately show ?thesis using v(2,3) r(2) by simp
    next
      case False
      then show ?thesis using vpn assms(1) by (auto simp: p docker_clear_def path_applied_def)
    qed
  qed
  then show "sr_applied (path_runtime file subject a m r) \<longleftrightarrow> path_applied file subject a m"
    "sr_applied (path_runtime file subject a m r) \<Longrightarrow> sr_eligible (path_runtime file subject a m r)
           \<and> sr_status (path_runtime file subject a m r) = ''applied''"
    "sr_tracked (path_runtime file subject a m r) = sr_tracked r" by blast+
qed

lemma path_applied_tracked:
  assumes "path_applied file subject a m" and "ps_type subject \<in> set scoped_egress_eligible_subject_types"
  shows "is_tracked_subject (ps_type subject) (sa_path a) (sa_overridden a)"
proof -
  have u: "uses_scoped_runtime_path (ps_type subject) (sa_path a)"
    unfolding uses_iff using assms(1) by (auto simp: path_applied_def split: if_splits)
  have "sa_path a = ''vpn''" if "is_explicit_external_client_subject_type (ps_type subject)"
    using u that type_facts(1,2) by (auto simp: uses_iff on_selective_path_def selective_scoped_runtime_subject_types_def transparent_types)
  then show ?thesis using assms(2) u by (simp add: is_tracked_subject_def)
qed

definition direct_applied :: "policy_subject \<Rightarrow> scoped_args \<Rightarrow> bool" where
  "direct_applied subject a =
     (direct_coverage_applies subject a \<and> ps_active subject \<and> docker_direct_addresses subject \<noteq> None \<and> \<not> sa_overridden a)"

lemma scoped_applied_exact:
  assumes "matcher_from_subject subject = Inr m" and "build_scoped_subject_runtime file subject a = Inr r"
  shows "(sr_applied r \<longleftrightarrow> direct_applied subject a
            \<or> ps_type subject \<in> set scoped_egress_eligible_subject_types \<and> path_applied file subject a m)
    \<and> (sr_applied r \<longrightarrow> sr_tracked r \<and> sr_eligible r \<and> sr_status r = ''applied'')"
proof (cases "ps_type subject \<in> set scoped_egress_eligible_subject_types")
  case False
  then have "\<not> sr_applied r" using assms by (auto simp: build_scoped_subject_runtime_def Let_def)
  moreover have "\<not> direct_applied subject a" using False by (auto simp: direct_applied_def direct_coverage_applies_def eligible_types)
  ultimately show ?thesis using False by simp
next
  case True
  let ?i = "initial_runtime subject a m"
  show ?thesis
  proof (cases "direct_coverage_applies subject a")
    case False
    then have "r = path_runtime file subject a m ?i"
      using assms True by (simp add: build_scoped_subject_runtime_def)
    then show ?thesis
      using path_runtime_applied [of ?i subject] path_applied_tracked True False
      by (simp add: direct_applied_def)
  next
    case d: True
    then have off: "\<not> path_applied file subject a m"
      by (auto simp: path_applied_def on_selective_path_def direct_coverage_applies_def)
    show ?thesis
    proof (cases "docker_direct_addresses subject")
      case None
      then show ?thesis using assms True d off by (auto simp: build_scoped_subject_runtime_def Let_def direct_applied_def split: if_splits)
    next
      case (Some as)
      let ?q = "?i\<lparr>sr_matcher := Some (with_values as (sr_matcher ?i)), sr_direct_coverage := Some as\<rparr>"
      have "\<not> sr_applied (path_runtime file subject a m ?q)" using path_runtime_applied(1) [of ?q subject] off by simp
      then show ?thesis
        using assms True d off Some by (auto simp: build_scoped_subject_runtime_def Let_def direct_applied_def split: if_splits)
    qed
  qed
qed


section \<open>Modes and targets\<close>

lemma enrich_cases:
  assumes "enrich_subject_with_effective_state env subject r u so = Inr es"
  obtains mode0 source0 mode binding where "effective_mode_with_override subject r u = (mode0, source0)"
    and "mode = (if pe_emergency env \<and> mode0 \<in> {''vpn'', ''forced_vpn'', ''selective''} then ''direct'' else mode0)"
    and "binding = effective_binding mode (ps_type subject)
           (if pe_emergency env \<and> mode0 \<in> {''vpn'', ''forced_vpn'', ''selective''} then None else so) r"
    and "scoped_of env subject r binding so = Inr (es_scoped es)"
    and "es_mode es = mode" and "es_path es = fst binding" and "es_target es = snd binding"
proof -
  obtain mode0 source0 where m: "effective_mode_with_override subject r u = (mode0, source0)" by fastforce
  define emergency where "emergency = (pe_emergency env \<and> mode0 \<in> {''vpn'', ''forced_vpn'', ''selective''})"
  define mode where "mode = (if emergency then ''direct'' else mode0)"
  define binding where "binding = effective_binding mode (ps_type subject) (if emergency then None else so) r"
  have e: "(case scoped_of env subject r binding so of
      Inl x \<Rightarrow> Inl x
    | Inr scoped \<Rightarrow>
        Inr \<lparr>es_desired_mode = ps_desired_mode subject, es_mode = mode,
             es_mode_source = (if emergency then ''emergency_direct'' else source0), es_path = fst binding,
             es_target = snd binding, es_routing = r, es_user_override = u, es_server_override = so, es_scoped = scoped,
             es_visible = (ps_active subject \<and> ps_type subject \<in> set ui_active_subject_types),
             es_known_only = (\<not> ps_active subject)\<rparr>) = Inr es"
    using assms unfolding enrich_subject_with_effective_state_def m binding_def mode_def emergency_def by (simp only: Let_def prod.case)
  then obtain scoped where s: "scoped_of env subject r binding so = Inr scoped" by (cases "scoped_of env subject r binding so") simp_all
  show thesis
    by (rule that [OF m mode_def [unfolded emergency_def] binding_def [unfolded emergency_def]]) (use e s in auto)
qed

lemma path_vpn_iff: "effective_path mode t = ''vpn'' \<longleftrightarrow> t \<noteq> ''fwrouter'' \<and> mode \<in> {''vpn'', ''forced_vpn''}"
  by (auto simp: effective_path_def)

lemma path_selective_iff: "effective_path mode t = ''selective'' \<longleftrightarrow> t \<noteq> ''fwrouter'' \<and> mode = ''selective''"
  by (auto simp: effective_path_def)

lemma target_only_vpn:
  assumes "mode \<notin> {''vpn'', ''forced_vpn'', ''selective''} \<or> t = ''fwrouter''"
  shows "vt_id (resolve_effective_vpn_target mode t so r) = None" "vt_server_id (resolve_effective_vpn_target mode t so r) = None"
  using assms by (auto simp: resolve_effective_vpn_target_def no_target_def)

text \<open>A path that is neither VPN nor selective is applied only for containers that go directly.\<close>

lemma off_path_not_applied:
  assumes "build_scoped_subject_runtime file subject a = Inr sr" and "sa_path a \<noteq> ''vpn''" and "sa_path a \<noteq> ''selective''"
    and "sa_global_mode a \<notin> {''vpn'', ''selective''} \<or> ps_type subject \<noteq> ''docker''"
  shows "\<not> sr_applied sr"
proof -
  obtain m where m: "matcher_from_subject subject = Inr m"
    using assms(1) by (auto simp: build_scoped_subject_runtime_def split: sum.splits)
  have "\<not> direct_applied subject a" using assms(4) by (auto simp: direct_applied_def direct_coverage_applies_def)
  moreover have "\<not> path_applied file subject a m" using assms(2,3) by (auto simp: path_applied_def on_selective_path_def)
  ultimately show ?thesis using scoped_applied_exact [OF m assms(1)] by blast
qed

text \<open>
  During an emergency of the provider recovery no subject is on the VPN or the selective path, whatever
  its own mode, the global mode and the overrides are: it has no target and no server, and no path of its own
  is applied.
\<close>

theorem emergency_keeps_off_vpn:
  assumes "pe_emergency env" and "enrich_subject_with_effective_state env subject r u so = Inr es"
  shows "es_mode es \<notin> {''vpn'', ''forced_vpn'', ''selective''} \<and> es_path es \<notin> {''vpn'', ''selective''}
    \<and> vt_id (es_target es) = None \<and> vt_server_id (es_target es) = None \<and> \<not> sr_applied (es_scoped es)"
  using assms(2)
proof (cases rule: enrich_cases)
  case (1 mode0 source0 mode binding)
  have m: "mode \<notin> {''vpn'', ''forced_vpn'', ''selective''}" using 1(2) assms(1) by auto
  have p: "fst binding = effective_path mode (ps_type subject)" using 1(3) by (simp add: effective_binding_def)
  then have path: "fst binding \<noteq> ''vpn''" "fst binding \<noteq> ''selective''" using m by (auto simp: path_vpn_iff path_selective_iff)
  have "\<not> sr_applied (es_scoped es)"
    using 1(4) path assms(1) unfolding scoped_of_def by (intro off_path_not_applied) auto
  moreover have "vt_id (snd binding) = None" "vt_server_id (snd binding) = None"
    using target_only_vpn m 1(3) by (simp_all add: effective_binding_def)
  ultimately show ?thesis using m path 1(5-7) by simp
qed

text \<open>
  The router's own subject is direct, whatever is stored for it: the mode and the path are direct, it has
  no target and no server, and nothing is applied for it.
\<close>

theorem fwrouter_is_always_direct:
  assumes "ps_type subject = ''fwrouter''" and "enrich_subject_with_effective_state env subject r u so = Inr es"
  shows "es_mode es = ''direct'' \<and> es_path es = ''direct'' \<and> vt_id (es_target es) = None \<and> vt_server_id (es_target es) = None
    \<and> \<not> sr_applied (es_scoped es)"
  using assms(2)
proof (cases rule: enrich_cases)
  case (1 mode0 source0 mode binding)
  have m: "mode = ''direct''" using 1(1,2) assms(1) by (auto simp: effective_mode_with_override_def)
  have p: "fst binding = ''direct''" using 1(3) assms(1) by (simp add: effective_binding_def effective_path_def)
  have "\<not> sr_applied (es_scoped es)"
    using 1(4) p assms(1) unfolding scoped_of_def by (intro off_path_not_applied) auto
  moreover have "vt_id (snd binding) = None" "vt_server_id (snd binding) = None"
    using target_only_vpn assms(1) 1(3) by (simp_all add: effective_binding_def)
  ultimately show ?thesis using m p 1(5-7) by simp
qed

text \<open>
  A mode change that a user may make takes effect: when the change is accepted, the override with that mode
  decides the subject's mode, whatever the global mode is. While the administrator has locked a subject that
  follows the global mode, an override changes nothing and a user's change is refused.
\<close>

theorem user_override_effect:
  assumes "uo_mode o1 = Some mode"
  shows "(validate_subject_mode subject mode ''user'' = None
            \<longrightarrow> effective_mode_with_override subject r (Some o1) = (mode, ''user_override''))
    \<and> (subject_follows_global_mode (ps_type subject) \<and> ps_desired_mode subject \<noteq> ''global''
            \<longrightarrow> effective_mode_with_override subject r (Some o1) = effective_mode_with_override subject r None
                \<and> validate_subject_mode subject mode ''user'' \<noteq> None)"
proof -
  have f: "subject_follows_global_mode (ps_type subject) \<Longrightarrow> ps_type subject \<noteq> ''fwrouter''" using type_facts(6) by auto
  show ?thesis
    using f assms by (auto simp: validate_subject_mode_def user_override_gate_def effective_mode_with_override_def
        resolve_effective_capture_mode_def Let_def split: if_splits)
qed

section \<open>Reading overrides\<close>

lemma fold_update_map_of:
  assumes "distinct (map key rows)"
  shows "map_of (fold (\<lambda>r acc. AList.update (key r) (val r) acc) rows acc) k
    = (case find (\<lambda>r. key r = k) rows of Some r \<Rightarrow> Some (val r) | None \<Rightarrow> map_of acc k)"
  using assms
proof (induction rows arbitrary: acc)
  case (Cons r rows)
  have "\<forall>x \<in> set rows. key x \<noteq> key r" using Cons.prems by (metis distinct.simps(2) image_eqI list.set_map list.simps(9))
  then have "find (\<lambda>x. key x = key r) rows = None" unfolding find_None_iff by blast
  then show ?case using Cons by (auto simp: update_conv' split: option.splits)
qed simp

lemma find_filter_conj: "find P (filter Q xs) = find (\<lambda>x. P x \<and> Q x) xs"
  by (induction xs) auto

lemma distinct_map_filterI: "distinct (map f xs) \<Longrightarrow> distinct (map f (filter P xs))"
  by (induction xs) auto

text \<open>The override tables have the subject as primary key.\<close>

definition override_keys :: "override_db \<Rightarrow> bool" where
  "override_keys db = (distinct (map uo_subject_id (od_user db)) \<and> distinct (map so_subject_id (od_server db)))"

lemma batch_user_override:
  assumes "override_keys db" and "i \<in> set (wanted_ids ids)"
  shows "map_of (load_active_user_overrides now db ids) i = load_active_user_override now db i"
proof -
  let ?rows = "filter (\<lambda>r. uo_subject_id r \<in> set (wanted_ids ids) \<and> user_override_active now r) (od_user db)"
  have "distinct (map uo_subject_id ?rows)" using assms(1) by (auto simp: override_keys_def intro: distinct_map_filterI)
  then have "map_of (load_active_user_overrides now db ids) i = find (\<lambda>r. uo_subject_id r = i) ?rows"
    unfolding load_active_user_overrides_def by (simp add: fold_update_map_of [where val = "\<lambda>r. r"] split: option.splits)
  also have "\<dots> = load_active_user_override now db i"
    unfolding load_active_user_override_def find_filter_conj using assms(2) by (metis (mono_tags, lifting))
  finally show ?thesis .
qed

lemma batch_server_override:
  assumes "override_keys db" and "i \<in> set (wanted_ids ids)"
  shows "map_of (load_active_server_overrides now db ids) i = load_active_server_override now db i"
proof -
  let ?rows = "filter (\<lambda>r. so_subject_id r \<in> set (wanted_ids ids) \<and> server_override_active now r) (od_server db)"
  have "distinct (map so_subject_id ?rows)" using assms(1) by (auto simp: override_keys_def intro: distinct_map_filterI)
  then have "map_of (load_active_server_overrides now db ids) i = map_option project_row (find (\<lambda>r. so_subject_id r = i) ?rows)"
    unfolding load_active_server_overrides_def by (simp add: fold_update_map_of split: option.splits)
  also have "\<dots> = load_active_server_override now db i"
    unfolding load_active_server_override_def find_filter_conj using assms(2) by (metis (mono_tags, lifting))
  finally show ?thesis .
qed

lemma map_raise_nth: "map_raise f xs = Inr ys \<Longrightarrow> length ys = length xs \<and> (\<forall>i<length xs. f (xs ! i) = Inr (ys ! i))"
proof (induction xs arbitrary: ys)
  case (Cons x xs)
  then obtain y zs where "f x = Inr y" "map_raise f xs = Inr zs" "ys = y # zs" by (auto split: sum.splits)
  then show ?case using Cons.IH [of zs] by (auto simp: nth_Cons split: nat.splits)
qed simp

text \<open>
  The list of subjects shows each subject as the single view does: the two batch queries and the two
  queries for one subject find the same overrides, so the states agree, provided the tables keep their
  primary key and the subject's identifier has no blanks around it.
\<close>

theorem list_agrees_with_single_view:
  assumes "override_keys db" and "list_subjects_with_effective_state env now db stored subjects = Inr states"
    and "i < length subjects" and "strip (ps_id (subjects ! i)) = ps_id (subjects ! i)" and "ps_id (subjects ! i) \<noteq> []"
  shows "get_subject_with_effective_state env now db stored (Some (subjects ! i)) = Inr (Some (states ! i))"
proof -
  let ?s = "subjects ! i" and ?ids = "map ps_id subjects"
  have "ps_id ?s \<in> set (wanted_ids ?ids)"
    using assms(3-5) by (auto simp: wanted_ids_def image_iff intro!: bexI [of _ ?s])
  then have o: "map_of (load_active_user_overrides now db ?ids) (ps_id ?s) = load_active_user_override now db (ps_id ?s)"
    "map_of (load_active_server_overrides now db ?ids) (ps_id ?s) = load_active_server_override now db (ps_id ?s)"
    using batch_user_override batch_server_override assms(1) by blast+
  have "enrich_subject_with_effective_state env ?s (routing_snapshot stored) (map_of (load_active_user_overrides now db ?ids) (ps_id ?s))
      (map_of (load_active_server_overrides now db ?ids) (ps_id ?s)) = Inr (states ! i)"
    using map_raise_nth [OF assms(2) [unfolded list_subjects_with_effective_state_def Let_def]] assms(3) by blast
  then show ?thesis unfolding o by (simp add: get_subject_with_effective_state_def)
qed

section \<open>Expiry\<close>

lemma no_hits_kept: "sort_key f (filter P xs) = [] \<Longrightarrow> filter (\<lambda>x. \<not> P x) xs = xs"
proof -
  assume "sort_key f (filter P xs) = []"
  then have "filter P xs = []" by (metis set_empty set_sort)
  then show ?thesis by (simp add: filter_empty_conv filter_id_conv)
qed

lemma expire_effect:
  "fst (snd (expire_subject_overrides now dry_run db)) =
     (if dry_run then db
      else \<lparr>od_user = filter (\<lambda>r. \<not> expired now (uo_until r)) (od_user db),
            od_server = filter (\<lambda>r. \<not> expired now (so_until r)) (od_server db)\<rparr>)"
  by (cases db) (auto simp: expire_subject_overrides_def Let_def no_hits_kept)

lemma after_now_not_expired: "now \<le> later \<Longrightarrow> after_now later until \<Longrightarrow> \<not> expired now until"
  by (auto simp: after_now_def expired_def split: option.splits)


section \<open>Examples\<close>

definition sample_subject :: "string \<Rightarrow> string \<Rightarrow> policy_subject" where
  "sample_subject t mode =
     \<lparr>ps_id = t @ '':1'', ps_type = t, ps_implementation = t, ps_display_name = PNone, ps_desired_mode = mode, ps_active = True,
      ps_deleted = False, ps_runtime_state = PNone, ps_visibility = PNone,
      ps_detail = PDict [(''ip_address'', PStr ''10.0.0.5'')]\<rparr>"

definition sample_routing :: routing where
  "sample_routing =
     \<lparr>ro_desired_mode = ''vpn'', ro_selective_default = ''direct'', ro_server_mode = ''fixed'', ro_desired_fixed = Some ''nl-1'',
      ro_applied_fixed = None, ro_active_auto = None\<rparr>"

definition sample_policy_env :: "bool \<Rightarrow> policy_env" where
  "sample_policy_env emergency =
     \<lparr>pe_vpn_supported = True, pe_bypass = False, pe_emergency = emergency, pe_bindings = None\<rparr>"

definition sample_user_override :: user_override_row where
  "sample_user_override =
     \<lparr>uo_subject_id = ''lan:1'', uo_mode = Some ''direct'', uo_until = Some ''2026-01-01 10:00:00'', uo_created_by = ''user'',
      uo_updated_at = ''2026-01-01 08:00:00''\<rparr>"

definition sample_server_override :: server_override_row where
  "sample_server_override =
     \<lparr>so_subject_id = ''lan:1'', so_server_id = Some ''de-1'', so_target_kind = Some ''server'',
      so_until = Some ''2026-01-01 09:00:00'', so_apply_state = ''clean'', so_error_code = None, so_error_message = None,
      so_updated_at = ''2026-01-01 08:00:00''\<rparr>"

definition sample_overrides :: override_db where
  "sample_overrides = \<lparr>od_user = [sample_user_override], od_server = [sample_server_override]\<rparr>"

definition sample_scoped_args :: scoped_args where
  "sample_scoped_args =
     \<lparr>sa_path = ''vpn'', sa_server_id = Some ''nl-1'', sa_server_source = Some ''global_fixed'', sa_target_id = Some ''nl-1'',
      sa_target_source = Some ''global_fixed'', sa_overridden = False, sa_vpn_supported = True, sa_bypass = False,
      sa_global_mode = ''vpn''\<rparr>"

definition result_of :: "exc + 'a \<Rightarrow> 'a option" where
  "result_of x = (case x of Inl _ \<Rightarrow> None | Inr y \<Rightarrow> Some y)"

lemma result_ofD: "result_of x \<noteq> None \<Longrightarrow> x = Inr (the (result_of x))"
  by (cases x) (simp_all add: result_of_def)


theorem emergency_keeps_off_vpn_witness:
  "let es = the (result_of (enrich_subject_with_effective_state (sample_policy_env True) (sample_subject ''lan'' ''vpn'')
       sample_routing None (Some sample_server_override)))
   in es_mode es \<notin> {''vpn'', ''forced_vpn'', ''selective''} \<and> es_path es \<notin> {''vpn'', ''selective''} \<and> \<not> sr_applied (es_scoped es)"
proof -
  let ?x = "enrich_subject_with_effective_state (sample_policy_env True) (sample_subject ''lan'' ''vpn'')
       sample_routing None (Some sample_server_override)"
  have "?x = Inr (the (result_of ?x))" by (rule result_ofD) code_simp
  moreover have "pe_emergency (sample_policy_env True)" by (simp add: sample_policy_env_def)
  ultimately show ?thesis using emergency_keeps_off_vpn [of "sample_policy_env True"] by (simp only: Let_def) blast
qed

theorem fwrouter_is_always_direct_witness:
  "let es = the (result_of (enrich_subject_with_effective_state (sample_policy_env False) (sample_subject ''fwrouter'' ''vpn'')
       sample_routing (Some sample_user_override) (Some sample_server_override)))
   in es_mode es = ''direct'' \<and> es_path es = ''direct'' \<and> \<not> sr_applied (es_scoped es)"
proof -
  let ?x = "enrich_subject_with_effective_state (sample_policy_env False) (sample_subject ''fwrouter'' ''vpn'')
       sample_routing (Some sample_user_override) (Some sample_server_override)"
  have "?x = Inr (the (result_of ?x))" by (rule result_ofD) code_simp
  moreover have "ps_type (sample_subject ''fwrouter'' ''vpn'') = ''fwrouter''" by (simp add: sample_subject_def)
  ultimately show ?thesis using fwrouter_is_always_direct [of "sample_subject ''fwrouter'' ''vpn''"] by (simp only: Let_def) blast
qed

theorem user_override_effect_witness:
  "effective_mode_with_override (sample_subject ''lan'' ''global'') sample_routing (Some sample_user_override)
     = (''direct'', ''user_override'')
   \<and> validate_subject_mode (sample_subject ''lan'' ''vpn'') ''direct'' ''user'' \<noteq> None"
proof -
  have o: "uo_mode sample_user_override = Some ''direct''" by (simp add: sample_user_override_def)
  have "validate_subject_mode (sample_subject ''lan'' ''global'') ''direct'' ''user'' = None" by code_simp
  moreover have "subject_follows_global_mode (ps_type (sample_subject ''lan'' ''vpn''))
      \<and> ps_desired_mode (sample_subject ''lan'' ''vpn'') \<noteq> ''global''" by code_simp
  ultimately show ?thesis
    using user_override_effect [OF o, of "sample_subject ''lan'' ''global''" sample_routing]
      user_override_effect [OF o, of "sample_subject ''lan'' ''vpn''" sample_routing] by blast
qed

theorem list_agrees_with_single_view_witness:
  "let subjects = [sample_subject ''lan'' ''global'', sample_subject ''host'' ''direct''];
       states = the (result_of (list_subjects_with_effective_state (sample_policy_env False) ''2026-01-01 08:30:00'' sample_overrides
                  (Some sample_routing) subjects))
   in get_subject_with_effective_state (sample_policy_env False) ''2026-01-01 08:30:00'' sample_overrides (Some sample_routing)
        (Some (subjects ! 0)) = Inr (Some (states ! 0))"
proof -
  let ?ss = "[sample_subject ''lan'' ''global'', sample_subject ''host'' ''direct'']"
  let ?x = "list_subjects_with_effective_state (sample_policy_env False) ''2026-01-01 08:30:00'' sample_overrides (Some sample_routing) ?ss"
  have "?x = Inr (the (result_of ?x))" by (rule result_ofD) code_simp
  moreover have "override_keys sample_overrides" by code_simp
  moreover have "strip (ps_id (?ss ! 0)) = ps_id (?ss ! 0)" "ps_id (?ss ! 0) \<noteq> []" by code_simp+
  ultimately show ?thesis unfolding Let_def by (intro list_agrees_with_single_view) simp_all
qed


text \<open>
  The short view of the subjects does not know the emergency: it still reports the VPN path and its server
  for a subject that the full view reports as direct.
\<close>

theorem summary_ignores_emergency:
  "map_option (\<lambda>su. (su_path su, vt_id (su_target su), sr_applied (su_scoped su)))
     (result_of (subject_effective_state_summary (sample_policy_env True) (sample_subject ''lan'' ''vpn'') sample_routing None None))
     = Some (''vpn'', Some ''nl-1'', True)
   \<and> map_option (\<lambda>es. (es_path es, vt_id (es_target es), sr_applied (es_scoped es)))
     (result_of (enrich_subject_with_effective_state (sample_policy_env True) (sample_subject ''lan'' ''vpn'') sample_routing None None))
     = Some (''direct'', None, False)"
  by code_simp

end
