(* ===== verification/Subject_Readiness.thy ===== *)
theory Subject_Readiness
  imports Subject_Properties
begin

text \<open>
  The summary and the readiness of scoped egress, and the stored form of server overrides: readiness holds
  exactly when every tracked eligible subject is applied, and what the codec writes it reads back.
\<close>

section \<open>Counting\<close>

definition tracked_runtimes :: "(policy_subject \<times> scoped_runtime option) list \<Rightarrow> scoped_runtime list" where
  "tracked_runtimes xs = filter sr_tracked (List.map_filter snd xs)"

definition count_if :: "('a \<Rightarrow> bool) \<Rightarrow> 'a list \<Rightarrow> nat" where
  "count_if P xs = length (filter P xs)"

lemma count_if_simps [simp]: "count_if P [] = 0" "count_if P (x # xs) = (if P x then 1 else 0) + count_if P xs"
  by (simp_all add: count_if_def)

lemma count_if_mono_eq: "(\<And>x. x \<in> set xs \<Longrightarrow> P x \<Longrightarrow> Q x) \<Longrightarrow> count_if P xs = count_if Q xs \<longleftrightarrow> (\<forall>x\<in>set xs. Q x \<longrightarrow> P x)"
  and count_if_mono: "(\<And>x. x \<in> set xs \<Longrightarrow> P x \<Longrightarrow> Q x) \<Longrightarrow> count_if P xs \<le> count_if Q xs"
proof -
  have "(\<And>x. x \<in> set xs \<Longrightarrow> P x \<Longrightarrow> Q x) \<Longrightarrow> count_if P xs \<le> count_if Q xs \<and> (count_if P xs = count_if Q xs \<longleftrightarrow> (\<forall>x\<in>set xs. Q x \<longrightarrow> P x))"
    by (induction xs) auto
  then show "(\<And>x. x \<in> set xs \<Longrightarrow> P x \<Longrightarrow> Q x) \<Longrightarrow> count_if P xs = count_if Q xs \<longleftrightarrow> (\<forall>x\<in>set xs. Q x \<longrightarrow> P x)"
    "(\<And>x. x \<in> set xs \<Longrightarrow> P x \<Longrightarrow> Q x) \<Longrightarrow> count_if P xs \<le> count_if Q xs" by blast+
qed

lemma count_if_zero: "count_if P xs = 0 \<longleftrightarrow> (\<forall>x\<in>set xs. \<not> P x)"
  by (simp add: count_if_def filter_empty_conv)

definition unresolved_runtime :: "scoped_runtime \<Rightarrow> bool" where
  "unresolved_runtime r = (sr_status r = ''pending_unresolved_subject_match'')"

lemma fold_add_binding:
  "ss_eligible (fold add_binding xs s) = ss_eligible s + count_if sr_eligible (tracked_runtimes xs)"
  "ss_applied (fold add_binding xs s) = ss_applied s + count_if sr_applied (tracked_runtimes xs)"
  "ss_unresolved (fold add_binding xs s) = ss_unresolved s + count_if unresolved_runtime (tracked_runtimes xs)"
  "length (ss_bindings (fold add_binding xs s)) = length (ss_bindings s) + length (tracked_runtimes xs)"
  by (induction xs arbitrary: s)
    (auto simp: add_binding_def tracked_runtimes_def List.map_filter_def binding_of_def unresolved_runtime_def Let_def split: option.splits)

lemma fold_pending:
  "ss_pending (fold add_binding xs s)
     = ss_pending s + count_if (\<lambda>r. sr_eligible r \<and> \<not> sr_applied r \<and> starts_with (sr_status r) ''pending_'') (tracked_runtimes xs)"
proof (induction xs arbitrary: s)
  case (Cons x xs)
  have "\<not> starts_with ''not_applicable'' ''pending_''" "\<not> starts_with [] ''pending_''" by code_simp+
  then show ?case using Cons.IH
    by (auto simp: add_binding_def tracked_runtimes_def List.map_filter_def binding_of_def Let_def split: option.splits)
qed (simp add: tracked_runtimes_def List.map_filter_def)

lemma summary_counts:
  "ss_eligible (summarize_scoped_subjects xs) = count_if sr_eligible (tracked_runtimes xs)"
  "ss_applied (summarize_scoped_subjects xs) = count_if sr_applied (tracked_runtimes xs)"
  "ss_unresolved (summarize_scoped_subjects xs) = count_if unresolved_runtime (tracked_runtimes xs)"
  "ss_pending (summarize_scoped_subjects xs)
     = count_if (\<lambda>r. sr_eligible r \<and> \<not> sr_applied r \<and> starts_with (sr_status r) ''pending_'') (tracked_runtimes xs)"
  by (simp_all add: summarize_scoped_subjects_def Let_def fold_add_binding fold_pending empty_summary_def)

section \<open>Readiness\<close>

lemma unresolved_selective:
  "unresolved_runtime (selective_runtime subject a m r) \<Longrightarrow> \<not> sr_applied r
     \<Longrightarrow> sr_eligible (selective_runtime subject a m r) \<and> \<not> sr_applied (selective_runtime subject a m r)"
  by (auto simp: selective_runtime_def unresolved_runtime_def Let_def split: if_splits)

lemma unresolved_explicit:
  "unresolved_runtime (explicit_runtime file subject a r) \<Longrightarrow> \<not> sr_applied r \<Longrightarrow> \<not> sr_applied (explicit_runtime file subject a r)"
  by (auto simp: explicit_runtime_def unresolved_runtime_def split: if_splits)

lemma unresolved_vpn:
  assumes "unresolved_runtime (vpn_runtime file subject a m r)" and "\<not> sr_applied r"
  shows "sr_eligible (vpn_runtime file subject a m r) \<and> \<not> sr_applied (vpn_runtime file subject a m r)"
proof -
  have "\<not> sr_applied (r\<lparr>sr_eligible := True\<rparr>)" using assms(2) by simp
  then show ?thesis
    using assms unresolved_explicit [where r = "r\<lparr>sr_eligible := True\<rparr>"]
      explicit_runtime_applied(3) [where r = "r\<lparr>sr_eligible := True\<rparr>"]
    by (auto simp: vpn_runtime_def unresolved_runtime_def Let_def split: if_splits)
qed

lemma docker_obstacle_status:
  "fst (docker_vpn_obstacle subject) = Some (st, re) \<Longrightarrow> st \<noteq> ''pending_unresolved_subject_match''"
  by (auto simp: docker_vpn_obstacle_def Let_def split: if_splits)

lemma unresolved_path:
  assumes "unresolved_runtime (path_runtime file subject a m r)" and "\<not> sr_applied r"
  shows "sr_eligible (path_runtime file subject a m r) \<and> \<not> sr_applied (path_runtime file subject a m r)"
proof -
  define ob where "ob = (if ps_type subject = ''docker'' \<and> sa_path a = ''vpn'' then docker_vpn_obstacle subject else (None, None))"
  have ob: "fst ob = Some (st, re) \<Longrightarrow> st \<noteq> ''pending_unresolved_subject_match''" for st re
    using docker_obstacle_status by (auto simp: ob_def split: if_splits)
  have na: "\<not> sr_applied (r\<lparr>sr_docker_ipv6 := snd ob\<rparr>)" using assms(2) by simp
  show ?thesis
    using assms unresolved_vpn [OF _ na] unresolved_selective [OF _ na] ob
    by (auto simp: path_runtime_def ob_def [symmetric] unresolved_runtime_def Let_def split: if_splits option.splits)
qed

lemma built_runtime:
  assumes "build_scoped_subject_runtime file subject a = Inr r"
  shows "sr_applied r \<Longrightarrow> sr_eligible r" and "unresolved_runtime r \<Longrightarrow> sr_eligible r \<and> \<not> sr_applied r"
proof -
  obtain m where m: "matcher_from_subject subject = Inr m"
    using assms by (auto simp: build_scoped_subject_runtime_def split: sum.splits)
  show "sr_applied r \<Longrightarrow> sr_eligible r" using scoped_applied_exact [OF m assms] by blast
  let ?i = "initial_runtime subject a m"
  have i: "\<not> unresolved_runtime ?i" by (simp add: unresolved_runtime_def initial_runtime_def Let_def)
  assume u: "unresolved_runtime r"
  have "\<exists>q. \<not> sr_applied q \<and> r = path_runtime file subject a m q"
  proof (cases "direct_coverage_applies subject a")
    case False
    then have "r = path_runtime file subject a m ?i"
      using assms u m i by (auto simp: build_scoped_subject_runtime_def Let_def unresolved_runtime_def split: if_splits)
    then show ?thesis using initial_runtime_simps(1) by blast
  next
    case True
    then obtain as where "docker_direct_addresses subject = Some as" and "r = path_runtime file subject a m
        (?i\<lparr>sr_matcher := Some (with_values as (sr_matcher ?i)), sr_direct_coverage := Some as\<rparr>)"
      using assms u m i
      by (cases "docker_direct_addresses subject")
        (auto simp: build_scoped_subject_runtime_def Let_def unresolved_runtime_def split: if_splits)
    then show ?thesis by (intro exI conjI) (auto simp del: initial_runtime_simps(4))
  qed
  then show "sr_eligible r \<and> \<not> sr_applied r" using unresolved_path u by blast
qed

text \<open>
  Scoped egress is ready exactly when the VPN runtime is supported, the live mode is the intended one, the
  core is not bypassed and every subject that is tracked and eligible has its path applied. No other state of
  a subject counts, and the counters of the summary cannot hide one.
\<close>

theorem readiness_exact:
  assumes "\<forall>(s, x)\<in>set xs. \<forall>r. x = Some r \<longrightarrow> (\<exists>a. build_scoped_subject_runtime file s a = Inr r)"
  shows "re_ready (build_scoped_egress_readiness (build_scoped_egress_diagnostics (summarize_scoped_subjects xs) en bypass) en bypass)
    \<longleftrightarrow> \<not> bypass \<and> en_vpn_supported en \<and> en_mode_matches en
        \<and> (\<forall>r. r \<in> Option.these (snd ` set xs) \<and> sr_tracked r \<and> sr_eligible r \<longrightarrow> sr_applied r)"
proof -
  let ?t = "tracked_runtimes xs"
  have t: "set ?t = {r \<in> Option.these (snd ` set xs). sr_tracked r}"
    by (force simp: tracked_runtimes_def List.map_filter_def Option.these_def)
  have built: "sr_applied r \<Longrightarrow> sr_eligible r" "unresolved_runtime r \<Longrightarrow> sr_eligible r \<and> \<not> sr_applied r" if "r \<in> set ?t" for r
    using that assms built_runtime by (fastforce simp: t Option.these_def)+
  have le: "count_if sr_applied ?t \<le> count_if sr_eligible ?t" using built(1) by (rule count_if_mono)
  have all: "count_if sr_applied ?t = count_if sr_eligible ?t \<longleftrightarrow> (\<forall>r\<in>set ?t. sr_eligible r \<longrightarrow> sr_applied r)"
    using built(1) by (rule count_if_mono_eq)
  have un: "(\<forall>r\<in>set ?t. sr_eligible r \<longrightarrow> sr_applied r) \<Longrightarrow> count_if unresolved_runtime ?t = 0"
    using built(2) by (auto simp: count_if_zero)
  have pe: "count_if (\<lambda>r. sr_eligible r \<and> \<not> sr_applied r \<and> starts_with (sr_status r) ''pending_'') ?t \<le> count_if sr_eligible ?t"
    by (rule count_if_mono) simp
  have "re_ready (build_scoped_egress_readiness (build_scoped_egress_diagnostics (summarize_scoped_subjects xs) en bypass) en bypass)
      \<longleftrightarrow> \<not> (bypass \<or> \<not> en_vpn_supported en \<or> \<not> en_mode_matches en)
          \<and> (count_if sr_eligible ?t = 0 \<or> \<not> (count_if unresolved_runtime ?t > 0 \<or> count_if sr_applied ?t < count_if sr_eligible ?t))"
    using pe by (auto simp: build_scoped_egress_readiness_def build_scoped_egress_diagnostics_def Let_def summary_counts)
  also have "(count_if sr_eligible ?t = 0 \<or> \<not> (count_if unresolved_runtime ?t > 0 \<or> count_if sr_applied ?t < count_if sr_eligible ?t))
      \<longleftrightarrow> (\<forall>r\<in>set ?t. sr_eligible r \<longrightarrow> sr_applied r)"
    using le all un by linarith
  finally have "re_ready (build_scoped_egress_readiness (build_scoped_egress_diagnostics (summarize_scoped_subjects xs) en bypass) en bypass)
      \<longleftrightarrow> \<not> (bypass \<or> \<not> en_vpn_supported en \<or> \<not> en_mode_matches en) \<and> (\<forall>r\<in>set ?t. sr_eligible r \<longrightarrow> sr_applied r)" .
  then show ?thesis by (auto simp: t)
qed

theorem readiness_exact_witness:
  "let a = sample_scoped_args; lan = sample_subject ''lan'' ''vpn'';
       r = the (result_of (build_scoped_subject_runtime None lan a));
       en = \<lparr>en_vpn_supported = True, en_mode_matches = True, en_transparent_tcp = True\<rparr>;
       d = build_scoped_egress_diagnostics (summarize_scoped_subjects [(lan, Some r)]) en False
   in re_ready (build_scoped_egress_readiness d en False) \<and> re_eligible (build_scoped_egress_readiness d en False) = 1"
proof -
  let ?lan = "sample_subject ''lan'' ''vpn''" and ?en = "\<lparr>en_vpn_supported = True, en_mode_matches = True, en_transparent_tcp = True\<rparr>"
  let ?b = "build_scoped_subject_runtime None ?lan sample_scoped_args"
  let ?d = "build_scoped_egress_diagnostics (summarize_scoped_subjects [(?lan, Some (the (result_of ?b)))]) ?en False"
  have b: "?b = Inr (the (result_of ?b))" by (rule result_ofD) code_simp
  have h: "\<forall>(s, x)\<in>set [(?lan, Some (the (result_of ?b)))]. \<forall>r. x = Some r \<longrightarrow> (\<exists>a. build_scoped_subject_runtime None s a = Inr r)"
    using b by auto
  have "sr_applied (the (result_of ?b))" by code_simp
  then have "re_ready (build_scoped_egress_readiness ?d ?en False)"
    using readiness_exact [OF h, of ?en False] by (auto simp: Option.these_def)
  moreover have "re_eligible (build_scoped_egress_readiness ?d ?en False) = 1" by code_simp
  ultimately show ?thesis by (simp only: Let_def simp_thms)
qed

section \<open>Stored overrides\<close>

text \<open>The constraint of the table: a server, whose identifier becomes \<open>NULL\<close> when the
  server is deleted and is never empty, or the automatic target without an identifier.\<close>

definition stored_target :: "server_override_row \<Rightarrow> bool" where
  "stored_target row =
     (so_target_kind row = Some ''server'' \<and> so_server_id row \<noteq> Some []
      \<or> so_target_kind row = Some ''vpn_auto'' \<and> so_server_id row = None)"

lemma stored_target_decodes: "stored_target row \<Longrightarrow> server_override_active now row \<Longrightarrow> decode_target row \<notin> {None, Some []}"
  by (auto simp: stored_target_def server_override_active_def decode_target_def virtual_xray_vpn_auto_server_id_def)

text \<open>
  C33. A server override is read as it was written: encoding a target that is not blank and storing the pair
  gives a row of the allowed form, and reading it, also after the projection was applied before, gives the
  target without its outer blanks. An active override of a table in that form always names a target, and a
  subject on the VPN path is bound to it.
\<close>

theorem override_codec_roundtrip:
  assumes "strip target \<noteq> []" and "row' = row\<lparr>so_target_kind := Some (fst (encode_target target)), so_server_id := snd (encode_target target)\<rparr>"
    and "list_all stored_target (od_server db)" and "load_active_server_override now db i = Some o1"
  shows "stored_target row' \<and> decode_target row' = Some (strip target) \<and> so_server_id (project_row row') = Some (strip target)
    \<and> (\<exists>s. s \<noteq> [] \<and> so_server_id o1 = Some s
         \<and> (t \<noteq> ''fwrouter'' \<longrightarrow> resolve_effective_vpn_target ''vpn'' t (Some o1) r
             = \<lparr>vt_id = Some s, vt_source = Some ''subject_override'', vt_server_id = Some s,
                vt_server_source = ''subject_override'', vt_selective_default = None\<rparr>))"
proof -
  obtain q where "find (\<lambda>r. so_subject_id r = i \<and> server_override_active now r) (od_server db) = Some q" and o1: "o1 = project_row q"
    using assms(4) by (auto simp: load_active_server_override_def)
  then have q: "q \<in> set (od_server db)" "server_override_active now q" by (metis (mono_tags, lifting) find_Some_iff nth_mem)+
  have "decode_target q \<notin> {None, Some []}" using q assms(3) by (intro stored_target_decodes) (simp_all add: list_all_iff)
  then obtain s where s: "s \<noteq> []" "so_server_id o1 = Some s" using o1 by (cases "decode_target q") (auto simp: project_row_def)
  have "decode_target row' = Some (strip target)" "stored_target row'"
    using assms(1,2) by (auto simp: decode_target_def encode_target_def stored_target_def Let_def virtual_xray_vpn_auto_server_id_def)
  moreover from this have "so_server_id (project_row row') = Some (strip target)" by (simp add: project_row_def)
  ultimately show ?thesis
    using s by (auto simp: resolve_effective_vpn_target_def override_target_def)
qed

theorem override_codec_roundtrip_witness:
  "decode_target (sample_server_override\<lparr>so_target_kind := Some (fst (encode_target '' de-2 '')),
     so_server_id := snd (encode_target '' de-2 '')\<rparr>) = Some ''de-2''"
proof -
  have "load_active_server_override ''2026-01-01 08:30:00'' sample_overrides ''lan:1''
      = Some (the (load_active_server_override ''2026-01-01 08:30:00'' sample_overrides ''lan:1''))" by code_simp
  moreover have "strip '' de-2 '' = ''de-2''" "list_all stored_target (od_server sample_overrides)" by code_simp+
  ultimately show ?thesis using override_codec_roundtrip [of "'' de-2 ''"] by fastforce
qed

end
