(* ===== verification/Nft_Rules.thy ===== *)
theory Nft_Rules
  imports Rules_Compile Scoped_Egress
begin

text \<open>
  The rules of the owned nftables table as data, with their exact text and their meaning. A rule has
  conditions, statements and a comment; \<open>rule_line\<close> is the line of text the renderer writes for it.
  The meaning follows the documentation of nftables: the rules of a chain are tried in order, \<open>goto\<close>
  leaves the chain for good, \<open>jump\<close> comes back, a base chain that is left accepts the packet. What a
  condition says about a packet is a parameter, the valuation of expressions; only the mark is interpreted,
  because the rules change it. Running the chains takes fuel for the depth of calls, which is three here.
\<close>

section \<open>Rules and their text\<close>

datatype nft_cond =
    Expr string string
  | Mark string
  | NotMark string

datatype nft_action =
    NCounter
  | NCounterName string
  | NSetMark string
  | NGoto string
  | NJump string
  | NReturn
  | NAccept
  | NDrop
  | NReject string
  | NTproxy string
  | NRedirect string
  | NClampMss

datatype nft_rule = NRule (conds: "nft_cond list") (actions: "nft_action list") (remark: "string option")

definition quoted :: "string \<Rightarrow> string" where
  "quoted s = [CHR 0x22] @ s @ [CHR 0x22]"

fun cond_text :: "nft_cond \<Rightarrow> string" where
  "cond_text (Expr e v) = e @ '' '' @ v"
| "cond_text (Mark m) = ''meta mark '' @ m"
| "cond_text (NotMark m) = ''meta mark != '' @ m"

fun action_text :: "nft_action \<Rightarrow> string" where
  "action_text NCounter = ''counter''"
| "action_text (NCounterName n) = ''counter name '' @ quoted n"
| "action_text (NSetMark m) = ''meta mark set '' @ m"
| "action_text (NGoto c) = ''goto '' @ c"
| "action_text (NJump c) = ''jump '' @ c"
| "action_text NReturn = ''return''"
| "action_text NAccept = ''accept''"
| "action_text NDrop = ''drop''"
| "action_text (NReject how) = (if how = [] then ''reject'' else ''reject with '' @ how)"
| "action_text (NTproxy p) = ''tproxy to :'' @ p"
| "action_text (NRedirect p) = ''redirect to :'' @ p"
| "action_text NClampMss = ''tcp option maxseg size set rt mtu''"

definition indent :: "string \<Rightarrow> string" where
  "indent s = ''        '' @ s"

definition rule_line :: "nft_rule \<Rightarrow> string" where
  "rule_line r =
     indent (join '' '' (map cond_text (conds r) @ map action_text (actions r)
       @ (case remark r of Some c \<Rightarrow> [''comment '' @ quoted c] | None \<Rightarrow> [])))"

record nft_chain =
  ch_name :: string
  ch_hook :: "string option"
  ch_rules :: "nft_rule list"

definition chain_lines :: "nft_chain \<Rightarrow> string list" where
  "chain_lines c =
     [''    chain '' @ ch_name c @ '' {''] @ (case ch_hook c of Some h \<Rightarrow> [indent h] | None \<Rightarrow> [])
     @ map rule_line (ch_rules c) @ [''    }'']"

section \<open>Marks\<close>

text \<open>\<open>int(s, 16)\<close> for the forms that occur: an optional sign and prefix, hexadecimal digits with single
  underscores between them.\<close>

fun parse_hex_digits :: "int \<Rightarrow> bool \<Rightarrow> string \<Rightarrow> int option" where
  "parse_hex_digits acc after_digit [] = (if after_digit then Some acc else None)"
| "parse_hex_digits acc after_digit (c # cs) =
     (if is_hex c then parse_hex_digits (16 * acc + hex_value c) True cs
      else if c = CHR ''_'' \<and> after_digit then parse_hex_digits acc False cs
      else None)"

definition mark_value :: "string \<Rightarrow> int option" where
  "mark_value s =
     (let t = strip s; neg = starts_with t ''-'';
          u = (if neg \<or> starts_with t ''+'' then drop 1 t else t)
      in map_option (\<lambda>n. if neg then - n else n)
           (if starts_with (lower u) ''0x''
            then (let v = drop 2 u in parse_hex_digits 0 False (if starts_with v ''_'' then drop 1 v else v))
            else parse_hex_digits 0 False u))"

text \<open>The format \<open>08x\<close>, with the sign counted in the width.\<close>

definition hex8 :: "int \<Rightarrow> string" where
  "hex8 n =
     (let sign = (if n < 0 then ''-'' else []); t = hex_text \<bar>n\<bar>
      in sign @ replicate (8 - length sign - length t) CHR ''0'' @ t)"

definition derive_mark_hex :: "string \<Rightarrow> int \<Rightarrow> string" where
  "derive_mark_hex vpn_fwmark_hex offset =
     ''0x'' @ hex8 ((case mark_value vpn_fwmark_hex of Some v \<Rightarrow> v | None \<Rightarrow> 256) + offset)"

definition derive_tcp_redirect_mark_hex :: "string \<Rightarrow> string" where
  "derive_tcp_redirect_mark_hex vpn_fwmark_hex = derive_mark_hex vpn_fwmark_hex 1"

section \<open>Meaning\<close>

type_synonym valuation = "string \<Rightarrow> string \<Rightarrow> bool"

record packet_state =
  pk_mark :: int
  pk_tproxy :: "string option"
  pk_redirect :: "string option"

datatype verdict = Fall | Accepted | Dropped | Rejected

fun cond_holds :: "valuation \<Rightarrow> int \<Rightarrow> nft_cond \<Rightarrow> bool" where
  "cond_holds ev mark (Expr e v) = ev e v"
| "cond_holds ev mark (Mark m) = (mark_value m = Some mark)"
| "cond_holds ev mark (NotMark m) = (mark_value m \<noteq> Some mark)"

definition rule_matches :: "valuation \<Rightarrow> packet_state \<Rightarrow> nft_rule \<Rightarrow> bool" where
  "rule_matches ev p r = list_all (cond_holds ev (pk_mark p)) (conds r)"

text \<open>The statements of a rule: \<open>Inl\<close> goes on with the next rule, \<open>Inr\<close> is the verdict of the chain.\<close>

fun run_actions ::
  "(string \<Rightarrow> packet_state \<Rightarrow> (verdict \<times> packet_state) option) \<Rightarrow> nft_action list \<Rightarrow> packet_state
     \<Rightarrow> (packet_state + verdict \<times> packet_state) option" where
  "run_actions call [] p = Some (Inl p)"
| "run_actions call (NCounter # as) p = run_actions call as p"
| "run_actions call (NCounterName n # as) p = run_actions call as p"
| "run_actions call (NClampMss # as) p = run_actions call as p"
| "run_actions call (NSetMark m # as) p =
     (case mark_value m of Some v \<Rightarrow> run_actions call as (p\<lparr>pk_mark := v\<rparr>) | None \<Rightarrow> None)"
| "run_actions call (NTproxy t # as) p = run_actions call as (p\<lparr>pk_tproxy := Some t\<rparr>)"
| "run_actions call (NRedirect t # as) p = Some (Inr (Accepted, p\<lparr>pk_redirect := Some t\<rparr>))"
| "run_actions call (NReturn # as) p = Some (Inr (Fall, p))"
| "run_actions call (NAccept # as) p = Some (Inr (Accepted, p))"
| "run_actions call (NDrop # as) p = Some (Inr (Dropped, p))"
| "run_actions call (NReject how # as) p = Some (Inr (Rejected, p))"
| "run_actions call (NGoto c # as) p = map_option Inr (call c p)"
| "run_actions call (NJump c # as) p =
     (case call c p of
        None \<Rightarrow> None
      | Some (Fall, q) \<Rightarrow> run_actions call as q
      | Some r \<Rightarrow> Some (Inr r))"

fun run_rules ::
  "(string \<Rightarrow> packet_state \<Rightarrow> (verdict \<times> packet_state) option) \<Rightarrow> valuation \<Rightarrow> nft_rule list \<Rightarrow> packet_state
     \<Rightarrow> (verdict \<times> packet_state) option" where
  "run_rules call ev [] p = Some (Fall, p)"
| "run_rules call ev (r # rs) p =
     (if rule_matches ev p r
      then (case run_actions call (actions r) p of
              None \<Rightarrow> None
            | Some (Inl q) \<Rightarrow> run_rules call ev rs q
            | Some (Inr x) \<Rightarrow> Some x)
      else run_rules call ev rs p)"

definition find_chain :: "nft_chain list \<Rightarrow> string \<Rightarrow> nft_chain option" where
  "find_chain cs name = find (\<lambda>c. ch_name c = name) cs"

fun run_chain :: "nat \<Rightarrow> nft_chain list \<Rightarrow> valuation \<Rightarrow> string \<Rightarrow> packet_state \<Rightarrow> (verdict \<times> packet_state) option" where
  "run_chain 0 cs ev name p = None"
| "run_chain (Suc n) cs ev name p =
     (case find_chain cs name of
        None \<Rightarrow> None
      | Some c \<Rightarrow> run_rules (run_chain n cs ev) ev (ch_rules c) p)"

text \<open>A packet at a hook; where the table has no chain for it the packet passes. Three levels are enough: an
  entry chain, the classification and a terminal chain.\<close>

definition run_hook :: "nft_chain list \<Rightarrow> valuation \<Rightarrow> string \<Rightarrow> packet_state \<Rightarrow> (verdict \<times> packet_state) option" where
  "run_hook cs ev name p = (if find_chain cs name = None then Some (Fall, p) else run_chain 3 cs ev name p)"

definition lets_pass :: "verdict \<Rightarrow> bool" where
  "lets_pass v = (v = Fall \<or> v = Accepted)"

text \<open>A new connection that arrives: the mangle chain of prerouting, then its address translation.\<close>

definition run_ingress :: "nft_chain list \<Rightarrow> valuation \<Rightarrow> packet_state \<Rightarrow> (verdict \<times> packet_state) option" where
  "run_ingress cs ev p =
     (case run_hook cs ev ''prerouting'' p of
        None \<Rightarrow> None
      | Some (v, q) \<Rightarrow> if lets_pass v then run_hook cs ev ''prerouting_nat'' q else Some (v, q))"

end
