(* ===== verification/Nft_Chains.thy ===== *)
theory Nft_Chains
  imports Nft_Rules
begin

text \<open>
  The chains of the owned table, as \<open>services/dataplane_nft_chains.py\<close> builds them, with the constants
  of \<open>services/dataplane_nft_constants.py\<close>. A port is \<open>None\<close> when the value is no integer. Subjects are
  the dictionaries of the manifest.
\<close>

section \<open>Constants, ports\<close>

definition owned_table :: string where
  "owned_table = ''inet fwrouter_v2''"

definition required_chains :: "string list" where
  "required_chains =
     [''prerouting'', ''input'', ''output'', ''forward'', ''postrouting'', ''fwrouter_classify'', ''fwrouter_direct'',
      ''fwrouter_vpn'', ''fwrouter_vpn_full'']"

definition static_secure_dns_bypass_ipv4 :: "string list" where
  "static_secure_dns_bypass_ipv4 =
     [''1.1.1.1'', ''1.0.0.1'', ''1.1.1.2'', ''1.0.0.2'', ''162.159.61.3'', ''162.159.61.4'', ''172.64.41.3'', ''172.64.41.4'',
      ''8.8.8.8'', ''8.8.4.4'', ''9.9.9.9'', ''149.112.112.112'', ''94.140.14.14'', ''94.140.15.15'', ''208.67.222.222'',
      ''208.67.220.220'']"

definition control_plane_input_ports :: "int list" where
  "control_plane_input_ports = [22, 53, 67, 68, 5000, 5055, 5200, 5201, 5202, 5203, 5204, 5205]"

definition root_uid :: int where
  "root_uid = 0"

type_synonym port = "int option"

definition port_on :: "port \<Rightarrow> bool" where
  "port_on p = (case p of Some n \<Rightarrow> 0 < n | None \<Rightarrow> False)"

definition port_text :: "port \<Rightarrow> string" where
  "port_text p = (case p of Some n \<Rightarrow> int_text n | None \<Rightarrow> ''None'')"

definition brace_list :: "string list \<Rightarrow> string" where
  "brace_list xs = ''{ '' @ join '', '' xs @ '' }''"

definition format_nft_ports :: "int list \<Rightarrow> string" where
  "format_nft_ports ports =
     (let ordered = sort (remdups ports)
      in if length ordered = 1 then int_text (hd ordered) else brace_list (map int_text ordered))"

definition nft_port_match_value :: "port list \<Rightarrow> string option" where
  "nft_port_match_value ports =
     (let unique_ports = filter (\<lambda>n. 0 < n) (List.map_filter id ports)
      in if unique_ports = [] then None else Some (format_nft_ports unique_ports))"

definition as_nft_port :: "pyval \<Rightarrow> int option" where
  "as_nft_port v = (case py_int v of Inr n \<Rightarrow> if 0 < n \<and> n \<le> 65535 then Some n else None | Inl _ \<Rightarrow> None)"

definition policy_suffix :: "bool \<Rightarrow> string" where
  "policy_suffix vpn_policy_required = (if vpn_policy_required then '' | fwrouter vpn policy contract required v1'' else [])"

section \<open>Classification and terminal chains\<close>

definition plain_chain :: "string \<Rightarrow> nft_rule list \<Rightarrow> nft_chain" where
  "plain_chain name rules = \<lparr>ch_name = name, ch_hook = None, ch_rules = rules\<rparr>"

definition base_chain :: "string \<Rightarrow> string \<Rightarrow> nft_rule list \<Rightarrow> nft_chain" where
  "base_chain name hook rules = \<lparr>ch_name = name, ch_hook = Some hook, ch_rules = rules\<rparr>"

definition immune_rules :: "nft_rule list" where
  "immune_rules =
     [NRule [Expr ''fib daddr type'' ''local''] [NGoto ''fwrouter_direct''] (Some ''host-local destination always direct''),
      NRule [Expr ''ip daddr'' ''@protected_ipv4''] [NGoto ''fwrouter_direct''] (Some ''protected IPv4 always direct''),
      NRule [Expr ''ip6 daddr'' ''@protected_ipv6''] [NGoto ''fwrouter_direct''] (Some ''protected IPv6 always direct''),
      NRule [Expr ''meta l4proto'' ''tcp'', Expr ''tcp dport'' ''{ 22 }''] [NGoto ''fwrouter_direct'']
        (Some ''management tcp ingress direct'')]"

definition vpn_or_drop :: "bool \<Rightarrow> string \<Rightarrow> string \<Rightarrow> string \<Rightarrow> string \<Rightarrow> nft_rule" where
  "vpn_or_drop ready e v vpn_remark drop_remark =
     (if ready then NRule [Expr e v] [NGoto ''fwrouter_vpn''] (Some vpn_remark)
      else NRule [Expr e v] [NDrop] (Some drop_remark))"

definition selective_rules :: "bool \<Rightarrow> nft_rule list" where
  "selective_rules ready =
     [NRule [Expr ''ip daddr'' ''@direct_ipv4''] [NGoto ''fwrouter_direct''] (Some ''selective direct IPv4''),
      NRule [Expr ''ip daddr'' ''@dns_direct_ipv4''] [NGoto ''fwrouter_direct''] (Some ''selective dns direct IPv4''),
      NRule [Expr ''ip6 daddr'' ''@direct_ipv6''] [NGoto ''fwrouter_direct''] (Some ''selective direct IPv6''),
      vpn_or_drop ready ''ip daddr'' ''@vpn_ipv4'' ''selective vpn IPv4'' ''selective degraded block VPN IPv4'',
      vpn_or_drop ready ''ip daddr'' ''@dns_vpn_ipv4'' ''selective dns vpn IPv4'' ''selective degraded block DNS VPN IPv4'',
      vpn_or_drop ready ''ip6 daddr'' ''@vpn_ipv6'' ''selective vpn IPv6'' ''selective degraded block VPN IPv6'']"

definition selective_default_rules :: "string \<Rightarrow> bool \<Rightarrow> bool \<Rightarrow> nft_rule list" where
  "selective_default_rules selective_default ready degraded =
     (if selective_default = ''vpn''
      then (if ready then [NRule [] [NGoto ''fwrouter_vpn_full''] (Some ''selective default vpn'')]
            else [NRule [] [NCounter] (Some ''selective degraded default vpn blocked''),
                  NRule [] [NDrop] (Some ''selective default vpn'')])
      else [NRule [] [NGoto ''fwrouter_direct'']
              (Some (if degraded then ''selective degraded default direct'' else ''selective default direct''))])"

definition mode_rules :: "string \<Rightarrow> string \<Rightarrow> bool \<Rightarrow> bool \<Rightarrow> nft_rule list" where
  "mode_rules mode selective_default ready degraded =
     (if mode = ''direct'' then [NRule [] [NGoto ''fwrouter_direct''] (Some ''global direct v1'')]
      else if mode = ''vpn'' then [NRule [] [NGoto ''fwrouter_vpn_full''] (Some ''global vpn v1'')]
      else if mode = ''selective'' then selective_rules ready @ selective_default_rules selective_default ready degraded
      else [])"

definition build_classify_chain :: "string \<Rightarrow> string \<Rightarrow> bool \<Rightarrow> bool \<Rightarrow> nft_rule list \<Rightarrow> nft_chain" where
  "build_classify_chain mode selective_default ready degraded scoped_steering_rules =
     plain_chain ''fwrouter_classify''
       (immune_rules @ scoped_steering_rules @ mode_rules mode selective_default ready degraded)"

definition build_terminal_direct_chain :: "nft_rule list \<Rightarrow> nft_chain" where
  "build_terminal_direct_chain direct_counter_rules =
     plain_chain ''fwrouter_direct'' (direct_counter_rules @ [NRule [] [NCounter, NReturn] (Some ''global direct path'')])"

definition build_vpn_mark_chain :: "port \<Rightarrow> string \<Rightarrow> nft_chain" where
  "build_vpn_mark_chain vpn_tproxy_port vpn_fwmark_hex =
     plain_chain ''fwrouter_vpn_mark''
       (if port_on vpn_tproxy_port
        then [NRule [Expr ''meta l4proto'' ''{ tcp, udp }''] [NSetMark vpn_fwmark_hex, NCounter]
                (Some ''fwrouter vpn output fwmark v1''),
              NRule [] [NCounter, NReturn] (Some ''fwrouter vpn output mark path'')]
        else [NRule [] [NCounter, NReturn] (Some ''vpn output mark placeholder until Wave 2.2B+'')])"

record vpn_chain_args =
  vc_tproxy :: port
  vc_redir :: port
  vc_bypass_mark :: string
  vc_fwmark :: string
  vc_udp_mark :: "string option"
  vc_tcp_mark :: "string option"
  vc_counters :: "nft_rule list"
  vc_policy :: bool

definition or_text :: "string option \<Rightarrow> string \<Rightarrow> string" where
  "or_text t d = (case t of Some s \<Rightarrow> if s = [] then d else s | None \<Rightarrow> d)"

definition or_port :: "port \<Rightarrow> port \<Rightarrow> port" where
  "or_port p q = (if p = None \<or> p = Some 0 then q else p)"

definition build_terminal_vpn_chain :: "string \<Rightarrow> vpn_chain_args \<Rightarrow> nft_chain" where
  "build_terminal_vpn_chain chain_name a =
     (let udp_mark = or_text (vc_udp_mark a) (vc_fwmark a);
          tcp_mark = or_text (vc_tcp_mark a) (derive_tcp_redirect_mark_hex (vc_fwmark a))
      in plain_chain chain_name
        (if port_on (vc_tproxy a)
         then [NRule [Mark (vc_bypass_mark a)] [NReturn] (Some ''skip mihomo outbound recapture'')]
              @ vc_counters a
              @ [NRule [Expr ''meta l4proto'' ''udp'', Expr ''udp dport'' ''443''] [NReject ''icmpx type port-unreachable'']
                   (Some ''force transparent web clients off QUIC onto TCP''),
                 NRule [Expr ''meta l4proto'' ''tcp''] [NSetMark tcp_mark, NCounter]
                   (Some (''fwrouter vpn mark tcp:'' @ port_text (or_port (vc_redir a) (vc_tproxy a)) @ policy_suffix (vc_policy a))),
                 NRule [Expr ''meta l4proto'' ''udp''] [NSetMark udp_mark, NCounter]
                   (Some (''fwrouter vpn mark udp:'' @ port_text (vc_tproxy a) @ policy_suffix (vc_policy a))),
                 NRule [] [NReturn] (Some ''fwrouter global vpn mark path'')]
         else vc_counters a @ [NRule [] [NCounter, NReturn] (Some ''vpn path placeholder until Wave 2.2B+'')]))"

section \<open>Entry chains\<close>

record prerouting_args =
  pr_bypass_mark :: string
  pr_fwmark :: string
  pr_full_udp_mark :: string
  pr_tproxy :: port
  pr_full_tproxy :: port
  pr_mode :: string
  pr_vpn_counters :: "nft_rule list"
  pr_policy :: bool
  pr_lan :: "string list"
  pr_trusted :: string

definition prerouting_immunity :: "prerouting_args \<Rightarrow> nft_rule list" where
  "prerouting_immunity a =
     [NRule [Expr ''socket transparent'' ''1''] [NAccept] (Some ''immunity: established tproxy sessions''),
      NRule [Mark (pr_bypass_mark a)] [NAccept] (Some ''immunity: mihomo outbound bypass''),
      NRule [Expr ''ip saddr'' ''@infrastructure_ipv4''] [NAccept] (Some ''immunity: infrastructure outbound''),
      NRule [Expr ''udp sport'' ''68'', Expr ''udp dport'' ''67''] [NAccept] (Some ''immunity: DHCP client requests to dnsmasq''),
      NRule [Expr ''udp sport'' ''67'', Expr ''udp dport'' ''68''] [NAccept] (Some ''immunity: DHCP server replies'')]"

definition lan_guards :: "string list \<Rightarrow> nft_rule list" where
  "lan_guards interfaces =
     map (\<lambda>i. NRule [Expr ''iifname'' (quoted i), Expr ''meta nfproto'' ''ipv6''] [NReject ''icmpv6 type admin-prohibited'']
            (Some (''block IPv6 from LAN ingress '' @ i))) interfaces
     @ map (\<lambda>i. NRule [Expr ''iifname'' (quoted i), Expr ''meta l4proto'' ''{ tcp, udp }'', Expr ''th dport'' ''53''] [NAccept]
            (Some (''allow LAN DNS capture before VPN classify '' @ i))) interfaces"

definition secure_dns_guards :: "string \<Rightarrow> nft_rule list" where
  "secure_dns_guards trusted =
     [NRule [Expr ''ip saddr'' trusted, Expr ''ip daddr'' ''@secure_dns_bypass_ipv4'', Expr ''meta l4proto'' ''tcp'',
             Expr ''tcp dport'' ''{ 443, 853 }''] [NReject ''tcp reset''] (Some ''reject secure DNS bypass TCP from LAN''),
      NRule [Expr ''ip saddr'' trusted, Expr ''ip daddr'' ''@secure_dns_bypass_ipv4'', Expr ''meta l4proto'' ''udp'',
             Expr ''udp dport'' ''{ 443, 853 }''] [NReject ''icmpx type port-unreachable'']
        (Some ''reject secure DNS bypass UDP from LAN'')]"

definition tproxy_rules :: "prerouting_args \<Rightarrow> nft_rule list" where
  "tproxy_rules a =
     (let steering = (pr_mode a \<in> {''vpn'', ''selective''} \<or> pr_vpn_counters a \<noteq> [])
      in (if steering \<and> port_on (pr_tproxy a)
          then [NRule [Mark (pr_fwmark a), Expr ''meta l4proto'' ''udp''] [NCounter, NTproxy (port_text (pr_tproxy a)), NAccept]
                  (Some (''fwrouter tproxy handoff udp:'' @ port_text (pr_tproxy a) @ policy_suffix (pr_policy a)))]
          else [])
         @ (if steering \<and> port_on (pr_full_tproxy a)
            then [NRule [Mark (pr_full_udp_mark a), Expr ''meta l4proto'' ''udp'']
                    [NCounter, NTproxy (port_text (pr_full_tproxy a)), NAccept]
                    (Some (''fwrouter full-vpn tproxy handoff udp:'' @ port_text (pr_full_tproxy a) @ policy_suffix (pr_policy a)))]
            else []))"

definition build_prerouting_entry_chain :: "prerouting_args \<Rightarrow> nft_chain" where
  "build_prerouting_entry_chain a =
     base_chain ''prerouting'' ''type filter hook prerouting priority mangle; policy accept;''
       (prerouting_immunity a @ lan_guards (pr_lan a) @ secure_dns_guards (pr_trusted a)
        @ [NRule [] [NJump ''fwrouter_classify''] (Some ''FWRouter global classify'')] @ tproxy_rules a)"

definition redirect_rule :: "string \<Rightarrow> port \<Rightarrow> string \<Rightarrow> bool \<Rightarrow> nft_rule list" where
  "redirect_rule mark p label policy =
     (if port_on p
      then [NRule [Mark mark, Expr ''meta l4proto'' ''tcp''] [NCounter, NRedirect (port_text p)]
              (Some (label @ port_text p @ policy_suffix policy))]
      else [])"

definition full_tcp_mark :: "string option \<Rightarrow> string \<Rightarrow> string" where
  "full_tcp_mark mark fwmark = or_text mark (derive_mark_hex fwmark 3)"

definition build_prerouting_nat_chain :: "string \<Rightarrow> port \<Rightarrow> string option \<Rightarrow> port \<Rightarrow> bool \<Rightarrow> nft_chain" where
  "build_prerouting_nat_chain vpn_fwmark_hex vpn_redir_port full_mark full_vpn_redir_port vpn_policy_required =
     base_chain ''prerouting_nat'' ''type nat hook prerouting priority dstnat; policy accept;''
       (redirect_rule (derive_tcp_redirect_mark_hex vpn_fwmark_hex) vpn_redir_port ''fwrouter redirect handoff tcp:'' vpn_policy_required
        @ redirect_rule (full_tcp_mark full_mark vpn_fwmark_hex) full_vpn_redir_port ''fwrouter full-vpn redirect handoff tcp:''
            vpn_policy_required)"

definition external_ingress_immunity :: "nft_rule list" where
  "external_ingress_immunity =
     List.map_filter (\<lambda>contract.
       let interface = clean (dict_get contract ''ingress_interface'');
           provider0 = strip (py_str (py_or (dict_get contract ''provider'') (PStr ''external_ingress'')));
           provider = (if provider0 = [] then ''external_ingress'' else provider0)
       in if interface \<noteq> []
          then Some (NRule [Expr ''oifname'' (quoted interface)] [NAccept] (Some (''immunity: '' @ provider @ '' egress'')))
          else None) external_ingress_provider_contracts"

definition output_immune_rules :: "nft_rule list" where
  "output_immune_rules =
     [NRule [Expr ''fib daddr type'' ''local''] [NGoto ''fwrouter_direct''] (Some ''host output to local destination always direct''),
      NRule [Expr ''ip daddr'' ''@protected_ipv4''] [NGoto ''fwrouter_direct''] (Some ''host output to protected IPv4 always direct''),
      NRule [Expr ''ip6 daddr'' ''@protected_ipv6''] [NGoto ''fwrouter_direct''] (Some ''host output to protected IPv6 always direct''),
      NRule [Expr ''meta l4proto'' ''tcp'', Expr ''tcp sport'' ''{ 22 }''] [NGoto ''fwrouter_direct'']
        (Some ''management tcp output direct''),
      NRule [Expr ''meta l4proto'' ''tcp'', Expr ''tcp dport'' ''{ 22 }''] [NGoto ''fwrouter_direct'']
        (Some ''management tcp output direct'')]"

definition build_output_entry_chain ::
  "nft_rule list \<Rightarrow> string \<Rightarrow> nft_rule list \<Rightarrow> nft_rule list \<Rightarrow> string \<Rightarrow> nft_chain" where
  "build_output_entry_chain vpn_rx_counter_rules proxy_bypass_mark_hex disabled_output_guard_rules system_output_steering_rules mode =
     base_chain ''output'' ''type route hook output priority mangle; policy accept;''
       (vpn_rx_counter_rules @ disabled_output_guard_rules @ external_ingress_immunity
        @ [NRule [Mark proxy_bypass_mark_hex] [NReturn] (Some ''skip mihomo outbound recapture'')]
        @ output_immune_rules @ system_output_steering_rules
        @ [NRule [] [NGoto ''fwrouter_direct'']
             (Some (''host output stays direct in ''
                @ (if mode = ''vpn'' then ''global vpn'' else if mode = ''selective'' then ''selective'' else ''global direct'')
                @ '' mode''))])"

definition build_output_nat_chain ::
  "string \<Rightarrow> port \<Rightarrow> string option \<Rightarrow> port \<Rightarrow> string \<Rightarrow> bool \<Rightarrow> nft_chain" where
  "build_output_nat_chain vpn_fwmark_hex vpn_redir_port full_mark full_vpn_redir_port proxy_bypass_mark_hex vpn_policy_required =
     base_chain ''output_nat'' ''type nat hook output priority -100; policy accept;''
       ([NRule [Mark proxy_bypass_mark_hex] [NReturn] (Some ''skip mihomo outbound recapture'')]
        @ redirect_rule vpn_fwmark_hex vpn_redir_port ''fwrouter redirect handoff tcp:'' vpn_policy_required
        @ redirect_rule (full_tcp_mark full_mark vpn_fwmark_hex) full_vpn_redir_port ''fwrouter full-vpn redirect handoff tcp:''
            vpn_policy_required)"

section \<open>Guards of disabled subjects\<close>

definition subject_text :: "pyval \<Rightarrow> string \<Rightarrow> string" where
  "subject_text subject k = py_str (py_or (get_in subject k) (PStr []))"

definition is_disabled_subject :: "pyval \<Rightarrow> bool" where
  "is_disabled_subject subject =
     (lower (clean (get_in subject ''dataplane_path'')) = ''blocked''
      \<or> lower (clean (get_in subject ''effective_mode'')) = ''disabled''
      \<or> lower (clean (get_in subject ''desired_mode'')) = ''disabled'')"

definition guarded_subject :: "pyval \<Rightarrow> bool" where
  "guarded_subject subject =
     (is_dict subject \<and> truthy (get_in subject ''is_active'') \<and> subject_text subject ''subject_type'' \<noteq> ''fwrouter''
      \<and> is_disabled_subject subject)"

definition known_id :: "pyval \<Rightarrow> string" where
  "known_id subject = py_str (py_or (get_in subject ''subject_id'') (PStr ''unknown''))"

definition listener_hits :: "pyval \<Rightarrow> (string \<times> int \<times> string) list" where
  "listener_hits subject =
     (case get_in subject ''network_listeners'' of
        PList listeners \<Rightarrow>
          List.map_filter (\<lambda>listener.
            let proto = lower (clean (get_in listener ''proto''))
            in if \<not> is_dict listener \<or> proto \<notin> {''tcp'', ''udp''} then None
               else case as_nft_port (get_in listener ''port'') of
                 None \<Rightarrow> None
               | Some p \<Rightarrow> if p \<in> set control_plane_input_ports then None else Some (proto, p, known_id subject)) listeners
      | _ \<Rightarrow> [])"

definition disabled_listeners :: "pyval list \<Rightarrow> string \<Rightarrow> (int \<times> string) list" where
  "disabled_listeners subjects proto =
     map snd (filter (\<lambda>h. fst h = proto) (concat (map listener_hits (filter guarded_subject subjects))))"

definition build_disabled_input_guard :: "pyval list \<Rightarrow> nft_rule list" where
  "build_disabled_input_guard subjects =
     concat (map (\<lambda>proto.
       let hits = disabled_listeners subjects proto
       in if hits = [] then []
          else
            let nft_ports = format_nft_ports (map fst hits);
                ids = sort (remdups (filter (\<lambda>i. i \<noteq> []) (map snd hits)));
                names = join '', '' (take 4 ids) @ (if length ids > 4 then '', +'' @ nat_text (length ids - 4) else [])
            in [NRule [Expr ''iifname'' (quoted ''lo''), Expr ''meta l4proto'' proto, Expr (proto @ '' dport'') nft_ports] [NAccept]
                  (Some ''allow local access to disabled service listener''),
                NRule [Expr ''iifname !='' (quoted ''lo''), Expr ''meta l4proto'' proto, Expr (proto @ '' dport'') nft_ports]
                  [NReject []] (Some (''disabled service listener: '' @ names))]) [''tcp'', ''udp''])"

definition reverse_ip_expr :: "string \<Rightarrow> string option" where
  "reverse_ip_expr expr =
     (if expr = ''ip saddr'' then Some ''ip daddr'' else if expr = ''ip daddr'' then Some ''ip saddr''
      else if expr = ''ip6 saddr'' then Some ''ip6 daddr'' else if expr = ''ip6 daddr'' then Some ''ip6 saddr'' else None)"

text \<open>The expression and the value of the matcher, empty where it has none.\<close>

definition runtime_matcher :: "pyval \<Rightarrow> (string \<times> string) option" where
  "runtime_matcher subject =
     (let matcher = get_in (get_in subject ''scoped_runtime'') ''matcher''
      in if is_dict matcher then Some (subject_text matcher ''nft_expr'', subject_text matcher ''value'') else None)"

definition block_rule :: "string \<Rightarrow> string \<Rightarrow> string \<Rightarrow> nft_rule" where
  "block_rule e v comment = NRule [Expr e v] [NReject ''icmpx type admin-prohibited''] (Some comment)"

definition id_text :: "pyval \<Rightarrow> string" where
  "id_text subject = py_str (get_in subject ''subject_id'')"

text \<open>The rules wanted for one subject, with the keys under which repeated ones are left out.\<close>

definition forward_blocks :: "pyval \<Rightarrow> ((string \<times> string \<times> string) \<times> nft_rule) list" where
  "forward_blocks subject =
     (case runtime_matcher subject of
        None \<Rightarrow> []
      | Some (expr, val) \<Rightarrow>
          if expr = [] \<or> val = [] then []
          else map (\<lambda>(e, d). ((e, val, d), block_rule e val (''disabled subject '' @ d @ '' block: '' @ id_text subject)))
                 ((expr, ''tx'') # (case reverse_ip_expr expr of Some rev_expr \<Rightarrow> [(rev_expr, ''rx'')] | None \<Rightarrow> [])))"

definition output_blocks :: "pyval \<Rightarrow> ((string \<times> string) \<times> nft_rule) list" where
  "output_blocks subject =
     (case runtime_matcher subject of
        None \<Rightarrow> []
      | Some (expr, val) \<Rightarrow>
          (case reverse_ip_expr expr of
             Some rev_expr \<Rightarrow>
               if val = [] then []
               else [((rev_expr, val), block_rule rev_expr val (''disabled subject host-to-target block: '' @ id_text subject))]
           | None \<Rightarrow> []))"

fun first_by_key :: "'k list \<Rightarrow> ('k \<times> 'r) list \<Rightarrow> 'r list" where
  "first_by_key seen [] = []"
| "first_by_key seen ((k, r) # rest) =
     (if k \<in> set seen then first_by_key seen rest else r # first_by_key (k # seen) rest)"

definition build_disabled_forward_guard :: "pyval list \<Rightarrow> nft_rule list" where
  "build_disabled_forward_guard subjects = first_by_key [] (concat (map forward_blocks (filter guarded_subject subjects)))"

definition uid_hits :: "pyval \<Rightarrow> (string \<times> int) list" where
  "uid_hits subject =
     (case get_in subject ''process_uids'' of
        PList uids \<Rightarrow>
          List.map_filter (\<lambda>raw. case py_int raw of
              Inl _ \<Rightarrow> None
            | Inr uid \<Rightarrow> if uid = root_uid then None
                          else if 0 \<le> uid \<and> uid \<le> 4294967295 then Some (known_id subject, uid) else None) uids
      | _ \<Rightarrow> [])"

definition build_disabled_output_guard :: "pyval list \<Rightarrow> nft_rule list" where
  "build_disabled_output_guard subjects =
     (let disabled = filter guarded_subject subjects; hits = concat (map uid_hits disabled)
      in first_by_key [] (concat (map output_blocks disabled))
         @ map (\<lambda>i. NRule [Expr ''meta skuid'' (format_nft_ports (map snd (filter (\<lambda>h. fst h = i) hits)))]
                      [NReject ''icmpx type admin-prohibited''] (Some (''disabled subject process egress block: '' @ i)))
             (sort (remdups (map fst hits))))"

end
