(* ===== verification/Docker_Policy.thy ===== *)
theory Docker_Policy
  imports Scoped_Egress
begin

text \<open>
  The guard for containers of \<open>services/docker_policy.py\<close>: which containers may be sent through the VPN or
  past it, given the subjects of a manifest. Subjects are dictionaries; positions in the list stand for the
  identity of the objects. Sets of addresses are lists, compared as sets.
\<close>

section \<open>Addresses\<close>

type_synonym address = "ip_version \<times> int"

definition canonical_ipv4_values :: "pyval \<Rightarrow> address list option" where
  "canonical_ipv4_values v =
     (case v of
        PList vs \<Rightarrow>
          if vs = [] \<or> length vs > max_docker_ipv4_source_addresses \<or> \<not> list_all is_str vs then None
          else (case all_some (map (\<lambda>x. parse_address (py_str x)) vs) of
                  None \<Rightarrow> None
                | Some as \<Rightarrow>
                    if list_all (\<lambda>a. fst a = V4) as \<and> map canonical_address as = map py_str vs then Some as else None)
      | _ \<Rightarrow> None)"

text \<open>The runtime of a subject: its own entry, or that of its effective state.\<close>

definition subject_runtime :: "pyval \<Rightarrow> pyval" where
  "subject_runtime subject =
     (let runtime = get_in subject ''scoped_runtime''
      in if is_dict runtime then runtime else get_in (get_in subject ''effective_state'') ''scoped_runtime'')"

definition subject_path :: "pyval \<Rightarrow> string" where
  "subject_path subject =
     lower (clean (py_or (get_in subject ''dataplane_path'') (get_in (get_in subject ''effective_state'') ''dataplane_path'')))"

definition source_of :: "pyval \<Rightarrow> pyval" where
  "source_of subject = detail_source (items (get_in subject ''detail''))"

definition subject_ipv4 :: "pyval \<Rightarrow> address option" where
  "subject_ipv4 subject =
     (let value = get_in (get_in (subject_runtime subject) ''matcher'') ''value''
      in if \<not> truthy value then None
         else case parse_address (strip (py_str value)) of
           Some (V4, a) \<Rightarrow> Some (V4, a)
         | _ \<Rightarrow> None)"

definition same_set :: "'a list \<Rightarrow> 'a list \<Rightarrow> bool" where
  "same_set xs ys = (set xs = set ys)"

definition meets :: "'a list \<Rightarrow> 'a list \<Rightarrow> bool" where
  "meets xs ys = (\<exists>x\<in>set xs. x \<in> set ys)"

text \<open>\<open>ip_address(x) if type(x) is str else None\<close>; \<open>Inl\<close> when it raises.\<close>

definition text_address :: "pyval \<Rightarrow> exc + address option" where
  "text_address v =
     (case v of
        PStr s \<Rightarrow> (case parse_address s of Some a \<Rightarrow> Inr (Some a) | None \<Rightarrow> Inl ValueError)
      | _ \<Rightarrow> Inr None)"

definition usable_inventory :: "address list option \<Rightarrow> address option \<Rightarrow> bool" where
  "usable_inventory addresses primary =
     (case (addresses, primary) of
        (Some as, Some p) \<Rightarrow> fst p = V4 \<and> p \<in> set as
      | _ \<Rightarrow> False)"

text \<open>What is observed of a container: addresses, primary address, host network; \<open>Inl\<close> stops with no inventory.\<close>

definition observed_inventory ::
  "pyval \<Rightarrow> unit + address list option \<times> address option \<times> bool option" where
  "observed_inventory subject =
     (let observed = get_in subject ''observed_docker_source''; source = source_of subject
      in if is_dict observed
         then (if get_in observed ''available'' \<noteq> PBool True \<or> get_in observed ''valid'' \<noteq> PBool True then Inl ()
               else case text_address (get_in observed ''primary_ipv4'') of
                 Inl _ \<Rightarrow> Inl ()
               | Inr primary \<Rightarrow>
                   let addresses = canonical_ipv4_values (get_in observed ''ipv4_addresses'')
                   in if get_in observed ''ipv4_inventory_complete'' \<noteq> PBool True
                         \<or> get_in observed ''ipv6_inventory_status'' \<noteq> PStr ''complete_no_global_ipv6''
                         \<or> \<not> usable_inventory addresses primary
                      then Inl () else Inr (addresses, primary, Some (get_in observed ''host_network'' = PBool True)))
         else if is_dict source
         then (case text_address (get_in (get_in subject ''detail'') ''ip_address'') of
                 Inl _ \<Rightarrow> Inl ()
               | Inr primary \<Rightarrow>
                   let addresses = canonical_ipv4_values (get_in source ''IPv4Addresses'')
                   in if get_in source ''IPv4InventoryComplete'' \<noteq> PBool True
                         \<or> \<not> (get_in source ''IPv6InventoryComplete'' = PBool True \<and> get_in source ''IPv6Addresses'' = PList [])
                         \<or> \<not> usable_inventory addresses primary
                      then Inl () else Inr (addresses, primary, Some (network_mode source = ''host'')))
         else Inr (None, None, None))"

text \<open>The stored inventory and the observed one must agree where both are present.\<close>

definition inventories_agree :: "pyval \<Rightarrow> address list option \<Rightarrow> bool option \<Rightarrow> bool" where
  "inventories_agree subject addresses host_network =
     (let observed = get_in subject ''observed_docker_source''; source = source_of subject
      in is_dict source \<and> is_dict observed \<longrightarrow>
           map_option set (canonical_ipv4_values (get_in source ''IPv4Addresses'')) = map_option set addresses
           \<and> get_in (get_in subject ''detail'') ''ip_address'' = get_in observed ''primary_ipv4''
           \<and> Some (network_mode source = ''host'') = host_network
           \<and> get_in source ''IPv4InventoryComplete'' = get_in observed ''ipv4_inventory_complete''
           \<and> (get_in source ''IPv6InventoryComplete'' = PBool True \<and> get_in source ''IPv6Addresses'' = PList [])
               = (get_in observed ''ipv6_inventory_status'' = PStr ''complete_no_global_ipv6''))"

definition docker_ipv4_addresses :: "pyval \<Rightarrow> address list option" where
  "docker_ipv4_addresses subject =
     (case observed_inventory subject of
        Inl _ \<Rightarrow> None
      | Inr (observed_addresses, observed_primary, host_network) \<Rightarrow>
          if \<not> inventories_agree subject observed_addresses host_network then None
          else
            let coverage = get_in (subject_runtime subject) ''direct_source_coverage''
            in if is_dict coverage
               then (if get_in coverage ''ipv4_inventory_complete'' \<noteq> PBool True
                        \<or> get_in coverage ''ipv6_inventory_status'' \<noteq> PStr ''complete_no_global_ipv6'' then None
                     else case canonical_ipv4_values (get_in coverage ''ipv4_addresses'') of
                       None \<Rightarrow> None
                     | Some addresses \<Rightarrow>
                         if (case observed_addresses of
                               Some as \<Rightarrow> \<not> same_set addresses as
                             | None \<Rightarrow> length (remdups addresses) \<noteq> 1) then None
                         else if (case observed_primary of Some p \<Rightarrow> p \<notin> set addresses | None \<Rightarrow> False) then None
                         else Some addresses)
               else observed_addresses)"

section \<open>Conflicts\<close>

definition docker_id :: "pyval \<Rightarrow> string" where
  "docker_id subject = py_str (py_or (get_in subject ''subject_id'') (PStr ''docker-subject''))"

definition is_docker :: "pyval \<Rightarrow> bool" where
  "is_docker subject = (get_in subject ''subject_type'' = PStr ''docker'')"

definition is_active :: "pyval \<Rightarrow> bool" where
  "is_active subject = truthy (get_in subject ''is_active'')"

definition steered :: "string \<Rightarrow> bool" where
  "steered global_mode = (global_mode \<in> {''vpn'', ''selective''})"

definition host_network :: "pyval \<Rightarrow> bool" where
  "host_network subject =
     (let source = source_of subject; observed = get_in subject ''observed_docker_source''
      in if is_dict source then network_mode source = ''host''
         else is_dict observed \<and> get_in observed ''host_network'' = PBool True)"

definition has_role :: "pyval \<Rightarrow> bool" where
  "has_role subject = truthy (get_in (subject_runtime subject) ''infrastructure_role'')"

definition coverage_incomplete :: "pyval \<Rightarrow> string \<times> string" where
  "coverage_incomplete subject = (docker_id subject, ''docker_direct_source_coverage_incomplete'')"

definition runtime_matcher_of :: "pyval \<Rightarrow> pyval" where
  "runtime_matcher_of subject = get_in (subject_runtime subject) ''matcher''"

definition values_supported :: "string \<Rightarrow> pyval \<Rightarrow> bool" where
  "values_supported global_mode subject =
     (is_docker subject \<and> subject_path subject = ''direct'' \<and> steered global_mode \<and> \<not> has_role subject \<and> \<not> host_network subject)"

definition needs_direct_coverage :: "string \<Rightarrow> pyval \<Rightarrow> bool" where
  "needs_direct_coverage global_mode subject = (values_supported global_mode subject \<and> is_active subject)"

definition primary_of :: "pyval \<Rightarrow> pyval" where
  "primary_of subject =
     (let observed = get_in subject ''observed_docker_source''
      in if is_dict observed then get_in observed ''primary_ipv4'' else get_in (get_in subject ''detail'') ''ip_address'')"

text \<open>The inventory of a container that goes directly, when the rule for it covers exactly that inventory.\<close>

definition covered_inventory :: "pyval \<Rightarrow> address list option" where
  "covered_inventory subject =
     (let matcher = runtime_matcher_of subject; inventory = docker_ipv4_addresses subject;
          rendered = canonical_ipv4_values (get_in matcher ''values'');
          (primary, observed_primary) =
            (case (text_address (get_in matcher ''value''), text_address (primary_of subject)) of
               (Inr p, Inr q) \<Rightarrow> (p, q)
             | _ \<Rightarrow> (None, None))
      in if inventory = None \<or> \<not> usable_inventory inventory primary
            \<or> map_option set rendered \<noteq> map_option set inventory
            \<or> (observed_primary \<noteq> None \<and> primary \<noteq> observed_primary)
         then None else inventory)"

definition direct_conflicts_of :: "string \<Rightarrow> pyval \<Rightarrow> (string \<times> string) list" where
  "direct_conflicts_of global_mode subject =
     (let matcher = runtime_matcher_of subject
      in (if is_dict matcher \<and> dict_has (items matcher) ''values'' \<and> \<not> values_supported global_mode subject
          then [coverage_incomplete subject] else [])
         @ (if \<not> needs_direct_coverage global_mode subject then []
            else (if get_in (subject_runtime subject) ''status'' = PStr ''pending_docker_direct_source_coverage''
                  then [coverage_incomplete subject] else [])
                 @ (if covered_inventory subject = None then [coverage_incomplete subject] else [])))"

text \<open>The addresses by which another container is known: its inventory, or else its matched address.\<close>

definition known_addresses :: "pyval \<Rightarrow> address list" where
  "known_addresses subject =
     (case docker_ipv4_addresses subject of
        Some as \<Rightarrow> as
      | None \<Rightarrow> (case subject_ipv4 subject of Some a \<Rightarrow> [a] | None \<Rightarrow> []))"

definition indexed :: "'a list \<Rightarrow> (nat \<times> 'a) list" where
  "indexed xs = zip [0 ..< length xs] xs"

definition overlap :: "pyval \<Rightarrow> string \<times> string" where
  "overlap subject = (docker_id subject, ''docker_vpn_matcher_overlaps_infrastructure'')"

definition direct_overlaps :: "string \<Rightarrow> (nat \<times> pyval) list \<Rightarrow> (string \<times> string) list" where
  "direct_overlaps global_mode subjects =
     concat (map (\<lambda>(i, direct).
       case (if needs_direct_coverage global_mode direct then covered_inventory direct else None) of
         None \<Rightarrow> []
       | Some addresses \<Rightarrow>
           concat (map (\<lambda>(j, other).
             if j = i \<or> \<not> is_docker other \<or> \<not> is_active other \<or> subject_path other = ''direct'' then []
             else if meets addresses (known_addresses other) then [overlap direct] else []) subjects)) subjects)"

definition is_vpn_docker :: "pyval \<Rightarrow> bool" where
  "is_vpn_docker subject =
     (py_str (py_or (get_in subject ''subject_type'') (PStr [])) = ''docker'' \<and> is_active subject \<and> subject_path subject = ''vpn'')"

definition runtime_applied :: "pyval \<Rightarrow> bool" where
  "runtime_applied subject = truthy (get_in (subject_runtime subject) ''applied'')"

definition subject_type_text :: "pyval \<Rightarrow> string" where
  "subject_type_text subject = py_str (py_or (get_in subject ''subject_type'') (PStr []))"

definition docker_immune :: "pyval \<Rightarrow> bool" where
  "docker_immune subject =
     (subject_type_text subject = ''docker''
      \<and> (\<not> is_active subject \<or> subject_path subject \<notin> {''direct'', ''vpn'', ''blocked''}
         \<or> subject_path subject = ''vpn'' \<and> \<not> runtime_applied subject))"

definition protected_addresses :: "pyval list \<Rightarrow> address list" where
  "protected_addresses subjects =
     concat (map (\<lambda>s.
       if subject_type_text s \<in> {''host'', ''fwrouter''} \<or> has_role s \<or> docker_immune s
       then (case (if subject_type_text s = ''docker'' then docker_ipv4_addresses s else None) of
               Some as \<Rightarrow> as
             | None \<Rightarrow> (case subject_ipv4 s of Some a \<Rightarrow> [a] | None \<Rightarrow> []))
       else []) subjects)"

definition infrastructure_networks :: "pyval list \<Rightarrow> ip_net list option" where
  "infrastructure_networks values =
     all_some (map (\<lambda>v. case parse_network (strip (py_str v)) of
         Some n \<Rightarrow> if net_version n = V4 then Some n else None
       | None \<Rightarrow> None) values)"

definition vpn_conflict :: "(nat \<times> pyval) list \<Rightarrow> address list \<Rightarrow> ip_net list \<Rightarrow> nat \<times> pyval \<Rightarrow> (string \<times> string) option" where
  "vpn_conflict subjects protected_as networks x =
     (let (i, subject) = x; subject_id = docker_id subject; address = subject_ipv4 subject; addresses = known_addresses subject
      in if has_role subject then Some (subject_id, ''protected_runtime_cannot_use_scoped_vpn'')
         else if (case address of None \<Rightarrow> True | Some a \<Rightarrow> a \<notin> set addresses)
         then Some (subject_id, ''docker_vpn_matcher_not_resolved_ipv4'')
         else if \<not> runtime_applied subject then Some (subject_id, ''docker_vpn_runtime_not_ready'')
         else if \<exists>(j, other)\<in>set subjects. j \<noteq> i \<and> subject_type_text other = ''docker'' \<and> meets addresses (known_addresses other)
         then Some (subject_id, ''docker_vpn_matcher_overlaps_infrastructure'')
         else if meets addresses protected_as
                 \<or> (\<exists>n\<in>set networks. \<exists>a\<in>set addresses. fst a = net_version n \<and> contains_address n (snd a))
         then Some (subject_id, ''docker_vpn_matcher_overlaps_infrastructure'')
         else None)"

definition docker_vpn_immunity_conflicts :: "pyval list \<Rightarrow> pyval list \<Rightarrow> string \<Rightarrow> (string \<times> string) list" where
  "docker_vpn_immunity_conflicts subjects infrastructure_ipv4 global_mode =
     (let ixs = filter (\<lambda>x. is_dict (snd x)) (indexed subjects); known = map snd ixs;
          direct = concat (map (direct_conflicts_of global_mode) known) @ (if steered global_mode then direct_overlaps global_mode ixs else []);
          vpn = filter (\<lambda>x. is_vpn_docker (snd x)) ixs
      in if direct \<noteq> [] then direct
         else if vpn = [] then []
         else case infrastructure_networks infrastructure_ipv4 of
           None \<Rightarrow> map (\<lambda>x. (docker_id (snd x), ''invalid_infrastructure_ipv4'')) vpn
         | Some networks \<Rightarrow> List.map_filter (vpn_conflict ixs (protected_addresses known) networks) vpn)"

definition docker_vpn_immunity_conflict :: "pyval list \<Rightarrow> pyval list \<Rightarrow> string \<Rightarrow> (string \<times> string) option" where
  "docker_vpn_immunity_conflict subjects infrastructure_ipv4 global_mode =
     (case docker_vpn_immunity_conflicts subjects infrastructure_ipv4 global_mode of [] \<Rightarrow> None | c # _ \<Rightarrow> Some c)"

end
