(* ===== verification/Nft_Sets.thy ===== *)
theory Nft_Sets
  imports Nft_Chains Docker_Policy
begin

text \<open>
  The address sets of the owned table: \<open>services/dataplane_nft_sets.py\<close>, and \<open>build_nft_rule_sets\<close> of
  \<open>services/dataplane_global.py\<close>, which sorts the effective rules into sets. Settings, the stored hosts of
  custom proxies and the output of \<open>ip -json address show\<close> are arguments. The manifest is a dictionary or
  \<open>None\<close>; server identifiers and matched values are texts.
\<close>

section \<open>Rule sets\<close>

definition collapse_network_values :: "string list \<Rightarrow> ip_version \<Rightarrow> string list" where
  "collapse_network_values values version =
     map network_text (collapse_addresses
       (filter (\<lambda>n. net_version n = version) (List.map_filter parse_network values)))"

definition proxy_hosts :: "string option list option \<Rightarrow> (ip_version \<times> int) list" where
  "proxy_hosts rows =
     (case rows of
        None \<Rightarrow> []
      | Some hosts \<Rightarrow> List.map_filter (\<lambda>h. case h of
            None \<Rightarrow> None
          | Some host \<Rightarrow> if strip host = [] then None else parse_address (strip host)) hosts)"

definition load_custom_proxy_protected_networks :: "string option list option \<Rightarrow> string list \<times> string list" where
  "load_custom_proxy_protected_networks rows =
     (let texts = (\<lambda>v. map (\<lambda>a. network_text (masked v (snd a) (max_prefixlen v))) (filter (\<lambda>a. fst a = v) (proxy_hosts rows)))
      in (collapse_network_values (texts V4) V4, collapse_network_values (texts V6) V6))"

definition interface_networks :: "pyval \<Rightarrow> (string \<times> string) list" where
  "interface_networks payload =
     concat (map (\<lambda>link.
       case get_in link ''addr_info'' of
         PList addr_items \<Rightarrow>
           List.map_filter (\<lambda>item.
             let local = clean (get_in item ''local'')
             in case get_in item ''prefixlen'' of
                  PInt prefixlen \<Rightarrow>
                    if local = [] then None
                    else map_option (\<lambda>n. (lower (py_str (py_or (get_in item ''family'') (PStr []))), network_text n))
                           (parse_network (local @ ''/'' @ int_text prefixlen))
                | _ \<Rightarrow> None) addr_items
       | _ \<Rightarrow> []) (case payload of PList links \<Rightarrow> links | _ \<Rightarrow> []))"

definition discover_local_interface_protected_networks :: "json_text option \<Rightarrow> string list \<times> string list" where
  "discover_local_interface_protected_networks stdout =
     (case stdout of
        Some (JText payload) \<Rightarrow>
          (let found = interface_networks payload
           in (collapse_network_values (map snd (filter (\<lambda>x. fst x = ''inet'') found)) V4,
               collapse_network_values (map snd (filter (\<lambda>x. fst x = ''inet6'') found)) V6))
      | _ \<Rightarrow> ([], []))"

definition domain_under :: "string list \<Rightarrow> string \<Rightarrow> bool" where
  "domain_under domains value =
     (let normalized = rstrip_dots (lower (strip value))
      in normalized \<noteq> [] \<and> (\<exists>d\<in>set domains. normalized = d \<or> ends_with normalized (''.'' @ d)))"

definition is_protected_service_domain :: "string list \<Rightarrow> string \<Rightarrow> bool" where
  "is_protected_service_domain configured value = domain_under configured value"

definition android_connectivity_direct_domains :: "string list" where
  "android_connectivity_direct_domains =
     [''connectivitycheck.gstatic.com'', ''connectivitycheck.android.com'', ''clients3.google.com'', ''clients.l.google.com'',
      ''www.google.com'', ''www.gstatic.com'']"

definition is_android_connectivity_direct_domain :: "string \<Rightarrow> bool" where
  "is_android_connectivity_direct_domain value = domain_under android_connectivity_direct_domains value"

record rule_sets =
  rs_direct_ipv4 :: "string list"
  rs_direct_ipv6 :: "string list"
  rs_vpn_ipv4 :: "string list"
  rs_vpn_ipv6 :: "string list"
  rs_direct_domains :: "string list"
  rs_vpn_domains :: "string list"

definition add_ipv4 :: "string \<Rightarrow> string \<Rightarrow> rule_sets \<Rightarrow> rule_sets" where
  "add_ipv4 action value s =
     (if action = ''DIRECT'' then s\<lparr>rs_direct_ipv4 := rs_direct_ipv4 s @ [value]\<rparr>
      else if action = ''VPN'' then s\<lparr>rs_vpn_ipv4 := rs_vpn_ipv4 s @ [value]\<rparr> else s)"

definition add_ipv6 :: "string \<Rightarrow> string \<Rightarrow> rule_sets \<Rightarrow> rule_sets" where
  "add_ipv6 action value s =
     (if action = ''DIRECT'' then s\<lparr>rs_direct_ipv6 := rs_direct_ipv6 s @ [value]\<rparr>
      else if action = ''VPN'' then s\<lparr>rs_vpn_ipv6 := rs_vpn_ipv6 s @ [value]\<rparr> else s)"

definition add_rule :: "string list \<Rightarrow> pyval \<Rightarrow> rule_sets \<Rightarrow> rule_sets" where
  "add_rule configured_domains rule s =
     (let action = upper (py_str (py_or (get_in rule ''action'') (PStr [])));
          kind = lower (py_str (py_or (get_in rule ''kind'') (PStr [])));
          value = clean (get_in rule ''value'')
      in if \<not> is_dict rule \<or> value = [] then s
         else if kind \<in> {''domain'', ''domain_suffix''}
         then (let domain = rstrip_dots (lower value)
               in if is_protected_service_domain configured_domains domain then s
                  else if is_android_connectivity_direct_domain domain \<or> action = ''DIRECT''
                  then s\<lparr>rs_direct_domains := rs_direct_domains s @ [domain]\<rparr>
                  else if action = ''VPN'' then s\<lparr>rs_vpn_domains := rs_vpn_domains s @ [domain]\<rparr> else s)
         else if kind \<in> {''ip'', ''ipv4'', ''ipv4_cidr''} then add_ipv4 action value s
         else if kind \<in> {''ipv6'', ''ipv6_cidr''} then add_ipv6 action value s
         else if kind = ''cidr''
         then (case parse_network value of
                 None \<Rightarrow> s
               | Some n \<Rightarrow> if net_version n = V4 then add_ipv4 action (network_text n) s else add_ipv6 action (network_text n) s)
         else s)"

definition sorted_rules :: "string list \<Rightarrow> pyval \<Rightarrow> rule_sets" where
  "sorted_rules configured_domains artifact =
     fold (add_rule configured_domains) (case get_in artifact ''rules'' of PList rules \<Rightarrow> rules | _ \<Rightarrow> [])
       \<lparr>rs_direct_ipv4 = [], rs_direct_ipv6 = [], rs_vpn_ipv4 = [], rs_vpn_ipv6 = [],
        rs_direct_domains = android_connectivity_direct_domains, rs_vpn_domains = []\<rparr>"

record nft_sets =
  nf_protected_ipv4 :: "string list"
  nf_protected_ipv6 :: "string list"
  nf_direct_ipv4 :: "string list"
  nf_direct_ipv6 :: "string list"
  nf_vpn_ipv4 :: "string list"
  nf_vpn_ipv6 :: "string list"
  nf_direct_domains :: "string list"
  nf_vpn_domains :: "string list"

text \<open>What the sets depend on besides the rules.\<close>

record set_env =
  ev_settings :: net_settings
  ev_service_domains :: "string list"
  ev_proxy_hosts :: "string option list option"
  ev_addresses :: "json_text option"
  ev_dns_timeout :: int

definition list_texts :: "pyval \<Rightarrow> string list" where
  "list_texts v = (case v of PList vs \<Rightarrow> map py_str vs | _ \<Rightarrow> [])"

definition build_nft_rule_sets :: "set_env \<Rightarrow> pyval \<Rightarrow> nft_sets" where
  "build_nft_rule_sets env artifact =
     (let s = sorted_rules (ev_service_domains env) artifact;
          (proxy4, proxy6) = load_custom_proxy_protected_networks (ev_proxy_hosts env);
          explicit4 = get_in artifact ''protected_ipv4''; explicit6 = get_in artifact ''protected_ipv6'';
          (local4, local6) = (if is_list explicit4 \<and> is_list explicit6 then ([], [])
                              else discover_local_interface_protected_networks (ev_addresses env))
      in \<lparr>nf_protected_ipv4 = collapse_network_values
            (protected_ipv4_networks (ev_settings env) @ proxy4 @ local4 @ list_texts explicit4) V4,
          nf_protected_ipv6 = collapse_network_values
            (protected_ipv6_networks (ev_settings env) @ proxy6 @ local6 @ list_texts explicit6) V6,
          nf_direct_ipv4 = collapse_network_values (rs_direct_ipv4 s) V4,
          nf_direct_ipv6 = collapse_network_values (rs_direct_ipv6 s) V6,
          nf_vpn_ipv4 = collapse_network_values (rs_vpn_ipv4 s) V4,
          nf_vpn_ipv6 = collapse_network_values (rs_vpn_ipv6 s) V6,
          nf_direct_domains = sort (remdups (rs_direct_domains s)),
          nf_vpn_domains = sort (remdups (rs_vpn_domains s))\<rparr>)"

section \<open>Sets of the table\<close>

definition is_alnum :: "char \<Rightarrow> bool" where
  "is_alnum c = (is_letter c \<or> is_digit c)"

definition strip_underscores :: "string \<Rightarrow> string" where
  "strip_underscores s =
     rev (dropWhile (\<lambda>c. c = CHR ''_'') (rev (dropWhile (\<lambda>c. c = CHR ''_'') s)))"

definition safe_set_suffix :: "string \<Rightarrow> string" where
  "safe_set_suffix value = strip_underscores (map (\<lambda>c. if is_alnum c then lower_char c else CHR ''_'') value)"

function chunk_elements :: "nat \<Rightarrow> 'a list \<Rightarrow> 'a list list" where
  "chunk_elements n xs = (if xs = [] \<or> n = 0 then [] else take n xs # chunk_elements n (drop n xs))"
  by pat_completeness auto
termination
  by (relation "measure (\<lambda>(n, xs). length xs)") auto

declare chunk_elements.simps [simp del]

definition read_manifest_extra_ipv4_list :: "pyval \<Rightarrow> string \<Rightarrow> string list \<Rightarrow> string list" where
  "read_manifest_extra_ipv4_list manifest key fallback =
     (case get_in (get_in manifest ''extra'') key of
        PList vs \<Rightarrow> sort (remdups (filter (\<lambda>t. t \<noteq> []) (map (\<lambda>v. strip (py_str v)) vs)))
      | _ \<Rightarrow> sort (remdups fallback))"

definition resolve_lan_ingress_interfaces :: "pyval \<Rightarrow> string list" where
  "resolve_lan_ingress_interfaces manifest =
     (case get_in (get_in (get_in manifest ''global_preflight'') ''dnsmasq_selective_status'') ''router_dns_interfaces'' of
        PList vs \<Rightarrow>
          sort (remdups (List.map_filter (\<lambda>v. case v of
              PStr s \<Rightarrow> if strip s \<noteq> [] \<and> reserved_interface_role (strip s) = None then Some (strip s) else None
            | _ \<Rightarrow> None) vs))
      | _ \<Rightarrow> [])"

definition set_block :: "string \<Rightarrow> string \<Rightarrow> string list \<Rightarrow> string list" where
  "set_block name nft_type element_lines =
     [''    set '' @ name @ '' {'', indent (''type '' @ nft_type @ '';''), indent ''flags interval;'', indent ''auto-merge;'']
     @ element_lines @ [''    }'']"

definition render_set :: "string \<Rightarrow> string \<Rightarrow> string list \<Rightarrow> string list \<times> string list" where
  "render_set name nft_type elements =
     (if elements = []
      then ([''    set '' @ name @ '' { type '' @ nft_type @ ''; flags interval; auto-merge; }''], [])
      else if length elements \<le> 256
      then (set_block name nft_type [indent (''elements = '' @ brace_list elements)], [])
      else (set_block name nft_type [],
            (''flush set '' @ owned_table @ '' '' @ name)
            # map (\<lambda>chunk. ''add element '' @ owned_table @ '' '' @ name @ '' '' @ brace_list chunk) (chunk_elements 512 elements)))"

definition render_dns_runtime_set :: "int \<Rightarrow> string \<Rightarrow> string \<Rightarrow> string list" where
  "render_dns_runtime_set timeout_seconds name nft_type =
     [''    set '' @ name @ '' {'', indent (''type '' @ nft_type @ '';''), indent ''flags timeout;'',
      indent (''timeout '' @ int_text timeout_seconds @ ''s;''), ''    }'']"

record scoped_group =
  sg_key :: string
  sg_server :: string
  sg_nft_type :: string
  sg_nft_expr :: string
  sg_values :: "string list"

definition scoped_entry :: "pyval \<Rightarrow> scoped_group option" where
  "scoped_entry subject =
     (let runtime = get_in subject ''scoped_runtime'';
          server = py_str (py_or (get_in subject ''selected_server_id'') (PStr ''default''));
          nft_type = py_str (py_or (get_in runtime ''nft_type'') (PStr ''ipv4_addr''));
          nft_expr = py_str (py_or (get_in runtime ''nft_expr'') (PStr ''ip saddr''));
          value = get_in runtime ''value''
      in if get_in subject ''dataplane_path'' \<noteq> PStr ''vpn'' \<or> \<not> is_dict runtime \<or> \<not> truthy value then None
         else Some \<lparr>sg_key = server @ '':'' @ nft_type @ '':'' @ nft_expr, sg_server = server, sg_nft_type = nft_type,
                    sg_nft_expr = nft_expr, sg_values = [py_str value]\<rparr>)"

fun add_to_group :: "scoped_group \<Rightarrow> scoped_group list \<Rightarrow> scoped_group list" where
  "add_to_group e [] = [e]"
| "add_to_group e (g # gs) =
     (if sg_key g = sg_key e then g\<lparr>sg_values := sg_values g @ sg_values e\<rparr> # gs else g # add_to_group e gs)"

definition subjects_of :: "pyval \<Rightarrow> pyval list" where
  "subjects_of manifest = (case get_in manifest ''subjects'' of PList subjects \<Rightarrow> subjects | _ \<Rightarrow> [])"

definition build_scoped_vpn_sets :: "pyval \<Rightarrow> (string \<times> string \<times> string list) list" where
  "build_scoped_vpn_sets manifest =
     map (\<lambda>(i, g).
       let suffix0 = take 24 (safe_set_suffix (sg_server g));
           suffix = (if suffix0 = [] then ''vpn_'' @ nat_text (i + 1) else suffix0)
       in (''scoped_v4_'' @ nat_text (i + 1) @ ''_'' @ suffix, sg_nft_type g, sort (remdups (sg_values g))))
       (indexed (fold add_to_group (List.map_filter scoped_entry (subjects_of manifest)) []))"

definition resolve_rules_effective_artifact :: "pyval \<Rightarrow> pyval \<Rightarrow> pyval" where
  "resolve_rules_effective_artifact manifest loaded =
     (let manifest_rules = get_in (get_in manifest ''extra'') ''rules_effective''
      in if is_dict manifest \<and> is_dict manifest_rules \<and> is_list (get_in manifest_rules ''rules'') then manifest_rules else loaded)"

end
