(* ===== verification/Global_Preflight.thy ===== *)
theory Global_Preflight
  imports Nft_Sets
begin

text \<open>
  The preflight of \<open>services/dataplane_global.py\<close>: what is missing before a global mode can be enforced, the
  contract between the table and the proxy, the enforcement that may be reported, and the check of a requested
  mode. The health of the proxy, the active adapter, the state of the VPN module and of dnsmasq are arguments; the
  artifact of the effective rules is a dictionary or \<open>None\<close> and its rules are a list. Ports that an external
  adapter reports are converted with \<open>int\<close>, which may raise.
\<close>

section \<open>Values\<close>

definition dict_get_or :: "pydict \<Rightarrow> string \<Rightarrow> pyval \<Rightarrow> pyval" where
  "dict_get_or d k v = (if dict_has d k then dict_get d k else v)"

definition int_or_none :: "pyval \<Rightarrow> int option" where
  "int_or_none v =
     (case v of
        PInt i \<Rightarrow> Some i
      | PStr s \<Rightarrow> if strip s \<noteq> [] \<and> list_all is_digit (strip s)
                 then (case int_of_text s of Inr n \<Rightarrow> Some n | Inl _ \<Rightarrow> None) else None
      | _ \<Rightarrow> None)"

definition bool_or_false :: "pyval \<Rightarrow> bool" where
  "bool_or_false v =
     (case v of
        PBool b \<Rightarrow> b
      | PStr s \<Rightarrow> lower (strip s) \<in> {''1'', ''true'', ''yes'', ''on''}
      | _ \<Rightarrow> False)"

definition int_val :: "int option \<Rightarrow> pyval" where
  "int_val p = (case p of None \<Rightarrow> PNone | Some n \<Rightarrow> PInt n)"

definition texts_val :: "string list \<Rightarrow> pyval" where
  "texts_val ts = PList (map PStr ts)"

definition bool_chain_map :: "pyval \<Rightarrow> (string \<times> bool) list" where
  "bool_chain_map v = map (\<lambda>(k, x). (k, truthy x)) (items v)"

section \<open>Selective rules\<close>

record selective_summary =
  sm_rules :: nat
  sm_domain :: nat
  sm_vpn :: nat
  sm_direct :: nat
  sm_default :: string
  sm_requires_vpn :: bool
  sm_ip_only :: bool
  sm_path_kind :: string

definition rules_list :: "pyval \<Rightarrow> pyval list" where
  "rules_list artifact = filter is_dict (case get_in artifact ''rules'' of PList rules \<Rightarrow> rules | _ \<Rightarrow> [])"

definition domain_rule :: "pyval \<Rightarrow> bool" where
  "domain_rule rule = (lower (py_str (py_or (get_in rule ''kind'') (PStr []))) \<in> {''domain'', ''domain_suffix''})"

definition service_rule :: "string list \<Rightarrow> pyval \<Rightarrow> bool" where
  "service_rule configured rule =
     (domain_rule rule \<and> is_protected_service_domain configured (rstrip_dots (lower (clean (get_in rule ''value'')))))"

definition rule_action :: "pyval \<Rightarrow> string" where
  "rule_action rule = upper (py_str (py_or (get_in rule ''action'') (PStr [])))"

definition selective_rules_summary :: "string list \<Rightarrow> pyval \<Rightarrow> selective_summary" where
  "selective_rules_summary configured artifact =
     (let rules = rules_list artifact; counted = filter (\<lambda>r. \<not> service_rule configured r) rules;
          domains = length (filter domain_rule counted); vpn = length (filter (\<lambda>r. rule_action r = ''VPN'') counted);
          default = lower (py_str (py_or (get_in artifact ''selective_default'') (PStr ''direct'')))
      in \<lparr>sm_rules = length rules, sm_domain = domains, sm_vpn = vpn,
          sm_direct = length (filter (\<lambda>r. rule_action r = ''DIRECT'') counted), sm_default = default,
          sm_requires_vpn = (vpn > 0 \<or> default = ''vpn''), sm_ip_only = (artifact \<noteq> PNone \<and> domains = 0),
          sm_path_kind = (if domains > 0 then ''domain_aware'' else ''ip_only'')\<rparr>)"

definition selective_summary_dict :: "selective_summary \<Rightarrow> pyval" where
  "selective_summary_dict s =
     PDict [(''rules_count'', PInt (int (sm_rules s))), (''domain_rules_count'', PInt (int (sm_domain s))),
            (''vpn_rules_count'', PInt (int (sm_vpn s))), (''direct_rules_count'', PInt (int (sm_direct s))),
            (''selective_default'', PStr (sm_default s)), (''requires_vpn_runtime'', PBool (sm_requires_vpn s)),
            (''ip_only_ready'', PBool (sm_ip_only s)), (''path_kind'', PStr (sm_path_kind s))]"

section \<open>The contract with the proxy\<close>

record vpn_ports =
  vq_redir :: "int option"
  vq_tproxy :: "int option"
  vq_full_redir :: "int option"
  vq_full_tproxy :: "int option"

definition managed_source :: pyval where
  "managed_source = PDict [(''kind'', PStr ''managed''), (''module'', PStr ''mihomo'')]"

definition build_vpn_steering_contract :: "vpn_ports \<Rightarrow> string \<Rightarrow> pyval \<Rightarrow> pyval" where
  "build_vpn_steering_contract ports adapter source =
     (case vq_tproxy ports of
        None \<Rightarrow> PNone
      | Some tproxy \<Rightarrow>
          if tproxy \<le> 0 then PNone
          else PDict [(''mode'', PStr ''tproxy''), (''adapter'', PStr adapter), (''redir_port'', int_val (vq_redir ports)),
            (''tproxy_port'', PInt tproxy),
            (''full_vpn_redir_port'', PInt (case vq_full_redir ports of Some p \<Rightarrow> p | None \<Rightarrow> 5204)),
            (''full_vpn_tproxy_port'', PInt (case vq_full_tproxy ports of Some p \<Rightarrow> p | None \<Rightarrow> 5205)),
            (''fwmark_hex'', PStr ''0x00000100''), (''fwmark_value'', PInt 256),
            (''proxy_bypass_mark_hex'', PStr ''0x00000200''), (''proxy_bypass_mark_value'', PInt 512),
            (''routing_table_name'', PStr ''fwrouter_vpn''), (''routing_table_id'', PInt 100), (''ip_rule_priority'', PInt 100),
            (''route_target'', PStr ''local default dev lo''), (''selector_name'', PStr ''vpn-global''),
            (''selector_fallback_target'', PStr ''vpn-auto''), (''source'', py_or source managed_source)])"

record profile_args =
  pa_ports :: vpn_ports
  pa_tun :: bool
  pa_path_kind :: string
  pa_contour :: bool
  pa_tcp :: bool
  pa_udp :: bool
  pa_explicit :: bool
  pa_adapter :: string
  pa_source :: pyval

definition build_dataplane_profile :: "profile_args \<Rightarrow> pyval" where
  "build_dataplane_profile a =
     (let contract = build_vpn_steering_contract (pa_ports a) (pa_adapter a) (pa_source a)
      in PDict [(''profile'', PStr ''global_v1''), (''owned_table'', PStr ''inet fwrouter_v2''),
           (''mihomo'', PDict [(''mode'', PStr ''egress''), (''controller_url'', PStr ''http://127.0.0.1:5200''), (''mixed_port'', PInt 5201),
              (''redir_port'', int_val (vq_redir (pa_ports a))), (''tproxy_port'', int_val (vq_tproxy (pa_ports a))),
              (''tun_enabled'', PBool (pa_tun a)),
              (''contours'', PDict [(''explicit_proxy_preserved'', PBool (pa_explicit a)), (''transparent_contour_ready'', PBool (pa_contour a)),
                 (''transparent_tcp_ready'', PBool (pa_tcp a)), (''transparent_udp_ready'', PBool (pa_udp a)),
                 (''selective_path_kind'', PStr (pa_path_kind a))])]),
           (''vpn_adapter'', PDict [(''adapter'', PStr (pa_adapter a)), (''source'', py_or (pa_source a) managed_source)]),
           (''vpn_routing_contract'', contract),
           (''supports'', PDict [(''global_direct'', PBool True), (''global_selective'', PStr (pa_path_kind a)),
              (''global_vpn'', PBool (truthy contract)), (''scoped_egress'', PBool False)])])"

section \<open>What the proxy reports\<close>

record mihomo_health =
  mh_state :: string
  mh_active_server :: "string option"
  mh_message :: string
  mh_details :: pyval

text \<open>The two files of the artifact, in the order in which they are tried; \<open>None\<close> stands for a missing file.\<close>

definition read_effective_rules_artifact_uncached :: "json_text option list \<Rightarrow> pyval" where
  "read_effective_rules_artifact_uncached candidates =
     (case List.map_filter (\<lambda>c. case c of Some (JText v) \<Rightarrow> if is_dict v then Some v else None | _ \<Rightarrow> None) candidates of
        [] \<Rightarrow> PNone
      | v # _ \<Rightarrow> v)"

definition read_applied_manifest_uncached :: "json_text option \<Rightarrow> pyval" where
  "read_applied_manifest_uncached file =
     (case file of Some (JText v) \<Rightarrow> if is_dict v then v else PNone | _ \<Rightarrow> PNone)"

record contours =
  ct_ports :: vpn_ports
  ct_tun :: bool
  ct_tcp_listener :: bool
  ct_udp_listener :: bool
  ct_tcp :: bool
  ct_udp :: bool
  ct_ready :: bool
  ct_explicit :: bool
  ct_policy :: bool

definition mihomo_config :: "pyval \<Rightarrow> pyval" where
  "mihomo_config details = get_in details ''config''"

definition mihomo_contour :: "pyval \<Rightarrow> string \<Rightarrow> pyval" where
  "mihomo_contour details name = get_in (get_in (mihomo_config details) ''fwrouter_contours'') name"

text \<open>A port: of the configuration, else of the details, and when that is no number, of the contour.\<close>

definition reported_port :: "pyval \<Rightarrow> string \<Rightarrow> int option" where
  "reported_port details k =
     (case int_or_none (dict_get_or (items (mihomo_config details)) k (get_in details k)) of
        Some p \<Rightarrow> Some p
      | None \<Rightarrow> int_or_none (get_in (mihomo_contour details ''transparent_vpn'') k))"

definition reported_contours :: "pyval \<Rightarrow> contours" where
  "reported_contours details =
     (let config = items (mihomo_config details); vpn = mihomo_contour details ''transparent_vpn''
      in \<lparr>ct_ports = \<lparr>vq_redir = reported_port details ''redir_port'', vq_tproxy = reported_port details ''tproxy_port'',
                      vq_full_redir = None, vq_full_tproxy = None\<rparr>,
          ct_tun = bool_or_false (dict_get_or config ''tun_enabled'' (get_in details ''tun_enabled'')),
          ct_tcp_listener = bool_or_false (dict_get_or (items vpn) ''transparent_tcp_listener_present''
            (dict_get config ''transparent_tcp_listener_present'')),
          ct_udp_listener = bool_or_false (dict_get_or (items vpn) ''transparent_udp_listener_present''
            (dict_get config ''transparent_udp_listener_present'')),
          ct_tcp = bool_or_false (get_in vpn ''transparent_tcp_ready''), ct_udp = bool_or_false (get_in vpn ''transparent_udp_ready''),
          ct_ready = truthy (get_in vpn ''ready''),
          ct_explicit =
            (truthy (dict_get_or (items (mihomo_contour details ''explicit_proxy'')) ''preserved'' (PBool True))
             \<and> truthy (dict_get_or (items (mihomo_contour details ''domain_selective'')) ''explicit_proxy_preserved'' (PBool True))
             \<and> truthy (dict_get_or (items vpn) ''isolated_from_explicit_proxy'' (PBool True))),
          ct_policy = bool_or_false (get_in (get_in details ''vpn_udp_policy'') ''policy_installed'')\<rparr>)"

section \<open>External adapters\<close>

definition int_item :: "pydict \<Rightarrow> string \<Rightarrow> exc + int" where
  "int_item d k = (if dict_has d k then py_int (dict_get d k) else Inl KeyError)"

definition external_contour :: "pydict \<Rightarrow> pydict" where
  "external_contour adapter =
     (if dict_get adapter ''adapter_id'' = PStr ''external_vpn_module'' \<and> truthy (dict_get adapter ''ready'')
      then items (dict_get adapter ''contour'') else [])"

definition external_ports :: "pydict \<Rightarrow> exc + vpn_ports" where
  "external_ports contour =
     (case int_item contour ''redir_port'' of
        Inl e \<Rightarrow> Inl e
      | Inr redir \<Rightarrow>
          (case int_item contour ''tproxy_port'' of
             Inl e \<Rightarrow> Inl e
           | Inr tproxy \<Rightarrow>
               (case int_item contour ''full_vpn_redir_port'' of
                  Inl e \<Rightarrow> Inl e
                | Inr full_redir \<Rightarrow>
                    (case int_item contour ''full_vpn_tproxy_port'' of
                       Inl e \<Rightarrow> Inl e
                     | Inr full_tproxy \<Rightarrow>
                         Inr \<lparr>vq_redir = Some redir, vq_tproxy = Some tproxy, vq_full_redir = Some full_redir,
                              vq_full_tproxy = Some full_tproxy\<rparr>))))"

definition resolved_contours :: "pydict \<Rightarrow> pyval \<Rightarrow> exc + contours" where
  "resolved_contours adapter details =
     (let c = reported_contours details
      in if external_contour adapter = [] then Inr c
         else map_sum id (\<lambda>ports. c\<lparr>ct_ports := ports, ct_tcp := True, ct_udp := True, ct_ready := True, ct_explicit := True,
                ct_policy := True\<rparr>) (external_ports (external_contour adapter)))"

definition adapter_source :: "pydict \<Rightarrow> pyval" where
  "adapter_source adapter =
     (if external_contour adapter \<noteq> [] then PDict (external_contour adapter)
      else if items (dict_get adapter ''source'') \<noteq> [] then dict_get adapter ''source'' else managed_source)"

definition adapter_name :: "pydict \<Rightarrow> string" where
  "adapter_name adapter = py_str (py_or (dict_get adapter ''adapter_id'') (PStr ''mihomo''))"

section \<open>What is missing\<close>

definition vpn_non_server_selector_targets :: "string list" where
  "vpn_non_server_selector_targets = [''DIRECT'', ''REJECT'', ''REJECT-DROP'', ''PASS'', ''PASS-RULE'', ''COMPATIBLE'']"

text \<open>Whether a value of a selector names a server.\<close>

definition names_server :: "pyval \<Rightarrow> bool" where
  "names_server v = (truthy v \<and> py_str v \<notin> set vpn_non_server_selector_targets)"

definition selector_reaches_server :: "mihomo_health \<Rightarrow> bool" where
  "selector_reaches_server h =
     (let selectors = get_in (mh_details h) ''selectors''; now = get_in selectors ''vpn_global_now''
      in bool_or_false (get_in selectors ''vpn_global_exists'')
         \<and> (names_server (opt_val (mh_active_server h)) \<or> (now \<noteq> PStr ''vpn-auto'' \<and> names_server now)
            \<or> (now = PStr ''vpn-auto'' \<and> names_server (get_in selectors ''vpn_auto_now''))))"

text \<open>What the preflight reads besides its arguments.\<close>

record preflight_env =
  pv_service_domains :: "string list"
  pv_health :: mihomo_health
  pv_artifact :: pyval
  pv_adapter :: pydict
  pv_module :: pyval
  pv_dnsmasq :: pyval

record preflight_args =
  pg_routing :: pyval
  pg_check :: pyval
  pg_artifact :: pyval
  pg_verify :: bool

definition routing_mode_from_manifest :: "pyval \<Rightarrow> string" where
  "routing_mode_from_manifest routing =
     py_str (py_or (get_in routing ''applied_mode'') (py_or (get_in routing ''desired_mode'') (PStr ''direct'')))"

definition artifact_in_use :: "preflight_env \<Rightarrow> preflight_args \<Rightarrow> pyval" where
  "artifact_in_use env g = (if pg_artifact g \<noteq> PNone then pg_artifact g else pv_artifact env)"

definition summary_of :: "preflight_env \<Rightarrow> preflight_args \<Rightarrow> selective_summary" where
  "summary_of env g = selective_rules_summary (pv_service_domains env) (artifact_in_use env g)"

definition required_chains_of :: "preflight_args \<Rightarrow> (string \<times> bool) list" where
  "required_chains_of g = bool_chain_map (get_in (pg_check g) ''required_chains'')"

definition direct_missing :: "preflight_args \<Rightarrow> string list" where
  "direct_missing g =
     (if required_chains_of g \<noteq> [] \<and> \<not> list_all snd (required_chains_of g)
      then [''fwrouter_owned_table_required_chains_missing''] else [])"

definition contour_required :: "preflight_env \<Rightarrow> preflight_args \<Rightarrow> bool" where
  "contour_required env g =
     (routing_mode_from_manifest (pg_routing g) \<in> {''selective'', ''vpn''} \<or> sm_requires_vpn (summary_of env g))"

definition profile_of :: "preflight_env \<Rightarrow> preflight_args \<Rightarrow> contours \<Rightarrow> pyval" where
  "profile_of env g c =
     build_dataplane_profile
       \<lparr>pa_ports = ct_ports c, pa_tun = ct_tun c, pa_path_kind = sm_path_kind (summary_of env g), pa_contour = (ct_tcp c \<and> ct_udp c),
        pa_tcp = ct_tcp c, pa_udp = ct_udp c, pa_explicit = ct_explicit c, pa_adapter = adapter_name (pv_adapter env),
        pa_source = adapter_source (pv_adapter env)\<rparr>"

definition contract_of :: "preflight_env \<Rightarrow> preflight_args \<Rightarrow> contours \<Rightarrow> pydict" where
  "contract_of env g c = items (get_in (profile_of env g c) ''vpn_routing_contract'')"

definition target_reachable :: "preflight_env \<Rightarrow> bool" where
  "target_reachable env = (selector_reaches_server (pv_health env) \<or> external_contour (pv_adapter env) \<noteq> [])"

definition path_verified :: "preflight_args \<Rightarrow> bool" where
  "path_verified g = bool_or_false (get_in (pg_check g) ''vpn_external_path_verified'')"

definition flow_flag :: "preflight_args \<Rightarrow> string \<Rightarrow> bool" where
  "flow_flag g k = bool_or_false (get_in (get_in (pg_check g) ''transparent_path'') k)"

definition session_flag :: "preflight_env \<Rightarrow> string \<Rightarrow> bool" where
  "session_flag env k = bool_or_false (get_in (get_in (mh_details (pv_health env)) ''transparent_runtime'') k)"

definition mark_packets :: "preflight_args \<Rightarrow> string \<Rightarrow> int" where
  "mark_packets g k = (case int_or_none (get_in (get_in (pg_check g) ''transparent_path'') k) of Some n \<Rightarrow> n | None \<Rightarrow> 0)"

definition only_if :: "bool \<Rightarrow> string \<Rightarrow> string list" where
  "only_if b s = (if b then [s] else [])"

definition vpn_missing :: "preflight_env \<Rightarrow> preflight_args \<Rightarrow> contours \<Rightarrow> string list" where
  "vpn_missing env g c =
     (let contract = contract_of env g c; external = (external_contour (pv_adapter env) \<noteq> [])
      in only_if (truthy (pv_module env) \<and> py_str (py_or (get_in (pv_module env) ''desired_state'') (PStr [])) \<noteq> ''enabled'') ''vpn_module_disabled''
         @ only_if (vq_tproxy (ct_ports c) = None) ''mihomo_tproxy_port_not_configured''
         @ only_if (contour_required env g \<and> \<not> (ct_tcp c \<and> ct_udp c)) ''mihomo_transparent_contour_not_ready''
         @ only_if (\<not> ct_explicit c) ''mihomo_explicit_proxy_isolation_not_ready''
         @ only_if (\<not> ct_tun c \<and> contract = []) ''mihomo_tun_not_enabled''
         @ only_if (contract = []) ''vpn_tproxy_contract_not_defined''
         @ only_if (\<not> external \<and> pg_verify g \<and> mh_state (pv_health env) \<noteq> ''running'') ''mihomo_controller_unreachable''
         @ only_if (\<not> target_reachable env) ''mihomo_global_egress_binding_unknown''
         @ only_if (\<not> ct_policy c) ''vpn_udp_fail_closed_policy_unconfirmed''
         @ only_if (\<not> path_verified g) ''vpn_external_path_not_verified''
         @ only_if (pg_verify g \<and> mark_packets g ''vpn_mark_packets'' > 0 \<and> \<not> flow_flag g ''transparent_flow_observed'')
             ''vpn_tproxy_handoff_not_observed''
         @ only_if (pg_verify g \<and> mark_packets g ''vpn_mark_tcp_packets'' > 0
                    \<and> \<not> (flow_flag g ''transparent_tcp_flow_observed'' \<and> session_flag env ''transparent_tcp_session_materialized''))
             ''vpn_tproxy_handoff_not_observed'')"

definition egress_observation_missing :: "string list" where
  "egress_observation_missing =
     [''mihomo_global_egress_binding_unknown'', ''vpn_external_path_not_verified'', ''vpn_udp_fail_closed_policy_unconfirmed'']"

definition vpn_policy_missing :: "preflight_env \<Rightarrow> preflight_args \<Rightarrow> contours \<Rightarrow> string list" where
  "vpn_policy_missing env g c = filter (\<lambda>x. x \<notin> set egress_observation_missing) (vpn_missing env g c)"

definition vpn_egress_missing :: "preflight_env \<Rightarrow> preflight_args \<Rightarrow> contours \<Rightarrow> string list" where
  "vpn_egress_missing env g c = filter (\<lambda>x. x \<in> set egress_observation_missing) (vpn_missing env g c)"

definition vpn_egress_ready :: "preflight_env \<Rightarrow> preflight_args \<Rightarrow> contours \<Rightarrow> bool" where
  "vpn_egress_ready env g c =
     (vpn_egress_missing env g c = [] \<and> ct_policy c \<and> ''vpn_tproxy_handoff_not_observed'' \<notin> set (vpn_missing env g c)
      \<and> target_reachable env \<and> path_verified g)"

definition selective_missing :: "preflight_env \<Rightarrow> preflight_args \<Rightarrow> string list" where
  "selective_missing env g =
     only_if (artifact_in_use env g = PNone) ''effective_rules_artifact_missing''
     @ only_if (sm_path_kind (summary_of env g) = ''domain_aware'' \<and> \<not> truthy (get_in (pv_dnsmasq env) ''ok''))
         ''dnsmasq_domain_selective_contract_not_ready''
     @ direct_missing g"

definition selective_vpn_ready :: "preflight_env \<Rightarrow> preflight_args \<Rightarrow> contours \<Rightarrow> bool" where
  "selective_vpn_ready env g c = (\<not> sm_requires_vpn (summary_of env g) \<or> vpn_missing env g c = [])"

definition selective_degraded :: "preflight_env \<Rightarrow> preflight_args \<Rightarrow> contours \<Rightarrow> bool" where
  "selective_degraded env g c = (sm_requires_vpn (summary_of env g) \<and> \<not> selective_vpn_ready env g c)"

definition selective_vpn_policy_ready :: "preflight_env \<Rightarrow> preflight_args \<Rightarrow> contours \<Rightarrow> bool" where
  "selective_vpn_policy_ready env g c =
     (sm_requires_vpn (summary_of env g) \<and> vpn_policy_missing env g c = [] \<and> ct_policy c)"

section \<open>The preflight\<close>

definition transparent_path_dict :: "preflight_env \<Rightarrow> preflight_args \<Rightarrow> pyval" where
  "transparent_path_dict env g =
     PDict (dict_update (items (get_in (pg_check g) ''transparent_path''))
       [(''transparent_flow_observed'', PBool (flow_flag g ''transparent_flow_observed'')),
        (''transparent_tcp_flow_observed'', PBool (flow_flag g ''transparent_tcp_flow_observed'')),
        (''transparent_udp_flow_observed'', PBool (flow_flag g ''transparent_udp_flow_observed'')),
        (''transparent_tcp_session_materialized'', PBool (session_flag env ''transparent_tcp_session_materialized'')),
        (''transparent_udp_session_materialized'', PBool (session_flag env ''transparent_udp_session_materialized''))])"

definition contours_dict :: "preflight_env \<Rightarrow> preflight_args \<Rightarrow> contours \<Rightarrow> pyval" where
  "contours_dict env g c =
     (let part = (\<lambda>name. PDict (items (mihomo_contour (mh_details (pv_health env)) name)))
      in PDict [(''explicit_proxy'', part ''explicit_proxy''), (''transparent_vpn'', part ''transparent_vpn''),
           (''domain_selective'', part ''domain_selective''), (''transparent_contour_ready'', PBool (ct_ready c)),
           (''transparent_contour_required'', PBool (contour_required env g)), (''transparent_tcp_ready'', PBool (ct_tcp c)),
           (''transparent_udp_ready'', PBool (ct_udp c)), (''transparent_tcp_listener_present'', PBool (ct_tcp_listener c)),
           (''transparent_udp_listener_present'', PBool (ct_udp_listener c)), (''explicit_proxy_preserved'', PBool (ct_explicit c))])"

definition preflight_dict :: "preflight_env \<Rightarrow> preflight_args \<Rightarrow> contours \<Rightarrow> pyval" where
  "preflight_dict env g c =
     (let profile = profile_of env g c; missing = vpn_missing env g c; h = pv_health env
      in PDict
        [(''ok'', PBool True), (''profile'', profile), (''owned_table'', get_in profile ''owned_table''),
         (''nft_available'', PBool (get_in (pg_check g) ''error_code'' \<noteq> PStr ''NFT_NOT_AVAILABLE'')),
         (''owned_table_check'', PDict [(''table_exists'', PBool (truthy (get_in (pg_check g) ''table_exists''))),
            (''required_chains'', PDict (map (\<lambda>(k, b). (k, PBool b)) (required_chains_of g)))]),
         (''mihomo'', PDict [(''runtime_state'', PStr (mh_state h)), (''message'', PStr (mh_message h)), (''details'', mh_details h)]),
         (''vpn_adapter'', PDict [(''adapter'', PStr (adapter_name (pv_adapter env))), (''source'', adapter_source (pv_adapter env))]),
         (''vpn_contour'', PDict (contract_of env g c)), (''vpn_external_path_verified'', PBool (path_verified g)),
         (''effective_rules_present'', PBool (artifact_in_use env g \<noteq> PNone)), (''protected_local_pools_loaded'', PBool True),
         (''can_enforce_global_direct'', PBool (direct_missing g = [])),
         (''can_enforce_global_selective'', PBool (selective_missing env g = [])),
         (''can_enforce_global_vpn'', PBool (vpn_policy_missing env g c = [] \<and> ct_policy c)),
         (''can_prepare_global_vpn'', PBool (vpn_policy_missing env g c = [])), (''vpn_policy_installed'', PBool (ct_policy c)),
         (''vpn_prepare_missing'', texts_val (vpn_policy_missing env g c)),
         (''vpn_egress_target_present'', PBool (target_reachable env)), (''vpn_egress_ready'', PBool (vpn_egress_ready env g c)),
         (''vpn_egress_missing'', texts_val (vpn_egress_missing env g c)),
         (''selective_vpn_ready'', PBool (selective_vpn_ready env g c)),
         (''selective_vpn_policy_ready'', PBool (selective_vpn_policy_ready env g c)),
         (''selective_degraded'', PBool (selective_degraded env g c)),
         (''selective_degraded_missing'', texts_val (if selective_degraded env g c then missing else [])),
         (''missing'', texts_val (sort (remdups (direct_missing g @ selective_missing env g @ missing)))),
         (''missing_by_mode'', PDict [(''direct'', texts_val (direct_missing g)), (''selective'', texts_val (selective_missing env g)),
            (''vpn'', texts_val missing)]),
         (''selective_rules'', selective_summary_dict (summary_of env g)), (''mihomo_contours'', contours_dict env g c),
         (''transparent_path'', transparent_path_dict env g), (''dnsmasq_selective_status'', pv_dnsmasq env)])"

definition build_global_preflight :: "preflight_env \<Rightarrow> preflight_args \<Rightarrow> exc + pyval" where
  "build_global_preflight env g =
     map_sum id (preflight_dict env g) (resolved_contours (pv_adapter env) (mh_details (pv_health env)))"

section \<open>The enforcement that is reported\<close>

definition resolved_preflight :: "preflight_env \<Rightarrow> pyval \<Rightarrow> pyval \<Rightarrow> exc + pyval" where
  "resolved_preflight env routing preflight =
     (if truthy preflight then Inr preflight
      else build_global_preflight env \<lparr>pg_routing = routing, pg_check = PNone, pg_artifact = PNone, pg_verify = False\<rparr>)"

definition supported_modes :: "pyval \<Rightarrow> pyval" where
  "supported_modes preflight =
     PDict [(''direct'', PBool (truthy (get_in preflight ''can_enforce_global_direct''))),
            (''selective'', PBool (truthy (get_in preflight ''can_enforce_global_selective''))),
            (''vpn'', PBool (truthy (get_in preflight ''can_enforce_global_vpn'')))]"

record live_mode =
  lm_mode :: pyval
  lm_default :: pyval
  lm_matches :: bool

definition live_mode_of :: "string \<Rightarrow> string \<Rightarrow> pyval \<Rightarrow> live_mode" where
  "live_mode_of mode selective_default probe =
     (if is_dict probe
      then (let live = lower (py_str (py_or (get_in probe ''mode'') (PStr ''unknown'')));
                default = lower (py_str (py_or (get_in probe ''selective_default'') (PStr ''direct'')))
            in \<lparr>lm_mode = PStr live, lm_default = PStr default,
                lm_matches = (truthy (get_in probe ''ok'') \<and> live = mode \<and> (mode \<noteq> ''selective'' \<or> default = selective_default))\<rparr>)
      else \<lparr>lm_mode = PNone, lm_default = PNone, lm_matches = True\<rparr>)"

definition enforcement_dict :: "pyval \<Rightarrow> live_mode \<Rightarrow> string \<Rightarrow> bool \<Rightarrow> pyval list \<Rightarrow> pydict \<Rightarrow> pyval" where
  "enforcement_dict preflight live level guaranteed missing further =
     PDict ([(''dataplane_capability'', PStr ''global_policy_v1''), (''capability'', PStr ''global_policy_v1''),
        (''enforcement_level'', PStr level), (''traffic_enforcement_guaranteed'', PBool guaranteed),
        (''supported_modes'', supported_modes preflight), (''missing_runtime_requirements'', PList missing),
        (''profile'', get_in preflight ''profile''), (''active_mode_matches_intent'', PBool (lm_matches live)),
        (''live_global_mode'', lm_mode live), (''live_selective_default'', lm_default live)] @ further)"

definition list_items :: "pyval \<Rightarrow> pyval list" where
  "list_items v = (case v of PList xs \<Rightarrow> xs | _ \<Rightarrow> [])"

definition flag :: "pyval \<Rightarrow> string \<Rightarrow> string \<times> pyval" where
  "flag preflight k = (k, PBool (truthy (get_in preflight k)))"

definition enforcement_mode :: "pyval \<Rightarrow> string option \<Rightarrow> string" where
  "enforcement_mode routing mode_override =
     lower (strip (case mode_override of Some (c # cs) \<Rightarrow> c # cs | _ \<Rightarrow> routing_mode_from_manifest routing))"

definition applied_runtime_enforcement :: "pyval \<Rightarrow> pyval \<Rightarrow> pyval \<Rightarrow> string option \<Rightarrow> pyval" where
  "applied_runtime_enforcement routing preflight live_mode_probe mode_override =
     (let mode = enforcement_mode routing mode_override;
          default = lower (py_str (py_or (get_in routing ''selective_default'') (PStr ''direct'')));
          live = live_mode_of mode default live_mode_probe; supports = (\<lambda>m. truthy (get_in (supported_modes preflight) m));
          answer = enforcement_dict preflight live
      in if \<not> lm_matches live then answer ''global_direct_only'' False [PStr ''active_dataplane_mode_mismatch''] []
         else if mode = ''direct'' \<and> supports ''direct'' then answer ''global_direct_enforced'' True [] []
         else if mode = ''vpn'' \<and> supports ''vpn''
         then answer (if truthy (get_in preflight ''vpn_egress_ready'') then ''global_vpn_enforced'' else ''global_vpn_fail_closed'') True
                (list_items (get_in preflight ''vpn_egress_missing'')) [flag preflight ''vpn_egress_ready'']
         else if mode = ''selective'' \<and> supports ''selective''
         then answer ''global_selective_enforced'' True (list_items (get_in preflight ''selective_degraded_missing''))
                (map (flag preflight) [''selective_vpn_ready'', ''selective_vpn_policy_ready'', ''vpn_egress_ready'', ''selective_degraded''])
         else answer ''global_direct_only'' False
                (list_items (dict_get_or (items (get_in preflight ''missing_by_mode'')) mode (get_in preflight ''missing''))) [])"

definition build_applied_runtime_enforcement ::
  "preflight_env \<Rightarrow> pyval \<Rightarrow> pyval \<Rightarrow> pyval \<Rightarrow> string option \<Rightarrow> exc + pyval" where
  "build_applied_runtime_enforcement env routing preflight live_mode_probe mode_override =
     map_sum id (\<lambda>p. applied_runtime_enforcement routing p live_mode_probe mode_override) (resolved_preflight env routing preflight)"

section \<open>Requests\<close>

definition mode_refused :: "pyval \<Rightarrow> string \<Rightarrow> string \<Rightarrow> string \<Rightarrow> string \<Rightarrow> pyval \<Rightarrow> pyval" where
  "mode_refused preflight mode stage code message missing =
     PDict [(''ok'', PBool False), (''mode'', PStr mode), (''stage'', PStr stage), (''code'', PStr code), (''message'', PStr message),
            (''missing'', missing), (''preflight'', preflight)]"

definition mode_accepted :: "pyval \<Rightarrow> string \<Rightarrow> pyval" where
  "mode_accepted preflight mode = PDict [(''ok'', PBool True), (''mode'', PStr mode), (''preflight'', preflight)]"

definition mode_answer :: "string \<Rightarrow> pyval \<Rightarrow> pyval" where
  "mode_answer mode preflight =
     (let m = lower (strip mode); by_mode = get_in preflight ''missing_by_mode''; p = items preflight
      in if m = ''direct''
         then (if truthy (get_in preflight ''can_enforce_global_direct'') then mode_accepted preflight m
               else mode_refused preflight m ''preflight'' ''GLOBAL_DIRECT_ENFORCEMENT_NOT_READY''
                      ''Global direct enforcement prerequisites are not satisfied.'' (get_in by_mode ''direct''))
         else if m = ''vpn''
         then (if truthy (dict_get_or p ''can_prepare_global_vpn'' (PBool (truthy (get_in preflight ''can_enforce_global_vpn''))))
               then mode_accepted preflight m
               else mode_refused preflight m ''preflight'' ''GLOBAL_VPN_ENFORCEMENT_NOT_READY''
                      ''Global VPN enforcement is not ready because Mihomo egress steering requirements are unresolved.''
                      (dict_get_or p ''vpn_prepare_missing'' (dict_get_or (items by_mode) ''vpn'' (PList []))))
         else if m = ''selective''
         then (if truthy (get_in preflight ''can_enforce_global_selective'') then mode_accepted preflight m
               else mode_refused preflight m ''preflight'' ''SELECTIVE_ENFORCEMENT_NOT_READY''
                      ''Selective enforcement is not ready because the effective rules artifact or owned-table foundation is missing.''
                      (get_in by_mode ''selective''))
         else mode_refused preflight m ''validate'' ''GLOBAL_MODE_INVALID'' ''Global mode must be one of: direct, selective, vpn.'' (PList []))"

definition validate_global_mode_request :: "preflight_env \<Rightarrow> string \<Rightarrow> pyval \<Rightarrow> pyval \<Rightarrow> exc + pyval" where
  "validate_global_mode_request env mode routing preflight = map_sum id (mode_answer mode) (resolved_preflight env routing preflight)"

end
