(* ===== verification/Routing_Manifest.thy ===== *)
theory Routing_Manifest
  imports Subject_Policy Global_Preflight
begin

text \<open>
  The manifest of \<open>services/routing_manifest.py\<close>: the routing state, the preflight, the subjects with their
  effective states and the extra data, put together for the renderer of the table. The emergency of
  \<open>services/provider_recovery.py\<close> overrides the routing here; what it changes in the effective states that the
  subjects bring along is without effect, since \<open>enrich_subject_with_effective_state\<close> computes them anew.
  Lists in the details of a subject are lists. Writing the files is not modelled.
\<close>

section \<open>Projections\<close>

definition json_size :: "pyval \<Rightarrow> int" where
  "json_size v = json_length (json_dumps v)"

definition summarize_mapping :: "pydict \<Rightarrow> string \<Rightarrow> pyval" where
  "summarize_mapping d label =
     (let ks = sort (map fst d)
      in PDict [(''kind'', PStr label), (''keys'', texts_val (take 50 ks)), (''keys_count'', PInt (int (length ks))),
           (''approx_json_bytes'', PInt (json_size (PDict d)))])"

definition summarize_sequence :: "pyval list \<Rightarrow> string \<Rightarrow> pyval" where
  "summarize_sequence vs label =
     PDict [(''kind'', PStr label), (''count'', PInt (int (length vs))), (''approx_json_bytes'', PInt (json_size (PList vs)))]"

definition bounded_subject_runtime :: "pyval \<Rightarrow> pyval" where
  "bounded_subject_runtime v =
     (if \<not> is_dict v then PDict []
      else
        let status = get_in v ''status''; legacy = get_in v ''state''; keep = (\<lambda>k. (k, get_in v k))
        in PDict [(''state'', if legacy = PNone \<and> status = PStr ''not_applicable'' then PStr ''disabled'' else legacy),
             (''status'', status), keep ''eligible'', keep ''applied'',
             (''reason'', py_or (get_in v ''resolution_reason'') (get_in v ''reason'')),
             keep ''required_capability'', keep ''matcher'', keep ''direct_source_coverage'', keep ''infrastructure_role'',
             keep ''docker_ipv6_inventory_status''])"

text \<open>Reading addresses until one is not canonical or of another version, or raises; the addresses read before.\<close>

fun scan_addresses :: "ip_version \<Rightarrow> pyval list \<Rightarrow> bool \<times> bool \<times> string list" where
  "scan_addresses version [] = (False, True, [])"
| "scan_addresses version (v # vs) =
     (case parse_address (py_str v) of
        None \<Rightarrow> (True, False, [])
      | Some a \<Rightarrow>
          if fst a \<noteq> version \<or> canonical_address a \<noteq> py_str v then (False, False, [])
          else (let (raised, ok, as) = scan_addresses version vs in (raised, ok, canonical_address a # as)))"

definition inventory_lists_valid :: "pyval \<Rightarrow> bool" where
  "inventory_lists_valid source =
     (let v4 = get_in source ''IPv4Addresses''; v6 = get_in source ''IPv6Addresses''
      in get_in source ''IPv4InventoryComplete'' = PBool True
         \<and> is_list v4 \<and> list_items v4 \<noteq> [] \<and> length (list_items v4) \<le> max_docker_ipv4_source_addresses
         \<and> list_all is_str (list_items v4)
         \<and> is_list v6 \<and> length (list_items v6) \<le> max_docker_ipv4_source_addresses
         \<and> get_in source ''IPv6InventoryComplete'' = PBool True \<and> list_all is_str (list_items v6))"

text \<open>Whether the inventory is valid so far, its addresses, the state of IPv6, and whether the reading raised.\<close>

definition scanned_inventory :: "pyval \<Rightarrow> bool \<times> string list \<times> string \<times> bool" where
  "scanned_inventory source =
     (if \<not> inventory_lists_valid source then (False, [], ''incomplete'', False)
      else
        let (raised4, ok4, as) = scan_addresses V4 (list_items (get_in source ''IPv4Addresses''));
            v6 = list_items (get_in source ''IPv6Addresses''); (raised6, ok6, _) = scan_addresses V6 v6
        in if raised4 \<or> raised6 then (False, as, ''incomplete'', True)
           else (ok4 \<and> ok6, as,
                 if ok4 \<and> ok6 then (if v6 = [] then ''complete_no_global_ipv6'' else ''global_ipv6_present'') else ''incomplete'', False))"

definition bounded_docker_source_inventory :: "policy_subject \<Rightarrow> pyval" where
  "bounded_docker_source_inventory subject =
     (let source = detail_source (items (ps_detail subject)); (valid0, as, ipv6_status, raised) = scanned_inventory source;
          primary = get_in (ps_detail subject) ''ip_address'';
          parsed = (if raised then None else case text_address primary of Inr p \<Rightarrow> p | Inl _ \<Rightarrow> None);
          valid = (valid0 \<and> (case parsed of
                     Some p \<Rightarrow> fst p = V4 \<and> PStr (canonical_address p) = primary \<and> canonical_address p \<in> set as
                   | None \<Rightarrow> False));
          v4 = get_in source ''IPv4Addresses''
      in if ps_type subject \<noteq> ''docker'' then PNone
         else if \<not> is_dict source then PDict [(''available'', PBool False), (''valid'', PBool False)]
         else PDict
           [(''available'', PBool True), (''valid'', PBool valid),
            (''ipv4_addresses'', texts_val (if is_list v4 \<and> length (list_items v4) \<le> max_docker_ipv4_source_addresses
                                          then sort (remdups as) else [])),
            (''ipv4_inventory_complete'', PBool (get_in source ''IPv4InventoryComplete'' = PBool True)),
            (''ipv6_inventory_status'', PStr ipv6_status),
            (''primary_ipv4'', case parsed of Some p \<Rightarrow> if valid then PStr (canonical_address p) else PNone | None \<Rightarrow> PNone),
            (''host_network'', PBool (lower (clean (get_in source ''NetworkMode'')) = ''host''))])"

section \<open>Listeners and users\<close>

definition as_positive_port :: "pyval \<Rightarrow> int option" where
  "as_positive_port v = (case py_int v of Inr p \<Rightarrow> if 0 < p \<and> p \<le> 65535 then Some p else None | Inl _ \<Rightarrow> None)"

record listener =
  li_proto :: string
  li_port :: int
  li_address :: string
  li_source :: string

definition normalize_listener :: "pyval \<Rightarrow> string \<Rightarrow> listener option" where
  "normalize_listener item source =
     (let proto = lower (clean (py_or (get_in item ''proto'') (get_in item ''listen_proto'')));
          address = clean (py_or (get_in item ''address'') (get_in item ''host_ip''))
      in if \<not> is_dict item \<or> proto \<notin> {''tcp'', ''udp''} then None
         else map_option (\<lambda>p. \<lparr>li_proto = proto, li_port = p, li_address = (if address = [] then ''*'' else address), li_source = source\<rparr>)
           (as_positive_port (if dict_has (items item) ''port'' then get_in item ''port''
              else if dict_has (items item) ''host_port'' then get_in item ''host_port'' else get_in item ''listen_port'')))"

definition subject_listeners :: "pyval \<Rightarrow> listener list" where
  "subject_listeners detail =
     (let source = get_in detail ''source'';
          named = (\<lambda>k k'. list_items (py_or (get_in source k) (get_in source k')))
      in if \<not> is_dict detail then []
         else (if is_dict source
               then List.map_filter (\<lambda>i. normalize_listener i ''listener'') (named ''Listeners'' ''listeners'')
                    @ List.map_filter (\<lambda>i. normalize_listener i ''published_port'') (named ''PublishedPorts'' ''published_ports'')
               else [])
              @ List.map_filter (\<lambda>i. normalize_listener i ''detail'')
                  [PDict [(''listen_proto'', get_in detail ''listen_proto''), (''listen_port'', get_in detail ''listen_port'')]])"

definition listener_key :: "listener \<Rightarrow> string \<times> int \<times> string" where
  "listener_key l = (li_proto l, li_port l, li_address l)"

definition listener_dict :: "listener \<Rightarrow> pyval" where
  "listener_dict l =
     PDict [(''proto'', PStr (li_proto l)), (''port'', PInt (li_port l)), (''address'', PStr (li_address l)), (''source'', PStr (li_source l))]"

definition bounded_network_listeners :: "pyval \<Rightarrow> listener list" where
  "bounded_network_listeners detail =
     sort_key listener_key (map snd (fold (\<lambda>l. AList.update (listener_key l) l) (subject_listeners detail) []))"

definition bounded_process_uids :: "pyval \<Rightarrow> int list" where
  "bounded_process_uids detail =
     (let source = get_in detail ''source''; raw = py_or (get_in source ''ProcessUids'') (get_in source ''process_uids'')
      in sort (remdups (List.map_filter (\<lambda>v. case py_int v of
           Inr u \<Rightarrow> if 0 \<le> u \<and> u \<le> 4294967295 then Some u else None
         | Inl _ \<Rightarrow> None) (list_items raw))))"

section \<open>Enforcement, extra data, routing\<close>

definition bounded_enforcement :: "pyval \<Rightarrow> pyval" where
  "bounded_enforcement v =
     (let keep = (\<lambda>k. (k, get_in v k))
      in if \<not> is_dict v then PDict []
         else PDict [(''capability'', py_or (get_in v ''capability'') (get_in v ''dataplane_capability'')), keep ''enforcement_level'',
                keep ''traffic_enforcement_guaranteed'', keep ''bypass_active'', keep ''supported_modes'', keep ''missing_runtime_requirements''])"

text \<open>The texts of the infrastructure, or the error for one that is no IPv4 network.\<close>

definition bounded_infrastructure :: "pyval list \<Rightarrow> exc + string list" where
  "bounded_infrastructure vs =
     (let texts = filter (\<lambda>t. t \<noteq> []) (map (\<lambda>v. strip (py_str v)) vs)
      in if length vs > 1024 then Inl ValueError
         else if list_all (\<lambda>t. case parse_network t of Some n \<Rightarrow> net_version n = V4 | None \<Rightarrow> False) texts
         then Inr (sort (remdups texts)) else Inl ValueError)"

definition rules_effective_summary :: "pyval \<Rightarrow> pyval" where
  "rules_effective_summary v =
     PDict [(''selective_default'', get_in v ''selective_default''), (''source_counts'', get_in v ''source_counts''),
            (''effective_counts'', get_in v ''effective_counts''), (''runtime_enforcement'', bounded_enforcement (get_in v ''runtime_enforcement''))]"

definition bounded_core_bypass :: "pyval \<Rightarrow> pyval" where
  "bounded_core_bypass v =
     PDict [(''enabled'', PBool (truthy (get_in v ''enabled''))), (''reason'', get_in v ''reason''), (''status'', get_in v ''status'')]"

fun bounded_extra :: "pydict \<Rightarrow> pydict \<Rightarrow> exc + pydict" where
  "bounded_extra acc [] = Inr acc"
| "bounded_extra acc ((k, v) # rest) =
     (if k = ''rules_effective'' \<and> is_dict v
      then bounded_extra (dict_set (dict_set acc k v) ''rules_effective_summary'' (rules_effective_summary v)) rest
      else if k = ''core_bypass'' \<and> is_dict v then bounded_extra (dict_set acc k (bounded_core_bypass v)) rest
      else if k = ''infrastructure_ipv4'' \<and> is_list v
      then (case bounded_infrastructure (list_items v) of
              Inl e \<Rightarrow> Inl e
            | Inr texts \<Rightarrow> bounded_extra (dict_set acc k (texts_val texts)) rest)
      else case v of
             PDict d \<Rightarrow> bounded_extra (dict_set acc k (summarize_mapping d (k @ ''_summary''))) rest
           | PList vs \<Rightarrow> bounded_extra (dict_set acc k (summarize_sequence vs (k @ ''_summary''))) rest
           | _ \<Rightarrow> bounded_extra (dict_set acc k v) rest)"

record manifest_routing = routing +
  mr_applied_mode :: "string option"
  mr_fixed_until :: "string option"
  mr_apply_state :: string
  mr_error_code :: "string option"
  mr_error_message :: "string option"
  mr_updated_at :: string

definition routing_dict :: "manifest_routing \<Rightarrow> pyval" where
  "routing_dict r =
     PDict [(''desired_mode'', PStr (ro_desired_mode r)), (''applied_mode'', opt_val (mr_applied_mode r)),
            (''selective_default'', PStr (ro_selective_default r)), (''server_mode'', PStr (ro_server_mode r)),
            (''desired_fixed_server_id'', opt_val (ro_desired_fixed r)), (''applied_fixed_server_id'', opt_val (ro_applied_fixed r)),
            (''fixed_server_until'', opt_val (mr_fixed_until r)), (''active_auto_server_id'', opt_val (ro_active_auto r)),
            (''apply_state'', PStr (mr_apply_state r)), (''error_code'', opt_val (mr_error_code r)),
            (''error_message'', opt_val (mr_error_message r)), (''updated_at'', PStr (mr_updated_at r))]"

definition bounded_routing_summary :: "pyval \<Rightarrow> pyval" where
  "bounded_routing_summary routing =
     PDict (map (\<lambda>k. (k, get_in routing k))
       [''desired_mode'', ''applied_mode'', ''selective_default'', ''server_mode'', ''active_auto_server_id'', ''desired_fixed_server_id'',
        ''applied_fixed_server_id'', ''fixed_server_until'', ''updated_at''])"

definition desired_routing_mode :: "pyval \<Rightarrow> string" where
  "desired_routing_mode routing =
     py_str (py_or (get_in routing ''desired_mode'') (py_or (get_in routing ''applied_mode'') (PStr ''direct'')))"

definition routing_selective_default :: "pyval \<Rightarrow> string" where
  "routing_selective_default routing = py_str (py_or (get_in routing ''selective_default'') (PStr ''direct''))"

section \<open>Emergency\<close>

definition emergency_override :: "bool \<Rightarrow> pyval \<Rightarrow> bool" where
  "emergency_override reentry_context pending =
     (\<not> reentry_context \<and> truthy pending \<and> truthy (get_in pending ''provider_managed'') \<and> truthy (get_in pending ''emergency_direct''))"

definition override_manifest_state :: "bool \<Rightarrow> bool \<Rightarrow> manifest_routing \<Rightarrow> manifest_routing" where
  "override_manifest_state reentry emergency r =
     (if reentry \<or> \<not> emergency then r else r\<lparr>ro_desired_mode := ''direct'', mr_applied_mode := Some ''direct''\<rparr>)"

section \<open>Dictionaries of the subjects\<close>

definition matcher_value_dict :: "nft_matcher option \<Rightarrow> pyval" where
  "matcher_value_dict m =
     (case m of
        None \<Rightarrow> PNone
      | Some n \<Rightarrow>
          PDict ([(''family'', PStr (nm_family n)), (''nft_type'', PStr (nm_type n)), (''nft_expr'', PStr (nm_expr n)),
                  (''value'', PStr (nm_value n))]
                 @ (case nm_values n of None \<Rightarrow> [] | Some vs \<Rightarrow> [(''values'', texts_val vs)])))"

definition scoped_runtime_dict :: "scoped_runtime \<Rightarrow> pyval" where
  "scoped_runtime_dict r =
     PDict ([(''tracked'', PBool (sr_tracked r)), (''eligible'', PBool (sr_eligible r)), (''applied'', PBool (sr_applied r)),
        (''status'', PStr (sr_status r)), (''subject_id'', PStr (sr_subject_id r)), (''subject_type'', PStr (sr_subject_type r)),
        (''dataplane_path'', PStr (sr_path r)), (''selected_server_id'', opt_val (sr_server_id r)),
        (''selected_server_source'', opt_val (sr_server_source r)), (''vpn_target_id'', opt_val (sr_target_id r)),
        (''vpn_target_source'', opt_val (sr_target_source r)), (''match_key'', opt_val (sr_match_key r)),
        (''resolution_reason'', PStr (sr_reason r)), (''matcher'', matcher_value_dict (sr_matcher r)),
        (''vpn_supported'', PBool (sr_vpn_supported r)), (''bypass_active'', PBool (sr_bypass_active r)),
        (''materialized_by'', opt_val (sr_materialized_by r)), (''subject_role'', PStr (sr_role r)),
        (''inventory_classification'', PStr (sr_classification r)), (''control_plane_direct_safe'', PBool (sr_direct_safe r)),
        (''infrastructure_role'', opt_val (sr_infrastructure_role r))]
       @ (case sr_direct_coverage r of
            None \<Rightarrow> []
          | Some as \<Rightarrow> [(''direct_source_coverage'', PDict [(''ipv4_addresses'', texts_val as), (''ipv4_inventory_complete'', PBool True),
                                                       (''ipv6_inventory_status'', PStr ''complete_no_global_ipv6'')])])
       @ (case sr_docker_ipv6 r of None \<Rightarrow> [] | Some s \<Rightarrow> [(''docker_ipv6_inventory_status'', PStr s)]))"

text \<open>What the container guard sees of an enriched subject.\<close>

definition enriched_dict :: "policy_subject \<Rightarrow> effective_state \<Rightarrow> pyval" where
  "enriched_dict s e =
     PDict [(''subject_id'', PStr (ps_id s)), (''subject_type'', PStr (ps_type s)), (''display_name'', ps_display_name s),
            (''desired_mode'', PStr (ps_desired_mode s)), (''runtime_state'', ps_runtime_state s), (''is_active'', PBool (ps_active s)),
            (''detail'', ps_detail s),
            (''effective_state'', PDict [(''effective_mode'', PStr (es_mode e)), (''mode_source'', PStr (es_mode_source e)),
               (''dataplane_path'', PStr (es_path e)), (''selected_server_id'', opt_val (vt_server_id (es_target e))),
               (''selected_server_source'', PStr (vt_server_source (es_target e))), (''scoped_runtime'', scoped_runtime_dict (es_scoped e))])]"

text \<open>A subject as it comes in: with overrides of the plan, its own or those of the effective state it brings along.\<close>

record planned_subject =
  pl_subject :: policy_subject
  pl_applied_mode :: pyval
  pl_user :: "user_override_row option"
  pl_state_user :: "user_override_row option"
  pl_server :: "server_override_row option"
  pl_state_server :: "server_override_row option"

definition planned_subject_override :: "'a option \<Rightarrow> 'a option \<Rightarrow> 'a option" where
  "planned_subject_override own state = (case own of Some x \<Rightarrow> Some x | None \<Rightarrow> state)"

definition resolved_user_override :: "string \<Rightarrow> override_db \<Rightarrow> planned_subject \<Rightarrow> user_override_row option" where
  "resolved_user_override now db p =
     (case planned_subject_override (pl_user p) (pl_state_user p) of
        Some u \<Rightarrow> Some u
      | None \<Rightarrow> load_active_user_override now db (ps_id (pl_subject p)))"

definition resolved_server_override :: "string \<Rightarrow> override_db \<Rightarrow> planned_subject \<Rightarrow> server_override_row option" where
  "resolved_server_override now db p =
     (case planned_subject_override (pl_server p) (pl_state_server p) of
        Some o1 \<Rightarrow> Some o1
      | None \<Rightarrow> load_active_server_override now db (ps_id (pl_subject p)))"

type_synonym enriched = "planned_subject \<times> effective_state"

definition manifest_subject :: "pyval \<Rightarrow> enriched \<Rightarrow> pyval" where
  "manifest_subject enforcement x =
     (let p = fst x; s = pl_subject p; e = snd x
      in PDict [(''subject_id'', PStr (ps_id s)), (''subject_type'', PStr (ps_type s)), (''display_name'', ps_display_name s),
           (''desired_mode'', PStr (ps_desired_mode s)), (''applied_mode'', pl_applied_mode p), (''runtime_state'', ps_runtime_state s),
           (''is_active'', PBool (ps_active s)), (''effective_mode'', PStr (es_mode e)), (''mode_source'', PStr (es_mode_source e)),
           (''dataplane_path'', PStr (es_path e)), (''selected_server_id'', opt_val (vt_server_id (es_target e))),
           (''selected_server_source'', PStr (vt_server_source (es_target e))), (''enforcement'', bounded_enforcement enforcement),
           (''scoped_runtime'', bounded_subject_runtime (scoped_runtime_dict (es_scoped e))),
           (''observed_docker_source'', bounded_docker_source_inventory s),
           (''network_listeners'', PList (map listener_dict (bounded_network_listeners (ps_detail s)))),
           (''process_uids'', PList (map PInt (bounded_process_uids (ps_detail s))))])"

section \<open>Conflicts\<close>

definition demoting_reasons :: "string list" where
  "demoting_reasons =
     [''protected_runtime_cannot_use_scoped_vpn'', ''docker_vpn_matcher_overlaps_infrastructure'', ''invalid_infrastructure_ipv4'']"

definition demote :: "string \<Rightarrow> effective_state \<Rightarrow> effective_state" where
  "demote reason e =
     e\<lparr>es_scoped := (es_scoped e)\<lparr>sr_applied := False, sr_status := ''pending_infrastructure_immunity_conflict'', sr_reason := reason\<rparr>\<rparr>"

fun mark_conflict :: "string \<times> string \<Rightarrow> enriched list \<Rightarrow> enriched list" where
  "mark_conflict c [] = []"
| "mark_conflict c (x # xs) =
     (if ps_id (pl_subject (fst x)) = fst c then (if snd c \<in> set demoting_reasons then (fst x, demote (snd c) (snd x)) else x) # xs
      else x # mark_conflict c xs)"

text \<open>The loop variable of the conflicts is the parameter \<open>reason\<close>: the last conflict replaces the reason of the manifest.\<close>

definition reported_reason :: "string \<Rightarrow> (string \<times> string) list \<Rightarrow> string" where
  "reported_reason reason conflicts = (if conflicts = [] then reason else snd (last conflicts))"

definition requires_vpn_policy_routing :: "pyval \<Rightarrow> enriched list \<Rightarrow> pyval \<Rightarrow> bool \<Rightarrow> bool" where
  "requires_vpn_policy_routing routing subjects preflight core_bypass_enabled =
     (let mode = lower (strip (desired_routing_mode routing));
          reaches = (truthy (get_in (get_in preflight ''selective_rules'') ''requires_vpn_runtime'')
                     \<or> lower (strip (routing_selective_default routing)) = ''vpn'')
      in \<not> core_bypass_enabled
         \<and> (mode = ''vpn'' \<or> mode = ''selective'' \<and> reaches
            \<or> (\<exists>x\<in>set subjects. ps_active (pl_subject (fst x)) \<and> subject_needs_transparent_policy (ps_type (pl_subject (fst x)))
                 \<and> (lower (strip (es_path (snd x))) = ''vpn'' \<or> lower (strip (es_path (snd x))) = ''selective'' \<and> reaches))))"

section \<open>Runtime enforcement of the plan\<close>

definition build_bypass_runtime_enforcement :: "pyval \<Rightarrow> pyval" where
  "build_bypass_runtime_enforcement preflight =
     PDict [(''dataplane_capability'', PStr ''nft_owned_table''), (''capability'', PStr ''nft_owned_table''),
            (''enforcement_level'', PStr ''bypass_direct_safe''), (''traffic_enforcement_guaranteed'', PBool False),
            (''supported_modes'', supported_modes preflight), (''missing_runtime_requirements'', PList []),
            (''profile'', get_in preflight ''profile''), (''bypass_active'', PBool True)]"

definition planned_runtime_enforcement :: "pyval \<Rightarrow> pyval" where
  "planned_runtime_enforcement preflight =
     PDict [(''dataplane_capability'', PStr ''nft_owned_table''), (''capability'', PStr ''nft_owned_table''),
            (''enforcement_level'', PStr ''owned_table_ready''), (''traffic_enforcement_guaranteed'', PBool False),
            (''supported_modes'', supported_modes preflight), (''missing_runtime_requirements'', PList (list_items (get_in preflight ''missing''))),
            (''profile'', get_in preflight ''profile''), (''bypass_active'', PBool False)]"

section \<open>The manifest\<close>

text \<open>What the builder reads besides its arguments.\<close>

record manifest_env =
  me_preflight :: preflight_env
  me_settings :: net_settings
  me_lan_hosts :: "json_text option"
  me_bindings :: "json_text option"
  me_now :: string
  me_overrides :: override_db
  me_pending :: pyval
  me_reentry :: bool

definition network_contract_dict :: "network_manifest \<Rightarrow> pyval" where
  "network_contract_dict n =
     PDict [(''protected_ipv4_networks'', texts_val (nm_protected_ipv4 n)), (''protected_ipv6_networks'', texts_val (nm_protected_ipv6 n)),
            (''rules_extra_protected_networks'', texts_val (nm_rules_extra n)), (''trusted_client_ipv4_networks'', texts_val (nm_trusted_ipv4 n)),
            (''trusted_client_ipv6_networks'', texts_val (nm_trusted_ipv6 n)), (''lan_interface_allowlist'', texts_val (nm_lan_allowlist n)),
            (''lan_interface_deny_prefixes'', texts_val (nm_lan_deny_prefixes n)),
            (''reserved_interface_roles'', PDict (map (map_prod id PStr) (nm_reserved_roles n))),
            (''local_lan_hosts'', PDict (map (map_prod id PStr) (nm_local_lan_hosts n)))]"

definition counts_dict :: "(string \<times> nat) list \<Rightarrow> pyval" where
  "counts_dict counts = PDict (map (map_prod id (\<lambda>n. PInt (int n))) counts)"

definition binding_dict :: "scoped_binding \<Rightarrow> pyval" where
  "binding_dict b =
     PDict [(''subject_id'', PStr (sn_subject_id b)), (''subject_type'', PStr (sn_subject_type b)), (''display_name'', sn_display_name b),
            (''eligible'', PBool (sn_eligible b)), (''applied'', PBool (sn_applied b)), (''status'', PStr (sn_status b)),
            (''selected_server_id'', opt_val (sn_server_id b)), (''selected_server_source'', opt_val (sn_server_source b)),
            (''match_key'', opt_val (sn_match_key b)), (''resolution_reason'', PStr (sn_reason b)), (''matcher'', matcher_value_dict (sn_matcher b)),
            (''subject_role'', PStr (sn_role b)), (''inventory_classification'', PStr (sn_classification b))]"

definition scoped_summary_dict :: "scoped_summary \<Rightarrow> pyval" where
  "scoped_summary_dict s =
     PDict [(''state'', PStr (ss_state s)), (''eligible_count'', PInt (int (ss_eligible s))), (''applied_count'', PInt (int (ss_applied s))),
            (''pending_count'', PInt (int (ss_pending s))), (''unresolved_count'', PInt (int (ss_unresolved s))),
            (''status_counts'', counts_dict (ss_status_counts s)), (''source_counts'', counts_dict (ss_source_counts s)),
            (''inventory_counts'', counts_dict (ss_inventory_counts s)), (''bindings'', PList (map binding_dict (ss_bindings s)))]"

definition core_bypass_of :: "pydict \<Rightarrow> pyval" where
  "core_bypass_of extra_data = (if is_dict (dict_get extra_data ''core_bypass'') then dict_get extra_data ''core_bypass'' else PNone)"

definition policy_env_of :: "manifest_env \<Rightarrow> pyval \<Rightarrow> pyval \<Rightarrow> policy_env" where
  "policy_env_of env enforcement core_bypass =
     \<lparr>pe_vpn_supported = truthy (get_in (get_in enforcement ''supported_modes'') ''vpn''), pe_bypass = truthy (get_in core_bypass ''enabled''),
      pe_emergency = emergency_override (me_reentry env) (me_pending env), pe_bindings = me_bindings env\<rparr>"

definition enrich_planned :: "manifest_env \<Rightarrow> policy_env \<Rightarrow> manifest_routing \<Rightarrow> planned_subject \<Rightarrow> exc + enriched" where
  "enrich_planned env pe r p =
     map_sum id (Pair p) (enrich_subject_with_effective_state pe (pl_subject p) (routing.truncate r)
       (resolved_user_override (me_now env) (me_overrides env) p) (resolved_server_override (me_now env) (me_overrides env) p))"

definition immunity_conflicts :: "enriched list \<Rightarrow> pydict \<Rightarrow> pyval \<Rightarrow> (string \<times> string) list" where
  "immunity_conflicts subjects extra_data routing =
     (if truthy (get_in (core_bypass_of extra_data) ''enabled'') then []
      else docker_vpn_immunity_conflicts (map (\<lambda>x. enriched_dict (pl_subject (fst x)) (snd x)) subjects)
             (list_items (dict_get extra_data ''infrastructure_ipv4'')) (desired_routing_mode routing))"

definition path_counts :: "enriched list \<Rightarrow> (string \<times> nat) list" where
  "path_counts subjects = fold (\<lambda>x. bump (es_path (snd x))) subjects []"

definition resolved_vpn_contour :: "pyval \<Rightarrow> string \<Rightarrow> bool \<Rightarrow> pyval" where
  "resolved_vpn_contour preflight mode required =
     (let contour = get_in preflight ''vpn_contour''
      in if is_dict contour \<and> (mode \<in> {''vpn'', ''selective''} \<or> required)
         then PDict (dict_set (items contour) ''required'' (PBool required)) else PNone)"

record manifest_args =
  ma_plan_id :: string
  ma_reason :: string
  ma_generated_at :: string
  ma_input :: pyval
  ma_extra :: pydict

text \<open>The dictionary, from the routing in force, the preflight, the extra data, the subjects after marking and the reason.\<close>

definition manifest_dict :: "manifest_args \<Rightarrow> pyval \<Rightarrow> pyval \<Rightarrow> pyval \<Rightarrow> pydict \<Rightarrow> enriched list \<Rightarrow> string \<Rightarrow> pyval" where
  "manifest_dict a routing preflight enforcement extra_data subjects reason =
     (let core_bypass = core_bypass_of extra_data; bypassed = truthy (get_in core_bypass ''enabled'');
          required = requires_vpn_policy_routing routing subjects preflight bypassed; mode = desired_routing_mode routing;
          scoped = summarize_scoped_subjects (map (\<lambda>x. (pl_subject (fst x), Some (es_scoped (snd x)))) subjects)
      in PDict
        [(''contract_version'', PStr ''2026-05-07.control-plane''), (''plan_id'', PStr (ma_plan_id a)), (''reason'', PStr reason),
         (''generated_at'', PStr (ma_generated_at a)), (''owned_table'', PStr owned_table), (''required_chains'', texts_val required_chains),
         (''dataplane_profile'', get_in preflight ''profile''), (''input'', py_or (ma_input a) (PDict [])),
         (''routing_global_state'', routing), (''runtime_enforcement'', enforcement),
         (''global_preflight'', PDict (dict_set (items preflight) ''vpn_policy_required'' (PBool required))),
         (''vpn_contour'', resolved_vpn_contour preflight mode required), (''core_bypass'', core_bypass),
         (''scoped_egress'', scoped_summary_dict scoped), (''subjects'', PList (map (manifest_subject enforcement) subjects)),
         (''extra'', PDict extra_data),
         (''summary'', PDict
           [(''subjects_count'', PInt (int (length subjects))),
            (''active_subjects_count'', PInt (int (length (filter (\<lambda>x. ps_active (pl_subject (fst x))) subjects)))),
            (''path_counts'', counts_dict (path_counts subjects)), (''global_mode'', PStr mode),
            (''selective_default'', PStr (routing_selective_default routing)), (''routing'', bounded_routing_summary routing),
            (''core_bypass_enabled'', PBool bypassed), (''requires_vpn_policy_routing'', PBool required),
            (''scoped_egress_state'', PStr (ss_state scoped)), (''scoped_egress_eligible_count'', PInt (int (ss_eligible scoped))),
            (''scoped_egress_applied_count'', PInt (int (ss_applied scoped))), (''extra_keys'', texts_val (sort (map fst extra_data)))])])"

definition plan_preflight_args :: "manifest_routing \<Rightarrow> pydict \<Rightarrow> preflight_args" where
  "plan_preflight_args r extra =
     \<lparr>pg_routing = routing_dict r, pg_check = PNone,
      pg_artifact = (if is_dict (dict_get extra ''rules_effective'') then dict_get extra ''rules_effective'' else PNone), pg_verify = False\<rparr>"

definition plan_enforcement :: "pyval \<Rightarrow> pydict \<Rightarrow> pyval" where
  "plan_enforcement preflight extra_data =
     (if truthy (get_in (core_bypass_of extra_data) ''enabled'') then build_bypass_runtime_enforcement preflight
      else planned_runtime_enforcement preflight)"

definition plan_extra :: "manifest_env \<Rightarrow> pydict \<Rightarrow> exc + pydict" where
  "plan_extra env extra =
     map_sum id (\<lambda>d. dict_set d ''network_contract'' (network_contract_dict (network_contract_manifest (me_lan_hosts env) (me_settings env))))
       (bounded_extra [] extra)"

definition plan_routing :: "manifest_env \<Rightarrow> pydict \<Rightarrow> manifest_routing \<Rightarrow> manifest_routing" where
  "plan_routing env extra r =
     override_manifest_state (truthy (dict_get extra ''provider_vpn_reentry'')) (emergency_override (me_reentry env) (me_pending env)) r"

definition build_dataplane_manifest_from_state ::
  "manifest_env \<Rightarrow> manifest_args \<Rightarrow> manifest_routing \<Rightarrow> planned_subject list \<Rightarrow> exc + pyval" where
  "build_dataplane_manifest_from_state env a routing subjects =
     (let r = plan_routing env (ma_extra a) routing
      in case build_global_preflight (me_preflight env) (plan_preflight_args r (ma_extra a)) of
           Inl e \<Rightarrow> Inl e
         | Inr preflight \<Rightarrow>
             (case plan_extra env (ma_extra a) of
                Inl e \<Rightarrow> Inl e
              | Inr extra_data \<Rightarrow>
                  let enforcement = plan_enforcement preflight extra_data; pe = policy_env_of env enforcement (core_bypass_of extra_data)
                  in (case map_raise (enrich_planned env pe r) subjects of
                        Inl e \<Rightarrow> Inl e
                      | Inr enriched \<Rightarrow>
                          let conflicts = immunity_conflicts enriched extra_data (routing_dict r)
                          in Inr (manifest_dict a (routing_dict r) preflight enforcement extra_data (fold mark_conflict conflicts enriched)
                               (reported_reason (ma_reason a) conflicts)))))"

end
