(* ===== verification/Nft_Render.thy ===== *)
theory Nft_Render
  imports Nft_Sets
begin

text \<open>
  The owned table that \<open>render_owned_table_candidate\<close> of \<open>services/dataplane_nft_render.py\<close> writes for a
  manifest: its counters, sets and chains, and the text. The two errors are values: a conflict of the container
  policy, and the attribute or type error of a manifest without its summary, preflight or subject identifiers.
  Ports and texts of the manifest have their JSON types.
\<close>

datatype render_error = DockerPolicyConflictError string | AttributeError | TypeErrorNone

fun map_err :: "('a \<Rightarrow> 'e + 'b) \<Rightarrow> 'a list \<Rightarrow> 'e + 'b list" where
  "map_err f [] = Inr []"
| "map_err f (x # xs) =
     (case f x of
        Inl e \<Rightarrow> Inl e
      | Inr y \<Rightarrow> (case map_err f xs of Inl e \<Rightarrow> Inl e | Inr ys \<Rightarrow> Inr (y # ys)))"

record owned_table_candidate =
  oc_comment :: string
  oc_preamble :: "string list"
  oc_chains :: "nft_chain list"
  oc_commands :: "string list"

definition table_lines :: "owned_table_candidate \<Rightarrow> string list" where
  "table_lines t =
     [''table '' @ owned_table @ '' {'', ''    comment '' @ quoted (oc_comment t), []] @ oc_preamble t
     @ (case map chain_lines (oc_chains t) of
          [] \<Rightarrow> []
        | c # cs \<Rightarrow> c @ concat (map (\<lambda>x. [] # x) cs))
     @ [''}'', []] @ (if oc_commands t = [] then [] else oc_commands t @ [[]])"

definition table_text :: "owned_table_candidate \<Rightarrow> string" where
  "table_text t = join [CHR 0x0A] (table_lines t)"

section \<open>Bypass\<close>

definition filter_hook :: "string \<Rightarrow> string \<Rightarrow> string" where
  "filter_hook hook priority = ''type filter hook '' @ hook @ '' priority '' @ priority @ ''; policy accept;''"

definition bypass_chain :: "string \<Rightarrow> string option \<Rightarrow> string \<Rightarrow> nft_chain" where
  "bypass_chain name hook comment =
     \<lparr>ch_name = name, ch_hook = hook, ch_rules = [NRule [] [NCounter, NReturn] (Some (''fwrouter core bypass '' @ comment))]\<rparr>"

definition bypass_table :: owned_table_candidate where
  "bypass_table =
     \<lparr>oc_comment = ''FWRouter v2 owned table - intentional bypass/direct-safe mode'', oc_preamble = [],
      oc_chains =
        [bypass_chain ''prerouting'' (Some (filter_hook ''prerouting'' ''mangle'')) ''prerouting'',
         bypass_chain ''input'' (Some (filter_hook ''input'' ''filter'')) ''input'',
         bypass_chain ''output'' (Some ''type route hook output priority mangle; policy accept;'') ''output'',
         bypass_chain ''forward'' (Some (filter_hook ''forward'' ''filter'')) ''forward'',
         bypass_chain ''postrouting'' (Some (filter_hook ''postrouting'' ''filter'')) ''postrouting'',
         bypass_chain ''fwrouter_classify'' None ''classify'', bypass_chain ''fwrouter_direct'' None ''direct-safe'',
         bypass_chain ''fwrouter_vpn'' None ''vpn disabled'', bypass_chain ''fwrouter_vpn_full'' None ''full vpn disabled''],
      oc_commands = []\<rparr>"

definition bypass_enabled :: "pyval \<Rightarrow> bool" where
  "bypass_enabled manifest = truthy (get_in (get_in (get_in manifest ''extra'') ''core_bypass'') ''enabled'')"

section \<open>Parameters of the table\<close>

definition int_port :: "pyval \<Rightarrow> port" where
  "int_port v = (case v of PInt n \<Rightarrow> Some n | _ \<Rightarrow> None)"

definition contour_of :: "pyval \<Rightarrow> pyval" where
  "contour_of manifest = get_in (get_in manifest ''global_preflight'') ''vpn_contour''"

record vpn_params =
  vp_redir :: port
  vp_tproxy :: port
  vp_full_redir :: port
  vp_full_tproxy :: port
  vp_fwmark :: string
  vp_full_udp_mark :: string
  vp_full_tcp_mark :: string
  vp_bypass_mark :: string

definition port_default :: "pyval \<Rightarrow> int \<Rightarrow> port" where
  "port_default v d = (case int_port v of None \<Rightarrow> Some d | p \<Rightarrow> p)"

definition vpn_params_of :: "pyval \<Rightarrow> vpn_params" where
  "vpn_params_of contour =
     (let fwmark = py_str (py_or (get_in contour ''fwmark_hex'') (PStr ''0x00000100''))
      in \<lparr>vp_redir = (if truthy (get_in contour ''tproxy_port'') then port_default (get_in contour ''redir_port'') 5202
                      else int_port (get_in contour ''redir_port'')),
          vp_tproxy = int_port (get_in contour ''tproxy_port''),
          vp_full_redir = port_default (get_in contour ''full_vpn_redir_port'') 5204,
          vp_full_tproxy = port_default (get_in contour ''full_vpn_tproxy_port'') 5205,
          vp_fwmark = fwmark, vp_full_udp_mark = derive_mark_hex fwmark 2, vp_full_tcp_mark = derive_mark_hex fwmark 3,
          vp_bypass_mark = py_str (py_or (get_in contour ''proxy_bypass_mark_hex'') (PStr ''0x00000200''))\<rparr>)"

definition infrastructure_value :: "pyval \<Rightarrow> string option" where
  "infrastructure_value s =
     (let runtime = get_in s ''scoped_runtime''; matcher = get_in runtime ''matcher''; t = subject_type_text s; path = subject_path s
      in if \<not> is_dict s \<or> \<not> is_dict matcher \<or> get_in matcher ''family'' \<noteq> PStr ''ipv4'' \<or> \<not> truthy (get_in matcher ''value'') then None
         else if t \<in> {''host'', ''fwrouter''} \<or> truthy (get_in runtime ''infrastructure_role'')
         then Some (py_str (get_in matcher ''value''))
         else if t \<noteq> ''docker'' then None
         else if \<not> is_active s \<or> path \<notin> {''direct'', ''vpn'', ''blocked''} then Some (py_str (get_in matcher ''value''))
         else if path = ''vpn'' \<and> \<not> truthy (get_in runtime ''applied'') then Some (py_str (get_in matcher ''value''))
         else None)"

definition infrastructure_ips :: "pyval \<Rightarrow> string list" where
  "infrastructure_ips manifest =
     sort (remdups (List.map_filter infrastructure_value (subjects_of manifest)
       @ read_manifest_extra_ipv4_list manifest ''infrastructure_ipv4'' []))"

definition active_subjects :: "pyval \<Rightarrow> pyval list" where
  "active_subjects manifest = filter (\<lambda>s. is_dict s \<and> is_active s) (subjects_of manifest)"

definition vpn_policy_required_of :: "pyval \<Rightarrow> string \<Rightarrow> string \<Rightarrow> bool" where
  "vpn_policy_required_of manifest mode selective_default =
     (let preflight = get_in manifest ''global_preflight'';
          reaches = (truthy (get_in (get_in preflight ''selective_rules'') ''requires_vpn_runtime'') \<or> selective_default = ''vpn'')
      in truthy (get_in (get_in manifest ''summary'') ''requires_vpn_policy_routing'')
         \<or> truthy (get_in preflight ''vpn_policy_required'')
         \<or> mode = ''vpn'' \<or> mode = ''selective'' \<and> reaches
         \<or> (\<exists>s\<in>set (active_subjects manifest). subject_needs_transparent_policy (subject_type_text s)
              \<and> (lower (clean (get_in s ''dataplane_path'')) = ''vpn''
                 \<or> lower (clean (get_in s ''dataplane_path'')) = ''selective'' \<and> reaches)))"

section \<open>Matches of subjects\<close>

definition resolved_subject_path :: "pyval \<Rightarrow> string" where
  "resolved_subject_path subject =
     (let explicit_path = lower (clean (get_in subject ''dataplane_path'')); state = get_in subject ''effective_state'';
          state_path = lower (clean (get_in state ''dataplane_path'')); mode = lower (clean (get_in state ''effective_mode''))
      in if explicit_path \<noteq> [] then explicit_path
         else if state_path \<noteq> [] then state_path
         else if mode \<in> {''direct'', ''vpn'', ''selective''} then mode else [])"

definition matcher_dict :: "pyval \<Rightarrow> pyval" where
  "matcher_dict subject =
     (let scoped = get_in subject ''scoped_runtime''; matcher = get_in scoped ''matcher''
      in if \<not> is_dict scoped then PNone else if is_dict matcher then matcher else scoped)"

definition expected_version :: "pyval \<Rightarrow> ip_version option" where
  "expected_version matcher =
     (if get_in matcher ''family'' = PStr ''ipv4'' \<and> get_in matcher ''nft_expr'' = PStr ''ip saddr'' then Some V4
      else if get_in matcher ''family'' = PStr ''ipv6'' \<and> get_in matcher ''nft_expr'' = PStr ''ip6 saddr'' then Some V6
      else None)"

text \<open>The text that matches a complete inventory of sources, or the reason why it is refused.\<close>

definition inventory_text :: "pyval \<Rightarrow> pyval \<Rightarrow> string + string" where
  "inventory_text matcher values =
     (case values of
        PList vs \<Rightarrow>
          if vs = [] \<or> length vs > max_docker_ipv4_source_addresses \<or> \<not> list_all is_str vs
          then Inl ''invalid scoped source matcher values''
          else (case (all_some (map (\<lambda>v. parse_address (py_str v)) vs), text_address (get_in matcher ''value'')) of
                  (Some parsed, Inr primary) \<Rightarrow>
                    (case (expected_version matcher, primary) of
                       (Some version, Some p) \<Rightarrow>
                         if fst p \<noteq> version \<or> \<not> list_all (\<lambda>a. fst a = version) parsed
                            \<or> map canonical_address parsed \<noteq> map py_str vs
                            \<or> canonical_address p \<noteq> py_str (get_in matcher ''value'') \<or> p \<notin> set parsed
                         then Inl ''inconsistent scoped source matcher values''
                         else (let normalized = sort (map canonical_address (remdups parsed))
                               in Inr (if length normalized = 1 then hd normalized else brace_list normalized))
                     | _ \<Rightarrow> Inl ''inconsistent scoped source matcher values'')
                | _ \<Rightarrow> Inl ''invalid scoped source matcher values'')
      | _ \<Rightarrow> Inl ''invalid scoped source matcher values'')"

definition scoped_matcher :: "bool \<Rightarrow> pyval \<Rightarrow> render_error + (string \<times> string \<times> string) option" where
  "scoped_matcher include_inventory subject =
     (let matcher = matcher_dict subject; expr = get_in matcher ''nft_expr''; val = get_in matcher ''value'';
          family = py_str (py_or (get_in matcher ''family'') (PStr []));
          values = (if include_inventory then get_in matcher ''values'' else PNone)
      in if \<not> truthy expr \<or> \<not> truthy val then Inr None
         else if values = PNone then Inr (Some (py_str expr, py_str val, family))
         else case inventory_text matcher values of
           Inl message \<Rightarrow> Inl (DockerPolicyConflictError message)
         | Inr t \<Rightarrow> Inr (Some (py_str expr, t, family)))"

section \<open>Counters\<close>

record counter_rules =
  cr_declarations :: "string list"
  cr_direct :: "nft_rule list"
  cr_vpn :: "nft_rule list"
  cr_direct_rx :: "nft_rule list"
  cr_vpn_rx :: "nft_rule list"

definition counter_name :: "string \<Rightarrow> string \<Rightarrow> string" where
  "counter_name slug what = ''cnt_'' @ slug @ ''_'' @ what"

definition count_rule :: "nft_cond list \<Rightarrow> string \<Rightarrow> nft_rule" where
  "count_rule cs name = NRule cs [NCounterName name] None"

definition subject_counters :: "vpn_params \<Rightarrow> pyval \<Rightarrow> render_error + counter_rules" where
  "subject_counters vp subject =
     (case get_in subject ''subject_id'' of
        PStr sid \<Rightarrow>
          let slug = safe_set_suffix sid; name = counter_name slug;
              declarations = map (\<lambda>w. ''    counter '' @ name w @ '' { }'') [''direct_tx'', ''direct_rx'', ''vpn_tx'', ''vpn_rx''];
              bypass = vp_bypass_mark vp;
              tcp = nft_port_match_value [vp_redir vp, vp_full_redir vp];
              udp = nft_port_match_value [vp_tproxy vp, vp_full_tproxy vp]
          in (case scoped_matcher False subject of
                Inl e \<Rightarrow> Inl e
              | Inr None \<Rightarrow> Inr \<lparr>cr_declarations = declarations, cr_direct = [], cr_vpn = [], cr_direct_rx = [], cr_vpn_rx = []\<rparr>
              | Inr (Some (expr, val, _)) \<Rightarrow>
                  let rx = (if expr = ''ip saddr'' then Some ''ip daddr'' else if expr = ''ip6 saddr'' then Some ''ip6 daddr'' else None)
                  in Inr \<lparr>cr_declarations = declarations,
                          cr_direct = [count_rule [Expr expr val] (name ''direct_tx'')],
                          cr_vpn = [count_rule [Expr expr val] (name ''vpn_tx'')],
                          cr_direct_rx = (case rx of None \<Rightarrow> [] | Some e \<Rightarrow> [count_rule [Expr e val] (name ''direct_rx'')]),
                          cr_vpn_rx = (case rx of
                              None \<Rightarrow> []
                            | Some e \<Rightarrow>
                                [count_rule [Mark bypass, Expr e val] (name ''vpn_rx'')]
                                @ (case tcp of None \<Rightarrow> []
                                   | Some ports \<Rightarrow> [count_rule [NotMark bypass, Expr ''meta l4proto'' ''tcp'', Expr ''tcp sport'' ports,
                                       Expr e val] (name ''vpn_rx'')])
                                @ (case udp of None \<Rightarrow> []
                                   | Some ports \<Rightarrow> [count_rule [NotMark bypass, Expr ''meta l4proto'' ''udp'', Expr ''udp sport'' ports,
                                       Expr e val] (name ''vpn_rx'')]))\<rparr>)
      | _ \<Rightarrow> Inl TypeErrorNone)"

section \<open>Steering\<close>

record steering_args =
  st_selective_default :: string
  st_ready :: bool
  st_degraded :: bool

definition scoped_vpn_or_drop :: "bool \<Rightarrow> string \<Rightarrow> string \<Rightarrow> string \<Rightarrow> string \<Rightarrow> string \<Rightarrow> string \<Rightarrow> nft_rule" where
  "scoped_vpn_or_drop ready expr val e v vpn_remark drop_remark =
     (if ready then NRule [Expr expr val, Expr e v] [NGoto ''fwrouter_vpn''] (Some vpn_remark)
      else NRule [Expr expr val, Expr e v] [NDrop] (Some drop_remark))"

definition scoped_selective_rules :: "steering_args \<Rightarrow> string \<Rightarrow> string \<times> string \<times> string \<Rightarrow> nft_rule list" where
  "scoped_selective_rules a sid m =
     (let (expr, val, family) = m; ready = st_ready a; sd = st_selective_default a
      in (if family = ''ipv4''
          then [NRule [Expr expr val, Expr ''ip daddr'' ''@direct_ipv4''] [NGoto ''fwrouter_direct'']
                  (Some (''scoped selective direct IPv4: '' @ sid)),
                NRule [Expr expr val, Expr ''ip daddr'' ''@dns_direct_ipv4''] [NGoto ''fwrouter_direct'']
                  (Some (''scoped selective dns direct IPv4: '' @ sid)),
                scoped_vpn_or_drop ready expr val ''ip daddr'' ''@vpn_ipv4'' (''scoped selective vpn IPv4: '' @ sid)
                  (''scoped selective degraded block VPN IPv4: '' @ sid),
                scoped_vpn_or_drop ready expr val ''ip daddr'' ''@dns_vpn_ipv4'' (''scoped selective dns vpn IPv4: '' @ sid)
                  (''scoped selective degraded block DNS VPN IPv4: '' @ sid)]
          else if family = ''ipv6''
          then [NRule [Expr expr val, Expr ''ip6 daddr'' ''@direct_ipv6''] [NGoto ''fwrouter_direct'']
                  (Some (''scoped selective direct IPv6: '' @ sid)),
                scoped_vpn_or_drop ready expr val ''ip6 daddr'' ''@vpn_ipv6'' (''scoped selective vpn IPv6: '' @ sid)
                  (''scoped selective degraded block VPN IPv6: '' @ sid)]
          else [])
         @ (if sd = ''vpn'' \<and> \<not> ready
            then [NRule [Expr expr val] [NDrop] (Some (''scoped selective degraded default vpn blocked: '' @ sid))]
            else [NRule [Expr expr val] [NGoto (if sd = ''vpn'' then ''fwrouter_vpn'' else ''fwrouter_direct'')]
                    (Some (if sd = ''direct'' \<and> st_degraded a then ''scoped selective degraded default direct: '' @ sid
                           else ''scoped selective default '' @ sd @ '': '' @ sid))]))"

definition scoped_block_rule :: "string \<Rightarrow> string \<times> string \<times> string \<Rightarrow> nft_rule" where
  "scoped_block_rule sid m =
     (let (expr, val, family) = m
      in NRule [Expr expr val]
           [if family = ''ipv6'' then NReject ''icmpv6 type admin-prohibited''
            else if family = ''ipv4'' then NReject ''icmpx type admin-prohibited'' else NDrop]
           (Some (''scoped disabled block: '' @ sid)))"

text \<open>The rules that steer one active subject: in the classification, and on the output of the host.\<close>

definition subject_steering :: "steering_args \<Rightarrow> pyval \<Rightarrow> render_error + nft_rule list \<times> nft_rule list" where
  "subject_steering a subject =
     (case scoped_matcher True subject of
        Inl e \<Rightarrow> Inl e
      | Inr None \<Rightarrow> Inr ([], [])
      | Inr (Some (expr, val, family)) \<Rightarrow>
          let path = resolved_subject_path subject; sid = id_text subject; t = subject_type_text subject
          in Inr
            (if path = ''selective'' then (scoped_selective_rules a sid (expr, val, family), [])
             else if path = ''blocked'' then ([scoped_block_rule sid (expr, val, family)], [])
             else if path = ''vpn''
             then ([NRule [Expr expr val] [NGoto ''fwrouter_vpn_full''] (Some (''scoped vpn override: '' @ sid))],
                   if t \<in> {''host'', ''docker''}
                   then [NRule [Expr expr val] [NGoto ''fwrouter_vpn_full''] (Some (''system scoped vpn output override: '' @ sid))]
                   else [])
             else if path = ''direct''
             then ([NRule [Expr expr val] [NGoto ''fwrouter_direct''] (Some (''scoped direct override: '' @ sid))], [])
             else ([], [])))"

section \<open>The input guard\<close>

definition listener_guard :: "string \<Rightarrow> string \<Rightarrow> string \<Rightarrow> string \<Rightarrow> port \<Rightarrow> nft_rule list" where
  "listener_guard trusted4 trusted6 protos what p =
     (if \<not> port_on p then []
      else
        let match = [Expr ''meta l4proto'' protos, Expr ''th dport'' (port_text p)]
        in [NRule (Expr ''iifname'' (quoted ''lo'') # match) [NAccept] (Some (''allow local fwrouter '' @ what @ '' access'')),
            NRule (Expr ''ip saddr'' trusted4 # match) [NAccept] (Some (''allow trusted IPv4 fwrouter '' @ what @ '' access'')),
            NRule (Expr ''ip6 saddr'' trusted6 # match) [NAccept] (Some (''allow trusted IPv6 fwrouter '' @ what @ '' access'')),
            NRule match [NDrop] (Some (''block public access to fwrouter '' @ what))])"

definition input_chain :: "set_env \<Rightarrow> vpn_params \<Rightarrow> pyval list \<Rightarrow> nft_chain" where
  "input_chain env vp active =
     (let guard = listener_guard (trusted_client_ipv4_nft_set (ev_settings env)) (trusted_client_ipv6_nft_set (ev_settings env))
      in base_chain ''input'' (filter_hook ''input'' ''filter'')
           (build_disabled_input_guard active
            @ guard ''{ tcp, udp }'' ''tproxy'' (vp_tproxy vp) @ guard ''tcp'' ''redir'' (vp_redir vp)
            @ guard ''{ tcp, udp }'' ''full-vpn tproxy'' (vp_full_tproxy vp) @ guard ''tcp'' ''full-vpn redir'' (vp_full_redir vp)))"

section \<open>The table\<close>

definition owned_sets :: "set_env \<Rightarrow> pyval \<Rightarrow> pyval \<Rightarrow> (string list \<times> string list) list" where
  "owned_sets env manifest artifact =
     (let n = build_nft_rule_sets env artifact; dns = (\<lambda>name. (render_dns_runtime_set (ev_dns_timeout env) name ''ipv4_addr'', []))
      in [render_set ''protected_ipv4'' ''ipv4_addr'' (nf_protected_ipv4 n),
          render_set ''protected_ipv6'' ''ipv6_addr'' (nf_protected_ipv6 n),
          render_set ''infrastructure_ipv4'' ''ipv4_addr'' (infrastructure_ips manifest),
          render_set ''secure_dns_bypass_ipv4'' ''ipv4_addr''
            (read_manifest_extra_ipv4_list manifest ''secure_dns_bypass_ipv4'' static_secure_dns_bypass_ipv4),
          render_set ''direct_ipv4'' ''ipv4_addr'' (nf_direct_ipv4 n), dns ''dns_direct_ipv4'',
          render_set ''direct_ipv6'' ''ipv6_addr'' (nf_direct_ipv6 n),
          render_set ''vpn_ipv4'' ''ipv4_addr'' (nf_vpn_ipv4 n), dns ''dns_vpn_ipv4'',
          render_set ''vpn_ipv6'' ''ipv6_addr'' (nf_vpn_ipv6 n)]
         @ map (\<lambda>(name, t, vs). render_set name t vs) (build_scoped_vpn_sets manifest))"

text \<open>The chains, given the counters and the steering rules of the subjects.\<close>

record table_args =
  ta_mode :: string
  ta_steering :: steering_args
  ta_params :: vpn_params
  ta_policy :: bool
  ta_lan :: "string list"
  ta_counters :: counter_rules
  ta_scoped :: "nft_rule list"
  ta_output :: "nft_rule list"
  ta_active :: "pyval list"

definition prerouting_args_of :: "set_env \<Rightarrow> table_args \<Rightarrow> prerouting_args" where
  "prerouting_args_of env a =
     (let vp = ta_params a
      in \<lparr>pr_bypass_mark = vp_bypass_mark vp, pr_fwmark = vp_fwmark vp, pr_full_udp_mark = vp_full_udp_mark vp,
          pr_tproxy = vp_tproxy vp, pr_full_tproxy = vp_full_tproxy vp, pr_mode = ta_mode a,
          pr_vpn_counters = cr_vpn (ta_counters a), pr_policy = ta_policy a, pr_lan = ta_lan a,
          pr_trusted = trusted_client_ipv4_nft_set (ev_settings env)\<rparr>)"

definition vpn_chain_args_of :: "table_args \<Rightarrow> vpn_chain_args" where
  "vpn_chain_args_of a =
     (let vp = ta_params a
      in \<lparr>vc_tproxy = vp_tproxy vp, vc_redir = vp_redir vp, vc_bypass_mark = vp_bypass_mark vp, vc_fwmark = vp_fwmark vp,
          vc_udp_mark = None, vc_tcp_mark = None, vc_counters = cr_vpn (ta_counters a), vc_policy = ta_policy a\<rparr>)"

definition full_vpn_chain_args_of :: "table_args \<Rightarrow> vpn_chain_args" where
  "full_vpn_chain_args_of a =
     (let vp = ta_params a
      in \<lparr>vc_tproxy = vp_full_tproxy vp, vc_redir = vp_full_redir vp, vc_bypass_mark = vp_bypass_mark vp, vc_fwmark = vp_fwmark vp,
          vc_udp_mark = Some (vp_full_udp_mark vp), vc_tcp_mark = Some (vp_full_tcp_mark vp),
          vc_counters = cr_vpn (ta_counters a), vc_policy = ta_policy a\<rparr>)"

definition owned_chains :: "set_env \<Rightarrow> table_args \<Rightarrow> nft_chain list" where
  "owned_chains env a =
     (let vp = ta_params a; st = ta_steering a; c = ta_counters a
      in [build_prerouting_entry_chain (prerouting_args_of env a),
          build_prerouting_nat_chain (vp_fwmark vp) (vp_redir vp) (Some (vp_full_tcp_mark vp)) (vp_full_redir vp) (ta_policy a),
          input_chain env vp (ta_active a),
          build_output_entry_chain (cr_vpn_rx c) (vp_bypass_mark vp) (build_disabled_output_guard (ta_active a)) (ta_output a) (ta_mode a),
          build_output_nat_chain (vp_fwmark vp) (vp_redir vp) (Some (vp_full_tcp_mark vp)) (vp_full_redir vp) (vp_bypass_mark vp)
            (ta_policy a),
          base_chain ''forward'' (filter_hook ''forward'' ''filter'')
            (build_disabled_forward_guard (ta_active a) @ cr_direct_rx c
             @ [NRule [] [NCounter] (Some ''fwrouter_v2 forward global v1'')]),
          base_chain ''postrouting'' (filter_hook ''postrouting'' ''filter'')
            [NRule [Expr ''tcp flags'' ''syn''] [NClampMss] (Some ''TCP MSS Clamping for VPN reliability''),
             NRule [] [NCounter] (Some ''fwrouter_v2 postrouting global v1'')],
          build_classify_chain (ta_mode a) (st_selective_default st) (st_ready st) (st_degraded st) (ta_scoped a),
          build_terminal_direct_chain (cr_direct c),
          build_vpn_mark_chain (vp_tproxy vp) (vp_fwmark vp),
          build_terminal_vpn_chain ''fwrouter_vpn'' (vpn_chain_args_of a),
          build_terminal_vpn_chain ''fwrouter_vpn_full'' (full_vpn_chain_args_of a)])"

definition merge_counters :: "counter_rules list \<Rightarrow> counter_rules" where
  "merge_counters cs =
     \<lparr>cr_declarations = concat (map cr_declarations cs), cr_direct = concat (map cr_direct cs), cr_vpn = concat (map cr_vpn cs),
      cr_direct_rx = concat (map cr_direct_rx cs), cr_vpn_rx = concat (map cr_vpn_rx cs)\<rparr>"

definition mode_of :: "pyval \<Rightarrow> string" where
  "mode_of manifest = py_str (py_or (get_in (get_in manifest ''summary'') ''global_mode'') (PStr ''direct''))"

definition steering_args_of :: "pyval \<Rightarrow> steering_args" where
  "steering_args_of manifest =
     (let preflight = get_in manifest ''global_preflight''
      in \<lparr>st_selective_default = lower (py_str (py_or (get_in (get_in manifest ''summary'') ''selective_default'') (PStr ''direct''))),
          st_ready = truthy (get_in preflight ''selective_vpn_policy_ready''),
          st_degraded = truthy (get_in preflight ''selective_degraded'')\<rparr>)"

definition conflict_of :: "pyval \<Rightarrow> (string \<times> string) option" where
  "conflict_of manifest =
     (if is_dict manifest
      then docker_vpn_immunity_conflict (filter is_dict (subjects_of manifest))
             (map PStr (read_manifest_extra_ipv4_list manifest ''infrastructure_ipv4'' [])) (mode_of manifest)
      else None)"

definition owned_table_args :: "pyval \<Rightarrow> render_error + table_args" where
  "owned_table_args manifest =
     (let active = active_subjects manifest; vp = vpn_params_of (contour_of manifest); st = steering_args_of manifest
      in case map_err (subject_counters vp) (filter (\<lambda>s. subject_needs_transparent_policy (subject_type_text s)) active) of
           Inl e \<Rightarrow> Inl e
         | Inr cs \<Rightarrow>
             (case map_err (subject_steering st) active of
                Inl e \<Rightarrow> Inl e
              | Inr rules \<Rightarrow>
                  Inr \<lparr>ta_mode = mode_of manifest, ta_steering = st, ta_params = vp,
                       ta_policy = vpn_policy_required_of manifest (mode_of manifest) (st_selective_default st),
                       ta_lan = resolve_lan_ingress_interfaces manifest, ta_counters = merge_counters cs,
                       ta_scoped = concat (map fst rules), ta_output = concat (map snd rules), ta_active = active\<rparr>))"

definition full_table :: "set_env \<Rightarrow> pyval \<Rightarrow> pyval \<Rightarrow> table_args \<Rightarrow> owned_table_candidate" where
  "full_table env loaded manifest a =
     (let sets = owned_sets env manifest (resolve_rules_effective_artifact manifest loaded)
      in \<lparr>oc_comment = ''FWRouter v2 owned table - managed only by FWRouter'',
          oc_preamble = cr_declarations (ta_counters a) @ [[]] @ concat (map (\<lambda>s. fst s @ [[]]) sets),
          oc_chains = owned_chains env a, oc_commands = concat (map snd sets)\<rparr>)"

definition owned_table_candidate :: "set_env \<Rightarrow> pyval \<Rightarrow> pyval \<Rightarrow> render_error + owned_table_candidate" where
  "owned_table_candidate env loaded manifest =
     (if bypass_enabled manifest then Inr bypass_table
      else case conflict_of manifest of
        Some (subject_id, reason) \<Rightarrow> Inl (DockerPolicyConflictError (subject_id @ '': '' @ reason @ ''.''))
      | None \<Rightarrow>
          if is_dict manifest \<and> \<not> (is_dict (get_in manifest ''summary'') \<and> is_dict (get_in manifest ''global_preflight''))
          then Inl AttributeError
          else map_sum id (full_table env loaded manifest) (owned_table_args manifest))"

definition render_owned_table_candidate :: "set_env \<Rightarrow> pyval \<Rightarrow> pyval \<Rightarrow> render_error + string" where
  "render_owned_table_candidate env loaded manifest = map_sum id table_text (owned_table_candidate env loaded manifest)"

end
