(* ===== verification/Nft_Flow.thy ===== *)
theory Nft_Flow
  imports Nft_Render Rules_Properties
begin

text \<open>
  How packets run through the owned table: rules that only count are skipped, rules that only judge leave the
  packet as it is, and the terminal chains have the effect their names promise. The lemmas hold for the chains
  of every manifest.
\<close>

section \<open>Running rule lists\<close>

definition counting :: "nft_rule \<Rightarrow> bool" where
  "counting r = (\<forall>a\<in>set (actions r). a = NCounter \<or> (\<exists>n. a = NCounterName n) \<or> a = NClampMss)"

definition judging :: "nft_rule \<Rightarrow> bool" where
  "judging r = (\<exists>as. actions r = [as] \<and> (as = NAccept \<or> as = NDrop \<or> (\<exists>how. as = NReject how) \<or> as = NReturn))"

lemma run_counting_actions:
  "\<forall>a\<in>set as. a = NCounter \<or> (\<exists>n. a = NCounterName n) \<or> a = NClampMss \<Longrightarrow> run_actions call as p = Some (Inl p)"
  by (induction as) auto

lemma skip_counting: "list_all counting rs \<Longrightarrow> run_rules call ev (rs @ rest) p = run_rules call ev rest p"
  by (induction rs) (auto simp: counting_def run_counting_actions)

lemma skip_unmatched: "\<forall>r\<in>set rs. \<not> rule_matches ev p r \<Longrightarrow> run_rules call ev (rs @ rest) p = run_rules call ev rest p"
  by (induction rs) auto

lemma run_judging:
  assumes "judging r"
  shows "\<exists>v. run_actions call (actions r) p = Some (Inr (v, p))"
  using assms by (auto simp: judging_def)

lemma judging_prefix:
  "list_all judging rs \<Longrightarrow> (\<exists>v. run_rules call ev (rs @ rest) p = Some (v, p)) \<or> run_rules call ev (rs @ rest) p = run_rules call ev rest p"
proof (induction rs)
  case (Cons r rs)
  then obtain v where "run_actions call (actions r) p = Some (Inr (v, p))" using run_judging by fastforce
  then show ?case using Cons by auto
qed simp

lemma rule_matches_simp [simp]: "rule_matches ev p (NRule cs as c) = list_all (cond_holds ev (pk_mark p)) cs"
  by (simp add: rule_matches_def)

section \<open>Marks\<close>

lemma parse_hex_digits_foldl:
  "list_all is_hex s \<Longrightarrow> s \<noteq> [] \<or> b \<Longrightarrow> parse_hex_digits acc b s = Some (foldl (\<lambda>n c. 16 * n + hex_value c) acc s)"
  by (induction s arbitrary: acc b) auto

lemma foldl_zeros: "foldl (\<lambda>n c. 16 * n + hex_value c) 0 (replicate k CHR ''0'' @ s) = foldl (\<lambda>n c. 16 * n + hex_value c) 0 s"
proof (induction k)
  case (Suc k)
  have "hex_value CHR ''0'' = 0" by code_simp
  then show ?case using Suc by simp
qed simp

lemma hex_not_special: "is_hex c \<Longrightarrow> c \<noteq> CHR ''_'' \<and> \<not> is_space c"
proof -
  have "list_all (\<lambda>c. \<not> is_hex c) [CHR ''_'', CHR '' '', CHR 0x09, CHR 0x0A, CHR 0x0B, CHR 0x0C, CHR 0x0D, CHR 0x1C, CHR 0x1D, CHR 0x1E, CHR 0x1F]"
    by code_simp
  then show "is_hex c \<Longrightarrow> c \<noteq> CHR ''_'' \<and> \<not> is_space c" by (auto simp: is_space_def)
qed

lemma mark_value_hex8:
  assumes "0 \<le> n"
  shows "mark_value (''0x'' @ hex8 n) = Some n"
proof -
  let ?z = "replicate (8 - length (hex_text n)) CHR ''0''" and ?t = "''0x'' @ hex8 n"
  have h: "hex8 n = ?z @ hex_text n" using assms by (simp add: hex8_def Let_def)
  have "is_hex CHR ''0''" by code_simp
  then have all: "list_all is_hex (hex8 n)" "hex8 n \<noteq> []"
    using hex_text_value [OF assms] by (auto simp: h list_all_iff)
  have "is_hex (last (hex8 n))" "is_hex (hd (hex8 n))" using all by (simp_all add: list_all_iff)
  then have special: "\<not> is_space (last ?t)" "hd (hex8 n) \<noteq> CHR ''_''" using all(2) hex_not_special by auto
  have st: "strip ?t = ?t" using special(1) by (intro strip_trimmed) (simp_all add: is_space_def)
  have pre: "\<not> starts_with ?t ''-''" "\<not> starts_with ?t ''+''" "starts_with (lower ?t) ''0x''" "\<not> starts_with (hex8 n) ''_''"
    using special(2) all(2) by (auto simp: starts_with_def lower_def lower_char_def) (cases "hex8 n"; simp)
  have "parse_hex_digits 0 False (hex8 n) = Some n"
    using parse_hex_digits_foldl [OF all(1), of False 0] all(2) hex_text_value [OF assms] foldl_zeros unfolding h by metis
  then show ?thesis using pre st unfolding mark_value_def Let_def by simp
qed

lemma mark_value_Nil: "mark_value [] = None"
  by code_simp

lemma derived_mark:
  assumes "mark_value fwmark = Some m" and "0 \<le> m + offset"
  shows "mark_value (derive_mark_hex fwmark offset) = Some (m + offset)"
  using assms mark_value_hex8 [of "m + offset"] by (simp add: derive_mark_hex_def)

section \<open>Terminal chains\<close>

lemma counting_merge:
  assumes "map_err (subject_counters vp) subjects = Inr cs"
  shows "list_all counting (cr_direct (merge_counters cs))" "list_all counting (cr_vpn (merge_counters cs))"
    "list_all counting (cr_direct_rx (merge_counters cs))" "list_all counting (cr_vpn_rx (merge_counters cs))"
proof -
  have one: "list_all counting (cr_direct c) \<and> list_all counting (cr_vpn c) \<and> list_all counting (cr_direct_rx c)
      \<and> list_all counting (cr_vpn_rx c)" if "subject_counters vp s = Inr c" for s c
    using that
    by (auto simp: subject_counters_def counting_def count_rule_def Let_def split: pyval.splits sum.splits option.splits)
  have "list_all (\<lambda>c. list_all counting (cr_direct c) \<and> list_all counting (cr_vpn c) \<and> list_all counting (cr_direct_rx c)
      \<and> list_all counting (cr_vpn_rx c)) cs"
    using assms
  proof (induction subjects arbitrary: cs)
    case (Cons s ss)
    then show ?case using one by (auto split: sum.splits)
  qed simp
  then show "list_all counting (cr_direct (merge_counters cs))" "list_all counting (cr_vpn (merge_counters cs))"
    "list_all counting (cr_direct_rx (merge_counters cs))" "list_all counting (cr_vpn_rx (merge_counters cs))"
    by (auto simp: merge_counters_def list_all_iff)
qed

text \<open>The counters of the arguments only count, and the marks are not empty.\<close>

definition well_built :: "table_args \<Rightarrow> bool" where
  "well_built a =
     (list_all counting (cr_direct (ta_counters a)) \<and> list_all counting (cr_vpn (ta_counters a))
      \<and> list_all counting (cr_direct_rx (ta_counters a)) \<and> list_all counting (cr_vpn_rx (ta_counters a))
      \<and> vp_full_tcp_mark (ta_params a) \<noteq> [])"

lemma built_names [simp]:
  "ch_name (build_prerouting_entry_chain pa) = ''prerouting''"
  "ch_name (build_prerouting_nat_chain f r m fr pol) = ''prerouting_nat''"
  "ch_name (input_chain env vp ss) = ''input''"
  "ch_name (build_output_entry_chain c b g o1 md) = ''output''"
  "ch_name (build_output_nat_chain f r m fr b pol) = ''output_nat''"
  "ch_name (base_chain n h rs) = n" "ch_rules (base_chain n h rs) = rs"
  "ch_name (build_classify_chain md sd re de sc) = ''fwrouter_classify''"
  "ch_name (build_terminal_direct_chain c) = ''fwrouter_direct''"
  "ch_name (build_vpn_mark_chain t f) = ''fwrouter_vpn_mark''"
  "ch_name (build_terminal_vpn_chain n va) = n"
  by (simp_all add: build_prerouting_entry_chain_def build_prerouting_nat_chain_def input_chain_def build_output_entry_chain_def
      build_output_nat_chain_def base_chain_def build_classify_chain_def build_terminal_direct_chain_def build_vpn_mark_chain_def
      build_terminal_vpn_chain_def plain_chain_def Let_def)

lemma find_owned:
  "find_chain (owned_chains env a) ''prerouting'' = Some (build_prerouting_entry_chain (prerouting_args_of env a))"
  "find_chain (owned_chains env a) ''prerouting_nat'' = Some (build_prerouting_nat_chain (vp_fwmark (ta_params a)) (vp_redir (ta_params a))
     (Some (vp_full_tcp_mark (ta_params a))) (vp_full_redir (ta_params a)) (ta_policy a))"
  "find_chain (owned_chains env a) ''input'' = Some (input_chain env (ta_params a) (ta_active a))"
  "find_chain (owned_chains env a) ''output'' = Some (build_output_entry_chain (cr_vpn_rx (ta_counters a)) (vp_bypass_mark (ta_params a))
     (build_disabled_output_guard (ta_active a)) (ta_output a) (ta_mode a))"
  "find_chain (owned_chains env a) ''output_nat'' = Some (build_output_nat_chain (vp_fwmark (ta_params a)) (vp_redir (ta_params a))
     (Some (vp_full_tcp_mark (ta_params a))) (vp_full_redir (ta_params a)) (vp_bypass_mark (ta_params a)) (ta_policy a))"
  "find_chain (owned_chains env a) ''forward'' = Some (base_chain ''forward'' (filter_hook ''forward'' ''filter'')
     (build_disabled_forward_guard (ta_active a) @ cr_direct_rx (ta_counters a)
      @ [NRule [] [NCounter] (Some ''fwrouter_v2 forward global v1'')]))"
  "find_chain (owned_chains env a) ''fwrouter_classify'' = Some (build_classify_chain (ta_mode a)
     (st_selective_default (ta_steering a)) (st_ready (ta_steering a)) (st_degraded (ta_steering a)) (ta_scoped a))"
  "find_chain (owned_chains env a) ''fwrouter_direct'' = Some (build_terminal_direct_chain (cr_direct (ta_counters a)))"
  "find_chain (owned_chains env a) ''fwrouter_vpn'' = Some (build_terminal_vpn_chain ''fwrouter_vpn'' (vpn_chain_args_of a))"
  "find_chain (owned_chains env a) ''fwrouter_vpn_full'' = Some (build_terminal_vpn_chain ''fwrouter_vpn_full'' (full_vpn_chain_args_of a))"
  by (simp_all add: find_chain_def owned_chains_def Let_def)

lemma run_direct:
  assumes "well_built a"
  shows "run_chain (Suc n) (owned_chains env a) ev ''fwrouter_direct'' p = Some (Fall, p)"
proof -
  have "list_all counting (cr_direct (ta_counters a))" using assms by (simp add: well_built_def)
  then show ?thesis
    by (simp add: find_owned build_terminal_direct_chain_def plain_chain_def skip_counting)
qed

text \<open>Exactly one of TCP and UDP: the packets that the VPN can carry.\<close>

definition one_transport :: "valuation \<Rightarrow> bool" where
  "one_transport ev = (ev ''meta l4proto'' ''tcp'' \<noteq> ev ''meta l4proto'' ''udp'')"

definition is_quic :: "valuation \<Rightarrow> bool" where
  "is_quic ev = (ev ''meta l4proto'' ''udp'' \<and> ev ''udp dport'' ''443'')"

lemma run_terminal_vpn:
  assumes "list_all counting (vc_counters va)" and "port_on (vc_tproxy va)"
    and "mark_value (or_text (vc_udp_mark va) (vc_fwmark va)) = Some u"
    and "mark_value (or_text (vc_tcp_mark va) (derive_tcp_redirect_mark_hex (vc_fwmark va))) = Some t"
    and "mark_value (vc_bypass_mark va) \<noteq> Some (pk_mark p)" and "one_transport ev"
  shows "run_rules call ev (ch_rules (build_terminal_vpn_chain name va)) p =
    Some (if is_quic ev then (Rejected, p) else (Fall, p\<lparr>pk_mark := if ev ''meta l4proto'' ''tcp'' then t else u\<rparr>))"
  using assms by (auto simp: build_terminal_vpn_chain_def plain_chain_def skip_counting one_transport_def is_quic_def Let_def)

lemma run_vpn_full:
  assumes "well_built a" and "port_on (vp_full_tproxy (ta_params a))" and "mark_value (vp_full_udp_mark (ta_params a)) = Some u"
    and "mark_value (vp_full_tcp_mark (ta_params a)) = Some t" and "mark_value (vp_bypass_mark (ta_params a)) \<noteq> Some (pk_mark p)"
    and "one_transport ev"
  shows "run_chain (Suc n) (owned_chains env a) ev ''fwrouter_vpn_full'' p =
    Some (if is_quic ev then (Rejected, p) else (Fall, p\<lparr>pk_mark := if ev ''meta l4proto'' ''tcp'' then t else u\<rparr>))"
proof -
  have ne: "vp_full_udp_mark (ta_params a) \<noteq> []" "vp_full_tcp_mark (ta_params a) \<noteq> []"
    using assms(3,4) mark_value_Nil by auto
  have "run_rules call ev (ch_rules (build_terminal_vpn_chain name (full_vpn_chain_args_of a))) p =
      Some (if is_quic ev then (Rejected, p) else (Fall, p\<lparr>pk_mark := if ev ''meta l4proto'' ''tcp'' then t else u\<rparr>))" for call name
    by (rule run_terminal_vpn) (use assms ne in \<open>simp_all add: full_vpn_chain_args_of_def or_text_def well_built_def Let_def\<close>)
  then show ?thesis by (simp add: find_owned)
qed

section \<open>Arriving packets\<close>

text \<open>A mark that is none of those by which the table recognises its own decisions.\<close>

definition fresh_mark :: "vpn_params \<Rightarrow> int \<Rightarrow> bool" where
  "fresh_mark vp mark =
     (mark_value (vp_fwmark vp) \<noteq> Some mark \<and> mark_value (derive_tcp_redirect_mark_hex (vp_fwmark vp)) \<noteq> Some mark
      \<and> mark_value (vp_full_udp_mark vp) \<noteq> Some mark \<and> mark_value (vp_full_tcp_mark vp) \<noteq> Some mark)"

definition entry_guards :: "set_env \<Rightarrow> table_args \<Rightarrow> nft_rule list" where
  "entry_guards env a =
     (let pa = prerouting_args_of env a in prerouting_immunity pa @ lan_guards (pr_lan pa) @ secure_dns_guards (pr_trusted pa))"

lemma judging_guards: "list_all judging (entry_guards env a)"
  by (auto simp: entry_guards_def prerouting_immunity_def lan_guards_def secure_dns_guards_def judging_def list_all_iff Let_def)

abbreviation classify :: "set_env \<Rightarrow> table_args \<Rightarrow> valuation \<Rightarrow> packet_state \<Rightarrow> (verdict \<times> packet_state) option" where
  "classify env a ev p \<equiv> run_chain 2 (owned_chains env a) ev ''fwrouter_classify'' p"

lemma run_prerouting:
  "run_hook (owned_chains env a) ev ''prerouting'' p =
     run_rules (run_chain 2 (owned_chains env a) ev) ev
       (entry_guards env a @ [NRule [] [NJump ''fwrouter_classify''] (Some ''FWRouter global classify'')]
        @ tproxy_rules (prerouting_args_of env a)) p"
  by (simp add: run_hook_def numeral_3_eq_3 numeral_2_eq_2 find_owned build_prerouting_entry_chain_def entry_guards_def Let_def
      del: run_chain.simps) (simp add: find_owned build_prerouting_entry_chain_def)

lemma prerouting_reaches_classify:
  assumes "\<forall>r\<in>set (entry_guards env a). \<not> rule_matches ev p r" and "classify env a ev p = Some (v, q)"
  shows "run_hook (owned_chains env a) ev ''prerouting'' p =
    (if v = Fall then run_rules (run_chain 2 (owned_chains env a) ev) ev (tproxy_rules (prerouting_args_of env a)) q else Some (v, q))"
  unfolding run_prerouting using assms(2) by (cases v) (simp_all add: skip_unmatched [OF assms(1)])

lemma tproxy_fresh:
  assumes "fresh_mark (ta_params a) (pk_mark p)"
  shows "run_rules call ev (tproxy_rules (prerouting_args_of env a)) p = Some (Fall, p)"
  using assms by (auto simp: tproxy_rules_def prerouting_args_of_def fresh_mark_def Let_def)

lemma nat_fresh:
  assumes "well_built a" and "fresh_mark (ta_params a) (pk_mark p)"
  shows "run_hook (owned_chains env a) ev ''prerouting_nat'' p = Some (Fall, p)"
  using assms
  by (auto simp: run_hook_def numeral_3_eq_3 find_owned build_prerouting_nat_chain_def redirect_rule_def full_tcp_mark_def
      or_text_def fresh_mark_def well_built_def)

lemma classify_immune:
  assumes "well_built a" and "\<exists>r\<in>set immune_rules. rule_matches ev p r"
  shows "classify env a ev p = Some (Fall, p)"
proof -
  have "run_rules (run_chain 1 (owned_chains env a) ev) ev (immune_rules @ rest) p = Some (Fall, p)" for rest
    using assms(2) run_direct [OF assms(1), of 0] by (auto simp: immune_rules_def)
  then show ?thesis by (simp add: numeral_2_eq_2 find_owned build_classify_chain_def plain_chain_def)
qed

lemma classify_cases:
  assumes "\<forall>r\<in>set immune_rules. \<not> rule_matches ev p r"
  shows "classify env a ev p = run_rules (run_chain 1 (owned_chains env a) ev) ev
    (ta_scoped a @ mode_rules (ta_mode a) (st_selective_default (ta_steering a)) (st_ready (ta_steering a)) (st_degraded (ta_steering a))) p"
  by (simp add: numeral_2_eq_2 find_owned build_classify_chain_def plain_chain_def skip_unmatched [OF assms])

text \<open>A packet that the classification leaves alone passes unchanged, or is judged by a guard before it.\<close>

lemma ingress_unchanged:
  assumes "well_built a" and "fresh_mark (ta_params a) (pk_mark p)" and "classify env a ev p = Some (Fall, p)"
  shows "\<exists>v. run_ingress (owned_chains env a) ev p = Some (v, p)"
proof -
  let ?rest = "[NRule [] [NJump ''fwrouter_classify''] (Some ''FWRouter global classify'')] @ tproxy_rules (prerouting_args_of env a)"
  have "run_rules (run_chain 2 (owned_chains env a) ev) ev ?rest p = Some (Fall, p)"
    using assms(3) tproxy_fresh [OF assms(2)] by simp
  then have "\<exists>v. run_hook (owned_chains env a) ev ''prerouting'' p = Some (v, p)"
    using judging_prefix [OF judging_guards, of "run_chain 2 (owned_chains env a) ev" ev env a ?rest p] unfolding run_prerouting by auto
  then show ?thesis using nat_fresh [OF assms(1,2)] by (auto simp: run_ingress_def)
qed

end
