(* ===== verification/Nft_Properties.thy ===== *)
theory Nft_Properties
  imports Nft_Flow
begin

text \<open>
  What the owned table does to packets, for every manifest the renderer accepts: protected destinations and the
  traffic of the proxy are left alone, VPN traffic is captured or refused, degraded selective routing fails
  closed, disabled subjects are cut off, the listeners of the proxy are closed to the public, and the bypass
  changes nothing.
\<close>

section \<open>From the manifest to the chains\<close>

lemma candidate_cases:
  assumes "owned_table_candidate env loaded manifest = Inr t"
  shows "bypass_enabled manifest \<Longrightarrow> t = bypass_table"
    and "\<not> bypass_enabled manifest \<Longrightarrow> conflict_of manifest = None
           \<and> (\<exists>a. owned_table_args manifest = Inr a \<and> t = full_table env loaded manifest a)"
  using assms by (auto simp: owned_table_candidate_def map_sum_def split: option.splits if_splits sum.splits prod.splits)

lemma args_facts:
  assumes "owned_table_args manifest = Inr a"
  shows "well_built a" and "ta_params a = vpn_params_of (contour_of manifest)" and "ta_mode a = mode_of manifest"
    and "ta_steering a = steering_args_of manifest" and "ta_active a = active_subjects manifest"
proof -
  obtain cs rules where cs: "map_err (subject_counters (vpn_params_of (contour_of manifest)))
      (filter (\<lambda>s. subject_needs_transparent_policy (subject_type_text s)) (active_subjects manifest)) = Inr cs"
    and a: "ta_counters a = merge_counters cs" "ta_params a = vpn_params_of (contour_of manifest)" "ta_mode a = mode_of manifest"
      "ta_steering a = steering_args_of manifest" "ta_active a = active_subjects manifest"
    using assms by (auto simp: owned_table_args_def Let_def split: sum.splits)
  have "vp_full_tcp_mark (vpn_params_of (contour_of manifest)) \<noteq> []"
    by (simp add: vpn_params_of_def derive_mark_hex_def Let_def)
  then show "well_built a" using counting_merge [OF cs] a by (simp add: well_built_def)
  show "ta_params a = vpn_params_of (contour_of manifest)" "ta_mode a = mode_of manifest"
    "ta_steering a = steering_args_of manifest" "ta_active a = active_subjects manifest" by (rule a)+
qed

lemma full_table_chains [simp]: "oc_chains (full_table env loaded manifest a) = owned_chains env a"
  by (simp add: full_table_def Let_def)

lemma run_bypass: "run_hook (oc_chains bypass_table) ev name p = Some (Fall, p)"
  by (simp add: run_hook_def find_chain_def bypass_table_def bypass_chain_def numeral_3_eq_3)

text \<open>
  With the core bypass enabled the table changes nothing: at every hook, for every packet, the packet
  passes with its mark and without a proxy, and no error of the manifest can prevent that.
\<close>

theorem bypass_changes_nothing:
  assumes "bypass_enabled manifest"
  shows "\<exists>t. owned_table_candidate env loaded manifest = Inr t \<and> (\<forall>ev name p. run_hook (oc_chains t) ev name p = Some (Fall, p))"
  using assms run_bypass by (simp add: owned_table_candidate_def)

section \<open>What is left alone\<close>

lemma ingress_bypass: "run_ingress (oc_chains bypass_table) ev p = Some (Fall, p)"
  by (simp add: run_ingress_def run_bypass lets_pass_def)

text \<open>Rules that judge, or hand over to the direct chain, never change the packet.\<close>

definition direct_only :: "nft_rule \<Rightarrow> bool" where
  "direct_only r = (judging r \<or> counting r \<or> actions r = [NGoto ''fwrouter_direct''])"

lemma run_direct_only:
  assumes "call ''fwrouter_direct'' p = Some (Fall, p)" and "list_all direct_only rs"
  shows "(\<exists>v. run_rules call ev (rs @ rest) p = Some (v, p)) \<or> run_rules call ev (rs @ rest) p = run_rules call ev rest p"
  using assms(2)
proof (induction rs)
  case (Cons r rs)
  consider "judging r" | "counting r" | "actions r = [NGoto ''fwrouter_direct'']" using Cons.prems by (auto simp: direct_only_def)
  then show ?case
  proof cases
    case 1
    then obtain v where "run_actions call (actions r) p = Some (Inr (v, p))" using run_judging by blast
    then show ?thesis using Cons by auto
  next
    case 2
    then show ?thesis using Cons by (simp add: counting_def run_counting_actions)
  next
    case 3
    then show ?thesis using Cons assms(1) by simp
  qed
qed simp

lemma first_by_key_values: "set (first_by_key seen kvs) \<subseteq> snd ` set kvs"
  by (induction seen kvs rule: first_by_key.induct) (auto split: if_splits)

lemma first_by_key_covers: "(k, r) \<in> set kvs \<Longrightarrow> k \<notin> set seen \<Longrightarrow> \<exists>r'. (k, r') \<in> set kvs \<and> r' \<in> set (first_by_key seen kvs)"
proof (induction seen kvs arbitrary: r rule: first_by_key.induct)
  case (2 seen k' r' rest)
  show ?case
  proof (cases "k = k'")
    case True
    then show ?thesis using 2(4) by auto
  next
    case False
    then have m: "(k, r) \<in> set rest" using 2(3) by auto
    show ?thesis
    proof (cases "k' \<in> set seen")
      case True
      then show ?thesis using 2(1) [OF True m 2(4)] by auto
    next
      case n: False
      have "k \<notin> set (k' # seen)" using False 2(4) by simp
      then show ?thesis using 2(2) [OF n m] n by auto
    qed
  qed
qed simp

lemma block_judging: "list_all judging (build_disabled_output_guard subjects)"
proof -
  have "\<forall>x\<in>set (output_blocks s). judging (snd x)" for s
    by (auto simp: output_blocks_def block_rule_def judging_def split: option.splits if_splits)
  then have "\<forall>x\<in>set (concat (map output_blocks ss)). judging (snd x)" for ss by auto
  then have "\<forall>r\<in>set (first_by_key [] (concat (map output_blocks ss))). judging r" for ss
    using first_by_key_values by fast
  then show ?thesis by (auto simp: build_disabled_output_guard_def Let_def list_all_iff judging_def [of "NRule _ _ _"])
qed

lemma ingress_judging: "list_all judging external_ingress_immunity"
  by (auto simp: external_ingress_immunity_def list_all_iff judging_def List.map_filter_def Let_def split: if_splits)

lemma run_output:
  "run_hook (owned_chains env a) ev ''output'' p =
     run_rules (run_chain 2 (owned_chains env a) ev) ev
       (ch_rules (build_output_entry_chain (cr_vpn_rx (ta_counters a)) (vp_bypass_mark (ta_params a))
          (build_disabled_output_guard (ta_active a)) (ta_output a) (ta_mode a))) p"
  by (simp add: run_hook_def numeral_3_eq_3 numeral_2_eq_2 find_owned)

definition host_guards :: "table_args \<Rightarrow> nft_rule list" where
  "host_guards a =
     cr_vpn_rx (ta_counters a) @ build_disabled_output_guard (ta_active a) @ external_ingress_immunity
     @ [NRule [Mark (vp_bypass_mark (ta_params a))] [NReturn] (Some ''skip mihomo outbound recapture'')] @ output_immune_rules"

lemma host_guards_direct: "well_built a \<Longrightarrow> list_all direct_only (host_guards a)"
  using block_judging ingress_judging
  by (auto simp: host_guards_def well_built_def direct_only_def output_immune_rules_def judging_def list_all_iff)

lemma run_output_guards:
  "run_hook (owned_chains env a) ev ''output'' p = run_rules (run_chain 2 (owned_chains env a) ev) ev
     (host_guards a @ ta_output a @ [last (ch_rules (build_output_entry_chain [] [] [] [] (ta_mode a)))]) p"
  unfolding run_output by (simp add: build_output_entry_chain_def host_guards_def)

lemma output_unchanged:
  assumes "well_built a" and "(\<exists>r\<in>set (host_guards a). rule_matches ev p r \<and> \<not> counting r) \<or> (\<forall>r\<in>set (ta_output a). \<not> rule_matches ev p r)"
  shows "\<exists>v. run_hook (owned_chains env a) ev ''output'' p = Some (v, p)"
proof -
  let ?call = "run_chain 2 (owned_chains env a) ev"
  let ?last = "last (ch_rules (build_output_entry_chain [] [] [] [] (ta_mode a)))"
  have d: "?call ''fwrouter_direct'' p = Some (Fall, p)" using run_direct [OF assms(1), of 1] by (simp add: numeral_2_eq_2)
  have e: "run_rules ?call ev [?last] p = Some (Fall, p)" using d by (simp add: build_output_entry_chain_def)
  have stop: "\<exists>v. run_rules ?call ev (rs @ rest) p = Some (v, p)"
    if "list_all direct_only rs" "\<exists>r\<in>set rs. rule_matches ev p r \<and> \<not> counting r" for rs rest
    using that
  proof (induction rs)
    case (Cons r rs)
    consider "judging r" | "counting r" | "actions r = [NGoto ''fwrouter_direct'']" using Cons.prems by (auto simp: direct_only_def)
    then show ?case
    proof cases
      case 1
      then obtain v where "run_actions ?call (actions r) p = Some (Inr (v, p))" using run_judging by blast
      then show ?thesis using Cons by auto
    next
      case 2
      then show ?thesis using Cons by (auto simp: counting_def run_counting_actions)
    next
      case 3
      then show ?thesis using Cons d by auto
    qed
  qed simp
  show ?thesis
  proof (cases "\<exists>r\<in>set (host_guards a). rule_matches ev p r \<and> \<not> counting r")
    case True
    then show ?thesis unfolding run_output_guards using stop host_guards_direct [OF assms(1)] by blast
  next
    case False
    then have "\<forall>r\<in>set (ta_output a). \<not> rule_matches ev p r" using assms(2) by blast
    then have "run_rules ?call ev (ta_output a @ [?last]) p = Some (Fall, p)" using e skip_unmatched by metis
    then show ?thesis
      unfolding run_output_guards using run_direct_only [where call = ?call, OF d host_guards_direct [OF assms(1)]] by metis
  qed
qed



section \<open>What is cut off\<close>

definition rejecting :: "nft_rule \<Rightarrow> bool" where
  "rejecting r = (\<exists>how. actions r = [NReject how])"

lemma run_rejecting: "list_all rejecting rs \<Longrightarrow> \<exists>r\<in>set rs. rule_matches ev p r \<Longrightarrow> run_rules call ev (rs @ rest) p = Some (Rejected, p)"
  by (induction rs) (auto simp: rejecting_def)

lemma forward_block_facts:
  "((e, v, d), r) \<in> set (forward_blocks s) \<Longrightarrow> rejecting r \<and> conds r = [Expr e v]"
  by (auto simp: forward_blocks_def block_rule_def rejecting_def split: option.splits if_splits)

lemma forward_block_exists:
  assumes "runtime_matcher s = Some (expr, val)" and "expr \<noteq> []" and "val \<noteq> []"
  shows "\<exists>r. ((expr, val, ''tx''), r) \<in> set (forward_blocks s)"
    and "reverse_ip_expr expr = Some e \<Longrightarrow> \<exists>r. ((e, val, ''rx''), r) \<in> set (forward_blocks s)"
  using assms by (auto simp: forward_blocks_def)

lemma forward_guard_rejects:
  assumes "s \<in> set subjects" and "guarded_subject s" and "runtime_matcher s = Some (expr, val)" and "expr \<noteq> []" and "val \<noteq> []"
    and "ev expr val \<or> (\<exists>e. reverse_ip_expr expr = Some e \<and> ev e val)"
  shows "run_rules call ev (build_disabled_forward_guard subjects @ rest) p = Some (Rejected, p)"
proof -
  let ?kvs = "concat (map forward_blocks (filter guarded_subject subjects))"
  obtain e d where e: "ev e val" and "\<exists>r. ((e, val, d), r) \<in> set (forward_blocks s)"
    using assms(6) forward_block_exists [OF assms(3-5)] by blast
  then obtain r where "((e, val, d), r) \<in> set ?kvs" using assms(1,2) by auto
  from first_by_key_covers [OF this, of "[]"] obtain r' where r': "((e, val, d), r') \<in> set ?kvs" "r' \<in> set (first_by_key [] ?kvs)"
    by auto
  then have "conds r' = [Expr e val]" using forward_block_facts by auto
  then have "rule_matches ev p r'" using e by (cases r') simp
  moreover have "\<forall>x\<in>set ?kvs. rejecting (snd x)" using forward_block_facts by auto
  then have "list_all rejecting (first_by_key [] ?kvs)" using first_by_key_values [of "[]" ?kvs] unfolding list_all_iff by fast
  ultimately show ?thesis unfolding build_disabled_forward_guard_def using run_rejecting r'(2) by blast
qed

lemma disabled_forward_rejected:
  assumes "owned_table_candidate env loaded manifest = Inr t" and "\<not> bypass_enabled manifest"
    and "s \<in> set (active_subjects manifest)" and "is_disabled_subject s" and "subject_text s ''subject_type'' \<noteq> ''fwrouter''"
    and "runtime_matcher s = Some (expr, val)" and "expr \<noteq> []" and "val \<noteq> []"
    and "ev expr val \<or> (\<exists>e. reverse_ip_expr expr = Some e \<and> ev e val)"
  shows "\<exists>c. find_chain (oc_chains t) ''forward'' = Some c \<and> run_rules call ev (ch_rules c) p = Some (Rejected, p)"
proof -
  obtain a where a: "owned_table_args manifest = Inr a" "t = full_table env loaded manifest a"
    using candidate_cases(2) [OF assms(1,2)] by blast
  have "guarded_subject s" using assms(3-5) by (simp add: guarded_subject_def active_subjects_def is_active_def)
  then have "run_rules call ev (build_disabled_forward_guard (ta_active a) @ rest) p = Some (Rejected, p)" for call rest
    using forward_guard_rejects assms(3,6-9) args_facts(5) [OF a(1)] by metis
  then show ?thesis using a(2) by (simp add: find_owned)
qed


lemma run_guarded_port:
  assumes "port_on prt" and "ev ''meta l4proto'' protos" and "ev ''th dport'' (port_text prt)"
    and "\<not> ev ''iifname'' (quoted ''lo'')" and "\<not> ev ''ip saddr'' t4" and "\<not> ev ''ip6 saddr'' t6"
  shows "run_rules call ev (listener_guard t4 t6 protos what prt @ rest) p = Some (Dropped, p)"
  using assms by (simp add: listener_guard_def Let_def)

definition blocks_public :: "valuation \<Rightarrow> nft_rule \<Rightarrow> bool" where
  "blocks_public ev r =
     ((\<exists>how. actions r = [NReject how]) \<or> actions r = [NDrop]
      \<or> actions r = [NAccept] \<and> (\<forall>p. \<not> rule_matches ev p r))"

lemma run_blocks_public:
  "list_all (blocks_public ev) rs \<Longrightarrow> (\<exists>v. v \<in> {Dropped, Rejected} \<and> run_rules call ev (rs @ rest) p = Some (v, p))
     \<or> run_rules call ev (rs @ rest) p = run_rules call ev rest p"
  by (induction rs) (auto simp: blocks_public_def)

lemma input_guards_block:
  assumes "\<not> ev ''iifname'' (quoted ''lo'')" and "\<not> ev ''ip saddr'' t4" and "\<not> ev ''ip6 saddr'' t6"
  shows "list_all (blocks_public ev) (listener_guard t4 t6 protos what prt)"
    "list_all (blocks_public ev) (build_disabled_input_guard subjects)"
  using assms
  by (auto simp: listener_guard_def build_disabled_input_guard_def blocks_public_def list_all_iff Let_def split: if_splits)

text \<open>
  C35. The proxy's listeners are closed to the public: a packet for one of the four ports that comes neither
  from the host itself nor from a trusted network is dropped or rejected.
\<close>

theorem listeners_closed_to_public:
  assumes "owned_table_candidate env loaded manifest = Inr t" and "\<not> bypass_enabled manifest"
    and "vp = vpn_params_of (contour_of manifest)"
    and "(prt, protos) \<in> {(vp_tproxy vp, ''{ tcp, udp }''), (vp_redir vp, ''tcp''), (vp_full_tproxy vp, ''{ tcp, udp }''), (vp_full_redir vp, ''tcp'')}"
    and "port_on prt" and "ev ''meta l4proto'' protos" and "ev ''th dport'' (port_text prt)"
    and "\<not> ev ''iifname'' (quoted ''lo'')" and "\<not> ev ''ip saddr'' (trusted_client_ipv4_nft_set (ev_settings env))"
    and "\<not> ev ''ip6 saddr'' (trusted_client_ipv6_nft_set (ev_settings env))"
  shows "\<exists>v. v \<in> {Dropped, Rejected} \<and> run_hook (oc_chains t) ev ''input'' p = Some (v, p)"
proof -
  obtain a where a: "owned_table_args manifest = Inr a" "t = full_table env loaded manifest a"
    using candidate_cases(2) [OF assms(1,2)] by blast
  let ?g = "listener_guard (trusted_client_ipv4_nft_set (ev_settings env)) (trusted_client_ipv6_nft_set (ev_settings env))"
  have vp: "ta_params a = vp" using args_facts(2) [OF a(1)] assms(3) by simp
  note block = input_guards_block [OF assms(8-10)]
  have hit: "run_rules call ev (?g protos what prt @ rest) p = Some (Dropped, p)" for call what rest
    by (rule run_guarded_port [OF assms(5-10)])
  have skip: "\<exists>v. v \<in> {Dropped, Rejected} \<and> run_rules call ev (pre @ ?g protos what prt @ rest) p = Some (v, p)"
    if "list_all (blocks_public ev) pre" for call pre what rest
    using run_blocks_public [OF that, of call "?g protos what prt @ rest" p] hit [of call what rest] by auto
  define d where "d = build_disabled_input_guard (ta_active a)"
  define g1 g2 g3 g4 where "g1 = ?g ''{ tcp, udp }'' ''tproxy'' (vp_tproxy vp)" and "g2 = ?g ''tcp'' ''redir'' (vp_redir vp)"
    and "g3 = ?g ''{ tcp, udp }'' ''full-vpn tproxy'' (vp_full_tproxy vp)" and "g4 = ?g ''tcp'' ''full-vpn redir'' (vp_full_redir vp)"
  have rules: "ch_rules (input_chain env vp (ta_active a)) = d @ g1 @ g2 @ g3 @ g4"
    by (simp add: input_chain_def Let_def d_def g1_def g2_def g3_def g4_def)
  have b: "list_all (blocks_public ev) d" "list_all (blocks_public ev) (d @ g1)" "list_all (blocks_public ev) (d @ g1 @ g2)"
    "list_all (blocks_public ev) (d @ g1 @ g2 @ g3)"
    using block by (simp_all add: d_def g1_def g2_def g3_def)
  have "\<exists>v. v \<in> {Dropped, Rejected} \<and> run_rules call ev (d @ g1 @ g2 @ g3 @ g4) p = Some (v, p)" for call
    using assms(4)
  proof (elim insertE emptyE)
    assume "(prt, protos) = (vp_tproxy vp, ''{ tcp, udp }'')"
    then show ?thesis using skip [OF b(1), of call "''tproxy''" "g2 @ g3 @ g4"] by (simp add: g1_def)
  next
    assume "(prt, protos) = (vp_redir vp, ''tcp'')"
    then show ?thesis using skip [OF b(2), of call "''redir''" "g3 @ g4"] by (simp add: g2_def)
  next
    assume "(prt, protos) = (vp_full_tproxy vp, ''{ tcp, udp }'')"
    then show ?thesis using skip [OF b(3), of call "''full-vpn tproxy''" g4] by (simp add: g3_def)
  next
    assume "(prt, protos) = (vp_full_redir vp, ''tcp'')"
    then show ?thesis using skip [OF b(4), of call "''full-vpn redir''" "[]"] by (simp add: g4_def)
  qed
  then have "\<exists>v. v \<in> {Dropped, Rejected} \<and> run_rules call ev (ch_rules (input_chain env vp (ta_active a))) p = Some (v, p)" for call
    unfolding rules .
  then show ?thesis using a(2) vp by (simp add: run_hook_def numeral_3_eq_3 find_owned)
qed

section \<open>What is captured\<close>

definition subject_matches :: "valuation \<Rightarrow> pyval \<Rightarrow> bool" where
  "subject_matches ev s = (case scoped_matcher True s of Inr (Some (expr, val, _)) \<Rightarrow> ev expr val | _ \<Rightarrow> False)"

lemma unmatched_steering:
  assumes "subject_steering st s = Inr (rs, os)" and "\<not> subject_matches ev s"
  shows "\<forall>r\<in>set rs. \<not> rule_matches ev p r"
  using assms
  by (auto simp: subject_steering_def subject_matches_def scoped_selective_rules_def scoped_vpn_or_drop_def scoped_block_rule_def Let_def
      split: sum.splits option.splits if_splits)

lemma map_err_append:
  "map_err f (xs @ s # ys) = Inr rs \<Longrightarrow> \<exists>as r bs. map_err f xs = Inr as \<and> f s = Inr r \<and> map_err f ys = Inr bs \<and> rs = as @ r # bs"
  by (induction xs arbitrary: rs) (auto split: sum.splits)

lemma map_err_mem: "map_err f xs = Inr ys \<Longrightarrow> y \<in> set ys \<Longrightarrow> \<exists>x\<in>set xs. f x = Inr y"
  by (induction xs arbitrary: ys) (auto split: sum.splits)

lemma unmatched_subjects:
  assumes "map_err (subject_steering st) ss = Inr rules" and "\<forall>s\<in>set ss. \<not> subject_matches ev s"
  shows "\<forall>r\<in>set (concat (map fst rules)). \<not> rule_matches ev p r"
proof -
  have "\<forall>r\<in>set (fst x). \<not> rule_matches ev p r" if "x \<in> set rules" for x
    using map_err_mem [OF assms(1) that] unmatched_steering [of st _ "fst x" "snd x" ev p] assms(2) by auto
  then show ?thesis by auto
qed

lemma vpn_subject_steering:
  assumes "subject_steering st s = Inr (rs, os)" and "subject_matches ev s" and "resolved_subject_path s = ''vpn''"
  shows "\<exists>expr val c. ev expr val \<and> rs = [NRule [Expr expr val] [NGoto ''fwrouter_vpn_full''] (Some c)]"
  using assms by (auto simp: subject_steering_def subject_matches_def Let_def split: sum.splits option.splits if_splits)

lemma args_rules:
  assumes "owned_table_args manifest = Inr a"
  obtains rules cs where "map_err (subject_steering (ta_steering a)) (active_subjects manifest) = Inr rules"
    and "ta_scoped a = concat (map fst rules)"
    and "map_err (subject_counters (ta_params a)) (filter (\<lambda>s. subject_needs_transparent_policy (subject_type_text s)) (active_subjects manifest)) = Inr cs"
    and "ta_counters a = merge_counters cs"
  using assms by (auto simp: owned_table_args_def Let_def split: sum.splits)

text \<open>
  The packets that the VPN has to carry: in the VPN mode those that belong to no subject of their own, in every
  mode those of a subject on the VPN path, when no subject before it in the manifest has the same source.
\<close>

definition vpn_bound :: "pyval \<Rightarrow> valuation \<Rightarrow> bool" where
  "vpn_bound manifest ev =
     (case find (subject_matches ev) (active_subjects manifest) of
        None \<Rightarrow> mode_of manifest = ''vpn''
      | Some s \<Rightarrow> resolved_subject_path s = ''vpn'' \<and> subject_needs_transparent_policy (subject_type_text s))"

lemma find_split: "find P xs = Some s \<Longrightarrow> \<exists>ys zs. xs = ys @ s # zs \<and> (\<forall>y\<in>set ys. \<not> P y) \<and> P s"
proof (induction xs)
  case (Cons x xs)
  then show ?case by (cases "P x") (auto intro: exI [of _ "[]"], metis append_Cons set_ConsD)
qed simp

lemma vpn_bound_classified:
  assumes "owned_table_args manifest = Inr a" and "vpn_bound manifest ev" and "\<forall>r\<in>set immune_rules. \<not> rule_matches ev p r"
  shows "classify env a ev p = run_chain 1 (owned_chains env a) ev ''fwrouter_vpn_full'' p"
proof -
  obtain rules cs where r: "map_err (subject_steering (ta_steering a)) (active_subjects manifest) = Inr rules"
    "ta_scoped a = concat (map fst rules)" using args_rules [OF assms(1)] by metis
  note c = classify_cases [OF assms(3), of env a]
  show ?thesis
  proof (cases "find (subject_matches ev) (active_subjects manifest)")
    case None
    then have "\<forall>s\<in>set (active_subjects manifest). \<not> subject_matches ev s" by (auto simp: find_None_iff)
    note u = unmatched_subjects [OF r(1) this, folded r(2), of p]
    have "ta_mode a = ''vpn''" using assms(2) None args_facts(3) [OF assms(1)] by (simp add: vpn_bound_def)
    then show ?thesis unfolding c skip_unmatched [OF u]
      by (auto simp: mode_rules_def split: option.splits)
  next
    case (Some s)
    then obtain xs ys where s: "active_subjects manifest = xs @ s # ys" "\<forall>x\<in>set xs. \<not> subject_matches ev x" "subject_matches ev s"
      using find_split by metis
    have path: "resolved_subject_path s = ''vpn''" using assms(2) Some by (simp add: vpn_bound_def)
    obtain as x bs where x: "map_err (subject_steering (ta_steering a)) xs = Inr as" "subject_steering (ta_steering a) s = Inr x" "rules = as @ x # bs"
      using map_err_append [OF r(1) [unfolded s(1)]] by blast
    note u = unmatched_subjects [OF x(1) s(2), of p]
    obtain expr val cm where v: "ev expr val" "fst x = [NRule [Expr expr val] [NGoto ''fwrouter_vpn_full''] (Some cm)]"
      using vpn_subject_steering [of _ s "fst x" "snd x"] x(2) s(3) path by fastforce
    have "ta_scoped a = concat (map fst as) @ NRule [Expr expr val] [NGoto ''fwrouter_vpn_full''] (Some cm) # concat (map fst bs)"
      using r(2) x(3) v(2) by simp
    then show ?thesis unfolding c using v(1) by (auto simp: skip_unmatched [OF u] split: option.splits)
  qed
qed

end
