(* ===== verification/Nft_Capture.thy ===== *)
theory Nft_Capture
  imports Nft_Properties
begin

text \<open>
  The positive side of the owned table: traffic that belongs to the VPN is handed to the proxy or refused,
  degraded selective routing drops what it cannot carry, containers on the VPN path are told apart from the
  infrastructure, and what the address sets contain.
\<close>

section \<open>Handing over to the proxy\<close>

lemma counters_of_owner:
  assumes "owned_table_args manifest = Inr a" and "s \<in> set (active_subjects manifest)" and "subject_matches ev s"
    and "subject_needs_transparent_policy (subject_type_text s)"
  shows "cr_vpn (ta_counters a) \<noteq> []"
proof -
  obtain rules cs where cs: "map_err (subject_counters (ta_params a))
      (filter (\<lambda>s. subject_needs_transparent_policy (subject_type_text s)) (active_subjects manifest)) = Inr cs"
    "ta_counters a = merge_counters cs" using args_rules [OF assms(1)] by metis
  have "s \<in> set (filter (\<lambda>s. subject_needs_transparent_policy (subject_type_text s)) (active_subjects manifest))" using assms(2,4) by simp
  then obtain ys zs where "filter (\<lambda>s. subject_needs_transparent_policy (subject_type_text s)) (active_subjects manifest) = ys @ s # zs"
    using split_list by fastforce
  then obtain c where c: "subject_counters (ta_params a) s = Inr c" "c \<in> set cs" using map_err_append cs(1) by force
  have "cr_vpn c \<noteq> []"
    using c(1) assms(3)
    by (auto simp: subject_counters_def subject_matches_def scoped_matcher_def Let_def split: pyval.splits sum.splits option.splits if_splits)
  then show ?thesis using c(2) cs(2) by (auto simp: merge_counters_def)
qed

lemma steering_active:
  assumes "owned_table_args manifest = Inr a" and "vpn_bound manifest ev"
  shows "ta_mode a = ''vpn'' \<or> cr_vpn (ta_counters a) \<noteq> []"
proof (cases "find (subject_matches ev) (active_subjects manifest)")
  case None
  then show ?thesis using assms args_facts(3) [OF assms(1)] by (simp add: vpn_bound_def)
next
  case (Some s)
  then show ?thesis using counters_of_owner [OF assms(1), of s ev] assms(2) find_split [OF Some] by (auto simp: vpn_bound_def)
qed

lemma tproxy_handover:
  assumes "ta_mode a = ''vpn'' \<or> cr_vpn (ta_counters a) \<noteq> []" and "port_on (vp_full_tproxy (ta_params a))"
    and "mark_value (vp_fwmark (ta_params a)) \<noteq> Some (pk_mark p)" and "mark_value (vp_full_udp_mark (ta_params a)) = Some (pk_mark p)"
    and "ev ''meta l4proto'' ''udp''"
  shows "run_rules call ev (tproxy_rules (prerouting_args_of env a)) p
    = Some (Accepted, p\<lparr>pk_tproxy := Some (port_text (vp_full_tproxy (ta_params a)))\<rparr>)"
  using assms by (auto simp: tproxy_rules_def prerouting_args_of_def Let_def)

lemma tproxy_not_udp:
  "\<not> ev ''meta l4proto'' ''udp'' \<Longrightarrow> run_rules call ev (tproxy_rules (prerouting_args_of env a)) p = Some (Fall, p)"
  by (simp add: tproxy_rules_def Let_def)

lemma nat_redirect:
  assumes "well_built a" and "port_on (vp_full_redir (ta_params a))" and "ev ''meta l4proto'' ''tcp''"
    and "mark_value (derive_tcp_redirect_mark_hex (vp_fwmark (ta_params a))) \<noteq> Some (pk_mark p)"
    and "mark_value (vp_full_tcp_mark (ta_params a)) = Some (pk_mark p)"
  shows "run_hook (owned_chains env a) ev ''prerouting_nat'' p
    = Some (Accepted, p\<lparr>pk_redirect := Some (port_text (vp_full_redir (ta_params a)))\<rparr>)"
  using assms
  by (auto simp: run_hook_def numeral_3_eq_3 find_owned build_prerouting_nat_chain_def redirect_rule_def full_tcp_mark_def
      or_text_def well_built_def)

lemma nat_not_tcp:
  "\<not> ev ''meta l4proto'' ''tcp'' \<Longrightarrow> run_hook (owned_chains env a) ev ''prerouting_nat'' p = Some (Fall, p)"
  by (simp add: run_hook_def numeral_3_eq_3 find_owned build_prerouting_nat_chain_def redirect_rule_def)

lemma vpn_marks:
  assumes "mark_value (vp_fwmark (vpn_params_of c)) = Some m" and "0 \<le> m"
  shows "mark_value (derive_tcp_redirect_mark_hex (vp_fwmark (vpn_params_of c))) = Some (m + 1)"
    and "mark_value (vp_full_udp_mark (vpn_params_of c)) = Some (m + 2)" and "mark_value (vp_full_tcp_mark (vpn_params_of c)) = Some (m + 3)"
proof -
  have "vp_full_udp_mark (vpn_params_of c) = derive_mark_hex (vp_fwmark (vpn_params_of c)) 2"
    "vp_full_tcp_mark (vpn_params_of c) = derive_mark_hex (vp_fwmark (vpn_params_of c)) 3"
    by (simp_all add: vpn_params_of_def Let_def)
  then show "mark_value (derive_tcp_redirect_mark_hex (vp_fwmark (vpn_params_of c))) = Some (m + 1)"
    "mark_value (vp_full_udp_mark (vpn_params_of c)) = Some (m + 2)" "mark_value (vp_full_tcp_mark (vpn_params_of c)) = Some (m + 3)"
    unfolding derive_tcp_redirect_mark_hex_def using derived_mark [OF assms(1)] assms(2) by simp_all
qed

text \<open>
  VPN traffic never leaves directly. A TCP or UDP packet that belongs to the VPN, by the mode or as a packet
  of a subject on the VPN path, and that no guard at the entry and no immunity exempts, is handed to the proxy:
  TCP is redirected to the full-VPN port, UDP is given to the transparent proxy, and QUIC is rejected so that
  the client falls back to TCP.
\<close>

theorem vpn_traffic_is_captured:
  assumes "owned_table_candidate env loaded manifest = Inr t" and "\<not> bypass_enabled manifest" and "owned_table_args manifest = Inr a"
    and "vp = vpn_params_of (contour_of manifest)" and "mark_value (vp_fwmark vp) = Some m" and "0 \<le> m"
    and "port_on (vp_full_tproxy vp)" and "port_on (vp_full_redir vp)"
    and "\<forall>r\<in>set (entry_guards env a @ immune_rules). \<not> rule_matches ev p r"
    and "vpn_bound manifest ev" and "one_transport ev"
  shows "run_ingress (oc_chains t) ev p = Some
    (if is_quic ev then (Rejected, p)
     else if ev ''meta l4proto'' ''tcp'' then (Accepted, p\<lparr>pk_mark := m + 3, pk_redirect := Some (port_text (vp_full_redir vp))\<rparr>)
     else (Fall, p\<lparr>pk_mark := m + 2, pk_tproxy := Some (port_text (vp_full_tproxy vp))\<rparr>))"
proof -
  have t: "oc_chains t = owned_chains env a" using candidate_cases(2) [OF assms(1,2)] assms(3) by auto
  note f = args_facts [OF assms(3)]
  have vp: "ta_params a = vp" using f(2) assms(4) by simp
  note m = vpn_marks [of "contour_of manifest", folded assms(4), OF assms(5,6)]
  have guards: "\<forall>r\<in>set (entry_guards env a). \<not> rule_matches ev p r" and immune: "\<forall>r\<in>set immune_rules. \<not> rule_matches ev p r"
    using assms(9) by auto
  have b: "mark_value (vp_bypass_mark vp) \<noteq> Some (pk_mark p)"
    using guards vp by (auto simp: entry_guards_def prerouting_immunity_def prerouting_args_of_def Let_def)
  let ?q = "p\<lparr>pk_mark := if ev ''meta l4proto'' ''tcp'' then m + 3 else m + 2\<rparr>"
  have c: "classify env a ev p = Some (if is_quic ev then (Rejected, p) else (Fall, ?q))"
    unfolding vpn_bound_classified [OF assms(3,10) immune]
    using run_vpn_full [OF f(1), of "m + 2" "m + 3" p ev 0 env] assms(7,11) m b vp by simp
  show ?thesis
  proof (cases "is_quic ev")
    case True
    then show ?thesis using prerouting_reaches_classify [OF guards, of Rejected p] c t by (simp add: run_ingress_def lets_pass_def)
  next
    case False
    have pre: "run_hook (owned_chains env a) ev ''prerouting'' p
        = run_rules (run_chain 2 (owned_chains env a) ev) ev (tproxy_rules (prerouting_args_of env a)) ?q"
      using prerouting_reaches_classify [OF guards, of Fall ?q] c False by simp
    show ?thesis
    proof (cases "ev ''meta l4proto'' ''tcp''")
      case True
      then have "\<not> ev ''meta l4proto'' ''udp''" using assms(11) by (simp add: one_transport_def)
      then show ?thesis
        using pre True False t tproxy_not_udp nat_redirect [OF f(1), of ev ?q env] assms(8) m vp
        by (simp add: run_ingress_def lets_pass_def)
    next
      case n: False
      then have "ev ''meta l4proto'' ''udp''" using assms(11) by (simp add: one_transport_def)
      then show ?thesis
        using pre n False t tproxy_handover [OF steering_active [OF assms(3,10)], of ?q ev] nat_not_tcp [of ev env a] assms(5,7) m vp
        by (simp add: run_ingress_def lets_pass_def)
    qed
  qed
qed

text \<open>
  C4. Degraded selective routing fails closed. While the VPN path of the selective mode is not ready, a packet
  for a destination of the VPN lists, or for any other destination when the VPN is the default, is dropped: it
  does not leave directly, unless a direct list names its destination.
\<close>

theorem degraded_selective_fails_closed:
  assumes "owned_table_candidate env loaded manifest = Inr t" and "\<not> bypass_enabled manifest" and "owned_table_args manifest = Inr a"
    and "mode_of manifest = ''selective''" and "\<not> truthy (get_in (get_in manifest ''global_preflight'') ''selective_vpn_policy_ready'')"
    and "\<forall>r\<in>set (entry_guards env a @ immune_rules). \<not> rule_matches ev p r"
    and "\<forall>s\<in>set (active_subjects manifest). \<not> subject_matches ev s"
    and "\<not> ev ''ip daddr'' ''@direct_ipv4''" and "\<not> ev ''ip daddr'' ''@dns_direct_ipv4''" and "\<not> ev ''ip6 daddr'' ''@direct_ipv6''"
    and "ev ''ip daddr'' ''@vpn_ipv4'' \<or> ev ''ip daddr'' ''@dns_vpn_ipv4'' \<or> ev ''ip6 daddr'' ''@vpn_ipv6''
           \<or> st_selective_default (steering_args_of manifest) = ''vpn''"
  shows "run_ingress (oc_chains t) ev p = Some (Dropped, p)"
proof -
  have t: "oc_chains t = owned_chains env a" using candidate_cases(2) [OF assms(1,2)] assms(3) by auto
  note f = args_facts [OF assms(3)]
  obtain rules cs where r: "map_err (subject_steering (ta_steering a)) (active_subjects manifest) = Inr rules"
    "ta_scoped a = concat (map fst rules)" using args_rules [OF assms(3)] by metis
  have guards: "\<forall>r\<in>set (entry_guards env a). \<not> rule_matches ev p r" and immune: "\<forall>r\<in>set immune_rules. \<not> rule_matches ev p r"
    using assms(6) by auto
  note u = unmatched_subjects [OF r(1) assms(7), folded r(2), of p]
  have ready: "\<not> st_ready (ta_steering a)" "ta_mode a = ''selective''" "ta_steering a = steering_args_of manifest"
    using assms(4,5) f(3,4) by (simp_all add: steering_args_of_def Let_def)
  have "classify env a ev p = Some (Dropped, p)"
    unfolding classify_cases [OF immune] skip_unmatched [OF u]
    using assms(8-11) ready by (auto simp: mode_rules_def selective_rules_def selective_default_rules_def vpn_or_drop_def)
  then show ?thesis using prerouting_reaches_classify [OF guards, of Dropped p] t by (simp add: run_ingress_def lets_pass_def)
qed

end
