(* ===== verification/Nft_Policy.thy ===== *)
theory Nft_Policy
  imports Nft_Capture
begin

text \<open>
  What the owned table is for, as a specification of its own: the first subject that owns a packet decides
  about it, and where there is none the global mode does. A packet is left alone, captured for the full VPN or
  for the selective proxy, or refused. The chains of every manifest refine this specification.
\<close>

section \<open>The specification\<close>

datatype fate = Leave | Capture bool | Refuse verdict

definition vpn_fate :: "steering_args \<Rightarrow> bool \<Rightarrow> fate" where
  "vpn_fate st full = (if st_ready st then Capture full else Refuse Dropped)"

definition default_fate :: "steering_args \<Rightarrow> bool \<Rightarrow> fate" where
  "default_fate st full = (if st_selective_default st = ''vpn'' then vpn_fate st full else Leave)"

definition listed_fate :: "steering_args \<Rightarrow> bool \<Rightarrow> bool \<Rightarrow> bool \<Rightarrow> fate" where
  "listed_fate st direct vpn full =
     (if direct then Leave else if vpn then vpn_fate st False else default_fate st full)"

definition global_fate :: "steering_args \<Rightarrow> string \<Rightarrow> valuation \<Rightarrow> fate" where
  "global_fate st mode ev =
     (if mode = ''vpn'' then Capture True
      else if mode = ''selective''
      then listed_fate st (ev ''ip daddr'' ''@direct_ipv4'' \<or> ev ''ip daddr'' ''@dns_direct_ipv4'' \<or> ev ''ip6 daddr'' ''@direct_ipv6'')
             (ev ''ip daddr'' ''@vpn_ipv4'' \<or> ev ''ip daddr'' ''@dns_vpn_ipv4'' \<or> ev ''ip6 daddr'' ''@vpn_ipv6'') True
      else Leave)"

definition subject_fate :: "steering_args \<Rightarrow> string \<Rightarrow> string \<Rightarrow> valuation \<Rightarrow> fate" where
  "subject_fate st path family ev =
     (if path = ''vpn'' then Capture True
      else if path = ''blocked'' then Refuse (if family = ''ipv4'' \<or> family = ''ipv6'' then Rejected else Dropped)
      else if path = ''selective''
      then (if family = ''ipv4''
            then listed_fate st (ev ''ip daddr'' ''@direct_ipv4'' \<or> ev ''ip daddr'' ''@dns_direct_ipv4'')
                   (ev ''ip daddr'' ''@vpn_ipv4'' \<or> ev ''ip daddr'' ''@dns_vpn_ipv4'') False
            else if family = ''ipv6'' then listed_fate st (ev ''ip6 daddr'' ''@direct_ipv6'') (ev ''ip6 daddr'' ''@vpn_ipv6'') False
            else default_fate st False)
      else Leave)"

text \<open>The subjects that own a packet: their source matches it, and their path is one the table knows.\<close>

definition owns :: "valuation \<Rightarrow> pyval \<Rightarrow> bool" where
  "owns ev s = (subject_matches ev s \<and> resolved_subject_path s \<in> {''direct'', ''vpn'', ''selective'', ''blocked''})"

definition matcher_family :: "pyval \<Rightarrow> string" where
  "matcher_family s = (case scoped_matcher True s of Inr (Some (_, _, family)) \<Rightarrow> family | _ \<Rightarrow> [])"

definition policy_fate :: "pyval \<Rightarrow> valuation \<Rightarrow> fate" where
  "policy_fate manifest ev =
     (let st = steering_args_of manifest
      in case find (owns ev) (active_subjects manifest) of
           Some s \<Rightarrow> subject_fate st (resolved_subject_path s) (matcher_family s) ev
         | None \<Rightarrow> global_fate st (mode_of manifest) ev)"

text \<open>What a fate means for a packet that arrives, with the value \<open>m\<close> of the VPN mark.\<close>

definition fate_outcome :: "vpn_params \<Rightarrow> int \<Rightarrow> valuation \<Rightarrow> packet_state \<Rightarrow> fate \<Rightarrow> verdict \<times> packet_state" where
  "fate_outcome vp m ev p f =
     (case f of
        Leave \<Rightarrow> (Fall, p)
      | Refuse v \<Rightarrow> (v, p)
      | Capture full \<Rightarrow>
          if is_quic ev then (Rejected, p)
          else if ev ''meta l4proto'' ''tcp''
          then (Accepted, p\<lparr>pk_mark := m + (if full then 3 else 1),
                            pk_redirect := Some (port_text (if full then vp_full_redir vp else vp_redir vp))\<rparr>)
          else (Fall, p\<lparr>pk_mark := m + (if full then 2 else 0),
                        pk_tproxy := Some (port_text (if full then vp_full_tproxy vp else vp_tproxy vp))\<rparr>))"

section \<open>The classification\<close>

definition fate_call :: "(string \<Rightarrow> packet_state \<Rightarrow> (verdict \<times> packet_state) option) \<Rightarrow> packet_state \<Rightarrow> fate \<Rightarrow> (verdict \<times> packet_state) option" where
  "fate_call call p f =
     (case f of
        Leave \<Rightarrow> Some (Fall, p)
      | Refuse v \<Rightarrow> Some (v, p)
      | Capture full \<Rightarrow> call (if full then ''fwrouter_vpn_full'' else ''fwrouter_vpn'') p)"

lemma fate_call_simps [simp]:
  "fate_call call p Leave = Some (Fall, p)" "fate_call call p (Refuse v) = Some (v, p)"
  "fate_call call p (Capture True) = call ''fwrouter_vpn_full'' p" "fate_call call p (Capture False) = call ''fwrouter_vpn'' p"
  by (simp_all add: fate_call_def)

lemma goto_result [simp]: "(case r of None \<Rightarrow> None | Some x \<Rightarrow> (case_sum f Some \<circ> Inr) x) = r"
  by (cases r) simp_all

lemmas fate_defs = listed_fate_def default_fate_def vpn_fate_def

lemma run_mode_rules:
  assumes "call ''fwrouter_direct'' p = Some (Fall, p)"
  shows "run_rules call ev (mode_rules mode (st_selective_default st) (st_ready st) d) p = fate_call call p (global_fate st mode ev)"
  using assms
  by (simp add: mode_rules_def selective_rules_def selective_default_rules_def vpn_or_drop_def global_fate_def fate_defs)

lemma run_vpn_or_drop:
  "run_rules call ev (scoped_vpn_or_drop ready expr val e v c1 c2 # rs) p =
     (if ev expr val \<and> ev e v then (if ready then call ''fwrouter_vpn'' p else Some (Dropped, p)) else run_rules call ev rs p)"
  by (cases ready) (simp_all add: scoped_vpn_or_drop_def)

lemma run_listed_direct:
  "run_rules call ev (NRule [Expr expr val, Expr e v] [NGoto c] r # rs) p = (if ev expr val \<and> ev e v then call c p else run_rules call ev rs p)"
  by simp

lemma run_scoped_default:
  assumes "call ''fwrouter_direct'' p = Some (Fall, p)" and "ev expr val"
  shows "run_rules call ev ((if sd = ''vpn'' \<and> \<not> ready then [NRule [Expr expr val] [NDrop] c]
      else [NRule [Expr expr val] [NGoto (if sd = ''vpn'' then ''fwrouter_vpn'' else ''fwrouter_direct'')] c']) @ rest) p
    = fate_call call p (if sd = ''vpn'' then if ready then Capture False else Refuse Dropped else Leave)"
  using assms by simp

lemma run_scoped_selective:
  assumes "call ''fwrouter_direct'' p = Some (Fall, p)" and "ev expr val"
  shows "run_rules call ev (scoped_selective_rules st sid (expr, val, family) @ rest) p
    = fate_call call p (subject_fate st ''selective'' family ev)"
proof -
  note d = run_scoped_default [where call = call and p = p and ev = ev and rest = rest and sd = "st_selective_default st"
      and ready = "st_ready st", OF assms]
  have ne: "(''ipv6'' = ''ipv4'') = False" by simp
  note unfold = scoped_selective_rules_def Let_def prod.case append_Cons append_Nil append_assoc d run_listed_direct run_vpn_or_drop
    simp_thms if_True if_False ne assms
  consider "family = ''ipv4''" | "family = ''ipv6''" | "(family = ''ipv4'') = False" "(family = ''ipv6'') = False" by blast
  then show ?thesis
  proof cases
    case 1
    show ?thesis unfolding 1 by (simp only: unfold) (simp add: subject_fate_def fate_defs)
  next
    case 2
    show ?thesis unfolding 2 by (simp only: unfold) (simp add: subject_fate_def fate_defs)
  next
    case 3
    show ?thesis by (simp only: unfold 3) (simp add: subject_fate_def fate_defs 3)
  qed
qed

lemma run_owned_steering:
  assumes "subject_steering st s = Inr (rs, os)" and "owns ev s" and "call ''fwrouter_direct'' p = Some (Fall, p)"
  shows "run_rules call ev (rs @ rest) p = fate_call call p (subject_fate st (resolved_subject_path s) (matcher_family s) ev)"
proof -
  obtain expr val family where m: "scoped_matcher True s = Inr (Some (expr, val, family))" "ev expr val"
    using assms(2) by (auto simp: owns_def subject_matches_def split: sum.splits option.splits prod.splits)
  have f: "matcher_family s = family" by (simp add: matcher_family_def m(1))
  have "resolved_subject_path s \<in> {''direct'', ''vpn'', ''selective'', ''blocked''}" using assms(2) by (simp add: owns_def)
  then consider "resolved_subject_path s = ''selective''" | "resolved_subject_path s = ''blocked''"
    | "resolved_subject_path s = ''vpn''" | "resolved_subject_path s = ''direct''" by blast
  then show ?thesis
  proof cases
    case 1
    then have "rs = scoped_selective_rules st (id_text s) (expr, val, family)"
      using assms(1) m(1) by (simp add: subject_steering_def Let_def)
    then show ?thesis using run_scoped_selective [where call = call and p = p and ev = ev, OF assms(3) m(2)] 1 f by simp
  next
    case 2
    then have "rs = [scoped_block_rule (id_text s) (expr, val, family)]"
      using assms(1) m(1) by (simp add: subject_steering_def Let_def)
    then show ?thesis using m(2) 2 f by (simp add: scoped_block_rule_def subject_fate_def)
  next
    case 3
    then show ?thesis using assms(1) m f by (auto simp: subject_steering_def subject_fate_def Let_def split: option.splits)
  next
    case 4
    then show ?thesis using assms(1,3) m f by (auto simp: subject_steering_def subject_fate_def Let_def)
  qed
qed

lemma not_owned_steering:
  assumes "subject_steering st s = Inr (rs, os)" and "\<not> owns ev s"
  shows "\<forall>r\<in>set rs. \<not> rule_matches ev p r"
proof (cases "subject_matches ev s")
  case True
  then have "resolved_subject_path s \<notin> {''direct'', ''vpn'', ''selective'', ''blocked''}" using assms(2) by (simp add: owns_def)
  then have "rs = []" using assms(1) by (auto simp: subject_steering_def Let_def split: sum.splits option.splits)
  then show ?thesis by simp
next
  case False
  then show ?thesis using unmatched_steering [OF assms(1)] by blast
qed

lemma run_subjects:
  assumes "map_err (subject_steering st) subjects = Inr rules" and "call ''fwrouter_direct'' p = Some (Fall, p)"
  shows "run_rules call ev (concat (map fst rules) @ rest) p =
    (case find (owns ev) subjects of
       Some s \<Rightarrow> fate_call call p (subject_fate st (resolved_subject_path s) (matcher_family s) ev)
     | None \<Rightarrow> run_rules call ev rest p)"
  using assms(1)
proof (induction subjects arbitrary: rules)
  case (Cons s subjects)
  then obtain x xs where x: "subject_steering st s = Inr x" "map_err (subject_steering st) subjects = Inr xs" "rules = x # xs"
    by (auto split: sum.splits)
  then have st: "subject_steering st s = Inr (fst x, snd x)" by simp
  show ?case
  proof (cases "owns ev s")
    case True
    then show ?thesis using run_owned_steering [where call = call and p = p, OF st True assms(2)] x(3) by simp
  next
    case False
    then show ?thesis using skip_unmatched [OF not_owned_steering [OF st False]] Cons.IH [OF x(2)] x(3) by simp
  qed
qed simp

lemma classify_refines:
  assumes "owned_table_args manifest = Inr a" and "\<forall>r\<in>set immune_rules. \<not> rule_matches ev p r"
  shows "classify env a ev p = fate_call (run_chain 1 (owned_chains env a) ev) p (policy_fate manifest ev)"
proof -
  let ?call = "run_chain 1 (owned_chains env a) ev"
  obtain rules cs where r: "map_err (subject_steering (ta_steering a)) (active_subjects manifest) = Inr rules"
    "ta_scoped a = concat (map fst rules)" using args_rules [OF assms(1)] by metis
  note f = args_facts [OF assms(1)]
  have d: "?call ''fwrouter_direct'' p = Some (Fall, p)" using run_direct [OF f(1), of 0] by simp
  show ?thesis
    unfolding classify_cases [OF assms(2)] r(2) run_subjects [where call = ?call and p = p, OF r(1) d]
      run_mode_rules [where call = ?call and p = p, OF d]
    using f(3,4) by (auto simp: policy_fate_def Let_def split: option.splits)
qed

section \<open>Arriving packets\<close>

lemma run_vpn_selective:
  assumes "well_built a" and "port_on (vp_tproxy (ta_params a))" and "mark_value (vp_fwmark (ta_params a)) = Some u"
    and "mark_value (derive_tcp_redirect_mark_hex (vp_fwmark (ta_params a))) = Some t"
    and "mark_value (vp_bypass_mark (ta_params a)) \<noteq> Some (pk_mark p)" and "one_transport ev"
  shows "run_chain (Suc n) (owned_chains env a) ev ''fwrouter_vpn'' p =
    Some (if is_quic ev then (Rejected, p) else (Fall, p\<lparr>pk_mark := if ev ''meta l4proto'' ''tcp'' then t else u\<rparr>))"
proof -
  have "run_rules call ev (ch_rules (build_terminal_vpn_chain name (vpn_chain_args_of a))) p =
      Some (if is_quic ev then (Rejected, p) else (Fall, p\<lparr>pk_mark := if ev ''meta l4proto'' ''tcp'' then t else u\<rparr>))" for call name
    by (rule run_terminal_vpn) (use assms in \<open>simp_all add: vpn_chain_args_of_def or_text_def well_built_def Let_def\<close>)
  then show ?thesis by (simp add: find_owned)
qed

text \<open>The ports that a capture needs, and the four marks, given the value of the first.\<close>

definition capture_ports :: "vpn_params \<Rightarrow> bool \<Rightarrow> bool" where
  "capture_ports vp full =
     (if full then port_on (vp_full_tproxy vp) \<and> port_on (vp_full_redir vp) else port_on (vp_tproxy vp) \<and> port_on (vp_redir vp))"

definition capture_mark :: "int \<Rightarrow> bool \<Rightarrow> bool \<Rightarrow> int" where
  "capture_mark m full tcp = m + (if full then if tcp then 3 else 2 else if tcp then 1 else 0)"

lemma run_capture_chain:
  assumes "owned_table_args manifest = Inr a" and "vp = vpn_params_of (contour_of manifest)" and "mark_value (vp_fwmark vp) = Some m"
    and "0 \<le> m" and "capture_ports vp full" and "mark_value (vp_bypass_mark vp) \<noteq> Some (pk_mark p)" and "one_transport ev"
  shows "run_chain 1 (owned_chains env a) ev (if full then ''fwrouter_vpn_full'' else ''fwrouter_vpn'') p =
    Some (if is_quic ev then (Rejected, p) else (Fall, p\<lparr>pk_mark := capture_mark m full (ev ''meta l4proto'' ''tcp'')\<rparr>))"
proof -
  note f = args_facts [OF assms(1)]
  have vp: "ta_params a = vp" using f(2) assms(2) by simp
  note m = vpn_marks [of "contour_of manifest", folded assms(2), OF assms(3,4)]
  show ?thesis
  proof (cases full)
    case True
    then show ?thesis
      using run_vpn_full [OF f(1), of "m + 2" "m + 3" p ev 0 env] m assms vp by (simp add: capture_ports_def capture_mark_def)
  next
    case False
    then show ?thesis
      using run_vpn_selective [OF f(1), of m "m + 1" p ev 0 env] m assms vp by (simp add: capture_ports_def capture_mark_def)
  qed
qed

lemma tproxy_captures:
  assumes "ta_mode a \<in> {''vpn'', ''selective''} \<or> cr_vpn (ta_counters a) \<noteq> []" and "capture_ports (ta_params a) full"
    and "mark_value (vp_fwmark (ta_params a)) = Some m" and "mark_value (vp_full_udp_mark (ta_params a)) = Some (m + 2)"
    and "pk_mark q = capture_mark m full False" and "ev ''meta l4proto'' ''udp''"
  shows "run_rules call ev (tproxy_rules (prerouting_args_of env a)) q
    = Some (Accepted, q\<lparr>pk_tproxy := Some (port_text (if full then vp_full_tproxy (ta_params a) else vp_tproxy (ta_params a)))\<rparr>)"
  using assms
  by (auto simp: tproxy_rules_def prerouting_args_of_def capture_ports_def capture_mark_def Let_def split: if_splits)

lemma nat_captures:
  assumes "well_built a" and "capture_ports (ta_params a) full" and "mark_value (derive_tcp_redirect_mark_hex (vp_fwmark (ta_params a))) = Some (m + 1)"
    and "mark_value (vp_full_tcp_mark (ta_params a)) = Some (m + 3)" and "pk_mark q = capture_mark m full True" and "ev ''meta l4proto'' ''tcp''"
  shows "run_hook (owned_chains env a) ev ''prerouting_nat'' q
    = Some (Accepted, q\<lparr>pk_redirect := Some (port_text (if full then vp_full_redir (ta_params a) else vp_redir (ta_params a)))\<rparr>)"
  using assms
  by (auto simp: run_hook_def numeral_3_eq_3 find_owned build_prerouting_nat_chain_def redirect_rule_def full_tcp_mark_def
      or_text_def well_built_def capture_ports_def capture_mark_def split: if_splits)

lemma capture_steers:
  assumes "owned_table_args manifest = Inr a" and "policy_fate manifest ev = Capture full"
    and "\<forall>s\<in>set (active_subjects manifest). owns ev s \<longrightarrow> subject_needs_transparent_policy (subject_type_text s)"
  shows "ta_mode a \<in> {''vpn'', ''selective''} \<or> cr_vpn (ta_counters a) \<noteq> []"
proof (cases "find (owns ev) (active_subjects manifest)")
  case None
  then show ?thesis using assms(2) args_facts(3) [OF assms(1)] by (auto simp: policy_fate_def global_fate_def Let_def split: if_splits)
next
  case (Some s)
  then have "s \<in> set (active_subjects manifest)" "owns ev s" using find_split by fastforce+
  then show ?thesis using counters_of_owner [OF assms(1)] assms(3) by (auto simp: owns_def)
qed

text \<open>A packet that the classification marks for a capture reaches the proxy.\<close>

lemma captured_ingress:
  assumes "owned_table_args manifest = Inr a" and "vp = vpn_params_of (contour_of manifest)" and "mark_value (vp_fwmark vp) = Some m"
    and "0 \<le> m" and "\<forall>r\<in>set (entry_guards env a). \<not> rule_matches ev p r" and "one_transport ev" and "capture_ports vp full"
    and "ta_mode a \<in> {''vpn'', ''selective''} \<or> cr_vpn (ta_counters a) \<noteq> []"
    and "classify env a ev p = Some (if is_quic ev then (Rejected, p) else (Fall, p\<lparr>pk_mark := capture_mark m full (ev ''meta l4proto'' ''tcp'')\<rparr>))"
  shows "run_ingress (owned_chains env a) ev p = Some (fate_outcome vp m ev p (Capture full))"
proof (cases "is_quic ev")
  case True
  then show ?thesis using prerouting_reaches_classify [OF assms(5), of Rejected p] assms(9)
    by (simp add: run_ingress_def lets_pass_def fate_outcome_def)
next
  case False
  let ?q = "p\<lparr>pk_mark := capture_mark m full (ev ''meta l4proto'' ''tcp'')\<rparr>"
  note f = args_facts [OF assms(1)]
  have vp: "ta_params a = vp" using f(2) assms(2) by simp
  note m = vpn_marks [of "contour_of manifest", folded assms(2), OF assms(3,4)]
  have pre: "run_hook (owned_chains env a) ev ''prerouting'' p
      = run_rules (run_chain 2 (owned_chains env a) ev) ev (tproxy_rules (prerouting_args_of env a)) ?q"
    using prerouting_reaches_classify [OF assms(5), of Fall ?q] assms(9) False by simp
  show ?thesis
  proof (cases "ev ''meta l4proto'' ''tcp''")
    case True
    then have "\<not> ev ''meta l4proto'' ''udp''" using assms(6) by (simp add: one_transport_def)
    then show ?thesis
      using pre True False tproxy_not_udp nat_captures [OF f(1), of full m ?q ev env] assms(7) m vp
      by (simp add: run_ingress_def lets_pass_def fate_outcome_def capture_mark_def)
  next
    case n: False
    then have "ev ''meta l4proto'' ''udp''" using assms(6) by (simp add: one_transport_def)
    then show ?thesis
      using pre n False tproxy_captures [OF assms(8), of full m ?q ev] nat_not_tcp [of ev env a] assms(3,7) m vp
      by (simp add: run_ingress_def lets_pass_def fate_outcome_def capture_mark_def)
  qed
qed

lemma table_refines_lemma:
  assumes "owned_table_candidate env loaded manifest = Inr t" and "\<not> bypass_enabled manifest" and "owned_table_args manifest = Inr a"
    and "vp = vpn_params_of (contour_of manifest)" and "mark_value (vp_fwmark vp) = Some m" and "0 \<le> m" and "fresh_mark vp (pk_mark p)"
    and "\<forall>r\<in>set (entry_guards env a @ immune_rules). \<not> rule_matches ev p r" and "one_transport ev"
    and "\<forall>s\<in>set (active_subjects manifest). owns ev s \<longrightarrow> subject_needs_transparent_policy (subject_type_text s)"
    and "\<forall>full. policy_fate manifest ev = Capture full \<longrightarrow> capture_ports vp full"
  shows "run_ingress (oc_chains t) ev p = Some (fate_outcome vp m ev p (policy_fate manifest ev))"
proof -
  have t: "oc_chains t = owned_chains env a" using candidate_cases(2) [OF assms(1,2)] assms(3) by auto
  note f = args_facts [OF assms(3)]
  have vp: "ta_params a = vp" using f(2) assms(4) by simp
  have guards: "\<forall>r\<in>set (entry_guards env a). \<not> rule_matches ev p r" and immune: "\<forall>r\<in>set immune_rules. \<not> rule_matches ev p r"
    using assms(8) by auto
  have b: "mark_value (vp_bypass_mark vp) \<noteq> Some (pk_mark p)"
    using guards vp by (auto simp: entry_guards_def prerouting_immunity_def prerouting_args_of_def Let_def)
  note c = classify_refines [OF assms(3) immune, of env]
  show ?thesis
  proof (cases "policy_fate manifest ev")
    case Leave
    then show ?thesis
      using prerouting_reaches_classify [OF guards, of Fall p] c t tproxy_fresh [of a p] nat_fresh [OF f(1), of p env ev] assms(7) vp
      by (simp add: run_ingress_def lets_pass_def fate_outcome_def)
  next
    case (Refuse v)
    then have v: "v = Dropped \<or> v = Rejected"
      by (auto simp: policy_fate_def global_fate_def subject_fate_def fate_defs Let_def split: option.splits if_splits)
    then show ?thesis
      using prerouting_reaches_classify [OF guards, of v p] c t Refuse by (auto simp: run_ingress_def lets_pass_def fate_outcome_def)
  next
    case (Capture full)
    have ports: "capture_ports vp full" using assms(11) Capture by blast
    have "classify env a ev p
        = Some (if is_quic ev then (Rejected, p) else (Fall, p\<lparr>pk_mark := capture_mark m full (ev ''meta l4proto'' ''tcp'')\<rparr>))"
      unfolding c Capture using run_capture_chain [OF assms(3-6) ports b assms(9), of env] by (cases full) simp_all
    then show ?thesis
      using captured_ingress [OF assms(3-6) guards assms(9) ports capture_steers [OF assms(3) Capture assms(10)]] t Capture by simp
  qed
qed


end
