(* ===== verification/Preflight_Properties.thy ===== *)
theory Preflight_Properties
  imports Global_Preflight Nft_Policy
begin

text \<open>
  Properties of the preflight: what the reported enforcement is backed by, what it takes to call the VPN ready,
  and that the parameters the renderer reads from a preflight suffice for the captures it allows.
\<close>

section \<open>Reading the preflight\<close>

lemma only_if_Nil [simp]: "only_if b s = [] \<longleftrightarrow> \<not> b"
  by (simp add: only_if_def)

lemma set_only_if [simp]: "set (only_if b s) = (if b then {s} else {})"
  by (simp add: only_if_def)

lemma preflight_cases:
  assumes "build_global_preflight env g = Inr p"
  obtains c where "resolved_contours (pv_adapter env) (mh_details (pv_health env)) = Inr c" and "p = preflight_dict env g c"
  using assms by (auto simp: build_global_preflight_def map_sum_def split: sum.splits)

lemma preflight_gets:
  "get_in (preflight_dict env g c) ''vpn_contour'' = PDict (contract_of env g c)"
  "get_in (preflight_dict env g c) ''can_enforce_global_direct'' = PBool (direct_missing g = [])"
  "get_in (preflight_dict env g c) ''can_enforce_global_selective'' = PBool (selective_missing env g = [])"
  "get_in (preflight_dict env g c) ''can_enforce_global_vpn'' = PBool (vpn_policy_missing env g c = [] \<and> ct_policy c)"
  "get_in (preflight_dict env g c) ''vpn_egress_ready'' = PBool (vpn_egress_ready env g c)"
  "get_in (preflight_dict env g c) ''selective_vpn_policy_ready'' = PBool (selective_vpn_policy_ready env g c)"
  "get_in (preflight_dict env g c) ''selective_degraded'' = PBool (selective_degraded env g c)"
  "get_in (preflight_dict env g c) ''selective_rules'' = selective_summary_dict (summary_of env g)"
  "get_in (preflight_dict env g c) ''dnsmasq_selective_status'' = pv_dnsmasq env"
  by (simp_all add: preflight_dict_def Let_def)

section \<open>The contract and the renderer\<close>

lemma contract_is:
  "contract_of env g c = items (build_vpn_steering_contract (ct_ports c) (adapter_name (pv_adapter env)) (adapter_source (pv_adapter env)))"
  by (simp add: contract_of_def profile_of_def build_dataplane_profile_def Let_def)

lemma contract_empty_iff: "contract_of env g c = [] \<longleftrightarrow> (\<forall>n. vq_tproxy (ct_ports c) = Some n \<longrightarrow> n \<le> 0)"
  by (simp add: contract_is build_vpn_steering_contract_def split: option.splits)

lemma contract_marks:
  shows "vp_fwmark (vpn_params_of (PDict (contract_of env g c))) = ''0x00000100''"
    and "vp_bypass_mark (vpn_params_of (PDict (contract_of env g c))) = ''0x00000200''"
  by (simp_all add: contract_is build_vpn_steering_contract_def vpn_params_of_def py_or_def Let_def split: option.splits)

text \<open>The ports of listeners that are known are positive.\<close>

definition ports_positive :: "vpn_ports \<Rightarrow> bool" where
  "ports_positive q =
     ((\<forall>n. vq_redir q = Some n \<longrightarrow> 0 < n) \<and> (\<forall>n. vq_full_redir q = Some n \<longrightarrow> 0 < n) \<and> (\<forall>n. vq_full_tproxy q = Some n \<longrightarrow> 0 < n))"

lemma full_capture_ports:
  assumes "ports_positive (ct_ports c)"
  shows "capture_ports (vpn_params_of (PDict (contract_of env g c))) True"
  using assms
  by (auto simp: contract_is build_vpn_steering_contract_def vpn_params_of_def capture_ports_def ports_positive_def port_default_def int_port_def
      port_on_def Let_def split: option.splits)

lemma selective_capture_ports:
  assumes "ports_positive (ct_ports c)" and "contract_of env g c \<noteq> []"
  shows "capture_ports (vpn_params_of (PDict (contract_of env g c))) False"
proof -
  obtain n where n: "vq_tproxy (ct_ports c) = Some n" "0 < n" using assms(2) by (auto simp: contract_empty_iff)
  show ?thesis using assms(1) n
    by (cases "vq_redir (ct_ports c)")
      (auto simp: contract_is build_vpn_steering_contract_def vpn_params_of_def capture_ports_def ports_positive_def port_default_def int_port_def
        port_on_def int_val_def Let_def)
qed

lemma policy_ready_contract:
  assumes "vpn_policy_missing env g c = []"
  shows "contract_of env g c \<noteq> []"
proof
  assume "contract_of env g c = []"
  then have "''vpn_tproxy_contract_not_defined'' \<in> set (vpn_missing env g c)" by (simp add: vpn_missing_def Let_def)
  moreover have "''vpn_tproxy_contract_not_defined'' \<notin> set egress_observation_missing" by (simp add: egress_observation_missing_def)
  ultimately have "''vpn_tproxy_contract_not_defined'' \<in> set (vpn_policy_missing env g c)" by (simp add: vpn_policy_missing_def)
  then show False using assms by simp
qed

section \<open>Enforcement\<close>

lemma supported_mode: "m \<in> {''direct'', ''selective'', ''vpn''} \<Longrightarrow> truthy (get_in (supported_modes p) m) = truthy (get_in p (''can_enforce_global_'' @ m))"
  by (auto simp: supported_modes_def)

lemma enforcement_gets:
  "get_in (enforcement_dict p l level b ms d) ''traffic_enforcement_guaranteed'' = PBool b"
  "get_in (enforcement_dict p l level b ms d) ''enforcement_level'' = PStr level"
  by (simp_all add: enforcement_dict_def)


section \<open>Readiness\<close>

lemma in_only_if: "x \<in> set (only_if b s) \<longleftrightarrow> b \<and> x = s"
  by simp

lemma filter_only_if [simp]: "filter P (only_if b s) = only_if (b \<and> P s) s"
  by (simp add: only_if_def)

text \<open>Marked packets that the proxy did not take, when the run is verified.\<close>

definition handoff_observed :: "preflight_env \<Rightarrow> preflight_args \<Rightarrow> bool" where
  "handoff_observed env g =
     (pg_verify g \<longrightarrow>
        (mark_packets g ''vpn_mark_packets'' > 0 \<longrightarrow> flow_flag g ''transparent_flow_observed'')
        \<and> (mark_packets g ''vpn_mark_tcp_packets'' > 0 \<longrightarrow>
             flow_flag g ''transparent_tcp_flow_observed'' \<and> session_flag env ''transparent_tcp_session_materialized''))"

lemma policy_missing_iff:
  "vpn_policy_missing env g c = [] \<longleftrightarrow>
     (truthy (pv_module env) \<longrightarrow> py_str (py_or (get_in (pv_module env) ''desired_state'') (PStr [])) = ''enabled'')
     \<and> (\<exists>n>0. vq_tproxy (ct_ports c) = Some n) \<and> (contour_required env g \<longrightarrow> ct_tcp c \<and> ct_udp c) \<and> ct_explicit c
     \<and> (pg_verify g \<longrightarrow> external_contour (pv_adapter env) \<noteq> [] \<or> mh_state (pv_health env) = ''running'') \<and> handoff_observed env g"
proof -
  have c: "contract_of env g c = [] \<longleftrightarrow> \<not> (\<exists>n>0. vq_tproxy (ct_ports c) = Some n)"
    by (cases "vq_tproxy (ct_ports c)") (simp_all add: contract_empty_iff not_less)
  have n: "vq_tproxy (ct_ports c) = None \<Longrightarrow> contract_of env g c = []" by (simp add: c)
  have m: "vpn_policy_missing env g c = [] \<longleftrightarrow>
      (truthy (pv_module env) \<longrightarrow> py_str (py_or (get_in (pv_module env) ''desired_state'') (PStr [])) = ''enabled'')
      \<and> vq_tproxy (ct_ports c) \<noteq> None \<and> (contour_required env g \<longrightarrow> ct_tcp c \<and> ct_udp c) \<and> ct_explicit c
      \<and> (ct_tun c \<or> contract_of env g c \<noteq> []) \<and> contract_of env g c \<noteq> []
      \<and> (pg_verify g \<longrightarrow> external_contour (pv_adapter env) \<noteq> [] \<or> mh_state (pv_health env) = ''running'') \<and> handoff_observed env g"
    unfolding vpn_policy_missing_def vpn_missing_def Let_def filter_append filter_only_if append_is_Nil_conv only_if_Nil
    by (simp add: egress_observation_missing_def handoff_observed_def) argo
  show ?thesis unfolding m using n c by blast
qed

lemma egress_ready_iff:
  "vpn_egress_ready env g c \<longleftrightarrow> ct_policy c \<and> target_reachable env \<and> path_verified g \<and> handoff_observed env g"
proof -
  let ?h = "''vpn_tproxy_handoff_not_observed''"
  have e: "vpn_egress_missing env g c = [] \<longleftrightarrow> target_reachable env \<and> ct_policy c \<and> path_verified g"
    unfolding vpn_egress_missing_def vpn_missing_def Let_def filter_append filter_only_if append_is_Nil_conv only_if_Nil
    by (simp add: egress_observation_missing_def)
  have "?h \<in> set (vpn_missing env g c) \<longleftrightarrow> \<not> handoff_observed env g"
    unfolding vpn_missing_def Let_def set_append Un_iff in_only_if by (simp add: handoff_observed_def) argo
  then show ?thesis unfolding vpn_egress_ready_def e by argo
qed


text \<open>
  The argument \<open>require_runtime_verify\<close> does not decide whether an unverified path counts: without a check of
  the live table a preflight never calls the selective VPN ready when rules or the default need it.
\<close>

theorem unchecked_preflight_is_degraded:
  assumes "build_global_preflight env g = Inr p" and "pg_check g = PNone" and "sm_requires_vpn (summary_of env g)"
  shows "truthy (get_in p ''selective_degraded'')"
proof -
  obtain c where p: "p = preflight_dict env g c" using assms(1) by (rule preflight_cases)
  have "\<not> path_verified g" using assms(2) by (simp add: path_verified_def bool_or_false_def)
  then have "''vpn_external_path_not_verified'' \<in> set (vpn_missing env g c)" by (simp add: vpn_missing_def Let_def)
  then have "vpn_missing env g c \<noteq> []" by auto
  then show ?thesis using assms(3) by (simp add: p preflight_gets selective_degraded_def selective_vpn_ready_def)
qed

end
