(* ===== verification/Manifest_Flow.thy ===== *)
theory Manifest_Flow
  imports Routing_Manifest Preflight_Properties Subject_Properties
begin

text \<open>
  From the states of the subjects to the manifest and on to the table: what the renderer reads from a manifest that
  \<open>build_dataplane_manifest_from_state\<close> built. Marking conflicts changes neither paths nor matches, so that the
  first subject that owns a packet in the manifest is the first one that owns it in the policy.
\<close>

section \<open>Building\<close>

text \<open>The effective states that a plan computes, and the arguments they depend on.\<close>

definition planned_policy_env :: "manifest_env \<Rightarrow> manifest_args \<Rightarrow> manifest_routing \<Rightarrow> exc + policy_env" where
  "planned_policy_env env a routing =
     (case build_global_preflight (me_preflight env) (plan_preflight_args (plan_routing env (ma_extra a) routing) (ma_extra a)) of
        Inl e \<Rightarrow> Inl e
      | Inr preflight \<Rightarrow>
          map_sum id (\<lambda>d. policy_env_of env (plan_enforcement preflight d) (core_bypass_of d)) (plan_extra env (ma_extra a)))"

definition planned_states :: "manifest_env \<Rightarrow> manifest_args \<Rightarrow> manifest_routing \<Rightarrow> planned_subject list \<Rightarrow> exc + enriched list" where
  "planned_states env a routing subjects =
     (case planned_policy_env env a routing of
        Inl e \<Rightarrow> Inl e
      | Inr pe \<Rightarrow> map_raise (enrich_planned env pe (plan_routing env (ma_extra a) routing)) subjects)"

lemma build_cases:
  assumes "build_dataplane_manifest_from_state env a routing subjects = Inr manifest"
  obtains c d states conflicts where
    "resolved_contours (pv_adapter (me_preflight env)) (mh_details (pv_health (me_preflight env))) = Inr c"
    and "plan_extra env (ma_extra a) = Inr d" and "planned_states env a routing subjects = Inr states"
    and "conflicts = immunity_conflicts states d (routing_dict (plan_routing env (ma_extra a) routing))"
    and "manifest = manifest_dict a (routing_dict (plan_routing env (ma_extra a) routing))
           (preflight_dict (me_preflight env) (plan_preflight_args (plan_routing env (ma_extra a) routing) (ma_extra a)) c)
           (plan_enforcement (preflight_dict (me_preflight env) (plan_preflight_args (plan_routing env (ma_extra a) routing) (ma_extra a)) c) d) d
           (fold mark_conflict conflicts states) (reported_reason (ma_reason a) conflicts)"
proof -
  obtain pf where pf: "build_global_preflight (me_preflight env) (plan_preflight_args (plan_routing env (ma_extra a) routing) (ma_extra a)) = Inr pf"
    using assms by (auto simp: build_dataplane_manifest_from_state_def Let_def split: sum.splits)
  obtain d where d: "plan_extra env (ma_extra a) = Inr d"
    using assms by (auto simp: build_dataplane_manifest_from_state_def Let_def split: sum.splits)
  obtain c where c: "resolved_contours (pv_adapter (me_preflight env)) (mh_details (pv_health (me_preflight env))) = Inr c"
    "pf = preflight_dict (me_preflight env) (plan_preflight_args (plan_routing env (ma_extra a) routing) (ma_extra a)) c"
    using pf by (rule preflight_cases)
  show thesis
    using assms pf d
    by (auto simp: build_dataplane_manifest_from_state_def planned_states_def planned_policy_env_def Let_def c(2) split: sum.splits
        intro!: that [OF c(1) d])
qed

section \<open>Reading the manifest\<close>

lemma py_or_PStr: "s \<noteq> [] \<Longrightarrow> py_or (PStr s) v = PStr s"
  by (simp add: py_or_def)

lemma desired_mode_nonempty: "desired_routing_mode (routing_dict r) \<noteq> []"
  by (cases "ro_desired_mode r"; cases "mr_applied_mode r")
    (auto simp: desired_routing_mode_def routing_dict_def py_or_def)

lemma manifest_mode: "mode_of (manifest_dict a (routing_dict r) pf enf d xs reason) = desired_routing_mode (routing_dict r)"
  using desired_mode_nonempty [of r] by (simp add: mode_of_def manifest_dict_def py_or_PStr Let_def)

lemma manifest_subjects: "subjects_of (manifest_dict a rd pf enf d xs reason) = map (manifest_subject enf) xs"
  by (simp add: subjects_of_def manifest_dict_def Let_def)

lemma manifest_preflight:
  "k \<noteq> ''vpn_policy_required'' \<Longrightarrow>
     get_in (get_in (manifest_dict a rd (preflight_dict pe g c) enf d xs reason) ''global_preflight'') k = get_in (preflight_dict pe g c) k"
  by (simp add: manifest_dict_def get_in_def Let_def)

lemma manifest_contour: "contour_of (manifest_dict a rd (preflight_dict pe g c) enf d xs reason) = PDict (contract_of pe g c)"
  by (simp add: contour_of_def manifest_preflight preflight_gets)

lemma manifest_ready:
  "st_ready (steering_args_of (manifest_dict a rd (preflight_dict pe g c) enf d xs reason)) = selective_vpn_policy_ready pe g c"
  by (simp add: steering_args_of_def manifest_preflight preflight_gets Let_def)

lemma manifest_extra: "get_in (manifest_dict a rd pf enf d xs reason) ''extra'' = PDict d"
  by (simp add: manifest_dict_def Let_def)

lemma manifest_bypass: "bypass_enabled (manifest_dict a rd pf enf d xs reason) = truthy (get_in (core_bypass_of d) ''enabled'')"
  unfolding bypass_enabled_def manifest_extra
  by (cases "dict_get d ''core_bypass''") (simp_all add: core_bypass_of_def get_in_def)

section \<open>Subjects in the manifest\<close>

lemma subject_gets:
  "is_dict (manifest_subject enf x)" "is_active (manifest_subject enf x) = ps_active (pl_subject (fst x))"
  "get_in (manifest_subject enf x) ''dataplane_path'' = PStr (es_path (snd x))"
  "get_in (manifest_subject enf x) ''scoped_runtime'' = bounded_subject_runtime (scoped_runtime_dict (es_scoped (snd x)))"
  "get_in (manifest_subject enf x) ''effective_state'' = PNone"
  "subject_type_text (manifest_subject enf x) = ps_type (pl_subject (fst x))"
  by (cases "ps_type (pl_subject (fst x))";
      simp add: manifest_subject_def is_active_def subject_type_text_def py_or_def Let_def)+

lemma runtime_gets:
  "is_dict (bounded_subject_runtime (scoped_runtime_dict r))"
  "get_in (bounded_subject_runtime (scoped_runtime_dict r)) ''matcher'' = matcher_value_dict (sr_matcher r)"
  "get_in (bounded_subject_runtime (scoped_runtime_dict r)) ''nft_expr'' = PNone"
  "get_in (bounded_subject_runtime (scoped_runtime_dict r)) ''value'' = PNone"
  by (simp_all add: bounded_subject_runtime_def scoped_runtime_dict_def Let_def)

definition route_path :: "enriched \<Rightarrow> string" where
  "route_path x = lower (strip (es_path (snd x)))"

lemma subject_resolved_path: "resolved_subject_path (manifest_subject enf x) = route_path x"
  by (simp add: resolved_subject_path_def subject_gets route_path_def lower_def Let_def)

lemma manifest_active:
  "active_subjects (manifest_dict a rd pf enf d xs reason) = map (manifest_subject enf) (filter (\<lambda>x. ps_active (pl_subject (fst x))) xs)"
  by (simp add: active_subjects_def manifest_subjects filter_map o_def subject_gets)

section \<open>Owners\<close>

definition matcher_text :: "nft_matcher \<Rightarrow> string" where
  "matcher_text n =
     (case nm_values n of None \<Rightarrow> nm_value n | Some vs \<Rightarrow> if length vs = 1 then hd vs else brace_list vs)"

definition state_matches :: "valuation \<Rightarrow> enriched \<Rightarrow> bool" where
  "state_matches ev x =
     (case sr_matcher (es_scoped (snd x)) of
        None \<Rightarrow> False
      | Some n \<Rightarrow> nm_expr n \<noteq> [] \<and> nm_value n \<noteq> [] \<and> ev (nm_expr n) (matcher_text n))"

definition state_owns :: "valuation \<Rightarrow> enriched \<Rightarrow> bool" where
  "state_owns ev x =
     (ps_active (pl_subject (fst x)) \<and> state_matches ev x \<and> route_path x \<in> {''direct'', ''vpn'', ''selective'', ''blocked''})"

definition state_family :: "enriched \<Rightarrow> string" where
  "state_family x = (case sr_matcher (es_scoped (snd x)) of Some n \<Rightarrow> nm_family n | None \<Rightarrow> [])"

definition state_fate :: "steering_args \<Rightarrow> string \<Rightarrow> enriched list \<Rightarrow> valuation \<Rightarrow> fate" where
  "state_fate st mode states ev =
     (case find (state_owns ev) states of
        Some x \<Rightarrow> subject_fate st (route_path x) (state_family x) ev
      | None \<Rightarrow> global_fate st mode ev)"

text \<open>Complete inventories are sorted and without repetition.\<close>

definition inventory_normal :: "enriched \<Rightarrow> bool" where
  "inventory_normal x =
     (\<forall>n vs. sr_matcher (es_scoped (snd x)) = Some n \<and> nm_values n = Some vs \<longrightarrow> sorted vs \<and> distinct vs)"

lemma inventory_text_normal:
  assumes "inventory_text m (PList (map PStr vs)) = Inr t" and "sorted vs" and "distinct vs"
  shows "t = (if length vs = 1 then hd vs else brace_list vs)"
proof -
  obtain parsed where p: "map canonical_address parsed = map py_str (map PStr vs)"
    and t: "t = (let normalized = sort (map canonical_address (remdups parsed))
                 in if length normalized = 1 then hd normalized else brace_list normalized)"
    using assms(1) by (auto simp: inventory_text_def Let_def split: if_splits option.splits sum.splits prod.splits)
  have vs: "map canonical_address parsed = vs" using p by (simp add: o_def)
  then have "distinct parsed" using assms(3) by (auto simp: distinct_map)
  then have "sort (map canonical_address (remdups parsed)) = vs" using vs assms(2) by (simp add: distinct_remdups_id sorted_sort_id)
  then show ?thesis by (simp add: t Let_def)
qed

lemma subject_matcher_dict:
  "matcher_dict (manifest_subject enf x) =
     (case sr_matcher (es_scoped (snd x)) of
        None \<Rightarrow> bounded_subject_runtime (scoped_runtime_dict (es_scoped (snd x)))
      | Some n \<Rightarrow> matcher_value_dict (Some n))"
  by (simp add: matcher_dict_def subject_gets runtime_gets matcher_value_dict_def Let_def split: option.splits)

lemma subject_scoped_matcher:
  assumes "inventory_normal x" and "scoped_matcher True (manifest_subject enf x) = Inr m"
  shows "m = (case sr_matcher (es_scoped (snd x)) of
      None \<Rightarrow> None
    | Some n \<Rightarrow> if nm_expr n = [] \<or> nm_value n = [] then None else Some (nm_expr n, matcher_text n, nm_family n))"
proof (cases "sr_matcher (es_scoped (snd x))")
  case None
  then show ?thesis using assms(2) by (simp add: scoped_matcher_def subject_matcher_dict runtime_gets Let_def)
next
  case (Some n)
  have f: "py_str (py_or (PStr s) (PStr [])) = s" for s by (cases s) simp_all
  note g = scoped_matcher_def subject_matcher_dict Some matcher_value_dict_def Let_def f matcher_text_def
  show ?thesis
  proof (cases "nm_values n")
    case None
    then show ?thesis using assms(2) by (auto simp: g split: if_splits)
  next
    case vs: (Some vs)
    then have n: "sorted vs" "distinct vs" using assms(1) Some by (auto simp: inventory_normal_def)
    show ?thesis using assms(2) inventory_text_normal [OF _ n]
      by (auto simp: g vs texts_val_def split: if_splits sum.splits)
  qed
qed

lemma owns_manifest_subject:
  assumes "inventory_normal x" and "\<not> isl (scoped_matcher True (manifest_subject enf x))" and "ps_active (pl_subject (fst x))"
  shows "owns ev (manifest_subject enf x) = state_owns ev x"
    and "state_owns ev x \<Longrightarrow> matcher_family (manifest_subject enf x) = state_family x"
proof -
  obtain m where m: "scoped_matcher True (manifest_subject enf x) = Inr m"
    using assms(2) by (cases "scoped_matcher True (manifest_subject enf x)") auto
  note s = subject_scoped_matcher [OF assms(1) m]
  show "owns ev (manifest_subject enf x) = state_owns ev x"
    using assms(3) s by (auto simp: owns_def state_owns_def subject_matches_def state_matches_def subject_resolved_path m split: option.splits if_splits)
  show "state_owns ev x \<Longrightarrow> matcher_family (manifest_subject enf x) = state_family x"
    using s by (auto simp: state_owns_def state_matches_def matcher_family_def state_family_def m split: option.splits)
qed

section \<open>Marking\<close>

text \<open>What marking a conflict leaves as it is.\<close>

definition core_of :: "enriched \<Rightarrow> planned_subject \<times> string \<times> nft_matcher option" where
  "core_of x = (fst x, es_path (snd x), sr_matcher (es_scoped (snd x)))"

lemma core_mark_conflict: "map core_of (mark_conflict c xs) = map core_of xs"
  by (induction c xs rule: mark_conflict.induct) (auto simp: core_of_def demote_def)

lemma core_mark_conflicts: "map core_of (fold mark_conflict cs xs) = map core_of xs"
  by (induction cs arbitrary: xs) (simp_all add: core_mark_conflict)

lemma core_determines:
  assumes "core_of x = core_of y"
  shows "state_owns ev x = state_owns ev y" "route_path x = route_path y" "state_family x = state_family y"
    "inventory_normal x = inventory_normal y" "fst x = fst y"
  using assms by (simp_all add: core_of_def state_owns_def state_matches_def route_path_def state_family_def inventory_normal_def)

lemma find_core:
  assumes "map core_of xs = map core_of ys"
  shows "rel_option (\<lambda>x y. core_of x = core_of y) (find (state_owns ev) xs) (find (state_owns ev) ys)"
  using assms
proof (induction xs arbitrary: ys)
  case (Cons x xs)
  then obtain y ys' where y: "ys = y # ys'" "core_of x = core_of y" "map core_of xs = map core_of ys'" by (cases ys) auto
  then show ?case using Cons.IH [OF y(3)] core_determines(1) [OF y(2)] by simp
qed simp

lemma state_fate_core:
  assumes "map core_of xs = map core_of ys"
  shows "state_fate st mode xs ev = state_fate st mode ys ev"
proof (cases "find (state_owns ev) xs")
  case None
  then have "find (state_owns ev) ys = None" using find_core [OF assms, of ev] by simp
  then show ?thesis using None by (simp add: state_fate_def)
next
  case (Some x)
  then obtain y where y: "find (state_owns ev) ys = Some y" "core_of x = core_of y"
    using find_core [OF assms, of ev] by (cases "find (state_owns ev) ys") simp_all
  then show ?thesis using Some core_determines(2,3) [OF y(2)] by (simp add: state_fate_def)
qed

lemma normal_core:
  assumes "map core_of xs = map core_of ys" and "list_all inventory_normal ys"
  shows "list_all inventory_normal xs"
proof -
  have len: "length xs = length ys" using assms(1) by (metis length_map)
  have "inventory_normal (xs ! i)" if "i < length xs" for i
  proof -
    have "core_of (xs ! i) = core_of (ys ! i)" using assms(1) that len by (metis nth_map)
    moreover have "inventory_normal (ys ! i)" using assms(2) that len by (simp add: list_all_length)
    ultimately show ?thesis using core_determines(4) by blast
  qed
  then show ?thesis by (simp add: list_all_length)
qed

section \<open>Matches of the states\<close>

lemma path_runtime_matcher: "sr_matcher (path_runtime file s a m r) = sr_matcher r"
  by (simp add: path_runtime_def selective_runtime_def vpn_runtime_def explicit_runtime_def outcome_def Let_def split: option.splits prod.splits)

lemma matcher_without_values:
  assumes "matcher_from_subject s = Inr m" and "mt_matcher m = Some n"
  shows "nm_values n = None"
  using assms
  by (auto simp: matcher_from_subject_def lan_matcher_def external_network_matcher_def explicit_client_matcher_def docker_matcher_def
      host_matcher_def ip_matcher_def unresolved_def Let_def split: option.splits if_splits sum.splits ip_version.splits prod.splits)

lemma runtime_matcher_cases:
  assumes "build_scoped_subject_runtime file s a = Inr r"
  obtains m where "matcher_from_subject s = Inr m"
    and "sr_matcher r = mt_matcher m \<or> ps_type s = ''docker'' \<and> (\<exists>as. docker_direct_addresses s = Some as \<and> sr_matcher r = Some (with_values as (mt_matcher m)))"
proof -
  obtain m where m: "matcher_from_subject s = Inr m" using assms by (auto simp: build_scoped_subject_runtime_def split: sum.splits)
  have i: "sr_matcher (initial_runtime s a m) = mt_matcher m" by (simp add: initial_runtime_def Let_def)
  have "sr_matcher r = mt_matcher m
      \<or> ps_type s = ''docker'' \<and> (\<exists>as. docker_direct_addresses s = Some as \<and> sr_matcher r = Some (with_values as (mt_matcher m)))"
    using assms m
    by (auto simp: build_scoped_subject_runtime_def path_runtime_matcher outcome_def i direct_coverage_applies_def Let_def
        split: if_splits option.splits)
  then show thesis using m that by blast
qed

lemma direct_addresses_normal: "docker_direct_addresses s = Some as \<Longrightarrow> sorted as \<and> distinct as"
  by (auto simp: docker_direct_addresses_def Let_def split: option.splits if_splits)

lemma state_inventory_normal:
  assumes "enrich_planned env pe r q = Inr x"
  shows "inventory_normal x" "fst x = q"
proof -
  obtain es where es: "enrich_subject_with_effective_state pe (pl_subject q) (routing.truncate r)
      (resolved_user_override (me_now env) (me_overrides env) q) (resolved_server_override (me_now env) (me_overrides env) q) = Inr es"
    and x: "x = (q, es)"
    using assms by (auto simp: enrich_planned_def map_sum_def split: sum.splits)
  show "fst x = q" by (simp add: x)
  obtain b so where "scoped_of pe (pl_subject q) (routing.truncate r) b so = Inr (es_scoped es)" using es by (rule enrich_cases)
  then obtain m where m: "matcher_from_subject (pl_subject q) = Inr m"
    "sr_matcher (es_scoped es) = mt_matcher m \<or> ps_type (pl_subject q) = ''docker''
      \<and> (\<exists>as. docker_direct_addresses (pl_subject q) = Some as \<and> sr_matcher (es_scoped es) = Some (with_values as (mt_matcher m)))"
    unfolding scoped_of_def by (rule runtime_matcher_cases)
  then show "inventory_normal x"
    using matcher_without_values [OF m(1)] direct_addresses_normal
    by (auto simp: inventory_normal_def x with_values_def split: option.splits)
qed

lemma map_raise_list_all2: "map_raise f xs = Inr ys \<Longrightarrow> list_all2 (\<lambda>x y. f x = Inr y) xs ys"
  by (induction xs arbitrary: ys) (auto split: sum.splits)

end
