(* ===== verification/Manifest_Properties.thy ===== *)
theory Manifest_Properties
  imports Manifest_Flow
begin

text \<open>
  What holds from the policy of the subjects down to packets: the table rendered from a manifest gives every packet
  the fate of the effective states, an emergency keeps all traffic off the VPN, and the manifest agrees with the
  renderer about the need for policy routing.
\<close>

section \<open>From states to packets\<close>

text \<open>An explicit client is not of a kind that arrives at an interface of its own.\<close>

definition consistent_kind :: "policy_subject \<Rightarrow> bool" where
  "consistent_kind s =
     (is_explicit_external_client_subject_type (ps_type s) \<longrightarrow>
        transparent_ingress_contract_for_subject (ps_type s) (ps_implementation s) = None)"

lemma not_explicit: "\<not> is_explicit_external_client_subject_type ''lan''" "\<not> is_explicit_external_client_subject_type ''docker''"
  by code_simp+

lemma explicit_without_matcher:
  assumes "consistent_kind s" and "\<not> subject_needs_transparent_policy (ps_type s)" and "build_scoped_subject_runtime bf s a = Inr r"
  shows "sr_matcher r = None"
proof -
  have e: "is_explicit_external_client_subject_type (ps_type s)" using assms(2) by (auto simp: subject_needs_transparent_policy_def split: if_splits)
  then have t: "ps_type s \<noteq> ''lan''" "ps_type s \<noteq> ''docker''" using not_explicit by auto
  obtain m where m: "matcher_from_subject s = Inr m" "sr_matcher r = mt_matcher m"
    using assms(3) by (rule runtime_matcher_cases) (use t(2) in blast)
  have "mt_matcher m = None"
    using m(1) assms(1) e t(1) by (auto simp: consistent_kind_def matcher_from_subject_def explicit_client_matcher_def unresolved_def Let_def)
  then show ?thesis using m(2) by simp
qed

lemma enriched_runtime:
  assumes "enrich_planned env pe r q = Inr x"
  obtains ra where "build_scoped_subject_runtime (pe_bindings pe) (pl_subject q) ra = Inr (es_scoped (snd x))"
proof -
  obtain es where es: "enrich_subject_with_effective_state pe (pl_subject q) (routing.truncate r)
      (resolved_user_override (me_now env) (me_overrides env) q) (resolved_server_override (me_now env) (me_overrides env) q) = Inr es"
    and x: "x = (q, es)"
    using assms by (auto simp: enrich_planned_def map_sum_def split: sum.splits)
  obtain b so where "scoped_of pe (pl_subject q) (routing.truncate r) b so = Inr (es_scoped es)" using es by (rule enrich_cases)
  then show thesis unfolding scoped_of_def using that x by simp
qed

lemma planned_stateD:
  assumes "planned_states env a routing subjects = Inr states" and "x \<in> set states"
  shows "inventory_normal x" and "fst x \<in> set subjects" and "\<exists>bf ra. build_scoped_subject_runtime bf (pl_subject (fst x)) ra = Inr (es_scoped (snd x))"
proof -
  obtain pe where m: "map_raise (enrich_planned env pe (plan_routing env (ma_extra a) routing)) subjects = Inr states"
    using assms(1) by (auto simp: planned_states_def split: sum.splits)
  obtain i where i: "i < length states" "x = states ! i" using assms(2) by (metis in_set_conv_nth)
  have e: "enrich_planned env pe (plan_routing env (ma_extra a) routing) (subjects ! i) = Inr x" "i < length subjects"
    using map_raise_list_all2 [OF m] i by (auto simp: list_all2_conv_all_nth)
  show "inventory_normal x" using state_inventory_normal(1) [OF e(1)] .
  show "fst x \<in> set subjects" using state_inventory_normal(2) [OF e(1)] e(2) by simp
  show "\<exists>bf ra. build_scoped_subject_runtime bf (pl_subject (fst x)) ra = Inr (es_scoped (snd x))"
    using enriched_runtime [OF e(1)] state_inventory_normal(2) [OF e(1)] by metis
qed

lemma find_map_filter: "find P (map f (filter Q xs)) = map_option f (find (\<lambda>x. Q x \<and> P (f x)) xs)"
  by (induction xs) auto

lemma find_cong_on: "(\<And>x. x \<in> set xs \<Longrightarrow> P x = Q x) \<Longrightarrow> find P xs = find Q xs"
  by (induction xs) auto

text \<open>The fate by the manifest is the fate by the states it was built from.\<close>

lemma steering_not_failed:
  assumes "owned_table_args manifest = Inr ta" and "s \<in> set (active_subjects manifest)"
  shows "\<not> isl (scoped_matcher True s)"
proof -
  obtain rules cs where r: "map_err (subject_steering (ta_steering ta)) (active_subjects manifest) = Inr rules"
    using args_rules [OF assms(1)] by metis
  obtain ys zs where "active_subjects manifest = ys @ s # zs" using assms(2) split_list by fastforce
  then obtain x where "subject_steering (ta_steering ta) s = Inr x" using map_err_append r by force
  then show ?thesis by (cases "scoped_matcher True s") (simp_all add: subject_steering_def)
qed

lemma fate_of_states:
  assumes "manifest = manifest_dict a (routing_dict r) pf enf d xs reason" and "owned_table_args manifest = Inr ta"
    and "list_all inventory_normal xs"
  shows "policy_fate manifest ev = state_fate (steering_args_of manifest) (mode_of manifest) xs ev"
proof -
  let ?f = "manifest_subject enf"
  have act: "active_subjects manifest = map ?f (filter (\<lambda>x. ps_active (pl_subject (fst x))) xs)" by (simp add: assms(1) manifest_active)
  have o: "owns ev (?f x) = state_owns ev x \<and> (state_owns ev x \<longrightarrow> matcher_family (?f x) = state_family x)"
    if "x \<in> set xs" "ps_active (pl_subject (fst x))" for x
  proof -
    have "?f x \<in> set (active_subjects manifest)" using that by (simp add: act)
    then have n: "\<not> isl (scoped_matcher True (?f x))" by (rule steering_not_failed [OF assms(2)])
    have i: "inventory_normal x" using assms(3) that(1) by (simp add: list_all_iff)
    show ?thesis using owns_manifest_subject [OF i n that(2)] by blast
  qed
  have f: "find (owns ev) (active_subjects manifest) = map_option ?f (find (state_owns ev) xs)"
    unfolding act find_map_filter
    by (rule arg_cong [of _ _ "map_option ?f"], rule find_cong_on) (use o in \<open>auto simp: state_owns_def\<close>)
  show ?thesis
  proof (cases "find (state_owns ev) xs")
    case None
    then show ?thesis by (simp add: policy_fate_def state_fate_def f Let_def)
  next
    case (Some x)
    then have x: "x \<in> set xs" "state_owns ev x" using find_split by fastforce+
    then have "matcher_family (?f x) = state_family x" using o by (simp add: state_owns_def)
    then show ?thesis using Some by (simp add: policy_fate_def state_fate_def f subject_resolved_path Let_def)
  qed
qed

lemma fresh_of_contract:
  assumes "n \<notin> {256, 257, 258, 259 :: int}"
  shows "fresh_mark (vpn_params_of (PDict (contract_of pe g c))) n"
proof -
  have m: "mark_value ''0x00000100'' = Some 256" by code_simp
  note v = vpn_marks [of "PDict (contract_of pe g c)" 256, unfolded contract_marks(1) [of pe g c]]
  show ?thesis using v m assms by (auto simp: fresh_mark_def contract_marks)
qed

lemma owners_need_policy:
  assumes "planned_states env a routing subjects = Inr states" and "map core_of xs = map core_of states"
    and "\<forall>q\<in>set subjects. consistent_kind (pl_subject q)" and "x \<in> set xs" and "sr_matcher (es_scoped (snd x)) \<noteq> None"
  shows "subject_needs_transparent_policy (ps_type (pl_subject (fst x)))"
proof -
  have "core_of x \<in> core_of ` set states" using assms(2,4) by (metis image_eqI image_set)
  then obtain y where y: "y \<in> set states" "core_of x = core_of y" by blast
  note s = planned_stateD [OF assms(1) y(1)]
  obtain bf ra where "build_scoped_subject_runtime bf (pl_subject (fst y)) ra = Inr (es_scoped (snd y))" using s(3) by blast
  then have n: "sr_matcher (es_scoped (snd y)) = None" if "\<not> subject_needs_transparent_policy (ps_type (pl_subject (fst y)))"
    using explicit_without_matcher assms(3) s(2) that by blast
  have "fst x = fst y" "sr_matcher (es_scoped (snd x)) = sr_matcher (es_scoped (snd y))" using y(2) by (simp_all add: core_of_def)
  then show ?thesis using assms(5) n by metis
qed

lemma manifest_owner:
  assumes "manifest = manifest_dict a (routing_dict r) pf enf d xs reason" and "owned_table_args manifest = Inr ta" and "list_all inventory_normal xs"
    and "planned_states env a routing subjects = Inr states" and "map core_of xs = map core_of states"
    and "\<forall>q\<in>set subjects. consistent_kind (pl_subject q)" and "s \<in> set (active_subjects manifest)" and "owns ev s"
  obtains x where "x \<in> set xs" and "s = manifest_subject enf x" and "ps_active (pl_subject (fst x))"
    and "subject_needs_transparent_policy (ps_type (pl_subject (fst x)))"
proof -
  obtain x where x: "x \<in> set xs" "s = manifest_subject enf x" "ps_active (pl_subject (fst x))" using assms(7) by (auto simp: assms(1) manifest_active)
  have "state_owns ev x"
    using owns_manifest_subject(1) [OF _ _ x(3)] assms(3,7,8) x(1,2) steering_not_failed [OF assms(2,7)] by (auto simp: list_all_iff)
  then have "sr_matcher (es_scoped (snd x)) \<noteq> None" by (auto simp: state_owns_def state_matches_def split: option.splits)
  then show thesis using that x owners_need_policy [OF assms(4-6) x(1)] by blast
qed

lemma planned_normal:
  assumes "planned_states env a routing subjects = Inr states" and "map core_of xs = map core_of states"
  shows "list_all inventory_normal xs"
  using normal_core [OF assms(2)] planned_stateD(1) [OF assms(1)] by (auto simp: list_all_iff)

text \<open>
  C1. The policy reaches the packets. The table rendered from a manifest gives every arriving TCP or UDP packet that no
  guard and no immunity exempts the fate of the effective states that the policy computed for the plan: of the first
  active subject that owns the packet, else of the global mode. What has to go to the VPN is marked with
  256 to 259 and handed to the proxy, never left alone, given that the ports of its listeners are positive.
\<close>

theorem policy_reaches_packets:
  assumes "build_dataplane_manifest_from_state env a routing subjects = Inr manifest"
    and "planned_states env a routing subjects = Inr states"
    and "owned_table_candidate senv loaded manifest = Inr t" and "\<not> bypass_enabled manifest" and "owned_table_args manifest = Inr ta"
    and "\<forall>c. resolved_contours (pv_adapter (me_preflight env)) (mh_details (pv_health (me_preflight env))) = Inr c \<longrightarrow> ports_positive (ct_ports c)"
    and "\<forall>q\<in>set subjects. consistent_kind (pl_subject q)"
    and "pk_mark p \<notin> {256, 257, 258, 259}" and "one_transport ev"
    and "\<forall>r\<in>set (entry_guards senv ta @ immune_rules). \<not> rule_matches ev p r"
  shows "run_ingress (oc_chains t) ev p = Some (fate_outcome (vpn_params_of (contour_of manifest)) 256 ev p
    (state_fate (steering_args_of manifest) (mode_of manifest) states ev))"
  using assms(1)
proof (rule build_cases)
  fix c d states' conflicts
  let ?r = "plan_routing env (ma_extra a) routing" and ?xs = "fold mark_conflict conflicts states'"
  let ?pf = "preflight_dict (me_preflight env) (plan_preflight_args ?r (ma_extra a)) c"
  assume c: "resolved_contours (pv_adapter (me_preflight env)) (mh_details (pv_health (me_preflight env))) = Inr c"
    and st: "planned_states env a routing subjects = Inr states'"
    and m: "manifest = manifest_dict a (routing_dict ?r) ?pf (plan_enforcement ?pf d) d ?xs (reported_reason (ma_reason a) conflicts)"
  have eq: "states' = states" using st assms(2) by simp
  have pos: "ports_positive (ct_ports c)" using assms(6) c by blast
  have core: "map core_of ?xs = map core_of states" using core_mark_conflicts eq by simp
  have normal: "list_all inventory_normal ?xs" using planned_normal [OF assms(2) core] .
  have fate: "policy_fate manifest ev = state_fate (steering_args_of manifest) (mode_of manifest) states ev"
    using fate_of_states [OF m assms(5) normal, of ev] state_fate_core [OF core] by simp
  have contour: "contour_of manifest = PDict (contract_of (me_preflight env) (plan_preflight_args ?r (ma_extra a)) c)"
    by (simp add: m manifest_contour)
  have mark: "mark_value (vp_fwmark (vpn_params_of (contour_of manifest))) = Some 256" unfolding contour contract_marks by code_simp
  have need: "\<forall>s\<in>set (active_subjects manifest). owns ev s \<longrightarrow> subject_needs_transparent_policy (subject_type_text s)"
  proof (intro ballI impI)
    fix s assume s: "s \<in> set (active_subjects manifest)" "owns ev s"
    obtain x where "s = manifest_subject (plan_enforcement ?pf d) x" "subject_needs_transparent_policy (ps_type (pl_subject (fst x)))"
      using manifest_owner [OF m assms(5) normal assms(2) core assms(7) s] by blast
    then show "subject_needs_transparent_policy (subject_type_text s)" by (simp add: subject_gets)
  qed
  have ports: "\<forall>full. policy_fate manifest ev = Capture full \<longrightarrow> capture_ports (vpn_params_of (contour_of manifest)) full"
  proof (intro allI impI)
    fix full assume f: "policy_fate manifest ev = Capture full"
    show "capture_ports (vpn_params_of (contour_of manifest)) full"
    proof (cases full)
      case True
      then show ?thesis unfolding contour using full_capture_ports [OF pos] by simp
    next
      case False
      then have "st_ready (steering_args_of manifest)"
        using f by (auto simp: policy_fate_def global_fate_def subject_fate_def fate_defs Let_def split: option.splits if_splits)
      then have "vpn_policy_missing (me_preflight env) (plan_preflight_args ?r (ma_extra a)) c = []"
        unfolding m manifest_ready by (simp add: selective_vpn_policy_ready_def)
      then show ?thesis unfolding contour using selective_capture_ports [OF pos policy_ready_contract] False by simp
    qed
  qed
  show ?thesis
    using table_refines_lemma [OF assms(3-5) refl mark _ _ assms(10,9) need ports] fresh_of_contract [OF assms(8)]
    by (simp add: fate contour)
qed

section \<open>Emergencies\<close>

text \<open>A table that steers nothing: neither the mode nor an active subject wants the VPN or the rules.\<close>

definition steers_nothing :: "pyval \<Rightarrow> bool" where
  "steers_nothing manifest =
     (mode_of manifest \<notin> {''vpn'', ''selective''}
      \<and> (\<forall>s\<in>set (active_subjects manifest). resolved_subject_path s \<notin> {''vpn'', ''selective''}))"

lemma fate_cases:
  obtains "policy_fate manifest ev = Leave" | v where "policy_fate manifest ev = Refuse v" | full where "policy_fate manifest ev = Capture full"
  by (cases "policy_fate manifest ev") blast+

lemma capture_source:
  assumes "policy_fate manifest ev = Capture full"
  obtains s where "s \<in> set (active_subjects manifest)" and "owns ev s"
      and "subject_fate (steering_args_of manifest) (resolved_subject_path s) (matcher_family s) ev = Capture full"
    | "global_fate (steering_args_of manifest) (mode_of manifest) ev = Capture full"
proof (cases "find (owns ev) (active_subjects manifest)")
  case None
  then show thesis using assms that(2) by (simp add: policy_fate_def Let_def)
next
  case (Some s)
  then have "s \<in> set (active_subjects manifest)" "owns ev s" using find_split by fastforce+
  then show thesis using assms that(1) Some by (simp add: policy_fate_def Let_def)
qed

lemma calm_fate: "steers_nothing manifest \<Longrightarrow> policy_fate manifest ev \<noteq> Capture full"
  by (rule notI, erule capture_source) (auto simp: steers_nothing_def global_fate_def subject_fate_def split: if_splits)

lemma calm_output:
  assumes "owned_table_args manifest = Inr a"
    and "\<forall>s\<in>set (active_subjects manifest). subject_type_text s \<in> {''host'', ''docker''} \<longrightarrow> resolved_subject_path s \<noteq> ''vpn''"
  shows "ta_output a = []"
proof -
  obtain rules where r: "map_err (subject_steering (ta_steering a)) (active_subjects manifest) = Inr rules"
    "ta_output a = concat (map snd rules)" using assms(1) by (auto simp: owned_table_args_def Let_def split: sum.splits)
  have "snd x = []" if "map_err (subject_steering st) ss = Inr xs" "x \<in> set xs"
    "\<forall>s\<in>set ss. subject_type_text s \<in> {''host'', ''docker''} \<longrightarrow> resolved_subject_path s \<noteq> ''vpn''" for st ss xs x
    using that
  proof (induction ss arbitrary: xs)
    case (Cons s ss)
    then obtain y ys where y: "subject_steering st s = Inr y" "map_err (subject_steering st) ss = Inr ys" "xs = y # ys" by (auto split: sum.splits)
    then have "snd y = []" using Cons.prems(3) by (auto simp: subject_steering_def Let_def split: sum.splits option.splits if_splits)
    then show ?case using Cons y by auto
  qed simp
  then show ?thesis using r assms(2) by auto
qed

lemma judged_ingress:
  assumes "well_built a" and "fresh_mark (ta_params a) (pk_mark p)" and "classify env a ev p = Some (v, p)" and "v \<noteq> Fall"
  shows "\<exists>v. run_ingress (owned_chains env a) ev p = Some (v, p)"
proof -
  let ?rest = "[NRule [] [NJump ''fwrouter_classify''] (Some ''FWRouter global classify'')] @ tproxy_rules (prerouting_args_of env a)"
  have "run_rules (run_chain 2 (owned_chains env a) ev) ev ?rest p = Some (v, p)" using assms(3,4) by (cases v) simp_all
  then have "\<exists>v. run_hook (owned_chains env a) ev ''prerouting'' p = Some (v, p)"
    using judging_prefix [OF judging_guards, of "run_chain 2 (owned_chains env a) ev" ev env a ?rest p] unfolding run_prerouting by auto
  then show ?thesis using nat_fresh [OF assms(1,2)] by (auto simp: run_ingress_def)
qed

lemma uncaptured_unchanged:
  assumes "owned_table_candidate env loaded manifest = Inr t" and "fresh_mark (vpn_params_of (contour_of manifest)) (pk_mark p)"
    and "\<not> bypass_enabled manifest \<Longrightarrow> \<forall>full. policy_fate manifest ev \<noteq> Capture full"
    and "\<not> bypass_enabled manifest \<Longrightarrow>
           \<forall>s\<in>set (active_subjects manifest). subject_type_text s \<in> {''host'', ''docker''} \<longrightarrow> resolved_subject_path s \<noteq> ''vpn''"
  shows "(\<exists>v. run_ingress (oc_chains t) ev p = Some (v, p)) \<and> (\<exists>v. run_hook (oc_chains t) ev ''output'' p = Some (v, p))"
proof (cases "bypass_enabled manifest")
  case True
  then show ?thesis using candidate_cases(1) [OF assms(1)] ingress_bypass run_bypass by simp
next
  case False
  then obtain a where a: "owned_table_args manifest = Inr a" "t = full_table env loaded manifest a"
    using candidate_cases(2) [OF assms(1)] by blast
  note f = args_facts [OF a(1)]
  have fresh: "fresh_mark (ta_params a) (pk_mark p)" using assms(2) f(2) by simp
  have out: "\<exists>v. run_hook (owned_chains env a) ev ''output'' p = Some (v, p)"
    using output_unchanged [OF f(1)] calm_output [OF a(1) assms(4) [OF False]] by simp
  have "\<exists>v. classify env a ev p = Some (v, p)"
  proof (cases "\<exists>r\<in>set immune_rules. rule_matches ev p r")
    case True
    then show ?thesis using classify_immune [OF f(1)] by blast
  next
    case n: False
    then have "classify env a ev p = fate_call (run_chain 1 (owned_chains env a) ev) p (policy_fate manifest ev)"
      using classify_refines [OF a(1)] by blast
    then show ?thesis using assms(3) [OF False] by (cases manifest ev rule: fate_cases) auto
  qed
  then obtain v where c: "classify env a ev p = Some (v, p)" by blast
  have "\<exists>v. run_ingress (owned_chains env a) ev p = Some (v, p)"
    by (cases "v = Fall") (use ingress_unchanged [OF f(1) fresh] judged_ingress [OF f(1) fresh] c in auto)
  then show ?thesis using out a(2) by simp
qed

text \<open>The modes that the tables of the subjects and of the user overrides can hold.\<close>

definition stored_subject_mode :: "string \<Rightarrow> bool" where
  "stored_subject_mode m = (m \<in> {''global'', ''direct'', ''selective'', ''vpn'', ''disabled'', ''enabled'', ''forced_vpn''})"

definition stored_override_mode :: "user_override_row \<Rightarrow> bool" where
  "stored_override_mode u = (uo_mode u \<in> {None, Some ''direct'', Some ''selective'', Some ''vpn''})"

definition stored_modes :: "manifest_env \<Rightarrow> planned_subject \<Rightarrow> bool" where
  "stored_modes env q =
     (stored_subject_mode (ps_desired_mode (pl_subject q)) \<and> list_all stored_override_mode (od_user (me_overrides env))
      \<and> pred_option stored_override_mode (pl_user q) \<and> pred_option stored_override_mode (pl_state_user q))"

lemma stored_resolved:
  assumes "stored_modes env q" and "resolved_user_override now (me_overrides env) q = Some u"
  shows "stored_override_mode u"
proof -
  have "pl_user q = Some u \<or> pl_state_user q = Some u \<or> u \<in> set (od_user (me_overrides env))"
    using assms(2) by (auto simp: resolved_user_override_def planned_subject_override_def load_active_user_override_def find_Some_iff split: option.splits)
  then show ?thesis using assms(1) by (auto simp: stored_modes_def list_all_iff)
qed

lemma mode_of_override:
  assumes "stored_override_mode u"
  shows "py_str (opt_val (uo_mode u)) \<in> {''direct'', ''selective'', ''vpn'', ''None''}"
proof -
  have "py_str PNone = ''None''" by code_simp
  then show ?thesis using assms by (auto simp: stored_override_mode_def)
qed

text \<open>The effective mode is a mode of the subject, of the override, of the routing or one of three others.\<close>

lemma effective_mode_source:
  assumes "ps_desired_mode s \<in> K" and "\<And>v. u = Some v \<Longrightarrow> py_str (opt_val (uo_mode v)) \<in> K" and "ro_desired_mode r \<in> K"
    and "''direct'' \<in> K" and "''disabled'' \<in> K" and "''forced_vpn'' \<in> K"
  shows "fst (effective_mode_with_override s r u) \<in> K"
proof -
  have x: "fst (xray_effective_mode (ps_desired_mode s) u) \<in> K"
    using assms by (simp add: xray_effective_mode_def split: option.split)
  show ?thesis
    using assms x by (simp add: effective_mode_with_override_def resolve_effective_capture_mode_def split: option.split)
qed

lemma effective_mode_known:
  assumes "stored_subject_mode (ps_desired_mode s)" and "\<And>v. u = Some v \<Longrightarrow> stored_override_mode v" and "ro_desired_mode r = ''direct''"
  shows "fst (effective_mode_with_override s r u) \<in> {''global'', ''direct'', ''selective'', ''vpn'', ''disabled'', ''enabled'', ''forced_vpn'', ''None''}"
  (is "_ \<in> ?K")
proof (rule effective_mode_source)
  show "ps_desired_mode s \<in> ?K" using assms(1) unfolding stored_subject_mode_def by blast
  show "py_str (opt_val (uo_mode v)) \<in> ?K" if "u = Some v" for v using mode_of_override [OF assms(2) [OF that]] by blast
  show "ro_desired_mode r \<in> ?K" using assms(3) by blast
qed simp_all

lemma calm_path:
  assumes "enrich_planned env pe r q = Inr x" and "pe_emergency pe" and "stored_modes env q" and "ro_desired_mode r = ''direct''"
  shows "route_path x \<notin> {''vpn'', ''selective''}"
proof -
  let ?u = "resolved_user_override (me_now env) (me_overrides env) q"
  obtain es where es: "enrich_subject_with_effective_state pe (pl_subject q) (routing.truncate r) ?u
      (resolved_server_override (me_now env) (me_overrides env) q) = Inr es" and x: "x = (q, es)"
    using assms(1) by (auto simp: enrich_planned_def map_sum_def split: sum.splits)
  obtain mode0 source0 mode binding where m: "effective_mode_with_override (pl_subject q) (routing.truncate r) ?u = (mode0, source0)"
    "mode = (if pe_emergency pe \<and> mode0 \<in> {''vpn'', ''forced_vpn'', ''selective''} then ''direct'' else mode0)"
    "es_path es = effective_path mode (ps_type (pl_subject q))"
    using es by (rule enrich_cases) (simp add: effective_binding_def)
  have "ro_desired_mode (routing.truncate r) = ''direct''" using assms(4) by (simp add: routing.truncate_def)
  then have "mode0 \<in> {''global'', ''direct'', ''selective'', ''vpn'', ''disabled'', ''enabled'', ''forced_vpn'', ''None''}"
    using effective_mode_known [of "pl_subject q" ?u "routing.truncate r"] stored_resolved [OF assms(3)] assms(3) m(1)
    by (simp add: stored_modes_def)
  then have "mode \<in> {''global'', ''direct'', ''disabled'', ''enabled'', ''None''}" using m(2) assms(2) by auto
  then have "es_path es \<in> {''global'', ''direct'', ''blocked'', ''enabled'', ''None''}" by (auto simp: m(3) effective_path_def)
  moreover have "lower (strip p) \<notin> {''vpn'', ''selective''}" if "p \<in> {''global'', ''direct'', ''blocked'', ''enabled'', ''None''}" for p
    using that by (elim insertE emptyE) (simp_all only:, code_simp+)
  ultimately show ?thesis by (simp add: route_path_def x)
qed

lemma planned_state_calm:
  assumes "planned_states env a routing subjects = Inr states" and "x \<in> set states" and "emergency_override (me_reentry env) (me_pending env)"
    and "\<not> truthy (dict_get (ma_extra a) ''provider_vpn_reentry'')" and "\<forall>q\<in>set subjects. stored_modes env q"
  shows "route_path x \<notin> {''vpn'', ''selective''}"
proof -
  let ?r = "plan_routing env (ma_extra a) routing"
  obtain pe where pe: "planned_policy_env env a routing = Inr pe" "map_raise (enrich_planned env pe ?r) subjects = Inr states"
    using assms(1) by (auto simp: planned_states_def split: sum.splits)
  have em: "pe_emergency pe" using pe(1) assms(3) by (auto simp: planned_policy_env_def policy_env_of_def map_sum_def split: sum.splits)
  obtain i where i: "i < length states" "x = states ! i" using assms(2) by (metis in_set_conv_nth)
  have e: "enrich_planned env pe ?r (subjects ! i) = Inr x" "i < length subjects"
    using map_raise_list_all2 [OF pe(2)] i by (auto simp: list_all2_conv_all_nth)
  have "ro_desired_mode ?r = ''direct''" using assms(3,4) by (simp add: plan_routing_def override_manifest_state_def)
  then show ?thesis using calm_path [OF e(1) em] assms(5) e(2) by simp
qed

text \<open>
  C2. An emergency of the provider recovery takes everything off the VPN. The table rendered from a manifest that is
  built during an emergency, outside the re-entry of the VPN, captures nothing: every packet, arriving or of the
  host, leaves with its mark and without a proxy, whatever the global mode, the modes of the subjects and the
  overrides of the users are, given that they are modes that the database admits.
\<close>

theorem emergency_table_captures_nothing:
  assumes "build_dataplane_manifest_from_state env a routing subjects = Inr manifest"
    and "emergency_override (me_reentry env) (me_pending env)" and "\<not> truthy (dict_get (ma_extra a) ''provider_vpn_reentry'')"
    and "\<forall>q\<in>set subjects. stored_modes env q"
    and "owned_table_candidate senv loaded manifest = Inr t" and "pk_mark p \<notin> {256, 257, 258, 259}"
  shows "(\<exists>v. run_ingress (oc_chains t) ev p = Some (v, p)) \<and> (\<exists>v. run_hook (oc_chains t) ev ''output'' p = Some (v, p))"
  using assms(1)
proof (rule build_cases)
  fix c d states conflicts
  let ?r = "plan_routing env (ma_extra a) routing" and ?xs = "fold mark_conflict conflicts states"
  let ?pf = "preflight_dict (me_preflight env) (plan_preflight_args ?r (ma_extra a)) c"
  assume st: "planned_states env a routing subjects = Inr states"
    and m: "manifest = manifest_dict a (routing_dict ?r) ?pf (plan_enforcement ?pf d) d ?xs (reported_reason (ma_reason a) conflicts)"
  have "ro_desired_mode ?r = ''direct''" using assms(2,3) by (simp add: plan_routing_def override_manifest_state_def)
  then have mode: "mode_of manifest = ''direct''"
    unfolding m manifest_mode by (simp add: desired_routing_mode_def routing_dict_def py_or_def)
  have "route_path x \<notin> {''vpn'', ''selective''}" if "x \<in> set ?xs" for x
  proof -
    have "core_of x \<in> core_of ` set states" using core_mark_conflicts that by (metis image_eqI image_set)
    then obtain y where y: "y \<in> set states" "core_of x = core_of y" by blast
    then show ?thesis using planned_state_calm [OF st y(1) assms(2-4)] core_determines(2) [OF y(2)] by simp
  qed
  then have calm: "steers_nothing manifest" unfolding steers_nothing_def using mode by (auto simp: m manifest_active subject_resolved_path)
  have "fresh_mark (vpn_params_of (contour_of manifest)) (pk_mark p)" using fresh_of_contract [OF assms(6)] by (simp add: m manifest_contour)
  moreover have "\<forall>s\<in>set (active_subjects manifest). resolved_subject_path s \<noteq> ''vpn''" using calm by (simp add: steers_nothing_def)
  ultimately show ?thesis using calm_fate [OF calm] by (intro uncaptured_unchanged [OF assms(5)]) blast+
qed

section \<open>Policy routing\<close>

text \<open>Whether the destination is in a set of the VPN rules.\<close>

definition vpn_listed :: "valuation \<Rightarrow> bool" where
  "vpn_listed ev = (ev ''ip daddr'' ''@vpn_ipv4'' \<or> ev ''ip daddr'' ''@dns_vpn_ipv4'' \<or> ev ''ip6 daddr'' ''@vpn_ipv6'')"

lemma unlisted_fate:
  assumes "\<not> vpn_listed ev" and "st_selective_default st \<noteq> ''vpn''"
  shows "global_fate st mode ev = Capture full \<Longrightarrow> mode = ''vpn''" and "subject_fate st path family ev = Capture full \<Longrightarrow> path = ''vpn''"
  using assms by (auto simp: vpn_listed_def global_fate_def subject_fate_def fate_defs split: if_splits)

lemma capture_modes:
  shows "global_fate st mode ev = Capture full \<Longrightarrow> mode \<in> {''vpn'', ''selective''}"
    and "subject_fate st path family ev = Capture full \<Longrightarrow> path \<in> {''vpn'', ''selective''}"
  by (auto simp: global_fate_def subject_fate_def split: if_splits)

lemma manifest_flag:
  "truthy (get_in (get_in (manifest_dict a rd pf enf d xs reason) ''summary'') ''requires_vpn_policy_routing'')
     = requires_vpn_policy_routing rd xs pf (truthy (get_in (core_bypass_of d) ''enabled''))"
  by (simp add: manifest_dict_def Let_def)

lemma manifest_default:
  assumes "ro_selective_default r \<in> {''direct'', ''vpn''}"
  shows "st_selective_default (steering_args_of (manifest_dict a (routing_dict r) pf enf d xs reason)) = ro_selective_default r"
    and "lower (strip (routing_selective_default (routing_dict r))) = ro_selective_default r"
proof -
  have d: "routing_selective_default (routing_dict r) = ro_selective_default r"
    using assms by (auto simp: routing_selective_default_def routing_dict_def py_or_def)
  have l: "lower (ro_selective_default r) = ro_selective_default r \<and> lower (strip (ro_selective_default r)) = ro_selective_default r"
    using assms by (elim insertE emptyE) (simp_all only:, code_simp+)
  have e: "ro_selective_default r \<noteq> []" using assms by auto
  show "st_selective_default (steering_args_of (manifest_dict a (routing_dict r) pf enf d xs reason)) = ro_selective_default r"
    using l e by (simp add: steering_args_of_def manifest_dict_def d py_or_PStr Let_def)
  show "lower (strip (routing_selective_default (routing_dict r))) = ro_selective_default r" using l by (simp add: d)
qed

lemma fixed_modes: "lower (strip ''vpn'') = ''vpn''" "lower (strip ''selective'') = ''selective''"
  by code_simp+

lemma system_needs_policy: "subject_needs_transparent_policy ''host''" "subject_needs_transparent_policy ''docker''"
  by code_simp+

text \<open>
  C7. No capture without policy routing. When the summary of a manifest says that the VPN needs no policy routing, the
  table rendered from it marks no packet and hands none to the proxy, given that no destination is in a VPN set when
  the effective rules have no VPN rule, and that the default is one that the database admits.
\<close>

theorem capture_needs_policy_routing:
  assumes "build_dataplane_manifest_from_state env a routing subjects = Inr manifest"
    and "\<not> truthy (get_in (get_in manifest ''summary'') ''requires_vpn_policy_routing'')"
    and "vpn_listed ev \<longrightarrow> truthy (get_in (get_in (get_in manifest ''global_preflight'') ''selective_rules'') ''requires_vpn_runtime'')"
    and "ro_selective_default routing \<in> {''direct'', ''vpn''}" and "\<forall>q\<in>set subjects. consistent_kind (pl_subject q)"
    and "owned_table_candidate senv loaded manifest = Inr t" and "pk_mark p \<notin> {256, 257, 258, 259}"
  shows "(\<exists>v. run_ingress (oc_chains t) ev p = Some (v, p)) \<and> (\<exists>v. run_hook (oc_chains t) ev ''output'' p = Some (v, p))"
  using assms(1)
proof (rule build_cases)
  fix c d states conflicts
  let ?r = "plan_routing env (ma_extra a) routing" and ?xs = "fold mark_conflict conflicts states"
  let ?pf = "preflight_dict (me_preflight env) (plan_preflight_args ?r (ma_extra a)) c"
  let ?reaches = "truthy (get_in (get_in ?pf ''selective_rules'') ''requires_vpn_runtime'') \<or> ro_selective_default ?r = ''vpn''"
  assume st: "planned_states env a routing subjects = Inr states"
    and m: "manifest = manifest_dict a (routing_dict ?r) ?pf (plan_enforcement ?pf d) d ?xs (reported_reason (ma_reason a) conflicts)"
  have "ro_selective_default ?r \<in> {''direct'', ''vpn''}" using assms(4) by (simp add: plan_routing_def override_manifest_state_def)
  note sd = manifest_default [OF this]
  have core: "map core_of ?xs = map core_of states" by (rule core_mark_conflicts)
  have listed: "?reaches" if "vpn_listed ev" using assms(3) that by (simp add: m manifest_preflight)
  have fresh: "fresh_mark (vpn_params_of (contour_of manifest)) (pk_mark p)" using fresh_of_contract [OF assms(7)] by (simp add: m manifest_contour)
  have flag: "\<not> requires_vpn_policy_routing (routing_dict ?r) ?xs ?pf (bypass_enabled manifest)"
    using assms(2) unfolding m manifest_flag manifest_bypass .
  show ?thesis
  proof (rule uncaptured_unchanged [OF assms(6) fresh])
    assume nb: "\<not> bypass_enabled manifest"
    have g: "lower (strip (mode_of manifest)) \<noteq> ''vpn''" "lower (strip (mode_of manifest)) = ''selective'' \<longrightarrow> \<not> ?reaches"
      using flag nb unfolding m manifest_mode requires_vpn_policy_routing_def Let_def sd by argo+
    have s: "route_path x \<noteq> ''vpn''" "route_path x = ''selective'' \<longrightarrow> \<not> ?reaches"
      if "x \<in> set ?xs" "ps_active (pl_subject (fst x))" "subject_needs_transparent_policy (ps_type (pl_subject (fst x)))" for x
      using flag nb that unfolding requires_vpn_policy_routing_def Let_def sd route_path_def by blast+
    obtain ta where ta: "owned_table_args manifest = Inr ta" using candidate_cases(2) [OF assms(6) nb] by blast
    show "\<forall>full. policy_fate manifest ev \<noteq> Capture full"
    proof (intro allI notI)
      fix full assume "policy_fate manifest ev = Capture full"
      then show False
      proof (cases rule: capture_source)
        case (1 s)
        then obtain x where x: "x \<in> set ?xs" "s = manifest_subject (plan_enforcement ?pf d) x" "ps_active (pl_subject (fst x))"
          "subject_needs_transparent_policy (ps_type (pl_subject (fst x)))"
          using manifest_owner [OF m ta planned_normal [OF st core] st core assms(5)] by blast
        have path: "resolved_subject_path s = route_path x" by (simp add: x(2) subject_resolved_path)
        have "route_path x = ''selective''" using capture_modes(2) [OF 1(3)] s(1) [OF x(1,3,4)] path by simp
        then have "\<not> ?reaches" using s(2) [OF x(1,3,4)] by blast
        then show False using unlisted_fate(2) [OF _ _ 1(3)] listed s(1) [OF x(1,3,4)] sd(1) path unfolding m by metis
      next
        case 2
        have "mode_of manifest = ''selective''" using capture_modes(1) [OF 2] g(1) fixed_modes by auto
        then show False using unlisted_fate(1) [OF _ _ 2] listed g fixed_modes sd(1) unfolding m by metis
      qed
    qed
    show "\<forall>s\<in>set (active_subjects manifest). subject_type_text s \<in> {''host'', ''docker''} \<longrightarrow> resolved_subject_path s \<noteq> ''vpn''"
    proof (intro ballI impI)
      fix y assume y: "y \<in> set (active_subjects manifest)" "subject_type_text y \<in> {''host'', ''docker''}"
      then obtain x where x: "x \<in> set ?xs" "y = manifest_subject (plan_enforcement ?pf d) x" "ps_active (pl_subject (fst x))"
        by (auto simp: m manifest_active)
      have "ps_type (pl_subject (fst x)) \<in> {''host'', ''docker''}" using y(2) by (simp add: x(2) subject_gets)
      then have "subject_needs_transparent_policy (ps_type (pl_subject (fst x)))" using system_needs_policy by auto
      then show "resolved_subject_path y \<noteq> ''vpn''" using s(1) [OF x(1,3)] by (simp add: x(2) subject_resolved_path)
    qed
  qed
qed

section \<open>Scoped sets\<close>

text \<open>
  A manifest that is built from the state has no sets of its own for subjects: the values that the renderer looks for
  are not where the manifest has them.
\<close>

theorem built_manifest_has_no_scoped_sets:
  assumes "build_dataplane_manifest_from_state env a routing subjects = Inr manifest"
  shows "build_scoped_vpn_sets manifest = []"
  using assms
proof (rule build_cases)
  fix c d states conflicts
  let ?r = "plan_routing env (ma_extra a) routing" and ?xs = "fold mark_conflict conflicts states"
  let ?pf = "preflight_dict (me_preflight env) (plan_preflight_args ?r (ma_extra a)) c"
  assume m: "manifest = manifest_dict a (routing_dict ?r) ?pf (plan_enforcement ?pf d) d ?xs (reported_reason (ma_reason a) conflicts)"
  have "scoped_entry (manifest_subject enf x) = None" for enf x
    by (simp add: scoped_entry_def subject_gets runtime_gets Let_def)
  then have "List.map_filter scoped_entry (subjects_of manifest) = []" by (simp add: m manifest_subjects List.map_filter_def)
  then show ?thesis by (simp add: build_scoped_vpn_sets_def indexed_def)
qed

end
