(* ===== verification/Manifest_Bounds.thy ===== *)
theory Manifest_Bounds
  imports Routing_Manifest
begin

text \<open>
  Bounds on what a manifest takes over from the details of its subjects: listeners, users of processes and the
  addresses of containers come out normalised, whatever the details hold.
\<close>

section \<open>Listeners and users\<close>

lemma map_of_updates:
  "map_of (fold (\<lambda>x. AList.update (f x) x) xs m) k = (case find (\<lambda>x. f x = k) (rev xs) of Some x \<Rightarrow> Some x | None \<Rightarrow> map_of m k)"
proof (induction xs arbitrary: m rule: rev_induct)
  case (snoc x xs)
  then show ?case by (simp add: update_conv split: option.split)
qed simp

lemma distinct_updates: "distinct (map fst m) \<Longrightarrow> distinct (map fst (fold (\<lambda>x. AList.update (f x) x) xs m))"
  by (induction xs arbitrary: m) (simp_all add: distinct_update)

lemma updates_keyed: "\<forall>y\<in>set m. fst y = f (snd y) \<Longrightarrow> \<forall>y\<in>set (fold (\<lambda>x. AList.update (f x) x) xs m). fst y = f (snd y)"
proof (induction xs arbitrary: m)
  case (Cons x xs)
  have "fst y = f (snd y)" if "y \<in> set (AList.update (f x) x m)" for y
    using that Cons.prems by (induction m) (auto split: if_splits)
  then show ?case using Cons.IH [of "AList.update (f x) x m"] by simp
qed simp

lemma normalized_listener:
  assumes "normalize_listener item source = Some l"
  shows "li_proto l \<in> {''tcp'', ''udp''} \<and> 0 < li_port l \<and> li_port l \<le> 65535 \<and> li_address l \<noteq> []"
  using assms by (auto simp: normalize_listener_def as_positive_port_def Let_def split: if_splits sum.splits option.splits)

lemma map_filter_source: "x \<in> set (List.map_filter f xs) \<Longrightarrow> \<exists>y. f y = Some x"
  by (auto simp: List.map_filter_def)

lemma subject_listener:
  assumes "l \<in> set (subject_listeners detail)"
  shows "li_proto l \<in> {''tcp'', ''udp''} \<and> 0 < li_port l \<and> li_port l \<le> 65535 \<and> li_address l \<noteq> []"
proof -
  obtain item source where "normalize_listener item source = Some l"
    using assms unfolding subject_listeners_def Let_def
    by (auto simp: List.map_filter_simps(2) split: if_splits option.splits dest!: map_filter_source)
  then show ?thesis by (rule normalized_listener)
qed

lemma listener_kept:
  "l \<in> set (bounded_network_listeners detail) \<longleftrightarrow> find (\<lambda>x. listener_key x = listener_key l) (rev (subject_listeners detail)) = Some l"
proof -
  let ?m = "fold (\<lambda>l. AList.update (listener_key l) l) (subject_listeners detail) []"
  have d: "distinct (map fst ?m)" by (rule distinct_updates) simp
  have k: "\<forall>y\<in>set ?m. fst y = listener_key (snd y)" by (rule updates_keyed) simp
  have "l \<in> set (bounded_network_listeners detail) \<longleftrightarrow> (listener_key l, l) \<in> set ?m"
    using k by (force simp: bounded_network_listeners_def)
  also have "\<dots> \<longleftrightarrow> map_of ?m (listener_key l) = Some l" using d by simp
  finally show ?thesis by (simp add: map_of_updates split: option.split)
qed

text \<open>
  C39. What a manifest says about listeners and users is bounded and canonical. The listeners are exactly the last reports
  for their transport, port and address, in the order of these and each but once, with transport TCP or UDP and a
  port from 1 to 65535; the users are 32-bit numbers in ascending order without repetition.
\<close>

theorem manifest_listeners_bounded:
  "let ls = bounded_network_listeners detail; us = bounded_process_uids detail in
    (\<forall>l. l \<in> set ls \<longleftrightarrow> find (\<lambda>x. listener_key x = listener_key l) (rev (subject_listeners detail)) = Some l)
    \<and> list_all (\<lambda>l. li_proto l \<in> {''tcp'', ''udp''} \<and> 0 < li_port l \<and> li_port l \<le> 65535 \<and> li_address l \<noteq> []) ls
    \<and> sorted (map listener_key ls) \<and> distinct (map listener_key ls)
    \<and> list_all (\<lambda>u. 0 \<le> u \<and> u < 2 ^ 32) us \<and> sorted us \<and> distinct us"
proof -
  let ?m = "fold (\<lambda>l. AList.update (listener_key l) l) (subject_listeners detail) []"
  have k: "\<forall>y\<in>set ?m. fst y = listener_key (snd y)" by (rule updates_keyed) simp
  have "distinct (map fst ?m)" by (rule distinct_updates) simp
  moreover have "map fst ?m = map listener_key (map snd ?m)" using k by simp
  ultimately have "distinct (map listener_key (map snd ?m))" by simp
  then have d: "distinct (map listener_key (bounded_network_listeners detail))"
    by (auto simp: bounded_network_listeners_def distinct_map inj_on_def)
  have "find P (rev xs) = Some l \<Longrightarrow> l \<in> set xs" for P l and xs :: "listener list" by (auto simp: find_Some_iff) (metis nth_mem length_rev set_rev)
  then have l: "list_all (\<lambda>l. li_proto l \<in> {''tcp'', ''udp''} \<and> 0 < li_port l \<and> li_port l \<le> 65535 \<and> li_address l \<noteq> [])
      (bounded_network_listeners detail)"
    unfolding list_all_iff using listener_kept subject_listener by blast
  have u: "list_all (\<lambda>u. 0 \<le> u \<and> u < 2 ^ 32) (bounded_process_uids detail)"
    by (auto simp: bounded_process_uids_def list_all_iff Let_def split: sum.splits if_splits dest!: map_filter_source)
  have s: "sorted (map listener_key (bounded_network_listeners detail))" by (simp add: bounded_network_listeners_def)
  have us: "sorted (bounded_process_uids detail)" "distinct (bounded_process_uids detail)" by (simp_all add: bounded_process_uids_def Let_def)
  show ?thesis unfolding Let_def using listener_kept l d u s us by blast
qed

end
