(* ===== verification/Nft_Set_Properties.thy ===== *)
theory Nft_Set_Properties
  imports Nft_Capture Rules_Roundtrip
begin

text \<open>
  What the address sets of the table contain: the VPN sets are the VPN rules, without the single IPv6 addresses,
  which the builder loses, and they avoid the protected networks; and the container guard keeps the addresses of
  containers on the VPN path out of the set of the infrastructure.
\<close>

section \<open>Sets and rules\<close>

text \<open>The entry of a rule as the compiler stores it.\<close>

definition rule_value :: "rule_entry \<Rightarrow> pyval" where
  "rule_value r =
     PDict ([(''action'', PStr (ru_action r)), (''kind'', PStr (ru_kind r)), (''value'', PStr (ru_value r)),
             (''source'', PStr (ru_source r)), (''match'', PStr (ru_match r))]
       @ (case ru_line r of Some n \<Rightarrow> [(''line'', PInt (int n))] | None \<Rightarrow> [])
       @ (case ru_priority r of Some n \<Rightarrow> [(''priority'', PInt (int n))] | None \<Rightarrow> []))"

lemma rule_value_get [simp]:
  "get_in (rule_value r) ''action'' = PStr (ru_action r)" "get_in (rule_value r) ''kind'' = PStr (ru_kind r)"
  "get_in (rule_value r) ''value'' = PStr (ru_value r)" "is_dict (rule_value r)"
  by (simp_all add: rule_value_def)

definition set_space :: "string list \<Rightarrow> (ip_version \<times> int) set" where
  "set_space xs = (\<Union>x\<in>set xs. case parse_network x of Some n \<Rightarrow> net_space n | None \<Rightarrow> {})"

lemma collapsed_space:
  "set_space (collapse_network_values values v)
     = (\<Union>x\<in>set values. case parse_network x of Some n \<Rightarrow> if net_version n = v then net_space n else {} | None \<Rightarrow> {})"
proof -
  let ?ns = "filter (\<lambda>n. net_version n = v) (List.map_filter parse_network values)"
  have mem: "n \<in> set ?ns \<longleftrightarrow> net_version n = v \<and> (\<exists>x\<in>set values. parse_network x = Some n)" for n
    by (force simp: List.map_filter_def)
  have ns: "\<forall>n\<in>set ?ns. wf_net n \<and> net_version n = v" using mem parse_network_wf by blast
  have sp: "(\<Union>n\<in>set ms. net_space n) = Pair v ` covered ms" if "\<forall>n\<in>set ms. wf_net n \<and> net_version n = v" for ms
    using that by (simp add: net_space_def covered_def image_UN)
  note c = collapse_covers [OF ns]
  have "(\<Union>x\<in>network_text ` set ms. case parse_network x of Some n \<Rightarrow> net_space n | None \<Rightarrow> {}) = (\<Union>n\<in>set ms. net_space n)"
    if "\<forall>n\<in>set ms. wf_net n \<and> net_version n = v" for ms using that network_roundtrip by simp
  then have "set_space (collapse_network_values values v) = (\<Union>n\<in>set (collapse_addresses ?ns). net_space n)"
    unfolding set_space_def collapse_network_values_def set_map using c(2) by blast
  also have "\<dots> = (\<Union>n\<in>set ?ns. net_space n)" unfolding sp [OF c(2)] sp [OF ns] c(1) ..
  also have "\<dots> = (\<Union>x\<in>set values. case parse_network x of Some n \<Rightarrow> if net_version n = v then net_space n else {} | None \<Rightarrow> {})"
  proof -
    have "x \<in> (\<Union>n\<in>set ?ns. net_space n) \<longleftrightarrow> (\<exists>n. net_version n = v \<and> (\<exists>y\<in>set values. parse_network y = Some n) \<and> x \<in> net_space n)" for x
      using mem by blast
    then show ?thesis by (intro set_eqI) (fastforce split: option.splits if_splits)
  qed
  finally show ?thesis .
qed

definition vpn4_values :: "rule_entry \<Rightarrow> string list" where
  "vpn4_values r =
     (if ru_action r \<noteq> ''VPN'' then [] else if ru_kind r = ''ip'' then [ru_value r]
      else if ru_kind r = ''cidr'' \<and> net_version (the (parse_network (ru_value r))) = V4 then [ru_value r] else [])"

definition vpn6_values :: "rule_entry \<Rightarrow> string list" where
  "vpn6_values r =
     (if ru_action r = ''VPN'' \<and> ru_kind r = ''cidr'' \<and> net_version (the (parse_network (ru_value r))) = V6 then [ru_value r] else [])"

lemma known_words:
  "upper ''VPN'' = ''VPN''" "upper ''DIRECT'' = ''DIRECT''" "lower ''ip'' = ''ip''" "lower ''cidr'' = ''cidr''"
  "lower ''domain'' = ''domain''" "lower ''domain_suffix'' = ''domain_suffix''"
  by code_simp+

lemma canonical_kinds: "canonical_value kind x \<Longrightarrow> kind \<in> {''ip'', ''cidr'', ''domain'', ''domain_suffix''}"
  by (auto simp: canonical_value_def split: if_splits)

lemma canonical_clean: "canonical_value kind x \<Longrightarrow> strip x = x"
  using canonical_value_char strip_value by blast

lemma text_or_empty [simp]: "py_str (py_or (PStr x) (PStr [])) = x"
  by (cases x) simp_all

lemma direct_keeps_vpn:
  "ru_action r = ''DIRECT'' \<Longrightarrow> rs_vpn_ipv4 (add_rule ds (rule_value r) s) = rs_vpn_ipv4 s
     \<and> rs_vpn_ipv6 (add_rule ds (rule_value r) s) = rs_vpn_ipv6 s"
  by (simp add: add_rule_def add_ipv4_def add_ipv6_def known_words Let_def split: option.splits)

lemma vpn_adds:
  assumes "ru_action r = ''VPN''" and "canonical_value (ru_kind r) (ru_value r)"
  shows "rs_vpn_ipv4 (add_rule ds (rule_value r) s) = rs_vpn_ipv4 s @ vpn4_values r
    \<and> rs_vpn_ipv6 (add_rule ds (rule_value r) s) = rs_vpn_ipv6 s @ vpn6_values r"
proof -
  have v: "strip (ru_value r) = ru_value r" "ru_value r \<noteq> []" using canonical_clean canonical_ne assms(2) by blast+
  consider (ip) "ru_kind r = ''ip''" | (cidr) "ru_kind r = ''cidr''" | (domain) "ru_kind r = ''domain''" | (sub) "ru_kind r = ''domain_suffix''"
    using canonical_kinds [OF assms(2)] by blast
  then show ?thesis
  proof cases
    case ip
    then show ?thesis using v assms(1) by (simp add: add_rule_def add_ipv4_def vpn4_values_def vpn6_values_def known_words Let_def)
  next
    case cidr
    then obtain n where n: "parse_network (ru_value r) = Some n" "network_text n = ru_value r"
      using assms(2) by (auto simp: canonical_value_def split: option.splits)
    then show ?thesis using v assms(1) cidr
      by (cases "net_version n") (simp_all add: add_rule_def add_ipv4_def add_ipv6_def vpn4_values_def vpn6_values_def known_words Let_def)
  next
    case domain
    then show ?thesis using v assms(1) by (simp add: add_rule_def vpn4_values_def vpn6_values_def known_words Let_def)
  next
    case sub
    then show ?thesis using v assms(1) by (simp add: add_rule_def vpn4_values_def vpn6_values_def known_words Let_def)
  qed
qed

lemma fold_adds:
  assumes "\<forall>r\<in>set rules. ru_action r = ''DIRECT'' \<or> ru_action r = ''VPN'' \<and> canonical_value (ru_kind r) (ru_value r)"
  shows "rs_vpn_ipv4 (fold (add_rule ds) (map rule_value rules) s) = rs_vpn_ipv4 s @ concat (map vpn4_values rules)
    \<and> rs_vpn_ipv6 (fold (add_rule ds) (map rule_value rules) s) = rs_vpn_ipv6 s @ concat (map vpn6_values rules)"
  using assms
proof (induction rules arbitrary: s)
  case (Cons r rules)
  have "rs_vpn_ipv4 (add_rule ds (rule_value r) s) = rs_vpn_ipv4 s @ vpn4_values r
      \<and> rs_vpn_ipv6 (add_rule ds (rule_value r) s) = rs_vpn_ipv6 s @ vpn6_values r"
  proof (cases "ru_action r = ''VPN''")
    case True
    then show ?thesis using vpn_adds Cons.prems by simp
  next
    case False
    then have "ru_action r = ''DIRECT''" using Cons.prems by simp
    then show ?thesis using direct_keeps_vpn [of r] by (simp add: vpn4_values_def vpn6_values_def)
  qed
  then show ?case using Cons.IH [of "add_rule ds (rule_value r) s"] Cons.prems by simp
qed simp

text \<open>A rule for one IPv6 address: the builder puts it among the IPv4 values, where it is dropped.\<close>

definition lost_rule :: "rule_entry \<Rightarrow> bool" where
  "lost_rule r = (ru_kind r = ''ip'' \<and> (case parse_address (ru_value r) of Some (V6, _) \<Rightarrow> True | _ \<Rightarrow> False))"

lemma ip_value_network:
  assumes "canonical_value ''ip'' x"
  obtains v a where "parse_address x = Some (v, a)"
    and "parse_network x = Some \<lparr>net_version = v, net_address = a, net_prefixlen = max_prefixlen v\<rparr>"
    and "network_for_rule ''ip'' x = parse_network x"
proof -
  obtain v a where p: "parse_address x = Some (v, a)" "address_text v a = x"
    using assms by (auto simp: canonical_value_def split: option.splits)
  have b: "0 \<le> a" "a < 2 ^ max_prefixlen v" using parse_address_bound [OF p(1)] by auto
  let ?n = "\<lparr>net_version = v, net_address = a, net_prefixlen = max_prefixlen v\<rparr>"
  have m: "masked v a (max_prefixlen v) = ?n" by (simp add: masked_def)
  have sl: "CHR ''/'' \<notin> set x" using ipv4_text_chars ipv6_text_chars p(2) by (cases v) auto
  then have "parse_network x = Some ?n"
    using b p(2) [symmetric] m parse_ipv4_text [of a] parse_ipv6_text [of a] parse_ipv4_of_ipv6
    by (cases v) (simp_all add: parse_network_def parse_network_as_def split_char_no)
  moreover have "wf_net ?n" using b by (simp add: wf_net_def host_bits_def)
  then have "network_for_rule ''ip'' x = Some ?n"
    using network_roundtrip [of ?n] host_network_text [of v a] p by (simp add: network_for_rule_def)
  ultimately show thesis using that p(1) by simp
qed

lemma value_space:
  assumes "ru_action r = ''VPN''" and "canonical_value (ru_kind r) (ru_value r)"
  shows "(\<Union>x\<in>set (vpn4_values r). case parse_network x of Some n \<Rightarrow> if net_version n = V4 then net_space n else {} | None \<Rightarrow> {})
    \<union> (\<Union>x\<in>set (vpn6_values r). case parse_network x of Some n \<Rightarrow> if net_version n = V6 then net_space n else {} | None \<Rightarrow> {})
    = (if lost_rule r then {} else rule_addresses r)"
proof -
  consider (ip) "ru_kind r = ''ip''" | (cidr) "ru_kind r = ''cidr''" | (dom) "ru_kind r \<in> {''domain'', ''domain_suffix''}"
    using canonical_kinds [OF assms(2)] by blast
  then show ?thesis
  proof cases
    case ip
    then obtain v a where "parse_address (ru_value r) = Some (v, a)"
      "parse_network (ru_value r) = Some \<lparr>net_version = v, net_address = a, net_prefixlen = max_prefixlen v\<rparr>"
      "network_for_rule ''ip'' (ru_value r) = parse_network (ru_value r)" using ip_value_network assms(2) by metis
    then show ?thesis using ip assms(1)
      by (cases v) (simp_all add: vpn4_values_def vpn6_values_def lost_rule_def rule_addresses_def)
  next
    case cidr
    then obtain n where "parse_network (ru_value r) = Some n" using assms(2) by (auto simp: canonical_value_def split: option.splits)
    then show ?thesis using cidr assms(1)
      by (cases "net_version n") (simp_all add: vpn4_values_def vpn6_values_def lost_rule_def rule_addresses_def network_for_rule_def)
  next
    case dom
    then show ?thesis using assms(1) by (auto simp: vpn4_values_def vpn6_values_def lost_rule_def rule_addresses_def network_for_rule_def)
  qed
qed

definition vpn_space :: "nft_sets \<Rightarrow> (ip_version \<times> int) set" where
  "vpn_space n = set_space (nf_vpn_ipv4 n) \<union> set_space (nf_vpn_ipv6 n)"

lemma concat_UN: "(\<Union>x\<in>set (concat (map k rs)). f x) = (\<Union>r\<in>set rs. \<Union>x\<in>set (k r). f x)"
  by (induction rs) (simp_all add: UN_Un)

lemma vpn_space_rules:
  assumes "\<forall>r\<in>set rules. ru_action r = ''DIRECT'' \<or> ru_action r = ''VPN'' \<and> canonical_value (ru_kind r) (ru_value r)"
    and "get_in artifact ''rules'' = PList (map rule_value rules)"
  shows "vpn_space (build_nft_rule_sets env artifact) = (\<Union>r\<in>{r \<in> set rules. ru_action r = ''VPN'' \<and> \<not> lost_rule r}. rule_addresses r)"
proof -
  let ?f = "\<lambda>v x. case parse_network x of Some n \<Rightarrow> if net_version n = v then net_space n else {} | None \<Rightarrow> {}"
  let ?g = "\<lambda>r. (\<Union>x\<in>set (vpn4_values r). ?f V4 x) \<union> (\<Union>x\<in>set (vpn6_values r). ?f V6 x)"
  have "rs_vpn_ipv4 (sorted_rules ds artifact) = concat (map vpn4_values rules)"
    "rs_vpn_ipv6 (sorted_rules ds artifact) = concat (map vpn6_values rules)" for ds
    using fold_adds [OF assms(1)] by (simp_all add: sorted_rules_def assms(2))
  then have "nf_vpn_ipv4 (build_nft_rule_sets env artifact) = collapse_network_values (concat (map vpn4_values rules)) V4"
    "nf_vpn_ipv6 (build_nft_rule_sets env artifact) = collapse_network_values (concat (map vpn6_values rules)) V6"
    by (simp_all add: build_nft_rule_sets_def Let_def split: prod.splits)
  then have "vpn_space (build_nft_rule_sets env artifact)
      = (\<Union>x\<in>set (concat (map vpn4_values rules)). ?f V4 x) \<union> (\<Union>x\<in>set (concat (map vpn6_values rules)). ?f V6 x)"
    by (simp only: vpn_space_def collapsed_space)
  then have "vpn_space (build_nft_rule_sets env artifact) = (\<Union>r\<in>set rules. ?g r)"
    unfolding concat_UN UN_Un_distrib .
  moreover have "?g r = (if ru_action r = ''VPN'' \<and> \<not> lost_rule r then rule_addresses r else {})" if "r \<in> set rules" for r
  proof (cases "ru_action r = ''VPN''")
    case True
    then have "canonical_value (ru_kind r) (ru_value r)" using assms(1) that by auto
    then show ?thesis using value_space [OF True] True by presburger
  next
    case False
    then show ?thesis by (simp add: vpn4_values_def vpn6_values_def)
  qed
  ultimately show ?thesis by (auto split: if_splits)
qed

text \<open>
  C36. The VPN sets of the table are the VPN rules of the candidate: an address is in them exactly when an
  effective VPN rule matches it, except for rules of a single IPv6 address, and no address of a protected
  network is in them.
\<close>

theorem vpn_sets_follow_rules:
  assumes "rules = ef_rules (ca_effective (prepare_manual_rules_candidate s t))"
    and "get_in artifact ''rules'' = PList (map rule_value rules)"
  shows "vpn_space (build_nft_rule_sets env artifact) = (\<Union>r\<in>{r \<in> set rules. ru_action r = ''VPN'' \<and> \<not> lost_rule r}. rule_addresses r)
    \<and> vpn_space (build_nft_rule_sets env artifact) \<inter> protected_space s = {}"
proof -
  have "ru_action r = ''DIRECT'' \<or> ru_action r = ''VPN'' \<and> canonical_value (ru_kind r) (ru_value r)" if "r \<in> set rules" for r
    using that unfolding assms(1)
  proof (cases rule: candidate_rules)
    case protected
    then show ?thesis using protected_rule_direct by auto
  next
    case (manual m)
    then show ?thesis using validated_manual [OF manual(1)] by (auto simp: accepted_rule_def accepted_def)
  next
    case (listed m action source tx)
    then show ?thesis using validated_list(3) [OF listed(1)] by (auto simp: wf_rule_def)
  qed
  then have "vpn_space (build_nft_rule_sets env artifact) = (\<Union>r\<in>{r \<in> set rules. ru_action r = ''VPN'' \<and> \<not> lost_rule r}. rule_addresses r)"
    using vpn_space_rules [OF _ assms(2)] by blast
  moreover have "rule_addresses r \<inter> protected_space s = {}" if "r \<in> set rules" "ru_action r = ''VPN''" for r
    using vpn_rule_avoids that assms(1) by blast
  ultimately show ?thesis by blast
qed

definition small_env :: set_env where
  "small_env =
     \<lparr>ev_settings = small_settings, ev_service_domains = [], ev_proxy_hosts = None, ev_addresses = None, ev_dns_timeout = 3600\<rparr>"

theorem vpn_sets_follow_rules_witness:
  "vpn_space (build_nft_rule_sets small_env
     (PDict [(''rules'', PList (map rule_value (ef_rules (ca_effective (prepare_manual_rules_candidate small_settings sample_texts)))))]))
   \<inter> protected_space small_settings = {}
   \<and> rule_addresses collapsed_sample \<subseteq> vpn_space (build_nft_rule_sets small_env
     (PDict [(''rules'', PList (map rule_value (ef_rules (ca_effective (prepare_manual_rules_candidate small_settings sample_texts)))))]))"
proof -
  let ?rules = "ef_rules (ca_effective (prepare_manual_rules_candidate small_settings sample_texts))"
  have "get_in (PDict [(''rules'', PList (map rule_value ?rules))]) ''rules'' = PList (map rule_value ?rules)" by simp
  note t = vpn_sets_follow_rules [OF refl this, of small_env]
  have "collapsed_sample \<in> {r \<in> set ?rules. ru_action r = ''VPN'' \<and> \<not> lost_rule r}"
    using collapsed_sample_effective by (simp add: collapsed_sample_def lost_rule_def)
  then show ?thesis using t by blast
qed

text \<open>
  A rule for a single IPv6 address is accepted, but no set of the table contains its address: it does
  nothing, while the same address written as a network works.
\<close>

theorem ipv6_address_rule_lost:
  "normalize_rule_value ''2001:db8::1'' = Inr (''ip'', ''2001:db8::1'')
   \<and> (let rule = (\<lambda>kind value. PDict [(''action'', PStr ''VPN''), (''kind'', PStr kind), (''value'', PStr value)]);
          sets = (\<lambda>rule. build_nft_rule_sets small_env (PDict [(''rules'', PList [rule])]))
      in nf_vpn_ipv4 (sets (rule ''ip'' ''2001:db8::1'')) = [] \<and> nf_vpn_ipv6 (sets (rule ''ip'' ''2001:db8::1'')) = []
         \<and> nf_vpn_ipv6 (sets (rule ''cidr'' ''2001:db8::1/128'')) = [''2001:db8::1/128''])"
  by code_simp

section \<open>Containers\<close>

text \<open>A container whose inventory is known has its matched address in it.\<close>

definition matchers_in_inventory :: "pyval \<Rightarrow> bool" where
  "matchers_in_inventory manifest =
     list_all (\<lambda>s. case (docker_ipv4_addresses s, subject_ipv4 s) of (Some as, Some a) \<Rightarrow> a \<in> set as | _ \<Rightarrow> True) (subjects_of manifest)"

lemma map_filter_Nil: "List.map_filter f xs = [] \<Longrightarrow> x \<in> set xs \<Longrightarrow> f x = None"
  by (induction xs) (auto simp: List.map_filter_simps split: option.splits)

lemma all_some_mem: "all_some (map f xs) = Some ys \<Longrightarrow> x \<in> set xs \<Longrightarrow> \<exists>y\<in>set ys. f x = Some y"
proof (induction xs arbitrary: ys)
  case (Cons z zs)
  then obtain w where w: "f z = Some w" by (cases "f z") simp_all
  then obtain vs where "all_some (map f zs) = Some vs" "ys = w # vs" using Cons.prems(1) by auto
  then show ?case using Cons w by auto
qed simp

lemma no_vpn_conflict:
  assumes "docker_vpn_immunity_conflict subjects infrastructure mode = None" and "s \<in> set subjects" and "is_dict s" and "is_vpn_docker s"
  shows "\<exists>i networks. infrastructure_networks infrastructure = Some networks
    \<and> vpn_conflict (filter (\<lambda>x. is_dict (snd x)) (indexed subjects)) (protected_addresses (filter is_dict subjects)) networks (i, s) = None"
proof -
  let ?ixs = "filter (\<lambda>x. is_dict (snd x)) (indexed subjects)"
  have known: "map snd ?ixs = filter is_dict subjects"
    by (simp add: indexed_def filter_map [symmetric, unfolded o_def] map_snd_zip)
  obtain i where "i < length subjects" "subjects ! i = s" using assms(2) by (auto simp: in_set_conv_nth)
  then have "(i, s) \<in> set (indexed subjects)" unfolding indexed_def in_set_zip by (intro exI [of _ i]) simp
  then have i: "(i, s) \<in> set ?ixs" using assms(3) by simp
  then have v: "(i, s) \<in> set (filter (\<lambda>x. is_vpn_docker (snd x)) ?ixs)" using assms(4) by simp
  have none: "docker_vpn_immunity_conflicts subjects infrastructure mode = []"
    using assms(1) by (simp add: docker_vpn_immunity_conflict_def split: list.splits)
  have ne: "filter (\<lambda>x. is_vpn_docker (snd x)) ?ixs \<noteq> []" using v by (metis empty_iff list.set(1))
  obtain networks where n: "infrastructure_networks infrastructure = Some networks"
    "List.map_filter (vpn_conflict ?ixs (protected_addresses (map snd ?ixs)) networks) (filter (\<lambda>x. is_vpn_docker (snd x)) ?ixs) = []"
    using none ne unfolding docker_vpn_immunity_conflicts_def Let_def by (auto split: if_splits option.splits)
  have "vpn_conflict ?ixs (protected_addresses (map snd ?ixs)) networks (i, s) = None"
    using map_filter_Nil [OF n(2) v] .
  then show ?thesis using n(1) known by metis
qed

lemma infrastructure_protected:
  assumes "matchers_in_inventory manifest" and "s \<in> set (subjects_of manifest)" and "infrastructure_value s = Some x"
    and "parse_address (strip x) = Some (V4, a)"
  shows "is_dict s \<and> (V4, a) \<in> set (protected_addresses (filter is_dict (subjects_of manifest)))"
proof -
  let ?m = "get_in (get_in s ''scoped_runtime'') ''matcher''"
  have d: "is_dict s" "is_dict ?m" "truthy (get_in ?m ''value'')" "x = py_str (get_in ?m ''value'')"
    and kind: "subject_type_text s \<in> {''host'', ''fwrouter''} \<or> truthy (get_in (get_in s ''scoped_runtime'') ''infrastructure_role'')
      \<or> subject_type_text s = ''docker'' \<and> (\<not> is_active s \<or> subject_path s \<notin> {''direct'', ''vpn'', ''blocked''}
          \<or> subject_path s = ''vpn'' \<and> \<not> truthy (get_in (get_in s ''scoped_runtime'') ''applied''))"
    using assms(3) by (auto simp: infrastructure_value_def Let_def split: if_splits)
  have "is_dict (get_in s ''scoped_runtime'')" using d(2) by (cases "get_in s ''scoped_runtime''") (simp_all add: get_in_def)
  then have rt: "subject_runtime s = get_in s ''scoped_runtime''" by (simp add: subject_runtime_def)
  have ip: "subject_ipv4 s = Some (V4, a)" using d(3,4) assms(4) rt by (simp add: subject_ipv4_def Let_def)
  have prot: "subject_type_text s \<in> {''host'', ''fwrouter''} \<or> has_role s \<or> docker_immune s"
    using kind rt by (auto simp: has_role_def docker_immune_def runtime_applied_def)
  have inv: "docker_ipv4_addresses s = Some as \<Longrightarrow> (V4, a) \<in> set as" for as
    using assms(1,2) ip by (auto simp: matchers_in_inventory_def list_all_iff split: option.splits)
  let ?as = "\<lambda>s. if subject_type_text s \<in> {''host'', ''fwrouter''} \<or> has_role s \<or> docker_immune s
       then (case (if subject_type_text s = ''docker'' then docker_ipv4_addresses s else None) of
               Some as \<Rightarrow> as
             | None \<Rightarrow> (case subject_ipv4 s of Some a \<Rightarrow> [a] | None \<Rightarrow> []))
       else []"
  have "(V4, a) \<in> set (case (if subject_type_text s = ''docker'' then docker_ipv4_addresses s else None) of
      Some as \<Rightarrow> as | None \<Rightarrow> (case subject_ipv4 s of Some a \<Rightarrow> [a] | None \<Rightarrow> []))"
    using ip inv by (auto split: option.splits)
  then have "(V4, a) \<in> set (?as s)" using prot by (simp only: if_True)
  moreover have "s \<in> set (filter is_dict (subjects_of manifest))" using d(1) assms(2) by simp
  ultimately show ?thesis using d(1) unfolding protected_addresses_def set_concat set_map by blast
qed

text \<open>
  A container on the VPN path is not mistaken for the infrastructure. When a table is rendered, the matched
  address of every such container is known and applied, no other container shares it, no configured
  infrastructure network contains it and no entry of the infrastructure set is it: its packets are not exempted
  at the entry.
\<close>

theorem vpn_container_not_exempted:
  assumes "owned_table_candidate env loaded manifest = Inr t" and "\<not> bypass_enabled manifest" and "is_dict manifest"
    and "matchers_in_inventory manifest" and "s \<in> set (subjects_of manifest)" and "is_dict s" and "is_vpn_docker s"
  shows "\<exists>a. subject_ipv4 s = Some (V4, a) \<and> runtime_applied s \<and> \<not> has_role s
    \<and> (\<forall>x\<in>set (read_manifest_extra_ipv4_list manifest ''infrastructure_ipv4'' []). \<forall>n.
          parse_network x = Some n \<longrightarrow> \<not> contains_address n a)
    \<and> (\<forall>s'\<in>set (subjects_of manifest). \<forall>x. infrastructure_value s' = Some x \<longrightarrow> parse_address (strip x) \<noteq> Some (V4, a))"
proof -
  let ?subjects = "filter is_dict (subjects_of manifest)" and ?extra = "read_manifest_extra_ipv4_list manifest ''infrastructure_ipv4'' []"
  have "conflict_of manifest = None" using candidate_cases(2) [OF assms(1,2)] by blast
  then have c: "docker_vpn_immunity_conflict ?subjects (map PStr ?extra) (mode_of manifest) = None"
    using assms(3) by (simp add: conflict_of_def)
  have m: "s \<in> set ?subjects" using assms(5,6) by simp
  obtain i networks where n: "infrastructure_networks (map PStr ?extra) = Some networks"
    and v: "vpn_conflict (filter (\<lambda>x. is_dict (snd x)) (indexed ?subjects)) (protected_addresses ?subjects) networks (i, s) = None"
    using no_vpn_conflict [OF c m assms(6,7)] by auto
  obtain a where a: "subject_ipv4 s = Some (V4, a)" "(V4, a) \<in> set (known_addresses s)" "runtime_applied s" "\<not> has_role s"
    and p: "\<not> meets (known_addresses s) (protected_addresses ?subjects)"
    and w: "\<forall>n\<in>set networks. \<forall>b\<in>set (known_addresses s). \<not> (fst b = net_version n \<and> contains_address n (snd b))"
    using v by (auto simp: vpn_conflict_def Let_def subject_ipv4_def split: if_splits option.splits ip_version.splits)
  have "\<not> contains_address k a" if "x \<in> set ?extra" "parse_network x = Some k" for x k
  proof -
    have "strip x = x" using that(1) by (auto simp: read_manifest_extra_ipv4_list_def split: pyval.splits)
    moreover have "PStr x \<in> set (map PStr ?extra)" using that(1) by simp
    ultimately have "k \<in> set networks \<and> net_version k = V4"
      using all_some_mem [OF n [unfolded infrastructure_networks_def], of "PStr x"] that(2) by (auto split: if_splits)
    then show ?thesis using w a(2) by (metis fst_conv snd_conv)
  qed
  moreover have "parse_address (strip x) \<noteq> Some (V4, a)" if "s' \<in> set (subjects_of manifest)" "infrastructure_value s' = Some x" for s' x
    using infrastructure_protected [OF assms(4) that] p a(2) by (auto simp: meets_def)
  ultimately show ?thesis using a by blast
qed

end
