(* ===== verification/Nft_Examples.thy ===== *)
theory Nft_Examples
  imports Nft_Set_Properties
begin

text \<open>The theorems on the owned table at concrete manifests and packets.\<close>

definition sample_client :: "string \<Rightarrow> string \<Rightarrow> string \<Rightarrow> string \<Rightarrow> pyval" where
  "sample_client t i path ip =
     PDict [(''subject_id'', PStr i), (''subject_type'', PStr t), (''is_active'', PBool True), (''dataplane_path'', PStr path),
            (''scoped_runtime'',
             PDict [(''applied'', PBool True),
                    (''matcher'', PDict [(''nft_expr'', PStr ''ip saddr''), (''value'', PStr ip), (''family'', PStr ''ipv4'')])])]"

definition sample_manifest :: "string \<Rightarrow> pyval list \<Rightarrow> pyval" where
  "sample_manifest mode subjects =
     PDict [(''summary'', PDict [(''global_mode'', PStr mode)]), (''subjects'', PList subjects),
            (''global_preflight'', PDict [(''vpn_contour'', PDict [(''tproxy_port'', PInt 5201)])]),
            (''extra'', PDict [(''infrastructure_ipv4'', PList [PStr ''172.17.0.1''])])]"

definition sample_args :: "pyval \<Rightarrow> table_args" where
  "sample_args manifest = projr (owned_table_args manifest)"

definition sample_table :: "pyval \<Rightarrow> owned_table_candidate" where
  "sample_table manifest = full_table small_env PNone manifest (sample_args manifest)"

lemma sample_candidate:
  assumes "\<not> bypass_enabled manifest" and "conflict_of manifest = None" and "is_dict (get_in manifest ''summary'')"
    and "is_dict (get_in manifest ''global_preflight'')" and "\<not> isl (owned_table_args manifest)"
  shows "owned_table_candidate small_env PNone manifest = Inr (sample_table manifest)"
    and "owned_table_args manifest = Inr (sample_args manifest)"
proof -
  show a: "owned_table_args manifest = Inr (sample_args manifest)" using assms(5) by (simp add: sample_args_def)
  show "owned_table_candidate small_env PNone manifest = Inr (sample_table manifest)"
    using assms(1-4) a by (simp add: owned_table_candidate_def sample_table_def)
qed

definition holding :: "(string \<times> string) list \<Rightarrow> valuation" where
  "holding facts e v = ((e, v) \<in> set facts)"

definition new_packet :: packet_state where
  "new_packet = \<lparr>pk_mark = 0, pk_tproxy = None, pk_redirect = None\<rparr>"

abbreviation clients :: "pyval list" where
  "clients \<equiv> [sample_client ''lan'' ''lan:1'' ''vpn'' ''10.0.0.5'', sample_client ''lan'' ''lan:2'' ''blocked'' ''10.0.0.6'']"

abbreviation containers :: "pyval list" where
  "containers \<equiv> [sample_client ''docker'' ''docker:1'' ''vpn'' ''172.18.0.2'', sample_client ''docker'' ''docker:2'' ''direct'' ''172.18.0.3'']"

lemma clients_candidate:
  "owned_table_candidate small_env PNone (sample_manifest ''vpn'' clients) = Inr (sample_table (sample_manifest ''vpn'' clients))"
  "owned_table_args (sample_manifest ''vpn'' clients) = Inr (sample_args (sample_manifest ''vpn'' clients))"
  "\<not> bypass_enabled (sample_manifest ''vpn'' clients)"
proof -
  let ?m = "sample_manifest ''vpn'' clients"
  show b: "\<not> bypass_enabled ?m" by code_simp
  have c: "conflict_of ?m = None" "is_dict (get_in ?m ''summary'')" "is_dict (get_in ?m ''global_preflight'')"
    "\<not> isl (owned_table_args ?m)" by code_simp+
  show "owned_table_candidate small_env PNone ?m = Inr (sample_table ?m)" "owned_table_args ?m = Inr (sample_args ?m)"
    by (rule sample_candidate [OF b c])+
qed

theorem bypass_changes_nothing_witness:
  "let manifest = PDict [(''extra'', PDict [(''core_bypass'', PDict [(''enabled'', PBool True)])])]
   in bypass_enabled manifest \<and> (\<exists>t. owned_table_candidate small_env PNone manifest = Inr t
        \<and> run_hook (oc_chains t) (holding []) ''prerouting'' new_packet = Some (Fall, new_packet))"
proof -
  let ?m = "PDict [(''extra'', PDict [(''core_bypass'', PDict [(''enabled'', PBool True)])])]"
  have "bypass_enabled ?m" by code_simp
  then show ?thesis using bypass_changes_nothing [of ?m small_env PNone] by (simp only: Let_def) blast
qed




theorem listeners_closed_to_public_witness:
  "\<exists>v. v \<in> {Dropped, Rejected} \<and> run_hook (oc_chains (sample_table (sample_manifest ''vpn'' clients)))
     (holding [(''meta l4proto'', ''tcp''), (''th dport'', ''5204'')]) ''input'' new_packet = Some (v, new_packet)"
proof -
  let ?ev = "holding [(''meta l4proto'', ''tcp''), (''th dport'', ''5204'')]"
  let ?vp = "vpn_params_of (contour_of (sample_manifest ''vpn'' clients))"
  have p: "vp_full_redir ?vp = Some 5204" "port_text (Some 5204) = ''5204''" by code_simp+
  have "(vp_full_redir ?vp, ''tcp'') \<in> {(vp_tproxy ?vp, ''{ tcp, udp }''), (vp_redir ?vp, ''tcp''), (vp_full_tproxy ?vp, ''{ tcp, udp }''),
    (vp_full_redir ?vp, ''tcp'')}" by blast
  note t = listeners_closed_to_public [OF clients_candidate(1,3) refl this]
  show ?thesis by (rule t) (simp_all add: p port_on_def holding_def)
qed

theorem vpn_traffic_is_captured_witness:
  "run_ingress (oc_chains (sample_table (sample_manifest ''vpn'' clients))) (holding [(''ip saddr'', ''10.0.0.5''), (''meta l4proto'', ''tcp'')])
     new_packet = Some (Accepted, new_packet\<lparr>pk_mark := 259, pk_redirect := Some ''5204''\<rparr>)"
proof -
  let ?m = "sample_manifest ''vpn'' clients" and ?ev = "holding [(''ip saddr'', ''10.0.0.5''), (''meta l4proto'', ''tcp'')]"
  have v: "mark_value (vp_fwmark (vpn_params_of (contour_of ?m))) = Some 256" "port_on (vp_full_tproxy (vpn_params_of (contour_of ?m)))"
    "port_on (vp_full_redir (vpn_params_of (contour_of ?m)))" "port_text (vp_full_redir (vpn_params_of (contour_of ?m))) = ''5204''" by code_simp+
  have "list_all (\<lambda>r. \<not> rule_matches ?ev new_packet r) (entry_guards small_env (sample_args ?m) @ immune_rules)" by code_simp
  then have g: "\<forall>r\<in>set (entry_guards small_env (sample_args ?m) @ immune_rules). \<not> rule_matches ?ev new_packet r" by (simp only: list_all_iff)
  have b: "vpn_bound ?m ?ev" "one_transport ?ev" "\<not> is_quic ?ev" "?ev ''meta l4proto'' ''tcp''" by code_simp+
  have "(0::int) \<le> 256" by simp
  from vpn_traffic_is_captured [OF clients_candidate(1,3,2) refl v(1) this v(2,3) g b(1,2)] show ?thesis using b(3,4) v(4) by simp
qed

theorem degraded_selective_fails_closed_witness:
  "run_ingress (oc_chains (sample_table (sample_manifest ''selective'' []))) (holding [(''ip daddr'', ''@vpn_ipv4''), (''meta l4proto'', ''tcp'')])
     new_packet = Some (Dropped, new_packet)"
proof -
  let ?m = "sample_manifest ''selective'' []" and ?ev = "holding [(''ip daddr'', ''@vpn_ipv4''), (''meta l4proto'', ''tcp'')]"
  have b: "\<not> bypass_enabled ?m" by code_simp
  have c: "conflict_of ?m = None" "is_dict (get_in ?m ''summary'')" "is_dict (get_in ?m ''global_preflight'')"
    "\<not> isl (owned_table_args ?m)" by code_simp+
  have m: "mode_of ?m = ''selective''" "\<not> truthy (get_in (get_in ?m ''global_preflight'') ''selective_vpn_policy_ready'')"
    "active_subjects ?m = []" by code_simp+
  have "list_all (\<lambda>r. \<not> rule_matches ?ev new_packet r) (entry_guards small_env (sample_args ?m) @ immune_rules)" by code_simp
  then have g: "\<forall>r\<in>set (entry_guards small_env (sample_args ?m) @ immune_rules). \<not> rule_matches ?ev new_packet r" by (simp only: list_all_iff)
  show ?thesis
    by (rule degraded_selective_fails_closed [OF sample_candidate(1) [OF b c] b sample_candidate(2) [OF b c] m(1,2) g])
      (simp_all add: m(3) holding_def)
qed

theorem vpn_container_not_exempted_witness:
  "\<exists>a. subject_ipv4 (hd containers) = Some (V4, a) \<and> runtime_applied (hd containers)"
proof -
  let ?m = "sample_manifest ''vpn'' [hd containers]" and ?s = "hd containers"
  have b: "\<not> bypass_enabled ?m" by code_simp
  have c: "conflict_of ?m = None" "is_dict (get_in ?m ''summary'')" "is_dict (get_in ?m ''global_preflight'')"
    "\<not> isl (owned_table_args ?m)" by code_simp+
  have d: "is_dict ?m" "matchers_in_inventory ?m" "is_dict ?s" "is_vpn_docker ?s" "subjects_of ?m = [?s]" by code_simp+
  have s: "?s \<in> set (subjects_of ?m)" unfolding d(5) by simp
  from vpn_container_not_exempted [OF sample_candidate(1) [OF b c] b d(1,2) s d(3,4)] show ?thesis by blast
qed

end
