(* ===== verification/Manifest_Examples.thy ===== *)
theory Manifest_Examples
  imports Manifest_Properties Manifest_Bounds Nft_Examples
begin

text \<open>The theorems on the policy, the preflight and the manifest at concrete subjects and packets.\<close>

section \<open>The table of a given manifest\<close>

lemma clients_unguarded:
  "\<forall>r\<in>set (entry_guards small_env (sample_args (sample_manifest ''vpn'' clients)) @ immune_rules).
     \<not> rule_matches (holding [(''ip saddr'', ''10.0.0.6''), (''meta l4proto'', ''udp'')]) new_packet r"
proof -
  have "list_all (\<lambda>r. \<not> rule_matches (holding [(''ip saddr'', ''10.0.0.6''), (''meta l4proto'', ''udp'')]) new_packet r)
      (entry_guards small_env (sample_args (sample_manifest ''vpn'' clients)) @ immune_rules)" by code_simp
  then show ?thesis by (simp only: list_all_iff)
qed


section \<open>Preflight\<close>

definition sample_details :: pyval where
  "sample_details =
     PDict [(''config'', PDict [(''redir_port'', PInt 5202), (''tproxy_port'', PInt 5203),
              (''fwrouter_contours'', PDict [(''transparent_vpn'', PDict [(''transparent_tcp_ready'', PBool True), (''transparent_udp_ready'', PBool True)])])]),
            (''selectors'', PDict [(''vpn_global_exists'', PBool True), (''vpn_global_now'', PStr ''nl-1'')]),
            (''vpn_udp_policy'', PDict [(''policy_installed'', PBool True)])]"

definition sample_preflight_env :: preflight_env where
  "sample_preflight_env =
     \<lparr>pv_service_domains = [], pv_health = \<lparr>mh_state = ''running'', mh_active_server = Some ''nl-1'', mh_message = [], mh_details = sample_details\<rparr>,
      pv_artifact = PNone, pv_adapter = [(''adapter_id'', PStr ''mihomo'')], pv_module = PNone, pv_dnsmasq = PNone\<rparr>"

definition sample_preflight_args :: preflight_args where
  "sample_preflight_args =
     \<lparr>pg_routing = PDict [(''applied_mode'', PStr ''vpn'')], pg_check = PNone, pg_artifact = PNone, pg_verify = False\<rparr>"


section \<open>A plan\<close>

definition sample_plan_env :: "bool \<Rightarrow> manifest_env" where
  "sample_plan_env emergency =
     \<lparr>me_preflight = sample_preflight_env, me_settings = small_settings, me_lan_hosts = None, me_bindings = None,
      me_now = ''2026-01-01 08:00:00'', me_overrides = sample_overrides,
      me_pending = (if emergency then PDict [(''provider_managed'', PBool True), (''emergency_direct'', PBool True)] else PNone),
      me_reentry = False\<rparr>"

definition sample_plan_args :: manifest_args where
  "sample_plan_args =
     \<lparr>ma_plan_id = ''plan-1'', ma_reason = ''mode change'', ma_generated_at = ''2026-01-01 08:00:00'', ma_input = PNone, ma_extra = []\<rparr>"

definition sample_plan_routing :: "string \<Rightarrow> manifest_routing" where
  "sample_plan_routing mode =
     \<lparr>ro_desired_mode = mode, ro_selective_default = ''direct'', ro_server_mode = ''auto'', ro_desired_fixed = None,
      ro_applied_fixed = None, ro_active_auto = Some ''nl-1'', mr_applied_mode = None, mr_fixed_until = None, mr_apply_state = ''clean'',
      mr_error_code = None, mr_error_message = None, mr_updated_at = ''2026-01-01 08:00:00''\<rparr>"

definition sample_planned :: "string \<Rightarrow> planned_subject" where
  "sample_planned mode =
     \<lparr>pl_subject = sample_subject ''lan'' mode, pl_applied_mode = PNone, pl_user = None, pl_state_user = None, pl_server = None, pl_state_server = None\<rparr>"

definition planned_manifest :: "bool \<Rightarrow> string \<Rightarrow> string \<Rightarrow> pyval" where
  "planned_manifest emergency mode subject_mode =
     the (result_of (build_dataplane_manifest_from_state (sample_plan_env emergency) sample_plan_args (sample_plan_routing mode)
       [sample_planned subject_mode]))"

lemma planned_build:
  "result_of (build_dataplane_manifest_from_state (sample_plan_env e) sample_plan_args (sample_plan_routing m) [sample_planned s]) \<noteq> None \<Longrightarrow>
     build_dataplane_manifest_from_state (sample_plan_env e) sample_plan_args (sample_plan_routing m) [sample_planned s] = Inr (planned_manifest e m s)"
  unfolding planned_manifest_def by (rule result_ofD)

text \<open>What is evaluated of a manifest, of the states and of the guards.\<close>

definition renders :: "pyval \<Rightarrow> bool" where
  "renders m =
     (\<not> bypass_enabled m \<and> conflict_of m = None \<and> is_dict (get_in m ''summary'') \<and> is_dict (get_in m ''global_preflight'')
      \<and> \<not> isl (owned_table_args m))"

definition fate_checked :: "valuation \<Rightarrow> enriched list \<Rightarrow> pyval \<Rightarrow> bool" where
  "fate_checked ev states m =
     (renders m \<and> list_all (\<lambda>r. \<not> rule_matches ev new_packet r) (entry_guards small_env (sample_args m) @ immune_rules)
      \<and> state_fate (steering_args_of m) (mode_of m) states ev = Capture True
      \<and> port_text (vp_full_redir (vpn_params_of (contour_of m))) = ''5204'')"

definition unflagged :: "pyval \<Rightarrow> bool" where
  "unflagged m = (renders m \<and> \<not> truthy (get_in (get_in m ''summary'') ''requires_vpn_policy_routing''))"

lemma planned_candidate:
  assumes "renders m"
  shows "owned_table_candidate small_env PNone m = Inr (sample_table m)" and "owned_table_args m = Inr (sample_args m)" and "\<not> bypass_enabled m"
  using assms sample_candidate [of m] by (simp_all add: renders_def)

lemma sample_kind: "\<forall>q\<in>set [sample_planned m]. consistent_kind (pl_subject q)"
  using not_explicit by (simp add: consistent_kind_def sample_planned_def sample_subject_def)

lemma sample_ports:
  "\<forall>c. resolved_contours (pv_adapter (me_preflight (sample_plan_env e))) (mh_details (pv_health (me_preflight (sample_plan_env e)))) = Inr c
     \<longrightarrow> ports_positive (ct_ports c)"
proof -
  have "vq_redir (ct_ports (reported_contours sample_details)) = Some 5202" by code_simp
  then have "ports_positive (ct_ports (reported_contours sample_details))" by (simp add: ports_positive_def) (simp add: reported_contours_def Let_def)
  then show ?thesis by (simp add: sample_plan_env_def sample_preflight_env_def resolved_contours_def external_contour_def)
qed

theorem policy_reaches_packets_witness:
  "run_ingress (oc_chains (sample_table (planned_manifest False ''direct'' ''vpn''))) (holding [(''ip saddr'', ''10.0.0.5''), (''meta l4proto'', ''tcp'')])
     new_packet = Some (Accepted, new_packet\<lparr>pk_mark := 259, pk_redirect := Some ''5204''\<rparr>)"
proof -
  let ?env = "sample_plan_env False" and ?r = "sample_plan_routing ''direct''" and ?q = "[sample_planned ''vpn'']"
  let ?m = "planned_manifest False ''direct'' ''vpn''" and ?st = "planned_states ?env sample_plan_args ?r ?q"
  let ?ev = "holding [(''ip saddr'', ''10.0.0.5''), (''meta l4proto'', ''tcp'')]"
  have b: "build_dataplane_manifest_from_state ?env sample_plan_args ?r ?q = Inr ?m" by (rule planned_build) code_simp
  have st: "?st = Inr (the (result_of ?st))" by (rule result_ofD) code_simp
  have f: "fate_checked ?ev (the (result_of ?st)) ?m" by code_simp
  then have c: "renders ?m" by (simp only: fate_checked_def)
  have fate: "state_fate (steering_args_of ?m) (mode_of ?m) (the (result_of ?st)) ?ev = Capture True"
    and port: "port_text (vp_full_redir (vpn_params_of (contour_of ?m))) = ''5204''"
    and g: "\<forall>r\<in>set (entry_guards small_env (sample_args ?m) @ immune_rules). \<not> rule_matches ?ev new_packet r"
    using f unfolding fate_checked_def list_all_iff by blast+
  have e: "one_transport ?ev" "\<not> is_quic ?ev" "?ev ''meta l4proto'' ''tcp''" "pk_mark new_packet \<notin> {256, 257, 258, 259}" by code_simp+
  note t = policy_reaches_packets [OF b st planned_candidate(1) [OF c] planned_candidate(3) [OF c] planned_candidate(2) [OF c]
      sample_ports sample_kind e(4,1) g]
  show ?thesis unfolding t fate by (simp add: fate_outcome_def e(2,3) port)
qed

theorem emergency_table_captures_nothing_witness:
  "\<exists>v. run_ingress (oc_chains (sample_table (planned_manifest True ''vpn'' ''vpn''))) (holding [(''ip saddr'', ''10.0.0.5''), (''meta l4proto'', ''tcp'')])
     new_packet = Some (v, new_packet)"
proof -
  let ?env = "sample_plan_env True" and ?r = "sample_plan_routing ''vpn''" and ?q = "[sample_planned ''vpn'']" and ?m = "planned_manifest True ''vpn'' ''vpn''"
  have b: "build_dataplane_manifest_from_state ?env sample_plan_args ?r ?q = Inr ?m" by (rule planned_build) code_simp
  have e: "emergency_override (me_reentry ?env) (me_pending ?env)" "\<not> truthy (dict_get (ma_extra sample_plan_args) ''provider_vpn_reentry'')"
    "pk_mark new_packet \<notin> {256, 257, 258, 259}" by code_simp+
  have s: "\<forall>q\<in>set ?q. stored_modes ?env q"
    by (simp add: stored_modes_def stored_subject_mode_def stored_override_mode_def sample_planned_def sample_subject_def sample_plan_env_def
        sample_overrides_def sample_user_override_def)
  have c: "renders ?m" by code_simp
  show ?thesis using emergency_table_captures_nothing [OF b e(1,2) s planned_candidate(1) [OF c] e(3)] by blast
qed

theorem capture_needs_policy_routing_witness:
  "\<exists>v. run_ingress (oc_chains (sample_table (planned_manifest False ''direct'' ''disabled''))) (holding [(''ip saddr'', ''10.0.0.5'')])
     new_packet = Some (v, new_packet)"
proof -
  let ?env = "sample_plan_env False" and ?r = "sample_plan_routing ''direct''" and ?q = "[sample_planned ''disabled'']"
  let ?m = "planned_manifest False ''direct'' ''disabled''" and ?ev = "holding [(''ip saddr'', ''10.0.0.5'')]"
  have b: "build_dataplane_manifest_from_state ?env sample_plan_args ?r ?q = Inr ?m" by (rule planned_build) code_simp
  have u: "unflagged ?m" by code_simp
  then have c: "renders ?m" "\<not> truthy (get_in (get_in ?m ''summary'') ''requires_vpn_policy_routing'')" unfolding unflagged_def by blast+
  have e: "\<not> vpn_listed ?ev" "ro_selective_default ?r \<in> {''direct'', ''vpn''}" "pk_mark new_packet \<notin> {256, 257, 258, 259}" by code_simp+
  from capture_needs_policy_routing [OF b c(2) _ e(2) sample_kind planned_candidate(1) [OF c(1)] e(3), of ?ev] e(1) show ?thesis by blast
qed

end
