(* ===== verification/Hot_Swap.thy ===== *)
theory Hot_Swap
  imports Nft_Render Global_Preflight
begin

text \<open>
  The hot swap of \<open>services/apply_hot_swap.py\<close>, with what it uses of \<open>services/apply_manifest.py\<close>: when a change of
  the global mode or of the mode of one subject is applied by replacing the classification chain of the live table
  alone, which rules are taken from the rendered candidate, the two attempts and their verification. The runs of
  \<open>nft\<close> and its listings are arguments. Manifests, check details and preflights have the types the services give them.
\<close>

section \<open>Manifests\<close>

definition runtime_mode_from_manifest :: "pyval \<Rightarrow> string" where
  "runtime_mode_from_manifest manifest =
     (let routing = get_in manifest ''routing_global_state''
      in if is_dict routing
         then py_str (py_or (get_in routing ''desired_mode'') (py_or (get_in routing ''applied_mode'') (PStr ''direct'')))
         else ''direct'')"

definition manifest_requests_core_bypass :: "pyval \<Rightarrow> bool" where
  "manifest_requests_core_bypass manifest =
     (let core_bypass = get_in (get_in manifest ''extra'') ''core_bypass''
      in is_dict core_bypass \<and> truthy (get_in core_bypass ''enabled''))"

section \<open>One subject\<close>

record fast_context =
  fc_subject_id :: string
  fc_subject_type :: string
  fc_target_mode :: string
  fc_subject :: pyval
  fc_global_mode :: string

definition fast_subject_apply_modes :: "string list" where
  "fast_subject_apply_modes = [''direct'', ''selective'', ''vpn'']"

definition fast_subject_apply_context :: "pyval \<Rightarrow> pyval \<Rightarrow> fast_context option" where
  "fast_subject_apply_context input_data manifest =
     (let fast = get_in input_data ''fast_subject_apply''; global_mode = lower (strip (runtime_mode_from_manifest manifest));
          subject_id = clean (get_in fast ''subject_id''); subject_type = lower (clean (get_in fast ''subject_type''));
          target_mode = lower (clean (get_in fast ''target_mode''));
          found = find (\<lambda>s. is_dict s \<and> py_str (py_or (get_in s ''subject_id'') (PStr [])) = subject_id) (subjects_of manifest)
      in if \<not> is_dict fast \<or> \<not> truthy (get_in fast ''enabled'') then None
         else if global_mode \<noteq> ''direct'' then None
         else if subject_id = [] \<or> \<not> subject_follows_global_mode subject_type \<or> target_mode \<notin> set fast_subject_apply_modes then None
         else case found of
                None \<Rightarrow> None
              | Some s \<Rightarrow>
                  if lower (clean (get_in s ''dataplane_path'')) \<noteq> target_mode then None
                  else Some \<lparr>fc_subject_id = subject_id, fc_subject_type = subject_type, fc_target_mode = target_mode,
                             fc_subject = s, fc_global_mode = global_mode\<rparr>)"

text \<open>The listing of the live chain: the program is missing, it failed with its two outputs, or its text.\<close>

datatype nft_listing = Nft_Missing string | Nft_Failed string string | Nft_Text string

text \<open>The Python test \<open>t in s\<close>.\<close>

fun occurs_in :: "string \<Rightarrow> string \<Rightarrow> bool" where
  "occurs_in t [] = (t = [])"
| "occurs_in t (c # cs) = (starts_with (c # cs) t \<or> occurs_in t cs)"

definition first_text :: "string list \<Rightarrow> string" where
  "first_text ts = (case filter (\<lambda>t. t \<noteq> []) ts of [] \<Rightarrow> [] | t # _ \<Rightarrow> t)"

record fast_verify =
  fv_ok :: bool
  fv_code :: "string option"
  fv_message :: "string option"
  fv_subject_id :: string
  fv_target_mode :: string
  fv_raw :: string

definition stale_subject_markers :: "string \<Rightarrow> string list" where
  "stale_subject_markers subject_id =
     map (\<lambda>t. t @ subject_id)
       [''scoped vpn override: '', ''scoped selective direct IPv4: '', ''scoped selective vpn IPv4: '', ''scoped selective dns direct IPv4: '',
        ''scoped selective dns vpn IPv4: '', ''scoped selective direct IPv6: '', ''scoped selective vpn IPv6: '',
        ''scoped selective default direct: '', ''scoped selective default vpn: '', ''scoped selective degraded default direct: '']"

definition subject_rules_live :: "string \<Rightarrow> string \<Rightarrow> string \<Rightarrow> string \<Rightarrow> bool" where
  "subject_rules_live target_mode family sid raw =
     (let live = (\<lambda>t. occurs_in (t @ sid) raw); version = (if family = ''ipv6'' then ''IPv6: '' else ''IPv4: '')
      in if target_mode = ''direct''
         then live ''scoped direct override: ''
              \<or> occurs_in ''global direct v1'' raw \<and> \<not> list_ex (\<lambda>t. occurs_in t raw) (stale_subject_markers sid)
         else if target_mode = ''vpn'' then live ''scoped vpn override: ''
         else live (''scoped selective direct '' @ version)
              \<and> (live (''scoped selective vpn '' @ version) \<or> live (''scoped selective degraded block VPN '' @ version))
              \<and> (occurs_in ''scoped selective default '' raw \<and> occurs_in sid raw \<or> live ''scoped selective degraded default direct: ''))"

definition verify_fast_subject_apply :: "fast_context \<Rightarrow> string \<Rightarrow> nft_listing \<Rightarrow> fast_verify" where
  "verify_fast_subject_apply context exc_text listing =
     (let sid = fc_subject_id context; target_mode = fc_target_mode context;
          family = lower (clean (get_in (get_in (get_in (fc_subject context) ''scoped_runtime'') ''matcher'') ''family''));
          answer = (\<lambda>b code message raw. \<lparr>fv_ok = b, fv_code = code, fv_message = message, fv_subject_id = sid,
                                          fv_target_mode = target_mode, fv_raw = raw\<rparr>)
      in case listing of
           Nft_Missing message \<Rightarrow> answer False (Some ''NFT_NOT_AVAILABLE'') (Some message) []
         | Nft_Failed stderr stdout \<Rightarrow>
             answer False (Some ''NFT_CHAIN_READ_FAILED'') (Some (strip (first_text [stderr, stdout, exc_text]))) stdout
         | Nft_Text raw \<Rightarrow>
             if subject_rules_live target_mode family sid raw then answer True None None raw
             else answer False (Some ''FAST_SUBJECT_APPLY_VERIFY_FAILED'')
                    (Some (''Live classify chain is missing expected subject rule for '' @ sid @ ''.'')) raw)"

section \<open>The rules of the candidate\<close>

definition brace_diff :: "string \<Rightarrow> int" where
  "brace_diff s = int (count_list s CHR ''{'') - int (count_list s CHR ''}'')"

fun scan_chain :: "int \<Rightarrow> string list \<Rightarrow> string list" where
  "scan_chain depth [] = []"
| "scan_chain depth (l # ls) =
     (let stripped = strip l; depth' = depth + brace_diff stripped
      in if depth' \<le> 0 then []
         else if stripped = [] then scan_chain depth' ls else stripped # scan_chain depth' ls)"

fun classify_rules_of :: "string list \<Rightarrow> string list" where
  "classify_rules_of [] = []"
| "classify_rules_of (l # ls) = (if strip l = ''chain fwrouter_classify {'' then scan_chain 1 ls else classify_rules_of ls)"

text \<open>\<open>files\<close> gives the text of the files that exist.\<close>

definition extract_classify_rules :: "(string \<Rightarrow> string option) \<Rightarrow> string option \<Rightarrow> string list" where
  "extract_classify_rules files candidate_path =
     (case candidate_path of
        None \<Rightarrow> []
      | Some path \<Rightarrow>
          if path = [] then [] else case files path of None \<Rightarrow> [] | Some t \<Rightarrow> classify_rules_of (splitlines t))"

section \<open>When to swap\<close>

record swap_context =
  sc_kind :: string
  sc_target_mode :: string
  sc_rules :: "string list"
  sc_path :: "string option"
  sc_fast :: "fast_context option"

definition swap_allowed :: "pyval \<Rightarrow> pyval \<Rightarrow> pyval \<Rightarrow> bool" where
  "swap_allowed manifest check_details preflight =
     (let required_chains = get_in check_details ''required_chains''
      in \<not> manifest_requests_core_bypass manifest \<and> truthy (get_in check_details ''table_exists'')
         \<and> is_dict required_chains \<and> list_all (\<lambda>(k, v). truthy v) (items required_chains)
         \<and> (truthy (get_in (get_in manifest ''summary'') ''requires_vpn_policy_routing'') \<longrightarrow>
              truthy (get_in check_details ''vpn_external_path_verified''))
         \<and> truthy (get_in preflight ''can_enforce_global_direct''))"

definition global_mode_hot_swap_context ::
  "pyval \<Rightarrow> pyval \<Rightarrow> pyval \<Rightarrow> pyval \<Rightarrow> (string \<Rightarrow> string option) \<Rightarrow> string option \<Rightarrow> swap_context option" where
  "global_mode_hot_swap_context input_data manifest check_details preflight files candidate_path =
     (let rules = extract_classify_rules files candidate_path
      in if \<not> is_dict input_data \<or> get_in input_data ''repair_owned_table'' = PBool True then None
         else if clean (get_in input_data ''intent'') \<noteq> ''set_global_mode'' then None
         else if \<not> swap_allowed manifest check_details preflight \<or> rules = [] then None
         else Some \<lparr>sc_kind = ''global_mode'', sc_target_mode = runtime_mode_from_manifest manifest, sc_rules = rules,
                    sc_path = candidate_path, sc_fast = None\<rparr>)"

definition subject_mode_hot_swap_context ::
  "fast_context option \<Rightarrow> pyval \<Rightarrow> pyval \<Rightarrow> pyval \<Rightarrow> (string \<Rightarrow> string option) \<Rightarrow> string option \<Rightarrow> swap_context option" where
  "subject_mode_hot_swap_context fast manifest check_details preflight files candidate_path =
     (let rules = extract_classify_rules files candidate_path
      in case fast of
           None \<Rightarrow> None
         | Some f \<Rightarrow>
             if \<not> swap_allowed manifest check_details preflight \<or> rules = [] then None
             else Some \<lparr>sc_kind = ''subject_mode'', sc_target_mode = fc_target_mode f, sc_rules = rules, sc_path = candidate_path,
                        sc_fast = Some f\<rparr>)"

section \<open>The swap\<close>

definition swap_commands :: "string list \<Rightarrow> string list" where
  "swap_commands rules =
     ''flush chain inet fwrouter_v2 fwrouter_classify'' # map (\<lambda>r. ''add rule inet fwrouter_v2 fwrouter_classify '' @ r) rules"

definition swap_payload :: "string list \<Rightarrow> string" where
  "swap_payload rules = join [CHR 0x0A] (swap_commands rules) @ [CHR 0x0A]"

text \<open>The matches of the pattern for comments, from left to right.\<close>

definition comment_prefix :: string where
  "comment_prefix = ''comment '' @ [CHR 0x22]"

function find_comments :: "string \<Rightarrow> string list" where
  "find_comments s =
     (case s of
        [] \<Rightarrow> []
      | c # cs \<Rightarrow>
          let rest = drop (length comment_prefix) s; body = takeWhile (\<lambda>c. c \<noteq> CHR 0x22) rest; after = dropWhile (\<lambda>c. c \<noteq> CHR 0x22) rest
          in if starts_with s comment_prefix \<and> body \<noteq> [] \<and> after \<noteq> [] then body # find_comments (tl after) else find_comments cs)"
  by pat_completeness auto

termination
proof (relation "measure length")
  show "(tl z, s) \<in> measure length"
    if "s = c # cs" "x = drop (length comment_prefix) s" "y = takeWhile (\<lambda>c. c \<noteq> CHR 0x22) x" "z = dropWhile (\<lambda>c. c \<noteq> CHR 0x22) x"
    for s c cs x y z
  proof -
    have "length z \<le> length s" using that length_dropWhile_le [of "\<lambda>c. c \<noteq> CHR 0x22" x] by (simp add: comment_prefix_def)
    then show ?thesis using that(1) by (cases z) auto
  qed
qed auto

declare find_comments.simps [simp del]

record swap_verify =
  sv_ok :: bool
  sv_code :: "string option"
  sv_message :: "string option"
  sv_missing :: "string list"
  sv_raw :: "string option"

definition verify_live_comments :: "string \<Rightarrow> nft_listing \<Rightarrow> swap_verify" where
  "verify_live_comments payload listing =
     (let expected = find_comments payload
      in case listing of
           Nft_Missing message \<Rightarrow>
             \<lparr>sv_ok = False, sv_code = Some ''NFT_NOT_AVAILABLE'', sv_message = Some message, sv_missing = expected, sv_raw = None\<rparr>
         | Nft_Failed stderr stdout \<Rightarrow>
             \<lparr>sv_ok = False, sv_code = Some ''NFT_CHAIN_READ_FAILED'',
              sv_message = Some (strip (first_text [stderr, stdout, ''Failed to read live classify chain.''])), sv_missing = expected,
              sv_raw = None\<rparr>
         | Nft_Text raw \<Rightarrow>
             (let missing = filter (\<lambda>c. \<not> occurs_in c raw) expected
              in \<lparr>sv_ok = (missing = []), sv_code = (if missing = [] then None else Some ''NFT_GLOBAL_MODE_HOT_SWAP_VERIFY_FAILED''),
                  sv_message = (if missing = [] then None else Some ''Live classify chain is missing hot-swapped rule markers.''),
                  sv_missing = missing, sv_raw = Some raw\<rparr>))"

record nft_run =
  nr_code :: int
  nr_stdout :: string
  nr_stderr :: string

definition swap_failed :: "nft_run \<Rightarrow> swap_verify" where
  "swap_failed r =
     \<lparr>sv_ok = False, sv_code = Some ''NFT_GLOBAL_MODE_HOT_SWAP_FAILED'',
      sv_message = Some (strip (first_text [nr_stderr r, nr_stdout r, ''nft hot-swap failed.''])), sv_missing = [], sv_raw = None\<rparr>"

text \<open>
  The two attempts: \<open>run n\<close> is the \<open>n\<close>-th run of the payload or the exception it raises, \<open>listing n\<close> the listing after it.
  The result is the last run, its verification and whether there was a second run.
\<close>

definition swap_attempts ::
  "(nat \<Rightarrow> exc + nft_run) \<Rightarrow> (nat \<Rightarrow> nft_listing) \<Rightarrow> string \<Rightarrow> exc + nft_run \<times> swap_verify \<times> bool" where
  "swap_attempts run listing payload =
     (case run 0 of
        Inl e \<Rightarrow> Inl e
      | Inr r0 \<Rightarrow>
          let v0 = (if nr_code r0 = 0 then verify_live_comments payload (listing 0) else swap_failed r0)
          in if nr_code r0 = 0 \<and> \<not> sv_ok v0
             then (case run 1 of
                     Inl e \<Rightarrow> Inl e
                   | Inr r1 \<Rightarrow> Inr (r1, if nr_code r1 = 0 then verify_live_comments payload (listing 1) else v0, True))
             else Inr (r0, v0, False))"

record dataplane_result =
  dr_ok :: bool
  dr_message :: string
  dr_details :: pydict
  dr_error_code :: "string option"
  dr_error_message :: "string option"

definition swap_verify_dict :: "swap_verify \<Rightarrow> pyval" where
  "swap_verify_dict v =
     PDict ([(''ok'', PBool (sv_ok v)), (''error_code'', opt_val (sv_code v)), (''error_message'', opt_val (sv_message v)),
             (''missing_comments'', texts_val (sv_missing v))]
            @ (case sv_raw v of Some raw \<Rightarrow> [(''raw_chain'', PStr raw)] | None \<Rightarrow> []))"

definition swap_details :: "swap_context \<Rightarrow> pydict \<Rightarrow> nat \<Rightarrow> nft_run \<times> swap_verify \<times> bool \<Rightarrow> pydict" where
  "swap_details context check_details rules_count x =
     (let (r, v, retried) = x
      in dict_update check_details
        [(''adapter'', PStr ''nft-owned-table''), (''operation'', PStr ''apply''),
         (''stage'', PStr (if nr_code r = 0 then ''verify'' else ''apply'')), (''hot_swap'', PBool True),
         (''hot_swap_kind'', PStr (if sc_kind context = [] then ''global_mode'' else sc_kind context)),
         (''hot_swap_scope'', PStr ''fwrouter_classify''), (''hot_swap_rules_count'', PInt (int rules_count)),
         (''hot_swap_verify'', swap_verify_dict v), (''hot_swap_retried'', PBool retried), (''candidate_path'', opt_val (sc_path context)),
         (''script'', PDict [(''returncode'', PInt (nr_code r)), (''stdout'', PStr (nr_stdout r)), (''stderr'', PStr (nr_stderr r))])])"

definition apply_global_mode_hot_swap ::
  "(nat \<Rightarrow> exc + nft_run) \<Rightarrow> (nat \<Rightarrow> nft_listing) \<Rightarrow> swap_context \<Rightarrow> pydict \<Rightarrow> exc + dataplane_result" where
  "apply_global_mode_hot_swap run listing context check_details =
     (let rules = filter (\<lambda>r. strip r \<noteq> []) (sc_rules context)
      in map_sum id
        (\<lambda>x. let (r, v, retried) = x; success = (nr_code r = 0 \<and> sv_ok v)
             in \<lparr>dr_ok = success,
                 dr_message = (if success then ''FWRouter global mode classify chain hot-swapped.''
                               else ''FWRouter global mode classify chain hot-swap failed.''),
                 dr_details = swap_details context check_details (length rules) x,
                 dr_error_code = (if success then None
                   else Some (case sv_code v of Some (c # cs) \<Rightarrow> c # cs | _ \<Rightarrow> ''NFT_GLOBAL_MODE_HOT_SWAP_FAILED'')),
                 dr_error_message = (if success then None
                   else Some (strip (first_text [case sv_message v of Some t \<Rightarrow> t | None \<Rightarrow> [], nr_stderr r, nr_stdout r,
                                                 ''nft hot-swap failed.''])))\<rparr>)
        (swap_attempts run listing (swap_payload rules)))"

end
