(* ===== verification/Hot_Swap_Properties.thy ===== *)
theory Hot_Swap_Properties
  imports Hot_Swap Nft_Policy
begin

text \<open>
  Properties of the hot swap: the rules it installs are those of the candidate, a success was verified, arriving packets
  get the fate of the new manifest as long as the live table can hand them over, and everything outside the
  classification stays as it was.
\<close>

section \<open>Reading the candidate\<close>

lemma splitlines_line: "list_all (\<lambda>c. \<not> line_break c) s \<Longrightarrow> splitlines_from cur (s @ CHR 0x0A # t) = (cur @ s) # splitlines_from [] t"
  by (induction s arbitrary: cur) (auto simp: line_break_def)

lemma splitlines_join: "list_all (list_all (\<lambda>c. \<not> line_break c)) ls \<Longrightarrow> splitlines_from [] (join [CHR 0x0A] (ls @ [[]])) = ls"
proof (induction ls)
  case (Cons l ls)
  have "join [CHR 0x0A] (l # ls @ [[]]) = l @ CHR 0x0A # join [CHR 0x0A] (ls @ [[]])" by (cases "ls @ [[]]") auto
  then show ?case using Cons splitlines_line [of l "[]" "join [CHR 0x0A] (ls @ [[]])"] by simp
qed simp

lemma classify_rules_skip:
  "list_all (\<lambda>l. strip l \<noteq> ''chain fwrouter_classify {'') ls \<Longrightarrow> classify_rules_of (ls @ rest) = classify_rules_of rest"
  by (induction ls) auto

lemma scan_balanced:
  assumes "list_all (\<lambda>l. brace_diff (strip l) = 0) ls" and "brace_diff (strip closing) = - 1"
  shows "scan_chain 1 (ls @ closing # rest) = filter (\<lambda>l. l \<noteq> []) (map strip ls)"
  using assms by (induction ls) (auto simp: Let_def)

text \<open>
  The lines of a table read well when none breaks, when only the classification opens with its header, and when its
  rules are not blank and have matching braces.
\<close>

definition reads_well :: "owned_table_candidate \<Rightarrow> bool" where
  "reads_well t =
     (list_all (list_all (\<lambda>c. \<not> line_break c)) (table_lines t)
      \<and> length (filter (\<lambda>l. strip l = ''chain fwrouter_classify {'') (table_lines t)) = 1
      \<and> list_all (\<lambda>c. ch_name c = ''fwrouter_classify'' \<longrightarrow> list_all (\<lambda>r. brace_diff (strip (rule_line r)) = 0 \<and> strip (rule_line r) \<noteq> []) (ch_rules c)) (oc_chains t))"

definition chain_block :: "nft_chain list \<Rightarrow> string list" where
  "chain_block cs = (case map chain_lines cs of [] \<Rightarrow> [] | c # cs \<Rightarrow> c @ concat (map (\<lambda>x. [] # x) cs))"

lemma chain_block_split:
  "\<exists>pre post. chain_block (xs @ c # ys) = pre @ chain_lines c @ post"
proof (cases xs)
  case Nil
  then show ?thesis by (auto simp: chain_block_def intro: exI [of _ "[]"])
next
  case (Cons x xs')
  have "chain_block (xs @ c # ys)
      = (chain_lines x @ concat (map (\<lambda>x. [] # x) (map chain_lines xs')) @ [[]]) @ chain_lines c @ concat (map (\<lambda>x. [] # x) (map chain_lines ys))"
    by (simp add: Cons chain_block_def)
  then show ?thesis by blast
qed

lemma unique_split:
  assumes "length (filter P (xs @ h # ys)) = 1" and "P h"
  shows "list_all (\<lambda>x. \<not> P x) xs"
  using assms by (auto simp: list_all_iff filter_empty_conv)

lemma classify_extracted:
  assumes "reads_well t" and "oc_chains t = xs @ c # ys" and "ch_name c = ''fwrouter_classify''" and "ch_hook c = None"
  shows "classify_rules_of (splitlines (table_text t)) = map (\<lambda>r. strip (rule_line r)) (ch_rules c)"
proof -
  let ?head = "''    chain fwrouter_classify {''" and ?rules = "map rule_line (ch_rules c)"
  have h: "strip ?head = ''chain fwrouter_classify {''" "brace_diff (strip ''    }'') = - 1" by code_simp+
  have c: "chain_lines c = [?head] @ ?rules @ [''    }'']" using assms(3,4) by (simp add: chain_lines_def)
  obtain pre post where "chain_block (oc_chains t) = pre @ chain_lines c @ post" using chain_block_split assms(2) by metis
  then have "table_lines t = ([''table '' @ owned_table @ '' {'', ''    comment '' @ quoted (oc_comment t), []] @ oc_preamble t @ pre)
      @ ?head # ?rules @ ''    }'' # (post @ ''}'' # (if oc_commands t = [] then [] else [] # oc_commands t)) @ [[]]"
    unfolding table_lines_def chain_block_def [symmetric] c by simp
  then obtain a b where l: "table_lines t = a @ ?head # ?rules @ ''    }'' # b @ [[]]" by blast
  have nb: "list_all (list_all (\<lambda>c. \<not> line_break c)) (a @ ?head # ?rules @ ''    }'' # b)"
    using assms(1) by (simp add: reads_well_def l)
  have "length (filter (\<lambda>l. strip l = ''chain fwrouter_classify {'') (table_lines t)) = 1" using assms(1) unfolding reads_well_def by blast
  then have pre: "list_all (\<lambda>l. strip l \<noteq> ''chain fwrouter_classify {'') a" unfolding l by (rule unique_split) (rule h(1))
  have bal: "list_all (\<lambda>l. brace_diff (strip l) = 0) ?rules" and full: "list_all (\<lambda>l. l \<noteq> []) (map strip ?rules)"
    using assms(1-3) by (simp_all add: reads_well_def list_all_iff)
  have "splitlines (table_text t) = a @ ?head # ?rules @ ''    }'' # b"
    using splitlines_join [OF nb] by (simp add: splitlines_def table_text_def l)
  then show ?thesis
    using classify_rules_skip [OF pre] scan_balanced [OF bal h(2)] h(1) full by (simp add: o_def list_all_iff)
qed

abbreviation classify_rules :: "table_args \<Rightarrow> nft_rule list" where
  "classify_rules a \<equiv> ch_rules (build_classify_chain (ta_mode a) (st_selective_default (ta_steering a)) (st_ready (ta_steering a))
     (st_degraded (ta_steering a)) (ta_scoped a))"

lemma extracted_rules:
  assumes "owned_table_candidate env loaded manifest = Inr t" and "\<not> bypass_enabled manifest" and "owned_table_args manifest = Inr a"
    and "reads_well t" and "files path = Some (table_text t)" and "path \<noteq> []"
  shows "extract_classify_rules files (Some path) = map (\<lambda>r. strip (rule_line r)) (classify_rules a)"
proof -
  let ?c = "build_classify_chain (ta_mode a) (st_selective_default (ta_steering a)) (st_ready (ta_steering a)) (st_degraded (ta_steering a)) (ta_scoped a)"
  have t: "oc_chains t = owned_chains env a" using candidate_cases(2) [OF assms(1,2)] assms(3) by auto
  have "find (\<lambda>c. ch_name c = ''fwrouter_classify'') (oc_chains t) = Some ?c" unfolding t find_chain_def [symmetric] by (rule find_owned)
  then obtain xs ys where "oc_chains t = xs @ ?c # ys" using find_split by metis
  moreover have "ch_hook ?c = None" by (simp add: build_classify_chain_def plain_chain_def)
  ultimately have "classify_rules_of (splitlines (table_text t)) = map (\<lambda>r. strip (rule_line r)) (ch_rules ?c)"
    using classify_extracted [OF assms(4), of xs ?c ys] by simp
  then show ?thesis using assms(5,6) by (simp add: extract_classify_rules_def)
qed

lemma swap_context_cases:
  assumes "global_mode_hot_swap_context input manifest check preflight files path = Some c
    \<or> subject_mode_hot_swap_context f manifest check preflight files path = Some c"
  shows "sc_rules c = extract_classify_rules files path" and "swap_allowed manifest check preflight"
  using assms by (auto simp: global_mode_hot_swap_context_def subject_mode_hot_swap_context_def Let_def split: if_splits option.splits)

text \<open>
  C9. A hot swap installs the rules of its candidate. When the file is the table rendered for the manifest, the
  commands of the swap flush the classification and add its rules, in their order and with nothing left out or
  added; and a swap is only chosen without bypass, with a complete live table and, if the manifest needs policy routing, with
  a verified path.
\<close>

theorem hot_swap_installs_candidate:
  assumes "render_owned_table_candidate env loaded manifest = Inr text'" and "owned_table_candidate env loaded manifest = Inr t"
    and "\<not> bypass_enabled manifest" and "owned_table_args manifest = Inr a" and "reads_well t" and "files path = Some text'" and "path \<noteq> []"
    and "global_mode_hot_swap_context input manifest check preflight files (Some path) = Some c
      \<or> subject_mode_hot_swap_context f manifest check preflight files (Some path) = Some c"
  shows "swap_commands (sc_rules c) = ''flush chain inet fwrouter_v2 fwrouter_classify''
      # map (\<lambda>r. ''add rule inet fwrouter_v2 fwrouter_classify '' @ strip (rule_line r)) (classify_rules a)
    \<and> truthy (get_in check ''table_exists'') \<and> list_all (truthy \<circ> snd) (items (get_in check ''required_chains''))
    \<and> (truthy (get_in (get_in manifest ''summary'') ''requires_vpn_policy_routing'') \<longrightarrow> truthy (get_in check ''vpn_external_path_verified''))"
proof -
  have "text' = table_text t" using assms(1,2) by (simp add: render_owned_table_candidate_def)
  then have f: "files path = Some (table_text t)" using assms(6) by simp
  note x = swap_context_cases [OF assms(8)]
  have "sc_rules c = map (\<lambda>r. strip (rule_line r)) (classify_rules a)" using x(1) extracted_rules [where files = files and path = path, OF assms(2-5) f assms(7)] by simp
  then show ?thesis using x(2) by (auto simp: swap_commands_def swap_allowed_def list_all_iff Let_def)
qed

section \<open>Success\<close>

lemma verified_live: "sv_ok (verify_live_comments payload l) \<longleftrightarrow> (\<exists>raw. l = Nft_Text raw \<and> list_all (\<lambda>x. occurs_in x raw) (find_comments payload))"
  by (cases l) (auto simp: verify_live_comments_def Let_def filter_empty_conv list_all_iff)


section \<open>The live table after a swap\<close>

text \<open>What the payload does to the live table: the classification is flushed and gets the given rules.\<close>

definition hot_swapped :: "nft_chain list \<Rightarrow> nft_rule list \<Rightarrow> nft_chain list" where
  "hot_swapped cs rules = map (\<lambda>c. if ch_name c = ''fwrouter_classify'' then c\<lparr>ch_rules := rules\<rparr> else c) cs"

lemma find_swapped:
  "find_chain (hot_swapped cs rules) n =
     map_option (\<lambda>c. if n = ''fwrouter_classify'' then c\<lparr>ch_rules := rules\<rparr> else c) (find_chain cs n)"
  by (induction cs) (auto simp: find_chain_def hot_swapped_def)

text \<open>Rules that call no chain do the same whatever the chains are.\<close>

definition calls_nothing :: "nft_rule \<Rightarrow> bool" where
  "calls_nothing r = list_all (\<lambda>x. case x of NGoto c \<Rightarrow> False | NJump c \<Rightarrow> False | _ \<Rightarrow> True) (actions r)"

lemma run_actions_callless:
  "list_all (\<lambda>x. case x of NGoto c \<Rightarrow> False | NJump c \<Rightarrow> False | _ \<Rightarrow> True) as \<Longrightarrow> run_actions call as p = run_actions call' as p"
proof (induction as arbitrary: p)
  case (Cons x as)
  then show ?case by (cases x) (auto split: option.split)
qed simp

lemma run_rules_callless: "list_all calls_nothing rs \<Longrightarrow> run_rules call ev rs p = run_rules call' ev rs p"
proof (induction rs arbitrary: p)
  case (Cons r rs)
  then have "run_actions call (actions r) p = run_actions call' (actions r) p" for p
    by (intro run_actions_callless) (simp add: calls_nothing_def)
  then show ?case using Cons by (auto split: option.split sum.split)
qed simp

lemma swapped_terminal: "n \<noteq> ''fwrouter_classify'' \<Longrightarrow> run_chain 1 (hot_swapped cs rules) ev n p = run_chain 1 cs ev n p"
proof -
  assume n: "n \<noteq> ''fwrouter_classify''"
  have "run_chain 0 (hot_swapped cs rules) ev = run_chain 0 cs ev" by (intro ext) simp
  then show ?thesis using n by (simp add: find_swapped split: option.split)
qed

lemma swapped_hook:
  assumes "find_chain cs n = Some c" and "list_all calls_nothing (ch_rules c)" and "n \<noteq> ''fwrouter_classify''"
  shows "run_hook (hot_swapped cs rules) ev n p = run_hook cs ev n p"
  using assms run_rules_callless [OF assms(2)] by (simp add: run_hook_def find_swapped numeral_3_eq_3)

lemma nat_callless: "list_all calls_nothing (ch_rules (build_prerouting_nat_chain f r m fr pol))"
  by (simp add: build_prerouting_nat_chain_def redirect_rule_def calls_nothing_def)

lemma tproxy_callless: "list_all calls_nothing (tproxy_rules pa)"
  by (simp add: tproxy_rules_def calls_nothing_def Let_def)

section \<open>Arriving packets after a swap\<close>

lemma swapped_prerouting:
  "run_hook (hot_swapped (owned_chains env a) rules) ev ''prerouting'' p =
     run_rules (run_chain 2 (hot_swapped (owned_chains env a) rules) ev) ev
       (entry_guards env a @ [NRule [] [NJump ''fwrouter_classify''] (Some ''FWRouter global classify'')]
        @ tproxy_rules (prerouting_args_of env a)) p"
  by (simp add: run_hook_def numeral_3_eq_3 numeral_2_eq_2 find_swapped find_owned build_prerouting_entry_chain_def entry_guards_def Let_def
      del: run_chain.simps) (simp add: find_swapped find_owned build_prerouting_entry_chain_def)

lemma swapped_classify:
  "run_chain 2 (hot_swapped (owned_chains env a) rules) ev ''fwrouter_classify'' p
     = run_rules (run_chain 1 (hot_swapped (owned_chains env a) rules) ev) ev rules p"
  by (simp add: numeral_2_eq_2 find_swapped find_owned del: One_nat_def) simp

lemma swapped_reaches_classify:
  assumes "\<forall>r\<in>set (entry_guards env a). \<not> rule_matches ev p r"
    and "run_rules (run_chain 1 (hot_swapped (owned_chains env a) rules) ev) ev rules p = Some (v, q)"
  shows "run_hook (hot_swapped (owned_chains env a) rules) ev ''prerouting'' p =
    (if v = Fall then run_rules call ev (tproxy_rules (prerouting_args_of env a)) q else Some (v, q))"
  unfolding swapped_prerouting using assms(2) run_rules_callless [OF tproxy_callless]
  by (cases v) (simp_all add: skip_unmatched [OF assms(1)] swapped_classify del: run_chain.simps)

text \<open>The classification of a manifest, given the chains it calls.\<close>

lemma classify_rules_refine:
  assumes "owned_table_args manifest = Inr a" and "\<forall>r\<in>set immune_rules. \<not> rule_matches ev p r" and "call ''fwrouter_direct'' p = Some (Fall, p)"
  shows "run_rules call ev (classify_rules a) p = fate_call call p (policy_fate manifest ev)"
proof -
  obtain rules cs where r: "map_err (subject_steering (ta_steering a)) (active_subjects manifest) = Inr rules"
    "ta_scoped a = concat (map fst rules)" using args_rules [OF assms(1)] by metis
  note f = args_facts [OF assms(1)]
  have "run_rules call ev (classify_rules a) p
      = run_rules call ev (ta_scoped a @ mode_rules (ta_mode a) (st_selective_default (ta_steering a)) (st_ready (ta_steering a)) (st_degraded (ta_steering a))) p"
    by (simp add: build_classify_chain_def plain_chain_def skip_unmatched [OF assms(2)])
  then show ?thesis
    unfolding r(2) run_subjects [where call = call and p = p, OF r(1) assms(3)] run_mode_rules [where call = call and p = p, OF assms(3)]
    using f(3,4) by (auto simp: policy_fate_def Let_def split: option.splits)
qed

lemma swapped_fate_call:
  "fate_call (run_chain 1 (hot_swapped cs rules) ev) p f = fate_call (run_chain 1 cs ev) p f"
  using swapped_terminal [of "''fwrouter_vpn_full''"] swapped_terminal [of "''fwrouter_vpn''"]
  by (cases f) (simp_all add: fate_call_def del: One_nat_def run_chain.simps)

lemma swapped_nat: "run_hook (hot_swapped (owned_chains env a) rules) ev ''prerouting_nat'' p = run_hook (owned_chains env a) ev ''prerouting_nat'' p"
  by (rule swapped_hook [OF find_owned(2) nat_callless]) simp

text \<open>A packet that the new classification marks for a capture reaches the proxy, where the live table hands over.\<close>

lemma swapped_capture:
  assumes "well_built a" and "vp = ta_params a" and "mark_value (vp_fwmark vp) = Some m"
    and "mark_value (derive_tcp_redirect_mark_hex (vp_fwmark vp)) = Some (m + 1)" and "mark_value (vp_full_udp_mark vp) = Some (m + 2)"
    and "mark_value (vp_full_tcp_mark vp) = Some (m + 3)" and "\<forall>r\<in>set (entry_guards env a). \<not> rule_matches ev p r" and "one_transport ev"
    and "capture_ports vp full" and "ta_mode a \<in> {''vpn'', ''selective''} \<or> cr_vpn (ta_counters a) \<noteq> []"
    and "run_rules (run_chain 1 (hot_swapped (owned_chains env a) rules) ev) ev rules p
      = Some (if is_quic ev then (Rejected, p) else (Fall, p\<lparr>pk_mark := capture_mark m full (ev ''meta l4proto'' ''tcp'')\<rparr>))"
  shows "run_ingress (hot_swapped (owned_chains env a) rules) ev p = Some (fate_outcome vp m ev p (Capture full))"
proof (cases "is_quic ev")
  case True
  then show ?thesis using swapped_reaches_classify [OF assms(7), of rules Rejected p] assms(11)
    by (simp add: run_ingress_def lets_pass_def fate_outcome_def del: run_chain.simps)
next
  case False
  let ?q = "p\<lparr>pk_mark := capture_mark m full (ev ''meta l4proto'' ''tcp'')\<rparr>"
  have pre: "run_hook (hot_swapped (owned_chains env a) rules) ev ''prerouting'' p
      = run_rules (\<lambda>_ _. None) ev (tproxy_rules (prerouting_args_of env a)) ?q"
    using swapped_reaches_classify [OF assms(7), of rules Fall ?q] assms(11) False by (simp del: run_chain.simps)
  show ?thesis
  proof (cases "ev ''meta l4proto'' ''tcp''")
    case True
    then have "\<not> ev ''meta l4proto'' ''udp''" using assms(8) by (simp add: one_transport_def)
    then show ?thesis
      using pre True False tproxy_not_udp nat_captures [OF assms(1), of full m ?q ev env] assms(2-6,9)
      by (simp add: run_ingress_def swapped_nat lets_pass_def fate_outcome_def capture_mark_def)
  next
    case n: False
    then have "ev ''meta l4proto'' ''udp''" using assms(8) by (simp add: one_transport_def)
    then show ?thesis
      using pre n False tproxy_captures [OF assms(10), of full m ?q ev "\<lambda>_ _. None" env] nat_not_tcp [of ev env a] assms(2-6,9)
      by (simp add: run_ingress_def swapped_nat lets_pass_def fate_outcome_def capture_mark_def)
  qed
qed

text \<open>
  C8. A hot swap takes effect for arriving packets. When the classification of a live table gets the rules of a new
  candidate and both manifests have the same steering contract, every packet that no guard of the live table and no
  immunity exempts has the fate of the new manifest, provided that the live table has the rules that hand packets to the
  proxy wherever the new manifest captures.
\<close>

theorem hot_swap_takes_effect:
  assumes "owned_table_candidate env loaded live = Inr t" and "\<not> bypass_enabled live" and "owned_table_args live = Inr a"
    and "owned_table_args manifest = Inr a'" and "vpn_params_of (contour_of manifest) = vpn_params_of (contour_of live)"
    and "vp = vpn_params_of (contour_of live)" and "mark_value (vp_fwmark vp) = Some m" and "0 \<le> m" and "fresh_mark vp (pk_mark p)"
    and "\<forall>r\<in>set (entry_guards env a @ immune_rules). \<not> rule_matches ev p r" and "one_transport ev"
    and "\<forall>full. policy_fate manifest ev = Capture full \<longrightarrow>
           capture_ports vp full \<and> (mode_of live \<in> {''vpn'', ''selective''} \<or> cr_vpn (ta_counters a) \<noteq> [])"
  shows "run_ingress (hot_swapped (oc_chains t) (classify_rules a')) ev p = Some (fate_outcome vp m ev p (policy_fate manifest ev))"
proof -
  let ?rules = "classify_rules a'" and ?call = "run_chain 1 (owned_chains env a) ev"
  have t: "oc_chains t = owned_chains env a" using candidate_cases(2) [OF assms(1,2)] assms(3) by auto
  note f = args_facts [OF assms(3)]
  have vp: "ta_params a = vp" using f(2) assms(6) by simp
  have guards: "\<forall>r\<in>set (entry_guards env a). \<not> rule_matches ev p r" and immune: "\<forall>r\<in>set immune_rules. \<not> rule_matches ev p r"
    using assms(10) by auto
  have b: "mark_value (vp_bypass_mark vp) \<noteq> Some (pk_mark p)"
    using guards vp by (auto simp: entry_guards_def prerouting_immunity_def prerouting_args_of_def Let_def)
  have d: "run_chain 1 (hot_swapped (owned_chains env a) ?rules) ev ''fwrouter_direct'' p = Some (Fall, p)"
    using swapped_terminal [of "''fwrouter_direct''"] run_direct [OF f(1), of 0] by simp
  have c: "run_rules (run_chain 1 (hot_swapped (owned_chains env a) ?rules) ev) ev ?rules p = fate_call ?call p (policy_fate manifest ev)"
    unfolding classify_rules_refine [where call = "run_chain 1 (hot_swapped (owned_chains env a) ?rules) ev" and p = p, OF assms(4) immune d]
    by (rule swapped_fate_call)
  show ?thesis
  proof (cases "policy_fate manifest ev")
    case Leave
    then show ?thesis
      using swapped_reaches_classify [OF guards, of ?rules Fall p "\<lambda>_ _. None"] c t tproxy_fresh [of a p] nat_fresh [OF f(1), of p env ev] assms(9) vp
      by (simp add: run_ingress_def swapped_nat lets_pass_def fate_outcome_def del: run_chain.simps)
  next
    case (Refuse v)
    then have v: "v = Dropped \<or> v = Rejected"
      by (auto simp: policy_fate_def global_fate_def subject_fate_def fate_defs Let_def split: option.splits if_splits)
    then show ?thesis
      using swapped_reaches_classify [OF guards, of ?rules v p] c t Refuse
      by (auto simp: run_ingress_def lets_pass_def fate_outcome_def simp del: run_chain.simps)
  next
    case (Capture full)
    have ports: "capture_ports vp full" and hand: "ta_mode a \<in> {''vpn'', ''selective''} \<or> cr_vpn (ta_counters a) \<noteq> []"
      using assms(12) Capture f(3) by auto
    note mk = vpn_marks [of "contour_of live", folded assms(6), OF assms(7,8)]
    have "run_rules (run_chain 1 (hot_swapped (owned_chains env a) ?rules) ev) ev ?rules p
        = Some (if is_quic ev then (Rejected, p) else (Fall, p\<lparr>pk_mark := capture_mark m full (ev ''meta l4proto'' ''tcp'')\<rparr>))"
      unfolding c Capture using run_capture_chain [OF assms(3,6,7,8) ports b assms(11), of env] by (cases full) simp_all
    then show ?thesis
      using swapped_capture [OF f(1) vp [symmetric] assms(7) mk(1-3) guards assms(11) ports hand] t Capture by simp
  qed
qed

section \<open>What a swap leaves\<close>

text \<open>
  A hot swap does not let a subject back in. A subject that the live table cuts off stays cut off, whatever rules
  the classification gets: the guard is in the chain for forwarded packets, which a swap leaves as it is.
\<close>

theorem swapped_subject_stays_cut_off:
  assumes "owned_table_candidate env loaded live = Inr t" and "\<not> bypass_enabled live"
    and "s \<in> set (active_subjects live)" and "is_disabled_subject s" and "subject_text s ''subject_type'' \<noteq> ''fwrouter''"
    and "runtime_matcher s = Some (expr, val)" and "expr \<noteq> []" and "val \<noteq> []"
    and "ev expr val \<or> (\<exists>e. reverse_ip_expr expr = Some e \<and> ev e val)"
  shows "run_hook (hot_swapped (oc_chains t) rules) ev ''forward'' p = Some (Rejected, p)"
  using disabled_forward_rejected [where ev = ev and call = "run_chain 2 (hot_swapped (oc_chains t) rules) ev", OF assms]
  by (auto simp: run_hook_def numeral_3_eq_3 numeral_2_eq_2 find_swapped)

end
