(* ===== verification/Hot_Swap_Examples.thy ===== *)
theory Hot_Swap_Examples
  imports Hot_Swap_Properties Nft_Examples
begin

text \<open>The theorems on the hot swap at concrete tables.\<close>

lemma direct_candidate:
  "owned_table_candidate small_env PNone (sample_manifest ''direct'' clients) = Inr (sample_table (sample_manifest ''direct'' clients))"
  "owned_table_args (sample_manifest ''direct'' clients) = Inr (sample_args (sample_manifest ''direct'' clients))"
  "\<not> bypass_enabled (sample_manifest ''direct'' clients)"
proof -
  let ?m = "sample_manifest ''direct'' clients"
  show b: "\<not> bypass_enabled ?m" by code_simp
  have c: "conflict_of ?m = None" "is_dict (get_in ?m ''summary'')" "is_dict (get_in ?m ''global_preflight'')"
    "\<not> isl (owned_table_args ?m)" by code_simp+
  show "owned_table_candidate small_env PNone ?m = Inr (sample_table ?m)" "owned_table_args ?m = Inr (sample_args ?m)"
    by (rule sample_candidate [OF b c])+
qed

theorem hot_swap_takes_effect_witness:
  "run_ingress (hot_swapped (oc_chains (sample_table (sample_manifest ''vpn'' clients))) (classify_rules (sample_args (sample_manifest ''direct'' clients))))
     (holding [(''ip saddr'', ''10.0.0.9''), (''meta l4proto'', ''tcp'')]) new_packet = Some (Fall, new_packet)"
proof -
  let ?l = "sample_manifest ''vpn'' clients" and ?m = "sample_manifest ''direct'' clients" and ?ev = "holding [(''ip saddr'', ''10.0.0.9''), (''meta l4proto'', ''tcp'')]"
  have v: "vpn_params_of (contour_of ?m) = vpn_params_of (contour_of ?l)" "mark_value (vp_fwmark (vpn_params_of (contour_of ?l))) = Some 256"
    "fresh_mark (vpn_params_of (contour_of ?l)) (pk_mark new_packet)" "one_transport ?ev" "policy_fate ?m ?ev = Leave" by code_simp+
  have "list_all (\<lambda>r. \<not> rule_matches ?ev new_packet r) (entry_guards small_env (sample_args ?l) @ immune_rules)" by code_simp
  then have g: "\<forall>r\<in>set (entry_guards small_env (sample_args ?l) @ immune_rules). \<not> rule_matches ?ev new_packet r" by (simp only: list_all_iff)
  have z: "(0::int) \<le> 256" by simp
  have "run_ingress (hot_swapped (oc_chains (sample_table ?l)) (classify_rules (sample_args ?m))) ?ev new_packet
      = Some (fate_outcome (vpn_params_of (contour_of ?l)) 256 ?ev new_packet (policy_fate ?m ?ev))"
    by (rule hot_swap_takes_effect [OF clients_candidate(1,3,2) direct_candidate(2) v(1) refl v(2) z v(3) g v(4)]) (simp add: v(5))
  then show ?thesis by (simp add: v(5) fate_outcome_def)
qed

definition sample_check :: pyval where
  "sample_check = PDict [(''table_exists'', PBool True), (''required_chains'', PDict [(''fwrouter_classify'', PBool True)])]"

definition sample_swap_preflight :: pyval where
  "sample_swap_preflight = PDict [(''can_enforce_global_direct'', PBool True)]"

abbreviation plain_manifest :: pyval where
  "plain_manifest \<equiv> sample_manifest ''direct'' []"

lemma plain_candidate:
  "owned_table_candidate small_env PNone plain_manifest = Inr (sample_table plain_manifest)"
  "owned_table_args plain_manifest = Inr (sample_args plain_manifest)" "\<not> bypass_enabled plain_manifest"
proof -
  show b: "\<not> bypass_enabled plain_manifest" by code_simp
  have c: "conflict_of plain_manifest = None" "is_dict (get_in plain_manifest ''summary'')" "is_dict (get_in plain_manifest ''global_preflight'')"
    "\<not> isl (owned_table_args plain_manifest)" by code_simp+
  show "owned_table_candidate small_env PNone plain_manifest = Inr (sample_table plain_manifest)"
    "owned_table_args plain_manifest = Inr (sample_args plain_manifest)"
    by (rule sample_candidate [OF b c])+
qed

lemma plain_unbroken: "list_all (list_all (\<lambda>c. \<not> line_break c)) (table_lines (sample_table plain_manifest))"
  by code_simp

lemma plain_header: "length (filter (\<lambda>l. strip l = ''chain fwrouter_classify {'') (table_lines (sample_table plain_manifest))) = 1"
  by code_simp

lemma plain_rules:
  "list_all (\<lambda>c. ch_name c = ''fwrouter_classify'' \<longrightarrow>
     list_all (\<lambda>r. brace_diff (strip (rule_line r)) = 0 \<and> strip (rule_line r) \<noteq> []) (ch_rules c)) (oc_chains (sample_table plain_manifest))"
  by code_simp

lemma plain_reads_well: "reads_well (sample_table plain_manifest)"
  unfolding reads_well_def using plain_unbroken plain_header plain_rules by blast

theorem hot_swap_installs_candidate_witness:
  "\<exists>c. global_mode_hot_swap_context (PDict [(''intent'', PStr ''set_global_mode'')]) plain_manifest sample_check sample_swap_preflight
       (\<lambda>_. Some (table_text (sample_table plain_manifest))) (Some ''candidate.nft'') = Some c
     \<and> hd (swap_commands (sc_rules c)) = ''flush chain inet fwrouter_v2 fwrouter_classify''"
proof -
  let ?m = plain_manifest and ?files = "\<lambda>_. Some (table_text (sample_table plain_manifest))"
  let ?path = "''candidate.nft''" and ?in = "PDict [(''intent'', PStr ''set_global_mode'')]"
  have f: "?files ?path = Some (table_text (sample_table ?m))" "?path \<noteq> []" by simp_all
  have "extract_classify_rules ?files (Some ?path) = map (\<lambda>r. strip (rule_line r)) (classify_rules (sample_args ?m))"
    by (rule extracted_rules [where files = ?files and path = ?path, OF plain_candidate(1,3,2) plain_reads_well f])
  moreover have "classify_rules (sample_args ?m) \<noteq> []" by (simp add: build_classify_chain_def plain_chain_def immune_rules_def)
  moreover have a: "swap_allowed ?m sample_check sample_swap_preflight" "clean (get_in ?in ''intent'') = ''set_global_mode''" by code_simp+
  ultimately obtain c where c: "global_mode_hot_swap_context ?in ?m sample_check sample_swap_preflight ?files (Some ?path) = Some c"
    by (auto simp: global_mode_hot_swap_context_def Let_def)
  have r: "render_owned_table_candidate small_env PNone ?m = Inr (table_text (sample_table ?m))"
    using plain_candidate(1) by (simp add: render_owned_table_candidate_def)
  show ?thesis
    using hot_swap_installs_candidate [where files = ?files and path = ?path and f = None, OF r plain_candidate(1,3,2) plain_reads_well f disjI1 [OF c]] c
    by (metis list.sel(1))
qed

definition sample_swap :: swap_context where
  "sample_swap =
     \<lparr>sc_kind = ''global_mode'', sc_target_mode = ''direct'', sc_rules = [''goto fwrouter_direct comment '' @ quoted ''global direct v1''],
      sc_path = None, sc_fast = None\<rparr>"


text \<open>
  A subject that was disabled and is set to direct while the global mode is direct: the hot swap is chosen for it, the
  candidate no longer blocks the subject, and still its forwarded packets are rejected after the swap.
\<close>

abbreviation reenabled :: pyval where
  "reenabled \<equiv> sample_manifest ''direct'' [sample_client ''lan'' ''lan:2'' ''direct'' ''10.0.0.6'']"

definition reenabling_input :: pyval where
  "reenabling_input =
     PDict [(''fast_subject_apply'', PDict [(''enabled'', PBool True), (''subject_id'', PStr ''lan:2''), (''subject_type'', PStr ''lan''),
                                           (''target_mode'', PStr ''direct'')])]"

theorem reenabled_subject_example:
  "fast_subject_apply_context reenabling_input reenabled \<noteq> None \<and> swap_allowed reenabled sample_check sample_swap_preflight
    \<and> \<not> list_ex is_disabled_subject (active_subjects reenabled)
    \<and> run_hook (hot_swapped (oc_chains (sample_table (sample_manifest ''vpn'' clients))) rules) (holding [(''ip saddr'', ''10.0.0.6'')]) ''forward''
        new_packet = Some (Rejected, new_packet)"
proof -
  let ?s = "sample_client ''lan'' ''lan:2'' ''blocked'' ''10.0.0.6''" and ?ev = "holding [(''ip saddr'', ''10.0.0.6'')]"
  have a: "active_subjects (sample_manifest ''vpn'' clients) = clients" by code_simp
  have s: "?s \<in> set (active_subjects (sample_manifest ''vpn'' clients))" unfolding a by simp
  have f: "is_disabled_subject ?s" "subject_text ?s ''subject_type'' \<noteq> ''fwrouter''" "runtime_matcher ?s = Some (''ip saddr'', ''10.0.0.6'')"
    "?ev ''ip saddr'' ''10.0.0.6''" by code_simp+
  have c: "fast_subject_apply_context reenabling_input reenabled \<noteq> None" "swap_allowed reenabled sample_check sample_swap_preflight"
    "\<not> list_ex is_disabled_subject (active_subjects reenabled)" by code_simp+
  have "run_hook (hot_swapped (oc_chains (sample_table (sample_manifest ''vpn'' clients))) rules) ?ev ''forward'' new_packet = Some (Rejected, new_packet)"
    by (rule swapped_subject_stays_cut_off [where ev = ?ev, OF clients_candidate(1,3) s f(1-3)]) (use f(4) in auto)
  then show ?thesis using c by blast
qed

end
