(* ===== verification/Spec2Isabelle.thy ===== *)
theory Spec2Isabelle
  imports Watchdog_Recovery Job_Manager Traffic_Properties Retention_Properties Rules_Roundtrip Subject_Readiness Manifest_Examples Hot_Swap_Examples
begin

text \<open>
  \<^bold>\<open>FWRouter: the control plane of a policy router.\<close> FWRouter decides which traffic of a home or office
  network leaves directly and which goes through a VPN proxy. Its backend (\<open>backend/fwrouter_api\<close>) keeps its state
  in SQLite, compiles rules, keeps a policy for every subject (device, container, service), renders one
  nftables table from all of it, runs its work as jobs, accounts traffic, and has a watchdog that changes the server
  when the VPN fails. All paths below are under that directory.

  \<^bold>\<open>Parts and theories.\<close>

  \<^item> \<open>Py_Prelude\<close>, \<open>Py_Datetime\<close>, \<open>Ip_Networks\<close>: what the services use of Python: values with their truth
    and conversions, strings, dictionaries, JSON-like data, instants with \<open>isoformat\<close> and \<open>fromisoformat\<close>,
    the module \<open>ipaddress\<close>. \<open>Ip_Properties\<close> relates networks to sets of addresses and texts to networks.
    Texts are lists of characters in the ASCII range where the source lowers or strips them.

  \<^item> \<open>Contracts\<close>: the interfaces as locales: a compare-and-set cell, a step system with an invariant, a
    table of exclusive locks. They are interpreted in \<open>Watchdog_State\<close>, \<open>Watchdog_Recovery\<close> and \<open>Job_Table\<close> on the
    operations of the code.

  \<^item> \<open>Watchdog_State\<close>: \<open>services/watchdog_runtime_state.py\<close>. The one row of \<open>watchdog_state\<close>, its load and its
    conditional update. Other connections act between the read and the write: a world argument says
    what they commit and which statements fail. Shown: a conditional update never overwrites a foreign
    commit, and the winners of conditional writes form one chain.

  \<^item> \<open>Watchdog_Failure\<close>, \<open>Watchdog_Confirmation\<close>, \<open>Watchdog_Recovery\<close>: \<open>services/watchdog_failure_state.py\<close>.
    The failure candidate, the rolling window of checks, confirmation by stalled traffic, degraded checks and idle
    probes, the pending recovery incident, the cooldown. Shown: what a confirmation implies, that a lasting
    degradation is confirmed after exactly one window, that the incident survives all confirmation operations.

  \<^item> \<open>Jobs\<close>, \<open>Job_Table\<close>, \<open>Job_Properties\<close>: \<open>jobs/base.py\<close>, \<open>services/jobs.py\<close>. The job table and the operational
    log with its snapshots. Shown by induction over sequences of operations: the locks of active jobs are disjoint, an
    outcome never changes and always has its snapshot; further the exact effect of stale cleanup, of conflicts and
    of a failing snapshot writer.

  \<^item> \<open>Job_Manager\<close>: \<open>jobs/manager.py\<close>. Handlers, workers, the run of a job with its handler as an argument. The
    polling loops get a fuel; \<open>20 n + 1\<close> polls are enough for a timeout of \<open>n\<close> seconds since the loop sleeps a
    twentieth of a second, and the theorem shows that with this fuel the loop returns.

  \<^item> \<open>Job_Retention\<close>, \<open>Retention_Properties\<close>: \<open>services/jobs_retention.py\<close>. Which finished jobs are too old or too many and
    the transaction that deletes them. Shown: only due jobs with a recorded outcome go, every due job goes
    or is reported, and outcomes survive.

  \<^item> \<open>Traffic\<close>, \<open>Traffic_Properties\<close>: \<open>services/traffic.py\<close>. Samples of counters, their attribution, deltas, monthly
    totals. Shown: the totals grow by exactly what is reported, each delta is taken against the last reading,
    attribution is unambiguous, twelve months are kept.

  \<^item> \<open>Network_Contract\<close>, \<open>Network_Properties\<close>: \<open>services/network_contract.py\<close>, \<open>core/network_defaults.py\<close>. Protected and
    trusted networks, LAN interfaces.

  \<^item> \<open>Rules_Compile\<close>, \<open>Rules_Meaning\<close>, \<open>Rules_Properties\<close>, \<open>Rules_Roundtrip\<close>: \<open>services/rules_compile.py\<close>. Rules from texts
    to the effective list. \<open>Rules_Meaning\<close> is the specification: the addresses and domains that a rule
    matches. Shown: no VPN rule reaches a protected network, minimising lists changes no match, the first source
    wins, normal texts are read back.

  \<^item> \<open>Subject_Taxonomy\<close>, \<open>Scoped_Egress\<close>, \<open>Subject_Policy\<close>, \<open>Subject_Properties\<close>, \<open>Subject_Readiness\<close>:
    \<open>services/subject_taxonomy.py\<close>, \<open>subject_server_override_codec.py\<close>, \<open>scoped_egress.py\<close>, \<open>subject_policy.py\<close>. The
    mode in force for a subject, its target, the state of its own path, overrides. Shown: an emergency keeps
    everything off the VPN, the exact conditions of an applied path and of readiness, that overrides take effect,
    expire without changing a decision and are stored faithfully, that lists agree with single views.

  \<^item> \<open>Docker_Policy\<close>, \<open>Nft_Rules\<close>, \<open>Nft_Chains\<close>, \<open>Nft_Sets\<close>, \<open>Nft_Render\<close>: \<open>services/docker_policy.py\<close>,
    \<open>dataplane_nft_constants.py\<close>, \<open>dataplane_nft_chains.py\<close>, \<open>dataplane_nft_sets.py\<close>, \<open>dataplane_nft_render.py\<close>, and of
    \<open>dataplane_global.py\<close> the sorting of rules into sets. The source builds lines of text; the model builds the same
    rules as data, \<open>rule_line\<close> gives each its text, and \<open>render_owned_table_candidate\<close> is the text of the whole table
    or the error the code raises. \<open>Nft_Rules\<close> also says what rules do to a packet: rules are tried in
    order, \<open>goto\<close> leaves the chain, a verdict ends it. \<open>run_hook\<close> follows at most three chains; that is enough since
    an entry chain goes to the classification and that to a terminal chain, which goes nowhere.

  \<^item> \<open>Nft_Flow\<close>, \<open>Nft_Properties\<close>, \<open>Nft_Capture\<close>, \<open>Nft_Set_Properties\<close>, \<open>Nft_Examples\<close>: theorems on packets for every
    manifest that the renderer accepts. VPN traffic is handed to the proxy or refused; protected destinations and the
    proxy's own packets are left alone; degraded selective routing drops; disabled subjects are cut off; the listeners are
    closed to the public; the sets hold the addresses of the effective rules, so that the theorem on the compiler
    carries over to the table.

  \<^item> \<open>Nft_Policy\<close>: the specification of the table. \<open>policy_fate\<close> says in a few lines what is to happen to a packet: the
    first active subject that owns it decides, else the global mode. The rendered table refines it for every manifest
    that the renderer accepts.

  \<^item> \<open>Global_Preflight\<close>, \<open>Preflight_Properties\<close>: \<open>services/dataplane_global.py\<close> but for the sets. What is missing for each
    mode, the steering contract with its marks and ports, the reported enforcement, the validation of a
    requested mode. Shown: the exact conditions of the reported enforcement and readiness.

  \<^item> \<open>Routing_Manifest\<close>, \<open>Manifest_Bounds\<close>, \<open>Manifest_Flow\<close>, \<open>Manifest_Properties\<close>, \<open>Manifest_Examples\<close>:
    \<open>services/routing_manifest.py\<close>, with the emergency override of \<open>services/provider_recovery.py\<close>. The manifest is built
    from the routing state, the preflight, the planned subjects and extra data. This joins the parts: policy, container
    guard, preflight, manifest and renderer. Shown: the effective states of the subjects decide the fate of
    packets, an emergency captures nothing, nothing is captured unless the manifest asks for policy routing, and what is
    taken over from the details of subjects is bounded.

  \<^item> \<open>Hot_Swap\<close>, \<open>Hot_Swap_Properties\<close>, \<open>Hot_Swap_Examples\<close>: \<open>services/apply_hot_swap.py\<close>. A change of mode can be applied by
    replacing one chain of the live table. Shown: the commands install the rules of the rendered candidate, a
    success was verified, packets get the fate of the new manifest where the live table can hand them over, and
    the guards of the other chains stay, also where the new manifest no longer has them.

  \<^bold>\<open>Conventions.\<close> A database row is a record, a table a list of rows. An operation takes the state and returns it with
  its answer; exceptions are values. What lies outside the modelled files is an argument: clock, settings, uuid5, the
  writer of logs, files, subprocesses, the probes. Loops of the source are structural recursion except where fuel is
  named above.

  \<^bold>\<open>Not modelled.\<close> The orchestration of applies and of the watchdog flows, the selection of servers, subscriptions and
  providers, the xray and mihomo adapters, discovery of subjects, the logs, the database schema, transfer, read models for
  display, routes, command line, host programs, installer and web interface: mostly processes, files and network
  access around the decisions above. The records of subjects, the health of the proxy and the live state of the
  table are arguments of the modelled part, so the theorems hold for whatever these services provide.
\<close>

end
